(* ===== verification/Prelude.thy ===== *)
theory Prelude
  imports Main "HOL-Library.AList" "HOL-Library.Sublist"
begin

text \<open>
  Shared vocabulary of the development: the types that stand for Go's byte slices, errors and
  results, 64-bit \<^verbatim>\<open>int\<close> arithmetic, Go maps as association lists, and the list and map lemmas
  that several components use.

  \<^item> A Go \<^verbatim>\<open>string\<close> or \<^verbatim>\<open>[]byte\<close> is a list of bytes, and a HOL \<open>char\<close> is one byte, so both are
    \<open>string\<close>. Where the code tests a slice for \<^verbatim>\<open>nil\<close>, the slice is \<open>string option\<close> with
    \<open>None\<close> for \<^verbatim>\<open>nil\<close>.
  \<^item> A Go \<^verbatim>\<open>error\<close> is a \<open>go_error\<close>: a package-level sentinel value or a formatted message that may
    wrap another error (the \<^verbatim>\<open>%w\<close> verb).
  \<^item> A Go \<^verbatim>\<open>map\<close> is an association list with distinct keys, updated in place.
\<close>

named_theorems codec_simps \<open>equations that evaluate printers, parsers and message codecs\<close>
named_theorems topic_simps \<open>facts on message topics and storage keys\<close>
named_theorems inv_intros \<open>preservation rules of the component invariants\<close>

section \<open>Bytes, slices and errors\<close>

type_synonym bytes = string
type_synonym slice = "bytes option"

abbreviation slice_bytes :: "slice \<Rightarrow> bytes" where
  "slice_bytes s \<equiv> (case s of None \<Rightarrow> [] | Some b \<Rightarrow> b)"

datatype sentinel =
    ErrNotEnoughParticipants
  | ErrNotInParticipantList
  | ErrPermanent
  | ErrTimeout
  | ErrCanceled
  | ErrDeadlineExceeded
  | ErrConnectionClosed
  | ErrConsumerCreation
  | ErrStreamCreation
  | ErrEncryptionKeyNotProvided
  | ErrBackupEncryptionKeyNotProvided
  | ErrNotExist

text \<open>
  The text of each sentinel is the argument of its \<^verbatim>\<open>errors.New\<close> in the source, or the text the
  library documents for it (\<^verbatim>\<open>nats.ErrTimeout\<close>, \<^verbatim>\<open>context.Canceled\<close>,
  \<^verbatim>\<open>context.DeadlineExceeded\<close>, \<^verbatim>\<open>os.ErrNotExist\<close>).
\<close>

fun sentinel_text :: "sentinel \<Rightarrow> string" where
  "sentinel_text ErrNotEnoughParticipants = ''Not enough participants to sign''"
| "sentinel_text ErrNotInParticipantList = ''Node is not in the participant list''"
| "sentinel_text ErrPermanent = ''permanent messaging error''"
| "sentinel_text ErrTimeout = ''nats: timeout''"
| "sentinel_text ErrCanceled = ''context canceled''"
| "sentinel_text ErrDeadlineExceeded = ''context deadline exceeded''"
| "sentinel_text ErrConnectionClosed = ''connection is closed''"
| "sentinel_text ErrConsumerCreation = ''failed to create consumer''"
| "sentinel_text ErrStreamCreation = ''failed to create stream''"
| "sentinel_text ErrEncryptionKeyNotProvided = ''encryption key not provided''"
| "sentinel_text ErrBackupEncryptionKeyNotProvided = ''backup encryption key not provided''"
| "sentinel_text ErrNotExist = ''file does not exist''"

datatype go_error = Sentinel sentinel | Errorf string "go_error option"

fun err_msg :: "go_error \<Rightarrow> string" where
  "err_msg (Sentinel s) = sentinel_text s"
| "err_msg (Errorf m _) = m"

text \<open>\<^verbatim>\<open>errors.New(m)\<close> and \<^verbatim>\<open>fmt.Errorf(m)\<close> without \<^verbatim>\<open>%w\<close>.\<close>

definition errorf :: "string \<Rightarrow> go_error" where
  "errorf m = Errorf m None"

text \<open>\<^verbatim>\<open>fmt.Errorf("ctx: %w", err)\<close>.\<close>

definition wrapf :: "string \<Rightarrow> go_error \<Rightarrow> go_error" where
  "wrapf ctx e = Errorf (ctx @ '': '' @ err_msg e) (Some e)"

text \<open>\<^verbatim>\<open>errors.Is(err, target)\<close>: the target occurs in the chain of wrapped errors.\<close>

fun errors_Is :: "go_error \<Rightarrow> sentinel \<Rightarrow> bool" where
  "errors_Is (Sentinel s) t = (s = t)"
| "errors_Is (Errorf _ None) t = False"
| "errors_Is (Errorf _ (Some e)) t = errors_Is e t"

lemma err_msg_errorf [simp]: "err_msg (errorf m) = m"
  by (simp add: errorf_def)

lemma err_msg_wrapf [simp]: "err_msg (wrapf c e) = c @ '': '' @ err_msg e"
  by (simp add: wrapf_def)

lemma errors_Is_errorf [simp]: "\<not> errors_Is (errorf m) s"
  by (simp add: errorf_def)

lemma errors_Is_wrapf [simp]: "errors_Is (wrapf c e) s = errors_Is e s"
  by (simp add: wrapf_def)

text \<open>A call that may panic on a nil pointer, which ends the goroutine and the process.\<close>

datatype 'a go_res = Panic | Ret 'a

section \<open>64-bit signed integers\<close>

text \<open>Go's \<^verbatim>\<open>int\<close> and \<^verbatim>\<open>int64\<close> wrap around; \<open>wrap64\<close> is the value a sum is stored as.\<close>

definition wrap64 :: "int \<Rightarrow> int" where
  "wrap64 x = (x + 2 ^ 63) mod 2 ^ 64 - 2 ^ 63"

definition in_int64 :: "int \<Rightarrow> bool" where
  "in_int64 x \<longleftrightarrow> - (2 ^ 63) \<le> x \<and> x < 2 ^ 63"

abbreviation inc64 :: "int \<Rightarrow> int" where
  "inc64 x \<equiv> wrap64 (x + 1)"

lemma wrap64_id: "in_int64 x \<Longrightarrow> wrap64 x = x"
  unfolding wrap64_def in_int64_def by (simp add: mod_pos_pos_trivial)

lemma wrap64_range: "in_int64 (wrap64 x)"
proof -
  have "0 \<le> (x + 2 ^ 63) mod 2 ^ 64" "(x + 2 ^ 63) mod 2 ^ 64 < (2::int) ^ 64"
    by simp_all
  then show ?thesis unfolding wrap64_def in_int64_def by simp
qed

lemma wrap64_add: "wrap64 (wrap64 x + y) = wrap64 (x + y)"
proof -
  have "wrap64 x + y + 2 ^ 63 = (x + 2 ^ 63) mod 2 ^ 64 + y" by (simp add: wrap64_def)
  then have "(wrap64 x + y + 2 ^ 63) mod 2 ^ 64 = (x + 2 ^ 63 + y) mod 2 ^ 64" by (simp only: mod_add_left_eq)
  also have "x + 2 ^ 63 + y = x + y + 2 ^ 63" by simp
  finally show ?thesis by (simp only: wrap64_def [of "wrap64 x + y"] wrap64_def [of "x + y"])
qed

lemma wrap64_diff: "wrap64 (wrap64 x - y) = wrap64 (x - y)"
  using wrap64_add [of x "- y"] by simp

lemma inc64_small: "- (2 ^ 63) \<le> x \<Longrightarrow> x < 2 ^ 63 - 1 \<Longrightarrow> inc64 x = x + 1"
  by (rule wrap64_id) (simp add: in_int64_def)

lemma inc64_max: "inc64 (2 ^ 63 - 1) = - (2 ^ 63)"
  by (simp add: wrap64_def)

section \<open>Go maps\<close>

type_synonym 'v gomap = "(string \<times> 'v) list"

abbreviation gm_ok :: "'v gomap \<Rightarrow> bool" where
  "gm_ok m \<equiv> distinct (map fst m)"

abbreviation gm_get :: "'v gomap \<Rightarrow> string \<Rightarrow> 'v option" where
  "gm_get m k \<equiv> map_of m k"

abbreviation gm_put :: "string \<Rightarrow> 'v \<Rightarrow> 'v gomap \<Rightarrow> 'v gomap" where
  "gm_put k v m \<equiv> AList.update k v m"

abbreviation gm_del :: "string \<Rightarrow> 'v gomap \<Rightarrow> 'v gomap" where
  "gm_del k m \<equiv> AList.delete k m"

lemma gm_get_put: "gm_get (gm_put k v m) k' = (if k' = k then Some v else gm_get m k')"
  by (simp add: update_conv')

lemma gm_get_del: "gm_get (gm_del k m) k' = (if k' = k then None else gm_get m k')"
  by (simp add: delete_conv')

lemma gm_ok_put: "gm_ok m \<Longrightarrow> gm_ok (gm_put k v m)"
  by (rule distinct_update)

lemma gm_ok_del: "gm_ok m \<Longrightarrow> gm_ok (gm_del k m)"
  by (rule distinct_delete)

lemma gm_keys_put: "fst ` set (gm_put k v m) = insert k (fst ` set m)"
  by (simp add: dom_update)

lemma gm_keys_del: "fst ` set (gm_del k m) = fst ` set m - {k}"
  by (metis delete_keys list.set_map set_removeAll)

lemmas gm_simps = gm_get_put gm_get_del gm_ok_put gm_ok_del gm_keys_put gm_keys_del

lemma gm_len_card: "gm_ok m \<Longrightarrow> length m = card (fst ` set m)"
  by (metis distinct_card length_map list.set_map)

lemma gm_keys_dom: "fst ` set m = dom (gm_get m)"
  by (simp add: dom_map_of_conv_image_fst)

section \<open>Lists\<close>

lemma takeWhile_append_stop:
  "\<forall>x \<in> set xs. P x \<Longrightarrow> \<not> P y \<Longrightarrow> takeWhile P (xs @ y # ys) = xs"
  by (induction xs) auto

lemma dropWhile_append_stop:
  "\<forall>x \<in> set xs. P x \<Longrightarrow> \<not> P y \<Longrightarrow> dropWhile P (xs @ y # ys) = y # ys"
  by (induction xs) auto

lemma append_sep_inject:
  assumes "xs @ c # ys = xs' @ c # ys'" and "c \<notin> set xs" and "c \<notin> set xs'"
  shows "xs = xs' \<and> ys = ys'"
proof -
  have a: "takeWhile (\<lambda>x. x \<noteq> c) (xs @ c # ys) = xs"
    by (rule takeWhile_append_stop) (use assms(2) in auto)
  have b: "takeWhile (\<lambda>x. x \<noteq> c) (xs' @ c # ys') = xs'"
    by (rule takeWhile_append_stop) (use assms(3) in auto)
  from a b assms(1) have "xs = xs'" by simp
  with assms(1) show ?thesis by simp
qed

lemma filter_length_card: "distinct xs \<Longrightarrow> length (filter P xs) = card {x \<in> set xs. P x}"
  by (metis distinct_card distinct_filter set_filter)

end
