(* ===== verification/Go_Lib.thy ===== *)
theory Go_Lib
  imports Prelude
begin

text \<open>
  The functions of Go's standard library that the program relies on, as executable definitions:
  \<^verbatim>\<open>strings\<close> (\<^verbatim>\<open>Cut\<close>, \<^verbatim>\<open>Split\<close>, \<^verbatim>\<open>SplitN\<close>, \<^verbatim>\<open>TrimSpace\<close>, \<^verbatim>\<open>TrimPrefix\<close>, \<^verbatim>\<open>Contains\<close>, \<^verbatim>\<open>ToLower\<close>,
  \<^verbatim>\<open>ReplaceAll\<close>, the string order), decimal
  formatting (\<^verbatim>\<open>%d\<close>), and \<^verbatim>\<open>big.Int\<close>'s \<^verbatim>\<open>SetBytes\<close> and \<^verbatim>\<open>Bytes\<close>. Letter case and white space are those of
  ASCII.
\<close>

section \<open>Package strings\<close>

definition strings_Cut :: "char \<Rightarrow> string \<Rightarrow> string \<times> string \<times> bool" where
  "strings_Cut c s =
     (case dropWhile (\<lambda>x. x \<noteq> c) s of
        [] \<Rightarrow> (s, [], False)
      | _ # after \<Rightarrow> (takeWhile (\<lambda>x. x \<noteq> c) s, after, True))"

fun strings_SplitN :: "char \<Rightarrow> nat \<Rightarrow> string \<Rightarrow> string list" where
  "strings_SplitN c 0 s = []"
| "strings_SplitN c (Suc 0) s = [s]"
| "strings_SplitN c (Suc (Suc n)) s =
     (case strings_Cut c s of
        (before, after, True) \<Rightarrow> before # strings_SplitN c (Suc n) after
      | (_, _, False) \<Rightarrow> [s])"

fun strings_Split :: "char \<Rightarrow> string \<Rightarrow> string list" where
  "strings_Split c [] = [[]]"
| "strings_Split c (x # xs) =
     (if x = c then [] # strings_Split c xs
      else (case strings_Split c xs of [] \<Rightarrow> [[x]] | p # ps \<Rightarrow> (x # p) # ps))"

definition is_space :: "char \<Rightarrow> bool" where
  "is_space c \<longleftrightarrow> c \<in> {CHR 0x09, CHR 0x0A, CHR 0x0B, CHR 0x0C, CHR 0x0D, CHR 0x20}"

definition strings_TrimSpace :: "string \<Rightarrow> string" where
  "strings_TrimSpace s = rev (dropWhile is_space (rev (dropWhile is_space s)))"

definition strings_HasPrefix :: "string \<Rightarrow> string \<Rightarrow> bool" where
  "strings_HasPrefix s p \<longleftrightarrow> take (length p) s = p"

definition strings_HasSuffix :: "string \<Rightarrow> string \<Rightarrow> bool" where
  "strings_HasSuffix s p \<longleftrightarrow> strings_HasPrefix (rev s) (rev p)"

definition strings_TrimPrefix :: "string \<Rightarrow> string \<Rightarrow> string" where
  "strings_TrimPrefix s p = (if strings_HasPrefix s p then drop (length p) s else s)"

fun strings_Contains :: "string \<Rightarrow> string \<Rightarrow> bool" where
  "strings_Contains [] p = (p = [])"
| "strings_Contains (x # xs) p = (strings_HasPrefix (x # xs) p \<or> strings_Contains xs p)"

definition char_lower :: "char \<Rightarrow> char" where
  "char_lower c =
     (if 65 \<le> (of_char c :: nat) \<and> (of_char c :: nat) \<le> 90 then char_of ((of_char c :: nat) + 32) else c)"

definition strings_ToLower :: "string \<Rightarrow> string" where
  "strings_ToLower s = map char_lower s"

text \<open>\<^verbatim>\<open>strings.ReplaceAll\<close> with a one-byte pattern.\<close>

definition strings_ReplaceAll :: "char \<Rightarrow> string \<Rightarrow> string \<Rightarrow> string" where
  "strings_ReplaceAll c r s = concat (map (\<lambda>x. if x = c then r else [x]) s)"

text \<open>Go's \<^verbatim>\<open>a < b\<close> on strings: lexicographic on bytes.\<close>

fun string_less :: "string \<Rightarrow> string \<Rightarrow> bool" where
  "string_less _ [] = False"
| "string_less [] (_ # _) = True"
| "string_less (x # xs) (y # ys) =
     ((of_char x :: nat) < of_char y \<or> (x = y \<and> string_less xs ys))"

subsection \<open>Laws of package strings\<close>

lemma strings_Cut_found:
  "c \<notin> set xs \<Longrightarrow> strings_Cut c (xs @ c # ys) = (xs, ys, True)"
proof -
  assume "c \<notin> set xs"
  then have "\<forall>x \<in> set xs. x \<noteq> c" by auto
  then have "dropWhile (\<lambda>x. x \<noteq> c) (xs @ c # ys) = c # ys"
    and "takeWhile (\<lambda>x. x \<noteq> c) (xs @ c # ys) = xs"
    by (auto intro: dropWhile_append_stop takeWhile_append_stop)
  then show ?thesis by (simp add: strings_Cut_def)
qed

lemma strings_Cut_absent: "c \<notin> set xs \<Longrightarrow> strings_Cut c xs = (xs, [], False)"
proof -
  assume "c \<notin> set xs"
  then have "dropWhile (\<lambda>x. x \<noteq> c) xs = []" by auto
  then show ?thesis unfolding strings_Cut_def by (simp only: list.case)
qed

lemma strings_Cut_before: "fst (strings_Cut c s) = takeWhile (\<lambda>x. x \<noteq> c) s"
proof (cases "dropWhile (\<lambda>x. x \<noteq> c) s")
  case Nil
  then have "takeWhile (\<lambda>x. x \<noteq> c) s = s"
    by (metis append_Nil2 takeWhile_dropWhile_id)
  with Nil show ?thesis unfolding strings_Cut_def by (simp only: list.case fst_conv)
next
  case (Cons a list)
  then show ?thesis unfolding strings_Cut_def by (simp only: list.case fst_conv)
qed

lemma strings_SplitN_cons:
  "c \<notin> set xs \<Longrightarrow>
   strings_SplitN c (Suc (Suc n)) (xs @ c # ys) = xs # strings_SplitN c (Suc n) ys"
  by (simp add: strings_Cut_found)

lemma strings_SplitN_one: "strings_SplitN c (Suc n) s \<noteq> []"
  by (cases n) (auto split: prod.splits bool.splits)

lemma strings_Split_not_Nil [simp]: "strings_Split c s \<noteq> []"
  by (induction s) (auto split: list.splits)

lemma hd_strings_Split: "hd (strings_Split c s) = takeWhile (\<lambda>x. x \<noteq> c) s"
proof (induction s)
  case (Cons x s)
  obtain p ps where "strings_Split c s = p # ps"
    by (meson neq_Nil_conv strings_Split_not_Nil)
  with Cons show ?case by simp
qed simp

lemma strings_HasPrefix_append [simp]: "strings_HasPrefix (p @ s) p"
  by (simp add: strings_HasPrefix_def)

lemma strings_HasPrefix_iff: "strings_HasPrefix s p \<longleftrightarrow> (\<exists>t. s = p @ t)"
  unfolding strings_HasPrefix_def by (metis append_eq_conv_conj append_take_drop_id)

lemma strings_Contains_iff: "strings_Contains s p \<longleftrightarrow> (\<exists>u v. s = u @ p @ v)"
proof (induction s)
  case Nil
  show ?case by simp
next
  case (Cons x xs)
  have "(\<exists>u v. x # xs = u @ p @ v) \<longleftrightarrow> (\<exists>v. x # xs = p @ v) \<or> (\<exists>u v. xs = u @ p @ v)"
    by (metis append_Cons append_Nil list.inject neq_Nil_conv)
  with Cons show ?case by (simp add: strings_HasPrefix_iff)
qed

lemma strings_Contains_append1: "strings_Contains s p \<Longrightarrow> strings_Contains (s @ t) p"
  unfolding strings_Contains_iff by (metis append.assoc)

lemma strings_Contains_append2: "strings_Contains t p \<Longrightarrow> strings_Contains (s @ t) p"
  unfolding strings_Contains_iff by (metis append.assoc)

lemma strings_Contains_trans:
  "strings_Contains s p \<Longrightarrow> strings_Contains p q \<Longrightarrow> strings_Contains s q"
  unfolding strings_Contains_iff by (metis append.assoc)

lemma strings_TrimSpace_id:
  "s = [] \<or> (\<not> is_space (hd s) \<and> \<not> is_space (last s)) \<Longrightarrow> strings_TrimSpace s = s"
proof -
  have keep: "dropWhile is_space t = t" if "t = [] \<or> \<not> is_space (hd t)" for t
    using that by (cases t) auto
  assume "s = [] \<or> (\<not> is_space (hd s) \<and> \<not> is_space (last s))"
  then show ?thesis
    unfolding strings_TrimSpace_def by (auto simp: keep hd_rev)
qed

lemma string_less_irrefl [simp]: "\<not> string_less a a"
  by (induction a) auto

lemma string_less_asym: "string_less a b \<Longrightarrow> \<not> string_less b a"
  by (induction a b rule: string_less.induct) auto

lemma string_less_total: "a \<noteq> b \<Longrightarrow> string_less a b \<or> string_less b a"
proof (induction a b rule: string_less.induct)
  case (3 x xs y ys)
  then show ?case
    by (cases "x = y") (auto, metis nat_neq_iff of_char_eq_iff)
qed (auto simp: neq_Nil_conv)

section \<open>Decimal formatting\<close>

definition digit_char :: "nat \<Rightarrow> char" where
  "digit_char d = char_of (48 + d)"

fun utoa :: "nat \<Rightarrow> string" where
  "utoa n = (if n < 10 then [digit_char n] else utoa (n div 10) @ [digit_char (n mod 10)])"

declare utoa.simps [simp del]

text \<open>The \<^verbatim>\<open>%d\<close> verb on an \<^verbatim>\<open>int\<close>.\<close>

definition itoa :: "int \<Rightarrow> string" where
  "itoa i = (if i < 0 then CHR ''-'' # utoa (nat (- i)) else utoa (nat i))"

definition is_digit :: "char \<Rightarrow> bool" where
  "is_digit c \<longleftrightarrow> 48 \<le> (of_char c :: nat) \<and> (of_char c :: nat) \<le> 57"

definition digit_val :: "char \<Rightarrow> nat" where
  "digit_val c = of_char c - 48"

text \<open>The value of a non-empty digit string, most significant digit first.\<close>

definition atou :: "string \<Rightarrow> nat option" where
  "atou s = (if s \<noteq> [] \<and> list_all is_digit s
             then Some (foldl (\<lambda>a c. a * 10 + digit_val c) 0 s) else None)"

lemma of_char_digit_char: "d < 10 \<Longrightarrow> (of_char (digit_char d) :: nat) = 48 + d"
  by (simp add: digit_char_def)

lemma is_digit_digit_char: "d < 10 \<Longrightarrow> is_digit (digit_char d)"
  by (simp add: is_digit_def of_char_digit_char)

lemma digit_val_digit_char: "d < 10 \<Longrightarrow> digit_val (digit_char d) = d"
  by (simp add: digit_val_def of_char_digit_char)

lemma utoa_not_Nil: "utoa n \<noteq> []"
  by (subst utoa.simps) simp

lemma utoa_digits: "list_all is_digit (utoa n)"
proof (induction n rule: utoa.induct)
  case (1 n)
  then show ?case
    by (subst utoa.simps) (simp add: is_digit_digit_char)
qed

lemma foldl_utoa: "foldl (\<lambda>a c. a * 10 + digit_val c) 0 (utoa n) = n"
proof (induction n rule: utoa.induct)
  case (1 n)
  then show ?case
    by (subst utoa.simps) (simp add: digit_val_digit_char)
qed

lemma atou_utoa: "atou (utoa n) = Some n"
  by (simp add: atou_def utoa_digits utoa_not_Nil foldl_utoa)

lemma utoa_inject: "utoa m = utoa n \<longleftrightarrow> m = n"
  by (metis atou_utoa option.inject)

lemma utoa_chars: "c \<in> set (utoa n) \<Longrightarrow> is_digit c"
  using utoa_digits by (auto simp: list_all_iff)

lemma itoa_nonneg: "0 \<le> i \<Longrightarrow> itoa i = utoa (nat i)"
  by (simp add: itoa_def)

lemma not_digit_minus: "\<not> is_digit CHR ''-''"
  by (simp add: is_digit_def)

lemma itoa_inject: "itoa i = itoa j \<longleftrightarrow> i = j"
proof
  assume eq: "itoa i = itoa j"
  have minus: "CHR ''-'' \<notin> set (utoa n)" for n
    using utoa_chars not_digit_minus by blast
  have clash: "CHR ''-'' # utoa m \<noteq> utoa n" for m n
    using minus [of n] by (metis list.set_intros(1))
  from eq clash clash [symmetric] show "i = j"
    by (auto simp: itoa_def utoa_inject split: if_splits)
qed simp

lemma itoa_chars: "c \<in> set (itoa i) \<Longrightarrow> is_digit c \<or> c = CHR ''-''"
  by (auto simp: itoa_def utoa_chars split: if_splits)

lemma not_digits [simp]:
  "\<not> is_digit CHR '':''" "\<not> is_digit CHR ''_''" "\<not> is_digit CHR ''v''" "\<not> is_digit CHR '',''"
  "\<not> is_digit CHR '' ''"
  by (simp_all add: is_digit_def)

lemma itoa_no_colon: "CHR '':'' \<notin> set (itoa i)"
  using itoa_chars [of "CHR '':''" i] by auto

lemma itoa_no_underscore: "CHR ''_'' \<notin> set (itoa i)"
  using itoa_chars [of "CHR ''_''" i] by auto

lemma itoa_not_Nil: "itoa i \<noteq> []"
  by (simp add: itoa_def utoa_not_Nil)

section \<open>Package math/big\<close>

text \<open>A \<^verbatim>\<open>big.Int\<close> that holds a key is a natural number, stored big-endian in base 256.\<close>

definition big_SetBytes :: "bytes \<Rightarrow> nat" where
  "big_SetBytes bs = foldl (\<lambda>a c. a * 256 + of_char c) 0 bs"

fun big_Bytes :: "nat \<Rightarrow> bytes" where
  "big_Bytes n = (if n = 0 then [] else big_Bytes (n div 256) @ [char_of (n mod 256)])"

declare big_Bytes.simps [simp del]

lemma big_Bytes_0 [simp]: "big_Bytes 0 = []"
  by (subst big_Bytes.simps) simp

lemma big_SetBytes_snoc: "big_SetBytes (bs @ [c]) = big_SetBytes bs * 256 + of_char c"
  by (simp add: big_SetBytes_def)

lemma of_char_bound: "(of_char (c :: char) :: nat) < 256"
  by simp

lemma big_Bytes_SetBytes:
  "big_Bytes (big_SetBytes bs) = dropWhile (\<lambda>c. c = CHR 0x00) bs"
proof (induction bs rule: rev_induct)
  case Nil
  show ?case by (simp add: big_SetBytes_def)
next
  case (snoc c bs)
  let ?n = "big_SetBytes bs"
  have val: "big_SetBytes (bs @ [c]) = ?n * 256 + of_char c"
    by (rule big_SetBytes_snoc)
  show ?case
  proof (cases "?n = 0 \<and> (of_char c :: nat) = 0")
    case True
    then have "(of_char c :: nat) = of_char (CHR 0x00)" by simp
    then have "c = CHR 0x00" by (simp only: of_char_eq_iff)
    moreover from True snoc have "dropWhile (\<lambda>c. c = CHR 0x00) bs = []" by simp
    ultimately show ?thesis
      using True val by (simp add: dropWhile_eq_Nil_conv)
  next
    case False
    then have pos: "?n * 256 + (of_char c :: nat) \<noteq> 0" by auto
    have divmod: "(?n * 256 + (of_char c :: nat)) div 256 = ?n"
      "(?n * 256 + (of_char c :: nat)) mod 256 = of_char c"
      using of_char_bound [of c] by auto
    have "big_Bytes (big_SetBytes (bs @ [c])) = big_Bytes ?n @ [c]"
      unfolding val by (subst big_Bytes.simps) (use pos divmod in simp)
    also have "\<dots> = dropWhile (\<lambda>c. c = CHR 0x00) bs @ [c]" by (simp add: snoc)
    also have "\<dots> = dropWhile (\<lambda>c. c = CHR 0x00) (bs @ [c])"
    proof (cases "\<forall>x \<in> set bs. x = CHR 0x00")
      case True
      then have "dropWhile (\<lambda>c. c = CHR 0x00) bs = []" by auto
      with snoc have "big_Bytes ?n = []" by simp
      then have "?n = 0" using big_Bytes.simps [of ?n] by (metis Nil_is_append_conv not_Cons_self2)
      with False have "c \<noteq> CHR 0x00" by auto
      with True show ?thesis by (auto simp: dropWhile_append2)
    next
      case False
      then obtain x where "x \<in> set bs" "x \<noteq> CHR 0x00" by blast
      then show ?thesis by (simp add: dropWhile_append1 [of x])
    qed
    finally show ?thesis .
  qed
qed

lemma big_SetBytes_Bytes: "big_SetBytes (big_Bytes n) = n"
proof (induction n rule: big_Bytes.induct)
  case (1 n)
  then show ?case
    by (subst big_Bytes.simps) (simp add: big_SetBytes_snoc big_SetBytes_def)
qed

lemma big_Bytes_inject: "big_Bytes m = big_Bytes n \<longleftrightarrow> m = n"
  by (metis big_SetBytes_Bytes)

lemma big_Bytes_SetBytes_id:
  "bs = [] \<or> hd bs \<noteq> CHR 0x00 \<Longrightarrow> big_Bytes (big_SetBytes bs) = bs"
  by (cases bs) (auto simp: big_Bytes_SetBytes)

end
