(* ===== verification/Error_Codes.thy ===== *)
theory Error_Codes
  imports Go_Lib
begin

text \<open>
  \<^verbatim>\<open>pkg/types/codes.go\<close>: the error codes that a node reports to the initiator, and
  \<^verbatim>\<open>GetErrorCodeFromError\<close>, which derives the code from the text of an error. The lemmas show that the
  codes have distinct texts, which codes the classifier can return, and that wrapping an error
  only moves it to an earlier case of the switch.
\<close>

datatype (plugins only: code) error_code =
    ErrorCodeUnknown
  | ErrorCodeNetworkTimeout
  | ErrorCodeNetworkConnection
  | ErrorCodeNetworkSubscription
  | ErrorCodeMessageRouting
  | ErrorCodeDirectMessaging
  | ErrorCodeSessionTimeout
  | ErrorCodeSessionCreation
  | ErrorCodeSessionInitialization
  | ErrorCodeSessionCleanup
  | ErrorCodeSessionDuplicate
  | ErrorCodeSessionStale
  | ErrorCodeInsufficientParticipants
  | ErrorCodeIncompatiblePeerIDs
  | ErrorCodePeerNotReady
  | ErrorCodePeerUnavailable
  | ErrorCodeParticipantNotFound
  | ErrorCodeKeyNotFound
  | ErrorCodeKeyAlreadyExists
  | ErrorCodeKeyGeneration
  | ErrorCodeKeySave
  | ErrorCodeKeyLoad
  | ErrorCodeKeyInfoSave
  | ErrorCodeKeyInfoLoad
  | ErrorCodeKeyEncoding
  | ErrorCodeKeyDecoding
  | ErrorCodeMsgValidation
  | ErrorCodeSignatureGeneration
  | ErrorCodeSignatureVerification
  | ErrorCodeInvalidInitiatorSignature
  | ErrorCodePreParamsGeneration
  | ErrorCodeTSSPartyCreation
  | ErrorCodeMarshalFailure
  | ErrorCodeUnmarshalFailure
  | ErrorCodeDataCorruption
  | ErrorCodeStorageRead
  | ErrorCodeStorageWrite
  | ErrorCodeStorageInit
  | ErrorCodeMessageVerification
  | ErrorCodeMessageFormat
  | ErrorCodeMessageDelivery
  | ErrorCodeMaxDeliveryAttempts
  | ErrorCodeInvalidConfiguration
  | ErrorCodeInvalidThreshold
  | ErrorCodeInvalidSessionType
  | ErrorCodeResourceExhausted
  | ErrorCodeMemoryAllocation
  | ErrorCodeConcurrencyLimit
  | ErrorCodeKeygenFailure
  | ErrorCodeSigningFailure
  | ErrorCodeResharingFailure
  | ErrorCodeContextCancelled
  | ErrorCodeOperationAborted
  | ErrorCodeNotMajority
  | ErrorCodeClusterNotReady

primrec code_text :: "error_code \<Rightarrow> string" where
  "code_text ErrorCodeUnknown = ''ERROR_UNKNOWN''"
| "code_text ErrorCodeNetworkTimeout = ''ERROR_NETWORK_TIMEOUT''"
| "code_text ErrorCodeNetworkConnection = ''ERROR_NETWORK_CONNECTION''"
| "code_text ErrorCodeNetworkSubscription = ''ERROR_NETWORK_SUBSCRIPTION''"
| "code_text ErrorCodeMessageRouting = ''ERROR_MESSAGE_ROUTING''"
| "code_text ErrorCodeDirectMessaging = ''ERROR_DIRECT_MESSAGING''"
| "code_text ErrorCodeSessionTimeout = ''ERROR_SESSION_TIMEOUT''"
| "code_text ErrorCodeSessionCreation = ''ERROR_SESSION_CREATION''"
| "code_text ErrorCodeSessionInitialization = ''ERROR_SESSION_INITIALIZATION''"
| "code_text ErrorCodeSessionCleanup = ''ERROR_SESSION_CLEANUP''"
| "code_text ErrorCodeSessionDuplicate = ''ERROR_SESSION_DUPLICATE''"
| "code_text ErrorCodeSessionStale = ''ERROR_SESSION_STALE''"
| "code_text ErrorCodeInsufficientParticipants = ''ERROR_INSUFFICIENT_PARTICIPANTS''"
| "code_text ErrorCodeIncompatiblePeerIDs = ''ERROR_INCOMPATIBLE_PEER_IDS''"
| "code_text ErrorCodePeerNotReady = ''ERROR_PEER_NOT_READY''"
| "code_text ErrorCodePeerUnavailable = ''ERROR_PEER_UNAVAILABLE''"
| "code_text ErrorCodeParticipantNotFound = ''ERROR_PARTICIPANT_NOT_FOUND''"
| "code_text ErrorCodeKeyNotFound = ''ERROR_KEY_NOT_FOUND''"
| "code_text ErrorCodeKeyAlreadyExists = ''ERROR_KEY_ALREADY_EXISTS''"
| "code_text ErrorCodeKeyGeneration = ''ERROR_KEY_GENERATION''"
| "code_text ErrorCodeKeySave = ''ERROR_KEY_SAVE''"
| "code_text ErrorCodeKeyLoad = ''ERROR_KEY_LOAD''"
| "code_text ErrorCodeKeyInfoSave = ''ERROR_KEY_INFO_SAVE''"
| "code_text ErrorCodeKeyInfoLoad = ''ERROR_KEY_INFO_LOAD''"
| "code_text ErrorCodeKeyEncoding = ''ERROR_KEY_ENCODING''"
| "code_text ErrorCodeKeyDecoding = ''ERROR_KEY_DECODING''"
| "code_text ErrorCodeMsgValidation = ''ERROR_MSG_VALIDATION''"
| "code_text ErrorCodeSignatureGeneration = ''ERROR_SIGNATURE_GENERATION''"
| "code_text ErrorCodeSignatureVerification = ''ERROR_SIGNATURE_VERIFICATION''"
| "code_text ErrorCodeInvalidInitiatorSignature = ''ERROR_INVALID_INITIATOR_SIGNATURE''"
| "code_text ErrorCodePreParamsGeneration = ''ERROR_PRE_PARAMS_GENERATION''"
| "code_text ErrorCodeTSSPartyCreation = ''ERROR_TSS_PARTY_CREATION''"
| "code_text ErrorCodeMarshalFailure = ''ERROR_MARSHAL_FAILURE''"
| "code_text ErrorCodeUnmarshalFailure = ''ERROR_UNMARSHAL_FAILURE''"
| "code_text ErrorCodeDataCorruption = ''ERROR_DATA_CORRUPTION''"
| "code_text ErrorCodeStorageRead = ''ERROR_STORAGE_READ''"
| "code_text ErrorCodeStorageWrite = ''ERROR_STORAGE_WRITE''"
| "code_text ErrorCodeStorageInit = ''ERROR_STORAGE_INIT''"
| "code_text ErrorCodeMessageVerification = ''ERROR_MESSAGE_VERIFICATION''"
| "code_text ErrorCodeMessageFormat = ''ERROR_MESSAGE_FORMAT''"
| "code_text ErrorCodeMessageDelivery = ''ERROR_MESSAGE_DELIVERY''"
| "code_text ErrorCodeMaxDeliveryAttempts = ''ERROR_MAX_DELIVERY_ATTEMPTS''"
| "code_text ErrorCodeInvalidConfiguration = ''ERROR_INVALID_CONFIGURATION''"
| "code_text ErrorCodeInvalidThreshold = ''ERROR_INVALID_THRESHOLD''"
| "code_text ErrorCodeInvalidSessionType = ''ERROR_INVALID_SESSION_TYPE''"
| "code_text ErrorCodeResourceExhausted = ''ERROR_RESOURCE_EXHAUSTED''"
| "code_text ErrorCodeMemoryAllocation = ''ERROR_MEMORY_ALLOCATION''"
| "code_text ErrorCodeConcurrencyLimit = ''ERROR_CONCURRENCY_LIMIT''"
| "code_text ErrorCodeKeygenFailure = ''ERROR_KEYGEN_FAILURE''"
| "code_text ErrorCodeSigningFailure = ''ERROR_SIGNING_FAILURE''"
| "code_text ErrorCodeResharingFailure = ''ERROR_RESHARING_FAILURE''"
| "code_text ErrorCodeContextCancelled = ''ERROR_CONTEXT_CANCELLED''"
| "code_text ErrorCodeOperationAborted = ''ERROR_OPERATION_ABORTED''"
| "code_text ErrorCodeNotMajority = ''ERROR_NOT_MAJORITY''"
| "code_text ErrorCodeClusterNotReady = ''ERROR_CLUSTER_NOT_READY''"

text \<open>\<^verbatim>\<open>contains\<close>: case-insensitive search for any of the patterns, by the loop of the source.\<close>

fun contains :: "string \<Rightarrow> string list \<Rightarrow> bool" where
  "contains str [] = False"
| "contains str (pattern # patterns) =
     (if strings_Contains (strings_ToLower str) (strings_ToLower pattern) then True
      else contains str patterns)"

definition GetErrorCodeFromError :: "go_error option \<Rightarrow> string" where
  "GetErrorCodeFromError err =
     (case err of
        None \<Rightarrow> []
      | Some e \<Rightarrow>
          let errStr = err_msg e in
          if contains errStr [''validation''] then code_text ErrorCodeMsgValidation
          else if contains errStr [''timeout'', ''timed out''] then code_text ErrorCodeNetworkTimeout
          else if contains errStr [''connection'', ''connect''] then code_text ErrorCodeNetworkConnection
          else if contains errStr [''send''] then code_text ErrorCodePeerUnavailable
          else if contains errStr [''not enough'', ''insufficient''] then code_text ErrorCodeInsufficientParticipants
          else if contains errStr [''incompatible''] then code_text ErrorCodeIncompatiblePeerIDs
          else if contains errStr [''not found'', ''no such key''] then code_text ErrorCodeKeyNotFound
          else if contains errStr [''exists''] then code_text ErrorCodeKeyAlreadyExists
          else if contains errStr [''marshal''] then code_text ErrorCodeMarshalFailure
          else if contains errStr [''unmarshal''] then code_text ErrorCodeUnmarshalFailure
          else if contains errStr [''storage'', ''kvstore''] then code_text ErrorCodeStorageRead
          else if contains errStr [''save'', ''put''] then code_text ErrorCodeStorageWrite
          else if contains errStr [''session''] then code_text ErrorCodeSessionCreation
          else if contains errStr [''verify'', ''verification''] then code_text ErrorCodeMessageVerification
          else if contains errStr [''delivery'', ''deliver''] then code_text ErrorCodeMessageDelivery
          else if contains errStr [''context'', ''cancelled''] then code_text ErrorCodeContextCancelled
          else if contains errStr [''invalid signature from initiator''] then code_text ErrorCodeInvalidInitiatorSignature
          else if contains errStr [''duplicate''] then code_text ErrorCodeSessionDuplicate
          else code_text ErrorCodeUnknown)"

section \<open>The classifier\<close>

text \<open>The cases of the switch in order, and the search for the first that matches.\<close>

definition switch_cases :: "(string list \<times> error_code) list" where
  "switch_cases =
     [([''validation''], ErrorCodeMsgValidation),
      ([''timeout'', ''timed out''], ErrorCodeNetworkTimeout),
      ([''connection'', ''connect''], ErrorCodeNetworkConnection),
      ([''send''], ErrorCodePeerUnavailable),
      ([''not enough'', ''insufficient''], ErrorCodeInsufficientParticipants),
      ([''incompatible''], ErrorCodeIncompatiblePeerIDs),
      ([''not found'', ''no such key''], ErrorCodeKeyNotFound),
      ([''exists''], ErrorCodeKeyAlreadyExists),
      ([''marshal''], ErrorCodeMarshalFailure),
      ([''unmarshal''], ErrorCodeUnmarshalFailure),
      ([''storage'', ''kvstore''], ErrorCodeStorageRead),
      ([''save'', ''put''], ErrorCodeStorageWrite),
      ([''session''], ErrorCodeSessionCreation),
      ([''verify'', ''verification''], ErrorCodeMessageVerification),
      ([''delivery'', ''deliver''], ErrorCodeMessageDelivery),
      ([''context'', ''cancelled''], ErrorCodeContextCancelled),
      ([''invalid signature from initiator''], ErrorCodeInvalidInitiatorSignature),
      ([''duplicate''], ErrorCodeSessionDuplicate)]"

fun first_case :: "string \<Rightarrow> (string list \<times> error_code) list \<Rightarrow> nat" where
  "first_case s [] = 0"
| "first_case s ((ps, _) # cs) = (if contains s ps then 0 else Suc (first_case s cs))"

definition case_code :: "nat \<Rightarrow> error_code" where
  "case_code i = (if i < length switch_cases then snd (switch_cases ! i) else ErrorCodeUnknown)"

lemma GetErrorCodeFromError_first:
  "GetErrorCodeFromError (Some e) = code_text (case_code (first_case (err_msg e) switch_cases))"
  unfolding GetErrorCodeFromError_def option.case Let_def
  by (simp only: switch_cases_def first_case.simps case_code_def list.size) 
     (simp split: if_split)

lemma contains_iff:
  "contains s ps \<longleftrightarrow> (\<exists>p \<in> set ps. strings_Contains (strings_ToLower s) (strings_ToLower p))"
  by (induction ps) auto

lemma strings_ToLower_append [simp]:
  "strings_ToLower (s @ t) = strings_ToLower s @ strings_ToLower t"
  by (simp add: strings_ToLower_def)

lemma contains_append: "contains s ps \<or> contains t ps \<Longrightarrow> contains (s @ t) ps"
  by (auto simp: contains_iff intro: strings_Contains_append1 strings_Contains_append2)

lemma first_case_append: "first_case (s @ t) cs \<le> first_case t cs"
  by (induction cs) (auto simp: contains_append)

definition all_codes :: "error_code list" where
  "all_codes =
     [ErrorCodeUnknown, ErrorCodeNetworkTimeout, ErrorCodeNetworkConnection,
      ErrorCodeNetworkSubscription, ErrorCodeMessageRouting, ErrorCodeDirectMessaging,
      ErrorCodeSessionTimeout, ErrorCodeSessionCreation, ErrorCodeSessionInitialization,
      ErrorCodeSessionCleanup, ErrorCodeSessionDuplicate, ErrorCodeSessionStale,
      ErrorCodeInsufficientParticipants, ErrorCodeIncompatiblePeerIDs, ErrorCodePeerNotReady,
      ErrorCodePeerUnavailable, ErrorCodeParticipantNotFound, ErrorCodeKeyNotFound,
      ErrorCodeKeyAlreadyExists, ErrorCodeKeyGeneration, ErrorCodeKeySave,
      ErrorCodeKeyLoad, ErrorCodeKeyInfoSave, ErrorCodeKeyInfoLoad,
      ErrorCodeKeyEncoding, ErrorCodeKeyDecoding, ErrorCodeMsgValidation,
      ErrorCodeSignatureGeneration, ErrorCodeSignatureVerification, ErrorCodeInvalidInitiatorSignature,
      ErrorCodePreParamsGeneration, ErrorCodeTSSPartyCreation, ErrorCodeMarshalFailure,
      ErrorCodeUnmarshalFailure, ErrorCodeDataCorruption, ErrorCodeStorageRead,
      ErrorCodeStorageWrite, ErrorCodeStorageInit, ErrorCodeMessageVerification,
      ErrorCodeMessageFormat, ErrorCodeMessageDelivery, ErrorCodeMaxDeliveryAttempts,
      ErrorCodeInvalidConfiguration, ErrorCodeInvalidThreshold, ErrorCodeInvalidSessionType,
      ErrorCodeResourceExhausted, ErrorCodeMemoryAllocation, ErrorCodeConcurrencyLimit,
      ErrorCodeKeygenFailure, ErrorCodeSigningFailure, ErrorCodeResharingFailure,
      ErrorCodeContextCancelled, ErrorCodeOperationAborted, ErrorCodeNotMajority,
      ErrorCodeClusterNotReady]"

lemma all_codes_complete: "c \<in> set all_codes"
  by (cases c) (simp_all add: all_codes_def)

lemma code_texts_distinct: "distinct (map code_text all_codes)"
  by code_simp

text \<open>Position of a code among the cases of the switch.\<close>

definition switch_rank :: "string \<Rightarrow> nat" where
  "switch_rank t = length (takeWhile (\<lambda>(_, c). code_text c \<noteq> t) switch_cases)"

lemma first_case_le: "first_case s cs \<le> length cs"
  by (induction cs) auto

lemma switch_rank_case_code:
  "i \<le> length switch_cases \<Longrightarrow> switch_rank (code_text (case_code i)) = i"
proof -
  assume "i \<le> length switch_cases"
  then have "i \<in> set [0..<19]" by (simp add: switch_cases_def)
  moreover have "\<forall>i \<in> set [0..<19]. switch_rank (code_text (case_code i)) = i"
    by code_simp
  ultimately show ?thesis by blast
qed

lemma code_text_inject: "code_text c = code_text d \<longleftrightarrow> c = d"
  using code_texts_distinct all_codes_complete [of c] all_codes_complete [of d]
  by (auto simp: distinct_map inj_on_def)

lemma switch_rank_GetErrorCode:
  "switch_rank (GetErrorCodeFromError (Some e)) = first_case (err_msg e) switch_cases"
  by (simp add: GetErrorCodeFromError_first switch_rank_case_code first_case_le)

lemma contains_unmarshal: "contains s [''unmarshal''] \<Longrightarrow> contains s [''marshal'']"
proof -
  have "strings_Contains (strings_ToLower ''unmarshal'') (strings_ToLower ''marshal'')"
    by code_simp
  then show "contains s [''unmarshal''] \<Longrightarrow> ?thesis"
    unfolding contains_iff by (auto intro: strings_Contains_trans)
qed

lemma first_case_not_9: "first_case s switch_cases \<noteq> 9"
  using contains_unmarshal [of s]
  by (simp add: switch_cases_def del: contains.simps split: if_splits)

lemma GetErrorCode_not_unmarshal:
  "GetErrorCodeFromError (Some e) \<noteq> code_text ErrorCodeUnmarshalFailure"
proof -
  have "switch_rank (code_text ErrorCodeUnmarshalFailure) = 9" by code_simp
  then show ?thesis using switch_rank_GetErrorCode first_case_not_9 by metis
qed

section \<open>Properties\<close>

text \<open>
  Wrapping an error with context (\<^verbatim>\<open>fmt.Errorf("ctx: %w", err)\<close>) can only move its reported
  code to an earlier case of the switch in \<^verbatim>\<open>GetErrorCodeFromError\<close>: whatever the inner error
  matched, the wrapped one still matches, so a more specific context never hides a category.
\<close>

lemma wrapped_error_code_rank:
  "switch_rank (GetErrorCodeFromError (Some (wrapf ctx e)))
     \<le> switch_rank (GetErrorCodeFromError (Some e))"
proof -
  have "first_case ((ctx @ '': '') @ err_msg e) switch_cases \<le> first_case (err_msg e) switch_cases"
    by (rule first_case_append)
  then show ?thesis by (simp add: switch_rank_GetErrorCode)
qed

text \<open>
  The case for \<^verbatim>\<open>"unmarshal"\<close> is unreachable, because every text that contains \<^verbatim>\<open>unmarshal\<close>
  contains \<^verbatim>\<open>marshal\<close>, the case before it; the codes have pairwise distinct texts, so no error is
  ever reported as \<^verbatim>\<open>ERROR_UNMARSHAL_FAILURE\<close>, and an unmarshalling error that no earlier case claims
  is reported as \<^verbatim>\<open>ERROR_MARSHAL_FAILURE\<close>.
\<close>

lemma unmarshal_code_unreachable:
  "GetErrorCodeFromError err \<noteq> code_text ErrorCodeUnmarshalFailure
   \<and> (\<forall>ctx. contains ctx [''unmarshal''] \<longrightarrow>
        switch_rank (GetErrorCodeFromError (Some (errorf ctx))) \<le> 8)
   \<and> GetErrorCodeFromError (Some (errorf ''failed to unmarshal message'')) = code_text ErrorCodeMarshalFailure"
proof (intro conjI allI impI)
  show "GetErrorCodeFromError err \<noteq> code_text ErrorCodeUnmarshalFailure"
    using GetErrorCode_not_unmarshal
    by (cases err) (simp_all add: GetErrorCodeFromError_def)
next
  fix ctx assume "contains ctx [''unmarshal'']"
  from contains_unmarshal [OF this] have "first_case ctx switch_cases \<le> 8"
    by (simp add: switch_cases_def del: contains.simps)
  then show "switch_rank (GetErrorCodeFromError (Some (errorf ctx))) \<le> 8"
    by (simp add: switch_rank_GetErrorCode)
next
  show "GetErrorCodeFromError (Some (errorf ''failed to unmarshal message'')) = code_text ErrorCodeMarshalFailure"
    by code_simp
qed

lemma unmarshal_code_unreachable_example:
  "contains ''json: cannot unmarshal'' [''unmarshal'']
   \<and> switch_rank (GetErrorCodeFromError (Some (errorf ''json: cannot unmarshal''))) \<le> 8"
proof -
  have c: "contains ''json: cannot unmarshal'' [''unmarshal'']" by code_simp
  with unmarshal_code_unreachable [of None] show ?thesis by blast
qed

end
