(* ===== verification/Json.thy ===== *)
theory Json
  imports Go_Lib
begin

text \<open>
  Package \<^verbatim>\<open>encoding/json\<close> as the program uses it: JSON documents, the compact printer behind
  \<^verbatim>\<open>json.Marshal\<close>, a parser for the whole JSON grammar, the decoders \<^verbatim>\<open>json.Unmarshal\<close> applies to
  the field types that occur (string, integer, bool, byte slice in base64, list of strings),
  and the round trip of printing and parsing.

  The parser is driven by fuel; \<open>json_parse\<close> supplies \<open>2 * length s + 2\<close>, and
  \<open>json_parse_no_fuel_error\<close> shows that this is always enough. Strings are taken to be valid UTF-8;
  a surrogate escape decodes to U+FFFD. The texts of library errors are abbreviated after their
  leading words, except \<^verbatim>\<open>unexpected end of JSON input\<close>.
\<close>

datatype json =
    JNull
  | JBool bool
  | JNum string
  | JStr string
  | JArr "json list"
  | JObj "(string \<times> json) list"

section \<open>Printing\<close>

definition hex_char :: "nat \<Rightarrow> char" where
  "hex_char d = (if d < 10 then char_of (48 + d) else char_of (87 + d))"

definition json_escape :: "char \<Rightarrow> string" where
  "json_escape c =
     (if c = CHR 0x22 then [CHR 0x5C, CHR 0x22]
      else if c = CHR 0x5C then [CHR 0x5C, CHR 0x5C]
      else if c = CHR 0x08 then [CHR 0x5C, CHR ''b'']
      else if c = CHR 0x0C then [CHR 0x5C, CHR ''f'']
      else if c = CHR 0x0A then [CHR 0x5C, CHR ''n'']
      else if c = CHR 0x0D then [CHR 0x5C, CHR ''r'']
      else if c = CHR 0x09 then [CHR 0x5C, CHR ''t'']
      else if (of_char c :: nat) < 32 \<or> c \<in> {CHR ''<'', CHR ''>'', CHR ''&''}
        then [CHR 0x5C, CHR ''u'', CHR ''0'', CHR ''0'',
              hex_char (of_char c div 16), hex_char (of_char c mod 16)]
      else [c])"

definition json_quote :: "string \<Rightarrow> string" where
  "json_quote s = CHR 0x22 # concat (map json_escape s) @ [CHR 0x22]"

fun json_print :: "json \<Rightarrow> string"
  and json_elems :: "json list \<Rightarrow> string"
  and json_members :: "(string \<times> json) list \<Rightarrow> string" where
  "json_print JNull = ''null''"
| "json_print (JBool b) = (if b then ''true'' else ''false'')"
| "json_print (JNum l) = l"
| "json_print (JStr s) = json_quote s"
| "json_print (JArr js) = CHR ''['' # (if js = [] then '']'' else json_elems js)"
| "json_print (JObj ms) = CHR ''{'' # (if ms = [] then ''}'' else json_members ms)"
| "json_elems [] = []"
| "json_elems (x # xs) = json_print x @ (if xs = [] then '']'' else CHR '','' # json_elems xs)"
| "json_members [] = []"
| "json_members ((k, x) # xs) =
     json_quote k @ CHR '':'' # json_print x @ (if xs = [] then ''}'' else CHR '','' # json_members xs)"

section \<open>Parsing\<close>

datatype json_err = JEof | JBad char | JFuel

definition json_ws :: "char \<Rightarrow> bool" where
  "json_ws c \<longleftrightarrow> c \<in> {CHR 0x20, CHR 0x09, CHR 0x0A, CHR 0x0D}"

definition hex_val :: "char \<Rightarrow> nat option" where
  "hex_val c = (let n = (of_char c :: nat) in
     if 48 \<le> n \<and> n \<le> 57 then Some (n - 48)
     else if 97 \<le> n \<and> n \<le> 102 then Some (n - 87)
     else if 65 \<le> n \<and> n \<le> 70 then Some (n - 55) else None)"

definition hex4 :: "char \<Rightarrow> char \<Rightarrow> char \<Rightarrow> char \<Rightarrow> nat option" where
  "hex4 a b c d =
     (case (hex_val a, hex_val b, hex_val c, hex_val d) of
        (Some a, Some b, Some c, Some d) \<Rightarrow> Some (((a * 16 + b) * 16 + c) * 16 + d)
      | _ \<Rightarrow> None)"

definition utf8_encode :: "nat \<Rightarrow> string" where
  "utf8_encode n =
     (if n < 128 then [char_of n]
      else if n < 2048 then [char_of (192 + n div 64), char_of (128 + n mod 64)]
      else if 55296 \<le> n \<and> n < 57344 then [CHR 0xEF, CHR 0xBF, CHR 0xBD]
      else [char_of (224 + n div 4096), char_of (128 + (n div 64) mod 64), char_of (128 + n mod 64)])"

definition simple_escape :: "char \<Rightarrow> char option" where
  "simple_escape c =
     (if c \<in> {CHR 0x22, CHR 0x5C, CHR ''/''} then Some c
      else if c = CHR ''b'' then Some (CHR 0x08)
      else if c = CHR ''f'' then Some (CHR 0x0C)
      else if c = CHR ''n'' then Some (CHR 0x0A)
      else if c = CHR ''r'' then Some (CHR 0x0D)
      else if c = CHR ''t'' then Some (CHR 0x09)
      else None)"

definition push_str :: "string \<Rightarrow> json_err + string \<times> string \<Rightarrow> json_err + string \<times> string" where
  "push_str p r = (case r of Inl e \<Rightarrow> Inl e | Inr (s, rest) \<Rightarrow> Inr (p @ s, rest))"

text \<open>The body of a string literal, after its opening quote.\<close>

function parse_str :: "string \<Rightarrow> json_err + string \<times> string" where
  "parse_str [] = Inl JEof"
| "parse_str (c # cs) =
     (if c = CHR 0x22 then Inr ([], cs)
      else if c = CHR 0x5C then
        (case cs of
           [] \<Rightarrow> Inl JEof
         | e # r \<Rightarrow>
             if e = CHR ''u'' then
               (if length r < 4 then Inl JEof
                else (case hex4 (r ! 0) (r ! 1) (r ! 2) (r ! 3) of
                        None \<Rightarrow> Inl (JBad e)
                      | Some n \<Rightarrow> push_str (utf8_encode n) (parse_str (drop 4 r))))
             else (case simple_escape e of
                     None \<Rightarrow> Inl (JBad e)
                   | Some x \<Rightarrow> push_str [x] (parse_str r)))
      else if (of_char c :: nat) < 32 then Inl (JBad c)
      else push_str [c] (parse_str cs))"
  by pat_completeness auto
termination
  by (relation "measure length") auto

definition num_char :: "char \<Rightarrow> bool" where
  "num_char c \<longleftrightarrow> is_digit c \<or> c \<in> {CHR ''-'', CHR ''+'', CHR ''.'', CHR ''e'', CHR ''E''}"

definition exp_ok :: "string \<Rightarrow> bool" where
  "exp_ok s \<longleftrightarrow>
     (case s of
        [] \<Rightarrow> True
      | e # r \<Rightarrow> (e = CHR ''e'' \<or> e = CHR ''E'') \<and>
          (let d = (case r of x # y \<Rightarrow> if x = CHR ''+'' \<or> x = CHR ''-'' then y else r | [] \<Rightarrow> [])
           in d \<noteq> [] \<and> list_all is_digit d))"

definition frac_ok :: "string \<Rightarrow> bool" where
  "frac_ok s \<longleftrightarrow>
     (case s of
        c # r \<Rightarrow> if c = CHR ''.'' then takeWhile is_digit r \<noteq> [] \<and> exp_ok (dropWhile is_digit r)
                 else exp_ok s
      | [] \<Rightarrow> True)"

definition number_ok :: "string \<Rightarrow> bool" where
  "number_ok s \<longleftrightarrow>
     (let u = (case s of c # r \<Rightarrow> if c = CHR ''-'' then r else s | [] \<Rightarrow> []);
          d = takeWhile is_digit u
      in d \<noteq> [] \<and> (hd d = CHR ''0'' \<longrightarrow> length d = 1) \<and> frac_ok (dropWhile is_digit u))"

definition parse_lit :: "string \<Rightarrow> json \<Rightarrow> string \<Rightarrow> json_err + json \<times> string" where
  "parse_lit w v s =
     (if strings_HasPrefix s w then Inr (v, drop (length w) s)
      else if length s < length w then Inl JEof else Inl (JBad (hd s)))"

definition parse_num :: "string \<Rightarrow> json_err + json \<times> string" where
  "parse_num s =
     (let l = takeWhile num_char s in
      if number_ok l then Inr (JNum l, dropWhile num_char s) else Inl (JBad (hd s)))"

fun parse_value :: "nat \<Rightarrow> string \<Rightarrow> json_err + json \<times> string"
  and parse_elems :: "nat \<Rightarrow> string \<Rightarrow> json_err + json list \<times> string"
  and parse_members :: "nat \<Rightarrow> string \<Rightarrow> json_err + (string \<times> json) list \<times> string" where
  "parse_value 0 s = Inl JFuel"
| "parse_value (Suc n) s =
     (case dropWhile json_ws s of
        [] \<Rightarrow> Inl JEof
      | c # r \<Rightarrow>
          if c = CHR ''['' then
            (case dropWhile json_ws r of
               [] \<Rightarrow> Inl JEof
             | d # r' \<Rightarrow> if d = CHR '']'' then Inr (JArr [], r')
                 else (case parse_elems n r of Inl e \<Rightarrow> Inl e | Inr (vs, t) \<Rightarrow> Inr (JArr vs, t)))
          else if c = CHR ''{'' then
            (case dropWhile json_ws r of
               [] \<Rightarrow> Inl JEof
             | d # r' \<Rightarrow> if d = CHR ''}'' then Inr (JObj [], r')
                 else (case parse_members n r of Inl e \<Rightarrow> Inl e | Inr (vs, t) \<Rightarrow> Inr (JObj vs, t)))
          else if c = CHR 0x22 then
            (case parse_str r of Inl e \<Rightarrow> Inl e | Inr (v, t) \<Rightarrow> Inr (JStr v, t))
          else if c = CHR ''n'' then parse_lit ''null'' JNull (c # r)
          else if c = CHR ''t'' then parse_lit ''true'' (JBool True) (c # r)
          else if c = CHR ''f'' then parse_lit ''false'' (JBool False) (c # r)
          else if is_digit c \<or> c = CHR ''-'' then parse_num (c # r)
          else Inl (JBad c))"
| "parse_elems 0 s = Inl JFuel"
| "parse_elems (Suc n) s =
     (case parse_value n s of
        Inl e \<Rightarrow> Inl e
      | Inr (v, r) \<Rightarrow>
          (case dropWhile json_ws r of
             [] \<Rightarrow> Inl JEof
           | c # r' \<Rightarrow>
               if c = CHR '']'' then Inr ([v], r')
               else if c = CHR '','' then
                 (case parse_elems n r' of Inl e \<Rightarrow> Inl e | Inr (vs, t) \<Rightarrow> Inr (v # vs, t))
               else Inl (JBad c)))"
| "parse_members 0 s = Inl JFuel"
| "parse_members (Suc n) s =
     (case dropWhile json_ws s of
        [] \<Rightarrow> Inl JEof
      | q # s1 \<Rightarrow>
          if q \<noteq> CHR 0x22 then Inl (JBad q)
          else (case parse_str s1 of
             Inl e \<Rightarrow> Inl e
           | Inr (k, s2) \<Rightarrow>
               (case dropWhile json_ws s2 of
                  [] \<Rightarrow> Inl JEof
                | d # s3 \<Rightarrow>
                    if d \<noteq> CHR '':'' then Inl (JBad d)
                    else (case parse_value n s3 of
                       Inl e \<Rightarrow> Inl e
                     | Inr (v, r) \<Rightarrow>
                         (case dropWhile json_ws r of
                            [] \<Rightarrow> Inl JEof
                          | c # r' \<Rightarrow>
                              if c = CHR ''}'' then Inr ([(k, v)], r')
                              else if c = CHR '','' then
                                (case parse_members n r' of
                                   Inl e \<Rightarrow> Inl e | Inr (vs, t) \<Rightarrow> Inr ((k, v) # vs, t))
                              else Inl (JBad c))))))"

definition json_parse :: "string \<Rightarrow> json_err + json" where
  "json_parse s =
     (case parse_value (2 * length s + 2) s of
        Inl e \<Rightarrow> Inl e
      | Inr (v, r) \<Rightarrow> (case dropWhile json_ws r of [] \<Rightarrow> Inr v | c # _ \<Rightarrow> Inl (JBad c)))"

section \<open>Printing and parsing are inverse\<close>

fun json_wf :: "json \<Rightarrow> bool" where
  "json_wf (JNum l) = (number_ok l \<and> list_all num_char l)"
| "json_wf (JArr js) = (\<forall>j \<in> set js. json_wf j)"
| "json_wf (JObj ms) = (\<forall>p \<in> set ms. json_wf (snd p))"
| "json_wf _ = True"

lemma hex_val_hex_char: "d < 16 \<Longrightarrow> hex_val (hex_char d) = Some d"
  by (auto simp: hex_val_def hex_char_def Let_def)

lemma parse_str_plain:
  "c \<noteq> CHR 0x22 \<Longrightarrow> c \<noteq> CHR 0x5C \<Longrightarrow> \<not> (of_char c :: nat) < 32 \<Longrightarrow>
   parse_str (c # t) = push_str [c] (parse_str t)"
  by simp

lemma parse_str_unicode:
  assumes "(of_char c :: nat) < 128"
  shows "parse_str (CHR 0x5C # CHR ''u'' # CHR ''0'' # CHR ''0'' #
           hex_char (of_char c div 16) # hex_char (of_char c mod 16) # t)
         = push_str [c] (parse_str t)"
proof -
  have "hex4 CHR ''0'' CHR ''0'' (hex_char (of_char c div 16)) (hex_char (of_char c mod 16))
        = Some (of_char c)"
    using assms by (simp add: hex4_def hex_val_hex_char) (simp add: hex_val_def)
  moreover have "utf8_encode (of_char c) = [c]"
    using assms by (simp add: utf8_encode_def)
  ultimately show ?thesis by simp
qed

lemma parse_str_escape: "parse_str (json_escape c @ t) = push_str [c] (parse_str t)"
proof (cases "(of_char c :: nat) < 32 \<or> c \<in> {CHR ''<'', CHR ''>'', CHR ''&''}")
  case True
  then have "(of_char c :: nat) < 128" by auto
  note u = parse_str_unicode [OF this, of t]
  show ?thesis
    using True u unfolding json_escape_def
    by (auto simp: simple_escape_def simp del: parse_str.simps(1))
next
  case False
  then show ?thesis
    unfolding json_escape_def by (auto simp: simple_escape_def)
qed

lemma parse_str_quote:
  "parse_str (concat (map json_escape s) @ CHR 0x22 # rest) = Inr (s, rest)"
  by (induction s) (simp_all add: parse_str_escape push_str_def)

lemma dropWhile_ws_stop [simp]: "\<not> json_ws c \<Longrightarrow> dropWhile json_ws (c # r) = c # r"
  by simp

lemma not_ws [simp]:
  "\<not> json_ws CHR ''[''" "\<not> json_ws CHR '']''" "\<not> json_ws CHR ''{''" "\<not> json_ws CHR ''}''"
  "\<not> json_ws CHR '',''" "\<not> json_ws CHR '':''" "\<not> json_ws CHR 0x22" "\<not> json_ws CHR ''n''"
  "\<not> json_ws CHR ''t''" "\<not> json_ws CHR ''f''"
  by (simp_all add: json_ws_def)

lemma number_first: "number_ok l \<Longrightarrow> \<exists>c r. l = c # r \<and> (is_digit c \<or> c = CHR ''-'')"
proof (cases l)
  case (Cons c r)
  assume "number_ok l"
  with Cons show ?thesis
    by (auto simp: number_ok_def Let_def split: if_splits)
qed (simp add: number_ok_def)

lemma digit_or_minus_not:
  assumes "is_digit c \<or> c = CHR ''-''"
  shows "\<not> json_ws c" and "c \<notin> {CHR ''['', CHR ''{'', CHR 0x22, CHR ''n'', CHR ''t'', CHR ''f''}"
  using assms by (auto simp: is_digit_def json_ws_def)

definition ends_number :: "string \<Rightarrow> bool" where
  "ends_number r \<longleftrightarrow> r = [] \<or> \<not> num_char (hd r)"

lemma parse_num_print:
  assumes "number_ok l" and "list_all num_char l" and "ends_number r"
  shows "parse_num (l @ r) = Inr (JNum l, r)"
proof -
  have all: "\<forall>c \<in> set l. num_char c" using assms(2) by (simp add: list_all_iff)
  have "takeWhile num_char (l @ r) = l \<and> dropWhile num_char (l @ r) = r"
  proof (cases r)
    case Nil
    then show ?thesis using all by (simp add: takeWhile_eq_all_conv dropWhile_eq_Nil_conv)
  next
    case (Cons c t)
    with assms(3) have "\<not> num_char c" by (simp add: ends_number_def)
    with all Cons show ?thesis
      by (simp add: takeWhile_append_stop dropWhile_append_stop)
  qed
  then show ?thesis using assms(1) by (simp add: parse_num_def)
qed

lemma ends_number_punct [simp]:
  "ends_number []" "ends_number (CHR '']'' # r)" "ends_number (CHR ''}'' # r)"
  "ends_number (CHR '','' # r)"
  by (simp_all add: ends_number_def num_char_def is_digit_def)

lemma json_print_first:
  "json_wf j \<Longrightarrow> \<exists>c r. json_print j = c # r \<and> \<not> json_ws c \<and> c \<noteq> CHR '']''"
proof (cases j)
  case (JNum l)
  assume "json_wf j"
  with JNum have "number_ok l" by simp
  then obtain c r where l: "l = c # r" and c: "is_digit c \<or> c = CHR ''-''"
    using number_first by blast
  then have "c \<noteq> CHR '']''" by (auto simp: is_digit_def)
  with l JNum digit_or_minus_not(1) [OF c] show ?thesis by simp
next
  case (JBool b)
  then show ?thesis by (cases b) simp_all
next
  case (JArr js)
  then show ?thesis by simp
next
  case (JObj ms)
  then show ?thesis by simp
next
  case (JStr t)
  then show ?thesis by (simp add: json_quote_def)
qed simp

lemma json_print_nonempty: "json_wf j \<Longrightarrow> 0 < length (json_print j)"
  using json_print_first by force

lemma parse_print_mutual:
  "json_wf j \<Longrightarrow> ends_number rest \<Longrightarrow> 2 * length (json_print j) \<le> n \<Longrightarrow>
     parse_value n (json_print j @ rest) = Inr (j, rest)"
  "\<forall>j \<in> set js. json_wf j \<Longrightarrow> js \<noteq> [] \<Longrightarrow> 2 * length (json_elems js) \<le> n \<Longrightarrow>
     parse_elems n (json_elems js @ rest) = Inr (js, rest)"
  "\<forall>p \<in> set ms. json_wf (snd p) \<Longrightarrow> ms \<noteq> [] \<Longrightarrow> 2 * length (json_members ms) \<le> n \<Longrightarrow>
     parse_members n (json_members ms @ rest) = Inr (ms, rest)"
proof (induction j and js and ms arbitrary: rest n and rest n and rest n
    rule: json_print_json_elems_json_members.induct)
  case 1
  then show ?case by (cases n) (auto simp: parse_lit_def strings_HasPrefix_def)
next
  case (2 b)
  then show ?case
    by (cases b; cases n) (simp_all add: parse_lit_def strings_HasPrefix_def)
next
  case (3 l)
  then obtain c r where l: "l = c # r" and c: "is_digit c \<or> c = CHR ''-''"
    using number_first by fastforce
  from 3 obtain m where "n = Suc m" using l by (cases n) auto
  with 3 l c digit_or_minus_not [OF c] parse_num_print [of l rest] show ?case
    by auto
next
  case (4 s)
  then obtain m where "n = Suc m" by (cases n) (auto simp: json_quote_def)
  then show ?case
    by (simp add: json_quote_def parse_str_quote)
next
  case (5 js)
  then obtain m where n: "n = Suc m" by (cases n) auto
  show ?case
  proof (cases js)
    case Nil
    with n show ?thesis by simp
  next
    case (Cons x xs)
    with 5(2) obtain c r where "json_print x = c # r" "\<not> json_ws c" "c \<noteq> CHR '']''"
      using json_print_first by fastforce
    with Cons have hd: "dropWhile json_ws (json_elems js @ rest) =
        c # r @ (if xs = [] then '']'' else CHR '','' # json_elems xs) @ rest"
      by simp
    have "parse_elems m (json_elems js @ rest) = Inr (js, rest)"
      using 5 n Cons by auto
    with hd n Cons \<open>c \<noteq> CHR '']''\<close> show ?thesis by simp
  qed
next
  case (6 ms)
  then obtain m where n: "n = Suc m" by (cases n) auto
  show ?case
  proof (cases ms)
    case Nil
    with n show ?thesis by simp
  next
    case (Cons x xs)
    have "parse_members m (json_members ms @ rest) = Inr (ms, rest)"
      using 6 n Cons by auto
    with n Cons show ?thesis by (cases x) (simp add: json_quote_def)
  qed
next
  case 7
  then show ?case by simp
next
  case (8 x xs)
  have pos: "0 < length (json_print x)" using 8(3) json_print_nonempty by auto
  then obtain m where n: "n = Suc m" using 8(5) by (cases n) auto
  show ?case
  proof (cases "xs = []")
    case True
    have "parse_value m (json_print x @ CHR '']'' # rest) = Inr (x, CHR '']'' # rest)"
      using 8 n True by auto
    with True n show ?thesis by simp
  next
    case False
    have "parse_value m (json_print x @ CHR '','' # json_elems xs @ rest)
        = Inr (x, CHR '','' # json_elems xs @ rest)"
      using 8 n False by auto
    moreover have "parse_elems m (json_elems xs @ rest) = Inr (xs, rest)"
      using 8 n False pos by auto
    ultimately show ?thesis using False n by simp
  qed
next
  case 9
  then show ?case by simp
next
  case (10 k x xs)
  then obtain m where n: "n = Suc m" by (cases n) (auto simp: json_quote_def)
  have q: "parse_str (concat (map json_escape k) @ CHR 0x22 # t) = Inr (k, t)" for t
    by (rule parse_str_quote)
  show ?case
  proof (cases "xs = []")
    case True
    have "parse_value m (json_print x @ CHR ''}'' # rest) = Inr (x, CHR ''}'' # rest)"
      using 10 n True by auto
    with True n q show ?thesis by (simp add: json_quote_def)
  next
    case False
    have "parse_value m (json_print x @ CHR '','' # json_members xs @ rest)
        = Inr (x, CHR '','' # json_members xs @ rest)"
      using 10 n False by auto
    moreover have "parse_members m (json_members xs @ rest) = Inr (xs, rest)"
      using 10 n False by auto
    ultimately show ?thesis using False n q by (simp add: json_quote_def)
  qed
qed

theorem json_parse_print: "json_wf j \<Longrightarrow> json_parse (json_print j) = Inr j"
  using parse_print_mutual(1) [of j "[]" "2 * length (json_print j) + 2"]
  by (simp add: json_parse_def)


section \<open>The fuel of the parser is enough\<close>

lemma push_str_cases:
  "push_str p r = Inr (v, t) \<longleftrightarrow> (\<exists>u. r = Inr (u, t) \<and> v = p @ u)"
  "push_str p r = Inl e \<longleftrightarrow> r = Inl e"
  by (auto simp: push_str_def split: sum.splits prod.splits)

lemma parse_str_shorter: "parse_str s = Inr (v, t) \<Longrightarrow> length t < length s"
proof (induction s arbitrary: v t rule: parse_str.induct)
  case (2 c cs)
  then show ?case
    by (auto simp: push_str_cases split: if_splits list.splits option.splits) fastforce+
qed simp

lemma parse_str_no_fuel: "parse_str s \<noteq> Inl JFuel"
proof (induction s rule: parse_str.induct)
  case (2 c cs)
  then show ?case
    by (auto simp: push_str_cases split: list.splits option.splits)
qed simp

lemma dropWhile_length: "dropWhile P s = c # r \<Longrightarrow> length r < length s"
  by (metis Suc_le_lessD length_Cons length_dropWhile_le)

lemma parse_lit_shorter: "w \<noteq> [] \<Longrightarrow> parse_lit w v s = Inr (u, t) \<Longrightarrow> length t < length s"
  by (auto simp: parse_lit_def strings_HasPrefix_iff split: if_splits)

lemma parse_num_shorter:
  assumes "parse_num s = Inr (u, t)" shows "length t < length s"
proof -
  from assms have t: "t = dropWhile num_char s" and ok: "number_ok (takeWhile num_char s)"
    by (auto simp: parse_num_def Let_def split: if_splits)
  from number_first [OF ok] have "0 < length (takeWhile num_char s)" by auto
  then show ?thesis
    using t takeWhile_dropWhile_id [of num_char s] length_append
    by (metis less_add_same_cancel2)
qed

lemma parse_lit_no_fuel: "parse_lit w v s \<noteq> Inl JFuel"
  by (simp add: parse_lit_def)

lemma parse_num_no_fuel: "parse_num s \<noteq> Inl JFuel"
  by (simp add: parse_num_def Let_def)

lemmas parse_tok_shorter = parse_str_shorter parse_lit_shorter parse_num_shorter

definition shorter :: "string \<Rightarrow> json_err + 'a \<times> string \<Rightarrow> bool" where
  "shorter s r \<longleftrightarrow> (case r of Inl e \<Rightarrow> True | Inr (v, t) \<Rightarrow> length t < length s)"

definition fueled :: "json_err + 'a \<Rightarrow> bool" where
  "fueled r \<longleftrightarrow> r \<noteq> Inl JFuel"

lemma shorter_simps [simp]:
  "shorter s (Inl e)" "shorter s (Inr (v, t)) = (length t < length s)"
  by (simp_all add: shorter_def)

lemma fueled_simps [simp]: "fueled (Inl e) = (e \<noteq> JFuel)" "fueled (Inr x)"
  by (simp_all add: fueled_def)

lemma shorter_bind:
  assumes "shorter s r" and "\<And>v t. r = Inr (v, t) \<Longrightarrow> length t < length s \<Longrightarrow> shorter s (f v t)"
  shows "shorter s (case r of Inl e \<Rightarrow> Inl e | Inr (v, t) \<Rightarrow> f v t)"
  using assms by (auto simp: shorter_def split: sum.splits)

lemma fueled_bind:
  assumes "fueled r" and "\<And>v t. r = Inr (v, t) \<Longrightarrow> fueled (f v t)"
  shows "fueled (case r of Inl e \<Rightarrow> Inl e | Inr (v, t) \<Rightarrow> f v t)"
  using assms by (auto split: sum.splits)

lemma shorter_mono: "shorter s' r \<Longrightarrow> length s' \<le> length s \<Longrightarrow> shorter s r"
  by (auto simp: shorter_def split: sum.splits)

lemma shorter_drop:
  assumes "\<And>c r. dropWhile json_ws s' = c # r \<Longrightarrow> length r < length s' \<Longrightarrow> shorter s (f c r)"
  shows "shorter s (case dropWhile json_ws s' of [] \<Rightarrow> Inl JEof | c # r \<Rightarrow> f c r)"
  by (cases "dropWhile json_ws s'"; simp only: list.case fueled_simps shorter_simps)
     (simp_all add: assms dropWhile_length)

lemma fueled_drop:
  assumes "\<And>c r. dropWhile json_ws s' = c # r \<Longrightarrow> length r < length s' \<Longrightarrow> fueled (f c r)"
  shows "fueled (case dropWhile json_ws s' of [] \<Rightarrow> Inl JEof | c # r \<Rightarrow> f c r)"
  by (cases "dropWhile json_ws s'"; simp only: list.case fueled_simps shorter_simps)
     (simp_all add: assms dropWhile_length)

lemma shorter_if:
  "(b \<Longrightarrow> shorter s x) \<Longrightarrow> (\<not> b \<Longrightarrow> shorter s y) \<Longrightarrow> shorter s (if b then x else y)"
  by simp

lemma fueled_if: "(b \<Longrightarrow> fueled x) \<Longrightarrow> (\<not> b \<Longrightarrow> fueled y) \<Longrightarrow> fueled (if b then x else y)"
  by simp

lemmas shorter_rules = shorter_drop shorter_bind shorter_if
lemmas fueled_rules = fueled_drop fueled_bind fueled_if

lemma shorter_tok:
  "shorter s (parse_str s)" "shorter s (parse_num s)" "w \<noteq> [] \<Longrightarrow> shorter s (parse_lit w v s)"
  by (auto simp: shorter_def parse_str_shorter parse_num_shorter split: sum.splits
      dest: parse_lit_shorter)

lemma fueled_tok: "fueled (parse_str s)" "fueled (parse_num s)" "fueled (parse_lit w v s)"
  by (simp_all add: fueled_def parse_str_no_fuel parse_num_no_fuel parse_lit_no_fuel)

lemma shorter_dropWhile:
  "dropWhile P s = c # r \<Longrightarrow> shorter (c # r) x \<Longrightarrow> shorter s x"
  by (metis length_dropWhile_le shorter_mono)

lemma parse_value_shorter:
  assumes ih: "\<And>s. shorter s (parse_elems n s)" "\<And>s. shorter s (parse_members n s)"
  shows "shorter s (parse_value (Suc n) s)"
  unfolding parse_value.simps
proof (intro shorter_rules, goal_cases)
  case (2 c r d r')
  then show ?case by (intro shorter_mono [OF ih(1)]) simp
next
  case (5 c r d r')
  then show ?case by (intro shorter_mono [OF ih(2)]) simp
next
  case (7 c r)
  then show ?case by (intro shorter_mono [OF shorter_tok(1)]) simp
next
  case (9 c r)
  show ?case by (rule shorter_dropWhile [OF 9(1)], rule shorter_tok) simp
next
  case (10 c r)
  show ?case by (rule shorter_dropWhile [OF 10(1)], rule shorter_tok) simp
next
  case (11 c r)
  show ?case by (rule shorter_dropWhile [OF 11(1)], rule shorter_tok) simp
next
  case (12 c r)
  show ?case by (rule shorter_dropWhile [OF 12(1)], rule shorter_tok)
qed auto

lemma parse_shorter:
  "shorter s (parse_value n s)" "shorter s (parse_elems n s)" "shorter s (parse_members n s)"
proof (induction n arbitrary: s)
  case (Suc n)
  {
    case 1
    show ?case by (rule parse_value_shorter) (rule Suc)+
  next
    case 2
    show ?case
      unfolding parse_elems.simps
      by (intro shorter_rules Suc(1) shorter_mono [OF Suc(2)]) simp_all
  next
    case 3
    show ?case
      unfolding parse_members.simps
      by (intro shorter_rules shorter_mono [OF Suc(1)] shorter_mono [OF Suc(3)]
          shorter_mono [OF shorter_tok(1)]) simp_all
  }
qed simp_all

lemma fueled_bind_shorter:
  assumes "shorter s r" and "fueled r"
    and "\<And>v t. r = Inr (v, t) \<Longrightarrow> length t < length s \<Longrightarrow> fueled (f v t)"
  shows "fueled (case r of Inl e \<Rightarrow> Inl e | Inr (v, t) \<Rightarrow> f v t)"
  using assms by (auto simp: shorter_def split: sum.splits)

lemmas fueled_bind_value = fueled_bind_shorter [OF parse_shorter(1)]
lemmas fueled_bind_str = fueled_bind_shorter [OF shorter_tok(1)]

lemma parse_fueled:
  "2 * length s < n \<Longrightarrow> fueled (parse_value n s)"
  "2 * length s + 1 < n \<Longrightarrow> fueled (parse_elems n s)"
  "2 * length s + 1 < n \<Longrightarrow> fueled (parse_members n s)"
proof (induction n arbitrary: s)
  case (Suc n)
  {
    case 1
    then show ?case
      unfolding parse_value.simps
      by (intro fueled_rules fueled_tok Suc.IH) simp_all
  next
    case 2
    then show ?case
      unfolding parse_elems.simps
      by (intro fueled_bind_value fueled_rules Suc.IH) simp_all
  next
    case 3
    then show ?case
      unfolding parse_members.simps
      by (intro fueled_bind_value fueled_bind_str fueled_rules fueled_tok Suc.IH) simp_all
  }
qed simp_all

theorem json_parse_no_fuel_error: "json_parse s \<noteq> Inl JFuel"
proof -
  have "fueled (parse_value (2 * length s + 2) s)" by (rule parse_fueled) simp
  then show ?thesis
    unfolding json_parse_def fueled_def
    by (auto split: sum.split list.split simp del: parse_value.simps)
qed

declare parse_value.simps [simp del] parse_elems.simps [simp del] parse_members.simps [simp del]
  json_print.simps [simp del] json_elems.simps [simp del] json_members.simps [simp del]

section \<open>Base64\<close>

definition b64_char :: "nat \<Rightarrow> char" where
  "b64_char m = (let n = m mod 64 in
     if n < 26 then char_of (65 + n)
     else if n < 52 then char_of (71 + n)
     else if n < 62 then char_of (n - 4)
     else if n = 62 then CHR ''+'' else CHR ''/'')"

definition b64_val :: "char \<Rightarrow> nat option" where
  "b64_val c = (let n = (of_char c :: nat) in
     if 65 \<le> n \<and> n \<le> 90 then Some (n - 65)
     else if 97 \<le> n \<and> n \<le> 122 then Some (n - 71)
     else if 48 \<le> n \<and> n \<le> 57 then Some (n + 4)
     else if n = 43 then Some 62
     else if n = 47 then Some 63
     else None)"

text \<open>\<^verbatim>\<open>base64.StdEncoding\<close>: three bytes become four letters, the last group is padded with \<^verbatim>\<open>=\<close>.\<close>

fun b64_encode :: "bytes \<Rightarrow> string" where
  "b64_encode [] = []"
| "b64_encode [a] =
     (let n = (of_char a :: nat) in [b64_char (n div 4), b64_char (n * 16), CHR ''='', CHR ''=''])"
| "b64_encode [a, b] =
     (let n = (of_char a :: nat) * 256 + of_char b
      in [b64_char (n div 1024), b64_char (n div 16), b64_char (n * 4), CHR ''=''])"
| "b64_encode (a # b # c # r) =
     (let n = ((of_char a :: nat) * 256 + of_char b) * 256 + of_char c
      in b64_char (n div 262144) # b64_char (n div 4096) # b64_char (n div 64) # b64_char n
         # b64_encode r)"

fun b64_quads :: "string \<Rightarrow> bytes option" where
  "b64_quads [] = Some []"
| "b64_quads (w # x # y # z # r) =
     (case (b64_val w, b64_val x) of
        (Some w, Some x) \<Rightarrow>
          (if y = CHR ''='' then
             (if z = CHR ''='' \<and> r = [] then Some [char_of (w * 4 + x div 16)] else None)
           else (case b64_val y of
               None \<Rightarrow> None
             | Some y \<Rightarrow>
                 if z = CHR ''='' then
                   (if r = [] then Some [char_of (w * 4 + x div 16), char_of (x mod 16 * 16 + y div 4)]
                    else None)
                 else (case (b64_val z, b64_quads r) of
                     (Some z, Some bs) \<Rightarrow>
                       Some (char_of (w * 4 + x div 16) # char_of (x mod 16 * 16 + y div 4)
                             # char_of (y mod 4 * 64 + z) # bs)
                   | _ \<Rightarrow> None)))
      | _ \<Rightarrow> None)"
| "b64_quads _ = None"

text \<open>The decoder skips line breaks.\<close>

definition b64_decode :: "string \<Rightarrow> bytes option" where
  "b64_decode s = b64_quads (filter (\<lambda>c. c \<noteq> CHR 0x0A \<and> c \<noteq> CHR 0x0D) s)"

lemma b64_val_char: "b64_val (b64_char n) = Some (n mod 64)"
proof -
  have "n mod 64 < 64" by simp
  then show ?thesis by (auto simp: b64_val_def b64_char_def Let_def)
qed

lemma b64_char_plain [simp]:
  "b64_char n \<noteq> CHR ''=''" "b64_char n \<noteq> CHR 0x0A" "b64_char n \<noteq> CHR 0x0D"
proof -
  have "b64_val c \<noteq> None \<Longrightarrow> c \<noteq> CHR ''='' \<and> c \<noteq> CHR 0x0A \<and> c \<noteq> CHR 0x0D" for c
    by (auto simp: b64_val_def)
  then show "b64_char n \<noteq> CHR ''=''" "b64_char n \<noteq> CHR 0x0A" "b64_char n \<noteq> CHR 0x0D"
    by (metis b64_val_char option.simps(3))+
qed

lemma b64_split1:
  assumes "a < (256::nat)"
  shows "a div 4 mod 64 * 4 + a * 16 mod 64 div 16 = a"
proof -
  define a1 a0 where "a1 = a div 4" "a0 = a mod 4"
  then have a: "a = 4 * a1 + a0" and lt: "a1 < 64" "a0 < 4" using assms by auto
  have d: "a * 16 = 64 * a1 + 16 * a0" using a by simp
  show ?thesis unfolding d mod_mult_self4 using a lt by simp
qed

lemma b64_split2:
  assumes "a < 256" "b < (256::nat)"
  shows "(a * 256 + b) div 1024 mod 64 * 4 + (a * 256 + b) div 16 mod 64 div 16 = a"
    "(a * 256 + b) div 16 mod 64 mod 16 * 16 + (a * 256 + b) * 4 mod 64 div 4 = b"
proof -
  define a1 a0 b1 b0 where "a1 = a div 4" "a0 = a mod 4" "b1 = b div 16" "b0 = b mod 16"
  then have ab: "a = 4 * a1 + a0" "b = 16 * b1 + b0" and lt: "a1 < 64" "a0 < 4" "b1 < 16" "b0 < 16"
    using assms by auto
  have n: "a * 256 + b = 1024 * a1 + (256 * a0 + 16 * b1 + b0)" using ab by simp
  have d1: "(a * 256 + b) div 1024 = a1" unfolding n using lt by simp
  have d2: "(a * 256 + b) div 16 = 64 * a1 + (16 * a0 + b1)" unfolding n using lt by (simp add: algebra_simps)
  have d3: "(a * 256 + b) * 4 = 64 * (64 * a1 + 16 * a0 + b1) + 4 * b0" unfolding n by simp
  show "(a * 256 + b) div 1024 mod 64 * 4 + (a * 256 + b) div 16 mod 64 div 16 = a"
    unfolding d1 d2 using ab lt by simp
  show "(a * 256 + b) div 16 mod 64 mod 16 * 16 + (a * 256 + b) * 4 mod 64 div 4 = b"
    unfolding d2 d3 mod_mult_self4 using ab lt by simp
qed

lemma b64_split3:
  assumes "a < 256" "b < 256" "c < (256::nat)"
  defines "n \<equiv> (a * 256 + b) * 256 + c"
  shows "n div 262144 mod 64 * 4 + n div 4096 mod 64 div 16 = a"
    "n div 4096 mod 64 mod 16 * 16 + n div 64 mod 64 div 4 = b"
    "n div 64 mod 64 mod 4 * 64 + n mod 64 = c"
proof -
  define a1 a0 b1 b0 c1 c0 where "a1 = a div 4" "a0 = a mod 4" "b1 = b div 16" "b0 = b mod 16"
    "c1 = c div 64" "c0 = c mod 64"
  then have abc: "a = 4 * a1 + a0" "b = 16 * b1 + b0" "c = 64 * c1 + c0"
    and lt: "a1 < 64" "a0 < 4" "b1 < 16" "b0 < 16" "c1 < 4" "c0 < 64"
    using assms by auto
  have n: "n = 262144 * a1 + (65536 * a0 + 4096 * b1 + 256 * b0 + 64 * c1 + c0)"
    using abc by (simp add: n_def)
  have d1: "n div 262144 = a1" unfolding n using lt by simp
  have "n = 4096 * (64 * a1 + (16 * a0 + b1)) + (256 * b0 + 64 * c1 + c0)" by (simp add: n)
  then have d2: "n div 4096 = 64 * a1 + (16 * a0 + b1)" using lt by simp
  have n3: "n = 64 * (64 * (64 * a1 + (16 * a0 + b1)) + (4 * b0 + c1)) + c0" by (simp add: n)
  then have d3: "n div 64 = 64 * (64 * a1 + (16 * a0 + b1)) + (4 * b0 + c1)" using lt by simp
  have d4: "n mod 64 = c0" unfolding n3 mod_mult_self4 using lt by simp
  show "n div 262144 mod 64 * 4 + n div 4096 mod 64 div 16 = a"
    "n div 4096 mod 64 mod 16 * 16 + n div 64 mod 64 div 4 = b"
    "n div 64 mod 64 mod 4 * 64 + n mod 64 = c"
    unfolding d1 d2 d3 d4 mod_mult_self4 using abc lt by simp_all
qed

lemma b64_quads_encode: "b64_quads (b64_encode bs) = Some bs"
proof (induction bs rule: b64_encode.induct)
  case (2 a)
  show ?case by (simp add: Let_def b64_val_char b64_split1 [OF of_char_bound [of a]])
next
  case (3 a b)
  note s = b64_split2 [OF of_char_bound [of a] of_char_bound [of b]]
  from s show ?case by (simp add: Let_def b64_val_char)
next
  case (4 a b c r)
  note s = b64_split3 [OF of_char_bound [of a] of_char_bound [of b] of_char_bound [of c]]
  from 4 s show ?case by (simp add: Let_def b64_val_char)
qed simp

lemma b64_encode_no_break:
  "filter (\<lambda>c. c \<noteq> CHR 0x0A \<and> c \<noteq> CHR 0x0D) (b64_encode bs) = b64_encode bs"
  by (induction bs rule: b64_encode.induct) (simp_all add: Let_def)

theorem b64_decode_encode [codec_simps]: "b64_decode (b64_encode bs) = Some bs"
  by (simp add: b64_decode_def b64_encode_no_break b64_quads_encode)

section \<open>Struct codecs\<close>

text \<open>
  How a field of each Go type is written. A nil slice is \<^verbatim>\<open>null\<close>.
\<close>

definition enc_bytes :: "slice \<Rightarrow> json" where
  "enc_bytes b = (case b of None \<Rightarrow> JNull | Some bs \<Rightarrow> JStr (b64_encode bs))"

definition enc_int :: "int \<Rightarrow> json" where
  "enc_int i = JNum (itoa i)"

definition enc_uint :: "nat \<Rightarrow> json" where
  "enc_uint n = JNum (utoa n)"

definition enc_strs :: "string list option \<Rightarrow> json" where
  "enc_strs l = (case l of None \<Rightarrow> JNull | Some xs \<Rightarrow> JArr (map JStr xs))"

text \<open>
  A field decoder updates the struct and tells whether the value had the wrong type; a value of
  the wrong type leaves the field as it is and decoding goes on. \<^verbatim>\<open>null\<close> leaves strings, numbers
  and booleans alone and sets slices to nil. The structs decoded into are fresh, so the elements of an
  array decoded into a byte slice start at zero.
\<close>

type_synonym 'r decoder = "json \<Rightarrow> 'r \<Rightarrow> 'r \<times> bool"

definition fld_str :: "((string \<Rightarrow> string) \<Rightarrow> 'r \<Rightarrow> 'r) \<Rightarrow> 'r decoder" where
  "fld_str upd j r =
     (case j of JNull \<Rightarrow> (r, False) | JStr s \<Rightarrow> (upd (\<lambda>_. s) r, False) | _ \<Rightarrow> (r, True))"

definition fld_bool :: "((bool \<Rightarrow> bool) \<Rightarrow> 'r \<Rightarrow> 'r) \<Rightarrow> 'r decoder" where
  "fld_bool upd j r =
     (case j of JNull \<Rightarrow> (r, False) | JBool b \<Rightarrow> (upd (\<lambda>_. b) r, False) | _ \<Rightarrow> (r, True))"

definition parse_int64 :: "string \<Rightarrow> int option" where
  "parse_int64 s =
     (let (neg, d) = (case s of c # r \<Rightarrow> if c = CHR ''-'' then (True, r) else (False, s) | [] \<Rightarrow> (False, []))
      in case atou d of
           None \<Rightarrow> None
         | Some n \<Rightarrow> (let i = (if neg then - int n else int n) in if in_int64 i then Some i else None))"

definition fld_int :: "((int \<Rightarrow> int) \<Rightarrow> 'r \<Rightarrow> 'r) \<Rightarrow> 'r decoder" where
  "fld_int upd j r =
     (case j of
        JNull \<Rightarrow> (r, False)
      | JNum l \<Rightarrow> (case parse_int64 l of None \<Rightarrow> (r, True) | Some i \<Rightarrow> (upd (\<lambda>_. i) r, False))
      | _ \<Rightarrow> (r, True))"

text \<open>A field of type \<^verbatim>\<open>uint64\<close>.\<close>

definition fld_uint64 :: "((nat \<Rightarrow> nat) \<Rightarrow> 'r \<Rightarrow> 'r) \<Rightarrow> 'r decoder" where
  "fld_uint64 upd j r =
     (case j of
        JNull \<Rightarrow> (r, False)
      | JNum l \<Rightarrow>
          (case atou l of
             None \<Rightarrow> (r, True)
           | Some n \<Rightarrow> if n < 2 ^ 64 then (upd (\<lambda>_. n) r, False) else (r, True))
      | _ \<Rightarrow> (r, True))"

definition byte_elem :: "json \<Rightarrow> char \<times> bool" where
  "byte_elem j =
     (case j of
        JNull \<Rightarrow> (CHR 0x00, False)
      | JNum l \<Rightarrow> (case atou l of
                    Some n \<Rightarrow> if n < 256 then (char_of n, False) else (CHR 0x00, True)
                  | None \<Rightarrow> (CHR 0x00, True))
      | _ \<Rightarrow> (CHR 0x00, True))"

definition fld_bytes :: "((slice \<Rightarrow> slice) \<Rightarrow> 'r \<Rightarrow> 'r) \<Rightarrow> 'r decoder" where
  "fld_bytes upd j r =
     (case j of
        JNull \<Rightarrow> (upd (\<lambda>_. None) r, False)
      | JStr s \<Rightarrow> (case b64_decode s of None \<Rightarrow> (r, True) | Some bs \<Rightarrow> (upd (\<lambda>_. Some bs) r, False))
      | JArr js \<Rightarrow> (upd (\<lambda>_. Some (map (fst \<circ> byte_elem) js)) r, list_ex (snd \<circ> byte_elem) js)
      | _ \<Rightarrow> (r, True))"

definition str_elem :: "json \<Rightarrow> string \<times> bool" where
  "str_elem j = (case j of JNull \<Rightarrow> ([], False) | JStr s \<Rightarrow> (s, False) | _ \<Rightarrow> ([], True))"

definition fld_strs :: "((string list option \<Rightarrow> string list option) \<Rightarrow> 'r \<Rightarrow> 'r) \<Rightarrow> 'r decoder" where
  "fld_strs upd j r =
     (case j of
        JNull \<Rightarrow> (upd (\<lambda>_. None) r, False)
      | JArr js \<Rightarrow> (upd (\<lambda>_. Some (map (fst \<circ> str_elem) js)) r, list_ex (snd \<circ> str_elem) js)
      | _ \<Rightarrow> (r, True))"

text \<open>
  \<^verbatim>\<open>json.Unmarshal\<close> matches a key to the field of that name, or else to the first one whose name
  is equal up to letter case; unknown keys are ignored and the last duplicate wins.
\<close>

definition find_field :: "(string \<times> 'r decoder) list \<Rightarrow> string \<Rightarrow> 'r decoder option" where
  "find_field fs k =
     (case map_of fs k of
        Some d \<Rightarrow> Some d
      | None \<Rightarrow> (case filter (\<lambda>(n, _). strings_ToLower n = strings_ToLower k) fs of
                  [] \<Rightarrow> None | (_, d) # _ \<Rightarrow> Some d))"

fun decode_members :: "(string \<times> 'r decoder) list \<Rightarrow> (string \<times> json) list \<Rightarrow> 'r \<Rightarrow> 'r \<times> bool" where
  "decode_members fs [] r = (r, False)"
| "decode_members fs ((k, v) # ms) r =
     (case find_field fs k of
        None \<Rightarrow> decode_members fs ms r
      | Some d \<Rightarrow> (let (r1, e1) = d v r; (r2, e2) = decode_members fs ms r1 in (r2, e1 \<or> e2)))"

definition decode_struct :: "(string \<times> 'r decoder) list \<Rightarrow> 'r decoder" where
  "decode_struct fs j r =
     (case j of JNull \<Rightarrow> (r, False) | JObj ms \<Rightarrow> decode_members fs ms r | _ \<Rightarrow> (r, True))"

definition json_syntax_error :: "json_err \<Rightarrow> go_error" where
  "json_syntax_error e =
     (case e of JEof \<Rightarrow> errorf ''unexpected end of JSON input''
              | _ \<Rightarrow> errorf ''invalid character'')"

definition json_type_error :: go_error where
  "json_type_error = errorf ''json: cannot unmarshal''"

definition json_Unmarshal :: "'r decoder \<Rightarrow> bytes \<Rightarrow> 'r \<Rightarrow> 'r \<times> go_error option" where
  "json_Unmarshal dec s r =
     (case json_parse s of
        Inl e \<Rightarrow> (r, Some (json_syntax_error e))
      | Inr j \<Rightarrow> (let (r', bad) = dec j r in (r', if bad then Some json_type_error else None)))"

lemma parse_int64_itoa: "in_int64 i \<Longrightarrow> parse_int64 (itoa i) = Some i"
proof -
  assume r: "in_int64 i"
  obtain c t where u: "utoa (nat i) = c # t" by (meson neq_Nil_conv utoa_not_Nil)
  then have "is_digit c" using utoa_chars [of c "nat i"] by simp
  then have "c \<noteq> CHR ''-''" using not_digit_minus by blast
  with r u atou_utoa [of "nat i"] show ?thesis
    by (auto simp: parse_int64_def itoa_def Let_def atou_utoa)
qed

lemma number_ok_utoa: "number_ok (utoa n)" "number_ok (CHR ''-'' # utoa n)"
proof -
  have all: "\<forall>c \<in> set (utoa n). is_digit c" using utoa_chars by blast
  have tw: "takeWhile is_digit (utoa n) = utoa n" "dropWhile is_digit (utoa n) = []"
    using all by (simp_all add: takeWhile_eq_all_conv)
  have lead: "hd (utoa n) = CHR ''0'' \<longrightarrow> length (utoa n) = 1" for n
  proof (induction n rule: utoa.induct)
    case (1 n)
    show ?case
    proof (cases "n < 10")
      case True
      then show ?thesis by (simp add: utoa.simps [of n])
    next
      case False
      have "hd (utoa (n div 10)) \<noteq> CHR ''0''"
      proof
        assume z: "hd (utoa (n div 10)) = CHR ''0''"
        with 1 False have "length (utoa (n div 10)) = 1" by simp
        with z have "utoa (n div 10) = utoa 0"
          using of_char_digit_char [of 0]
          by (cases "utoa (n div 10)") (simp_all add: utoa.simps [of 0] of_char_eq_iff [symmetric, where 'a = nat] del: of_char_eq_iff)
        with False show False by (simp add: utoa_inject)
      qed
      with False show ?thesis by (simp add: utoa.simps [of n] utoa_not_Nil)
    qed
  qed
  obtain c t where u: "utoa n = c # t" by (meson neq_Nil_conv utoa_not_Nil)
  then have c: "c \<noteq> CHR ''-''" using all not_digit_minus by auto
  have strip: "(case utoa n of [] \<Rightarrow> [] | c # r \<Rightarrow> if c = CHR ''-'' then r else utoa n) = utoa n"
    using c by (simp add: u)
  show "number_ok (CHR ''-'' # utoa n)"
    using lead [of n] by (simp add: number_ok_def utoa_not_Nil frac_ok_def tw)
  show "number_ok (utoa n)"
    unfolding number_ok_def strip Let_def tw frac_ok_def using lead [of n] utoa_not_Nil by simp
qed

lemma json_wf_enc [simp]:
  "json_wf (enc_int i)" "json_wf (enc_uint n)" "json_wf (enc_bytes b)" "json_wf (enc_strs l)"
proof -
  have "list_all num_char (utoa n)" for n
    using utoa_chars by (auto simp: list_all_iff num_char_def)
  then show "json_wf (enc_int i)" "json_wf (enc_uint n)"
    by (auto simp: enc_int_def enc_uint_def itoa_def number_ok_utoa num_char_def)
qed (auto simp: enc_bytes_def enc_strs_def split: option.splits)

lemma str_elem_JStr [simp]: "str_elem (JStr s) = (s, False)"
  by (simp add: str_elem_def)

lemma fld_enc [codec_simps]:
  "fld_str upd (JStr s) r = (upd (\<lambda>_. s) r, False)"
  "fld_bool upd' (JBool b) r = (upd' (\<lambda>_. b) r, False)"
  "in_int64 i \<Longrightarrow> fld_int upd'' (enc_int i) r = (upd'' (\<lambda>_. i) r, False)"
  "n < 2 ^ 64 \<Longrightarrow> fld_uint64 upd5 (enc_uint n) r = (upd5 (\<lambda>_. n) r, False)"
  "fld_bytes upd3 (enc_bytes bs) r = (upd3 (\<lambda>_. bs) r, False)"
  "fld_strs upd4 (enc_strs l) r = (upd4 (\<lambda>_. l) r, False)"
  by (auto simp: fld_str_def fld_bool_def fld_int_def enc_int_def parse_int64_itoa fld_bytes_def fld_uint64_def enc_uint_def atou_utoa
      enc_bytes_def b64_decode_encode fld_strs_def enc_strs_def comp_def list_ex_iff
      split: option.splits)

lemma json_Unmarshal_print [codec_simps]:
  "json_wf j \<Longrightarrow> json_Unmarshal dec (json_print j) r
     = (fst (dec j r), if snd (dec j r) then Some json_type_error else None)"
  by (simp add: json_Unmarshal_def json_parse_print split: prod.split)

end
