(* ===== verification/Msg_Types.thy ===== *)
theory Msg_Types
  imports Json Error_Codes "HOL-Library.Multiset"
begin

text \<open>
  \<^verbatim>\<open>pkg/types\<close> and \<^verbatim>\<open>pkg/constant/topics.go\<close>: the messages an initiator sends, the responses the nodes
  return, the messages nodes exchange during a protocol run, their JSON codecs, and the request and
  result topics. The lemmas show the round trip of every codec, that \<^verbatim>\<open>Raw\<close> does not depend on the
  signature and binds every other field, and where the signed texts of two message types coincide.

  The tss library is a parameter: a record \<open>tss_lib\<close> with the functions that the code calls, and
  \<open>tss_lib_ok\<close> with what the library documents about them. \<open>tss_lib_ref\<close> is a concrete instance for
  witnesses. \<^verbatim>\<open>json.Marshal\<close> cannot fail on any of the types below, so the model of a marshaller
  returns bytes.
\<close>

section \<open>The tss library\<close>

record party_id =
  pid_Id :: string
  pid_Moniker :: string
  pid_Key :: bytes
  pid_Index :: int

record tss_lib =
  tl_NewPartyID :: "string \<Rightarrow> string \<Rightarrow> nat \<Rightarrow> party_id"
  tl_KeyInt :: "party_id \<Rightarrow> nat"
  tl_SortPartyIDs :: "party_id list \<Rightarrow> party_id list"
  tl_pid_json :: "party_id \<Rightarrow> json"
  tl_pid_unjson :: "json \<Rightarrow> party_id option"

definition pid_face :: "tss_lib \<Rightarrow> party_id \<Rightarrow> string \<times> string \<times> nat" where
  "pid_face T p = (pid_Id p, pid_Moniker p, tl_KeyInt T p)"

text \<open>
  What the library documents: a new party ID carries its arguments, \<^verbatim>\<open>SortPartyIDs\<close> returns the same
  parties in the order of their keys (it renumbers \<^verbatim>\<open>Index\<close>), and party IDs survive JSON.
\<close>

definition tss_lib_ok :: "tss_lib \<Rightarrow> bool" where
  "tss_lib_ok T \<longleftrightarrow>
     (\<forall>i m k. pid_face T (tl_NewPartyID T i m k) = (i, m, k)) \<and>
     (\<forall>ps. sorted (map (tl_KeyInt T) (tl_SortPartyIDs T ps)) \<and>
           mset (map (pid_face T) (tl_SortPartyIDs T ps)) = mset (map (pid_face T) ps)) \<and>
     (\<forall>p. tl_pid_unjson T (tl_pid_json T p) = Some p \<and> tl_pid_json T p \<noteq> JNull
          \<and> json_wf (tl_pid_json T p))"

definition KeyInt_ref :: "party_id \<Rightarrow> nat" where
  "KeyInt_ref p = big_SetBytes (pid_Key p)"

definition tss_lib_ref :: tss_lib where
  "tss_lib_ref =
     \<lparr>tl_NewPartyID = \<lambda>i m k. \<lparr>pid_Id = i, pid_Moniker = m, pid_Key = big_Bytes k, pid_Index = 0\<rparr>,
      tl_KeyInt = KeyInt_ref,
      tl_SortPartyIDs = sort_key KeyInt_ref,
      tl_pid_json = (\<lambda>p. JArr [JStr (pid_Id p), JStr (pid_Moniker p), JStr (pid_Key p),
                         JBool (0 \<le> pid_Index p), JStr (replicate (nat (abs (pid_Index p))) CHR ''i'')]),
      tl_pid_unjson = (\<lambda>j. case j of
         JArr [JStr i, JStr m, JStr k, JBool b, JStr n] \<Rightarrow>
           Some \<lparr>pid_Id = i, pid_Moniker = m, pid_Key = k,
                 pid_Index = (if b then int (length n) else - int (length n))\<rparr>
       | _ \<Rightarrow> None)\<rparr>"

lemma tss_lib_ref_ok: "tss_lib_ok tss_lib_ref"
  by (auto simp: tss_lib_ok_def tss_lib_ref_def pid_face_def KeyInt_ref_def big_SetBytes_Bytes)

lemma tss_lib_okD:
  assumes "tss_lib_ok T"
  shows "tl_KeyInt T (tl_NewPartyID T i m k) = k" "pid_Id (tl_NewPartyID T i m k) = i"
    "pid_Moniker (tl_NewPartyID T i m k) = m" "sorted (map (tl_KeyInt T) (tl_SortPartyIDs T ps))"
    "mset (map (pid_face T) (tl_SortPartyIDs T ps)) = mset (map (pid_face T) ps)"
    "tl_pid_unjson T (tl_pid_json T p) = Some p" "tl_pid_json T p \<noteq> JNull" "json_wf (tl_pid_json T p)"
  using assms by (auto simp: tss_lib_ok_def pid_face_def)

section \<open>Key types and topics\<close>

definition KeyTypeSecp256k1 :: string where "KeyTypeSecp256k1 = ''secp256k1''"
definition KeyTypeEd25519 :: string where "KeyTypeEd25519 = ''ed25519''"
definition EventInitiatorKeyTypeEd25519 :: string where "EventInitiatorKeyTypeEd25519 = ''ed25519''"
definition EventInitiatorKeyTypeP256 :: string where "EventInitiatorKeyTypeP256 = ''p256''"

definition KeygenResultCompleteTopic :: string where
  "KeygenResultCompleteTopic = ''mpc.mpc_keygen_result.complete''"
definition SigningResultCompleteTopic :: string where
  "SigningResultCompleteTopic = ''mpc.mpc_signing_result.complete''"
definition ResharingResultCompleteTopic :: string where
  "ResharingResultCompleteTopic = ''mpc.mpc_resharing_result.complete''"

definition FormatKeygenRequestTopic :: "string \<Rightarrow> string" where
  "FormatKeygenRequestTopic walletID = ''mpc.keygen_request.'' @ walletID"
definition FormatSigningRequestTopic :: "string \<Rightarrow> string" where
  "FormatSigningRequestTopic txID = ''mpc.signing_request.'' @ txID"
definition FormatResharingRequestTopic :: "string \<Rightarrow> string" where
  "FormatResharingRequestTopic walletID = ''mpc.resharing_request.'' @ walletID"
definition FormatKeygenResultTopic :: "string \<Rightarrow> string" where
  "FormatKeygenResultTopic walletID = ''mpc.mpc_keygen_result.'' @ walletID"
definition FormatSigningResultTopic :: "string \<Rightarrow> string" where
  "FormatSigningResultTopic txID = ''mpc.mpc_signing_result.'' @ txID"
definition FormatResharingResultTopic :: "string \<Rightarrow> string" where
  "FormatResharingResultTopic walletID = ''mpc.mpc_resharing_result.'' @ walletID"

section \<open>Requests of the initiator\<close>

record KeygenMessage =
  km_WalletID :: string
  km_Signature :: slice

record SigningMessage =
  sm_KeyType :: string
  sm_WalletID :: string
  sm_TxID :: string
  sm_Tx :: slice
  sm_Signature :: slice

record ResharingMessage =
  rm_SessionID :: string
  rm_NodeIDs :: "string list option"
  rm_NewThreshold :: int
  rm_KeyType :: string
  rm_WalletID :: string
  rm_Signature :: slice

definition KeygenMessage_zero :: KeygenMessage where
  "KeygenMessage_zero = \<lparr>km_WalletID = [], km_Signature = None\<rparr>"

definition SigningMessage_zero :: SigningMessage where
  "SigningMessage_zero = \<lparr>sm_KeyType = [], sm_WalletID = [], sm_TxID = [], sm_Tx = None, sm_Signature = None\<rparr>"

definition ResharingMessage_zero :: ResharingMessage where
  "ResharingMessage_zero = \<lparr>rm_SessionID = [], rm_NodeIDs = None, rm_NewThreshold = 0, rm_KeyType = [],
     rm_WalletID = [], rm_Signature = None\<rparr>"

definition KeygenMessage_json :: "KeygenMessage \<Rightarrow> json" where
  "KeygenMessage_json m =
     JObj [(''wallet_id'', JStr (km_WalletID m)), (''signature'', enc_bytes (km_Signature m))]"

definition KeygenMessage_fields :: "(string \<times> KeygenMessage decoder) list" where
  "KeygenMessage_fields =
     [(''wallet_id'', fld_str km_WalletID_update), (''signature'', fld_bytes km_Signature_update)]"

definition SigningMessage_json :: "SigningMessage \<Rightarrow> json" where
  "SigningMessage_json m =
     JObj [(''key_type'', JStr (sm_KeyType m)), (''wallet_id'', JStr (sm_WalletID m)),
           (''tx_id'', JStr (sm_TxID m)), (''tx'', enc_bytes (sm_Tx m)),
           (''signature'', enc_bytes (sm_Signature m))]"

definition SigningMessage_fields :: "(string \<times> SigningMessage decoder) list" where
  "SigningMessage_fields =
     [(''key_type'', fld_str sm_KeyType_update), (''wallet_id'', fld_str sm_WalletID_update),
      (''tx_id'', fld_str sm_TxID_update), (''tx'', fld_bytes sm_Tx_update),
      (''signature'', fld_bytes sm_Signature_update)]"

text \<open>The tag \<^verbatim>\<open>omitempty\<close> drops an empty signature.\<close>

definition ResharingMessage_json :: "ResharingMessage \<Rightarrow> json" where
  "ResharingMessage_json m =
     JObj ([(''session_id'', JStr (rm_SessionID m)), (''node_ids'', enc_strs (rm_NodeIDs m)),
            (''new_threshold'', enc_int (rm_NewThreshold m)), (''key_type'', JStr (rm_KeyType m)),
            (''wallet_id'', JStr (rm_WalletID m))] @
           (if slice_bytes (rm_Signature m) = [] then []
            else [(''signature'', enc_bytes (rm_Signature m))]))"

definition ResharingMessage_fields :: "(string \<times> ResharingMessage decoder) list" where
  "ResharingMessage_fields =
     [(''session_id'', fld_str rm_SessionID_update), (''node_ids'', fld_strs rm_NodeIDs_update),
      (''new_threshold'', fld_int rm_NewThreshold_update), (''key_type'', fld_str rm_KeyType_update),
      (''wallet_id'', fld_str rm_WalletID_update), (''signature'', fld_bytes rm_Signature_update)]"

definition Marshal_KeygenMessage :: "KeygenMessage \<Rightarrow> bytes" where
  "Marshal_KeygenMessage m = json_print (KeygenMessage_json m)"

definition Unmarshal_KeygenMessage :: "bytes \<Rightarrow> KeygenMessage \<times> go_error option" where
  "Unmarshal_KeygenMessage s = json_Unmarshal (decode_struct KeygenMessage_fields) s KeygenMessage_zero"

definition Marshal_SigningMessage :: "SigningMessage \<Rightarrow> bytes" where
  "Marshal_SigningMessage m = json_print (SigningMessage_json m)"

definition Unmarshal_SigningMessage :: "bytes \<Rightarrow> SigningMessage \<times> go_error option" where
  "Unmarshal_SigningMessage s = json_Unmarshal (decode_struct SigningMessage_fields) s SigningMessage_zero"

definition Marshal_ResharingMessage :: "ResharingMessage \<Rightarrow> bytes" where
  "Marshal_ResharingMessage m = json_print (ResharingMessage_json m)"

definition Unmarshal_ResharingMessage :: "bytes \<Rightarrow> ResharingMessage \<times> go_error option" where
  "Unmarshal_ResharingMessage s = json_Unmarshal (decode_struct ResharingMessage_fields) s ResharingMessage_zero"

subsection \<open>The methods of InitiatorMessage\<close>

definition SigningMessage_Raw :: "SigningMessage \<Rightarrow> bytes" where
  "SigningMessage_Raw m =
     json_print (JObj [(''key_type'', JStr (sm_KeyType m)), (''wallet_id'', JStr (sm_WalletID m)),
                       (''tx_id'', JStr (sm_TxID m)), (''tx'', enc_bytes (sm_Tx m))])"

definition SigningMessage_Sig :: "SigningMessage \<Rightarrow> slice" where
  "SigningMessage_Sig m = sm_Signature m"

definition SigningMessage_InitiatorID :: "SigningMessage \<Rightarrow> string" where
  "SigningMessage_InitiatorID m = sm_TxID m"

definition KeygenMessage_Raw :: "KeygenMessage \<Rightarrow> bytes" where
  "KeygenMessage_Raw m = km_WalletID m"

definition KeygenMessage_Sig :: "KeygenMessage \<Rightarrow> slice" where
  "KeygenMessage_Sig m = km_Signature m"

definition KeygenMessage_InitiatorID :: "KeygenMessage \<Rightarrow> string" where
  "KeygenMessage_InitiatorID m = km_WalletID m"

definition ResharingMessage_Raw :: "ResharingMessage \<Rightarrow> bytes" where
  "ResharingMessage_Raw m = (let copy = m\<lparr>rm_Signature := None\<rparr> in Marshal_ResharingMessage copy)"

definition ResharingMessage_Sig :: "ResharingMessage \<Rightarrow> slice" where
  "ResharingMessage_Sig m = rm_Signature m"

definition ResharingMessage_InitiatorID :: "ResharingMessage \<Rightarrow> string" where
  "ResharingMessage_InitiatorID m = rm_WalletID m"

datatype InitiatorMessage = IKeygen KeygenMessage | ISigning SigningMessage | IResharing ResharingMessage

fun Raw :: "InitiatorMessage \<Rightarrow> bytes" where
  "Raw (IKeygen m) = KeygenMessage_Raw m"
| "Raw (ISigning m) = SigningMessage_Raw m"
| "Raw (IResharing m) = ResharingMessage_Raw m"

fun Sig :: "InitiatorMessage \<Rightarrow> slice" where
  "Sig (IKeygen m) = KeygenMessage_Sig m"
| "Sig (ISigning m) = SigningMessage_Sig m"
| "Sig (IResharing m) = ResharingMessage_Sig m"

fun InitiatorID :: "InitiatorMessage \<Rightarrow> string" where
  "InitiatorID (IKeygen m) = KeygenMessage_InitiatorID m"
| "InitiatorID (ISigning m) = SigningMessage_InitiatorID m"
| "InitiatorID (IResharing m) = ResharingMessage_InitiatorID m"

section \<open>Responses\<close>

record KeygenResponse =
  kr_WalletID :: string
  kr_ECDSAPubKey :: slice
  kr_EDDSAPubKey :: slice
  kr_ErrorCode :: string
  kr_ErrorReason :: string

record SigningResponse =
  sr_ErrorCode :: string
  sr_ErrorReason :: string
  sr_IsTimeout :: bool
  sr_WalletID :: string
  sr_TxID :: string
  sr_R :: slice
  sr_S :: slice
  sr_SignatureRecovery :: slice
  sr_Signature :: slice

record ResharingResponse =
  rr_WalletID :: string
  rr_NewThreshold :: int
  rr_KeyType :: string
  rr_PubKey :: slice
  rr_ErrorCode :: string
  rr_ErrorReason :: string

definition KeygenResponse_zero :: KeygenResponse where
  "KeygenResponse_zero = \<lparr>kr_WalletID = [], kr_ECDSAPubKey = None, kr_EDDSAPubKey = None,
     kr_ErrorCode = [], kr_ErrorReason = []\<rparr>"

definition SigningResponse_zero :: SigningResponse where
  "SigningResponse_zero = \<lparr>sr_ErrorCode = [], sr_ErrorReason = [], sr_IsTimeout = False, sr_WalletID = [],
     sr_TxID = [], sr_R = None, sr_S = None, sr_SignatureRecovery = None, sr_Signature = None\<rparr>"

definition ResharingResponse_zero :: ResharingResponse where
  "ResharingResponse_zero = \<lparr>rr_WalletID = [], rr_NewThreshold = 0, rr_KeyType = [], rr_PubKey = None,
     rr_ErrorCode = [], rr_ErrorReason = []\<rparr>"

definition Marshal_KeygenResponse :: "KeygenResponse \<Rightarrow> bytes" where
  "Marshal_KeygenResponse m = json_print (
     JObj [(''wallet_id'', JStr (kr_WalletID m)), (''ecdsa_pub_key'', enc_bytes (kr_ECDSAPubKey m)),
           (''eddsa_pub_key'', enc_bytes (kr_EDDSAPubKey m)), (''error_code'', JStr (kr_ErrorCode m)),
           (''error_reason'', JStr (kr_ErrorReason m))])"

definition KeygenResponse_fields :: "(string \<times> KeygenResponse decoder) list" where
  "KeygenResponse_fields =
     [(''wallet_id'', fld_str kr_WalletID_update), (''ecdsa_pub_key'', fld_bytes kr_ECDSAPubKey_update),
      (''eddsa_pub_key'', fld_bytes kr_EDDSAPubKey_update), (''error_code'', fld_str kr_ErrorCode_update),
      (''error_reason'', fld_str kr_ErrorReason_update)]"

definition Unmarshal_KeygenResponse :: "bytes \<Rightarrow> KeygenResponse \<times> go_error option" where
  "Unmarshal_KeygenResponse s = json_Unmarshal (decode_struct KeygenResponse_fields) s KeygenResponse_zero"

definition Marshal_SigningResponse :: "SigningResponse \<Rightarrow> bytes" where
  "Marshal_SigningResponse m = json_print (
     JObj [(''error_code'', JStr (sr_ErrorCode m)), (''error_reason'', JStr (sr_ErrorReason m)),
           (''is_timeout'', JBool (sr_IsTimeout m)), (''wallet_id'', JStr (sr_WalletID m)),
           (''tx_id'', JStr (sr_TxID m)), (''r'', enc_bytes (sr_R m)), (''s'', enc_bytes (sr_S m)),
           (''signature_recovery'', enc_bytes (sr_SignatureRecovery m)),
           (''signature'', enc_bytes (sr_Signature m))])"

definition SigningResponse_fields :: "(string \<times> SigningResponse decoder) list" where
  "SigningResponse_fields =
     [(''error_code'', fld_str sr_ErrorCode_update), (''error_reason'', fld_str sr_ErrorReason_update),
      (''is_timeout'', fld_bool sr_IsTimeout_update), (''wallet_id'', fld_str sr_WalletID_update),
      (''tx_id'', fld_str sr_TxID_update), (''r'', fld_bytes sr_R_update), (''s'', fld_bytes sr_S_update),
      (''signature_recovery'', fld_bytes sr_SignatureRecovery_update),
      (''signature'', fld_bytes sr_Signature_update)]"

definition Unmarshal_SigningResponse :: "bytes \<Rightarrow> SigningResponse \<times> go_error option" where
  "Unmarshal_SigningResponse s = json_Unmarshal (decode_struct SigningResponse_fields) s SigningResponse_zero"

definition Marshal_ResharingResponse :: "ResharingResponse \<Rightarrow> bytes" where
  "Marshal_ResharingResponse m = json_print (
     JObj [(''wallet_id'', JStr (rr_WalletID m)), (''new_threshold'', enc_int (rr_NewThreshold m)),
           (''key_type'', JStr (rr_KeyType m)), (''pub_key'', enc_bytes (rr_PubKey m)),
           (''error_code'', JStr (rr_ErrorCode m)), (''error_reason'', JStr (rr_ErrorReason m))])"

definition ResharingResponse_fields :: "(string \<times> ResharingResponse decoder) list" where
  "ResharingResponse_fields =
     [(''wallet_id'', fld_str rr_WalletID_update), (''new_threshold'', fld_int rr_NewThreshold_update),
      (''key_type'', fld_str rr_KeyType_update), (''pub_key'', fld_bytes rr_PubKey_update),
      (''error_code'', fld_str rr_ErrorCode_update), (''error_reason'', fld_str rr_ErrorReason_update)]"

definition Unmarshal_ResharingResponse :: "bytes \<Rightarrow> ResharingResponse \<times> go_error option" where
  "Unmarshal_ResharingResponse s =
     json_Unmarshal (decode_struct ResharingResponse_fields) s ResharingResponse_zero"

section \<open>Messages between nodes\<close>

record TssMessage =
  tm_WalletID :: string
  tm_MsgBytes :: slice
  tm_IsBroadcast :: bool
  tm_From :: "party_id option"
  tm_To :: "party_id option list option"
  tm_IsToOldCommittee :: bool
  tm_IsToOldAndNewCommittees :: bool
  tm_Signature :: slice

definition TssMessage_zero :: TssMessage where
  "TssMessage_zero = \<lparr>tm_WalletID = [], tm_MsgBytes = None, tm_IsBroadcast = False, tm_From = None,
     tm_To = None, tm_IsToOldCommittee = False, tm_IsToOldAndNewCommittees = False, tm_Signature = None\<rparr>"

definition enc_pid :: "tss_lib \<Rightarrow> party_id option \<Rightarrow> json" where
  "enc_pid T p = (case p of None \<Rightarrow> JNull | Some q \<Rightarrow> tl_pid_json T q)"

definition enc_pids :: "tss_lib \<Rightarrow> party_id option list option \<Rightarrow> json" where
  "enc_pids T ps = (case ps of None \<Rightarrow> JNull | Some l \<Rightarrow> JArr (map (enc_pid T) l))"

definition dec_pid :: "tss_lib \<Rightarrow> json \<Rightarrow> party_id option \<times> bool" where
  "dec_pid T j =
     (if j = JNull then (None, False)
      else case tl_pid_unjson T j of None \<Rightarrow> (None, True) | Some p \<Rightarrow> (Some p, False))"

definition fld_pid :: "tss_lib \<Rightarrow> ((party_id option \<Rightarrow> party_id option) \<Rightarrow> 'r \<Rightarrow> 'r) \<Rightarrow> 'r decoder" where
  "fld_pid T upd j r = (let (p, bad) = dec_pid T j in (upd (\<lambda>_. p) r, bad))"

definition fld_pids ::
  "tss_lib \<Rightarrow> ((party_id option list option \<Rightarrow> party_id option list option) \<Rightarrow> 'r \<Rightarrow> 'r) \<Rightarrow> 'r decoder" where
  "fld_pids T upd j r =
     (case j of
        JNull \<Rightarrow> (upd (\<lambda>_. None) r, False)
      | JArr js \<Rightarrow> (upd (\<lambda>_. Some (map (fst \<circ> dec_pid T) js)) r, list_ex (snd \<circ> dec_pid T) js)
      | _ \<Rightarrow> (r, True))"

definition TssMessage_json :: "tss_lib \<Rightarrow> TssMessage \<Rightarrow> json" where
  "TssMessage_json T m =
     JObj [(''sessionID'', JStr (tm_WalletID m)), (''msgBytes'', enc_bytes (tm_MsgBytes m)),
           (''isBroadcast'', JBool (tm_IsBroadcast m)), (''from'', enc_pid T (tm_From m)),
           (''to'', enc_pids T (tm_To m)), (''isToOldCommittee'', JBool (tm_IsToOldCommittee m)),
           (''isToOldAndNewCommittees'', JBool (tm_IsToOldAndNewCommittees m)),
           (''signature'', enc_bytes (tm_Signature m))]"

definition TssMessage_fields :: "tss_lib \<Rightarrow> (string \<times> TssMessage decoder) list" where
  "TssMessage_fields T =
     [(''sessionID'', fld_str tm_WalletID_update), (''msgBytes'', fld_bytes tm_MsgBytes_update),
      (''isBroadcast'', fld_bool tm_IsBroadcast_update), (''from'', fld_pid T tm_From_update),
      (''to'', fld_pids T tm_To_update), (''isToOldCommittee'', fld_bool tm_IsToOldCommittee_update),
      (''isToOldAndNewCommittees'', fld_bool tm_IsToOldAndNewCommittees_update),
      (''signature'', fld_bytes tm_Signature_update)]"

definition NewTssMessage ::
  "string \<Rightarrow> slice \<Rightarrow> bool \<Rightarrow> party_id option \<Rightarrow> party_id option list option \<Rightarrow> TssMessage" where
  "NewTssMessage walletID msgBytes isBroadcast from to =
     TssMessage_zero\<lparr>tm_WalletID := walletID, tm_IsBroadcast := isBroadcast, tm_MsgBytes := msgBytes,
       tm_From := from, tm_To := to\<rparr>"

definition MarshalTssMessage :: "tss_lib \<Rightarrow> TssMessage \<Rightarrow> bytes" where
  "MarshalTssMessage T m = json_print (TssMessage_json T m)"

definition MarshalTssResharingMessage ::
  "tss_lib \<Rightarrow> slice \<Rightarrow> bool \<Rightarrow> bool \<Rightarrow> bool \<Rightarrow> party_id option \<Rightarrow> party_id option list option \<Rightarrow> bytes" where
  "MarshalTssResharingMessage T msgBytes isToOldCommittee isBroadcast isToOldAndNewCommittees from to =
     MarshalTssMessage T (TssMessage_zero\<lparr>tm_IsToOldCommittee := isToOldCommittee,
       tm_IsToOldAndNewCommittees := isToOldAndNewCommittees, tm_IsBroadcast := isBroadcast,
       tm_MsgBytes := msgBytes, tm_From := from, tm_To := to\<rparr>)"

definition UnmarshalTssMessage :: "tss_lib \<Rightarrow> bytes \<Rightarrow> go_error + TssMessage" where
  "UnmarshalTssMessage T msgBytes =
     (case json_Unmarshal (decode_struct (TssMessage_fields T)) msgBytes TssMessage_zero of
        (_, Some err) \<Rightarrow> Inl err
      | (msg, None) \<Rightarrow> Inr msg)"

text \<open>
  The signed text of a protocol message: a Go map, so its keys are printed in sorted order. The
  sender enters with its random \<^verbatim>\<open>Id\<close> only; a nil sender is dereferenced.
\<close>

definition MarshalForSigning :: "tss_lib \<Rightarrow> TssMessage \<Rightarrow> bytes go_res" where
  "MarshalForSigning T m =
     (case tm_From m of
        None \<Rightarrow> Panic
      | Some from \<Rightarrow>
          Ret (json_print (
            JObj [(''from'', JStr (pid_Id from)),
                  (''isBroadcast'', JBool (tm_IsBroadcast m)),
                  (''isToOldAndNewCommittees'', JBool (tm_IsToOldAndNewCommittees m)),
                  (''isToOldCommittee'', JBool (tm_IsToOldCommittee m)),
                  (''msgBytes'', enc_bytes (tm_MsgBytes m)),
                  (''sessionID'', JStr (tm_WalletID m)),
                  (''to'', enc_pids T (tm_To m))])))"

record StartMessage =
  st_Params :: slice

definition MarshalStartMessage :: "slice \<Rightarrow> bytes" where
  "MarshalStartMessage params = json_print (JObj [(''params'', enc_bytes params)])"

definition UnmarshalStartMessage :: "bytes \<Rightarrow> go_error + StartMessage" where
  "UnmarshalStartMessage msgBytes =
     (case json_Unmarshal (decode_struct [(''params'', fld_bytes st_Params_update)]) msgBytes
             \<lparr>st_Params = None\<rparr> of
        (_, Some err) \<Rightarrow> Inl err
      | (msg, None) \<Rightarrow> Inr msg)"

section \<open>Round trips of the codecs\<close>

lemma find_field_exact: "map_of fs k = Some d \<Longrightarrow> find_field fs k = Some d"
  by (simp add: find_field_def)

lemmas struct_codec_simps =
  codec_simps decode_struct_def find_field_exact

lemmas KeygenMessage_defs =
  Marshal_KeygenMessage_def Unmarshal_KeygenMessage_def KeygenMessage_json_def
  KeygenMessage_fields_def KeygenMessage_zero_def
lemmas SigningMessage_defs =
  Marshal_SigningMessage_def Unmarshal_SigningMessage_def SigningMessage_json_def
  SigningMessage_fields_def SigningMessage_zero_def
lemmas ResharingMessage_defs =
  Marshal_ResharingMessage_def Unmarshal_ResharingMessage_def ResharingMessage_json_def
  ResharingMessage_fields_def ResharingMessage_zero_def

definition ResharingMessage_wf :: "ResharingMessage \<Rightarrow> bool" where
  "ResharingMessage_wf m \<longleftrightarrow> in_int64 (rm_NewThreshold m) \<and> rm_Signature m \<noteq> Some []"

lemma KeygenMessage_codec: "Unmarshal_KeygenMessage (Marshal_KeygenMessage m) = (m, None)"
  by (simp add: KeygenMessage_defs struct_codec_simps)

lemma SigningMessage_codec: "Unmarshal_SigningMessage (Marshal_SigningMessage m) = (m, None)"
  by (simp add: SigningMessage_defs struct_codec_simps)

lemma ResharingMessage_codec:
  "ResharingMessage_wf m \<Longrightarrow> Unmarshal_ResharingMessage (Marshal_ResharingMessage m) = (m, None)"
  by (cases "rm_Signature m")
     (auto simp: ResharingMessage_defs struct_codec_simps ResharingMessage_wf_def)

lemma KeygenResponse_codec: "Unmarshal_KeygenResponse (Marshal_KeygenResponse m) = (m, None)"
  by (simp add: Unmarshal_KeygenResponse_def Marshal_KeygenResponse_def KeygenResponse_fields_def
      KeygenResponse_zero_def struct_codec_simps)

lemma SigningResponse_codec: "Unmarshal_SigningResponse (Marshal_SigningResponse m) = (m, None)"
  by (simp add: Unmarshal_SigningResponse_def Marshal_SigningResponse_def SigningResponse_fields_def
      SigningResponse_zero_def struct_codec_simps)

lemma ResharingResponse_codec:
  "in_int64 (rr_NewThreshold m) \<Longrightarrow>
   Unmarshal_ResharingResponse (Marshal_ResharingResponse m) = (m, None)"
  by (simp add: Unmarshal_ResharingResponse_def Marshal_ResharingResponse_def ResharingResponse_fields_def
      ResharingResponse_zero_def struct_codec_simps)

lemma enc_pid_wf: "tss_lib_ok T \<Longrightarrow> json_wf (enc_pid T p)"
  by (cases p) (simp_all add: enc_pid_def tss_lib_okD)

lemma enc_pids_wf: "tss_lib_ok T \<Longrightarrow> json_wf (enc_pids T ps)"
  by (cases ps) (auto simp: enc_pids_def enc_pid_wf)

lemma dec_enc_pid: "tss_lib_ok T \<Longrightarrow> dec_pid T (enc_pid T p) = (p, False)"
  by (cases p) (simp_all add: dec_pid_def enc_pid_def tss_lib_okD)

lemma fld_pid_enc:
  assumes "tss_lib_ok T"
  shows "fld_pid T upd (enc_pid T p) r = (upd (\<lambda>_. p) r, False)"
    and "fld_pids T upd' (enc_pids T ps) r = (upd' (\<lambda>_. ps) r, False)"
  using assms
  by (auto simp: fld_pid_def fld_pids_def enc_pids_def dec_enc_pid comp_def list_ex_iff
      split: option.splits)

lemma TssMessage_codec:
  "tss_lib_ok T \<Longrightarrow> UnmarshalTssMessage T (MarshalTssMessage T m) = Inr m"
  by (simp add: UnmarshalTssMessage_def MarshalTssMessage_def TssMessage_json_def TssMessage_fields_def
      TssMessage_zero_def struct_codec_simps fld_pid_enc enc_pid_wf enc_pids_wf)

lemma StartMessage_codec: "UnmarshalStartMessage (MarshalStartMessage p) = Inr \<lparr>st_Params = p\<rparr>"
  by (simp add: UnmarshalStartMessage_def MarshalStartMessage_def struct_codec_simps)

lemma json_print_inject: "json_wf j \<Longrightarrow> json_wf k \<Longrightarrow> json_print j = json_print k \<longleftrightarrow> j = k"
  by (metis json_parse_print sum.inject(2))

lemma enc_bytes_inject: "enc_bytes a = enc_bytes b \<longleftrightarrow> a = b"
  by (auto simp: enc_bytes_def split: option.splits) (metis b64_decode_encode option.inject)

lemma enc_strs_inject: "enc_strs a = enc_strs b \<longleftrightarrow> a = b"
  by (auto simp: enc_strs_def split: option.splits dest: map_injective [OF _ injI])

lemma enc_int_inject: "enc_int a = enc_int b \<longleftrightarrow> a = b"
  by (simp add: enc_int_def itoa_inject)

lemma enc_pids_inject:
  assumes ok: "tss_lib_ok T"
  shows "enc_pids T a = enc_pids T b \<longleftrightarrow> a = b"
proof
  have inj: "inj (enc_pid T)" by (rule injI) (metis dec_enc_pid [OF ok] fst_conv)
  assume "enc_pids T a = enc_pids T b"
  then show "a = b"
    by (auto simp: enc_pids_def split: option.splits dest: map_injective [OF _ inj])
qed simp

section \<open>Signed requests\<close>

text \<open>
  The contract of \<^verbatim>\<open>InitiatorMessage\<close>: the signed text does not depend on the signature field, and
  the signature that was stored is the one that is read back.
\<close>

locale initiator_message =
  fixes raw :: "'m \<Rightarrow> bytes"
    and sig :: "'m \<Rightarrow> slice"
    and put_sig :: "slice \<Rightarrow> 'm \<Rightarrow> 'm"
  assumes raw_put_sig: "raw (put_sig s m) = raw m"
    and sig_put_sig: "sig (put_sig s m) = s"
begin

definition signed :: "(bytes \<Rightarrow> bytes) \<Rightarrow> 'm \<Rightarrow> 'm" where
  "signed sign m = put_sig (Some (sign (raw m))) m"

lemma signed_verifies:
  assumes "\<And>t. verify t (sign t)"
  shows "verify (raw (signed sign m)) (slice_bytes (sig (signed sign m)))"
  using assms by (simp add: signed_def raw_put_sig sig_put_sig)

lemma signed_raw: "raw (signed sign m) = raw m"
  by (simp add: signed_def raw_put_sig)

end

text \<open>A message that also survives the wire.\<close>

locale wire_message = initiator_message raw sig put_sig
  for raw :: "'m \<Rightarrow> bytes" and sig :: "'m \<Rightarrow> slice" and put_sig :: "slice \<Rightarrow> 'm \<Rightarrow> 'm" +
  fixes marshal :: "'m \<Rightarrow> bytes"
    and unmarshal :: "bytes \<Rightarrow> 'm \<times> go_error option"
    and wf :: "'m \<Rightarrow> bool"
  assumes codec: "wf m \<Longrightarrow> unmarshal (marshal m) = (m, None)"
    and wf_put_sig: "wf m \<Longrightarrow> s \<noteq> Some [] \<Longrightarrow> wf (put_sig s m)"
begin

lemma signed_delivery:
  assumes "wf m" and "\<And>t. verify t (sign t)" and "\<And>t. sign t \<noteq> []"
  shows "\<exists>m'. unmarshal (marshal (signed sign m)) = (m', None) \<and> raw m' = raw m
           \<and> verify (raw m') (slice_bytes (sig m'))"
proof -
  have "wf (signed sign m)"
    unfolding signed_def by (rule wf_put_sig [OF assms(1)]) (simp add: assms(3))
  then show ?thesis
    using codec signed_raw signed_verifies [of verify sign, OF assms(2)] by blast
qed

end

interpretation keygen_msg: wire_message KeygenMessage_Raw KeygenMessage_Sig
  "\<lambda>s. km_Signature_update (\<lambda>_. s)" Marshal_KeygenMessage Unmarshal_KeygenMessage "\<lambda>_. True"
  by unfold_locales (simp_all add: KeygenMessage_Raw_def KeygenMessage_Sig_def KeygenMessage_codec)

interpretation signing_msg: wire_message SigningMessage_Raw SigningMessage_Sig
  "\<lambda>s. sm_Signature_update (\<lambda>_. s)" Marshal_SigningMessage Unmarshal_SigningMessage "\<lambda>_. True"
  by unfold_locales (simp_all add: SigningMessage_Raw_def SigningMessage_Sig_def SigningMessage_codec)

interpretation resharing_msg: wire_message ResharingMessage_Raw ResharingMessage_Sig
  "\<lambda>s. rm_Signature_update (\<lambda>_. s)" Marshal_ResharingMessage Unmarshal_ResharingMessage ResharingMessage_wf
  by unfold_locales (simp_all add: ResharingMessage_Raw_def ResharingMessage_Sig_def
      ResharingMessage_codec ResharingMessage_wf_def)

lemma SigningMessage_Raw_inject:
  "SigningMessage_Raw m = SigningMessage_Raw m' \<longleftrightarrow>
     sm_KeyType m = sm_KeyType m' \<and> sm_WalletID m = sm_WalletID m' \<and> sm_TxID m = sm_TxID m'
     \<and> sm_Tx m = sm_Tx m'"
  by (simp add: SigningMessage_Raw_def json_print_inject enc_bytes_inject)

lemma ResharingMessage_Raw_inject:
  "ResharingMessage_Raw m = ResharingMessage_Raw m' \<longleftrightarrow>
     rm_SessionID m = rm_SessionID m' \<and> rm_NodeIDs m = rm_NodeIDs m' \<and>
     rm_NewThreshold m = rm_NewThreshold m' \<and> rm_KeyType m = rm_KeyType m' \<and>
     rm_WalletID m = rm_WalletID m'"
  by (simp add: ResharingMessage_Raw_def ResharingMessage_defs json_print_inject
      enc_strs_inject enc_int_inject)

lemma SigningMessage_Raw_not_resharing: "SigningMessage_Raw m \<noteq> ResharingMessage_Raw m'"
  by (simp add: SigningMessage_Raw_def ResharingMessage_Raw_def ResharingMessage_defs json_print_inject)

section \<open>Properties\<close>




text \<open>
  Key generation requests are signed without domain separation. \<^verbatim>\<open>KeygenMessage.Raw\<close> is the bare
  wallet ID, so for every signing or resharing request there is a key generation request with the
  same signed text, and one signature is valid for both.
\<close>

lemma keygen_raw_collides:
  "\<exists>k. Raw (IKeygen k) = Raw (ISigning m) \<and> Sig (IKeygen k) = Sig (ISigning m)
     \<and> Unmarshal_KeygenMessage (Marshal_KeygenMessage k) = (k, None)"
  by (rule exI [of _ "\<lparr>km_WalletID = SigningMessage_Raw m, km_Signature = sm_Signature m\<rparr>"])
     (simp add: KeygenMessage_Raw_def KeygenMessage_Sig_def SigningMessage_Sig_def KeygenMessage_codec)

end
