(* ===== verification/Party_Id.thy ===== *)
theory Party_Id
  imports Msg_Types
begin

text \<open>
  \<^verbatim>\<open>pkg/mpc/core/party_id.go\<close>, the second \<^verbatim>\<open>partyIDToNodeID\<close> in \<^verbatim>\<open>pkg/identity/identity.go\<close>, and the
  composition of storage keys and topics in \<^verbatim>\<open>pkg/mpc/core/session.go\<close>: how a node ID and a key version
  are packed into the key of a tss party ID and recovered from it, how a wallet ID and a version make a
  storage key, and how the sender is recovered from a direct topic. \<^verbatim>\<open>uuid.NewString\<close> is an argument.
\<close>

section \<open>Party IDs\<close>

definition BackwardCompatibleVersion :: int where "BackwardCompatibleVersion = 0"
definition DefaultVersion :: int where "DefaultVersion = 1"

definition PartyIDToNodeID :: "tss_lib \<Rightarrow> party_id option \<Rightarrow> string" where
  "PartyIDToNodeID T partyID =
     (case partyID of
        None \<Rightarrow> []
      | Some p \<Rightarrow>
          (let (nodeID, _, _) = strings_Cut CHR '':'' (big_Bytes (tl_KeyInt T p))
           in strings_TrimSpace nodeID))"

definition PartyIDsToNodeIDs :: "tss_lib \<Rightarrow> party_id list \<Rightarrow> string list" where
  "PartyIDsToNodeIDs T pids = map (\<lambda>p. PartyIDToNodeID T (Some p)) pids"

definition ComparePartyIDs :: "tss_lib \<Rightarrow> party_id \<Rightarrow> party_id \<Rightarrow> bool" where
  "ComparePartyIDs T x y = (big_Bytes (tl_KeyInt T x) = big_Bytes (tl_KeyInt T y))"

definition CreatePartyID :: "tss_lib \<Rightarrow> string \<Rightarrow> string \<Rightarrow> string \<Rightarrow> int \<Rightarrow> party_id" where
  "CreatePartyID T partyID nodeID label version =
     (let key = (if version = BackwardCompatibleVersion then big_SetBytes nodeID
                 else big_SetBytes (nodeID @ '':'' @ itoa version))
      in tl_NewPartyID T partyID label key)"

text \<open>The identity store has its own version, which dereferences a nil party ID and does not trim.\<close>

definition identity_partyIDToNodeID :: "tss_lib \<Rightarrow> party_id option \<Rightarrow> string go_res" where
  "identity_partyIDToNodeID T partyID =
     (case partyID of
        None \<Rightarrow> Panic
      | Some p \<Rightarrow> Ret (hd (strings_Split CHR '':'' (big_Bytes (tl_KeyInt T p)))))"

section \<open>Storage keys and topics\<close>

definition WalletIDWithVersion :: "string \<Rightarrow> int \<Rightarrow> string" where
  "WalletIDWithVersion walletID version =
     (if version > 0 then walletID @ ''_v'' @ itoa version else walletID)"

definition extractSenderIDFromDirectTopic :: "string \<Rightarrow> string" where
  "extractSenderIDFromDirectTopic topic =
     (let parts = strings_SplitN CHR '':'' 5 topic
      in if length parts \<ge> 4 then parts ! 3 else [])"

section \<open>Laws\<close>

text \<open>
  The node IDs for which the packing is invertible: not empty, no colon, no leading zero byte (lost by
  \<^verbatim>\<open>big.Int\<close>), no white space at either end. UUIDs, which the program uses, are such IDs.
\<close>

definition node_id_ok :: "string \<Rightarrow> bool" where
  "node_id_ok n \<longleftrightarrow> n \<noteq> [] \<and> CHR '':'' \<notin> set n \<and> hd n \<noteq> CHR 0x00 \<and> \<not> is_space (hd n) \<and> \<not> is_space (last n)"

definition packed_key :: "string \<Rightarrow> int \<Rightarrow> bytes" where
  "packed_key n v = (if v = BackwardCompatibleVersion then n else n @ '':'' @ itoa v)"

lemma CreatePartyID_KeyInt:
  assumes "tss_lib_ok T"
  shows "tl_KeyInt T (CreatePartyID T u n l v) = big_SetBytes (packed_key n v)"
  by (simp add: CreatePartyID_def packed_key_def Let_def tss_lib_okD(1) [OF assms])

lemma CreatePartyID_bytes:
  assumes "tss_lib_ok T" and "node_id_ok n"
  shows "big_Bytes (tl_KeyInt T (CreatePartyID T u n l v)) = packed_key n v"
proof -
  have "packed_key n v \<noteq> []" and "hd (packed_key n v) \<noteq> CHR 0x00"
    using assms(2) by (auto simp: packed_key_def node_id_ok_def)
  then show ?thesis
    by (simp add: CreatePartyID_KeyInt [OF assms(1)] big_Bytes_SetBytes_id)
qed

lemma packed_key_before:
  "CHR '':'' \<notin> set n \<Longrightarrow> takeWhile (\<lambda>x. x \<noteq> CHR '':'') (packed_key n v) = n"
proof (cases "v = BackwardCompatibleVersion")
  case True
  assume "CHR '':'' \<notin> set n"
  then have "takeWhile (\<lambda>x. x \<noteq> CHR '':'') n = n" by (auto simp: takeWhile_eq_all_conv)
  with True show ?thesis by (simp add: packed_key_def)
next
  case False
  assume "CHR '':'' \<notin> set n"
  then have "\<forall>x \<in> set n. x \<noteq> CHR '':''" by auto
  from takeWhile_append_stop [OF this, of "CHR '':''" "itoa v"] False show ?thesis
    by (simp add: packed_key_def)
qed

lemma PartyIDToNodeID_Create:
  assumes "tss_lib_ok T" and "node_id_ok n"
  shows "PartyIDToNodeID T (Some (CreatePartyID T u n l v)) = n"
proof -
  have "fst (strings_Cut CHR '':'' (packed_key n v)) = n"
    using assms(2) by (simp add: strings_Cut_before packed_key_before node_id_ok_def)
  moreover have "strings_TrimSpace n = n"
    using assms(2) by (intro strings_TrimSpace_id) (simp add: node_id_ok_def)
  ultimately show ?thesis
    by (auto simp: PartyIDToNodeID_def CreatePartyID_bytes [OF assms] split: prod.splits)
qed

lemma identity_partyIDToNodeID_Create:
  assumes "tss_lib_ok T" and "node_id_ok n"
  shows "identity_partyIDToNodeID T (Some (CreatePartyID T u n l v)) = Ret n"
  using assms(2)
  by (simp add: identity_partyIDToNodeID_def CreatePartyID_bytes [OF assms] hd_strings_Split
      packed_key_before node_id_ok_def)

lemma packed_key_inject:
  assumes "CHR '':'' \<notin> set n" and "CHR '':'' \<notin> set n'"
  shows "packed_key n v = packed_key n' v' \<longleftrightarrow> n = n' \<and> v = v'"
proof
  assume eq: "packed_key n v = packed_key n' v'"
  then have n: "n = n'" using packed_key_before assms by metis
  with eq show "n = n' \<and> v = v'"
    by (auto simp: packed_key_def itoa_inject split: if_splits)
qed simp

lemma CreatePartyID_inject:
  assumes "tss_lib_ok T" and "node_id_ok n" and "node_id_ok n'"
  shows "ComparePartyIDs T (CreatePartyID T u n l v) (CreatePartyID T u' n' l' v') \<longleftrightarrow> n = n' \<and> v = v'"
  using assms by (simp add: ComparePartyIDs_def CreatePartyID_bytes packed_key_inject node_id_ok_def)

lemma WalletIDWithVersion_same:
  "WalletIDWithVersion w v = WalletIDWithVersion w v' \<longleftrightarrow> v = v' \<or> (v \<le> 0 \<and> v' \<le> 0)"
  by (auto simp: WalletIDWithVersion_def itoa_inject)

lemma WalletIDWithVersion_inject:
  assumes "CHR ''_'' \<notin> set w" and "CHR ''_'' \<notin> set w'" and "0 < v" and "0 < v'"
  shows "WalletIDWithVersion w v = WalletIDWithVersion w' v' \<longleftrightarrow> w = w' \<and> v = v'"
  using assms append_sep_inject [of w "CHR ''_''" "CHR ''v'' # itoa v" w' "CHR ''v'' # itoa v'"]
  by (auto simp: WalletIDWithVersion_def itoa_inject)

text \<open>
  What a session relies on from its topics: the sender can be read off a direct topic, and direct
  topics of different senders or receivers differ.
\<close>

locale topic_composer =
  fixes direct :: "string \<Rightarrow> string \<Rightarrow> string"
  assumes shape: "\<exists>p q r rest. direct from to = p @ '':'' @ q @ '':'' @ r @ '':'' @ from @ '':'' @ to @ '':'' @ rest
            \<and> CHR '':'' \<notin> set p \<union> set q \<union> set r"
begin

lemma extract_sender:
  assumes "CHR '':'' \<notin> set from"
  shows "extractSenderIDFromDirectTopic (direct from to) = from"
proof -
  obtain p q r rest where d: "direct from to = p @ CHR '':'' # q @ CHR '':'' # r @ CHR '':'' # from @ CHR '':'' # to @ CHR '':'' # rest"
    and no: "CHR '':'' \<notin> set p" "CHR '':'' \<notin> set q" "CHR '':'' \<notin> set r"
    using shape [of "from" to] by auto
  have five: "(5::nat) = Suc (Suc (Suc (Suc (Suc 0))))" by simp
  have "strings_SplitN CHR '':'' 5 (direct from to) = [p, q, r, from, to @ CHR '':'' # rest]"
    unfolding d five by (simp add: strings_Cut_found no assms)
  then show ?thesis by (simp add: extractSenderIDFromDirectTopic_def)
qed

lemma sender_inject:
  "CHR '':'' \<notin> set a \<Longrightarrow> CHR '':'' \<notin> set b \<Longrightarrow> direct a to = direct b to' \<Longrightarrow> a = b"
  using extract_sender by metis

end

section \<open>Properties\<close>

text \<open>
  The packing of node IDs into party IDs is invertible and keeps versions apart. For every well
  formed node ID, label and version, both \<^verbatim>\<open>PartyIDToNodeID\<close> of the session code and
  \<^verbatim>\<open>partyIDToNodeID\<close> of the identity store recover the node ID from the created party ID, and
  \<^verbatim>\<open>ComparePartyIDs\<close> holds between two created party IDs exactly when node and version agree.
\<close>

lemma party_id_round_trip:
  assumes "tss_lib_ok T" and "node_id_ok n" and "node_id_ok n'"
  shows "PartyIDToNodeID T (Some (CreatePartyID T u n l v)) = n
    \<and> identity_partyIDToNodeID T (Some (CreatePartyID T u n l v)) = Ret n
    \<and> (ComparePartyIDs T (CreatePartyID T u n l v) (CreatePartyID T u' n' l' v') \<longleftrightarrow> n = n' \<and> v = v')"
  using assms by (simp add: PartyIDToNodeID_Create identity_partyIDToNodeID_Create CreatePartyID_inject)

lemma party_id_round_trip_example:
  "PartyIDToNodeID tss_lib_ref (Some (CreatePartyID tss_lib_ref ''u'' ''node-1'' ''keygen'' 2)) = ''node-1''
   \<and> \<not> ComparePartyIDs tss_lib_ref (CreatePartyID tss_lib_ref ''u'' ''node-1'' ''keygen'' 2)
        (CreatePartyID tss_lib_ref ''u2'' ''node-1'' ''resharing'' 3)"
  using party_id_round_trip [OF tss_lib_ref_ok, of "''node-1''" "''node-1''" "''u''" "''keygen''" 2 "''u2''" "''resharing''" 3]
  by (simp add: node_id_ok_def is_space_def)

lemma itoa_one: "itoa 1 = ''1''"
  by code_simp

text \<open>
  Storage keys of different versions of one wallet never collide, and versioned keys of
  wallets without underscores are distinct; but the unversioned key of a wallet whose name ends in a
  version suffix is the versioned key of another wallet.
\<close>

lemma wallet_version_keys:
  "(0 \<le> v \<and> 0 \<le> v' \<longrightarrow> (WalletIDWithVersion w v = WalletIDWithVersion w v' \<longleftrightarrow> v = v'))
   \<and> (CHR ''_'' \<notin> set w \<union> set w' \<and> 0 < v \<and> 0 < v' \<longrightarrow>
        (WalletIDWithVersion w v = WalletIDWithVersion w' v' \<longleftrightarrow> w = w' \<and> v = v'))
   \<and> WalletIDWithVersion (w @ ''_v1'') 0 = WalletIDWithVersion w 1"
proof (intro conjI impI)
  show "WalletIDWithVersion (w @ ''_v1'') 0 = WalletIDWithVersion w 1"
    by (simp add: WalletIDWithVersion_def itoa_one)
qed (auto simp: WalletIDWithVersion_same WalletIDWithVersion_inject)

lemma wallet_version_keys_example:
  "WalletIDWithVersion ''w1'' 2 \<noteq> WalletIDWithVersion ''w1'' 3 \<and> WalletIDWithVersion ''w1'' 2 \<noteq> WalletIDWithVersion ''w2'' 2"
  using wallet_version_keys [of 2 3 "''w1''" "''w1''"] wallet_version_keys [of 2 2 "''w1''" "''w2''"] by simp

end
