(* ===== verification/Encryption.thy ===== *)
theory Encryption
  imports Json
begin

text \<open>
  \<^verbatim>\<open>pkg/encryption\<close>: AES-GCM with a detached or embedded nonce, Ed25519 keys, and P-256 keys and
  signatures. The cryptographic primitives themselves are parameters, gathered in the record \<open>crypto\<close>;
  \<open>crypto_ok\<close> states what their packages document: opening what was sealed gives the plaintext,
  verification accepts what the matching key signed, Diffie-Hellman agrees on both sides, and the
  sizes of nonces, keys and signatures. A draw from \<^verbatim>\<open>crypto/rand\<close> is an argument. \<open>crypto_ref\<close> is a
  concrete instance of these laws for witnesses. Hex encoding is modelled as such.

  The guards that the packages put on sizes are written out: \<^verbatim>\<open>aes.NewCipher\<close> returns an error for a
  key that is not 16, 24 or 32 bytes long; \<^verbatim>\<open>ed25519.Sign\<close>, \<^verbatim>\<open>ed25519.Verify\<close> and the \<^verbatim>\<open>Open\<close> of
  GCM panic on a key or nonce of the wrong size.
\<close>

section \<open>Primitives\<close>

text \<open>An \<^verbatim>\<open>ecdsa.PublicKey\<close> or \<^verbatim>\<open>ecdsa.PrivateKey\<close>: the name of its curve (\<open>None\<close> for a nil curve) and its material.\<close>

record ecdsa_key =
  ek_Curve :: "string option"
  ek_Data :: bytes

datatype x509_key = X509_ecdsa ecdsa_key | X509_other

record crypto =
  cr_Sign :: "bytes \<Rightarrow> bytes \<Rightarrow> bytes"
  cr_Verify :: "bytes \<Rightarrow> bytes \<Rightarrow> bytes \<Rightarrow> bool"
  cr_PublicKey :: "bytes \<Rightarrow> bytes"
  cr_NewKeyFromSeed :: "bytes \<Rightarrow> bytes"
  cr_Seal :: "bytes \<Rightarrow> bytes \<Rightarrow> bytes \<Rightarrow> bytes"
  cr_Open :: "bytes \<Rightarrow> bytes \<Rightarrow> bytes \<Rightarrow> bytes option"
  cr_Sum256 :: "bytes \<Rightarrow> bytes"
  cr_SignASN1 :: "ecdsa_key \<Rightarrow> bytes \<Rightarrow> bytes \<Rightarrow> go_error + bytes"
  cr_VerifyASN1 :: "ecdsa_key \<Rightarrow> bytes \<Rightarrow> bytes \<Rightarrow> bool"
  cr_P256Public :: "ecdsa_key \<Rightarrow> ecdsa_key"
  cr_ParsePKCS8 :: "bytes \<Rightarrow> go_error + x509_key"
  cr_ParseEC :: "bytes \<Rightarrow> go_error + ecdsa_key"
  cr_ParsePKIX :: "bytes \<Rightarrow> go_error + x509_key"
  cr_MarshalEC :: "ecdsa_key \<Rightarrow> go_error + bytes"
  cr_MarshalPKIX :: "ecdsa_key \<Rightarrow> go_error + bytes"
  cr_ECDH :: "bytes \<Rightarrow> bytes \<Rightarrow> go_error + bytes"
  cr_X25519Public :: "bytes \<Rightarrow> bytes"
  cr_NewPublicKey :: "bytes \<Rightarrow> go_error + bytes"
  cr_HKDF :: "bytes \<Rightarrow> bytes \<Rightarrow> go_error + bytes"

definition gcm_nonce_size :: nat where "gcm_nonce_size = 12"
definition ed25519_PublicKeySize :: nat where "ed25519_PublicKeySize = 32"
definition ed25519_SeedSize :: nat where "ed25519_SeedSize = 32"
definition ed25519_PrivateKeySize :: nat where "ed25519_PrivateKeySize = 64"

definition crypto_ok :: "crypto \<Rightarrow> bool" where
  "crypto_ok C \<longleftrightarrow>
     (\<forall>sk m. length sk = ed25519_PrivateKeySize \<longrightarrow>
        length (cr_PublicKey C sk) = ed25519_PublicKeySize \<and> cr_Sign C sk m \<noteq> [] \<and>
        cr_Verify C (cr_PublicKey C sk) m (cr_Sign C sk m)) \<and>
     (\<forall>seed. length seed = ed25519_SeedSize \<longrightarrow>
        length (cr_NewKeyFromSeed C seed) = ed25519_PrivateKeySize \<and> take ed25519_SeedSize (cr_NewKeyFromSeed C seed) = seed) \<and>
     (\<forall>k n p. length n = gcm_nonce_size \<longrightarrow> cr_Open C k n (cr_Seal C k n p) = Some p) \<and>
     (\<forall>sk rnd h s. cr_SignASN1 C sk rnd h = Inr s \<longrightarrow>
        s \<noteq> [] \<and> cr_VerifyASN1 C (cr_P256Public C sk) h s) \<and>
     (\<forall>sk. ek_Curve (cr_P256Public C sk) = ek_Curve sk) \<and>
     (\<forall>k b. cr_MarshalPKIX C k = Inr b \<longrightarrow> cr_ParsePKIX C b = Inr (X509_ecdsa k)) \<and>
     (\<forall>a b. cr_ECDH C a (cr_X25519Public C b) = cr_ECDH C b (cr_X25519Public C a)) \<and>
     (\<forall>a. cr_NewPublicKey C (cr_X25519Public C a) = Inr (cr_X25519Public C a)) \<and>
     (\<forall>s i k. cr_HKDF C s i = Inr k \<longrightarrow> length k = 32)"

text \<open>
  A toy instance: a private key is its public half twice, a seal is the plaintext with its key and
  nonce, a shared secret is the two public halves in order.
\<close>

definition crypto_ref :: crypto where
  "crypto_ref =
     \<lparr>cr_Sign = \<lambda>sk m. CHR ''s'' # take 32 sk @ m,
      cr_Verify = \<lambda>pk m s. s = CHR ''s'' # pk @ m,
      cr_PublicKey = take 32,
      cr_NewKeyFromSeed = \<lambda>seed. seed @ seed,
      cr_Seal = \<lambda>k n p. k @ n @ p,
      cr_Open = \<lambda>k n c. if take (length k + length n) c = k @ n then Some (drop (length k + length n) c) else None,
      cr_Sum256 = \<lambda>d. d,
      cr_SignASN1 = \<lambda>sk rnd h. Inr (CHR ''s'' # ek_Data sk @ h),
      cr_VerifyASN1 = \<lambda>pk h s. s = CHR ''s'' # ek_Data pk @ h,
      cr_P256Public = \<lambda>sk. sk,
      cr_ParsePKCS8 = \<lambda>b. Inl (errorf ''x509''),
      cr_ParseEC = \<lambda>b. Inr \<lparr>ek_Curve = Some ''P-256'', ek_Data = b\<rparr>,
      cr_ParsePKIX = \<lambda>b. (case b of [] \<Rightarrow> Inl (errorf ''x509'')
          | c # r \<Rightarrow> Inr (X509_ecdsa \<lparr>ek_Curve = Some ''P-256'', ek_Data = r\<rparr>)),
      cr_MarshalEC = \<lambda>k. Inr (ek_Data k),
      cr_MarshalPKIX = \<lambda>k. if ek_Curve k = Some ''P-256'' then Inr (CHR ''k'' # ek_Data k) else Inl (errorf ''x509''),
      cr_ECDH = \<lambda>a p. Inr (if string_less a p then a @ p else p @ a),
      cr_X25519Public = \<lambda>a. a,
      cr_NewPublicKey = \<lambda>p. Inr p,
      cr_HKDF = \<lambda>s i. Inr (take 32 (s @ i @ replicate 32 CHR ''0''))\<rparr>"

lemma crypto_ref_ok: "crypto_ok crypto_ref"
proof -
  have order: "(if string_less a b then a @ b else b @ a) = (if string_less b a then b @ a else a @ b)" for a b
    using string_less_asym string_less_total by metis
  show ?thesis
    by (auto simp: crypto_ok_def crypto_ref_def ed25519_PrivateKeySize_def ed25519_PublicKeySize_def ed25519_SeedSize_def order
        split: if_splits)
qed

section \<open>Hex\<close>

fun hex_EncodeToString :: "bytes \<Rightarrow> string" where
  "hex_EncodeToString [] = []"
| "hex_EncodeToString (c # cs) =
     hex_char (of_char c div 16) # hex_char (of_char c mod 16) # hex_EncodeToString cs"

fun hex_DecodeString :: "string \<Rightarrow> go_error + bytes" where
  "hex_DecodeString [] = Inr []"
| "hex_DecodeString [a] =
     (if hex_val a = None then Inl (errorf ''encoding/hex: invalid byte'')
      else Inl (errorf ''encoding/hex: odd length hex string''))"
| "hex_DecodeString (a # b # r) =
     (case (hex_val a, hex_val b) of
        (Some x, Some y) \<Rightarrow>
          (case hex_DecodeString r of Inl e \<Rightarrow> Inl e | Inr bs \<Rightarrow> Inr (char_of (x * 16 + y) # bs))
      | _ \<Rightarrow> Inl (errorf ''encoding/hex: invalid byte''))"

lemma hex_round_trip [codec_simps]: "hex_DecodeString (hex_EncodeToString bs) = Inr bs"
proof (induction bs)
  case (Cons c cs)
  have "(of_char c :: nat) div 16 < 16"
    by (rule less_mult_imp_div_less) (use of_char_bound [of c] in simp)
  with Cons show ?case by (simp add: hex_val_hex_char)
qed simp

section \<open>AES-GCM\<close>

definition aes_NewCipher :: "bytes \<Rightarrow> go_error option" where
  "aes_NewCipher key =
     (if length key \<in> {16, 24, 32} then None
      else Some (errorf (''crypto/aes: invalid key size '' @ utoa (length key))))"

definition EncryptAESGCM :: "crypto \<Rightarrow> go_error + bytes \<Rightarrow> bytes \<Rightarrow> bytes \<Rightarrow> go_error + bytes \<times> bytes" where
  "EncryptAESGCM C rand plain key =
     (case aes_NewCipher key of
        Some err \<Rightarrow> Inl err
      | None \<Rightarrow>
          (case rand of
             Inl err \<Rightarrow> Inl err
           | Inr nonce \<Rightarrow> let ciphertext = cr_Seal C key nonce plain in Inr (ciphertext, nonce)))"

definition gcm_message_auth_failed :: go_error where
  "gcm_message_auth_failed = errorf ''cipher: message authentication failed''"

definition DecryptAESGCM :: "crypto \<Rightarrow> bytes \<Rightarrow> bytes \<Rightarrow> bytes \<Rightarrow> (go_error + bytes) go_res" where
  "DecryptAESGCM C ciphertext key nonce =
     (case aes_NewCipher key of
        Some err \<Rightarrow> Ret (Inl err)
      | None \<Rightarrow>
          if length nonce \<noteq> gcm_nonce_size then Panic
          else (case cr_Open C key nonce ciphertext of
                  None \<Rightarrow> Ret (Inl gcm_message_auth_failed)
                | Some plain \<Rightarrow> Ret (Inr plain)))"

definition EncryptAESGCMWithNonceEmbed ::
  "crypto \<Rightarrow> go_error + bytes \<Rightarrow> bytes \<Rightarrow> bytes \<Rightarrow> go_error + bytes" where
  "EncryptAESGCMWithNonceEmbed C rand plaintext key =
     (case aes_NewCipher key of
        Some err \<Rightarrow> Inl (wrapf ''failed to create AES cipher'' err)
      | None \<Rightarrow>
          (case rand of
             Inl err \<Rightarrow> Inl (wrapf ''failed to generate nonce'' err)
           | Inr nonce \<Rightarrow>
               let ciphertext = cr_Seal C key nonce plaintext in Inr (nonce @ ciphertext)))"

definition DecryptAESGCMWithNonceEmbed :: "crypto \<Rightarrow> bytes \<Rightarrow> bytes \<Rightarrow> go_error + bytes" where
  "DecryptAESGCMWithNonceEmbed C data key =
     (case aes_NewCipher key of
        Some err \<Rightarrow> Inl (wrapf ''failed to create AES cipher'' err)
      | None \<Rightarrow>
          (let nonceSize = gcm_nonce_size in
           if length data < nonceSize then Inl (errorf ''ciphertext too short'')
           else let nonce = take nonceSize data; ciphertext = drop nonceSize data
             in case cr_Open C key nonce ciphertext of
                  None \<Rightarrow> Inl (wrapf ''decryption failed'' gcm_message_auth_failed)
                | Some plaintext \<Rightarrow> Inr plaintext))"

section \<open>Ed25519\<close>

definition ed25519_Sign :: "crypto \<Rightarrow> bytes \<Rightarrow> bytes \<Rightarrow> bytes go_res" where
  "ed25519_Sign C sk m = (if length sk = ed25519_PrivateKeySize then Ret (cr_Sign C sk m) else Panic)"

definition ed25519_Verify :: "crypto \<Rightarrow> bytes \<Rightarrow> bytes \<Rightarrow> bytes \<Rightarrow> bool go_res" where
  "ed25519_Verify C pk m s = (if length pk = ed25519_PublicKeySize then Ret (cr_Verify C pk m s) else Panic)"

record KeyData =
  PublicKeyHex :: string
  PrivateKeyHex :: string

definition GenerateEd25519Keys :: "go_error + bytes \<times> bytes \<Rightarrow> go_error + KeyData" where
  "GenerateEd25519Keys generated =
     (case generated of
        Inl err \<Rightarrow> Inl err
      | Inr (pubKey, privKeyFull) \<Rightarrow>
          (let privKeySeed = take 32 privKeyFull
           in Inr \<lparr>PublicKeyHex = hex_EncodeToString pubKey, PrivateKeyHex = hex_EncodeToString privKeySeed\<rparr>))"

text \<open>The dummy verification has no effect on the result: the length was just checked.\<close>

definition ValidateEd25519PublicKey :: "bytes \<Rightarrow> go_error option" where
  "ValidateEd25519PublicKey keyBytes =
     (if length keyBytes \<noteq> ed25519_PublicKeySize
      then Some (errorf (''invalid Ed25519 public key length: expected '' @ utoa ed25519_PublicKeySize
                 @ '' bytes, got '' @ utoa (length keyBytes)))
      else None)"

definition ParseEd25519PublicKeyFromHex :: "string \<Rightarrow> go_error + bytes" where
  "ParseEd25519PublicKeyFromHex hexKey =
     (if hexKey = [] then Inl (errorf ''public key hex string is empty'')
      else (case hex_DecodeString hexKey of
              Inl err \<Rightarrow> Inl (wrapf ''invalid hex format'' err)
            | Inr keyBytes \<Rightarrow>
                (case ValidateEd25519PublicKey keyBytes of
                   Some err \<Rightarrow> Inl err
                 | None \<Rightarrow> Inr keyBytes)))"

section \<open>P-256\<close>

text \<open>\<open>None\<close> is a nil key pointer.\<close>

definition P256 :: string where "P256 = ''P-256''"

definition try_private_der :: "crypto \<Rightarrow> bytes \<Rightarrow> ecdsa_key option" where
  "try_private_der C keyData =
     (case cr_ParsePKCS8 C keyData of
        Inr (X509_ecdsa k) \<Rightarrow> Some k
      | _ \<Rightarrow> (case cr_ParseEC C keyData of Inr k \<Rightarrow> Some k | Inl _ \<Rightarrow> None))"

definition ParseP256PrivateKey :: "crypto \<Rightarrow> bytes \<Rightarrow> go_error + ecdsa_key" where
  "ParseP256PrivateKey C keyData =
     (case try_private_der C keyData of
        Some k \<Rightarrow> Inr k
      | None \<Rightarrow>
          (let keyStr = strings_TrimPrefix (strings_TrimSpace keyData) ''0x''
           in case hex_DecodeString keyStr of
                Inl err \<Rightarrow> Inl (wrapf ''failed to decode hex string'' err)
              | Inr keyBytes \<Rightarrow>
                  (case try_private_der C keyBytes of
                     Some k \<Rightarrow> Inr k
                   | None \<Rightarrow> Inl (errorf ''failed to parse P256 private key from DER or hex format''))))"

definition SignWithP256 :: "crypto \<Rightarrow> bytes \<Rightarrow> ecdsa_key option \<Rightarrow> bytes \<Rightarrow> go_error + bytes" where
  "SignWithP256 C rand privateKey data =
     (case privateKey of
        None \<Rightarrow> Inl (errorf ''invalid private key: private key is nil'')
      | Some k \<Rightarrow>
          if ek_Curve k = None then Inl (errorf ''invalid private key: curve is nil'')
          else let hash = cr_Sum256 C data
               in case cr_SignASN1 C k rand hash of
                    Inl err \<Rightarrow> Inl (wrapf ''failed to sign data'' err)
                  | Inr signature \<Rightarrow> Inr signature)"

definition GenerateP256Keys :: "crypto \<Rightarrow> go_error + ecdsa_key \<Rightarrow> go_error + KeyData" where
  "GenerateP256Keys C generated =
     (case generated of
        Inl err \<Rightarrow> Inl err
      | Inr privateKey \<Rightarrow>
          (case cr_MarshalEC C privateKey of
             Inl err \<Rightarrow> Inl err
           | Inr privateKeyBytes \<Rightarrow>
               (case cr_MarshalPKIX C (cr_P256Public C privateKey) of
                  Inl err \<Rightarrow> Inl err
                | Inr publicKeyBytes \<Rightarrow>
                    Inr \<lparr>PublicKeyHex = hex_EncodeToString publicKeyBytes,
                         PrivateKeyHex = hex_EncodeToString privateKeyBytes\<rparr>)))"

definition VerifyP256Signature :: "crypto \<Rightarrow> ecdsa_key option \<Rightarrow> bytes \<Rightarrow> slice \<Rightarrow> go_error option" where
  "VerifyP256Signature C publicKey data signature =
     (case publicKey of
        None \<Rightarrow> Some (errorf ''public key is nil'')
      | Some k \<Rightarrow>
          if ek_Curve k \<noteq> Some P256 then Some (errorf ''public key is not on P-256 curve'')
          else if slice_bytes signature = [] then Some (errorf ''signature is empty'')
          else let hash = cr_Sum256 C data
               in if \<not> cr_VerifyASN1 C k hash (slice_bytes signature)
                  then Some (errorf ''invalid signature'') else None)"

definition ParseP256PublicKeyFromBytes :: "crypto \<Rightarrow> bytes \<Rightarrow> go_error + ecdsa_key" where
  "ParseP256PublicKeyFromBytes C keyBytes =
     (let attempt = (case cr_ParsePKIX C keyBytes of
                       Inr (X509_ecdsa k) \<Rightarrow> if ek_Curve k = Some P256 then Some k else None
                     | _ \<Rightarrow> None)
      in case attempt of
           Some k \<Rightarrow> Inr k
         | None \<Rightarrow> (case attempt of
                      Some k \<Rightarrow> Inr k
                    | None \<Rightarrow> Inl (errorf ''failed to parse P-256 public key from bytes'')))"

definition ParseP256PublicKeyFromHex :: "crypto \<Rightarrow> string \<Rightarrow> go_error + ecdsa_key" where
  "ParseP256PublicKeyFromHex C hexString =
     (case hex_DecodeString (strings_TrimPrefix hexString ''0x'') of
        Inl err \<Rightarrow> Inl (wrapf ''failed to decode hex string'' err)
      | Inr keyBytes \<Rightarrow> ParseP256PublicKeyFromBytes C keyBytes)"

definition ParseP256PublicKeyFromBase64 :: "crypto \<Rightarrow> string \<Rightarrow> go_error + ecdsa_key" where
  "ParseP256PublicKeyFromBase64 C base64String =
     (case b64_decode base64String of
        None \<Rightarrow> Inl (wrapf ''failed to decode base64 string'' (errorf ''illegal base64 data''))
      | Some keyBytes \<Rightarrow> ParseP256PublicKeyFromBytes C keyBytes)"

definition ValidateP256PublicKey :: "ecdsa_key option \<Rightarrow> go_error option" where
  "ValidateP256PublicKey publicKey =
     (case publicKey of
        None \<Rightarrow> Some (errorf ''public key is nil'')
      | Some k \<Rightarrow>
          (case ek_Curve k of
             None \<Rightarrow> Some (errorf ''public key curve is nil'')
           | Some name \<Rightarrow>
               if name \<noteq> P256
               then Some (errorf (''public key is not P-256 curve (got: '' @ name @ '')''))
               else None))"

definition MarshalP256PublicKey :: "crypto \<Rightarrow> ecdsa_key option \<Rightarrow> go_error + bytes" where
  "MarshalP256PublicKey C publicKey =
     (case ValidateP256PublicKey publicKey of
        Some err \<Rightarrow> Inl (wrapf ''invalid P256 public key'' err)
      | None \<Rightarrow> cr_MarshalPKIX C (the publicKey))"

section \<open>Laws\<close>

lemma crypto_okD:
  assumes "crypto_ok C"
  shows "length sk = ed25519_PrivateKeySize \<Longrightarrow> cr_Verify C (cr_PublicKey C sk) m (cr_Sign C sk m)"
    and "length sk = ed25519_PrivateKeySize \<Longrightarrow> length (cr_PublicKey C sk) = ed25519_PublicKeySize"
    and "length sk = ed25519_PrivateKeySize \<Longrightarrow> cr_Sign C sk m \<noteq> []"
    and "length n = gcm_nonce_size \<Longrightarrow> cr_Open C k n (cr_Seal C k n p) = Some p"
    and "cr_SignASN1 C ek rnd h = Inr s \<Longrightarrow> s \<noteq> [] \<and> cr_VerifyASN1 C (cr_P256Public C ek) h s"
    and "ek_Curve (cr_P256Public C ek) = ek_Curve ek"
    and "cr_MarshalPKIX C ek = Inr b \<Longrightarrow> cr_ParsePKIX C b = Inr (X509_ecdsa ek)"
    and "cr_ECDH C x (cr_X25519Public C y) = cr_ECDH C y (cr_X25519Public C x)"
    and "cr_NewPublicKey C (cr_X25519Public C x) = Inr (cr_X25519Public C x)"
    and "cr_HKDF C s i = Inr key \<Longrightarrow> length key = 32"
  using assms unfolding crypto_ok_def by (blast+)

lemma aes_NewCipher_None: "aes_NewCipher key = None \<longleftrightarrow> length key \<in> {16, 24, 32}"
  by (simp add: aes_NewCipher_def)

lemma nonce_embed_round_trip:
  assumes "crypto_ok C" and "length nonce = gcm_nonce_size"
    and "EncryptAESGCMWithNonceEmbed C (Inr nonce) p key = Inr c"
  shows "DecryptAESGCMWithNonceEmbed C c key = Inr p"
proof -
  from assms(3) have key: "aes_NewCipher key = None" and c: "c = nonce @ cr_Seal C key nonce p"
    by (auto simp: EncryptAESGCMWithNonceEmbed_def split: option.splits)
  from key c assms(2) crypto_okD(4) [OF assms(1,2), of key p] show ?thesis
    by (simp add: DecryptAESGCMWithNonceEmbed_def Let_def)
qed

lemma detached_round_trip:
  assumes "crypto_ok C" and "length nonce = gcm_nonce_size"
    and "EncryptAESGCM C (Inr nonce) p key = Inr (c, n)"
  shows "DecryptAESGCM C c key n = Ret (Inr p)"
  using assms
  by (auto simp: EncryptAESGCM_def DecryptAESGCM_def Let_def crypto_okD(4) split: option.splits)

lemma sign_verify_p256:
  assumes "crypto_ok C" and "SignWithP256 C rnd (Some sk) d = Inr s" and "ek_Curve sk = Some P256"
  shows "VerifyP256Signature C (Some (cr_P256Public C sk)) d (Some s) = None"
proof -
  from assms(2) have "cr_SignASN1 C sk rnd (cr_Sum256 C d) = Inr s"
    by (auto simp: SignWithP256_def Let_def split: if_splits sum.splits)
  from crypto_okD(5) [OF assms(1) this] show ?thesis
    using assms(3) crypto_okD(6) [OF assms(1)] by (simp add: VerifyP256Signature_def)
qed

lemma hex_no_prefix: "strings_TrimPrefix (hex_EncodeToString bs) ''0x'' = hex_EncodeToString bs"
proof (cases bs)
  case (Cons c cs)
  have "hex_char (n mod 16) \<noteq> CHR ''x''" for n
  proof
    assume "hex_char (n mod 16) = CHR ''x''"
    then have "hex_val CHR ''x'' = Some (n mod 16)" using hex_val_hex_char [of "n mod 16"] by simp
    then show False by (simp add: hex_val_def)
  qed
  with Cons show ?thesis by (simp add: strings_TrimPrefix_def strings_HasPrefix_def)
qed (simp add: strings_TrimPrefix_def strings_HasPrefix_def)

text \<open>A generated P-256 public key is accepted when a node loads it from its configuration.\<close>

lemma generated_p256_parses:
  assumes "crypto_ok C" and "ek_Curve sk = Some P256" and "GenerateP256Keys C (Inr sk) = Inr kd"
  shows "ParseP256PublicKeyFromHex C (PublicKeyHex kd) = Inr (cr_P256Public C sk)"
proof -
  from assms(3) obtain b where b: "cr_MarshalPKIX C (cr_P256Public C sk) = Inr b"
    and kd: "PublicKeyHex kd = hex_EncodeToString b"
    by (auto simp: GenerateP256Keys_def split: sum.splits)
  from crypto_okD(7) [OF assms(1) b] show ?thesis
    using assms(2) crypto_okD(6) [OF assms(1)]
    by (simp add: ParseP256PublicKeyFromHex_def kd hex_no_prefix hex_round_trip
        ParseP256PublicKeyFromBytes_def)
qed

lemma generated_ed25519_parses:
  assumes "length pub = ed25519_PublicKeySize" and "GenerateEd25519Keys (Inr (pub, priv)) = Inr kd"
  shows "ParseEd25519PublicKeyFromHex (PublicKeyHex kd) = Inr pub"
proof -
  from assms(2) have kd: "PublicKeyHex kd = hex_EncodeToString pub"
    by (auto simp: GenerateEd25519Keys_def Let_def)
  moreover have "hex_EncodeToString pub \<noteq> []"
    using assms(1) by (cases pub) (simp_all add: ed25519_PublicKeySize_def)
  ultimately show ?thesis
    using assms(1) by (simp add: ParseEd25519PublicKeyFromHex_def hex_round_trip ValidateEd25519PublicKey_def)
qed

section \<open>Properties\<close>

text \<open>
  Encryption round trips. Whatever AES-GCM encryption returns, with the nonce embedded or detached,
  decryption with the same key gives the plaintext; and encryption succeeds for every key of 16, 24 or
  32 bytes, so the theorem is about every message a node sends under a derived key.
\<close>

lemma aes_gcm_round_trip:
  assumes "crypto_ok C" and "length nonce = gcm_nonce_size" and "length key \<in> {16, 24, 32}"
  shows "(\<exists>c. EncryptAESGCMWithNonceEmbed C (Inr nonce) p key = Inr c
              \<and> DecryptAESGCMWithNonceEmbed C c key = Inr p)
       \<and> (\<exists>c n. EncryptAESGCM C (Inr nonce) p key = Inr (c, n)
              \<and> DecryptAESGCM C c key n = Ret (Inr p))"
proof -
  have ok: "aes_NewCipher key = None" using assms(3) by (simp add: aes_NewCipher_None)
  then obtain c c' n where "EncryptAESGCMWithNonceEmbed C (Inr nonce) p key = Inr c"
    and "EncryptAESGCM C (Inr nonce) p key = Inr (c', n)"
    by (simp add: EncryptAESGCMWithNonceEmbed_def EncryptAESGCM_def Let_def)
  with assms(1,2) show ?thesis
    using nonce_embed_round_trip detached_round_trip by blast
qed

lemma aes_gcm_round_trip_example:
  "\<exists>c. EncryptAESGCMWithNonceEmbed crypto_ref (Inr (replicate 12 CHR ''n'')) ''share'' (replicate 32 CHR ''k'') = Inr c
       \<and> DecryptAESGCMWithNonceEmbed crypto_ref c (replicate 32 CHR ''k'') = Inr ''share''"
  using aes_gcm_round_trip [OF crypto_ref_ok, of "replicate 12 CHR ''n''" "replicate 32 CHR ''k''" "''share''"]
  by (simp add: gcm_nonce_size_def)

end
