(* ===== verification/Identity_Store.thy ===== *)
theory Identity_Store
  imports Party_Id Encryption
begin

text \<open>
  \<^verbatim>\<open>pkg/identity/identity.go\<close> and \<^verbatim>\<open>pkg/types/ecdh.go\<close>: the keys a node holds (its own, its peers', the
  initiator's, and the symmetric keys agreed with peers) and the operations on them: signing and verifying
  protocol messages and key-exchange messages, verifying initiator requests, encrypting messages to
  peers, and loading the initiator key from the configuration. The configuration values are arguments.
  The locale \<open>symmetric_keys\<close> is the part of the store that the peer registry and the key exchange rely on.
\<close>

section \<open>Key exchange messages\<close>

text \<open>A \<^verbatim>\<open>time.Time\<close> is represented by the text \<^verbatim>\<open>MarshalJSON\<close> prints for it (RFC 3339 with nanoseconds).\<close>

record ECDHMessage =
  em_From :: string
  em_PublicKey :: slice
  em_Timestamp :: string
  em_Signature :: slice

definition ECDH_MarshalForSigning :: "ECDHMessage \<Rightarrow> bytes" where
  "ECDH_MarshalForSigning msg =
     json_print (JObj [(''from'', JStr (em_From msg)), (''publicKey'', enc_bytes (em_PublicKey msg)),
                       (''timestamp'', JStr (em_Timestamp msg))])"

definition Marshal_ECDHMessage :: "ECDHMessage \<Rightarrow> bytes" where
  "Marshal_ECDHMessage msg =
     json_print (JObj [(''from'', JStr (em_From msg)), (''public_key'', enc_bytes (em_PublicKey msg)),
                       (''timestamp'', JStr (em_Timestamp msg)), (''signature'', enc_bytes (em_Signature msg))])"

text \<open>
  \<^verbatim>\<open>Time.UnmarshalJSON\<close> parses the text strictly as RFC 3339; a time prints in canonical form: the
  fraction without trailing zeros and to at most nine digits, and \<^verbatim>\<open>Z\<close> for a zero offset.
\<close>

definition two_digits :: "string \<Rightarrow> nat \<Rightarrow> nat option" where
  "two_digits s i = (if i + 2 \<le> length s then atou (take 2 (drop i s)) else None)"

definition in_range :: "nat option \<Rightarrow> nat \<Rightarrow> nat \<Rightarrow> bool" where
  "in_range v lo hi = (case v of None \<Rightarrow> False | Some n \<Rightarrow> lo \<le> n \<and> n \<le> hi)"

definition days_in :: "nat \<Rightarrow> nat \<Rightarrow> nat" where
  "days_in y m =
     (if m = 2 then (if y mod 4 = 0 \<and> (y mod 100 \<noteq> 0 \<or> y mod 400 = 0) then 29 else 28)
      else if m \<in> {4, 6, 9, 11} then 30 else 31)"

definition zone_text :: "string \<Rightarrow> string option" where
  "zone_text z =
     (if z = ''Z'' then Some z
      else if length z = 6 \<and> z ! 0 \<in> {CHR ''+'', CHR ''-''} \<and> z ! 3 = CHR '':''
              \<and> in_range (two_digits z 1) 0 23 \<and> in_range (two_digits z 4) 0 59
           then (if two_digits z 1 = Some 0 \<and> two_digits z 4 = Some 0 then Some ''Z'' else Some z)
      else None)"

definition frac_text :: "string \<Rightarrow> string" where
  "frac_text d = (let t = rev (dropWhile (\<lambda>c. c = CHR ''0'') (rev (take 9 d))) in if t = [] then [] else CHR ''.'' # t)"

definition time_parse :: "string \<Rightarrow> string option" where
  "time_parse s =
     (if length s \<ge> 20 \<and> s ! 4 = CHR ''-'' \<and> s ! 7 = CHR ''-'' \<and> s ! 10 = CHR ''T''
          \<and> s ! 13 = CHR '':'' \<and> s ! 16 = CHR '':''
          \<and> in_range (two_digits s 5) 1 12
          \<and> (case (atou (take 4 s), two_digits s 5) of
               (Some y, Some m) \<Rightarrow> in_range (two_digits s 8) 1 (days_in y m) | _ \<Rightarrow> False)
          \<and> in_range (two_digits s 11) 0 23 \<and> in_range (two_digits s 14) 0 59 \<and> in_range (two_digits s 17) 0 59
      then let r = drop 19 s in
        (case r of
           c # d \<Rightarrow>
             if c = CHR ''.'' then
               (if takeWhile is_digit d = [] then None
                else map_option (\<lambda>z. take 19 s @ frac_text (takeWhile is_digit d) @ z) (zone_text (dropWhile is_digit d)))
             else map_option (\<lambda>z. take 19 s @ z) (zone_text r)
         | [] \<Rightarrow> None)
      else None)"

definition fld_time :: "((string \<Rightarrow> string) \<Rightarrow> 'r \<Rightarrow> 'r) \<Rightarrow> 'r decoder" where
  "fld_time upd j r =
     (case j of
        JNull \<Rightarrow> (r, False)
      | JStr s \<Rightarrow> (case time_parse s of None \<Rightarrow> (r, True) | Some t \<Rightarrow> (upd (\<lambda>_. t) r, False))
      | _ \<Rightarrow> (r, True))"

definition ECDHMessage_fields :: "(string \<times> ECDHMessage decoder) list" where
  "ECDHMessage_fields =
     [(''from'', fld_str em_From_update), (''public_key'', fld_bytes em_PublicKey_update),
      (''timestamp'', fld_time em_Timestamp_update), (''signature'', fld_bytes em_Signature_update)]"

definition Unmarshal_ECDHMessage :: "bytes \<Rightarrow> ECDHMessage \<times> go_error option" where
  "Unmarshal_ECDHMessage s = json_Unmarshal (decode_struct ECDHMessage_fields) s
     \<lparr>em_From = [], em_PublicKey = None, em_Timestamp = ''0001-01-01T00:00:00Z'', em_Signature = None\<rparr>"

section \<open>The store\<close>

record InitiatorKey =
  ik_Algorithm :: string
  ik_Ed25519 :: bytes
  ik_P256 :: "ecdsa_key option"

record fileStore =
  publicKeys :: "bytes gomap"
  privateKey :: bytes
  initiatorKey :: InitiatorKey
  symmetricKeys :: "slice gomap"

definition SetSymmetricKey :: "string \<Rightarrow> slice \<Rightarrow> fileStore \<Rightarrow> fileStore" where
  "SetSymmetricKey peerID key s = s\<lparr>symmetricKeys := gm_put peerID key (symmetricKeys s)\<rparr>"

definition GetSymmetricKey :: "string \<Rightarrow> fileStore \<Rightarrow> go_error + slice" where
  "GetSymmetricKey peerID s =
     (case gm_get (symmetricKeys s) peerID of
        Some key \<Rightarrow> Inr key
      | None \<Rightarrow> Inl (errorf (''SymmetricKey key not found for node ID: '' @ peerID)))"

definition RemoveSymmetricKey :: "string \<Rightarrow> fileStore \<Rightarrow> fileStore" where
  "RemoveSymmetricKey peerID s = s\<lparr>symmetricKeys := gm_del peerID (symmetricKeys s)\<rparr>"

definition GetSymmetricKeyCount :: "fileStore \<Rightarrow> nat" where
  "GetSymmetricKeyCount s = length (symmetricKeys s)"

definition CheckSymmetricKeyComplete :: "int \<Rightarrow> fileStore \<Rightarrow> bool" where
  "CheckSymmetricKeyComplete desired s \<longleftrightarrow> int (length (symmetricKeys s)) = desired"

definition GetPublicKey :: "string \<Rightarrow> fileStore \<Rightarrow> go_error + bytes" where
  "GetPublicKey nodeID s =
     (case gm_get (publicKeys s) nodeID of
        Some key \<Rightarrow> Inr key
      | None \<Rightarrow> Inl (errorf (''public key not found for node ID: '' @ nodeID)))"

definition SignMessage :: "crypto \<Rightarrow> tss_lib \<Rightarrow> fileStore \<Rightarrow> TssMessage \<Rightarrow> bytes go_res" where
  "SignMessage C T s msg =
     (case MarshalForSigning T msg of
        Panic \<Rightarrow> Panic
      | Ret msgBytes \<Rightarrow> ed25519_Sign C (privateKey s) msgBytes)"

definition VerifyMessage :: "crypto \<Rightarrow> tss_lib \<Rightarrow> fileStore \<Rightarrow> TssMessage \<Rightarrow> go_error option go_res" where
  "VerifyMessage C T s msg =
     (case tm_Signature msg of
        None \<Rightarrow> Ret (Some (errorf ''message has no signature''))
      | Some signature \<Rightarrow>
          (case identity_partyIDToNodeID T (tm_From msg) of
             Panic \<Rightarrow> Panic
           | Ret senderNodeID \<Rightarrow>
               (case GetPublicKey senderNodeID s of
                  Inl err \<Rightarrow> Ret (Some (wrapf ''failed to get sender's public key'' err))
                | Inr publicKey \<Rightarrow>
                    (case MarshalForSigning T msg of
                       Panic \<Rightarrow> Panic
                     | Ret msgBytes \<Rightarrow>
                         (case ed25519_Verify C publicKey msgBytes signature of
                            Panic \<Rightarrow> Panic
                          | Ret ok \<Rightarrow> Ret (if \<not> ok then Some (errorf ''invalid signature'') else None))))))"

definition EncryptMessage :: "crypto \<Rightarrow> go_error + bytes \<Rightarrow> fileStore \<Rightarrow> bytes \<Rightarrow> string \<Rightarrow> go_error + bytes" where
  "EncryptMessage C rand s plaintext peerID =
     (case GetSymmetricKey peerID s of
        Inl err \<Rightarrow> Inl err
      | Inr None \<Rightarrow> Inl (errorf (''no symmetric key for peer '' @ peerID))
      | Inr (Some key) \<Rightarrow> EncryptAESGCMWithNonceEmbed C rand plaintext key)"

definition DecryptMessage :: "crypto \<Rightarrow> fileStore \<Rightarrow> bytes \<Rightarrow> string \<Rightarrow> go_error + bytes" where
  "DecryptMessage C s cipher peerID =
     (case GetSymmetricKey peerID s of
        Inl err \<Rightarrow> Inl err
      | Inr None \<Rightarrow> Inl (errorf (''no symmetric key for peer '' @ peerID))
      | Inr (Some key) \<Rightarrow> DecryptAESGCMWithNonceEmbed C cipher key)"

definition SignEcdhMessage :: "crypto \<Rightarrow> fileStore \<Rightarrow> ECDHMessage \<Rightarrow> bytes go_res" where
  "SignEcdhMessage C s msg = ed25519_Sign C (privateKey s) (ECDH_MarshalForSigning msg)"

definition VerifySignature :: "crypto \<Rightarrow> fileStore \<Rightarrow> ECDHMessage \<Rightarrow> go_error option go_res" where
  "VerifySignature C s msg =
     (case em_Signature msg of
        None \<Rightarrow> Ret (Some (errorf ''ECDH message has no signature''))
      | Some signature \<Rightarrow>
          (case GetPublicKey (em_From msg) s of
             Inl err \<Rightarrow> Ret (Some (wrapf ''failed to get sender's public key'' err))
           | Inr senderPk \<Rightarrow>
               (case ed25519_Verify C senderPk (ECDH_MarshalForSigning msg) signature of
                  Panic \<Rightarrow> Panic
                | Ret ok \<Rightarrow>
                    Ret (if \<not> ok then Some (errorf (''invalid signature from '' @ em_From msg @ '' with public key ''
                                           @ hex_EncodeToString senderPk))
                         else None))))"

definition verifyEd25519 :: "crypto \<Rightarrow> fileStore \<Rightarrow> InitiatorMessage \<Rightarrow> go_error option go_res" where
  "verifyEd25519 C s msg =
     (let msgBytes = Raw msg; signature = slice_bytes (Sig msg) in
      if signature = [] then Ret (Some (errorf ''signature is empty''))
      else (case ed25519_Verify C (ik_Ed25519 (initiatorKey s)) msgBytes signature of
              Panic \<Rightarrow> Panic
            | Ret ok \<Rightarrow> Ret (if \<not> ok then Some (errorf ''invalid signature from initiator'') else None)))"

definition verifyP256 :: "crypto \<Rightarrow> fileStore \<Rightarrow> InitiatorMessage \<Rightarrow> go_error option" where
  "verifyP256 C s msg =
     (let msgBytes = Raw msg; signature = Sig msg in
      if ik_P256 (initiatorKey s) = None
      then Some (errorf ''initiator public key for secp256r1 is not set'')
      else VerifyP256Signature C (ik_P256 (initiatorKey s)) msgBytes signature)"

definition VerifyInitiatorMessage :: "crypto \<Rightarrow> fileStore \<Rightarrow> InitiatorMessage \<Rightarrow> go_error option go_res" where
  "VerifyInitiatorMessage C s msg =
     (let algo = ik_Algorithm (initiatorKey s) in
      if algo = EventInitiatorKeyTypeEd25519 then verifyEd25519 C s msg
      else if algo = EventInitiatorKeyTypeP256 then Ret (verifyP256 C s msg)
      else Ret (Some (errorf (''unsupported algorithm: '' @ algo))))"

section \<open>Loading the initiator key\<close>

definition loadEd25519InitiatorKey :: "string \<Rightarrow> go_error + bytes" where
  "loadEd25519InitiatorKey pubKeyHex =
     (if pubKeyHex = [] then Inl (errorf ''event_initiator_pubkey not found in config'')
      else (case ParseEd25519PublicKeyFromHex pubKeyHex of
              Inl err \<Rightarrow> Inl (wrapf ''failed to decode event_initiator_pubkey as hex'' err)
            | Inr key \<Rightarrow> Inr key))"

definition loadP256InitiatorKey :: "crypto \<Rightarrow> string \<Rightarrow> go_error + ecdsa_key" where
  "loadP256InitiatorKey C pubKeyHex =
     (if pubKeyHex = [] then Inl (errorf ''event_initiator_pubkey not found in config'')
      else (case ParseP256PublicKeyFromHex C pubKeyHex of
              Inr publicKey \<Rightarrow> Inr publicKey
            | Inl _ \<Rightarrow>
                (case ParseP256PublicKeyFromBase64 C pubKeyHex of
                   Inr publicKey \<Rightarrow> Inr publicKey
                 | Inl err \<Rightarrow> Inl (wrapf ''failed to decode event_initiator_pubkey as hex or base64'' err))))"

definition loadInitiatorKeys :: "crypto \<Rightarrow> string \<Rightarrow> string \<Rightarrow> go_error + InitiatorKey" where
  "loadInitiatorKeys C configured_algorithm pubKey =
     (let algorithm = (if configured_algorithm = [] then KeyTypeEd25519 else configured_algorithm) in
      if algorithm \<notin> set [EventInitiatorKeyTypeEd25519, EventInitiatorKeyTypeP256]
      then Inl (errorf (''invalid algorithm: '' @ algorithm @ ''. Must be '' @ EventInitiatorKeyTypeEd25519
                @ '' or '' @ EventInitiatorKeyTypeP256))
      else if algorithm = EventInitiatorKeyTypeEd25519
        then (case loadEd25519InitiatorKey pubKey of
                Inl err \<Rightarrow> Inl (wrapf ''failed to load Ed25519 initiator key'' err)
              | Inr key \<Rightarrow> Inr \<lparr>ik_Algorithm = EventInitiatorKeyTypeEd25519, ik_Ed25519 = key, ik_P256 = None\<rparr>)
      else (case loadP256InitiatorKey C pubKey of
              Inl err \<Rightarrow> Inl (wrapf ''failed to load P-256 initiator key'' err)
            | Inr key \<Rightarrow> Inr \<lparr>ik_Algorithm = EventInitiatorKeyTypeP256, ik_Ed25519 = [], ik_P256 = Some key\<rparr>))"

section \<open>Symmetric keys as an interface\<close>

text \<open>
  What the registry and the key exchange rely on: setting a key makes it readable, removing it makes it
  unreadable, neither touches other peers, and the count is the number of peers with a key.
\<close>

locale symmetric_keys =
  fixes ok :: "'s \<Rightarrow> bool"
    and put_key :: "string \<Rightarrow> slice \<Rightarrow> 's \<Rightarrow> 's"
    and get_key :: "string \<Rightarrow> 's \<Rightarrow> go_error + slice"
    and del_key :: "string \<Rightarrow> 's \<Rightarrow> 's"
    and count :: "'s \<Rightarrow> nat"
    and keyed :: "'s \<Rightarrow> string set"
  assumes ok_put: "ok s \<Longrightarrow> ok (put_key p k s)"
    and ok_del: "ok s \<Longrightarrow> ok (del_key p s)"
    and keyed_put: "keyed (put_key p k s) = insert p (keyed s)"
    and keyed_del: "keyed (del_key p s) = keyed s - {p}"
    and get_keyed: "(\<exists>k. get_key p s = Inr k) \<longleftrightarrow> p \<in> keyed s"
    and get_put: "get_key p (put_key q k s) = (if p = q then Inr k else get_key p s)"
    and count_keyed: "ok s \<Longrightarrow> count s = card (keyed s)"
    and finite_keyed: "finite (keyed s)"
begin

lemma count_put_new: "ok s \<Longrightarrow> p \<notin> keyed s \<Longrightarrow> count (put_key p k s) = Suc (count s)"
  by (simp add: count_keyed ok_put keyed_put finite_keyed)

lemma count_put_old: "ok s \<Longrightarrow> p \<in> keyed s \<Longrightarrow> count (put_key p k s) = count s"
  by (simp add: count_keyed ok_put keyed_put insert_absorb)

lemma del_not_readable: "get_key p (del_key p s) \<noteq> Inr k"
  using get_keyed [of p "del_key p s"] keyed_del by fastforce

lemma ok_dels: "ok s \<Longrightarrow> ok (fold del_key ps s)"
  by (induction ps arbitrary: s) (simp_all add: ok_del)

lemma keyed_dels: "keyed (fold del_key ps s) = keyed s - set ps"
  by (induction ps arbitrary: s) (auto simp: keyed_del)

end

definition fileStore_ok :: "fileStore \<Rightarrow> bool" where
  "fileStore_ok s \<longleftrightarrow> gm_ok (symmetricKeys s)"

definition keyed_peers :: "fileStore \<Rightarrow> string set" where
  "keyed_peers s = fst ` set (symmetricKeys s)"

lemmas symkey_defs = SetSymmetricKey_def GetSymmetricKey_def RemoveSymmetricKey_def
  GetSymmetricKeyCount_def fileStore_ok_def keyed_peers_def

interpretation symkeys: symmetric_keys fileStore_ok SetSymmetricKey GetSymmetricKey RemoveSymmetricKey
  GetSymmetricKeyCount keyed_peers
proof
  show "(\<exists>k. GetSymmetricKey p s = Inr k) \<longleftrightarrow> p \<in> keyed_peers s" for p s
    by (auto simp: symkey_defs gm_keys_dom dom_def split: option.splits)
qed (simp_all add: symkey_defs gm_simps gm_len_card)

section \<open>Laws of verification\<close>

definition initiator_key_ok :: "InitiatorKey \<Rightarrow> bool" where
  "initiator_key_ok k \<longleftrightarrow>
     (ik_Algorithm k = EventInitiatorKeyTypeEd25519 \<and> length (ik_Ed25519 k) = ed25519_PublicKeySize) \<or>
     (ik_Algorithm k = EventInitiatorKeyTypeP256 \<and> (\<exists>p. ik_P256 k = Some p \<and> ek_Curve p = Some P256))"

text \<open>The check a signature passes, by algorithm.\<close>

definition initiator_accepts :: "crypto \<Rightarrow> InitiatorKey \<Rightarrow> bytes \<Rightarrow> bytes \<Rightarrow> bool" where
  "initiator_accepts C k raw sig \<longleftrightarrow>
     sig \<noteq> [] \<and>
     (if ik_Algorithm k = EventInitiatorKeyTypeEd25519 then cr_Verify C (ik_Ed25519 k) raw sig
      else cr_VerifyASN1 C (the (ik_P256 k)) (cr_Sum256 C raw) sig)"

lemma alg_distinct [simp]: "EventInitiatorKeyTypeP256 \<noteq> EventInitiatorKeyTypeEd25519"
  by (simp add: EventInitiatorKeyTypeEd25519_def EventInitiatorKeyTypeP256_def)

lemma VerifyInitiatorMessage_iff:
  assumes "initiator_key_ok (initiatorKey s)"
  shows "\<exists>e. VerifyInitiatorMessage C s msg = Ret e
     \<and> (e = None \<longleftrightarrow> initiator_accepts C (initiatorKey s) (Raw msg) (slice_bytes (Sig msg)))"
  using assms
  by (auto simp: initiator_key_ok_def VerifyInitiatorMessage_def verifyEd25519_def verifyP256_def
      ed25519_Verify_def VerifyP256Signature_def initiator_accepts_def Let_def split: if_splits)

lemma ParseEd25519_length:
  "ParseEd25519PublicKeyFromHex h = Inr k \<Longrightarrow> length k = ed25519_PublicKeySize"
  by (auto simp: ParseEd25519PublicKeyFromHex_def ValidateEd25519PublicKey_def
      split: if_splits sum.splits option.splits)

lemma ParseP256_curve: "ParseP256PublicKeyFromBytes C b = Inr k \<Longrightarrow> ek_Curve k = Some P256"
  by (auto simp: ParseP256PublicKeyFromBytes_def Let_def
      split: if_splits sum.splits option.splits x509_key.splits)

lemma loadP256_curve: "loadP256InitiatorKey C h = Inr k \<Longrightarrow> ek_Curve k = Some P256"
  by (auto simp: loadP256InitiatorKey_def ParseP256PublicKeyFromHex_def ParseP256PublicKeyFromBase64_def
      dest: ParseP256_curve split: if_splits sum.splits option.splits)

lemma loadInitiatorKeys_ok: "loadInitiatorKeys C a h = Inr k \<Longrightarrow> initiator_key_ok k"
  by (auto simp: loadInitiatorKeys_def Let_def initiator_key_ok_def loadEd25519InitiatorKey_def
      dest: ParseEd25519_length loadP256_curve split: if_splits sum.splits)

lemma VerifyMessage_iff:
  assumes "tm_From msg = Some p" and "GetPublicKey (hd (strings_Split CHR '':'' (big_Bytes (tl_KeyInt T p)))) s = Inr pk"
    and "length pk = ed25519_PublicKeySize"
  shows "VerifyMessage C T s msg = Ret None \<longleftrightarrow>
    (\<exists>sig b. tm_Signature msg = Some sig \<and> MarshalForSigning T msg = Ret b \<and> cr_Verify C pk b sig)"
  using assms
  by (auto simp: VerifyMessage_def identity_partyIDToNodeID_def MarshalForSigning_def ed25519_Verify_def
      split: option.splits)

text \<open>A message signed by one node is accepted by every node that has its public key.\<close>

lemma sign_verify_message:
  assumes "crypto_ok C" and "tss_lib_ok T" and "node_id_ok n"
    and "length (privateKey a) = ed25519_PrivateKeySize"
    and "GetPublicKey n b = Inr (cr_PublicKey C (privateKey a))"
    and "tm_From msg = Some (CreatePartyID T u n l v)"
    and "SignMessage C T a msg = Ret sig"
  shows "VerifyMessage C T b (msg\<lparr>tm_Signature := Some sig\<rparr>) = Ret None"
proof -
  obtain bs where bs: "MarshalForSigning T msg = Ret bs" and sig: "sig = cr_Sign C (privateKey a) bs"
    using assms(4,7) by (auto simp: SignMessage_def ed25519_Sign_def split: go_res.splits if_splits)
  have bs': "MarshalForSigning T (msg\<lparr>tm_Signature := Some sig\<rparr>) = Ret bs"
    using bs by (simp add: MarshalForSigning_def split: option.splits)
  show ?thesis
    using assms(6) identity_partyIDToNodeID_Create [OF assms(2,3), of u l v] assms(5)
      crypto_okD(1,2) [OF assms(1,4)] bs'
    by (simp add: VerifyMessage_def ed25519_Verify_def sig)
qed

lemma encrypt_decrypt_message:
  assumes "crypto_ok C" and "length nonce = gcm_nonce_size"
    and "GetSymmetricKey b sa = Inr (Some key)" and "GetSymmetricKey a sb = Inr (Some key)"
    and "EncryptMessage C (Inr nonce) sa m b = Inr c"
  shows "DecryptMessage C sb c a = Inr m"
  using assms nonce_embed_round_trip [OF assms(1,2)]
  by (simp add: EncryptMessage_def DecryptMessage_def)

section \<open>Properties\<close>

text \<open>
  Initiator requests are accepted only under the configured key. For a key that
  \<^verbatim>\<open>loadInitiatorKeys\<close> returned from any configuration, \<^verbatim>\<open>VerifyInitiatorMessage\<close> never panics, and it
  returns no error exactly when the request carries a non-empty signature that the primitive of the
  configured algorithm accepts for the \<^verbatim>\<open>Raw\<close> bytes under that key.
\<close>

lemma initiator_verification_sound:
  assumes "loadInitiatorKeys C configured pub = Inr k" and "initiatorKey s = k"
  shows "VerifyInitiatorMessage C s msg \<noteq> Panic
    \<and> (VerifyInitiatorMessage C s msg = Ret None \<longleftrightarrow>
         initiator_accepts C k (Raw msg) (slice_bytes (Sig msg)))"
  using VerifyInitiatorMessage_iff [of s C msg] loadInitiatorKeys_ok [OF assms(1)] assms(2) by auto

lemma initiator_verification_sound_example:
  "VerifyInitiatorMessage crypto_ref
      \<lparr>publicKeys = [], privateKey = [],
       initiatorKey = \<lparr>ik_Algorithm = ''p256'', ik_Ed25519 = [], ik_P256 = Some \<lparr>ek_Curve = Some ''P-256'', ek_Data = ''K''\<rparr>\<rparr>,
       symmetricKeys = []\<rparr>
      (IKeygen \<lparr>km_WalletID = ''w'', km_Signature = Some ''sKw''\<rparr>) = Ret None"
proof -
  let ?k = "\<lparr>ik_Algorithm = ''p256'', ik_Ed25519 = [], ik_P256 = Some \<lparr>ek_Curve = Some ''P-256'', ek_Data = ''K''\<rparr>\<rparr>"
  have "loadInitiatorKeys crypto_ref ''p256'' ''6b4b'' = Inr ?k" by code_simp
  from initiator_verification_sound [OF this, of
      "\<lparr>publicKeys = [], privateKey = [], initiatorKey = ?k, symmetricKeys = []\<rparr>"
      "IKeygen \<lparr>km_WalletID = ''w'', km_Signature = Some ''sKw''\<rparr>"]
  show ?thesis
    by (simp add: initiator_accepts_def EventInitiatorKeyTypeEd25519_def crypto_ref_def
        KeygenMessage_Raw_def KeygenMessage_Sig_def)
qed

text \<open>
  Node-to-node authentication and confidentiality compose. A protocol message signed by node \<open>n\<close>
  under a party ID created for \<open>n\<close> (any version) is accepted by every store that holds the public key
  of \<open>n\<close>, and a message encrypted for a peer is decrypted by it to the same bytes when both
  hold the same symmetric key.
\<close>

lemma node_messages_authenticated:
  assumes "crypto_ok C" and "tss_lib_ok T" and "node_id_ok n"
    and "length (privateKey a) = ed25519_PrivateKeySize"
    and "GetPublicKey n b = Inr (cr_PublicKey C (privateKey a))"
    and "tm_From msg = Some (CreatePartyID T u n l v)"
    and "GetSymmetricKey p a = Inr (Some key)" and "GetSymmetricKey n b = Inr (Some key)"
    and "length key = 32" and "length nonce = gcm_nonce_size"
  shows "\<exists>sig c. SignMessage C T a msg = Ret sig
    \<and> VerifyMessage C T b (msg\<lparr>tm_Signature := Some sig\<rparr>) = Ret None
    \<and> EncryptMessage C (Inr nonce) a plain p = Inr c \<and> DecryptMessage C b c n = Inr plain"
proof -
  obtain sig where s: "SignMessage C T a msg = Ret sig"
    using assms(4,6) by (simp add: SignMessage_def MarshalForSigning_def ed25519_Sign_def)
  obtain c where c: "EncryptMessage C (Inr nonce) a plain p = Inr c"
    using assms(7,9) by (simp add: EncryptMessage_def EncryptAESGCMWithNonceEmbed_def aes_NewCipher_def Let_def)
  show ?thesis
    using s c sign_verify_message [OF assms(1-6) s]
      encrypt_decrypt_message [OF assms(1,10) assms(7) assms(8) c] by blast
qed

lemma node_messages_authenticated_example:
  "\<exists>sig c. SignMessage crypto_ref tss_lib_ref
       \<lparr>publicKeys = [], privateKey = replicate 64 CHR ''a'', initiatorKey = \<lparr>ik_Algorithm = [], ik_Ed25519 = [], ik_P256 = None\<rparr>,
        symmetricKeys = [(''n2'', Some (replicate 32 CHR ''k''))]\<rparr>
       (TssMessage_zero\<lparr>tm_From := Some (CreatePartyID tss_lib_ref ''u'' ''n1'' ''keygen'' 1)\<rparr>) = Ret sig
    \<and> DecryptMessage crypto_ref \<lparr>publicKeys = [(''n1'', replicate 32 CHR ''a'')], privateKey = [],
        initiatorKey = \<lparr>ik_Algorithm = [], ik_Ed25519 = [], ik_P256 = None\<rparr>, symmetricKeys = [(''n1'', Some (replicate 32 CHR ''k''))]\<rparr> c ''n1'' = Inr ''x''"
proof -
  let ?a = "\<lparr>publicKeys = [], privateKey = replicate 64 CHR ''a'', initiatorKey = \<lparr>ik_Algorithm = [], ik_Ed25519 = [], ik_P256 = None\<rparr>,
        symmetricKeys = [(''n2'', Some (replicate 32 CHR ''k''))]\<rparr>"
  let ?b = "\<lparr>publicKeys = [(''n1'', replicate 32 CHR ''a'')], privateKey = [],
        initiatorKey = \<lparr>ik_Algorithm = [], ik_Ed25519 = [], ik_P256 = None\<rparr>, symmetricKeys = [(''n1'', Some (replicate 32 CHR ''k''))]\<rparr>"
  have n: "node_id_ok ''n1''" by (simp add: node_id_ok_def is_space_def)
  have pk: "GetPublicKey ''n1'' ?b = Inr (cr_PublicKey crypto_ref (privateKey ?a))"
    by (simp add: GetPublicKey_def crypto_ref_def)
  show ?thesis
    using node_messages_authenticated [OF crypto_ref_ok tss_lib_ref_ok n _ pk,
        of "TssMessage_zero\<lparr>tm_From := Some (CreatePartyID tss_lib_ref ''u'' ''n1'' ''keygen'' 1)\<rparr>"
           "''u''" "''keygen''" 1 "''n2''" "replicate 32 CHR ''k''" "replicate 12 CHR ''n''" "''x''"]
    by (auto simp: ed25519_PrivateKeySize_def GetSymmetricKey_def gcm_nonce_size_def)
qed

end
