(* ===== verification/World.thy ===== *)
theory World
  imports Msg_Types Encryption "HOL-Library.State_Monad"
begin

text \<open>
  Effects. Code that talks to NATS, JetStream, Consul, the key-value store, the tss party, the clock or
  the random source is written in the state monad over the history of external calls: a call appends
  itself to the history, and its answer comes from the environment \<open>env\<close>, which sees the whole
  history so far. A theorem that quantifies over the environment holds for every scheduling of
  failures. The laws the code relies on (a key-value store returns what was last stored) are named
  hypotheses on the environment; \<open>env_ref\<close> is a concrete environment that satisfies them.

  \<open>emits_only P m\<close> says that every call \<open>m\<close> makes satisfies \<open>P\<close>; its rules follow the shape of the
  program, so the footprint of a handler is proved by walking over its definition.
\<close>

datatype (plugins only: code) call =
    Publish string bytes
  | Subscribe string
  | Unsubscribe string
  | SendToSelf string bytes
  | SendToOther string slice
  | Listen string
  | KvPut string bytes
  | KvGet string
  | ConsulPut string bytes
  | ConsulGet string
  | ConsulList string
  | ConsulDelete string
  | Enqueue string bytes string
  | ErrSend go_error
  | PartyNew
  | PartyStart
  | PartyUpdate slice "party_id option" bool
  | RandRead nat
  | NewUUID
  | TimeNow
  | GenPreParams
  | TimeText
  | SendRetry string bytes nat
  | PublishReply string string bytes "(string \<times> string) list"
  | NextMsg string
  | NewInbox
  | MsgAck
  | MsgNak
  | MsgTerm
  | GetMsg string nat
  | Go string
  | Sleep int
  | CallDone
  | Crash
  | Fatal

type_synonym 'a io = "(call list, 'a) state"

text \<open>What the environment answers.\<close>

record env =
  en_Publish :: "call list \<Rightarrow> string \<Rightarrow> bytes \<Rightarrow> go_error option"
  en_Subscribe :: "call list \<Rightarrow> string \<Rightarrow> go_error option"
  en_Unsubscribe :: "call list \<Rightarrow> string \<Rightarrow> go_error option"
  en_SendToSelf :: "call list \<Rightarrow> string \<Rightarrow> bytes \<Rightarrow> go_error option"
  en_SendToOther :: "call list \<Rightarrow> string \<Rightarrow> slice \<Rightarrow> go_error option"
  en_Listen :: "call list \<Rightarrow> string \<Rightarrow> go_error option"
  en_KvPut :: "call list \<Rightarrow> string \<Rightarrow> bytes \<Rightarrow> go_error option"
  en_KvGet :: "call list \<Rightarrow> string \<Rightarrow> go_error + bytes"
  en_ConsulPut :: "call list \<Rightarrow> string \<Rightarrow> bytes \<Rightarrow> go_error option"
  en_ConsulGet :: "call list \<Rightarrow> string \<Rightarrow> go_error + bytes option"
  en_ConsulList :: "call list \<Rightarrow> string \<Rightarrow> go_error + (string \<times> bytes) list"
  en_ConsulDelete :: "call list \<Rightarrow> string \<Rightarrow> go_error option"
  en_Enqueue :: "call list \<Rightarrow> string \<Rightarrow> bytes \<Rightarrow> string \<Rightarrow> go_error option"
  en_PartyUpdate :: "call list \<Rightarrow> slice \<Rightarrow> party_id option \<Rightarrow> bool \<Rightarrow> bool \<times> go_error option"
  en_RandRead :: "call list \<Rightarrow> nat \<Rightarrow> go_error + bytes"
  en_NewUUID :: "call list \<Rightarrow> string"
  en_TimeNow :: "call list \<Rightarrow> int"
  en_GenPreParams :: "call list \<Rightarrow> go_error + bytes"
  en_TimeText :: "call list \<Rightarrow> string"
  en_SendRetry :: "call list \<Rightarrow> string \<Rightarrow> bytes \<Rightarrow> nat \<Rightarrow> go_error option"
  en_PublishReply :: "call list \<Rightarrow> string \<Rightarrow> string \<Rightarrow> bytes \<Rightarrow> (string \<times> string) list \<Rightarrow> go_error option"
  en_NextMsg :: "call list \<Rightarrow> string \<Rightarrow> go_error + slice"
  en_NewInbox :: "call list \<Rightarrow> string"
  en_MsgAck :: "call list \<Rightarrow> go_error option"
  en_GetMsg :: "call list \<Rightarrow> string \<Rightarrow> nat \<Rightarrow> go_error + bytes"

definition call_io :: "(call list \<Rightarrow> 'a) \<Rightarrow> call \<Rightarrow> 'a io" where
  "call_io answer c = State (\<lambda>tr. (answer tr, tr @ [c]))"

definition io_Publish :: "env \<Rightarrow> string \<Rightarrow> bytes \<Rightarrow> go_error option io" where
  "io_Publish E topic data = call_io (\<lambda>tr. en_Publish E tr topic data) (Publish topic data)"
definition io_Subscribe :: "env \<Rightarrow> string \<Rightarrow> go_error option io" where
  "io_Subscribe E topic = call_io (\<lambda>tr. en_Subscribe E tr topic) (Subscribe topic)"
definition io_Unsubscribe :: "env \<Rightarrow> string \<Rightarrow> go_error option io" where
  "io_Unsubscribe E topic = call_io (\<lambda>tr. en_Unsubscribe E tr topic) (Unsubscribe topic)"
definition io_SendToSelf :: "env \<Rightarrow> string \<Rightarrow> bytes \<Rightarrow> go_error option io" where
  "io_SendToSelf E topic data = call_io (\<lambda>tr. en_SendToSelf E tr topic data) (SendToSelf topic data)"
definition io_SendToOther :: "env \<Rightarrow> string \<Rightarrow> slice \<Rightarrow> go_error option io" where
  "io_SendToOther E topic data = call_io (\<lambda>tr. en_SendToOther E tr topic data) (SendToOther topic data)"
definition io_Listen :: "env \<Rightarrow> string \<Rightarrow> go_error option io" where
  "io_Listen E topic = call_io (\<lambda>tr. en_Listen E tr topic) (Listen topic)"
definition io_KvPut :: "env \<Rightarrow> string \<Rightarrow> bytes \<Rightarrow> go_error option io" where
  "io_KvPut E key val = call_io (\<lambda>tr. en_KvPut E tr key val) (KvPut key val)"
definition io_KvGet :: "env \<Rightarrow> string \<Rightarrow> (go_error + bytes) io" where
  "io_KvGet E key = call_io (\<lambda>tr. en_KvGet E tr key) (KvGet key)"
definition io_ConsulPut :: "env \<Rightarrow> string \<Rightarrow> bytes \<Rightarrow> go_error option io" where
  "io_ConsulPut E key val = call_io (\<lambda>tr. en_ConsulPut E tr key val) (ConsulPut key val)"
definition io_ConsulGet :: "env \<Rightarrow> string \<Rightarrow> (go_error + bytes option) io" where
  "io_ConsulGet E key = call_io (\<lambda>tr. en_ConsulGet E tr key) (ConsulGet key)"
definition io_ConsulList :: "env \<Rightarrow> string \<Rightarrow> (go_error + (string \<times> bytes) list) io" where
  "io_ConsulList E p = call_io (\<lambda>tr. en_ConsulList E tr p) (ConsulList p)"
definition io_ConsulDelete :: "env \<Rightarrow> string \<Rightarrow> go_error option io" where
  "io_ConsulDelete E key = call_io (\<lambda>tr. en_ConsulDelete E tr key) (ConsulDelete key)"
definition io_Enqueue :: "env \<Rightarrow> string \<Rightarrow> bytes \<Rightarrow> string \<Rightarrow> go_error option io" where
  "io_Enqueue E topic data idem = call_io (\<lambda>tr. en_Enqueue E tr topic data idem) (Enqueue topic data idem)"
definition io_ErrSend :: "go_error \<Rightarrow> unit io" where
  "io_ErrSend e = call_io (\<lambda>_. ()) (ErrSend e)"
definition io_PartyNew :: "unit io" where
  "io_PartyNew = call_io (\<lambda>_. ()) PartyNew"
definition io_PartyStart :: "unit io" where
  "io_PartyStart = call_io (\<lambda>_. ()) PartyStart"
definition io_PartyUpdate :: "env \<Rightarrow> slice \<Rightarrow> party_id option \<Rightarrow> bool \<Rightarrow> (bool \<times> go_error option) io" where
  "io_PartyUpdate E msg from b = call_io (\<lambda>tr. en_PartyUpdate E tr msg from b) (PartyUpdate msg from b)"
definition io_RandRead :: "env \<Rightarrow> nat \<Rightarrow> (go_error + bytes) io" where
  "io_RandRead E n = call_io (\<lambda>tr. en_RandRead E tr n) (RandRead n)"
definition io_NewUUID :: "env \<Rightarrow> string io" where
  "io_NewUUID E = call_io (en_NewUUID E) NewUUID"
definition io_TimeNow :: "env \<Rightarrow> int io" where
  "io_TimeNow E = call_io (en_TimeNow E) TimeNow"
definition io_GenPreParams :: "env \<Rightarrow> (go_error + bytes) io" where
  "io_GenPreParams E = call_io (en_GenPreParams E) GenPreParams"
text \<open>\<^verbatim>\<open>time.Now()\<close> as the text \<^verbatim>\<open>MarshalJSON\<close> gives it.\<close>

definition io_TimeText :: "env \<Rightarrow> string io" where
  "io_TimeText E = call_io (en_TimeText E) TimeText"
definition io_SendRetry :: "env \<Rightarrow> string \<Rightarrow> bytes \<Rightarrow> nat \<Rightarrow> go_error option io" where
  "io_SendRetry E topic data n = call_io (\<lambda>tr. en_SendRetry E tr topic data n) (SendRetry topic data n)"
definition io_PublishReply :: "env \<Rightarrow> string \<Rightarrow> string \<Rightarrow> bytes \<Rightarrow> (string \<times> string) list \<Rightarrow> go_error option io" where
  "io_PublishReply E topic reply data h =
     call_io (\<lambda>tr. en_PublishReply E tr topic reply data h) (PublishReply topic reply data h)"
definition io_NextMsg :: "env \<Rightarrow> string \<Rightarrow> (go_error + slice) io" where
  "io_NextMsg E inbox = call_io (\<lambda>tr. en_NextMsg E tr inbox) (NextMsg inbox)"
definition io_NewInbox :: "env \<Rightarrow> string io" where
  "io_NewInbox E = call_io (en_NewInbox E) NewInbox"
definition io_MsgAck :: "env \<Rightarrow> go_error option io" where
  "io_MsgAck E = call_io (en_MsgAck E) MsgAck"
definition io_MsgNak :: "env \<Rightarrow> go_error option io" where
  "io_MsgNak E = call_io (en_MsgAck E) MsgNak"
definition io_MsgTerm :: "env \<Rightarrow> go_error option io" where
  "io_MsgTerm E = call_io (en_MsgAck E) MsgTerm"
definition io_GetMsg :: "env \<Rightarrow> string \<Rightarrow> nat \<Rightarrow> (go_error + bytes) io" where
  "io_GetMsg E stream n = call_io (\<lambda>tr. en_GetMsg E tr stream n) (GetMsg stream n)"

text \<open>A \<^verbatim>\<open>go\<close> statement: the named function starts; its own run is a separate definition.\<close>

definition io_Go :: "string \<Rightarrow> unit io" where
  "io_Go f = call_io (\<lambda>_. ()) (Go f)"
definition io_Sleep :: "int \<Rightarrow> unit io" where
  "io_Sleep ms = call_io (\<lambda>_. ()) (Sleep ms)"
definition io_CallDone :: "unit io" where
  "io_CallDone = call_io (\<lambda>_. ()) CallDone"
definition io_Crash :: "unit io" where
  "io_Crash = call_io (\<lambda>_. ()) Crash"
definition io_Fatal :: "unit io" where
  "io_Fatal = call_io (\<lambda>_. ()) Fatal"

lemmas io_defs =
  io_Publish_def io_Subscribe_def io_Unsubscribe_def io_SendToSelf_def io_SendToOther_def io_Listen_def
  io_KvPut_def io_KvGet_def io_ConsulPut_def io_ConsulGet_def io_ConsulList_def io_ConsulDelete_def
  io_Enqueue_def io_ErrSend_def io_PartyNew_def io_PartyStart_def io_PartyUpdate_def io_RandRead_def
  io_NewUUID_def io_TimeNow_def io_GenPreParams_def io_Sleep_def io_CallDone_def io_Crash_def io_Fatal_def
  io_TimeText_def io_SendRetry_def io_PublishReply_def io_NextMsg_def io_NewInbox_def io_MsgAck_def io_MsgNak_def
  io_MsgTerm_def io_GetMsg_def io_Go_def

text \<open>A \<^verbatim>\<open>for\<close> loop over a slice whose body only has effects.\<close>

fun for_each :: "('a \<Rightarrow> unit io) \<Rightarrow> 'a list \<Rightarrow> unit io" where
  "for_each f [] = State_Monad.return ()"
| "for_each f (x # xs) = do { f x; for_each f xs }"

lemma run_call_io [simp]: "run_state (call_io answer c) tr = (answer tr, tr @ [c])"
  by (simp add: call_io_def)

section \<open>Footprints\<close>

definition emits_only :: "(call \<Rightarrow> bool) \<Rightarrow> 'a io \<Rightarrow> bool" where
  "emits_only P m \<longleftrightarrow> (\<forall>tr. \<exists>new. snd (run_state m tr) = tr @ new \<and> list_all P new)"

named_theorems emits \<open>rules for footprints of effectful code\<close>

lemma emits_return [emits]: "emits_only P (State_Monad.return x)"
  by (simp add: emits_only_def)

lemma emits_call [emits]: "P c \<Longrightarrow> emits_only P (call_io answer c)"
  by (auto simp: emits_only_def)

lemma emits_bind [emits]:
  assumes "emits_only P m" and "\<And>x. emits_only P (f x)"
  shows "emits_only P (State_Monad.bind m f)"
  unfolding emits_only_def
proof
  fix tr
  obtain x tr1 where r: "run_state m tr = (x, tr1)" by fastforce
  with assms(1) obtain a where a: "tr1 = tr @ a" "list_all P a"
    unfolding emits_only_def by (metis snd_conv)
  from assms(2) [of x] obtain b where "snd (run_state (f x) tr1) = tr1 @ b" "list_all P b"
    unfolding emits_only_def by blast
  with r a show "\<exists>new. snd (run_state (m \<bind> f) tr) = tr @ new \<and> list_all P new"
    by (intro exI [of _ "a @ b"]) simp
qed

lemma emits_if [emits]:
  "(b \<Longrightarrow> emits_only P x) \<Longrightarrow> (\<not> b \<Longrightarrow> emits_only P y) \<Longrightarrow> emits_only P (if b then x else y)"
  by simp

lemma emits_option [emits]:
  "(v = None \<Longrightarrow> emits_only P x) \<Longrightarrow> (\<And>a. v = Some a \<Longrightarrow> emits_only P (f a)) \<Longrightarrow>
   emits_only P (case v of None \<Rightarrow> x | Some a \<Rightarrow> f a)"
  by (simp split: option.split)

lemma emits_sum [emits]:
  "(\<And>a. v = Inl a \<Longrightarrow> emits_only P (g a)) \<Longrightarrow> (\<And>a. v = Inr a \<Longrightarrow> emits_only P (f a)) \<Longrightarrow>
   emits_only P (case v of Inl a \<Rightarrow> g a | Inr a \<Rightarrow> f a)"
  by (simp split: sum.split)

lemma emits_prod [emits]:
  "(\<And>a b. v = (a, b) \<Longrightarrow> emits_only P (f a b)) \<Longrightarrow> emits_only P (case v of (a, b) \<Rightarrow> f a b)"
  by (simp split: prod.split)

lemma emits_go_res [emits]:
  "(v = Panic \<Longrightarrow> emits_only P x) \<Longrightarrow> (\<And>a. v = Ret a \<Longrightarrow> emits_only P (f a)) \<Longrightarrow>
   emits_only P (case v of Panic \<Rightarrow> x | Ret a \<Rightarrow> f a)"
  by (simp split: go_res.split)

lemma emits_let [emits]: "emits_only P (f x) \<Longrightarrow> emits_only P (let y = x in f y)"
  by simp

lemma emits_for_each [emits]: "(\<And>x. emits_only P (f x)) \<Longrightarrow> emits_only P (for_each f xs)"
  by (induction xs) (simp_all add: emits_return emits_bind)

lemma emits_mono: "emits_only P m \<Longrightarrow> (\<And>c. P c \<Longrightarrow> Q c) \<Longrightarrow> emits_only Q m"
  unfolding emits_only_def by (metis list.pred_mono_strong)

lemma emits_onlyD:
  assumes "emits_only P m" and "run_state m tr = (x, tr')"
  obtains new where "tr' = tr @ new" and "list_all P new"
  using assms unfolding emits_only_def by (metis snd_conv)

section \<open>Laws of the environment\<close>

text \<open>
  A get returns the value of the last put that succeeded; deleting or overwriting is the only way to lose it.
\<close>

definition kv_faithful :: "env \<Rightarrow> bool" where
  "kv_faithful E \<longleftrightarrow>
     (\<forall>a b k v. en_KvPut E a k v = None \<longrightarrow> (\<forall>v'. KvPut k v' \<notin> set b) \<longrightarrow>
        en_KvGet E (a @ KvPut k v # b) k = Inr v)"

definition consul_faithful :: "env \<Rightarrow> bool" where
  "consul_faithful E \<longleftrightarrow>
     (\<forall>a b k v. en_ConsulPut E a k v = None \<longrightarrow>
        (\<forall>v'. ConsulPut k v' \<notin> set b) \<longrightarrow> ConsulDelete k \<notin> set b \<longrightarrow>
        en_ConsulGet E (a @ ConsulPut k v # b) k = Inr (Some v))"

lemma kv_faithfulD:
  "kv_faithful E \<Longrightarrow> en_KvPut E a k v = None \<Longrightarrow> (\<And>v'. KvPut k v' \<notin> set b) \<Longrightarrow>
   en_KvGet E (a @ KvPut k v # b) k = Inr v"
  by (simp add: kv_faithful_def)

lemma consul_faithfulD:
  "consul_faithful E \<Longrightarrow> en_ConsulPut E a k v = None \<Longrightarrow> (\<And>v'. ConsulPut k v' \<notin> set b) \<Longrightarrow>
   ConsulDelete k \<notin> set b \<Longrightarrow> en_ConsulGet E (a @ ConsulPut k v # b) k = Inr (Some v)"
  by (simp add: consul_faithful_def)

section \<open>A concrete environment\<close>

text \<open>Every call succeeds; reads search the history from its end.\<close>

fun last_kv :: "string \<Rightarrow> call list \<Rightarrow> bytes option" where
  "last_kv k [] = None"
| "last_kv k (KvPut k' v # r) = (if k = k' then Some v else last_kv k r)"
| "last_kv k (_ # r) = last_kv k r"

fun last_consul :: "string \<Rightarrow> call list \<Rightarrow> bytes option" where
  "last_consul k [] = None"
| "last_consul k (ConsulPut k' v # r) = (if k = k' then Some v else last_consul k r)"
| "last_consul k (ConsulDelete k' # r) = (if k = k' then None else last_consul k r)"
| "last_consul k (_ # r) = last_consul k r"

definition env_ref :: env where
  "env_ref =
     \<lparr>en_Publish = \<lambda>_ _ _. None, en_Subscribe = \<lambda>_ _. None, en_Unsubscribe = \<lambda>_ _. None,
      en_SendToSelf = \<lambda>_ _ _. None, en_SendToOther = \<lambda>_ _ _. None, en_Listen = \<lambda>_ _. None,
      en_KvPut = \<lambda>_ _ _. None,
      en_KvGet = \<lambda>tr k. (case last_kv k (rev tr) of None \<Rightarrow> Inl (errorf ''Key not found'') | Some v \<Rightarrow> Inr v),
      en_ConsulPut = \<lambda>_ _ _. None,
      en_ConsulGet = \<lambda>tr k. Inr (last_consul k (rev tr)),
      en_ConsulList = \<lambda>_ _. Inr [], en_ConsulDelete = \<lambda>_ _. None,
      en_Enqueue = \<lambda>_ _ _ _. None, en_PartyUpdate = \<lambda>_ _ _ _. (True, None),
      en_RandRead = \<lambda>_ n. Inr (replicate n CHR ''r''), en_NewUUID = \<lambda>tr. utoa (length tr),
      en_TimeNow = \<lambda>tr. int (length tr), en_GenPreParams = \<lambda>_. Inr ''pre'',
      en_TimeText = \<lambda>_. ''2024-01-02T03:04:05Z'', en_SendRetry = \<lambda>_ _ _ _. None, en_PublishReply = \<lambda>_ _ _ _ _. None,
      en_NextMsg = \<lambda>_ _. Inr (Some []), en_NewInbox = \<lambda>tr. ''_INBOX.'' @ utoa (length tr), en_MsgAck = \<lambda>_. None,
      en_GetMsg = \<lambda>_ _ _. Inr []\<rparr>"

lemma last_kv_append: "(\<And>v. KvPut k v \<notin> set a) \<Longrightarrow> last_kv k (a @ b) = last_kv k b"
proof (induction a)
  case (Cons c a)
  have "\<And>v. KvPut k v \<notin> set a" using Cons.prems by (meson list.set_intros(2))
  from Cons.IH [OF this] Cons.prems show ?case by (cases c) (auto split: if_splits)
qed simp

lemma last_consul_append:
  "(\<And>v. ConsulPut k v \<notin> set a) \<Longrightarrow> ConsulDelete k \<notin> set a \<Longrightarrow> last_consul k (a @ b) = last_consul k b"
proof (induction a)
  case (Cons c a)
  have "\<And>v. ConsulPut k v \<notin> set a" "ConsulDelete k \<notin> set a"
    using Cons.prems by (meson list.set_intros(2))+
  from Cons.IH [OF this] Cons.prems show ?case by (cases c) (auto split: if_splits)
qed simp

lemma env_ref_kv: "kv_faithful env_ref"
  by (simp add: kv_faithful_def env_ref_def last_kv_append)

lemma env_ref_consul: "consul_faithful env_ref"
  by (simp add: consul_faithful_def env_ref_def last_consul_append)

end
