(* ===== verification/Key_Info.thy ===== *)
theory Key_Info
  imports World
begin

text \<open>
  \<^verbatim>\<open>pkg/keyinfo/keyinfo.go\<close>: the record that tells which nodes hold shares of a key, its threshold and
  its version, stored as JSON in Consul. The lemmas show the round trip through the JSON text and through
  a store that keeps what was put.
\<close>

record KeyInfo =
  ki_ParticipantPeerIDs :: "string list option"
  ki_Threshold :: int
  ki_Version :: int

definition KeyInfo_zero :: KeyInfo where
  "KeyInfo_zero = \<lparr>ki_ParticipantPeerIDs = None, ki_Threshold = 0, ki_Version = 0\<rparr>"

definition ki_peers :: "KeyInfo \<Rightarrow> string list" where
  "ki_peers k = (case ki_ParticipantPeerIDs k of None \<Rightarrow> [] | Some l \<Rightarrow> l)"

lemma ki_peers_Some [simp]: "ki_peers \<lparr>ki_ParticipantPeerIDs = Some l, ki_Threshold = t, ki_Version = v\<rparr> = l"
  by (simp add: ki_peers_def)

definition Marshal_KeyInfo :: "KeyInfo \<Rightarrow> bytes" where
  "Marshal_KeyInfo k = json_print (
     JObj [(''participant_peer_ids'', enc_strs (ki_ParticipantPeerIDs k)),
           (''threshold'', enc_int (ki_Threshold k)), (''version'', enc_int (ki_Version k))])"

definition KeyInfo_fields :: "(string \<times> KeyInfo decoder) list" where
  "KeyInfo_fields =
     [(''participant_peer_ids'', fld_strs ki_ParticipantPeerIDs_update),
      (''threshold'', fld_int ki_Threshold_update), (''version'', fld_int ki_Version_update)]"

definition keyinfo_composeKey :: "string \<Rightarrow> string" where
  "keyinfo_composeKey walletID = ''threshold_keyinfo/'' @ walletID"

definition keyinfo_Get :: "env \<Rightarrow> string \<Rightarrow> (go_error + KeyInfo) io" where
  "keyinfo_Get E walletID = do {
     r \<leftarrow> io_ConsulGet E (keyinfo_composeKey walletID);
     State_Monad.return
       (case r of
          Inl err \<Rightarrow> Inl (wrapf ''failed to get key info'' err)
        | Inr None \<Rightarrow> Inl (errorf ''key info not found'')
        | Inr (Some val) \<Rightarrow>
            (case json_Unmarshal (decode_struct KeyInfo_fields) val KeyInfo_zero of
               (_, Some err) \<Rightarrow> Inl (wrapf ''failed to unmarshal key info'' err)
             | (info, None) \<Rightarrow> Inr info)) }"

definition keyinfo_Save :: "env \<Rightarrow> string \<Rightarrow> KeyInfo \<Rightarrow> go_error option io" where
  "keyinfo_Save E walletID info = do {
     err \<leftarrow> io_ConsulPut E (keyinfo_composeKey walletID) (Marshal_KeyInfo info);
     State_Monad.return (case err of Some e \<Rightarrow> Some (wrapf ''failed to save key info'' e) | None \<Rightarrow> None) }"

definition KeyInfo_wf :: "KeyInfo \<Rightarrow> bool" where
  "KeyInfo_wf k \<longleftrightarrow> in_int64 (ki_Threshold k) \<and> in_int64 (ki_Version k)"

lemma KeyInfo_codec:
  "KeyInfo_wf k \<Longrightarrow>
   json_Unmarshal (decode_struct KeyInfo_fields) (Marshal_KeyInfo k) KeyInfo_zero = (k, None)"
  by (simp add: KeyInfo_wf_def Marshal_KeyInfo_def KeyInfo_fields_def KeyInfo_zero_def struct_codec_simps)

lemma keyinfo_composeKey_inject [simp]: "keyinfo_composeKey a = keyinfo_composeKey b \<longleftrightarrow> a = b"
  by (simp add: keyinfo_composeKey_def)

text \<open>The answer \<^verbatim>\<open>Get\<close> gives after a history, as a function of the history.\<close>

lemma keyinfo_Get_after_Save:
  assumes "consul_faithful E" and "KeyInfo_wf k"
    and "en_ConsulPut E a (keyinfo_composeKey w) (Marshal_KeyInfo k) = None"
    and "\<And>v. ConsulPut (keyinfo_composeKey w) v \<notin> set b" and "ConsulDelete (keyinfo_composeKey w) \<notin> set b"
    and "tr = a @ ConsulPut (keyinfo_composeKey w) (Marshal_KeyInfo k) # b"
  shows "run_state (keyinfo_Get E w) tr = (Inr k, tr @ [ConsulGet (keyinfo_composeKey w)])"
  using consul_faithfulD [OF assms(1,3,4,5)] assms(6)
  by (simp add: keyinfo_Get_def io_defs KeyInfo_codec [OF assms(2)])

lemma keyinfo_Get_trace [simp]:
  "snd (run_state (keyinfo_Get E w) tr) = tr @ [ConsulGet (keyinfo_composeKey w)]"
  by (simp add: keyinfo_Get_def io_defs)

lemma keyinfo_Get_emits [emits]: "P (ConsulGet (keyinfo_composeKey w)) \<Longrightarrow> emits_only P (keyinfo_Get E w)"
  unfolding keyinfo_Get_def io_defs by (intro emits)

lemma keyinfo_Save_emits [emits]:
  "P (ConsulPut (keyinfo_composeKey w) (Marshal_KeyInfo k)) \<Longrightarrow> emits_only P (keyinfo_Save E w k)"
  unfolding keyinfo_Save_def io_defs by (intro emits)

end
