(* ===== verification/Party_Session.thy ===== *)
theory Party_Session
  imports Identity_Store Key_Info
begin

text \<open>
  \<^verbatim>\<open>pkg/mpc/core/session.go\<close>: the state that key generation, signing and resharing sessions share, and
  its message handling: sending the messages a tss party produces (signed broadcasts, encrypted direct
  messages), receiving and authenticating messages, feeding them to the party, subscribing to topics,
  closing the session, and loading an old share. \<open>io_ErrSend\<close> is a send on \<^verbatim>\<open>ErrCh\<close>; \<open>io_Crash\<close> is a
  panic on a nil pointer, after which the rest of the call does not run.

  The share data of the tss library is opaque but for its public key; \<open>share_lib\<close> has the functions the
  code calls on it and \<open>share_lib_ok\<close> what is documented: marshalled shares unmarshal to themselves.
\<close>

section \<open>Parameters from the tss library\<close>

record save_data =
  sd_Pub :: "(nat \<times> nat) option"
  sd_Blob :: bytes

record signature_data =
  sg_R :: slice
  sg_S :: slice
  sg_SignatureRecovery :: slice
  sg_Signature :: slice

record share_lib =
  sl_Marshal :: "save_data \<Rightarrow> go_error + bytes"
  sl_Unmarshal :: "bytes \<Rightarrow> go_error + save_data"
  sl_Verify :: "nat \<times> nat \<Rightarrow> bytes \<Rightarrow> nat \<Rightarrow> nat \<Rightarrow> bool"
  sl_SerializeCompressed :: "nat \<times> nat \<Rightarrow> bytes"

definition share_lib_ok :: "share_lib \<Rightarrow> bool" where
  "share_lib_ok L \<longleftrightarrow> (\<forall>d b. sl_Marshal L d = Inr b \<longrightarrow> sl_Unmarshal L b = Inr d)"

text \<open>An instance for concrete runs: one share, whose text is its blob.\<close>

definition share_lib_ref :: share_lib where
  "share_lib_ref =
     \<lparr>sl_Marshal = \<lambda>d. if sd_Pub d = Some (1, 2) then Inr (sd_Blob d) else Inl (errorf ''share''),
      sl_Unmarshal = \<lambda>b. Inr \<lparr>sd_Pub = Some (1, 2), sd_Blob = b\<rparr>,
      sl_Verify = \<lambda>_ m r s. m = big_Bytes r \<and> s = 0,
      sl_SerializeCompressed = \<lambda>(x, y). big_Bytes y\<rparr>"

lemma share_lib_ref_ok: "share_lib_ok share_lib_ref"
  by (auto simp: share_lib_ok_def share_lib_ref_def split: if_splits)

text \<open>What a tss message yields on \<^verbatim>\<open>WireBytes\<close>: an error, or its bytes and routing.\<close>

record routing =
  rt_IsBroadcast :: bool
  rt_From :: "party_id option"
  rt_To :: "party_id list option"

type_synonym tss_message = "go_error + bytes \<times> routing"

record RoundInfo =
  ri_Index :: int
  ri_RoundMsg :: string
  ri_MsgIdentifier :: string

section \<open>The session\<close>

definition SessionTypeECDSA :: string where "SessionTypeECDSA = ''session_ecdsa''"
definition SessionTypeEDDSA :: string where "SessionTypeEDDSA = ''session_eddsa''"

record PartySession =
  ps_WalletID :: string
  ps_Threshold :: int
  ps_ParticipantPeerIDs :: "string list"
  ps_SelfPartyID :: "party_id option"
  ps_PartyIDs :: "party_id list"
  ps_Version :: int
  ps_PreParams :: slice
  ps_BroadcastSub :: "string option"
  ps_DirectSubs :: "string list"
  ps_BroadcastTopic :: string
  ps_DirectTopic :: "string \<Rightarrow> string \<Rightarrow> string"
  ps_ComposeKey :: "string \<Rightarrow> string"
  ps_GetRoundFunc :: "slice \<Rightarrow> party_id option \<Rightarrow> bool \<Rightarrow> go_error + RoundInfo"
  ps_PubkeyBytes :: slice
  ps_SessionType :: string
  ps_IdempotentKey :: string

definition GetPartyID :: "PartySession \<Rightarrow> party_id option" where "GetPartyID s = ps_SelfPartyID s"
definition GetPartyIDs :: "PartySession \<Rightarrow> party_id list" where "GetPartyIDs s = ps_PartyIDs s"
definition GetPartyCount :: "PartySession \<Rightarrow> nat" where "GetPartyCount s = length (ps_PartyIDs s)"
definition GetPubKeyResult :: "PartySession \<Rightarrow> slice" where "GetPubKeyResult s = ps_PubkeyBytes s"
definition GetVersion :: "PartySession \<Rightarrow> int" where "GetVersion s = ps_Version s"

text \<open>\<^verbatim>\<open>IdentityStore.EncryptMessage\<close> with its draw from the random source.\<close>

definition io_EncryptMessage :: "env \<Rightarrow> crypto \<Rightarrow> fileStore \<Rightarrow> bytes \<Rightarrow> string \<Rightarrow> (go_error + bytes) io" where
  "io_EncryptMessage E C ids msg peerID =
     (case GetSymmetricKey peerID ids of
        Inr (Some key) \<Rightarrow>
          (if aes_NewCipher key = None then do {
             rand \<leftarrow> io_RandRead E gcm_nonce_size;
             State_Monad.return (EncryptMessage C rand ids msg peerID) }
           else State_Monad.return (EncryptMessage C (Inr []) ids msg peerID))
      | _ \<Rightarrow> State_Monad.return (EncryptMessage C (Inr []) ids msg peerID))"

text \<open>One direct message of \<^verbatim>\<open>HandleTssMessage\<close>; after an encryption error the nil cipher is still sent.\<close>

definition send_direct ::
  "env \<Rightarrow> crypto \<Rightarrow> tss_lib \<Rightarrow> fileStore \<Rightarrow> PartySession \<Rightarrow> string \<Rightarrow> bytes \<Rightarrow> party_id \<Rightarrow> unit io" where
  "send_direct E C T ids s selfID msg to =
     (let toNodeID = PartyIDToNodeID T (Some to); topic = ps_DirectTopic s selfID toNodeID in
      if selfID = toNodeID then do {
        err \<leftarrow> io_SendToSelf E topic msg;
        (case err of
           Some _ \<Rightarrow> io_ErrSend (errorf (''failed to send direct message to '' @ topic))
         | None \<Rightarrow> State_Monad.return ()) }
      else do {
        cipher \<leftarrow> io_EncryptMessage E C ids msg toNodeID;
        (case cipher of
           Inl err \<Rightarrow> io_ErrSend (Errorf (''encrypt tss message error '' @ err_msg err) (Some err))
         | Inr _ \<Rightarrow> State_Monad.return ());
        err \<leftarrow> io_SendToOther E topic (case cipher of Inl _ \<Rightarrow> None | Inr c \<Rightarrow> Some c);
        (case err of
           Some e \<Rightarrow> io_ErrSend (Errorf (''failed to send direct message to '' @ err_msg e) (Some e))
         | None \<Rightarrow> State_Monad.return ()) })"

definition HandleTssMessage ::
  "env \<Rightarrow> crypto \<Rightarrow> tss_lib \<Rightarrow> fileStore \<Rightarrow> PartySession \<Rightarrow> tss_message \<Rightarrow> unit io" where
  "HandleTssMessage E C T ids s keyshare =
     (case keyshare of
        Inl err \<Rightarrow> io_ErrSend err
      | Inr (data, routing) \<Rightarrow>
          (let tssMsg = NewTssMessage (ps_WalletID s) (Some data) (rt_IsBroadcast routing) (rt_From routing)
                          (map_option (map Some) (rt_To routing));
               to = (case rt_To routing of None \<Rightarrow> [] | Some l \<Rightarrow> l)
           in if ps_SelfPartyID s = None then io_Crash
              else if rt_IsBroadcast routing \<and> length to = 0 then
                (case SignMessage C T ids tssMsg of
                   Panic \<Rightarrow> io_Crash
                 | Ret signature \<Rightarrow> do {
                     let msg = MarshalTssMessage T (tssMsg\<lparr>tm_Signature := Some signature\<rparr>);
                     err \<leftarrow> io_Publish E (ps_BroadcastTopic s) msg;
                     (case err of Some e \<Rightarrow> io_ErrSend e | None \<Rightarrow> State_Monad.return ()) })
              else
                (let msg = MarshalTssMessage T tssMsg; selfID = PartyIDToNodeID T (ps_SelfPartyID s)
                 in for_each (send_direct E C T ids s selfID msg) to)))"

text \<open>
  The last step of receiving: the party sees the message if it is a broadcast, or if one of its
  receivers has the key of this node's party ID. Logging reads the sender and the receivers, so a nil
  one panics.
\<close>

definition receiveTssMessage :: "env \<Rightarrow> tss_lib \<Rightarrow> PartySession \<Rightarrow> TssMessage \<Rightarrow> unit io" where
  "receiveTssMessage E T s msg =
     (let to = (case tm_To msg of None \<Rightarrow> [] | Some l \<Rightarrow> l) in
      if list_ex (\<lambda>p. p = None) to then io_Crash
      else (case ps_GetRoundFunc s (tm_MsgBytes msg) (ps_SelfPartyID s) (tm_IsBroadcast msg) of
              Inl err \<Rightarrow> io_ErrSend (wrapf ''Broken TSS Share'' err)
            | Inr round \<Rightarrow>
                (case (tm_From msg, ps_SelfPartyID s) of
                   (Some from, Some self) \<Rightarrow>
                     (let isBroadcast = (tm_IsBroadcast msg \<and> length to = 0);
                          isToSelf = list_ex (\<lambda>p. ComparePartyIDs T (the p) self) to
                      in if isBroadcast \<or> isToSelf then do {
                           r \<leftarrow> io_PartyUpdate E (tm_MsgBytes msg) (tm_From msg) (tm_IsBroadcast msg);
                           State_Monad.return () }
                         else State_Monad.return ())
                 | _ \<Rightarrow> io_Crash)))"

definition tampered :: "string \<Rightarrow> go_error \<Rightarrow> go_error" where
  "tampered ctx err = Errorf (ctx @ '': '' @ err_msg err @ '', tampered message'') (Some err)"

definition receiveP2PTssMessage ::
  "env \<Rightarrow> crypto \<Rightarrow> tss_lib \<Rightarrow> fileStore \<Rightarrow> PartySession \<Rightarrow> string \<Rightarrow> bytes \<Rightarrow> unit io" where
  "receiveP2PTssMessage E C T ids s topic cipher =
     (let senderID = extractSenderIDFromDirectTopic topic in
      if senderID = [] then
        io_ErrSend (errorf ''failed to extract senderID from direct topic: the direct topic format is wrong'')
      else
        (case (if senderID = PartyIDToNodeID T (ps_SelfPartyID s) then Inr cipher
               else DecryptMessage C ids cipher senderID) of
           Inl err \<Rightarrow> io_ErrSend (tampered ''failed to decrypt message'' err)
         | Inr plaintext \<Rightarrow>
             (case UnmarshalTssMessage T plaintext of
                Inl err \<Rightarrow> io_ErrSend (wrapf ''failed to unmarshal message'' err)
              | Inr msg \<Rightarrow> receiveTssMessage E T s msg)))"

definition receiveBroadcastTssMessage ::
  "env \<Rightarrow> crypto \<Rightarrow> tss_lib \<Rightarrow> fileStore \<Rightarrow> PartySession \<Rightarrow> bytes \<Rightarrow> unit io" where
  "receiveBroadcastTssMessage E C T ids s rawMsg =
     (case UnmarshalTssMessage T rawMsg of
        Inl err \<Rightarrow> io_ErrSend (wrapf ''failed to unmarshal message'' err)
      | Inr msg \<Rightarrow>
          (case VerifyMessage C T ids msg of
             Panic \<Rightarrow> io_Crash
           | Ret (Some err) \<Rightarrow> io_ErrSend (tampered ''failed to verify message'' err)
           | Ret None \<Rightarrow> receiveTssMessage E T s msg))"

section \<open>Subscriptions\<close>

definition subscribeDirectTopicAsync :: "env \<Rightarrow> PartySession \<Rightarrow> string \<Rightarrow> (go_error option \<times> PartySession) io" where
  "subscribeDirectTopicAsync E s topic = do {
     err \<leftarrow> io_Listen E topic;
     State_Monad.return
       (case err of
          Some e \<Rightarrow> (Some (wrapf (''failed to subscribe to direct topic '' @ topic) e), s)
        | None \<Rightarrow> (None, s\<lparr>ps_DirectSubs := ps_DirectSubs s @ [topic]\<rparr>)) }"

fun subscribeFromPeersAsync :: "env \<Rightarrow> tss_lib \<Rightarrow> string list \<Rightarrow> PartySession \<Rightarrow> PartySession io" where
  "subscribeFromPeersAsync E T [] s = State_Monad.return s"
| "subscribeFromPeersAsync E T (fromID # fromIDs) s = do {
     let toID = PartyIDToNodeID T (ps_SelfPartyID s);
     r \<leftarrow> subscribeDirectTopicAsync E s (ps_DirectTopic s fromID toID);
     (case fst r of Some e \<Rightarrow> io_ErrSend e | None \<Rightarrow> State_Monad.return ());
     subscribeFromPeersAsync E T fromIDs (snd r) }"

definition subscribeBroadcastAsync :: "env \<Rightarrow> PartySession \<Rightarrow> PartySession io" where
  "subscribeBroadcastAsync E s = do {
     err \<leftarrow> io_Subscribe E (ps_BroadcastTopic s);
     (case err of
        Some e \<Rightarrow> do {
          io_ErrSend (wrapf (''failed to subscribe to broadcast topic '' @ ps_BroadcastTopic s) e);
          State_Monad.return s }
      | None \<Rightarrow> State_Monad.return (s\<lparr>ps_BroadcastSub := Some (ps_BroadcastTopic s)\<rparr>)) }"

text \<open>
  The broadcast subscription runs in its own goroutine; the argument \<open>k\<close> is the number of direct
  subscriptions made before it.
\<close>

definition ListenToIncomingMessageAsync :: "env \<Rightarrow> tss_lib \<Rightarrow> nat \<Rightarrow> PartySession \<Rightarrow> PartySession io" where
  "ListenToIncomingMessageAsync E T k s = do {
     let peers = PartyIDsToNodeIDs T (ps_PartyIDs s);
     s1 \<leftarrow> subscribeFromPeersAsync E T (take k peers) s;
     s2 \<leftarrow> subscribeBroadcastAsync E s1;
     subscribeFromPeersAsync E T (drop k peers) s2 }"

definition ListenToPeersAsync :: "env \<Rightarrow> tss_lib \<Rightarrow> string list \<Rightarrow> PartySession \<Rightarrow> PartySession io" where
  "ListenToPeersAsync E T peerIDs s = subscribeFromPeersAsync E T peerIDs s"

fun unsubscribe_all :: "env \<Rightarrow> string list \<Rightarrow> go_error option io" where
  "unsubscribe_all E [] = State_Monad.return None"
| "unsubscribe_all E (sub # subs) = do {
     err \<leftarrow> io_Unsubscribe E sub;
     (case err of Some e \<Rightarrow> State_Monad.return (Some e) | None \<Rightarrow> unsubscribe_all E subs) }"

text \<open>\<^verbatim>\<open>Close\<close> calls a method on the broadcast subscription, which is nil if subscribing failed.\<close>

definition Close_session :: "env \<Rightarrow> PartySession \<Rightarrow> go_error option go_res io" where
  "Close_session E s =
     (case ps_BroadcastSub s of
        None \<Rightarrow> do { io_Crash; State_Monad.return Panic }
      | Some topic \<Rightarrow> do {
          err \<leftarrow> io_Unsubscribe E topic;
          (case err of
             Some e \<Rightarrow> State_Monad.return (Ret (Some e))
           | None \<Rightarrow> do {
               r \<leftarrow> unsubscribe_all E (ps_DirectSubs s);
               State_Monad.return (Ret r) }) })"

section \<open>Loading a share\<close>

text \<open>
  A negative version reads no key at all: \<^verbatim>\<open>keyData\<close> stays nil and is unmarshalled as the empty text.
\<close>

definition LoadOldShareDataGeneric ::
  "env \<Rightarrow> share_lib \<Rightarrow> PartySession \<Rightarrow> string \<Rightarrow> int \<Rightarrow> (go_error + save_data) io" where
  "LoadOldShareDataGeneric E L s walletID version = do {
     keyData \<leftarrow>
       (if version > 0 then io_KvGet E (ps_ComposeKey s (WalletIDWithVersion walletID version))
        else if version = 0 then io_KvGet E (ps_ComposeKey s walletID)
        else State_Monad.return (Inr []));
     State_Monad.return
       (case keyData of
          Inl err \<Rightarrow> Inl err
        | Inr val \<Rightarrow>
            (case sl_Unmarshal L val of
               Inl err \<Rightarrow> Inl (wrapf ''failed to unmarshal wallet data'' err)
             | Inr share \<Rightarrow> Inr share)) }"

section \<open>Session loops\<close>

text \<open>
  What the select of a session loop can receive: a message its party wants to send, the result of the
  party, or (from the goroutine that starts the party) an error.
\<close>

datatype 'a party_event = OutMsg tss_message | EndData 'a | StartFailed go_error

datatype 's loop_result = Waiting 's | Returned 's

section \<open>Running sessions\<close>

text \<open>
  A session whose goroutines run beside the handler that created it: the loop has not started, runs or has
  returned; the goroutines offer errors on the channel of the session (\<open>lv_pending\<close>); the context is done once
  the completion callback was called. The loop takes one event per step, and messages arrive between them. A
  sender that waits on the channel is taken to run on: nothing it does after a send changes the session.
\<close>

datatype live_phase = Live_new | Live_running | Live_returned

record 's live =
  lv_session :: 's
  lv_phase :: live_phase
  lv_pending :: "go_error list"
  lv_done :: bool

definition live_start :: "'s \<Rightarrow> go_error list \<Rightarrow> 's live" where
  "live_start s errs = \<lparr>lv_session = s, lv_phase = Live_new, lv_pending = errs, lv_done = False\<rparr>"

datatype incoming = Broadcast_in bytes | Direct_in string bytes

definition handle_incoming ::
  "env \<Rightarrow> crypto \<Rightarrow> tss_lib \<Rightarrow> fileStore \<Rightarrow> PartySession \<Rightarrow> incoming \<Rightarrow> unit io" where
  "handle_incoming E C T ids s m =
     (case m of
        Broadcast_in raw \<Rightarrow> receiveBroadcastTssMessage E C T ids s raw
      | Direct_in topic cipher \<Rightarrow> receiveP2PTssMessage E C T ids s topic cipher)"

text \<open>The errors among the calls that a history has gained.\<close>

definition sent_errors :: "call list \<Rightarrow> call list \<Rightarrow> go_error list" where
  "sent_errors tr tr' = List.map_filter (\<lambda>c. case c of ErrSend e \<Rightarrow> Some e | _ \<Rightarrow> None) (drop (length tr) tr')"

fun result_session :: "'s loop_result \<Rightarrow> 's" where
  "result_session (Waiting s) = s"
| "result_session (Returned s) = s"

fun result_phase :: "'s loop_result \<Rightarrow> live_phase" where
  "result_phase (Waiting s) = Live_running"
| "result_phase (Returned s) = Live_returned"

inductive live_step ::
  "('s \<Rightarrow> PartySession) \<Rightarrow> ('s \<Rightarrow> 'd party_event list \<Rightarrow> 's loop_result io) \<Rightarrow> (PartySession \<Rightarrow> incoming \<Rightarrow> unit io) \<Rightarrow>
   's live \<Rightarrow> call list \<Rightarrow> 's live \<Rightarrow> call list \<Rightarrow> bool"
  for sess :: "'s \<Rightarrow> PartySession" and loop :: "'s \<Rightarrow> 'd party_event list \<Rightarrow> 's loop_result io"
    and receive :: "PartySession \<Rightarrow> incoming \<Rightarrow> unit io" where
  start: "lv_phase v = Live_new \<Longrightarrow> live_step sess loop receive v tr (v\<lparr>lv_phase := Live_running\<rparr>) (tr @ [PartyStart])"
| event: "lv_phase v = Live_running \<Longrightarrow> run_state (loop (lv_session v) [e]) tr = (r, tr') \<Longrightarrow>
    live_step sess loop receive v tr
      (v\<lparr>lv_session := result_session r, lv_phase := result_phase r, lv_pending := lv_pending v @ sent_errors tr tr',
         lv_done := (lv_done v \<or> CallDone \<in> set (drop (length tr) tr'))\<rparr>) tr'"
| incoming: "run_state (receive (sess (lv_session v)) m) tr = ((), tr') \<Longrightarrow>
    live_step sess loop receive v tr (v\<lparr>lv_pending := lv_pending v @ sent_errors tr tr'\<rparr>) tr'"

section \<open>Footprints\<close>

definition session_ending :: "call \<Rightarrow> bool" where
  "session_ending c \<longleftrightarrow> (case c of Unsubscribe _ \<Rightarrow> True | CallDone \<Rightarrow> True | Crash \<Rightarrow> True | _ \<Rightarrow> False)"

lemma unsubscribe_all_emits [emits]: "emits_only session_ending (unsubscribe_all E subs)"
  by (induction subs) (simp_all add: emits session_ending_def io_defs)

lemma Close_session_emits [emits]: "emits_only session_ending (Close_session E s)"
  unfolding Close_session_def io_defs
  by (intro emits) (simp_all add: session_ending_def)

lemma Close_session_trace:
  obtains rest where "snd (run_state (Close_session E s) tr) = tr @ rest" and "list_all session_ending rest"
  using Close_session_emits [of E s] by (auto simp: emits_only_def)

lemma io_EncryptMessage_emits [emits]:
  "P (RandRead gcm_nonce_size) \<Longrightarrow> emits_only P (io_EncryptMessage E C ids msg p)"
  unfolding io_EncryptMessage_def io_defs by (intro emits) simp_all

definition sends :: "call \<Rightarrow> bool" where
  "sends c \<longleftrightarrow> (case c of Publish _ _ \<Rightarrow> True | SendToSelf _ _ \<Rightarrow> True | SendToOther _ _ \<Rightarrow> True
     | RandRead _ \<Rightarrow> True | ErrSend _ \<Rightarrow> True | Crash \<Rightarrow> True | _ \<Rightarrow> False)"

lemma sends_ErrSend [simp]: "sends (ErrSend e)"
  by (simp add: sends_def)

lemma HandleTssMessage_emits: "emits_only sends (HandleTssMessage E C T ids s m)"
  unfolding HandleTssMessage_def send_direct_def Let_def io_defs
  by (intro emits) (simp_all add: sends_def)

definition receives :: "call \<Rightarrow> bool" where
  "receives c \<longleftrightarrow> (case c of PartyUpdate _ _ _ \<Rightarrow> True | ErrSend _ \<Rightarrow> True | Crash \<Rightarrow> True | _ \<Rightarrow> False)"

lemma receiveTssMessage_emits: "emits_only receives (receiveTssMessage E T s m)"
  unfolding receiveTssMessage_def Let_def io_defs prod.case_distrib
  by (auto intro!: emits simp: receives_def split: option.split)

lemma receiveTssMessage_run:
  assumes "list_all (\<lambda>p. p \<noteq> None) (case tm_To msg of None \<Rightarrow> [] | Some l \<Rightarrow> l)"
    and "ps_GetRoundFunc s (tm_MsgBytes msg) (ps_SelfPartyID s) (tm_IsBroadcast msg) = Inr rd"
    and "tm_From msg = Some from" and "ps_SelfPartyID s = Some self"
  shows "run_state (receiveTssMessage E T s msg) tr = ((),
     if (tm_IsBroadcast msg \<and> (case tm_To msg of None \<Rightarrow> [] | Some l \<Rightarrow> l) = [])
        \<or> (\<exists>q. Some q \<in> set (case tm_To msg of None \<Rightarrow> [] | Some l \<Rightarrow> l) \<and> ComparePartyIDs T q self)
     then tr @ [PartyUpdate (tm_MsgBytes msg) (tm_From msg) (tm_IsBroadcast msg)] else tr)"
proof -
  let ?to = "case tm_To msg of None \<Rightarrow> [] | Some l \<Rightarrow> l"
  have no: "\<not> list_ex (\<lambda>p. p = None) ?to" using assms(1) by (auto simp: list_ex_iff list_all_iff)
  have ex: "list_ex (\<lambda>p. ComparePartyIDs T (the p) self) ?to \<longleftrightarrow>
      (\<exists>q. Some q \<in> set ?to \<and> ComparePartyIDs T q self)"
    using assms(1) by (force simp: list_ex_iff list_all_iff)
  show ?thesis
    using assms(2-4) no by (simp add: receiveTssMessage_def Let_def ex io_defs del: list_ex_iff)
qed

text \<open>\<^verbatim>\<open>lo.Intersect\<close> is an argument; it returns the elements common to both lists.\<close>

definition lo_Intersect_ok :: "(string list \<Rightarrow> string list \<Rightarrow> string list) \<Rightarrow> bool" where
  "lo_Intersect_ok I \<longleftrightarrow> (\<forall>a b. set (I a b) = set a \<inter> set b)"

definition lo_Intersect_ref :: "string list \<Rightarrow> string list \<Rightarrow> string list" where
  "lo_Intersect_ref a b = filter (\<lambda>x. x \<in> set a) b"

lemma lo_Intersect_ref_ok: "lo_Intersect_ok lo_Intersect_ref"
  by (auto simp: lo_Intersect_ok_def lo_Intersect_ref_def)

lemma lo_Intersect_length:
  assumes "lo_Intersect_ok I" and "distinct a" and "set a \<subseteq> set b"
  shows "length a \<le> length (I a b)"
proof -
  have "set (I a b) = set a" using assms(1,3) by (auto simp: lo_Intersect_ok_def)
  then show ?thesis using assms(2) by (metis card_length distinct_card)
qed

text \<open>Where a share and its key information are stored, and a history in which that happened last.\<close>

definition stored :: "env \<Rightarrow> string \<Rightarrow> bytes \<Rightarrow> string \<Rightarrow> KeyInfo \<Rightarrow> call list \<Rightarrow> bool" where
  "stored E k b c ki tr \<longleftrightarrow>
     (\<exists>x y z. tr = x @ KvPut k b # y @ ConsulPut c (Marshal_KeyInfo ki) # z
        \<and> en_KvPut E x k b = None \<and> en_ConsulPut E (x @ KvPut k b # y) c (Marshal_KeyInfo ki) = None
        \<and> (\<forall>v. KvPut k v \<notin> set (y @ z)) \<and> (\<forall>v. ConsulPut c v \<notin> set z) \<and> ConsulDelete c \<notin> set z)"

definition leaves_alone :: "string \<Rightarrow> string \<Rightarrow> call \<Rightarrow> bool" where
  "leaves_alone k c e \<longleftrightarrow>
     (case e of KvPut k' _ \<Rightarrow> k' \<noteq> k | ConsulPut c' _ \<Rightarrow> c' \<noteq> c | ConsulDelete c' \<Rightarrow> c' \<noteq> c | _ \<Rightarrow> True)"

lemma leaves_aloneD:
  assumes "list_all (leaves_alone k c) es"
  shows "KvPut k v \<notin> set es" "ConsulPut c w \<notin> set es" "ConsulDelete c \<notin> set es"
  using assms by (auto simp: list_all_iff leaves_alone_def)

lemma stored_later: "stored E k b c ki tr \<Longrightarrow> list_all (leaves_alone k c) new \<Longrightarrow> stored E k b c ki (tr @ new)"
  unfolding stored_def
  by (elim exE, rule_tac x = x in exI, rule_tac x = y in exI, rule_tac x = "z @ new" in exI)
     (auto dest: leaves_aloneD)

lemma stored_reads:
  assumes "stored E k b c ki tr"
  shows "kv_faithful E \<Longrightarrow> en_KvGet E tr k = Inr b"
    and "consul_faithful E \<Longrightarrow> en_ConsulGet E tr c = Inr (Some (Marshal_KeyInfo ki))"
proof -
  from assms obtain x y z where tr: "tr = x @ KvPut k b # y @ ConsulPut c (Marshal_KeyInfo ki) # z"
    and p: "en_KvPut E x k b = None" "en_ConsulPut E (x @ KvPut k b # y) c (Marshal_KeyInfo ki) = None"
    and no: "\<And>v. KvPut k v \<notin> set (y @ ConsulPut c (Marshal_KeyInfo ki) # z)" "\<And>v. ConsulPut c v \<notin> set z"
      "ConsulDelete c \<notin> set z"
    unfolding stored_def by auto
  show "kv_faithful E \<Longrightarrow> en_KvGet E tr k = Inr b"
    unfolding tr by (rule kv_faithfulD [OF _ p(1) no(1)])
  show "consul_faithful E \<Longrightarrow> en_ConsulGet E tr c = Inr (Some (Marshal_KeyInfo ki))"
    using consul_faithfulD [OF _ p(2) no(2,3)] by (simp add: tr)
qed

lemma session_ending_leaves: "session_ending e \<Longrightarrow> leaves_alone k c e"
  by (cases e) (simp_all add: session_ending_def leaves_alone_def)

lemma sends_leaves: "sends e \<Longrightarrow> leaves_alone k c e"
  by (cases e) (simp_all add: sends_def leaves_alone_def)

lemma stored_written:
  assumes "en_KvPut E a k b = None" and "en_ConsulPut E (a @ [KvPut k b]) c (Marshal_KeyInfo ki) = None"
    and "tr = a @ KvPut k b # ConsulPut c (Marshal_KeyInfo ki) # rest" and "list_all session_ending rest"
  shows "stored E k b c ki tr"
proof -
  have "list_all (leaves_alone k c) rest"
    using assms(4) by (rule list.pred_mono_strong) (rule session_ending_leaves)
  note no = leaves_aloneD [OF this]
  show ?thesis
    unfolding stored_def using assms(1-3) no
    by (intro exI [of _ a] exI [of _ "[]"] exI [of _ rest] conjI) simp_all
qed

section \<open>Delivery\<close>

lemma broadcast_out:
  assumes "rt_IsBroadcast r" and "rt_To r \<in> {None, Some []}" and "ps_SelfPartyID s \<noteq> None"
    and "SignMessage C T ids (NewTssMessage (ps_WalletID s) (Some data) True (rt_From r) (map_option (map Some) (rt_To r))) = Ret sig"
    and "\<And>b. en_Publish E tr (ps_BroadcastTopic s) b = None"
  shows "run_state (HandleTssMessage E C T ids s (Inr (data, r))) tr = ((), tr @ [Publish (ps_BroadcastTopic s)
     (MarshalTssMessage T ((NewTssMessage (ps_WalletID s) (Some data) True (rt_From r) (map_option (map Some) (rt_To r)))
        \<lparr>tm_Signature := Some sig\<rparr>))])"
  using assms by (auto simp: HandleTssMessage_def Let_def io_defs)

lemma direct_out:
  assumes "rt_To r = Some [to]" and "ps_SelfPartyID s = Some self"
    and "PartyIDToNodeID T (Some self) = n" and "PartyIDToNodeID T (Some to) = n2" and "n \<noteq> n2"
    and "GetSymmetricKey n2 ids = Inr (Some key)" and "length key = 32"
    and "en_RandRead E tr gcm_nonce_size = Inr nonce"
    and "EncryptMessage C (Inr nonce) ids (MarshalTssMessage T
           (NewTssMessage (ps_WalletID s) (Some data) (rt_IsBroadcast r) (rt_From r) (Some [Some to]))) n2 = Inr c"
    and "\<And>tr b. en_SendToOther E tr (ps_DirectTopic s n n2) b = None"
  shows "run_state (HandleTssMessage E C T ids s (Inr (data, r))) tr =
     ((), tr @ [RandRead gcm_nonce_size, SendToOther (ps_DirectTopic s n n2) (Some c)])"
  using assms
  by (simp add: HandleTssMessage_def Let_def io_defs send_direct_def io_EncryptMessage_def aes_NewCipher_def)

lemma broadcast_in:
  assumes "tss_lib_ok T" and "VerifyMessage C T ids msg = Ret None"
  shows "run_state (receiveBroadcastTssMessage E C T ids s (MarshalTssMessage T msg)) tr
       = run_state (receiveTssMessage E T s msg) tr"
  using assms by (simp add: receiveBroadcastTssMessage_def TssMessage_codec)

lemma p2p_in:
  assumes "tss_lib_ok T" and "extractSenderIDFromDirectTopic topic = n" and "n \<noteq> []"
    and "n \<noteq> PartyIDToNodeID T (ps_SelfPartyID s)" and "DecryptMessage C ids c n = Inr (MarshalTssMessage T msg)"
  shows "run_state (receiveP2PTssMessage E C T ids s topic c) tr = run_state (receiveTssMessage E T s msg) tr"
  using assms by (simp add: receiveP2PTssMessage_def Let_def TssMessage_codec)

definition not_result :: "call \<Rightarrow> bool" where
  "not_result c \<longleftrightarrow> (case c of Enqueue _ _ _ \<Rightarrow> False | _ \<Rightarrow> True)"

lemma not_result_simps [simp]: "not_result (ErrSend e)" "not_result PartyStart" "not_result Crash"
  by (simp_all add: not_result_def)

section \<open>Interfaces of the sessions\<close>

text \<open>
  The loop that all six sessions run: messages of the party are sent, a start failure is reported and the
  loop goes on, the first result ends it. What a session does with the result is its own.
\<close>

definition quiet :: "call \<Rightarrow> bool" where
  "quiet c \<longleftrightarrow> sends c \<or> c = PartyStart"

lemma quiet_no [simp]:
  "\<not> quiet CallDone" "\<not> quiet (KvPut k v)" "\<not> quiet (ConsulPut k v)" "\<not> quiet (ConsulDelete k)"
  "\<not> quiet (Enqueue t b i)" "quiet PartyStart" "quiet (ErrSend e)"
  by (simp_all add: quiet_def sends_def)

locale session_loop =
  fixes sess :: "'s \<Rightarrow> PartySession"
    and finish :: "env \<Rightarrow> share_lib \<Rightarrow> 's \<Rightarrow> 'd \<Rightarrow> 's io"
    and loop :: "env \<Rightarrow> crypto \<Rightarrow> tss_lib \<Rightarrow> share_lib \<Rightarrow> fileStore \<Rightarrow> 's \<Rightarrow> 'd party_event list \<Rightarrow> 's loop_result io"
    and run :: "env \<Rightarrow> crypto \<Rightarrow> tss_lib \<Rightarrow> share_lib \<Rightarrow> fileStore \<Rightarrow> 's \<Rightarrow> 'd party_event list \<Rightarrow> 's loop_result io"
  assumes loop_nil: "loop E C T L ids s [] = State_Monad.return (Waiting s)"
    and loop_start: "loop E C T L ids s (StartFailed err # evs) = do { io_ErrSend err; loop E C T L ids s evs }"
    and loop_out: "loop E C T L ids s (OutMsg msg # evs) =
          do { HandleTssMessage E C T ids (sess s) msg; loop E C T L ids s evs }"
    and loop_end: "loop E C T L ids s (EndData d # evs) = do { s' \<leftarrow> finish E L s d; State_Monad.return (Returned s') }"
    and run_eq: "run E C T L ids s evs = do { io_PartyStart; loop E C T L ids s evs }"
begin

lemma loop_append:
  assumes "\<forall>e \<in> set evs. \<forall>d. e \<noteq> EndData d"
  shows "\<exists>new. list_all quiet new \<and>
    run_state (loop E C T L ids s (evs @ rest)) tr = run_state (loop E C T L ids s rest) (tr @ new)"
  using assms
proof (induction evs arbitrary: tr)
  case Nil
  show ?case by (rule exI [of _ "[]"]) simp
next
  case (Cons e evs)
  show ?case
  proof (cases e)
    case (OutMsg m)
    obtain a where a: "run_state (HandleTssMessage E C T ids (sess s) m) tr = ((), tr @ a)" "list_all sends a"
      using HandleTssMessage_emits [of E C T ids "sess s" m] unfolding emits_only_def
      by (metis prod.collapse unit.exhaust)
    from Cons.IH [of "tr @ a"] Cons.prems obtain b where "list_all quiet b"
      "run_state (loop E C T L ids s (evs @ rest)) (tr @ a) = run_state (loop E C T L ids s rest) ((tr @ a) @ b)" by auto
    with a OutMsg show ?thesis
      by (intro exI [of _ "a @ b"]) (auto simp: loop_out quiet_def list_all_iff)
  next
    case (StartFailed err)
    from Cons.IH [of "tr @ [ErrSend err]"] Cons.prems obtain b where "list_all quiet b"
      "run_state (loop E C T L ids s (evs @ rest)) (tr @ [ErrSend err])
        = run_state (loop E C T L ids s rest) ((tr @ [ErrSend err]) @ b)" by auto
    with StartFailed show ?thesis by (intro exI [of _ "ErrSend err # b"]) (simp add: io_defs loop_start)
  qed (use Cons.prems in auto)
qed

lemma run_append:
  assumes "\<forall>e \<in> set evs. \<forall>d. e \<noteq> EndData d"
  shows "\<exists>new. list_all quiet new \<and>
    run_state (run E C T L ids s (evs @ rest)) tr = run_state (loop E C T L ids s rest) (tr @ new)"
proof -
  obtain new where "list_all quiet new"
    "run_state (loop E C T L ids s (evs @ rest)) (tr @ [PartyStart]) = run_state (loop E C T L ids s rest) ((tr @ [PartyStart]) @ new)"
    using loop_append [OF assms] by blast
  then show ?thesis by (intro exI [of _ "PartyStart # new"]) (simp add: run_eq io_defs)
qed

text \<open>The first result decides: it is handed to the end of the session after sends only.\<close>

lemma run_finish:
  assumes "\<forall>e \<in> set evs. \<forall>d. e \<noteq> EndData d"
    and "run_state (run E C T L ids s (evs @ EndData d # later)) tr = (r, tr')"
  obtains new s' where "list_all quiet new" and "run_state (finish E L s d) (tr @ new) = (s', tr')" and "r = Returned s'"
proof -
  obtain new where new: "list_all quiet new"
    "run_state (loop E C T L ids s (EndData d # later)) (tr @ new) = (r, tr')"
    using run_append [OF assms(1), of E C T L ids s "EndData d # later" tr] assms(2) by auto
  obtain s' t where "run_state (finish E L s d) (tr @ new) = (s', t)" by fastforce
  with new that show thesis by (simp add: loop_end)
qed

lemma run_waiting:
  assumes "\<forall>e \<in> set evs. \<forall>d. e \<noteq> EndData d" and "run_state (run E C T L ids s evs) tr = (r, tr')"
  obtains new where "list_all quiet new" and "tr' = tr @ new" and "r = Waiting s"
  using run_append [OF assms(1), of E C T L ids s "[]" tr] assms(2) by (auto simp: loop_nil)

lemma run_cases [case_names waiting result]:
  assumes "run_state (run E C T L ids s evs) tr = (r, tr')"
  obtains (waiting) new where "\<forall>e \<in> set evs. \<forall>d. e \<noteq> EndData d" "list_all quiet new" "tr' = tr @ new" "r = Waiting s"
  | (result) pre d later new s' where "evs = pre @ EndData d # later" "\<forall>e \<in> set pre. \<forall>d. e \<noteq> EndData d"
      "list_all quiet new" "run_state (finish E L s d) (tr @ new) = (s', tr')" "r = Returned s'"
proof (cases "\<forall>e \<in> set evs. \<forall>d. e \<noteq> EndData d")
  case True
  with run_waiting [OF True assms] waiting show thesis by blast
next
  case False
  then have "\<exists>e \<in> set evs. \<exists>d. e = EndData d" by blast
  from split_list_first_prop [OF this] obtain pre d later
    where evs: "evs = pre @ EndData d # later" and pre: "\<forall>e \<in> set pre. \<forall>d. e \<noteq> EndData d" by blast
  from run_finish [OF pre assms [unfolded evs]] result [OF evs pre] show thesis by blast
qed

text \<open>One event at a time gives the same run.\<close>

lemma event_cases [case_names waiting result]:
  assumes "run_state (loop E C T L ids s [e]) tr = (r, tr')"
  obtains (waiting) new where "\<forall>d. e \<noteq> EndData d" "list_all quiet new" "tr' = tr @ new" "r = Waiting s"
  | (result) d s' where "e = EndData d" "run_state (finish E L s d) tr = (s', tr')" "r = Returned s'"
proof (cases "\<forall>d. e \<noteq> EndData d")
  case True
  with loop_append [of "[e]" E C T L ids s "[]" tr] assms waiting show thesis by (auto simp: loop_nil)
next
  case False
  then obtain d where d: "e = EndData d" by blast
  obtain s' t where "run_state (finish E L s d) tr = (s', t)" by fastforce
  with assms d result show thesis by (simp add: loop_end)
qed

lemma loop_Cons:
  "run_state (loop E C T L ids s (e # evs)) tr =
     (case run_state (loop E C T L ids s [e]) tr of
        (Waiting s', tr') \<Rightarrow> run_state (loop E C T L ids s' evs) tr'
      | (Returned s', tr') \<Rightarrow> (Returned s', tr'))"
  by (cases e) (simp_all add: loop_start loop_out loop_end loop_nil run_state_bind split: prod.split)

lemma run_emits:
  assumes "\<And>c. quiet c \<Longrightarrow> P c" and "\<And>d. EndData d \<in> set evs \<Longrightarrow> emits_only P (finish E L s d)"
  shows "emits_only P (run E C T L ids s evs)"
  unfolding emits_only_def
proof
  fix tr
  obtain r tr' where run: "run_state (run E C T L ids s evs) tr = (r, tr')" by fastforce
  then show "\<exists>new. snd (run_state (run E C T L ids s evs) tr) = tr @ new \<and> list_all P new"
  proof (cases rule: run_cases)
    case (waiting new)
    with run assms(1) show ?thesis by (auto simp: list_all_iff)
  next
    case (result pre d later new s')
    with assms(2) [of d] obtain x where "tr' = (tr @ new) @ x" "list_all P x" by (auto elim!: emits_onlyD)
    with run result(3) assms(1) show ?thesis by (auto simp: list_all_iff)
  qed
qed

lemma run_finish_done:
  assumes "\<forall>e \<in> set evs. \<forall>d. e \<noteq> EndData d"
    and "run_state (run E C T L ids s (evs @ EndData d # later)) tr = (r, tr')"
    and "CallDone \<in> set (drop (length tr) tr')" and "emits_only P (finish E L s d)"
  obtains t s' where "run_state (finish E L s d) t = (s', tr')" and "CallDone \<in> set (drop (length t) tr')"
    and "r = Returned s'"
proof -
  obtain new s' where new: "list_all quiet new" "run_state (finish E L s d) (tr @ new) = (s', tr')" "r = Returned s'"
    using run_finish [OF assms(1,2)] .
  obtain x where x: "tr' = (tr @ new) @ x" using emits_onlyD [OF assms(4) new(2)] by blast
  have "CallDone \<notin> set new" using new(1) by (auto simp: list_all_iff)
  with assms(3) x that [OF new(2) _ new(3)] show thesis by auto
qed

end

text \<open>
  What both key generation sessions do with the result of their party, up to the encoding of the public key.
\<close>

definition keygen_end_spec ::
  "(share_lib \<Rightarrow> nat \<times> nat \<Rightarrow> bytes) \<Rightarrow> env \<Rightarrow> share_lib \<Rightarrow> PartySession \<Rightarrow> save_data \<Rightarrow> PartySession io" where
  "keygen_end_spec enc E L s saveData =
     (case sl_Marshal L saveData of
        Inl err \<Rightarrow> do { io_ErrSend err; State_Monad.return s }
      | Inr keyBytes \<Rightarrow> do {
          err \<leftarrow> io_KvPut E (ps_ComposeKey s (WalletIDWithVersion (ps_WalletID s) (GetVersion s))) keyBytes;
          (case err of
             Some e \<Rightarrow> do { io_ErrSend e; State_Monad.return s }
           | None \<Rightarrow> do {
               err \<leftarrow> keyinfo_Save E (ps_ComposeKey s (ps_WalletID s))
                 \<lparr>ki_ParticipantPeerIDs = Some (ps_ParticipantPeerIDs s), ki_Threshold = ps_Threshold s,
                  ki_Version = GetVersion s\<rparr>;
               (case err of
                  Some e \<Rightarrow> do { io_ErrSend e; State_Monad.return s }
                | None \<Rightarrow>
                    (case sd_Pub saveData of
                       None \<Rightarrow> do { io_Crash; State_Monad.return s }
                     | Some pub \<Rightarrow> do {
                         r \<leftarrow> Close_session E (s\<lparr>ps_PubkeyBytes := Some (enc L pub)\<rparr>);
                         (case r of
                            Panic \<Rightarrow> State_Monad.return (s\<lparr>ps_PubkeyBytes := Some (enc L pub)\<rparr>)
                          | Ret _ \<Rightarrow> do { io_CallDone; State_Monad.return (s\<lparr>ps_PubkeyBytes := Some (enc L pub)\<rparr>) }) })) }) })"

locale keygen_session = session_loop "\<lambda>s. s" kend loop generate
  for kend :: "env \<Rightarrow> share_lib \<Rightarrow> PartySession \<Rightarrow> save_data \<Rightarrow> PartySession io" and loop and generate +
  fixes enc :: "share_lib \<Rightarrow> nat \<times> nat \<Rightarrow> bytes"
  assumes kend_spec: "kend E L s d = keygen_end_spec enc E L s d"
begin

lemma end_emits: "emits_only (\<lambda>_. True) (kend E L s d)"
  unfolding kend_spec keygen_end_spec_def Let_def io_defs
  by (intro emits emits_mono [OF Close_session_emits]) simp_all

lemma end_done:
  assumes run: "run_state (kend E L s d) tr = (s', tr')" and don: "CallDone \<in> set (drop (length tr) tr')"
  defines "k \<equiv> ps_ComposeKey s (WalletIDWithVersion (ps_WalletID s) (ps_Version s))"
    and "c \<equiv> keyinfo_composeKey (ps_ComposeKey s (ps_WalletID s))"
    and "i \<equiv> Marshal_KeyInfo \<lparr>ki_ParticipantPeerIDs = Some (ps_ParticipantPeerIDs s),
                 ki_Threshold = ps_Threshold s, ki_Version = ps_Version s\<rparr>"
  shows "\<exists>b rest. sl_Marshal L d = Inr b \<and> en_KvPut E tr k b = None \<and> en_ConsulPut E (tr @ [KvPut k b]) c i = None
     \<and> tr' = tr @ KvPut k b # ConsulPut c i # rest \<and> list_all session_ending rest"
proof -
  obtain b where b: "sl_Marshal L d = Inr b"
    using run don by (cases "sl_Marshal L d") (auto simp: kend_spec keygen_end_spec_def io_defs)
  have p: "en_KvPut E tr k b = None"
    using run don b
    by (cases "en_KvPut E tr k b") (auto simp: kend_spec keygen_end_spec_def io_defs GetVersion_def k_def)
  have q: "en_ConsulPut E (tr @ [KvPut k b]) c i = None"
    using run don b p
    by (cases "en_ConsulPut E (tr @ [KvPut k b]) c i")
       (auto simp: kend_spec keygen_end_spec_def io_defs GetVersion_def keyinfo_Save_def Let_def k_def c_def i_def)
  let ?t = "tr @ [KvPut k b, ConsulPut c i]"
  note step = kend_spec keygen_end_spec_def Let_def io_defs GetVersion_def keyinfo_Save_def b p q k_def [symmetric] c_def [symmetric] i_def [symmetric]
  show ?thesis
  proof (cases "sd_Pub d")
    case None
    with run have "tr' = ?t @ [Crash]" by (simp add: step)
    with don show ?thesis by simp
  next
    case (Some pub)
    let ?s = "s\<lparr>ps_PubkeyBytes := Some (enc L pub)\<rparr>"
    obtain r t where r: "run_state (Close_session E ?s) ?t = (r, t)" by fastforce
    with Close_session_trace [of E ?s ?t] obtain rest where rest: "t = ?t @ rest" "list_all session_ending rest"
      by (metis snd_conv)
    have "tr' = t \<or> tr' = t @ [CallDone]"
      using run Some r by (cases r) (auto simp: step)
    then have "\<exists>rest'. tr' = ?t @ rest' \<and> list_all session_ending rest'"
      using rest by (auto simp: session_ending_def)
    with b p q show ?thesis by auto
  qed
qed

text \<open>A key generation that calls its completion callback has set the public key first.\<close>

lemma end_pubkey:
  assumes "run_state (kend E L s d) tr = (s', tr')" and "CallDone \<in> set (drop (length tr) tr')"
  shows "\<exists>pub. sd_Pub d = Some pub \<and> ps_PubkeyBytes s' = Some (enc L pub)"
proof (cases "sd_Pub d")
  case None
  then show ?thesis
    using assms by (auto simp: kend_spec keygen_end_spec_def keyinfo_Save_def io_defs run_state_bind
        split: sum.splits option.splits)
next
  case (Some pub)
  with assms show ?thesis
    by (auto simp: kend_spec keygen_end_spec_def keyinfo_Save_def io_defs run_state_bind
        split: sum.splits option.splits prod.splits go_res.splits)
qed

lemma end_keeps_pubkey:
  assumes "run_state (kend E L s d) tr = (s', tr')" and "ps_PubkeyBytes s \<noteq> None"
  shows "ps_PubkeyBytes s' \<noteq> None"
  using assms by (auto simp: kend_spec keygen_end_spec_def keyinfo_Save_def io_defs run_state_bind
      split: sum.splits option.splits prod.splits go_res.splits)

lemma live_pubkey:
  assumes "live_step (\<lambda>s. s) (loop E C T L ids) receive v tr v' tr'"
    and "lv_done v \<Longrightarrow> ps_PubkeyBytes (lv_session v) \<noteq> None" and "lv_done v'"
  shows "ps_PubkeyBytes (lv_session v') \<noteq> None"
  using assms(1)
proof cases
  case (event e r)
  from event(3) show ?thesis
  proof (cases rule: event_cases)
    case (waiting new)
    then have "CallDone \<notin> set (drop (length tr) tr')" by (auto simp: list_all_iff)
    with waiting event assms(2,3) show ?thesis by simp
  next
    case (result d s')
    with event assms(2,3) end_pubkey [OF result(2)] end_keeps_pubkey [OF result(2)] show ?thesis by auto
  qed
qed (use assms(2,3) in auto)

text \<open>A key generation that calls its completion callback has stored the share, then the key information.\<close>

lemma keygen_stored:
  assumes "\<forall>e \<in> set evs. \<forall>d. e \<noteq> EndData d"
    and "run_state (generate E C T L ids s (evs @ EndData d # later)) tr = (r, tr')"
    and "CallDone \<in> set (drop (length tr) tr')"
  shows "\<exists>b. sl_Marshal L d = Inr b \<and>
    stored E (ps_ComposeKey s (WalletIDWithVersion (ps_WalletID s) (ps_Version s))) b
      (keyinfo_composeKey (ps_ComposeKey s (ps_WalletID s)))
      \<lparr>ki_ParticipantPeerIDs = Some (ps_ParticipantPeerIDs s), ki_Threshold = ps_Threshold s, ki_Version = ps_Version s\<rparr> tr'"
proof -
  obtain t s' where "run_state (kend E L s d) t = (s', tr')" "CallDone \<in> set (drop (length t) tr')"
    using run_finish_done [OF assms end_emits] by blast
  from end_done [OF this] show ?thesis using stored_written by blast
qed

end

text \<open>
  How both signing sessions find their share: by the key information, under the version it names, if there
  are enough participants; \<open>None\<close> says that there are too few.
\<close>

definition signing_init_spec ::
  "string \<Rightarrow> env \<Rightarrow> share_lib \<Rightarrow> (string list \<Rightarrow> string list \<Rightarrow> string list) \<Rightarrow> PartySession \<Rightarrow>
   (go_error + save_data \<times> int) option io" where
  "signing_init_spec ctx E L lo_Intersect s = do {
     keyInfo \<leftarrow> keyinfo_Get E (ps_ComposeKey s (ps_WalletID s));
     (case keyInfo of
        Inl err \<Rightarrow> State_Monad.return (Some (Inl (wrapf ctx err)))
      | Inr keyInfo \<Rightarrow>
          if int (length (ps_ParticipantPeerIDs s)) < inc64 (ki_Threshold keyInfo)
          then State_Monad.return None
          else if int (length (lo_Intersect (ps_ParticipantPeerIDs s) (ki_peers keyInfo))) < inc64 (ki_Threshold keyInfo)
          then State_Monad.return (Some (Inl (errorf ''incompatible peerIDs to participate in signing'')))
          else do {
            keyData \<leftarrow> io_KvGet E (ps_ComposeKey s (WalletIDWithVersion (ps_WalletID s) (ki_Version keyInfo)));
            (case keyData of
               Inl err \<Rightarrow> State_Monad.return (Some (Inl (wrapf ''Failed to get wallet data from KVStore'' err)))
             | Inr val \<Rightarrow>
                 (case sl_Unmarshal L val of
                    Inl err \<Rightarrow> State_Monad.return (Some (Inl (wrapf ''Failed to unmarshal wallet data'' err)))
                  | Inr share \<Rightarrow> do { io_PartyNew; State_Monad.return (Some (Inr (share, ki_Version keyInfo))) })) }) }"

locale signing_session =
  fixes sess :: "'ss \<Rightarrow> PartySession"
    and upd :: "save_data \<Rightarrow> nat \<Rightarrow> int \<Rightarrow> 'ss \<Rightarrow> 'ss"
    and ctx :: string
    and too_few :: "'ss \<Rightarrow> 'r io"
    and ret :: "go_error option \<times> 'ss \<Rightarrow> 'r"
    and init :: "env \<Rightarrow> share_lib \<Rightarrow> (string list \<Rightarrow> string list \<Rightarrow> string list) \<Rightarrow> 'ss \<Rightarrow> nat \<Rightarrow> 'r io"
  assumes init_spec: "init E L I ss tx = do {
      r \<leftarrow> signing_init_spec ctx E L I (sess ss);
      (case r of
         None \<Rightarrow> too_few ss
       | Some (Inl err) \<Rightarrow> State_Monad.return (ret (Some err, ss))
       | Some (Inr (d, v)) \<Rightarrow> State_Monad.return (ret (None, upd d tx v ss))) }"
begin

text \<open>A signing session finds what was stored.\<close>

lemma init_stored:
  assumes "kv_faithful E" and "consul_faithful E" and "share_lib_ok L" and "lo_Intersect_ok I"
    and "KeyInfo_wf ki" and "sl_Marshal L d = Inr b"
    and "stored E (ps_ComposeKey s (WalletIDWithVersion (ps_WalletID s) (ki_Version ki))) b
           (keyinfo_composeKey (ps_ComposeKey s (ps_WalletID s))) ki tr"
    and "sess ss = s" and "distinct (ps_ParticipantPeerIDs s)"
    and "set (ps_ParticipantPeerIDs s) \<subseteq> set (ki_peers ki)"
    and "inc64 (ki_Threshold ki) \<le> int (length (ps_ParticipantPeerIDs s))"
  shows "\<exists>tr'. run_state (init E L I ss tx) tr =
    (ret (None, upd d tx (ki_Version ki) ss), tr')"
proof -
  let ?k = "ps_ComposeKey s (WalletIDWithVersion (ps_WalletID s) (ki_Version ki))"
  let ?c = "keyinfo_composeKey (ps_ComposeKey s (ps_WalletID s))"
  have get: "run_state (keyinfo_Get E (ps_ComposeKey s (ps_WalletID s))) tr = (Inr ki, tr @ [ConsulGet ?c])"
    using stored_reads(2) [OF assms(7,2)] by (simp add: keyinfo_Get_def io_defs KeyInfo_codec [OF assms(5)])
  have "stored E ?k b ?c ki (tr @ [ConsulGet ?c])"
    by (rule stored_later [OF assms(7)]) (simp add: leaves_alone_def)
  from stored_reads(1) [OF this assms(1)] have kv: "en_KvGet E (tr @ [ConsulGet ?c]) ?k = Inr b" .
  have un: "sl_Unmarshal L b = Inr d" using assms(3,6) by (simp add: share_lib_ok_def)
  have len: "inc64 (ki_Threshold ki) \<le> int (length (I (ps_ParticipantPeerIDs s) (ki_peers ki)))"
    using assms(11) lo_Intersect_length [OF assms(4,9,10)] by linarith
  show ?thesis
    using get kv un len assms(8,11)
    by (simp add: init_spec signing_init_spec_def io_defs not_less)
qed

end

text \<open>What both signing sessions do with a signature, up to the fields of the response that carry it.\<close>

definition sign_end_spec ::
  "('ss \<Rightarrow> PartySession) \<Rightarrow> ('ss \<Rightarrow> save_data option) \<Rightarrow> ('ss \<Rightarrow> nat) \<Rightarrow> ('ss \<Rightarrow> signature_data \<Rightarrow> SigningResponse) \<Rightarrow>
   (bytes \<Rightarrow> unit io) \<Rightarrow> env \<Rightarrow> share_lib \<Rightarrow> 'ss \<Rightarrow> signature_data \<Rightarrow> unit io" where
  "sign_end_spec sess data tx response onSuccess E L ss sig =
     (case Option.bind (data ss) sd_Pub of
        None \<Rightarrow> io_Crash
      | Some pub \<Rightarrow>
          if \<not> sl_Verify L pub (big_Bytes (tx ss)) (big_SetBytes (slice_bytes (sg_R sig)))
                 (big_SetBytes (slice_bytes (sg_S sig)))
          then io_ErrSend (errorf ''Failed to verify signature'')
          else do {
            err \<leftarrow> io_Enqueue E SigningResultCompleteTopic (Marshal_SigningResponse (response ss sig))
                    (ps_IdempotentKey (sess ss));
            (case err of
               Some e \<Rightarrow> io_ErrSend (wrapf ''Failed to publish sign success message'' e)
             | None \<Rightarrow> do {
                 c \<leftarrow> Close_session E (sess ss);
                 (case c of Panic \<Rightarrow> State_Monad.return ()
                  | Ret _ \<Rightarrow> onSuccess (Marshal_SigningResponse (response ss sig))) }) })"

locale sign_session = session_loop sess finish loop sign
  for sess :: "'ss \<Rightarrow> PartySession" and finish :: "env \<Rightarrow> share_lib \<Rightarrow> 'ss \<Rightarrow> signature_data \<Rightarrow> 'ss io" and loop and sign +
  fixes data :: "'ss \<Rightarrow> save_data option" and tx :: "'ss \<Rightarrow> nat"
    and response :: "'ss \<Rightarrow> signature_data \<Rightarrow> SigningResponse" and onSuccess :: "bytes \<Rightarrow> unit io"
  assumes finish_spec: "finish E L ss sig =
      do { sign_end_spec sess data tx response onSuccess E L ss sig; State_Monad.return ss }"
begin

text \<open>
  The results a finished signing session publishes: at most one, for a signature that the public key of its
  share accepts, as long as the callback publishes none itself.
\<close>

lemma end_results:
  assumes "\<And>b. emits_only not_result (onSuccess b)" and "run_state (finish E L ss sig) tr = (ss', tr')"
  shows "\<exists>new. tr' = tr @ new \<and> filter (\<lambda>c. \<not> not_result c) new =
    (case Option.bind (data ss) sd_Pub of
       None \<Rightarrow> []
     | Some pub \<Rightarrow>
         if sl_Verify L pub (big_Bytes (tx ss)) (big_SetBytes (slice_bytes (sg_R sig))) (big_SetBytes (slice_bytes (sg_S sig)))
         then [Enqueue SigningResultCompleteTopic (Marshal_SigningResponse (response ss sig)) (ps_IdempotentKey (sess ss))]
         else [])"
proof -
  let ?body = "Marshal_SigningResponse (response ss sig)"
  let ?call = "Enqueue SigningResultCompleteTopic ?body (ps_IdempotentKey (sess ss))"
  let ?after = "\<lambda>err. case err of
               Some e \<Rightarrow> io_ErrSend (wrapf ''Failed to publish sign success message'' e)
             | None \<Rightarrow> do {
                 c \<leftarrow> Close_session E (sess ss);
                 (case c of Panic \<Rightarrow> State_Monad.return () | Ret _ \<Rightarrow> onSuccess ?body) }"
  have close: "emits_only not_result (Close_session E s)" for s
    by (rule emits_mono [OF Close_session_emits]) (simp add: session_ending_def not_result_def split: call.splits)
  have after: "emits_only not_result (?after err)" for err
    unfolding io_defs by (intro emits close assms(1)) simp
  obtain x where x: "snd (run_state (?after (en_Enqueue E tr SigningResultCompleteTopic ?body (ps_IdempotentKey (sess ss)))) (tr @ [?call]))
      = (tr @ [?call]) @ x" "list_all not_result x"
    using after unfolding emits_only_def by blast
  then have x': "filter (\<lambda>c. \<not> not_result c) x = []" by (simp add: filter_empty_conv list_all_iff)
  have nr: "\<not> not_result ?call" by (simp add: not_result_def)
  show ?thesis
    using assms(2) x(1) x' nr
    by (auto simp: finish_spec sign_end_spec_def io_defs run_state_bind split: option.splits if_splits prod.splits)
qed

lemma event_results:
  assumes "\<And>b. emits_only not_result (onSuccess b)" and "run_state (loop E C T L ids ss [e]) tr = (r, tr')"
    and "Enqueue t b k \<in> set (drop (length tr) tr')"
  shows "\<exists>sig pub. e = EndData sig \<and> Option.bind (data ss) sd_Pub = Some pub
     \<and> sl_Verify L pub (big_Bytes (tx ss)) (big_SetBytes (slice_bytes (sg_R sig))) (big_SetBytes (slice_bytes (sg_S sig)))
     \<and> t = SigningResultCompleteTopic \<and> b = Marshal_SigningResponse (response ss sig) \<and> k = ps_IdempotentKey (sess ss)"
  using assms(2)
proof (cases rule: event_cases)
  case (waiting new)
  with assms(3) show ?thesis by (auto simp: list_all_iff)
next
  case (result sig ss')
  from end_results [OF assms(1) result(2)] obtain x where x: "tr' = tr @ x"
    and f: "filter (\<lambda>c. \<not> not_result c) x =
      (case Option.bind (data ss) sd_Pub of None \<Rightarrow> [] | Some pub \<Rightarrow>
         if sl_Verify L pub (big_Bytes (tx ss)) (big_SetBytes (slice_bytes (sg_R sig))) (big_SetBytes (slice_bytes (sg_S sig)))
         then [Enqueue SigningResultCompleteTopic (Marshal_SigningResponse (response ss sig)) (ps_IdempotentKey (sess ss))]
         else [])" by blast
  from assms(3) x have "Enqueue t b k \<in> set (filter (\<lambda>c. \<not> not_result c) x)" by (simp add: not_result_def)
  with f result(1) show ?thesis by (auto split: option.splits if_splits)
qed

lemma event_session:
  assumes "run_state (loop E C T L ids ss [e]) tr = (r, tr')"
  shows "result_session r = ss"
  using assms by (cases rule: event_cases) (auto simp: finish_spec run_state_bind split: prod.splits)

text \<open>A signing session extends the history, whatever its callback does, if the callback does.\<close>

lemma event_extends:
  assumes "\<And>b. emits_only not_result (onSuccess b)" and "run_state (loop E C T L ids ss [e]) tr = (r, tr')"
  obtains x where "tr' = tr @ x"
  using assms(2)
proof (cases rule: event_cases)
  case (result sig ss')
  from end_results [OF assms(1) result(2)] that show thesis by blast
qed (use that in blast)

end

text \<open>
  What both resharing sessions do with the result of their party: a member of the old committee only gets
  told that it is over, a member of the new one stores its share under the next version.
\<close>

definition reshare_end_spec ::
  "('rs \<Rightarrow> PartySession) \<Rightarrow> ('rs \<Rightarrow> string list) \<Rightarrow> ('rs \<Rightarrow> int) \<Rightarrow> (bytes \<Rightarrow> 'rs \<Rightarrow> 'rs) \<Rightarrow>
   (share_lib \<Rightarrow> nat \<times> nat \<Rightarrow> bytes) \<Rightarrow> env \<Rightarrow> share_lib \<Rightarrow> 'rs \<Rightarrow> save_data \<Rightarrow> 'rs io" where
  "reshare_end_spec sess peers threshold set_pub enc E L rs saveData =
     (let s = sess rs;
          close = (\<lambda>rs. do { io_CallDone; _ \<leftarrow> Close_session E (sess rs); State_Monad.return rs }) in
      case sd_Pub saveData of
        None \<Rightarrow> close rs
      | Some pub \<Rightarrow>
          (case sl_Marshal L saveData of
             Inl err \<Rightarrow> do { io_ErrSend err; State_Monad.return rs }
           | Inr keyBytes \<Rightarrow> do {
               err \<leftarrow> io_KvPut E (ps_ComposeKey s (WalletIDWithVersion (ps_WalletID s) (inc64 (GetVersion s)))) keyBytes;
               (case err of
                  Some e \<Rightarrow> do { io_ErrSend e; State_Monad.return rs }
                | None \<Rightarrow> do {
                    err \<leftarrow> keyinfo_Save E (ps_ComposeKey s (ps_WalletID s))
                      \<lparr>ki_ParticipantPeerIDs = Some (peers rs), ki_Threshold = threshold rs, ki_Version = inc64 (GetVersion s)\<rparr>;
                    (case err of
                       Some e \<Rightarrow> do { io_ErrSend e; State_Monad.return rs }
                     | None \<Rightarrow> close (set_pub (enc L pub) rs)) }) }))"

text \<open>The writes of a resharing: the share under the next version and the key information, nothing else.\<close>

definition reshare_writes :: "PartySession \<Rightarrow> call \<Rightarrow> bool" where
  "reshare_writes s c \<longleftrightarrow>
     (case c of
        KvPut k _ \<Rightarrow> k = ps_ComposeKey s (WalletIDWithVersion (ps_WalletID s) (inc64 (ps_Version s)))
      | ConsulPut k _ \<Rightarrow> k = keyinfo_composeKey (ps_ComposeKey s (ps_WalletID s))
      | ConsulDelete _ \<Rightarrow> False
      | _ \<Rightarrow> True)"

lemma reshare_writes_quiet: "quiet c \<Longrightarrow> reshare_writes s c"
  by (cases c) (simp_all add: quiet_def sends_def reshare_writes_def)

lemma reshare_writes_ending: "session_ending c \<Longrightarrow> reshare_writes s c"
  by (cases c) (simp_all add: session_ending_def reshare_writes_def)

locale reshare_session = session_loop sess finish loop reshare
  for sess :: "'rs \<Rightarrow> PartySession" and finish :: "env \<Rightarrow> share_lib \<Rightarrow> 'rs \<Rightarrow> save_data \<Rightarrow> 'rs io" and loop and reshare +
  fixes peers :: "'rs \<Rightarrow> string list" and threshold :: "'rs \<Rightarrow> int" and set_pub :: "bytes \<Rightarrow> 'rs \<Rightarrow> 'rs"
    and enc :: "share_lib \<Rightarrow> nat \<times> nat \<Rightarrow> bytes"
  assumes finish_spec: "finish E L rs d = reshare_end_spec sess peers threshold set_pub enc E L rs d"
begin

lemma end_emits: "emits_only (reshare_writes (sess rs)) (finish E L rs d)"
proof -
  have c: "emits_only (reshare_writes s) (Close_session E x)" for s x
    by (rule emits_mono [OF Close_session_emits]) (rule reshare_writes_ending)
  show ?thesis
    unfolding finish_spec reshare_end_spec_def Let_def io_defs
    by (intro emits c keyinfo_Save_emits) (simp_all add: reshare_writes_def GetVersion_def)
qed

lemma reshare_emits: "emits_only (reshare_writes (sess rs)) (reshare E C T L ids rs evs)"
  by (rule run_emits) (simp_all add: reshare_writes_quiet end_emits)

text \<open>The share of the version that is reshared is not overwritten.\<close>

lemma keeps_old:
  assumes "run_state (reshare E C T L ids rs evs) tr = (r, tr')" and "sess rs = s" and "inj (ps_ComposeKey s)"
    and "0 \<le> ps_Version s" and "ps_Version s < 2 ^ 63 - 1"
  shows "KvPut (ps_ComposeKey s (WalletIDWithVersion (ps_WalletID s) (ps_Version s))) v \<notin> set (drop (length tr) tr')"
proof -
  obtain new where new: "tr' = tr @ new" "list_all (reshare_writes s) new"
    using emits_onlyD [OF reshare_emits assms(1)] assms(2) by blast
  have inc: "inc64 (ps_Version s) = ps_Version s + 1" using assms(4,5) by (intro inc64_small) simp_all
  have "WalletIDWithVersion (ps_WalletID s) (inc64 (ps_Version s)) \<noteq> WalletIDWithVersion (ps_WalletID s) (ps_Version s)"
    using assms(4) by (simp add: inc WalletIDWithVersion_same)
  then have "\<not> reshare_writes s (KvPut (ps_ComposeKey s (WalletIDWithVersion (ps_WalletID s) (ps_Version s))) v)"
    by (simp add: reshare_writes_def inj_eq [OF assms(3)])
  with new show ?thesis by (auto simp: list_all_iff)
qed

lemma end_done:
  assumes "run_state (finish E L rs d) tr = (rs', tr')" and "CallDone \<in> set (drop (length tr) tr')"
    and "sd_Pub d = Some pub" and "sess rs = s"
  defines "k \<equiv> ps_ComposeKey s (WalletIDWithVersion (ps_WalletID s) (inc64 (ps_Version s)))"
    and "c \<equiv> keyinfo_composeKey (ps_ComposeKey s (ps_WalletID s))"
    and "ki \<equiv> \<lparr>ki_ParticipantPeerIDs = Some (peers rs), ki_Threshold = threshold rs, ki_Version = inc64 (ps_Version s)\<rparr>"
  shows "\<exists>b. sl_Marshal L d = Inr b \<and> stored E k b c ki tr'"
proof -
  let ?i = "Marshal_KeyInfo ki"
  note step = finish_spec reshare_end_spec_def Let_def io_defs GetVersion_def keyinfo_Save_def assms(3,4)
  obtain b where b: "sl_Marshal L d = Inr b"
    using assms(1,2) by (cases "sl_Marshal L d") (auto simp: step)
  have p: "en_KvPut E tr k b = None"
    using assms(1,2) b by (cases "en_KvPut E tr k b") (auto simp: step k_def)
  have q: "en_ConsulPut E (tr @ [KvPut k b]) c ?i = None"
    using assms(1,2) b p by (cases "en_ConsulPut E (tr @ [KvPut k b]) c ?i") (auto simp: step k_def c_def ki_def)
  obtain rest where rest: "snd (run_state (Close_session E (sess (set_pub (enc L pub) rs)))
      (tr @ [KvPut k b, ConsulPut c ?i, CallDone])) = (tr @ [KvPut k b, ConsulPut c ?i, CallDone]) @ rest"
      "list_all session_ending rest"
    by (rule Close_session_trace)
  have "tr' = tr @ KvPut k b # ConsulPut c ?i # CallDone # rest"
    using assms(1) rest(1)
    by (auto simp: step b p [unfolded k_def] q [unfolded k_def c_def ki_def] k_def c_def ki_def run_state_bind split: prod.splits)
  moreover have "list_all session_ending (CallDone # rest)" using rest(2) by (simp add: session_ending_def)
  ultimately show ?thesis using b stored_written [OF p q] by blast
qed

lemma reshare_stored:
  assumes "\<forall>e \<in> set evs. \<forall>d. e \<noteq> EndData d"
    and "run_state (reshare E C T L ids rs (evs @ EndData d # later)) tr = (r, tr')"
    and "CallDone \<in> set (drop (length tr) tr')" and "sd_Pub d = Some pub" and "sess rs = s"
  shows "\<exists>b. sl_Marshal L d = Inr b \<and>
    stored E (ps_ComposeKey s (WalletIDWithVersion (ps_WalletID s) (inc64 (ps_Version s)))) b
      (keyinfo_composeKey (ps_ComposeKey s (ps_WalletID s)))
      \<lparr>ki_ParticipantPeerIDs = Some (peers rs), ki_Threshold = threshold rs, ki_Version = inc64 (ps_Version s)\<rparr> tr'"
proof -
  obtain t rs' where "run_state (finish E L rs d) t = (rs', tr')" "CallDone \<in> set (drop (length t) tr')"
    using run_finish_done [OF assms(1-3) end_emits] by blast
  from end_done [OF this assms(4,5)] show ?thesis .
qed

end

section \<open>Properties\<close>

text \<open>
  C26: a broadcast reaches the other parties. When a party of node \<open>n\<close> produces a broadcast and
  publishing works, the node publishes exactly one message, and any node that holds the public key of
  \<open>n\<close> and runs a session that recognises the round feeds exactly the produced bytes, with the original
  sender, to its own party, whatever else happened before.
\<close>

theorem broadcast_delivery:
  assumes "crypto_ok C" and "tss_lib_ok T" and "node_id_ok n"
    and "length (privateKey a) = ed25519_PrivateKeySize"
    and "GetPublicKey n b = Inr (cr_PublicKey C (privateKey a))"
    and "rt_From r = Some (CreatePartyID T u n l v)" and "rt_IsBroadcast r" and "rt_To r \<in> {None, Some []}"
    and "ps_SelfPartyID s \<noteq> None" and "\<And>d. en_Publish E tr (ps_BroadcastTopic s) d = None"
    and "ps_SelfPartyID s' = Some self" and "ps_GetRoundFunc s' (Some data) (Some self) True = Inr rd"
  shows "\<exists>wire. run_state (HandleTssMessage E C T a s (Inr (data, r))) tr
            = ((), tr @ [Publish (ps_BroadcastTopic s) wire])
       \<and> run_state (receiveBroadcastTssMessage E' C T b s' wire) tr'
            = ((), tr' @ [PartyUpdate (Some data) (rt_From r) True])"
proof -
  let ?m = "NewTssMessage (ps_WalletID s) (Some data) True (rt_From r) (map_option (map Some) (rt_To r))"
  obtain sig where sig: "SignMessage C T a ?m = Ret sig"
    using assms(4,6) by (simp add: SignMessage_def MarshalForSigning_def NewTssMessage_def TssMessage_zero_def ed25519_Sign_def)
  let ?w = "?m\<lparr>tm_Signature := Some sig\<rparr>"
  have frm: "tm_From ?m = Some (CreatePartyID T u n l v)" using assms(6) by (simp add: NewTssMessage_def)
  have v: "VerifyMessage C T b ?w = Ret None"
    by (rule sign_verify_message [OF assms(1-5) frm sig])
  have fields: "tm_MsgBytes ?w = Some data" "tm_IsBroadcast ?w" "tm_From ?w = rt_From r"
      "(case tm_To ?w of None \<Rightarrow> [] | Some l \<Rightarrow> l) = []"
    using assms(8) by (auto simp: NewTssMessage_def)
  have "run_state (receiveTssMessage E' T s' ?w) tr' = ((), tr' @ [PartyUpdate (Some data) (rt_From r) True])"
    using receiveTssMessage_run [of ?w s' rd "CreatePartyID T u n l v" self E' T tr'] fields assms(6,11,12) by simp
  moreover note broadcast_out [OF assms(7,8,9) sig, of E tr] broadcast_in [OF assms(2) v, of E' s' tr']
  ultimately show ?thesis using assms(10) by auto
qed

text \<open>A session and a store for concrete runs.\<close>

definition session_ref :: "party_id \<Rightarrow> PartySession" where
  "session_ref self =
     \<lparr>ps_WalletID = ''w'', ps_Threshold = 1, ps_ParticipantPeerIDs = [''n1'', ''n2''], ps_SelfPartyID = Some self,
      ps_PartyIDs = [self], ps_Version = 1, ps_PreParams = None, ps_BroadcastSub = None, ps_DirectSubs = [],
      ps_BroadcastTopic = ''keygen:broadcast:ecdsa:w'',
      ps_DirectTopic = \<lambda>f t. ''keygen:direct:ecdsa:'' @ f @ '':'' @ t @ '':w'',
      ps_ComposeKey = \<lambda>w. ''ecdsa:'' @ w,
      ps_GetRoundFunc = \<lambda>_ _ _. Inr \<lparr>ri_Index = 0, ri_RoundMsg = ''KGRound1Message'', ri_MsgIdentifier = []\<rparr>,
      ps_PubkeyBytes = None, ps_SessionType = SessionTypeECDSA, ps_IdempotentKey = []\<rparr>"

definition store_ref :: "string \<Rightarrow> string \<Rightarrow> char \<Rightarrow> char \<Rightarrow> fileStore" where
  "store_ref self peer c d =
     \<lparr>publicKeys = [(self, replicate 32 c), (peer, replicate 32 d)], privateKey = replicate 64 c,
      initiatorKey = \<lparr>ik_Algorithm = ''ed25519'', ik_Ed25519 = replicate 32 CHR ''i'', ik_P256 = None\<rparr>,
      symmetricKeys = [(peer, Some (replicate 32 CHR ''k''))]\<rparr>"

lemma node_id_ok_ref: "node_id_ok ''n1''" "node_id_ok ''n2''"
  by (simp_all add: node_id_ok_def is_space_def)

theorem broadcast_delivery_witness:
  "\<exists>wire. run_state (HandleTssMessage env_ref crypto_ref tss_lib_ref (store_ref ''n1'' ''n2'' CHR ''a'' CHR ''b'')
        (session_ref (CreatePartyID tss_lib_ref ''u'' ''n1'' ''keygen'' 1))
        (Inr (''share'', \<lparr>rt_IsBroadcast = True, rt_From = Some (CreatePartyID tss_lib_ref ''u'' ''n1'' ''keygen'' 1), rt_To = None\<rparr>))) []
      = ((), [Publish ''keygen:broadcast:ecdsa:w'' wire])
   \<and> run_state (receiveBroadcastTssMessage env_ref crypto_ref tss_lib_ref (store_ref ''n2'' ''n1'' CHR ''b'' CHR ''a'')
        (session_ref (CreatePartyID tss_lib_ref ''x'' ''n2'' ''keygen'' 1)) wire) []
      = ((), [PartyUpdate (Some ''share'') (Some (CreatePartyID tss_lib_ref ''u'' ''n1'' ''keygen'' 1)) True])"
  using broadcast_delivery [OF crypto_ref_ok tss_lib_ref_ok node_id_ok_ref(1),
      of "store_ref ''n1'' ''n2'' CHR ''a'' CHR ''b''" "store_ref ''n2'' ''n1'' CHR ''b'' CHR ''a''"
         "\<lparr>rt_IsBroadcast = True, rt_From = Some (CreatePartyID tss_lib_ref ''u'' ''n1'' ''keygen'' 1), rt_To = None\<rparr>"
         "''u''" "''keygen''" 1 "session_ref (CreatePartyID tss_lib_ref ''u'' ''n1'' ''keygen'' 1)" env_ref "[]"
         "session_ref (CreatePartyID tss_lib_ref ''x'' ''n2'' ''keygen'' 1)" _ "''share''" _ env_ref "[]"]
  by (simp add: store_ref_def session_ref_def ed25519_PrivateKeySize_def GetPublicKey_def crypto_ref_def env_ref_def)

text \<open>
  C36: direct messages are not bound to their sender. A node that shares a symmetric key with the receiver
  can send, on its own topic, a message whose \<^verbatim>\<open>From\<close> is any party ID at all: the receiver decrypts it
  under the key of the node named by the topic, never compares that node with \<^verbatim>\<open>From\<close>, and hands the
  message to its party as coming from \<^verbatim>\<open>From\<close>.
\<close>

theorem p2p_sender_not_bound:
  assumes "crypto_ok C" and "tss_lib_ok T" and "node_id_ok evil" and "node_id_ok victim" and "evil \<noteq> victim"
    and "GetSymmetricKey evil ids = Inr (Some key)" and "length key = 32" and "length (nonce :: bytes) = gcm_nonce_size"
    and "ps_SelfPartyID s = Some (CreatePartyID T u victim l v)"
    and "extractSenderIDFromDirectTopic topic = evil"
    and "ps_GetRoundFunc s (Some data) (ps_SelfPartyID s) False = Inr rd"
  shows "\<exists>c. run_state (receiveP2PTssMessage E C T ids s topic c) tr
           = ((), tr @ [PartyUpdate (Some data) (Some forged) False])"
proof -
  let ?m = "NewTssMessage [] (Some data) False (Some forged) (Some [Some (CreatePartyID T u victim l v)])"
  obtain c where c: "EncryptAESGCMWithNonceEmbed C (Inr nonce) (MarshalTssMessage T ?m) key = Inr c"
    using assms(7) by (simp add: EncryptAESGCMWithNonceEmbed_def aes_NewCipher_def Let_def)
  have dec: "DecryptMessage C ids c evil = Inr (MarshalTssMessage T ?m)"
    using nonce_embed_round_trip [OF assms(1,8) c] assms(6) by (simp add: DecryptMessage_def)
  have self: "PartyIDToNodeID T (ps_SelfPartyID s) = victim"
    using assms(2,4,9) by (simp add: PartyIDToNodeID_Create)
  have ne: "evil \<noteq> []" using assms(3) by (simp add: node_id_ok_def)
  have "run_state (receiveTssMessage E T s ?m) tr = ((), tr @ [PartyUpdate (Some data) (Some forged) False])"
    using receiveTssMessage_run [of ?m s rd forged "CreatePartyID T u victim l v" E T tr] assms(9,11)
    by (simp add: NewTssMessage_def TssMessage_zero_def ComparePartyIDs_def)
  with p2p_in [OF assms(2,10) ne _ dec, of s E tr] self assms(5) show ?thesis by auto
qed

theorem p2p_sender_not_bound_witness:
  "\<exists>c. run_state (receiveP2PTssMessage env_ref crypto_ref tss_lib_ref (store_ref ''n2'' ''n1'' CHR ''b'' CHR ''a'')
        (session_ref (CreatePartyID tss_lib_ref ''x'' ''n2'' ''keygen'' 1)) ''keygen:direct:ecdsa:n1:n2:w'' c) []
      = ((), [PartyUpdate (Some ''share'') (Some (CreatePartyID tss_lib_ref ''y'' ''n3'' ''keygen'' 1)) False])"
proof -
  have "extractSenderIDFromDirectTopic ''keygen:direct:ecdsa:n1:n2:w'' = ''n1''" by code_simp
  then show ?thesis
    using p2p_sender_not_bound [OF crypto_ref_ok tss_lib_ref_ok node_id_ok_ref,
        of "store_ref ''n2'' ''n1'' CHR ''b'' CHR ''a''" "replicate 32 CHR ''k''" "replicate 12 CHR ''n''"
           "session_ref (CreatePartyID tss_lib_ref ''x'' ''n2'' ''keygen'' 1)" "''x''" "''keygen''" 1
           "''keygen:direct:ecdsa:n1:n2:w''" "''share''" _ env_ref "[]" "CreatePartyID tss_lib_ref ''y'' ''n3'' ''keygen'' 1"]
    by (simp add: store_ref_def session_ref_def GetSymmetricKey_def gcm_nonce_size_def)
qed

text \<open>
  A broadcast without a sender crashes every node that receives it. The text needs no key and no
  valid signature, only a signature field; the receiver dereferences the nil sender while looking up its public
  key, before anything is authenticated.
\<close>

lemma broadcast_without_sender_crashes:
  assumes "tss_lib_ok T"
  shows "\<exists>raw. \<forall>E C ids s tr. run_state (receiveBroadcastTssMessage E C T ids s raw) tr = ((), tr @ [Crash])"
proof -
  let ?m = "TssMessage_zero\<lparr>tm_Signature := Some ''x''\<rparr>"
  have "VerifyMessage C T ids ?m = Panic" for C ids
    by (simp add: VerifyMessage_def identity_partyIDToNodeID_def TssMessage_zero_def)
  then have "run_state (receiveBroadcastTssMessage E C T ids s (MarshalTssMessage T ?m)) tr = ((), tr @ [Crash])"
    for E C ids s tr
    by (simp add: receiveBroadcastTssMessage_def TssMessage_codec [OF assms] io_defs)
  then show ?thesis by blast
qed

lemma broadcast_without_sender_crashes_example:
  "\<exists>raw. \<forall>E C ids s tr. run_state (receiveBroadcastTssMessage E C tss_lib_ref ids s raw) tr = ((), tr @ [Crash])"
  by (rule broadcast_without_sender_crashes [OF tss_lib_ref_ok])



end
