(* ===== verification/Ecdsa_Session.thy ===== *)
theory Ecdsa_Session
  imports Party_Session
begin

text \<open>
  \<^verbatim>\<open>pkg/mpc/ecdsa\<close>: the key generation, signing and resharing sessions for ECDSA and the classification of
  their protocol messages. A session loop selects between the messages its party produces, the result of
  the party and a start failure; it is a recursion over the sequence of these events. A loop that has seen
  no result is still \<open>Waiting\<close>. The public key encoding of \<^verbatim>\<open>pkg/encoding/ecdsa.go\<close> is here too.
\<close>

section \<open>Rounds\<close>

text \<open>The dynamic type of the content of a parsed wire message; \<^verbatim>\<open>tss.ParseWireMessage\<close> is an argument.\<close>

datatype (plugins only: code) ecdsa_content =
    ECDSA_KGRound1Message
  | ECDSA_KGRound2Message1
  | ECDSA_KGRound2Message2
  | ECDSA_KGRound3Message
  | ECDSA_SignRound1Message1
  | ECDSA_SignRound1Message2
  | ECDSA_SignRound2Message
  | ECDSA_SignRound3Message
  | ECDSA_SignRound4Message
  | ECDSA_SignRound5Message
  | ECDSA_SignRound6Message
  | ECDSA_SignRound7Message
  | ECDSA_SignRound8Message
  | ECDSA_SignRound9Message
  | ECDSA_DGRound1Message
  | ECDSA_DGRound2Message1
  | ECDSA_DGRound2Message2
  | ECDSA_DGRound3Message1
  | ECDSA_DGRound3Message2
  | ECDSA_DGRound4Message1
  | ECDSA_DGRound4Message2
  | ECDSA_other

definition ecdsa_GetMsgRound ::
  "(slice \<Rightarrow> party_id option \<Rightarrow> bool \<Rightarrow> go_error + ecdsa_content) \<Rightarrow>
   slice \<Rightarrow> party_id option \<Rightarrow> bool \<Rightarrow> go_error + RoundInfo" where
  "ecdsa_GetMsgRound parse msg partyID isBroadcast =
     (let round = (\<lambda>i m. Inr \<lparr>ri_Index = i, ri_RoundMsg = m, ri_MsgIdentifier = []\<rparr>) in
      case parse msg partyID isBroadcast of
        Inl err \<Rightarrow> Inl err
      | Inr ECDSA_KGRound1Message \<Rightarrow> round 0 ''KGRound1Message''
      | Inr ECDSA_KGRound2Message1 \<Rightarrow> round 1 ''KGRound2Message1''
      | Inr ECDSA_KGRound2Message2 \<Rightarrow> round 2 ''KGRound2Message2''
      | Inr ECDSA_KGRound3Message \<Rightarrow> round 3 ''KGRound3Message''
      | Inr ECDSA_SignRound1Message1 \<Rightarrow> round 0 ''SignRound1Message1''
      | Inr ECDSA_SignRound1Message2 \<Rightarrow> round 1 ''SignRound1Message2''
      | Inr ECDSA_SignRound2Message \<Rightarrow> round 2 ''SignRound2Message''
      | Inr ECDSA_SignRound3Message \<Rightarrow> round 3 ''SignRound3Message''
      | Inr ECDSA_SignRound4Message \<Rightarrow> round 4 ''SignRound4Message''
      | Inr ECDSA_SignRound5Message \<Rightarrow> round 5 ''SignRound5Message''
      | Inr ECDSA_SignRound6Message \<Rightarrow> round 6 ''SignRound6Message''
      | Inr ECDSA_SignRound7Message \<Rightarrow> round 7 ''SignRound7Message''
      | Inr ECDSA_SignRound8Message \<Rightarrow> round 8 ''SignRound8Message''
      | Inr ECDSA_SignRound9Message \<Rightarrow> round 9 ''SignRound9Message''
      | Inr ECDSA_DGRound1Message \<Rightarrow> round 0 ''DGRound1Message''
      | Inr ECDSA_DGRound2Message1 \<Rightarrow> round 1 ''DGRound2Message1''
      | Inr ECDSA_DGRound2Message2 \<Rightarrow> round 2 ''DGRound2Message2''
      | Inr ECDSA_DGRound3Message1 \<Rightarrow> round 3 ''DGRound3Message1''
      | Inr ECDSA_DGRound3Message2 \<Rightarrow> round 4 ''DGRound3Message2''
      | Inr ECDSA_DGRound4Message1 \<Rightarrow> round 5 ''DGRound4Message1''
      | Inr ECDSA_DGRound4Message2 \<Rightarrow> round 6 ''DGRound4Message2''
      | Inr ECDSA_other \<Rightarrow> Inl (errorf ''unknown round''))"

definition ecdsa_IsResharingRound :: "string \<Rightarrow> bool" where
  "ecdsa_IsResharingRound roundMsg \<longleftrightarrow>
     roundMsg = ''DGRound1Message'' \<or> roundMsg = ''DGRound2Message1'' \<or> roundMsg = ''DGRound2Message2''
     \<or> roundMsg = ''DGRound3Message1'' \<or> roundMsg = ''DGRound3Message2'' \<or> roundMsg = ''DGRound4Message1''
     \<or> roundMsg = ''DGRound4Message2''"

section \<open>Public keys\<close>

text \<open>\<^verbatim>\<open>pkg/encoding/ecdsa.go\<close>: the coordinates without leading zeros, one after the other.\<close>

definition EncodeS256PubKey :: "nat \<times> nat \<Rightarrow> bytes" where
  "EncodeS256PubKey pubKey = big_Bytes (fst pubKey) @ big_Bytes (snd pubKey)"


section \<open>Key generation\<close>

definition ecdsa_keygen_broadcast :: "string \<Rightarrow> string" where
  "ecdsa_keygen_broadcast walletID = ''keygen:broadcast:ecdsa:'' @ walletID"
definition ecdsa_keygen_direct :: "string \<Rightarrow> string \<Rightarrow> string \<Rightarrow> string" where
  "ecdsa_keygen_direct walletID fromID toID = ''keygen:direct:ecdsa:'' @ fromID @ '':'' @ toID @ '':'' @ walletID"
definition ecdsa_ComposeKey :: "string \<Rightarrow> string" where
  "ecdsa_ComposeKey walletID = ''ecdsa:'' @ walletID"

definition NewECDSAKeygenSession ::
  "(slice \<Rightarrow> party_id option \<Rightarrow> bool \<Rightarrow> go_error + ecdsa_content) \<Rightarrow> string \<Rightarrow> string list \<Rightarrow>
   party_id option \<Rightarrow> party_id list \<Rightarrow> int \<Rightarrow> slice \<Rightarrow> PartySession" where
  "NewECDSAKeygenSession parse walletID participantPeerIDs selfID partyIDs threshold preParams =
     \<lparr>ps_WalletID = walletID, ps_Threshold = threshold, ps_ParticipantPeerIDs = participantPeerIDs,
      ps_SelfPartyID = selfID, ps_PartyIDs = partyIDs, ps_Version = DefaultVersion, ps_PreParams = preParams,
      ps_BroadcastSub = None, ps_DirectSubs = [],
      ps_BroadcastTopic = ecdsa_keygen_broadcast walletID, ps_DirectTopic = ecdsa_keygen_direct walletID,
      ps_ComposeKey = ecdsa_ComposeKey, ps_GetRoundFunc = ecdsa_GetMsgRound parse, ps_PubkeyBytes = None,
      ps_SessionType = SessionTypeECDSA, ps_IdempotentKey = []\<rparr>"

definition ecdsa_keygen_Init :: "PartySession \<Rightarrow> unit io" where
  "ecdsa_keygen_Init s = (case ps_PreParams s of None \<Rightarrow> io_Crash | Some _ \<Rightarrow> io_PartyNew)"

definition ecdsa_keygen_end ::
  "env \<Rightarrow> share_lib \<Rightarrow> PartySession \<Rightarrow> save_data \<Rightarrow> PartySession io" where
  "ecdsa_keygen_end E L s saveData =
     (case sl_Marshal L saveData of
        Inl err \<Rightarrow> do { io_ErrSend err; State_Monad.return s }
      | Inr keyBytes \<Rightarrow> do {
          err \<leftarrow> io_KvPut E (ps_ComposeKey s (WalletIDWithVersion (ps_WalletID s) (GetVersion s))) keyBytes;
          (case err of
             Some e \<Rightarrow> do { io_ErrSend e; State_Monad.return s }
           | None \<Rightarrow> do {
               let keyInfo = \<lparr>ki_ParticipantPeerIDs = Some (ps_ParticipantPeerIDs s),
                              ki_Threshold = ps_Threshold s, ki_Version = GetVersion s\<rparr>;
               err \<leftarrow> keyinfo_Save E (ps_ComposeKey s (ps_WalletID s)) keyInfo;
               (case err of
                  Some e \<Rightarrow> do { io_ErrSend e; State_Monad.return s }
                | None \<Rightarrow>
                    (case sd_Pub saveData of
                       None \<Rightarrow> do { io_Crash; State_Monad.return s }
                     | Some publicKey \<Rightarrow> do {
                         let s' = s\<lparr>ps_PubkeyBytes := Some (EncodeS256PubKey publicKey)\<rparr>;
                         r \<leftarrow> Close_session E s';
                         (case r of
                            Panic \<Rightarrow> State_Monad.return s'
                          | Ret _ \<Rightarrow> do { io_CallDone; State_Monad.return s' }) })) }) })"

fun ecdsa_keygen_loop ::
  "env \<Rightarrow> crypto \<Rightarrow> tss_lib \<Rightarrow> share_lib \<Rightarrow> fileStore \<Rightarrow> PartySession \<Rightarrow> save_data party_event list \<Rightarrow>
   PartySession loop_result io" where
  "ecdsa_keygen_loop E C T L ids s [] = State_Monad.return (Waiting s)"
| "ecdsa_keygen_loop E C T L ids s (StartFailed err # evs) = do {
     io_ErrSend err; ecdsa_keygen_loop E C T L ids s evs }"
| "ecdsa_keygen_loop E C T L ids s (OutMsg msg # evs) = do {
     HandleTssMessage E C T ids s msg; ecdsa_keygen_loop E C T L ids s evs }"
| "ecdsa_keygen_loop E C T L ids s (EndData saveData # evs) = do {
     s' \<leftarrow> ecdsa_keygen_end E L s saveData; State_Monad.return (Returned s') }"

definition ecdsa_GenerateKey ::
  "env \<Rightarrow> crypto \<Rightarrow> tss_lib \<Rightarrow> share_lib \<Rightarrow> fileStore \<Rightarrow> PartySession \<Rightarrow> save_data party_event list \<Rightarrow>
   PartySession loop_result io" where
  "ecdsa_GenerateKey E C T L ids s events = do {
     io_PartyStart; ecdsa_keygen_loop E C T L ids s events }"

section \<open>Signing\<close>

record ecdsaSigningSession =
  es_session :: PartySession
  es_data :: "save_data option"
  es_tx :: nat
  es_txID :: string

definition ecdsa_sign_broadcast :: "string \<Rightarrow> string \<Rightarrow> string" where
  "ecdsa_sign_broadcast walletID txID = ''sign:ecdsa:broadcast:'' @ walletID @ '':'' @ txID"
definition ecdsa_sign_direct :: "string \<Rightarrow> string \<Rightarrow> string \<Rightarrow> string" where
  "ecdsa_sign_direct txID fromID toID = ''sign:ecdsa:direct:'' @ fromID @ '':'' @ toID @ '':'' @ txID"

definition NewECDSASigningSession ::
  "(slice \<Rightarrow> party_id option \<Rightarrow> bool \<Rightarrow> go_error + ecdsa_content) \<Rightarrow> string \<Rightarrow> string \<Rightarrow> string list \<Rightarrow>
   party_id option \<Rightarrow> party_id list \<Rightarrow> int \<Rightarrow> slice \<Rightarrow> string \<Rightarrow> ecdsaSigningSession" where
  "NewECDSASigningSession parse walletID txID participantPeerIDs selfID partyIDs threshold preParams idempotentKey =
     \<lparr>es_session =
       \<lparr>ps_WalletID = walletID, ps_Threshold = threshold, ps_ParticipantPeerIDs = participantPeerIDs,
        ps_SelfPartyID = selfID, ps_PartyIDs = partyIDs, ps_Version = 0, ps_PreParams = preParams,
        ps_BroadcastSub = None, ps_DirectSubs = [],
        ps_BroadcastTopic = ecdsa_sign_broadcast walletID txID, ps_DirectTopic = ecdsa_sign_direct txID,
        ps_ComposeKey = ecdsa_ComposeKey, ps_GetRoundFunc = ecdsa_GetMsgRound parse, ps_PubkeyBytes = None,
        ps_SessionType = SessionTypeECDSA, ps_IdempotentKey = idempotentKey\<rparr>,
      es_data = None, es_tx = 0, es_txID = txID\<rparr>"

definition ecdsa_signing_Init ::
  "env \<Rightarrow> share_lib \<Rightarrow> (string list \<Rightarrow> string list \<Rightarrow> string list) \<Rightarrow> ecdsaSigningSession \<Rightarrow> nat \<Rightarrow>
   (go_error option \<times> ecdsaSigningSession) io" where
  "ecdsa_signing_Init E L lo_Intersect ss tx =
     (let s = es_session ss in do {
      keyInfo \<leftarrow> keyinfo_Get E (ps_ComposeKey s (ps_WalletID s));
      (case keyInfo of
         Inl err \<Rightarrow> State_Monad.return (Some (wrapf ''Failed to get key info data'' err), ss)
       | Inr keyInfo \<Rightarrow>
           if int (length (ps_ParticipantPeerIDs s)) < inc64 (ki_Threshold keyInfo)
           then State_Monad.return (Some (Sentinel ErrNotEnoughParticipants), ss)
           else if int (length (lo_Intersect (ps_ParticipantPeerIDs s) (ki_peers keyInfo))) < inc64 (ki_Threshold keyInfo)
           then State_Monad.return (Some (errorf ''incompatible peerIDs to participate in signing''), ss)
           else do {
             keyData \<leftarrow> io_KvGet E (ps_ComposeKey s (WalletIDWithVersion (ps_WalletID s) (ki_Version keyInfo)));
             (case keyData of
                Inl err \<Rightarrow> State_Monad.return (Some (wrapf ''Failed to get wallet data from KVStore'' err), ss)
              | Inr val \<Rightarrow>
                  (case sl_Unmarshal L val of
                     Inl err \<Rightarrow> State_Monad.return (Some (wrapf ''Failed to unmarshal wallet data'' err), ss)
                   | Inr share \<Rightarrow> do {
                       io_PartyNew;
                       State_Monad.return (None, ss\<lparr>es_data := Some share, es_tx := tx,
                         es_session := s\<lparr>ps_Version := ki_Version keyInfo\<rparr>\<rparr>) })) }) })"

definition ecdsa_sign_end ::
  "env \<Rightarrow> share_lib \<Rightarrow> (bytes \<Rightarrow> unit io) \<Rightarrow> ecdsaSigningSession \<Rightarrow> signature_data \<Rightarrow> unit io" where
  "ecdsa_sign_end E L onSuccess ss sig =
     (case Option.bind (es_data ss) sd_Pub of
        None \<Rightarrow> io_Crash
      | Some publicKey \<Rightarrow>
          if \<not> sl_Verify L publicKey (big_Bytes (es_tx ss)) (big_SetBytes (slice_bytes (sg_R sig)))
                 (big_SetBytes (slice_bytes (sg_S sig)))
          then io_ErrSend (errorf ''Failed to verify signature'')
          else do {
            let r = SigningResponse_zero\<lparr>sr_WalletID := ps_WalletID (es_session ss), sr_TxID := es_txID ss,
              sr_R := sg_R sig, sr_S := sg_S sig, sr_SignatureRecovery := sg_SignatureRecovery sig\<rparr>;
            let data = Marshal_SigningResponse r;
            err \<leftarrow> io_Enqueue E SigningResultCompleteTopic data (ps_IdempotentKey (es_session ss));
            (case err of
               Some e \<Rightarrow> io_ErrSend (wrapf ''Failed to publish sign success message'' e)
             | None \<Rightarrow> do {
                 c \<leftarrow> Close_session E (es_session ss);
                 (case c of Panic \<Rightarrow> State_Monad.return () | Ret _ \<Rightarrow> onSuccess data) }) })"

fun ecdsa_sign_loop ::
  "env \<Rightarrow> crypto \<Rightarrow> tss_lib \<Rightarrow> share_lib \<Rightarrow> fileStore \<Rightarrow> (bytes \<Rightarrow> unit io) \<Rightarrow> ecdsaSigningSession \<Rightarrow>
   signature_data party_event list \<Rightarrow> ecdsaSigningSession loop_result io" where
  "ecdsa_sign_loop E C T L ids onSuccess ss [] = State_Monad.return (Waiting ss)"
| "ecdsa_sign_loop E C T L ids onSuccess ss (StartFailed err # evs) = do {
     io_ErrSend err; ecdsa_sign_loop E C T L ids onSuccess ss evs }"
| "ecdsa_sign_loop E C T L ids onSuccess ss (OutMsg msg # evs) = do {
     HandleTssMessage E C T ids (es_session ss) msg; ecdsa_sign_loop E C T L ids onSuccess ss evs }"
| "ecdsa_sign_loop E C T L ids onSuccess ss (EndData sig # evs) = do {
     ecdsa_sign_end E L onSuccess ss sig; State_Monad.return (Returned ss) }"

definition ecdsa_Sign ::
  "env \<Rightarrow> crypto \<Rightarrow> tss_lib \<Rightarrow> share_lib \<Rightarrow> fileStore \<Rightarrow> (bytes \<Rightarrow> unit io) \<Rightarrow> ecdsaSigningSession \<Rightarrow>
   signature_data party_event list \<Rightarrow> ecdsaSigningSession loop_result io" where
  "ecdsa_Sign E C T L ids onSuccess ss events = do {
     io_PartyStart; ecdsa_sign_loop E C T L ids onSuccess ss events }"

section \<open>Resharing\<close>

record ecdsaResharingSession =
  er_session :: PartySession
  er_isNewParty :: bool
  er_oldPeerIDs :: "string list"
  er_newPeerIDs :: "string list"
  er_newThreshold :: int

definition ecdsa_resharing_broadcast :: "string \<Rightarrow> string" where
  "ecdsa_resharing_broadcast walletID = ''resharing:broadcast:ecdsa:'' @ walletID"
definition ecdsa_resharing_direct :: "string \<Rightarrow> string \<Rightarrow> string \<Rightarrow> string" where
  "ecdsa_resharing_direct walletID fromID toID = ''resharing:direct:ecdsa:'' @ fromID @ '':'' @ toID @ '':'' @ walletID"

definition NewECDSAResharingSession ::
  "tss_lib \<Rightarrow> (slice \<Rightarrow> party_id option \<Rightarrow> bool \<Rightarrow> go_error + ecdsa_content) \<Rightarrow> string \<Rightarrow> string list \<Rightarrow>
   party_id option \<Rightarrow> party_id list \<Rightarrow> party_id list \<Rightarrow> int \<Rightarrow> int \<Rightarrow> slice \<Rightarrow> string list \<Rightarrow> bool \<Rightarrow> int \<Rightarrow>
   ecdsaResharingSession" where
  "NewECDSAResharingSession T parse walletID participantPeerIDs selfID oldPartyIDs newPartyIDs threshold
     newThreshold preParams newPeerIDs isNewParty version =
     (let realPartyIDs = (if isNewParty then newPartyIDs else oldPartyIDs) in
      \<lparr>er_session =
        \<lparr>ps_WalletID = walletID, ps_Threshold = threshold, ps_ParticipantPeerIDs = participantPeerIDs,
         ps_SelfPartyID = selfID, ps_PartyIDs = realPartyIDs, ps_Version = version, ps_PreParams = preParams,
         ps_BroadcastSub = None, ps_DirectSubs = [],
         ps_BroadcastTopic = ecdsa_resharing_broadcast walletID, ps_DirectTopic = ecdsa_resharing_direct walletID,
         ps_ComposeKey = ecdsa_ComposeKey, ps_GetRoundFunc = ecdsa_GetMsgRound parse, ps_PubkeyBytes = None,
         ps_SessionType = SessionTypeECDSA, ps_IdempotentKey = []\<rparr>,
       er_isNewParty = isNewParty, er_oldPeerIDs = PartyIDsToNodeIDs T oldPartyIDs,
       er_newPeerIDs = newPeerIDs, er_newThreshold = newThreshold\<rparr>)"

definition ecdsa_GetLegacyCommitteePeers :: "ecdsaResharingSession \<Rightarrow> string list" where
  "ecdsa_GetLegacyCommitteePeers rs =
     (let seen = fold (\<lambda>b m. gm_put b True m) (er_newPeerIDs rs) []
      in filter (\<lambda>a. gm_get seen a \<noteq> Some True) (er_oldPeerIDs rs))"

definition ecdsa_resharing_Init :: "env \<Rightarrow> share_lib \<Rightarrow> ecdsaResharingSession \<Rightarrow> go_error option io" where
  "ecdsa_resharing_Init E L rs =
     (let s = er_session rs in
      if er_isNewParty rs then 
        (case ps_PreParams s of
           None \<Rightarrow> do { io_Crash; State_Monad.return None }
         | Some _ \<Rightarrow> do { io_PartyNew; State_Monad.return None })
      else do {
        r \<leftarrow> LoadOldShareDataGeneric E L s (ps_WalletID s) (GetVersion s);
        (case r of
           Inl err \<Rightarrow> State_Monad.return (Some (wrapf ''failed to load old share data ecdsa'' err))
         | Inr share \<Rightarrow> do { io_PartyNew; State_Monad.return None }) })"

text \<open>The callback runs before the session is closed.\<close>

definition ecdsa_reshare_close :: "env \<Rightarrow> ecdsaResharingSession \<Rightarrow> ecdsaResharingSession io" where
  "ecdsa_reshare_close E rs = do {
     io_CallDone; _ \<leftarrow> Close_session E (er_session rs); State_Monad.return rs }"

definition ecdsa_reshare_end ::
  "env \<Rightarrow> share_lib \<Rightarrow> ecdsaResharingSession \<Rightarrow> save_data \<Rightarrow> ecdsaResharingSession io" where
  "ecdsa_reshare_end E L rs saveData =
     (let s = er_session rs in
      case sd_Pub saveData of
        None \<Rightarrow> ecdsa_reshare_close E rs
      | Some publicKey \<Rightarrow>
          (case sl_Marshal L saveData of
             Inl err \<Rightarrow> do { io_ErrSend err; State_Monad.return rs }
           | Inr keyBytes \<Rightarrow> do {
               let newVersion = inc64 (GetVersion s);
               let key = ps_ComposeKey s (WalletIDWithVersion (ps_WalletID s) newVersion);
               err \<leftarrow> io_KvPut E key keyBytes;
               (case err of
                  Some e \<Rightarrow> do { io_ErrSend e; State_Monad.return rs }
                | None \<Rightarrow> do {
                    let keyInfo = \<lparr>ki_ParticipantPeerIDs = Some (er_newPeerIDs rs),
                                   ki_Threshold = er_newThreshold rs, ki_Version = newVersion\<rparr>;
                    err \<leftarrow> keyinfo_Save E (ps_ComposeKey s (ps_WalletID s)) keyInfo;
                    (case err of
                       Some e \<Rightarrow> do { io_ErrSend e; State_Monad.return rs }
                     | None \<Rightarrow>
                         ecdsa_reshare_close E (rs\<lparr>er_session := s\<lparr>ps_PubkeyBytes := Some (EncodeS256PubKey publicKey)\<rparr>\<rparr>)) }) }))"

fun ecdsa_reshare_loop ::
  "env \<Rightarrow> crypto \<Rightarrow> tss_lib \<Rightarrow> share_lib \<Rightarrow> fileStore \<Rightarrow> ecdsaResharingSession \<Rightarrow> save_data party_event list \<Rightarrow>
   ecdsaResharingSession loop_result io" where
  "ecdsa_reshare_loop E C T L ids rs [] = State_Monad.return (Waiting rs)"
| "ecdsa_reshare_loop E C T L ids rs (StartFailed err # evs) = do {
     io_ErrSend err; ecdsa_reshare_loop E C T L ids rs evs }"
| "ecdsa_reshare_loop E C T L ids rs (OutMsg msg # evs) = do {
     HandleTssMessage E C T ids (er_session rs) msg; ecdsa_reshare_loop E C T L ids rs evs }"
| "ecdsa_reshare_loop E C T L ids rs (EndData saveData # evs) = do {
     rs' \<leftarrow> ecdsa_reshare_end E L rs saveData; State_Monad.return (Returned rs') }"

definition ecdsa_Reshare ::
  "env \<Rightarrow> crypto \<Rightarrow> tss_lib \<Rightarrow> share_lib \<Rightarrow> fileStore \<Rightarrow> ecdsaResharingSession \<Rightarrow> save_data party_event list \<Rightarrow>
   ecdsaResharingSession loop_result io" where
  "ecdsa_Reshare E C T L ids rs events = do {
     io_PartyStart; ecdsa_reshare_loop E C T L ids rs events }"

section \<open>Topics\<close>

interpretation ecdsa_keygen_topics: topic_composer "ecdsa_keygen_direct w"
  by unfold_locales
     (rule exI [of _ "''keygen''"], rule exI [of _ "''direct''"], rule exI [of _ "''ecdsa''"], rule exI [of _ w],
      simp add: ecdsa_keygen_direct_def)

interpretation ecdsa_sign_topics: topic_composer "ecdsa_sign_direct t"
  by unfold_locales
     (rule exI [of _ "''sign''"], rule exI [of _ "''ecdsa''"], rule exI [of _ "''direct''"], rule exI [of _ t],
      simp add: ecdsa_sign_direct_def)

interpretation ecdsa_resharing_topics: topic_composer "ecdsa_resharing_direct w"
  by unfold_locales
     (rule exI [of _ "''resharing''"], rule exI [of _ "''direct''"], rule exI [of _ "''ecdsa''"], rule exI [of _ w],
      simp add: ecdsa_resharing_direct_def)

section \<open>Sessions keep what they need\<close>

interpretation ecdsa_keygen: keygen_session ecdsa_keygen_end ecdsa_keygen_loop ecdsa_GenerateKey "\<lambda>_. EncodeS256PubKey"
  by unfold_locales
     (unfold ecdsa_keygen_end_def keygen_end_spec_def ecdsa_GenerateKey_def ecdsa_keygen_loop.simps Let_def, (rule refl)+)

interpretation ecdsa_signing: signing_session es_session "\<lambda>d tx v ss. ss\<lparr>es_data := Some d, es_tx := tx,
    es_session := (es_session ss)\<lparr>ps_Version := v\<rparr>\<rparr>" "''Failed to get key info data''"
    "\<lambda>ss. State_Monad.return (Some (Sentinel ErrNotEnoughParticipants), ss)" "\<lambda>r. r" ecdsa_signing_Init
  by unfold_locales
     (rule state_ext, simp add: ecdsa_signing_Init_def signing_init_spec_def io_defs Let_def split: sum.split prod.split)

text \<open>The response that carries a signature.\<close>

definition ecdsa_response :: "ecdsaSigningSession \<Rightarrow> signature_data \<Rightarrow> SigningResponse" where
  "ecdsa_response ss sig = SigningResponse_zero\<lparr>sr_WalletID := ps_WalletID (es_session ss), sr_TxID := es_txID ss,
     sr_R := sg_R sig, sr_S := sg_S sig, sr_SignatureRecovery := sg_SignatureRecovery sig\<rparr>"

lemma ecdsa_sign_end_eq:
  "ecdsa_sign_end E L onSuccess ss sig = sign_end_spec es_session es_data es_tx ecdsa_response onSuccess E L ss sig"
  unfolding ecdsa_sign_end_def sign_end_spec_def ecdsa_response_def Let_def by (rule refl)

interpretation ecdsa_sign: sign_session es_session
  "\<lambda>E L ss sig. do { ecdsa_sign_end E L onSuccess ss sig; State_Monad.return ss }"
  "\<lambda>E C T L ids. ecdsa_sign_loop E C T L ids onSuccess" "\<lambda>E C T L ids. ecdsa_Sign E C T L ids onSuccess"
  es_data es_tx ecdsa_response onSuccess
  by unfold_locales
     (simp_all only: ecdsa_Sign_def ecdsa_sign_end_eq ecdsa_sign_loop.simps State_Monad.bind_assoc State_Monad.bind_left_identity)

interpretation ecdsa_reshare: reshare_session er_session ecdsa_reshare_end ecdsa_reshare_loop ecdsa_Reshare
  er_newPeerIDs er_newThreshold "\<lambda>b rs. rs\<lparr>er_session := (er_session rs)\<lparr>ps_PubkeyBytes := Some b\<rparr>\<rparr>" "\<lambda>_. EncodeS256PubKey"
  by unfold_locales
     (unfold ecdsa_reshare_end_def ecdsa_reshare_close_def reshare_end_spec_def ecdsa_Reshare_def ecdsa_reshare_loop.simps Let_def, (rule refl)+)

section \<open>Properties\<close>

text \<open>
  C7: a share that ECDSA key generation produced can be used. If \<^verbatim>\<open>GenerateKey\<close> reaches its completion
  callback with share \<open>d\<close>, under any scheduling of messages and failures, then a signing session for the same
  wallet that is set up later, with at least threshold plus one of the key's participants and no
  intervening write to the same keys, initialises without error, with exactly the share \<open>d\<close> and version 1.
\<close>

theorem ecdsa_keygen_then_sign:
  assumes "kv_faithful E" and "consul_faithful E" and "share_lib_ok L" and "lo_Intersect_ok I"
    and "\<forall>e \<in> set evs. \<forall>d. e \<noteq> EndData d"
    and "s = (NewECDSAKeygenSession parse w peers self pids t pre)\<lparr>ps_BroadcastSub := bs, ps_DirectSubs := ds\<rparr>"
    and "run_state (ecdsa_GenerateKey E C T L ids s (evs @ EndData d # later)) tr = (r, tr')"
    and "CallDone \<in> set (drop (length tr) tr')"
    and "list_all (leaves_alone (ecdsa_ComposeKey (WalletIDWithVersion w 1)) (keyinfo_composeKey (ecdsa_ComposeKey w))) mid"
    and "0 \<le> t" and "t < 2 ^ 63 - 1" and "distinct P" and "set P \<subseteq> set peers" and "t + 1 \<le> int (length P)"
  shows "\<exists>ss' tr''. run_state (ecdsa_signing_Init E L I (NewECDSASigningSession parse w txid P self' pids' t pre' idem) tx)
           (tr' @ mid) = ((None, ss'), tr'') \<and> es_data ss' = Some d \<and> ps_Version (es_session ss') = 1"
proof -
  let ?ki = "\<lparr>ki_ParticipantPeerIDs = Some peers, ki_Threshold = t, ki_Version = 1\<rparr>"
  let ?ss = "NewECDSASigningSession parse w txid P self' pids' t pre' idem"
  from ecdsa_keygen.keygen_stored [OF assms(5,7,8)] obtain b where b: "sl_Marshal L d = Inr b"
    and st: "stored E (ecdsa_ComposeKey (WalletIDWithVersion w 1)) b (keyinfo_composeKey (ecdsa_ComposeKey w)) ?ki tr'"
    by (auto simp: assms(6) NewECDSAKeygenSession_def DefaultVersion_def)
  have wf: "KeyInfo_wf ?ki" using assms(10,11) by (simp add: KeyInfo_wf_def in_int64_def)
  have len: "inc64 t \<le> int (length P)" using assms(10,11,14) inc64_small [of t] by simp
  have "\<exists>tr''. run_state (ecdsa_signing_Init E L I ?ss tx) (tr' @ mid) = ((None,
      ?ss\<lparr>es_data := Some d, es_tx := tx, es_session := (es_session ?ss)\<lparr>ps_Version := ki_Version ?ki\<rparr>\<rparr>), tr'')"
    by (rule ecdsa_signing.init_stored [OF assms(1-4) wf b _ refl])
       (use stored_later [OF st assms(9)] len assms(12,13) in \<open>simp_all add: NewECDSASigningSession_def\<close>)
  then show ?thesis by force
qed

theorem ecdsa_keygen_then_sign_witness:
  "\<exists>ss' tr''. run_state (ecdsa_signing_Init env_ref share_lib_ref lo_Intersect_ref
       (NewECDSASigningSession (\<lambda>_ _ _. Inl (errorf [])) ''w'' ''tx'' [''n1'', ''n2''] None [] 1 None ''idem'') 5)
       ([PartyStart, KvPut ''ecdsa:w_v1'' ''share'',
         ConsulPut ''threshold_keyinfo/ecdsa:w'' (Marshal_KeyInfo \<lparr>ki_ParticipantPeerIDs = Some [''n1'', ''n2''], ki_Threshold = 1, ki_Version = 1\<rparr>),
         Unsubscribe ''b'', CallDone] @ [TimeNow]) = ((None, ss'), tr'')
     \<and> es_data ss' = Some \<lparr>sd_Pub = Some (1, 2), sd_Blob = ''share''\<rparr> \<and> ps_Version (es_session ss') = 1"
proof -
  let ?d = "\<lparr>sd_Pub = Some (1, 2), sd_Blob = ''share''\<rparr>"
  let ?s = "(NewECDSAKeygenSession (\<lambda>_ _ _. Inl (errorf [])) ''w'' [''n1'', ''n2''] None [] 1 None)
      \<lparr>ps_BroadcastSub := Some ''b'', ps_DirectSubs := []\<rparr>"
  let ?tr = "[PartyStart, KvPut ''ecdsa:w_v1'' ''share'',
         ConsulPut ''threshold_keyinfo/ecdsa:w'' (Marshal_KeyInfo \<lparr>ki_ParticipantPeerIDs = Some [''n1'', ''n2''], ki_Threshold = 1, ki_Version = 1\<rparr>),
         Unsubscribe ''b'', CallDone]"
  have run: "run_state (ecdsa_GenerateKey env_ref crypto_ref tss_lib_ref share_lib_ref (store_ref ''n1'' ''n2'' CHR ''a'' CHR ''b'')
      ?s ([] @ EndData ?d # [])) [] = (Returned (?s\<lparr>ps_PubkeyBytes := Some (EncodeS256PubKey (1, 2))\<rparr>), ?tr)"
    by (simp add: ecdsa_GenerateKey_def ecdsa_keygen_end_def io_defs NewECDSAKeygenSession_def share_lib_ref_def env_ref_def
        keyinfo_Save_def Close_session_def GetVersion_def DefaultVersion_def WalletIDWithVersion_def itoa_one
        ecdsa_ComposeKey_def keyinfo_composeKey_def Let_def)
  show ?thesis
    by (rule ecdsa_keygen_then_sign [OF env_ref_kv env_ref_consul share_lib_ref_ok lo_Intersect_ref_ok _ refl run])
       (simp_all add: leaves_alone_def)
qed

text \<open>
  C8: a reshared ECDSA key can be used by the new committee. If a resharing session of a new member reaches its
  completion callback with share \<open>d\<close>, under any scheduling of messages and failures, then a signing session
  for the wallet set up later, with at least the new threshold plus one of the new participants and no intervening write to
  the same keys, initialises without error with exactly the share \<open>d\<close> and the next version; and the
  resharing wrote nothing over the share of the old version.
\<close>

theorem ecdsa_reshare_then_sign:
  assumes "kv_faithful E" and "consul_faithful E" and "share_lib_ok L" and "lo_Intersect_ok I"
    and "\<forall>e \<in> set evs. \<forall>d. e \<noteq> EndData d"
    and "rs0 = NewECDSAResharingSession T parse w parts self old new t t' pre newPeers True v"
    and "rs = rs0\<lparr>er_session := (er_session rs0)\<lparr>ps_BroadcastSub := bs, ps_DirectSubs := ds\<rparr>\<rparr>"
    and "run_state (ecdsa_Reshare E C T L ids rs (evs @ EndData d # later)) tr = (r, tr')"
    and "CallDone \<in> set (drop (length tr) tr')" and "sd_Pub d = Some pub"
    and "list_all (leaves_alone (ecdsa_ComposeKey (WalletIDWithVersion w (v + 1))) (keyinfo_composeKey (ecdsa_ComposeKey w))) mid"
    and "0 \<le> v" and "v < 2 ^ 63 - 1" and "0 \<le> t'" and "t' < 2 ^ 63 - 1"
    and "distinct P" and "set P \<subseteq> set newPeers" and "t' + 1 \<le> int (length P)"
  shows "(\<exists>ss' tr''. run_state (ecdsa_signing_Init E L I (NewECDSASigningSession parse w txid P self' pids' t' pre' idem) tx)
            (tr' @ mid) = ((None, ss'), tr'') \<and> es_data ss' = Some d \<and> ps_Version (es_session ss') = v + 1)
     \<and> (\<forall>b. KvPut (ecdsa_ComposeKey (WalletIDWithVersion w v)) b \<notin> set (drop (length tr) tr'))"
proof
  let ?ki = "\<lparr>ki_ParticipantPeerIDs = Some newPeers, ki_Threshold = t', ki_Version = v + 1\<rparr>"
  let ?ss = "NewECDSASigningSession parse w txid P self' pids' t' pre' idem"
  have inc: "inc64 v = v + 1" "inc64 t' = t' + 1" using assms(12-15) by (simp_all add: inc64_small)
  have rs: "ps_ComposeKey (er_session rs) = ecdsa_ComposeKey" "ps_WalletID (er_session rs) = w"
      "ps_Version (er_session rs) = v" "er_newPeerIDs rs = newPeers" "er_newThreshold rs = t'"
    by (simp_all add: assms(6,7) NewECDSAResharingSession_def Let_def)
  from ecdsa_reshare.reshare_stored [OF assms(5,8,9,10) refl] obtain b where b: "sl_Marshal L d = Inr b"
    and st: "stored E (ecdsa_ComposeKey (WalletIDWithVersion w (v + 1))) b (keyinfo_composeKey (ecdsa_ComposeKey w)) ?ki tr'"
    by (auto simp: rs inc)
  have wf: "KeyInfo_wf ?ki" using assms(12-15) by (simp add: KeyInfo_wf_def in_int64_def)
  have "\<exists>tr''. run_state (ecdsa_signing_Init E L I ?ss tx) (tr' @ mid) = ((None,
      ?ss\<lparr>es_data := Some d, es_tx := tx, es_session := (es_session ?ss)\<lparr>ps_Version := ki_Version ?ki\<rparr>\<rparr>), tr'')"
    by (rule ecdsa_signing.init_stored [OF assms(1-4) wf b _ refl])
       (use stored_later [OF st assms(11)] inc assms(16-18) in \<open>simp_all add: NewECDSASigningSession_def\<close>)
  then show "\<exists>ss' tr''. run_state (ecdsa_signing_Init E L I ?ss tx) (tr' @ mid) = ((None, ss'), tr'')
      \<and> es_data ss' = Some d \<and> ps_Version (es_session ss') = v + 1" by force
  have "inj ecdsa_ComposeKey" by (simp add: inj_def ecdsa_ComposeKey_def)
  with ecdsa_reshare.keeps_old [OF assms(8) refl] assms(12,13)
  show "\<forall>b. KvPut (ecdsa_ComposeKey (WalletIDWithVersion w v)) b \<notin> set (drop (length tr) tr')"
    by (simp add: rs)
qed

theorem ecdsa_reshare_then_sign_witness:
  "\<exists>ss' tr''. run_state (ecdsa_signing_Init env_ref share_lib_ref lo_Intersect_ref
       (NewECDSASigningSession (\<lambda>_ _ _. Inl (errorf [])) ''w'' ''tx'' [''n1'', ''n2''] None [] 1 None ''idem'') 5)
       ([PartyStart, KvPut ''ecdsa:w_v2'' ''share'',
         ConsulPut ''threshold_keyinfo/ecdsa:w'' (Marshal_KeyInfo \<lparr>ki_ParticipantPeerIDs = Some [''n1'', ''n2''], ki_Threshold = 1, ki_Version = 2\<rparr>),
         CallDone, Unsubscribe ''b''] @ [TimeNow]) = ((None, ss'), tr'')
     \<and> es_data ss' = Some \<lparr>sd_Pub = Some (1, 2), sd_Blob = ''share''\<rparr> \<and> ps_Version (es_session ss') = 2"
proof -
  let ?d = "\<lparr>sd_Pub = Some (1, 2), sd_Blob = ''share''\<rparr>"
  let ?r0 = "NewECDSAResharingSession tss_lib_ref (\<lambda>_ _ _. Inl (errorf [])) ''w'' [''n1''] None [] [] 1 1 None [''n1'', ''n2''] True 1"
  let ?rs = "?r0\<lparr>er_session := (er_session ?r0)\<lparr>ps_BroadcastSub := Some ''b'', ps_DirectSubs := []\<rparr>\<rparr>"
  let ?tr = "[PartyStart, KvPut ''ecdsa:w_v2'' ''share'',
         ConsulPut ''threshold_keyinfo/ecdsa:w'' (Marshal_KeyInfo \<lparr>ki_ParticipantPeerIDs = Some [''n1'', ''n2''], ki_Threshold = 1, ki_Version = 2\<rparr>),
         CallDone, Unsubscribe ''b'']"
  have i2: "itoa 2 = ''2''" by code_simp
  have inc: "wrap64 2 = 2" by code_simp
  have "snd (run_state (ecdsa_Reshare env_ref crypto_ref tss_lib_ref share_lib_ref (store_ref ''n1'' ''n2'' CHR ''a'' CHR ''b'')
      ?rs ([] @ EndData ?d # [])) []) = ?tr"
    by (simp add: ecdsa_Reshare_def ecdsa_reshare_end_def ecdsa_reshare_close_def io_defs NewECDSAResharingSession_def share_lib_ref_def env_ref_def
        keyinfo_Save_def Close_session_def GetVersion_def WalletIDWithVersion_def i2 inc
        ecdsa_ComposeKey_def keyinfo_composeKey_def Let_def)
  then obtain x where run: "run_state (ecdsa_Reshare env_ref crypto_ref tss_lib_ref share_lib_ref (store_ref ''n1'' ''n2'' CHR ''a'' CHR ''b'')
      ?rs ([] @ EndData ?d # [])) [] = (x, ?tr)" by (metis prod.collapse)
  have "(\<exists>ss' tr''. run_state (ecdsa_signing_Init env_ref share_lib_ref lo_Intersect_ref
       (NewECDSASigningSession (\<lambda>_ _ _. Inl (errorf [])) ''w'' ''tx'' [''n1'', ''n2''] None [] 1 None ''idem'') 5)
       (?tr @ [TimeNow]) = ((None, ss'), tr'') \<and> es_data ss' = Some ?d \<and> ps_Version (es_session ss') = 1 + 1)
     \<and> (\<forall>b. KvPut (ecdsa_ComposeKey (WalletIDWithVersion ''w'' 1)) b \<notin> set (drop (length ([] :: call list)) ?tr))"
    by (rule ecdsa_reshare_then_sign [OF env_ref_kv env_ref_consul share_lib_ref_ok lo_Intersect_ref_ok _ refl refl run])
       (simp_all add: leaves_alone_def)
  then show ?thesis by simp
qed

text \<open>
  The reported ECDSA public key determines the point when both coordinates have full length (any
  common length); in general it does not, because leading zero bytes are dropped before the coordinates
  are concatenated: two different points can have the same encoding.
\<close>

lemma public_key_encoding:
  "(length (big_Bytes x) = length (big_Bytes x') \<longrightarrow>
      (EncodeS256PubKey (x, y) = EncodeS256PubKey (x', y') \<longleftrightarrow> (x, y) = (x', y')))
   \<and> EncodeS256PubKey (1, 515) = EncodeS256PubKey (258, 3)"
proof
  show "length (big_Bytes x) = length (big_Bytes x') \<longrightarrow>
      (EncodeS256PubKey (x, y) = EncodeS256PubKey (x', y') \<longleftrightarrow> (x, y) = (x', y'))"
    by (auto simp: EncodeS256PubKey_def big_Bytes_inject)
  show "EncodeS256PubKey (1, 515) = EncodeS256PubKey (258, 3)" by code_simp
qed

lemma public_key_encoding_example:
  "EncodeS256PubKey (300, 7) \<noteq> EncodeS256PubKey (301, 7)"
  using public_key_encoding [of 300 301 7 7] by code_simp

end
