(* ===== verification/Logger.thy ===== *)
theory Logger
  imports Prelude
begin

text \<open>
  The logger, \<^verbatim>\<open>pkg/logger/logger.go\<close>. What is written has no effect on the program, but the functions take their key/value
  pairs as untyped arguments and can panic on them: on a key that is not a string, and in \<^verbatim>\<open>Error\<close> also on an odd
  number. A call whose pairs are well formed gives the event that zerolog writes. The other theories leave out the
  calls that cannot panic.
\<close>

datatype log_level = Debug_level | Info_level | Warn_level | Error_level

datatype log_arg = Log_string string | Log_int int | Log_strings "string list" | Log_other

record log_event =
  le_level :: log_level
  le_msg :: string
  le_fields :: "(string \<times> log_arg) list"
  le_unknown :: "log_arg list option"

record logger_config =
  lc_level :: log_level
  lc_console :: bool

definition logger_Init :: "string \<Rightarrow> bool \<Rightarrow> logger_config" where
  "logger_Init env dbg = \<lparr>lc_level = (if dbg then Debug_level else Info_level), lc_console = (env \<noteq> ''production'')\<rparr>"

text \<open>The loop over the pairs: the assertion \<^verbatim>\<open>keyValues[i].(string)\<close> panics on another type.\<close>

fun log_fields :: "log_arg list \<Rightarrow> (string \<times> log_arg) list go_res" where
  "log_fields [] = Ret []"
| "log_fields [x] = Ret []"
| "log_fields (Log_string key # val # rest) = (case log_fields rest of Panic \<Rightarrow> Panic | Ret fs \<Rightarrow> Ret ((key, val) # fs))"
| "log_fields (key # val # rest) = Panic"

definition log_pairs :: "log_level \<Rightarrow> string \<Rightarrow> log_arg list \<Rightarrow> log_event go_res" where
  "log_pairs level msg keyValues =
     (if length keyValues mod 2 \<noteq> 0 then
        Ret \<lparr>le_level = Warn_level,
             le_msg = msg @ '' ([Wrong logger.Info usage] Provided args to logger.Info must be a series of key/value pairs)'',
             le_fields = [], le_unknown = Some keyValues\<rparr>
      else
        (case log_fields keyValues of
           Panic \<Rightarrow> Panic
         | Ret fs \<Rightarrow> Ret \<lparr>le_level = level, le_msg = msg, le_fields = fs, le_unknown = None\<rparr>))"

definition logger_Debug :: "string \<Rightarrow> log_arg list \<Rightarrow> log_event go_res" where "logger_Debug = log_pairs Debug_level"
definition logger_Info :: "string \<Rightarrow> log_arg list \<Rightarrow> log_event go_res" where "logger_Info = log_pairs Info_level"
definition logger_Warn :: "string \<Rightarrow> log_arg list \<Rightarrow> log_event go_res" where "logger_Warn = log_pairs Warn_level"

definition logger_Error :: "string \<Rightarrow> log_arg list \<Rightarrow> log_event go_res" where
  "logger_Error msg keyValues =
     (if length keyValues mod 2 \<noteq> 0 then Panic
      else
        (case log_fields keyValues of
           Panic \<Rightarrow> Panic
         | Ret fs \<Rightarrow> Ret \<lparr>le_level = Error_level, le_msg = msg, le_fields = fs, le_unknown = None\<rparr>))"

text \<open>\<^verbatim>\<open>Fatal\<close> ends the program and \<^verbatim>\<open>Panic\<close> panics.\<close>

definition logger_Fatal :: "string \<Rightarrow> unit go_res" where "logger_Fatal msg = Panic"
definition logger_Panic :: "string \<Rightarrow> unit go_res" where "logger_Panic msg = Panic"

text \<open>The calls that cannot panic: every key is a string.\<close>

fun keys_are_strings :: "log_arg list \<Rightarrow> bool" where
  "keys_are_strings (key # val # rest) = ((\<exists>k. key = Log_string k) \<and> keys_are_strings rest)"
| "keys_are_strings _ = True"

lemma log_fields_iff: "log_fields kvs \<noteq> Panic \<longleftrightarrow> keys_are_strings kvs"
  by (induction kvs rule: log_fields.induct) (auto split: go_res.splits)

lemma logging_panics_iff:
  "logger_Info msg kvs = Panic \<longleftrightarrow> even (length kvs) \<and> \<not> keys_are_strings kvs"
  "logger_Warn msg kvs = Panic \<longleftrightarrow> even (length kvs) \<and> \<not> keys_are_strings kvs"
  "logger_Debug msg kvs = Panic \<longleftrightarrow> even (length kvs) \<and> \<not> keys_are_strings kvs"
  "logger_Error msg kvs = Panic \<longleftrightarrow> odd (length kvs) \<or> \<not> keys_are_strings kvs"
  using log_fields_iff [of kvs]
  by (auto simp: logger_Info_def logger_Warn_def logger_Debug_def logger_Error_def log_pairs_def even_iff_mod_2_eq_zero odd_iff_mod_2_eq_one
      split: go_res.splits)

end
