(* ===== verification/Eddsa_Session.thy ===== *)
theory Eddsa_Session
  imports Party_Session Logger
begin

text \<open>
  \<^verbatim>\<open>pkg/mpc/eddsa\<close>: the key generation, signing and resharing sessions for EDDSA and the classification of
  their protocol messages. A session loop selects between the messages its party produces, the result of
  the party and a start failure; it is a recursion over the sequence of these events. A loop that has seen
  no result is still \<open>Waiting\<close>. The compressed public key comes from the edwards library.
\<close>

section \<open>Rounds\<close>

text \<open>The dynamic type of the content of a parsed wire message; \<^verbatim>\<open>tss.ParseWireMessage\<close> is an argument.\<close>

datatype (plugins only: code) eddsa_content =
    EDDSA_KGRound1Message
  | EDDSA_KGRound2Message1
  | EDDSA_KGRound2Message2
  | EDDSA_SignRound1Message
  | EDDSA_SignRound2Message
  | EDDSA_SignRound3Message
  | EDDSA_DGRound1Message
  | EDDSA_DGRound2Message
  | EDDSA_DGRound3Message1
  | EDDSA_DGRound3Message2
  | EDDSA_DGRound4Message
  | EDDSA_other

definition eddsa_GetMsgRound ::
  "(slice \<Rightarrow> party_id option \<Rightarrow> bool \<Rightarrow> go_error + eddsa_content) \<Rightarrow>
   slice \<Rightarrow> party_id option \<Rightarrow> bool \<Rightarrow> go_error + RoundInfo" where
  "eddsa_GetMsgRound parse msg partyID isBroadcast =
     (let round = (\<lambda>i m. Inr \<lparr>ri_Index = i, ri_RoundMsg = m, ri_MsgIdentifier = []\<rparr>) in
      case parse msg partyID isBroadcast of
        Inl err \<Rightarrow> Inl err
      | Inr EDDSA_KGRound1Message \<Rightarrow> round 0 ''KGRound1Message''
      | Inr EDDSA_KGRound2Message1 \<Rightarrow> round 1 ''KGRound2Message1''
      | Inr EDDSA_KGRound2Message2 \<Rightarrow> round 2 ''KGRound2Message2''
      | Inr EDDSA_SignRound1Message \<Rightarrow> round 0 ''SignRound1Message''
      | Inr EDDSA_SignRound2Message \<Rightarrow> round 0 ''SignRound2Message''
      | Inr EDDSA_SignRound3Message \<Rightarrow> round 0 ''SignRound3Message''
      | Inr EDDSA_DGRound1Message \<Rightarrow> round 0 ''DGRound1Message''
      | Inr EDDSA_DGRound2Message \<Rightarrow> round 1 ''DGRound2Message''
      | Inr EDDSA_DGRound3Message1 \<Rightarrow> round 2 ''DGRound3Message1''
      | Inr EDDSA_DGRound3Message2 \<Rightarrow> round 3 ''DGRound3Message2''
      | Inr EDDSA_DGRound4Message \<Rightarrow> round 4 ''DGRound4Message''
      | Inr EDDSA_other \<Rightarrow> Inl (errorf ''unknown round''))"


section \<open>Key generation\<close>

definition eddsa_keygen_broadcast :: "string \<Rightarrow> string" where
  "eddsa_keygen_broadcast walletID = ''keygen:broadcast:eddsa:'' @ walletID"
definition eddsa_keygen_direct :: "string \<Rightarrow> string \<Rightarrow> string \<Rightarrow> string" where
  "eddsa_keygen_direct walletID fromID toID = ''keygen:direct:eddsa:'' @ fromID @ '':'' @ toID @ '':'' @ walletID"
definition eddsa_ComposeKey :: "string \<Rightarrow> string" where
  "eddsa_ComposeKey walletID = ''eddsa:'' @ walletID"

definition NewEDDSAKeygenSession ::
  "(slice \<Rightarrow> party_id option \<Rightarrow> bool \<Rightarrow> go_error + eddsa_content) \<Rightarrow> string \<Rightarrow> string list \<Rightarrow>
   party_id option \<Rightarrow> party_id list \<Rightarrow> int \<Rightarrow> PartySession" where
  "NewEDDSAKeygenSession parse walletID participantPeerIDs selfID partyIDs threshold =
     \<lparr>ps_WalletID = walletID, ps_Threshold = threshold, ps_ParticipantPeerIDs = participantPeerIDs,
      ps_SelfPartyID = selfID, ps_PartyIDs = partyIDs, ps_Version = DefaultVersion, ps_PreParams = None,
      ps_BroadcastSub = None, ps_DirectSubs = [],
      ps_BroadcastTopic = eddsa_keygen_broadcast walletID, ps_DirectTopic = eddsa_keygen_direct walletID,
      ps_ComposeKey = eddsa_ComposeKey, ps_GetRoundFunc = eddsa_GetMsgRound parse, ps_PubkeyBytes = None,
      ps_SessionType = SessionTypeEDDSA, ps_IdempotentKey = []\<rparr>"

definition eddsa_keygen_Init :: "PartySession \<Rightarrow> unit io" where
  "eddsa_keygen_Init s = io_PartyNew"

definition eddsa_keygen_end ::
  "env \<Rightarrow> share_lib \<Rightarrow> PartySession \<Rightarrow> save_data \<Rightarrow> PartySession io" where
  "eddsa_keygen_end E L s saveData =
     (case sl_Marshal L saveData of
        Inl err \<Rightarrow> do { io_ErrSend err; State_Monad.return s }
      | Inr keyBytes \<Rightarrow> do {
          err \<leftarrow> io_KvPut E (ps_ComposeKey s (WalletIDWithVersion (ps_WalletID s) (GetVersion s))) keyBytes;
          (case err of
             Some e \<Rightarrow> do { io_ErrSend e; State_Monad.return s }
           | None \<Rightarrow> do {
               let keyInfo = \<lparr>ki_ParticipantPeerIDs = Some (ps_ParticipantPeerIDs s),
                              ki_Threshold = ps_Threshold s, ki_Version = GetVersion s\<rparr>;
               err \<leftarrow> keyinfo_Save E (ps_ComposeKey s (ps_WalletID s)) keyInfo;
               (case err of
                  Some e \<Rightarrow> do { io_ErrSend e; State_Monad.return s }
                | None \<Rightarrow>
                    (case sd_Pub saveData of
                       None \<Rightarrow> do { io_Crash; State_Monad.return s }
                     | Some publicKey \<Rightarrow> do {
                         let s' = s\<lparr>ps_PubkeyBytes := Some (sl_SerializeCompressed L publicKey)\<rparr>;
                         r \<leftarrow> Close_session E s';
                         (case r of
                            Panic \<Rightarrow> State_Monad.return s'
                          | Ret _ \<Rightarrow> do { io_CallDone; State_Monad.return s' }) })) }) })"

fun eddsa_keygen_loop ::
  "env \<Rightarrow> crypto \<Rightarrow> tss_lib \<Rightarrow> share_lib \<Rightarrow> fileStore \<Rightarrow> PartySession \<Rightarrow> save_data party_event list \<Rightarrow>
   PartySession loop_result io" where
  "eddsa_keygen_loop E C T L ids s [] = State_Monad.return (Waiting s)"
| "eddsa_keygen_loop E C T L ids s (StartFailed err # evs) = do {
     io_ErrSend err; eddsa_keygen_loop E C T L ids s evs }"
| "eddsa_keygen_loop E C T L ids s (OutMsg msg # evs) = do {
     HandleTssMessage E C T ids s msg; eddsa_keygen_loop E C T L ids s evs }"
| "eddsa_keygen_loop E C T L ids s (EndData saveData # evs) = do {
     s' \<leftarrow> eddsa_keygen_end E L s saveData; State_Monad.return (Returned s') }"

definition eddsa_GenerateKey ::
  "env \<Rightarrow> crypto \<Rightarrow> tss_lib \<Rightarrow> share_lib \<Rightarrow> fileStore \<Rightarrow> PartySession \<Rightarrow> save_data party_event list \<Rightarrow>
   PartySession loop_result io" where
  "eddsa_GenerateKey E C T L ids s events = do {
     io_PartyStart; eddsa_keygen_loop E C T L ids s events }"

section \<open>Signing\<close>

record eddsaSigningSession =
  ds_session :: PartySession
  ds_data :: "save_data option"
  ds_tx :: nat
  ds_txID :: string

definition eddsa_sign_broadcast :: "string \<Rightarrow> string \<Rightarrow> string" where
  "eddsa_sign_broadcast walletID txID = ''sign:eddsa:broadcast:'' @ walletID @ '':'' @ txID"
definition eddsa_sign_direct :: "string \<Rightarrow> string \<Rightarrow> string \<Rightarrow> string" where
  "eddsa_sign_direct txID fromID toID = ''sign:eddsa:direct:'' @ fromID @ '':'' @ toID @ '':'' @ txID"

definition NewEDDSASigningSession ::
  "(slice \<Rightarrow> party_id option \<Rightarrow> bool \<Rightarrow> go_error + eddsa_content) \<Rightarrow> string \<Rightarrow> string \<Rightarrow> string list \<Rightarrow>
   party_id option \<Rightarrow> party_id list \<Rightarrow> int \<Rightarrow> string \<Rightarrow> eddsaSigningSession" where
  "NewEDDSASigningSession parse walletID txID participantPeerIDs selfID partyIDs threshold idempotentKey =
     \<lparr>ds_session =
       \<lparr>ps_WalletID = walletID, ps_Threshold = threshold, ps_ParticipantPeerIDs = participantPeerIDs,
        ps_SelfPartyID = selfID, ps_PartyIDs = partyIDs, ps_Version = 0, ps_PreParams = None,
        ps_BroadcastSub = None, ps_DirectSubs = [],
        ps_BroadcastTopic = eddsa_sign_broadcast walletID txID, ps_DirectTopic = eddsa_sign_direct txID,
        ps_ComposeKey = eddsa_ComposeKey, ps_GetRoundFunc = eddsa_GetMsgRound parse, ps_PubkeyBytes = None,
        ps_SessionType = SessionTypeEDDSA, ps_IdempotentKey = idempotentKey\<rparr>,
      ds_data = None, ds_tx = 0, ds_txID = txID\<rparr>"

text \<open>The warning about too few participants passes numbers where the logger expects keys.\<close>

definition eddsa_signing_few :: "KeyInfo \<Rightarrow> eddsaSigningSession \<Rightarrow> (go_error option \<times> eddsaSigningSession) go_res io" where
  "eddsa_signing_few keyInfo ss =
     (case logger_Warn ''Not enough participants to sign, expected %d, got %d''
             [Log_int (inc64 (ki_Threshold keyInfo)), Log_int (int (length (ps_ParticipantPeerIDs (ds_session ss))))] of
        Panic \<Rightarrow> do { io_Crash; State_Monad.return Panic }
      | Ret _ \<Rightarrow> State_Monad.return (Ret (Some (Sentinel ErrNotEnoughParticipants), ss)))"

definition eddsa_signing_Init ::
  "env \<Rightarrow> share_lib \<Rightarrow> (string list \<Rightarrow> string list \<Rightarrow> string list) \<Rightarrow> eddsaSigningSession \<Rightarrow> nat \<Rightarrow>
   (go_error option \<times> eddsaSigningSession) go_res io" where
  "eddsa_signing_Init E L lo_Intersect ss tx =
     (let s = ds_session ss in do {
      keyInfo \<leftarrow> keyinfo_Get E (ps_ComposeKey s (ps_WalletID s));
      (case keyInfo of
         Inl err \<Rightarrow> State_Monad.return (Ret (Some (wrapf ''failed to get key info data'' err), ss))
       | Inr keyInfo \<Rightarrow>
           if int (length (ps_ParticipantPeerIDs s)) < inc64 (ki_Threshold keyInfo)
           then eddsa_signing_few keyInfo ss
           else if int (length (lo_Intersect (ps_ParticipantPeerIDs s) (ki_peers keyInfo))) < inc64 (ki_Threshold keyInfo)
           then State_Monad.return (Ret (Some (errorf ''incompatible peerIDs to participate in signing''), ss))
           else do {
             keyData \<leftarrow> io_KvGet E (ps_ComposeKey s (WalletIDWithVersion (ps_WalletID s) (ki_Version keyInfo)));
             (case keyData of
                Inl err \<Rightarrow> State_Monad.return (Ret (Some (wrapf ''Failed to get wallet data from KVStore'' err), ss))
              | Inr val \<Rightarrow>
                  (case sl_Unmarshal L val of
                     Inl err \<Rightarrow> State_Monad.return (Ret (Some (wrapf ''Failed to unmarshal wallet data'' err), ss))
                   | Inr share \<Rightarrow> do {
                       io_PartyNew;
                       State_Monad.return (Ret (None, ss\<lparr>ds_data := Some share, ds_tx := tx,
                         ds_session := s\<lparr>ps_Version := ki_Version keyInfo\<rparr>\<rparr>)) })) }) })"

definition eddsa_sign_end ::
  "env \<Rightarrow> share_lib \<Rightarrow> (bytes \<Rightarrow> unit io) \<Rightarrow> eddsaSigningSession \<Rightarrow> signature_data \<Rightarrow> unit io" where
  "eddsa_sign_end E L onSuccess ss sig =
     (case Option.bind (ds_data ss) sd_Pub of
        None \<Rightarrow> io_Crash
      | Some publicKey \<Rightarrow>
          if \<not> sl_Verify L publicKey (big_Bytes (ds_tx ss)) (big_SetBytes (slice_bytes (sg_R sig)))
                 (big_SetBytes (slice_bytes (sg_S sig)))
          then io_ErrSend (errorf ''Failed to verify signature'')
          else do {
            let r = SigningResponse_zero\<lparr>sr_WalletID := ps_WalletID (ds_session ss), sr_TxID := ds_txID ss,
              sr_Signature := sg_Signature sig\<rparr>;
            let data = Marshal_SigningResponse r;
            err \<leftarrow> io_Enqueue E SigningResultCompleteTopic data (ps_IdempotentKey (ds_session ss));
            (case err of
               Some e \<Rightarrow> io_ErrSend (wrapf ''Failed to publish sign success message'' e)
             | None \<Rightarrow> do {
                 c \<leftarrow> Close_session E (ds_session ss);
                 (case c of Panic \<Rightarrow> State_Monad.return () | Ret _ \<Rightarrow> onSuccess data) }) })"

fun eddsa_sign_loop ::
  "env \<Rightarrow> crypto \<Rightarrow> tss_lib \<Rightarrow> share_lib \<Rightarrow> fileStore \<Rightarrow> (bytes \<Rightarrow> unit io) \<Rightarrow> eddsaSigningSession \<Rightarrow>
   signature_data party_event list \<Rightarrow> eddsaSigningSession loop_result io" where
  "eddsa_sign_loop E C T L ids onSuccess ss [] = State_Monad.return (Waiting ss)"
| "eddsa_sign_loop E C T L ids onSuccess ss (StartFailed err # evs) = do {
     io_ErrSend err; eddsa_sign_loop E C T L ids onSuccess ss evs }"
| "eddsa_sign_loop E C T L ids onSuccess ss (OutMsg msg # evs) = do {
     HandleTssMessage E C T ids (ds_session ss) msg; eddsa_sign_loop E C T L ids onSuccess ss evs }"
| "eddsa_sign_loop E C T L ids onSuccess ss (EndData sig # evs) = do {
     eddsa_sign_end E L onSuccess ss sig; State_Monad.return (Returned ss) }"

definition eddsa_Sign ::
  "env \<Rightarrow> crypto \<Rightarrow> tss_lib \<Rightarrow> share_lib \<Rightarrow> fileStore \<Rightarrow> (bytes \<Rightarrow> unit io) \<Rightarrow> eddsaSigningSession \<Rightarrow>
   signature_data party_event list \<Rightarrow> eddsaSigningSession loop_result io" where
  "eddsa_Sign E C T L ids onSuccess ss events = do {
     io_PartyStart; eddsa_sign_loop E C T L ids onSuccess ss events }"

section \<open>Resharing\<close>

record eddsaResharingSession =
  dr_session :: PartySession
  dr_isNewParty :: bool
  dr_oldPeerIDs :: "string list"
  dr_newPeerIDs :: "string list"
  dr_newThreshold :: int

definition eddsa_resharing_broadcast :: "string \<Rightarrow> string" where
  "eddsa_resharing_broadcast walletID = ''resharing:broadcast:eddsa:'' @ walletID"
definition eddsa_resharing_direct :: "string \<Rightarrow> string \<Rightarrow> string \<Rightarrow> string" where
  "eddsa_resharing_direct walletID fromID toID = ''resharing:direct:eddsa:'' @ fromID @ '':'' @ toID @ '':'' @ walletID"

definition NewEDDSAResharingSession ::
  "tss_lib \<Rightarrow> (slice \<Rightarrow> party_id option \<Rightarrow> bool \<Rightarrow> go_error + eddsa_content) \<Rightarrow> string \<Rightarrow> string list \<Rightarrow>
   party_id option \<Rightarrow> party_id list \<Rightarrow> party_id list \<Rightarrow> int \<Rightarrow> int \<Rightarrow> string list \<Rightarrow> bool \<Rightarrow> int \<Rightarrow>
   eddsaResharingSession" where
  "NewEDDSAResharingSession T parse walletID participantPeerIDs selfID oldPartyIDs newPartyIDs threshold
     newThreshold newPeerIDs isNewParty version =
     (let realPartyIDs = (if isNewParty then newPartyIDs else oldPartyIDs) in
      \<lparr>dr_session =
        \<lparr>ps_WalletID = walletID, ps_Threshold = threshold, ps_ParticipantPeerIDs = participantPeerIDs,
         ps_SelfPartyID = selfID, ps_PartyIDs = realPartyIDs, ps_Version = version, ps_PreParams = None,
         ps_BroadcastSub = None, ps_DirectSubs = [],
         ps_BroadcastTopic = eddsa_resharing_broadcast walletID, ps_DirectTopic = eddsa_resharing_direct walletID,
         ps_ComposeKey = eddsa_ComposeKey, ps_GetRoundFunc = eddsa_GetMsgRound parse, ps_PubkeyBytes = None,
         ps_SessionType = SessionTypeEDDSA, ps_IdempotentKey = []\<rparr>,
       dr_isNewParty = isNewParty, dr_oldPeerIDs = PartyIDsToNodeIDs T oldPartyIDs,
       dr_newPeerIDs = newPeerIDs, dr_newThreshold = newThreshold\<rparr>)"

definition eddsa_GetLegacyCommitteePeers :: "eddsaResharingSession \<Rightarrow> string list" where
  "eddsa_GetLegacyCommitteePeers rs =
     (let seen = fold (\<lambda>b m. gm_put b True m) (dr_newPeerIDs rs) []
      in filter (\<lambda>a. gm_get seen a \<noteq> Some True) (dr_oldPeerIDs rs))"

definition eddsa_resharing_Init :: "env \<Rightarrow> share_lib \<Rightarrow> eddsaResharingSession \<Rightarrow> go_error option io" where
  "eddsa_resharing_Init E L rs =
     (let s = dr_session rs in
      if dr_isNewParty rs then do { io_PartyNew; State_Monad.return None }
      else do {
        r \<leftarrow> LoadOldShareDataGeneric E L s (ps_WalletID s) (GetVersion s);
        (case r of
           Inl err \<Rightarrow> State_Monad.return (Some (wrapf ''failed to load old share data eddsa'' err))
         | Inr share \<Rightarrow> do { io_PartyNew; State_Monad.return None }) })"

text \<open>The callback runs before the session is closed.\<close>

definition eddsa_reshare_close :: "env \<Rightarrow> eddsaResharingSession \<Rightarrow> eddsaResharingSession io" where
  "eddsa_reshare_close E rs = do {
     io_CallDone; _ \<leftarrow> Close_session E (dr_session rs); State_Monad.return rs }"

definition eddsa_reshare_end ::
  "env \<Rightarrow> share_lib \<Rightarrow> eddsaResharingSession \<Rightarrow> save_data \<Rightarrow> eddsaResharingSession io" where
  "eddsa_reshare_end E L rs saveData =
     (let s = dr_session rs in
      case sd_Pub saveData of
        None \<Rightarrow> eddsa_reshare_close E rs
      | Some publicKey \<Rightarrow>
          (case sl_Marshal L saveData of
             Inl err \<Rightarrow> do { io_ErrSend err; State_Monad.return rs }
           | Inr keyBytes \<Rightarrow> do {
               let newVersion = inc64 (GetVersion s);
               let key = ps_ComposeKey s (WalletIDWithVersion (ps_WalletID s) newVersion);
               err \<leftarrow> io_KvPut E key keyBytes;
               (case err of
                  Some e \<Rightarrow> do { io_ErrSend e; State_Monad.return rs }
                | None \<Rightarrow> do {
                    let keyInfo = \<lparr>ki_ParticipantPeerIDs = Some (dr_newPeerIDs rs),
                                   ki_Threshold = dr_newThreshold rs, ki_Version = newVersion\<rparr>;
                    err \<leftarrow> keyinfo_Save E (ps_ComposeKey s (ps_WalletID s)) keyInfo;
                    (case err of
                       Some e \<Rightarrow> do { io_ErrSend e; State_Monad.return rs }
                     | None \<Rightarrow>
                         eddsa_reshare_close E (rs\<lparr>dr_session := s\<lparr>ps_PubkeyBytes := Some (sl_SerializeCompressed L publicKey)\<rparr>\<rparr>)) }) }))"

fun eddsa_reshare_loop ::
  "env \<Rightarrow> crypto \<Rightarrow> tss_lib \<Rightarrow> share_lib \<Rightarrow> fileStore \<Rightarrow> eddsaResharingSession \<Rightarrow> save_data party_event list \<Rightarrow>
   eddsaResharingSession loop_result io" where
  "eddsa_reshare_loop E C T L ids rs [] = State_Monad.return (Waiting rs)"
| "eddsa_reshare_loop E C T L ids rs (StartFailed err # evs) = do {
     io_ErrSend err; eddsa_reshare_loop E C T L ids rs evs }"
| "eddsa_reshare_loop E C T L ids rs (OutMsg msg # evs) = do {
     HandleTssMessage E C T ids (dr_session rs) msg; eddsa_reshare_loop E C T L ids rs evs }"
| "eddsa_reshare_loop E C T L ids rs (EndData saveData # evs) = do {
     rs' \<leftarrow> eddsa_reshare_end E L rs saveData; State_Monad.return (Returned rs') }"

definition eddsa_Reshare ::
  "env \<Rightarrow> crypto \<Rightarrow> tss_lib \<Rightarrow> share_lib \<Rightarrow> fileStore \<Rightarrow> eddsaResharingSession \<Rightarrow> save_data party_event list \<Rightarrow>
   eddsaResharingSession loop_result io" where
  "eddsa_Reshare E C T L ids rs events = do {
     io_PartyStart; eddsa_reshare_loop E C T L ids rs events }"

section \<open>Topics\<close>

interpretation eddsa_keygen_topics: topic_composer "eddsa_keygen_direct w"
  by unfold_locales
     (rule exI [of _ "''keygen''"], rule exI [of _ "''direct''"], rule exI [of _ "''eddsa''"], rule exI [of _ w],
      simp add: eddsa_keygen_direct_def)

interpretation eddsa_sign_topics: topic_composer "eddsa_sign_direct t"
  by unfold_locales
     (rule exI [of _ "''sign''"], rule exI [of _ "''eddsa''"], rule exI [of _ "''direct''"], rule exI [of _ t],
      simp add: eddsa_sign_direct_def)

interpretation eddsa_resharing_topics: topic_composer "eddsa_resharing_direct w"
  by unfold_locales
     (rule exI [of _ "''resharing''"], rule exI [of _ "''direct''"], rule exI [of _ "''eddsa''"], rule exI [of _ w],
      simp add: eddsa_resharing_direct_def)

section \<open>Sessions keep what they need\<close>

interpretation eddsa_keygen: keygen_session eddsa_keygen_end eddsa_keygen_loop eddsa_GenerateKey sl_SerializeCompressed
  by unfold_locales
     (unfold eddsa_keygen_end_def keygen_end_spec_def eddsa_GenerateKey_def eddsa_keygen_loop.simps Let_def, (rule refl)+)

text \<open>The warning panics: a signing session for which the key has meanwhile got a higher threshold brings the node down.\<close>

lemma eddsa_signing_few_panics: "eddsa_signing_few keyInfo ss = do { io_Crash; State_Monad.return Panic }"
  using logging_panics_iff(2) [of _ "[Log_int (inc64 (ki_Threshold keyInfo)), Log_int (int (length (ps_ParticipantPeerIDs (ds_session ss))))]"]
  by (simp add: eddsa_signing_few_def)

interpretation eddsa_signing: signing_session ds_session "\<lambda>d tx v ss. ss\<lparr>ds_data := Some d, ds_tx := tx,
    ds_session := (ds_session ss)\<lparr>ps_Version := v\<rparr>\<rparr>" "''failed to get key info data''"
    "\<lambda>ss. do { io_Crash; State_Monad.return Panic }" Ret eddsa_signing_Init
  by unfold_locales
     (rule state_ext, simp add: eddsa_signing_Init_def eddsa_signing_few_panics signing_init_spec_def io_defs Let_def split: sum.split prod.split)

lemma eddsa_shortage_crashes:
  assumes "run_state (keyinfo_Get E (ps_ComposeKey (ds_session ss) (ps_WalletID (ds_session ss)))) tr = (Inr ki, tr1)"
    and "int (length (ps_ParticipantPeerIDs (ds_session ss))) < inc64 (ki_Threshold ki)"
  shows "run_state (eddsa_signing_Init E L I ss tx) tr = (Panic, tr1 @ [Crash])"
  using assms by (simp add: eddsa_signing_Init_def eddsa_signing_few_panics Let_def io_Crash_def)

text \<open>The response that carries a signature.\<close>

definition eddsa_response :: "eddsaSigningSession \<Rightarrow> signature_data \<Rightarrow> SigningResponse" where
  "eddsa_response ss sig = SigningResponse_zero\<lparr>sr_WalletID := ps_WalletID (ds_session ss), sr_TxID := ds_txID ss,
     sr_Signature := sg_Signature sig\<rparr>"

lemma eddsa_sign_end_eq:
  "eddsa_sign_end E L onSuccess ss sig = sign_end_spec ds_session ds_data ds_tx eddsa_response onSuccess E L ss sig"
  unfolding eddsa_sign_end_def sign_end_spec_def eddsa_response_def Let_def by (rule refl)

interpretation eddsa_sign: sign_session ds_session
  "\<lambda>E L ss sig. do { eddsa_sign_end E L onSuccess ss sig; State_Monad.return ss }"
  "\<lambda>E C T L ids. eddsa_sign_loop E C T L ids onSuccess" "\<lambda>E C T L ids. eddsa_Sign E C T L ids onSuccess"
  ds_data ds_tx eddsa_response onSuccess
  by unfold_locales
     (simp_all only: eddsa_Sign_def eddsa_sign_end_eq eddsa_sign_loop.simps State_Monad.bind_assoc State_Monad.bind_left_identity)

interpretation eddsa_reshare: reshare_session dr_session eddsa_reshare_end eddsa_reshare_loop eddsa_Reshare
  dr_newPeerIDs dr_newThreshold "\<lambda>b rs. rs\<lparr>dr_session := (dr_session rs)\<lparr>ps_PubkeyBytes := Some b\<rparr>\<rparr>" sl_SerializeCompressed
  by unfold_locales
     (unfold eddsa_reshare_end_def eddsa_reshare_close_def reshare_end_spec_def eddsa_Reshare_def eddsa_reshare_loop.simps Let_def, (rule refl)+)

section \<open>Properties\<close>

text \<open>
  C9: a share that EDDSA key generation produced can be used. If \<^verbatim>\<open>GenerateKey\<close> reaches its completion
  callback with share \<open>d\<close>, under any scheduling of messages and failures, then a signing session for the same
  wallet that is set up later, with at least threshold plus one of the key's participants and no
  intervening write to the same keys, initialises without error, with exactly the share \<open>d\<close> and version 1.
\<close>

theorem eddsa_keygen_then_sign:
  assumes "kv_faithful E" and "consul_faithful E" and "share_lib_ok L" and "lo_Intersect_ok I"
    and "\<forall>e \<in> set evs. \<forall>d. e \<noteq> EndData d"
    and "s = (NewEDDSAKeygenSession parse w peers self pids t)\<lparr>ps_BroadcastSub := bs, ps_DirectSubs := ds\<rparr>"
    and "run_state (eddsa_GenerateKey E C T L ids s (evs @ EndData d # later)) tr = (r, tr')"
    and "CallDone \<in> set (drop (length tr) tr')"
    and "list_all (leaves_alone (eddsa_ComposeKey (WalletIDWithVersion w 1)) (keyinfo_composeKey (eddsa_ComposeKey w))) mid"
    and "0 \<le> t" and "t < 2 ^ 63 - 1" and "distinct P" and "set P \<subseteq> set peers" and "t + 1 \<le> int (length P)"
  shows "\<exists>ss' tr''. run_state (eddsa_signing_Init E L I (NewEDDSASigningSession parse w txid P self' pids' t idem) tx)
           (tr' @ mid) = (Ret (None, ss'), tr'') \<and> ds_data ss' = Some d \<and> ps_Version (ds_session ss') = 1"
proof -
  let ?ki = "\<lparr>ki_ParticipantPeerIDs = Some peers, ki_Threshold = t, ki_Version = 1\<rparr>"
  let ?ss = "NewEDDSASigningSession parse w txid P self' pids' t idem"
  from eddsa_keygen.keygen_stored [OF assms(5,7,8)] obtain b where b: "sl_Marshal L d = Inr b"
    and st: "stored E (eddsa_ComposeKey (WalletIDWithVersion w 1)) b (keyinfo_composeKey (eddsa_ComposeKey w)) ?ki tr'"
    by (auto simp: assms(6) NewEDDSAKeygenSession_def DefaultVersion_def)
  have wf: "KeyInfo_wf ?ki" using assms(10,11) by (simp add: KeyInfo_wf_def in_int64_def)
  have len: "inc64 t \<le> int (length P)" using assms(10,11,14) inc64_small [of t] by simp
  have "\<exists>tr''. run_state (eddsa_signing_Init E L I ?ss tx) (tr' @ mid) = (Ret (None,
      ?ss\<lparr>ds_data := Some d, ds_tx := tx, ds_session := (ds_session ?ss)\<lparr>ps_Version := ki_Version ?ki\<rparr>\<rparr>), tr'')"
    by (rule eddsa_signing.init_stored [OF assms(1-4) wf b _ refl])
       (use stored_later [OF st assms(9)] len assms(12,13) in \<open>simp_all add: NewEDDSASigningSession_def\<close>)
  then show ?thesis by force
qed

theorem eddsa_keygen_then_sign_witness:
  "\<exists>ss' tr''. run_state (eddsa_signing_Init env_ref share_lib_ref lo_Intersect_ref
       (NewEDDSASigningSession (\<lambda>_ _ _. Inl (errorf [])) ''w'' ''tx'' [''n1'', ''n2''] None [] 1 ''idem'') 5)
       ([PartyStart, KvPut ''eddsa:w_v1'' ''share'',
         ConsulPut ''threshold_keyinfo/eddsa:w'' (Marshal_KeyInfo \<lparr>ki_ParticipantPeerIDs = Some [''n1'', ''n2''], ki_Threshold = 1, ki_Version = 1\<rparr>),
         Unsubscribe ''b'', CallDone] @ [TimeNow]) = (Ret (None, ss'), tr'')
     \<and> ds_data ss' = Some \<lparr>sd_Pub = Some (1, 2), sd_Blob = ''share''\<rparr> \<and> ps_Version (ds_session ss') = 1"
proof -
  let ?d = "\<lparr>sd_Pub = Some (1, 2), sd_Blob = ''share''\<rparr>"
  let ?s = "(NewEDDSAKeygenSession (\<lambda>_ _ _. Inl (errorf [])) ''w'' [''n1'', ''n2''] None [] 1)
      \<lparr>ps_BroadcastSub := Some ''b'', ps_DirectSubs := []\<rparr>"
  let ?tr = "[PartyStart, KvPut ''eddsa:w_v1'' ''share'',
         ConsulPut ''threshold_keyinfo/eddsa:w'' (Marshal_KeyInfo \<lparr>ki_ParticipantPeerIDs = Some [''n1'', ''n2''], ki_Threshold = 1, ki_Version = 1\<rparr>),
         Unsubscribe ''b'', CallDone]"
  have run: "run_state (eddsa_GenerateKey env_ref crypto_ref tss_lib_ref share_lib_ref (store_ref ''n1'' ''n2'' CHR ''a'' CHR ''b'')
      ?s ([] @ EndData ?d # [])) [] = (Returned (?s\<lparr>ps_PubkeyBytes := Some (sl_SerializeCompressed share_lib_ref (1, 2))\<rparr>), ?tr)"
    by (simp add: eddsa_GenerateKey_def eddsa_keygen_end_def io_defs NewEDDSAKeygenSession_def share_lib_ref_def env_ref_def
        keyinfo_Save_def Close_session_def GetVersion_def DefaultVersion_def WalletIDWithVersion_def itoa_one
        eddsa_ComposeKey_def keyinfo_composeKey_def Let_def)
  show ?thesis
    by (rule eddsa_keygen_then_sign [OF env_ref_kv env_ref_consul share_lib_ref_ok lo_Intersect_ref_ok _ refl run])
       (simp_all add: leaves_alone_def)
qed

text \<open>
  C10: a reshared EDDSA key can be used by the new committee. If a resharing session of a new member reaches its
  completion callback with share \<open>d\<close>, under any scheduling of messages and failures, then a signing session
  for the wallet set up later, with at least the new threshold plus one of the new participants and no intervening write to
  the same keys, initialises without error with exactly the share \<open>d\<close> and the next version; and the
  resharing wrote nothing over the share of the old version.
\<close>

theorem eddsa_reshare_then_sign:
  assumes "kv_faithful E" and "consul_faithful E" and "share_lib_ok L" and "lo_Intersect_ok I"
    and "\<forall>e \<in> set evs. \<forall>d. e \<noteq> EndData d"
    and "rs0 = NewEDDSAResharingSession T parse w parts self old new t t' newPeers True v"
    and "rs = rs0\<lparr>dr_session := (dr_session rs0)\<lparr>ps_BroadcastSub := bs, ps_DirectSubs := ds\<rparr>\<rparr>"
    and "run_state (eddsa_Reshare E C T L ids rs (evs @ EndData d # later)) tr = (r, tr')"
    and "CallDone \<in> set (drop (length tr) tr')" and "sd_Pub d = Some pub"
    and "list_all (leaves_alone (eddsa_ComposeKey (WalletIDWithVersion w (v + 1))) (keyinfo_composeKey (eddsa_ComposeKey w))) mid"
    and "0 \<le> v" and "v < 2 ^ 63 - 1" and "0 \<le> t'" and "t' < 2 ^ 63 - 1"
    and "distinct P" and "set P \<subseteq> set newPeers" and "t' + 1 \<le> int (length P)"
  shows "(\<exists>ss' tr''. run_state (eddsa_signing_Init E L I (NewEDDSASigningSession parse w txid P self' pids' t' idem) tx)
            (tr' @ mid) = (Ret (None, ss'), tr'') \<and> ds_data ss' = Some d \<and> ps_Version (ds_session ss') = v + 1)
     \<and> (\<forall>b. KvPut (eddsa_ComposeKey (WalletIDWithVersion w v)) b \<notin> set (drop (length tr) tr'))"
proof
  let ?ki = "\<lparr>ki_ParticipantPeerIDs = Some newPeers, ki_Threshold = t', ki_Version = v + 1\<rparr>"
  let ?ss = "NewEDDSASigningSession parse w txid P self' pids' t' idem"
  have inc: "inc64 v = v + 1" "inc64 t' = t' + 1" using assms(12-15) by (simp_all add: inc64_small)
  have rs: "ps_ComposeKey (dr_session rs) = eddsa_ComposeKey" "ps_WalletID (dr_session rs) = w"
      "ps_Version (dr_session rs) = v" "dr_newPeerIDs rs = newPeers" "dr_newThreshold rs = t'"
    by (simp_all add: assms(6,7) NewEDDSAResharingSession_def Let_def)
  from eddsa_reshare.reshare_stored [OF assms(5,8,9,10) refl] obtain b where b: "sl_Marshal L d = Inr b"
    and st: "stored E (eddsa_ComposeKey (WalletIDWithVersion w (v + 1))) b (keyinfo_composeKey (eddsa_ComposeKey w)) ?ki tr'"
    by (auto simp: rs inc)
  have wf: "KeyInfo_wf ?ki" using assms(12-15) by (simp add: KeyInfo_wf_def in_int64_def)
  have "\<exists>tr''. run_state (eddsa_signing_Init E L I ?ss tx) (tr' @ mid) = (Ret (None,
      ?ss\<lparr>ds_data := Some d, ds_tx := tx, ds_session := (ds_session ?ss)\<lparr>ps_Version := ki_Version ?ki\<rparr>\<rparr>), tr'')"
    by (rule eddsa_signing.init_stored [OF assms(1-4) wf b _ refl])
       (use stored_later [OF st assms(11)] inc assms(16-18) in \<open>simp_all add: NewEDDSASigningSession_def\<close>)
  then show "\<exists>ss' tr''. run_state (eddsa_signing_Init E L I ?ss tx) (tr' @ mid) = (Ret (None, ss'), tr'')
      \<and> ds_data ss' = Some d \<and> ps_Version (ds_session ss') = v + 1" by force
  have "inj eddsa_ComposeKey" by (simp add: inj_def eddsa_ComposeKey_def)
  with eddsa_reshare.keeps_old [OF assms(8) refl] assms(12,13)
  show "\<forall>b. KvPut (eddsa_ComposeKey (WalletIDWithVersion w v)) b \<notin> set (drop (length tr) tr')"
    by (simp add: rs)
qed

theorem eddsa_reshare_then_sign_witness:
  "\<exists>ss' tr''. run_state (eddsa_signing_Init env_ref share_lib_ref lo_Intersect_ref
       (NewEDDSASigningSession (\<lambda>_ _ _. Inl (errorf [])) ''w'' ''tx'' [''n1'', ''n2''] None [] 1 ''idem'') 5)
       ([PartyStart, KvPut ''eddsa:w_v2'' ''share'',
         ConsulPut ''threshold_keyinfo/eddsa:w'' (Marshal_KeyInfo \<lparr>ki_ParticipantPeerIDs = Some [''n1'', ''n2''], ki_Threshold = 1, ki_Version = 2\<rparr>),
         CallDone, Unsubscribe ''b''] @ [TimeNow]) = (Ret (None, ss'), tr'')
     \<and> ds_data ss' = Some \<lparr>sd_Pub = Some (1, 2), sd_Blob = ''share''\<rparr> \<and> ps_Version (ds_session ss') = 2"
proof -
  let ?d = "\<lparr>sd_Pub = Some (1, 2), sd_Blob = ''share''\<rparr>"
  let ?r0 = "NewEDDSAResharingSession tss_lib_ref (\<lambda>_ _ _. Inl (errorf [])) ''w'' [''n1''] None [] [] 1 1 [''n1'', ''n2''] True 1"
  let ?rs = "?r0\<lparr>dr_session := (dr_session ?r0)\<lparr>ps_BroadcastSub := Some ''b'', ps_DirectSubs := []\<rparr>\<rparr>"
  let ?tr = "[PartyStart, KvPut ''eddsa:w_v2'' ''share'',
         ConsulPut ''threshold_keyinfo/eddsa:w'' (Marshal_KeyInfo \<lparr>ki_ParticipantPeerIDs = Some [''n1'', ''n2''], ki_Threshold = 1, ki_Version = 2\<rparr>),
         CallDone, Unsubscribe ''b'']"
  have i2: "itoa 2 = ''2''" by code_simp
  have inc: "wrap64 2 = 2" by code_simp
  have "snd (run_state (eddsa_Reshare env_ref crypto_ref tss_lib_ref share_lib_ref (store_ref ''n1'' ''n2'' CHR ''a'' CHR ''b'')
      ?rs ([] @ EndData ?d # [])) []) = ?tr"
    by (simp add: eddsa_Reshare_def eddsa_reshare_end_def eddsa_reshare_close_def io_defs NewEDDSAResharingSession_def share_lib_ref_def env_ref_def
        keyinfo_Save_def Close_session_def GetVersion_def WalletIDWithVersion_def i2 inc
        eddsa_ComposeKey_def keyinfo_composeKey_def Let_def)
  then obtain x where run: "run_state (eddsa_Reshare env_ref crypto_ref tss_lib_ref share_lib_ref (store_ref ''n1'' ''n2'' CHR ''a'' CHR ''b'')
      ?rs ([] @ EndData ?d # [])) [] = (x, ?tr)" by (metis prod.collapse)
  have "(\<exists>ss' tr''. run_state (eddsa_signing_Init env_ref share_lib_ref lo_Intersect_ref
       (NewEDDSASigningSession (\<lambda>_ _ _. Inl (errorf [])) ''w'' ''tx'' [''n1'', ''n2''] None [] 1 ''idem'') 5)
       (?tr @ [TimeNow]) = (Ret (None, ss'), tr'') \<and> ds_data ss' = Some ?d \<and> ps_Version (ds_session ss') = 1 + 1)
     \<and> (\<forall>b. KvPut (eddsa_ComposeKey (WalletIDWithVersion ''w'' 1)) b \<notin> set (drop (length ([] :: call list)) ?tr))"
    by (rule eddsa_reshare_then_sign [OF env_ref_kv env_ref_consul share_lib_ref_ok lo_Intersect_ref_ok _ refl refl run])
       (simp_all add: leaves_alone_def)
  then show ?thesis by simp
qed

end
