(* ===== verification/Key_Exchange.thy ===== *)
theory Key_Exchange
  imports Identity_Store World
begin

text \<open>
  \<^verbatim>\<open>pkg/mpc/key_exchange_session.go\<close>: every node broadcasts a signed ephemeral X25519 key, and on each
  peer's broadcast derives the AES key it shares with that peer. The lemmas show that both ends of an
  exchange hold the same key, that only a broadcast signed by a peer changes the key kept for it, and
  that an earlier broadcast of a peer takes effect again when it is replayed.
\<close>

section \<open>The session\<close>

definition ECDHExchangeTopic :: string where "ECDHExchangeTopic = ''ecdh:exchange''"

record ecdhSession =
  ec_nodeID :: string
  ec_peerIDs :: "string list"
  ec_ecdhSub :: "string option"
  ec_privateKey :: "bytes option"
  ec_publicKey :: "bytes option"

definition NewECDHSession :: "string \<Rightarrow> string list \<Rightarrow> ecdhSession" where
  "NewECDHSession nodeID peerIDs =
     \<lparr>ec_nodeID = nodeID, ec_peerIDs = peerIDs, ec_ecdhSub = None, ec_privateKey = None, ec_publicKey = None\<rparr>"

definition RemovePeer :: "string \<Rightarrow> fileStore \<Rightarrow> fileStore" where
  "RemovePeer peerID ids = RemoveSymmetricKey peerID ids"

definition ecdh_GetReadyPeersCount :: "fileStore \<Rightarrow> nat" where
  "ecdh_GetReadyPeersCount ids = GetSymmetricKeyCount ids"

definition deriveConsistentInfo :: "string \<Rightarrow> string \<Rightarrow> bytes" where
  "deriveConsistentInfo a b = (if string_less a b then a @ b else b @ a)"

text \<open>A key that could not be derived is nil, and the error goes to the error channel.\<close>

definition deriveSymmetricKey :: "crypto \<Rightarrow> ecdhSession \<Rightarrow> bytes \<Rightarrow> string \<Rightarrow> slice io" where
  "deriveSymmetricKey C e sharedSecret peerID =
     (let info = deriveConsistentInfo (ec_nodeID e) peerID in
      case cr_HKDF C sharedSecret info of
        Inl err \<Rightarrow> do { io_ErrSend err; State_Monad.return None }
      | Inr symmetricKey \<Rightarrow> State_Monad.return (Some symmetricKey))"

text \<open>The handler that \<^verbatim>\<open>ListenKeyExchange\<close> subscribes: the store after one message.\<close>

definition on_ecdh_message :: "crypto \<Rightarrow> ecdhSession \<Rightarrow> fileStore \<Rightarrow> bytes \<Rightarrow> fileStore io" where
  "on_ecdh_message C e ids data =
     (case Unmarshal_ECDHMessage data of
        (_, Some err) \<Rightarrow> State_Monad.return ids
      | (ecdhMsg, None) \<Rightarrow>
          if em_From ecdhMsg = ec_nodeID e then State_Monad.return ids
          else (case VerifySignature C ids ecdhMsg of
                  Panic \<Rightarrow> do { io_Crash; State_Monad.return ids }
                | Ret (Some err) \<Rightarrow> do { io_ErrSend err; State_Monad.return ids }
                | Ret None \<Rightarrow>
                    (case cr_NewPublicKey C (slice_bytes (em_PublicKey ecdhMsg)) of
                       Inl err \<Rightarrow> do { io_ErrSend err; State_Monad.return ids }
                     | Inr peerPublicKey \<Rightarrow>
                         (case ec_privateKey e of
                            None \<Rightarrow> do { io_Crash; State_Monad.return ids }
                          | Some sk \<Rightarrow>
                              (case cr_ECDH C sk peerPublicKey of
                                 Inl err \<Rightarrow> do { io_ErrSend err; State_Monad.return ids }
                               | Inr sharedSecret \<Rightarrow> do {
                                   symmetricKey \<leftarrow> deriveSymmetricKey C e sharedSecret (em_From ecdhMsg);
                                   State_Monad.return (SetSymmetricKey (em_From ecdhMsg) symmetricKey ids) })))))"

definition ListenKeyExchange :: "env \<Rightarrow> crypto \<Rightarrow> ecdhSession \<Rightarrow> (go_error option \<times> ecdhSession) io" where
  "ListenKeyExchange E C e = do {
     rand \<leftarrow> io_RandRead E 32;
     (case rand of
        Inl err \<Rightarrow> State_Monad.return (Some (wrapf ''failed to generate ECDH key pair'' err), e)
      | Inr sk \<Rightarrow> do {
          let e1 = e\<lparr>ec_privateKey := Some sk, ec_publicKey := Some (cr_X25519Public C sk)\<rparr>;
          err \<leftarrow> io_Subscribe E ECDHExchangeTopic;
          State_Monad.return
            (case err of
               Some x \<Rightarrow> (Some (wrapf ''failed to subscribe to ECDH topic'' x), e1\<lparr>ec_ecdhSub := None\<rparr>)
             | None \<Rightarrow> (None, e1\<lparr>ec_ecdhSub := Some ECDHExchangeTopic\<rparr>)) }) }"

definition Close_ecdh :: "env \<Rightarrow> ecdhSession \<Rightarrow> go_error option go_res io" where
  "Close_ecdh E s =
     (case ec_ecdhSub s of
        None \<Rightarrow> do { io_Crash; State_Monad.return Panic }
      | Some topic \<Rightarrow> do {
          err \<leftarrow> io_Unsubscribe E topic;
          State_Monad.return (Ret err) })"

definition BroadcastPublicKey :: "env \<Rightarrow> crypto \<Rightarrow> ecdhSession \<Rightarrow> fileStore \<Rightarrow> go_error option go_res io" where
  "BroadcastPublicKey E C e ids =
     (case ec_publicKey e of
        None \<Rightarrow> do { io_Crash; State_Monad.return Panic }
      | Some publicKeyBytes \<Rightarrow> do {
          now \<leftarrow> io_TimeText E;
          let msg = \<lparr>em_From = ec_nodeID e, em_PublicKey = Some publicKeyBytes, em_Timestamp = now, em_Signature = None\<rparr>;
          (case SignEcdhMessage C ids msg of
             Panic \<Rightarrow> do { io_Crash; State_Monad.return Panic }
           | Ret signature \<Rightarrow> do {
               let signedMsgBytes = Marshal_ECDHMessage (msg\<lparr>em_Signature := Some signature\<rparr>);
               err \<leftarrow> io_Publish E ECDHExchangeTopic signedMsgBytes;
               State_Monad.return (Ret
                 (case err of
                    Some x \<Rightarrow> Some (Errorf (ec_nodeID e @ '' failed to publish DH message because '' @ err_msg x) (Some x))
                  | None \<Rightarrow> None)) }) })"

section \<open>Agreement\<close>

lemma deriveConsistentInfo_sym: "deriveConsistentInfo a b = deriveConsistentInfo b a"
  unfolding deriveConsistentInfo_def using string_less_asym string_less_total by metis

lemma ECDHMessage_codec:
  "time_parse (em_Timestamp m) = Some (em_Timestamp m) \<Longrightarrow>
   Unmarshal_ECDHMessage (Marshal_ECDHMessage m) = (m, None)"
  by (simp add: Unmarshal_ECDHMessage_def Marshal_ECDHMessage_def ECDHMessage_fields_def fld_time_def
      struct_codec_simps)

lemma VerifySignature_signed:
  assumes "crypto_ok C" and "length (privateKey a) = ed25519_PrivateKeySize"
    and "GetPublicKey (em_From m) b = Inr (cr_PublicKey C (privateKey a))"
    and "SignEcdhMessage C a m = Ret sig"
  shows "VerifySignature C b (m\<lparr>em_Signature := Some sig\<rparr>) = Ret None"
  using assms
  by (auto simp: VerifySignature_def SignEcdhMessage_def ed25519_Sign_def ed25519_Verify_def crypto_ok_def
      ECDH_MarshalForSigning_def)

text \<open>One direction of an exchange: what \<open>a\<close> broadcasts makes \<open>b\<close> keep the derived key for \<open>a\<close>.\<close>

lemma exchange_one_way:
  assumes C: "crypto_ok C" and a: "ec_publicKey a = Some (cr_X25519Public C ska)"
    and b: "ec_privateKey b = Some skb" and ne: "ec_nodeID a \<noteq> ec_nodeID b"
    and len: "length (privateKey ia) = ed25519_PrivateKeySize"
    and pk: "GetPublicKey (ec_nodeID a) ib = Inr (cr_PublicKey C (privateKey ia))"
    and t: "time_parse (en_TimeText E tr) = Some (en_TimeText E tr)"
    and sec: "cr_ECDH C skb (cr_X25519Public C ska) = Inr secret"
    and key: "cr_HKDF C secret (deriveConsistentInfo (ec_nodeID b) (ec_nodeID a)) = Inr key"
  shows "\<exists>data. snd (run_state (BroadcastPublicKey E C a ia) tr) = tr @ [TimeText, Publish ECDHExchangeTopic data]
    \<and> (\<forall>tr'. run_state (on_ecdh_message C b ib data) tr' = (SetSymmetricKey (ec_nodeID a) (Some key) ib, tr'))"
proof -
  define m where "m = \<lparr>em_From = ec_nodeID a, em_PublicKey = Some (cr_X25519Public C ska),
      em_Timestamp = en_TimeText E tr, em_Signature = None\<rparr>"
  obtain sig where sig: "SignEcdhMessage C ia m = Ret sig"
    using len by (simp add: SignEcdhMessage_def ed25519_Sign_def)
  let ?m = "m\<lparr>em_Signature := Some sig\<rparr>"
  have out: "snd (run_state (BroadcastPublicKey E C a ia) tr) =
      tr @ [TimeText, Publish ECDHExchangeTopic (Marshal_ECDHMessage ?m)]"
    using sig by (simp add: BroadcastPublicKey_def a m_def io_defs Let_def split: option.split)
  have um: "Unmarshal_ECDHMessage (Marshal_ECDHMessage ?m) = (?m, None)"
    by (rule ECDHMessage_codec) (simp add: m_def t)
  have ver: "VerifySignature C ib ?m = Ret None"
    by (rule VerifySignature_signed [OF C len _ sig]) (simp add: m_def pk)
  have np: "cr_NewPublicKey C (cr_X25519Public C ska) = Inr (cr_X25519Public C ska)"
    using C unfolding crypto_ok_def by blast
  have f: "em_From ?m = ec_nodeID a" "slice_bytes (em_PublicKey ?m) = cr_X25519Public C ska"
    by (simp_all add: m_def)
  have "run_state (on_ecdh_message C b ib (Marshal_ECDHMessage ?m)) tr' =
      (SetSymmetricKey (ec_nodeID a) (Some key) ib, tr')" for tr'
    unfolding on_ecdh_message_def um prod.case option.case f ver go_res.case np b sec sum.case
    using ne key by (simp add: deriveSymmetricKey_def)
  with out show ?thesis by blast
qed

text \<open>
  C24: When two nodes that know each other's identity key broadcast their ephemeral keys, each publishes
  one message, and after receiving the other's both hold the same symmetric key for each other, 32 bytes long.
\<close>

theorem key_exchange_agreement:
  assumes "crypto_ok C"
    and "ec_privateKey a = Some ska" "ec_publicKey a = Some (cr_X25519Public C ska)"
    and "ec_privateKey b = Some skb" "ec_publicKey b = Some (cr_X25519Public C skb)"
    and "ec_nodeID a \<noteq> ec_nodeID b"
    and "length (privateKey ia) = ed25519_PrivateKeySize" "length (privateKey ib) = ed25519_PrivateKeySize"
    and "GetPublicKey (ec_nodeID a) ib = Inr (cr_PublicKey C (privateKey ia))"
    and "GetPublicKey (ec_nodeID b) ia = Inr (cr_PublicKey C (privateKey ib))"
    and "time_parse (en_TimeText E ta) = Some (en_TimeText E ta)" "time_parse (en_TimeText E tb) = Some (en_TimeText E tb)"
    and "cr_ECDH C ska (cr_X25519Public C skb) = Inr secret"
    and "cr_HKDF C secret (deriveConsistentInfo (ec_nodeID a) (ec_nodeID b)) = Inr key"
  shows "\<exists>da db.
      snd (run_state (BroadcastPublicKey E C a ia) ta) = ta @ [TimeText, Publish ECDHExchangeTopic da]
    \<and> snd (run_state (BroadcastPublicKey E C b ib) tb) = tb @ [TimeText, Publish ECDHExchangeTopic db]
    \<and> (\<forall>tr. GetSymmetricKey (ec_nodeID b) (fst (run_state (on_ecdh_message C a ia db) tr)) = Inr (Some key))
    \<and> (\<forall>tr. GetSymmetricKey (ec_nodeID a) (fst (run_state (on_ecdh_message C b ib da) tr)) = Inr (Some key))
    \<and> length key = 32"
proof -
  have sec': "cr_ECDH C skb (cr_X25519Public C ska) = Inr secret"
    using assms(1,13) by (simp add: crypto_ok_def)
  obtain da where da: "snd (run_state (BroadcastPublicKey E C a ia) ta) = ta @ [TimeText, Publish ECDHExchangeTopic da]"
    "\<And>tr. run_state (on_ecdh_message C b ib da) tr = (SetSymmetricKey (ec_nodeID a) (Some key) ib, tr)"
    using exchange_one_way [OF assms(1,3,4,6,7,9,11) sec'] assms(14) by (metis deriveConsistentInfo_sym)
  obtain db where db: "snd (run_state (BroadcastPublicKey E C b ib) tb) = tb @ [TimeText, Publish ECDHExchangeTopic db]"
    "\<And>tr. run_state (on_ecdh_message C a ia db) tr = (SetSymmetricKey (ec_nodeID b) (Some key) ia, tr)"
    using exchange_one_way [OF assms(1,5,2) assms(6) [symmetric] assms(8,10,12,13,14)] by blast
  have "length key = 32" using assms(1,14) unfolding crypto_ok_def by blast
  with da db show ?thesis by (auto simp: symkeys.get_put)
qed

text \<open>Two nodes with toy keys.\<close>

definition ecdh_ref :: "string \<Rightarrow> bytes \<Rightarrow> ecdhSession" where
  "ecdh_ref n sk = \<lparr>ec_nodeID = n, ec_peerIDs = [], ec_ecdhSub = None, ec_privateKey = Some sk, ec_publicKey = Some sk\<rparr>"

definition ecdh_store_ref :: "char \<Rightarrow> string \<Rightarrow> char \<Rightarrow> fileStore" where
  "ecdh_store_ref c peer d =
     \<lparr>publicKeys = [(peer, replicate 32 d)], privateKey = replicate 64 c,
      initiatorKey = \<lparr>ik_Algorithm = [], ik_Ed25519 = [], ik_P256 = None\<rparr>, symmetricKeys = []\<rparr>"

lemma time_ref: "time_parse ''2024-01-02T03:04:05Z'' = Some ''2024-01-02T03:04:05Z''"
  by code_simp

theorem key_exchange_agreement_witness:
  "\<exists>da db. \<forall>tr.
     GetSymmetricKey ''n2'' (fst (run_state (on_ecdh_message crypto_ref (ecdh_ref ''n1'' ''x'')
        (ecdh_store_ref CHR ''a'' ''n2'' CHR ''b'') db) tr)) = Inr (Some (''xyn1n2'' @ replicate 26 CHR ''0''))
   \<and> GetSymmetricKey ''n1'' (fst (run_state (on_ecdh_message crypto_ref (ecdh_ref ''n2'' ''y'')
        (ecdh_store_ref CHR ''b'' ''n1'' CHR ''a'') da) tr)) = Inr (Some (''xyn1n2'' @ replicate 26 CHR ''0''))"
proof -
  have k: "take 32 (''xy'' @ ''n1n2'' @ replicate 32 CHR ''0'') = ''xyn1n2'' @ replicate 26 CHR ''0''"
    by code_simp
  show ?thesis
    using key_exchange_agreement [where C = crypto_ref and E = env_ref and ta = "[]" and tb = "[]"
        and a = "ecdh_ref ''n1'' ''x''" and b = "ecdh_ref ''n2'' ''y''" and ska = "''x''" and skb = "''y''"
        and ia = "ecdh_store_ref CHR ''a'' ''n2'' CHR ''b''" and ib = "ecdh_store_ref CHR ''b'' ''n1'' CHR ''a''"
        and secret = "''xy''" and key = "''xyn1n2'' @ replicate 26 CHR ''0''", OF crypto_ref_ok]
    using k
    by (simp add: ecdh_ref_def ecdh_store_ref_def crypto_ref_def ed25519_PrivateKeySize_def GetPublicKey_def
        env_ref_def time_ref deriveConsistentInfo_def) blast
qed

section \<open>Authenticity\<close>

lemma SetSymmetricKey_frame [simp]:
  "publicKeys (SetSymmetricKey p k s) = publicKeys s" "privateKey (SetSymmetricKey p k s) = privateKey s"
  "initiatorKey (SetSymmetricKey p k s) = initiatorKey s"
  by (simp_all add: SetSymmetricKey_def)

text \<open>What a broadcast that changes the store has passed.\<close>

definition authentic_ecdh :: "crypto \<Rightarrow> ecdhSession \<Rightarrow> fileStore \<Rightarrow> bytes \<Rightarrow> string \<Rightarrow> bool" where
  "authentic_ecdh C e ids data p \<longleftrightarrow>
     (\<exists>m sig pk. Unmarshal_ECDHMessage data = (m, None) \<and> em_From m = p \<and> p \<noteq> ec_nodeID e
        \<and> em_Signature m = Some sig \<and> GetPublicKey p ids = Inr pk
        \<and> cr_Verify C pk (ECDH_MarshalForSigning m) sig)"

lemma VerifySignature_NoneD:
  "VerifySignature C ids m = Ret None \<Longrightarrow>
   \<exists>sig pk. em_Signature m = Some sig \<and> GetPublicKey (em_From m) ids = Inr pk
     \<and> cr_Verify C pk (ECDH_MarshalForSigning m) sig"
  by (auto simp: VerifySignature_def ed25519_Verify_def split: option.splits sum.splits go_res.splits if_splits)

text \<open>The key a broadcast sets, and for whom.\<close>

definition ecdh_effect :: "crypto \<Rightarrow> ecdhSession \<Rightarrow> fileStore \<Rightarrow> bytes \<Rightarrow> (string \<times> slice) option" where
  "ecdh_effect C e ids data =
     (case Unmarshal_ECDHMessage data of
        (_, Some _) \<Rightarrow> None
      | (m, None) \<Rightarrow>
          if em_From m = ec_nodeID e \<or> VerifySignature C ids m \<noteq> Ret None then None
          else (case (cr_NewPublicKey C (slice_bytes (em_PublicKey m)), ec_privateKey e) of
                  (Inr pk, Some sk) \<Rightarrow>
                    (case cr_ECDH C sk pk of
                       Inl _ \<Rightarrow> None
                     | Inr secret \<Rightarrow>
                         Some (em_From m, case cr_HKDF C secret (deriveConsistentInfo (ec_nodeID e) (em_From m)) of
                                            Inl _ \<Rightarrow> None | Inr k \<Rightarrow> Some k))
                | _ \<Rightarrow> None))"

lemma on_ecdh_message_effect:
  "fst (run_state (on_ecdh_message C e ids data) tr) =
     (case ecdh_effect C e ids data of None \<Rightarrow> ids | Some (p, k) \<Rightarrow> SetSymmetricKey p k ids)"
  by (simp add: on_ecdh_message_def ecdh_effect_def deriveSymmetricKey_def io_defs Let_def
      split: prod.split option.split go_res.split sum.split)

lemma ecdh_effect_authentic: "ecdh_effect C e ids data = Some (p, k) \<Longrightarrow> authentic_ecdh C e ids data p"
  by (auto simp: ecdh_effect_def authentic_ecdh_def dest: VerifySignature_NoneD
      split: prod.splits option.splits if_splits sum.splits)

lemma on_ecdh_message_cases:
  "fst (run_state (on_ecdh_message C e ids data) tr) = ids
   \<or> (\<exists>p key. authentic_ecdh C e ids data p
        \<and> fst (run_state (on_ecdh_message C e ids data) tr) = SetSymmetricKey p key ids)"
  by (cases "ecdh_effect C e ids data") (auto simp: on_ecdh_message_effect dest: ecdh_effect_authentic)

text \<open>
  C25: A key exchange broadcast changes the symmetric key kept for a peer only if it names that peer as
  its sender and carries a signature valid under the peer's identity key; the keys of all other peers,
  the identity keys and the initiator key stay as they were.
\<close>

theorem key_exchange_authentic:
  assumes "fst (run_state (on_ecdh_message C e ids data) tr) = ids'"
    and "GetSymmetricKey p ids' \<noteq> GetSymmetricKey p ids"
  shows "authentic_ecdh C e ids data p \<and> p \<noteq> ec_nodeID e
    \<and> (\<forall>q. q \<noteq> p \<longrightarrow> GetSymmetricKey q ids' = GetSymmetricKey q ids)
    \<and> publicKeys ids' = publicKeys ids \<and> privateKey ids' = privateKey ids \<and> initiatorKey ids' = initiatorKey ids"
proof -
  from on_ecdh_message_cases [of C e ids data tr] assms obtain key
    where "authentic_ecdh C e ids data p" "ids' = SetSymmetricKey p key ids"
    by (auto simp: symkeys.get_put split: if_splits)
  then show ?thesis by (auto simp: authentic_ecdh_def symkeys.get_put)
qed

text \<open>The broadcast a node with a toy key sends, for concrete runs.\<close>

definition ecdh_data_ref :: "string \<Rightarrow> bytes \<Rightarrow> char \<Rightarrow> bytes" where
  "ecdh_data_ref n pk c =
     (let m = \<lparr>em_From = n, em_PublicKey = Some pk, em_Timestamp = ''2024-01-02T03:04:05Z'', em_Signature = None\<rparr>
      in Marshal_ECDHMessage (m\<lparr>em_Signature := Some (CHR ''s'' # replicate 32 c @ ECDH_MarshalForSigning m)\<rparr>))"

lemma ecdh_data_ref_run:
  assumes "n \<noteq> n'"
  shows "run_state (on_ecdh_message crypto_ref (ecdh_ref n' sk) (ecdh_store_ref c n d) (ecdh_data_ref n pk d)) tr =
    (SetSymmetricKey n (Some (take 32 ((if string_less sk pk then sk @ pk else pk @ sk)
        @ deriveConsistentInfo n' n @ replicate 32 CHR ''0''))) (ecdh_store_ref c n d), tr)"
  using assms
  by (simp add: on_ecdh_message_def ecdh_data_ref_def ECDHMessage_codec time_ref Let_def ecdh_ref_def
      ecdh_store_ref_def VerifySignature_def GetPublicKey_def ed25519_Verify_def ed25519_PublicKeySize_def
      crypto_ref_def ECDH_MarshalForSigning_def deriveSymmetricKey_def)

theorem key_exchange_authentic_witness:
  "authentic_ecdh crypto_ref (ecdh_ref ''n2'' ''y'') (ecdh_store_ref CHR ''b'' ''n1'' CHR ''a'')
     (ecdh_data_ref ''n1'' ''x'' CHR ''a'') ''n1''"
proof -
  let ?h = "on_ecdh_message crypto_ref (ecdh_ref ''n2'' ''y'') (ecdh_store_ref CHR ''b'' ''n1'' CHR ''a'')
     (ecdh_data_ref ''n1'' ''x'' CHR ''a'')"
  have "GetSymmetricKey ''n1'' (fst (run_state ?h [])) \<noteq>
      GetSymmetricKey ''n1'' (ecdh_store_ref CHR ''b'' ''n1'' CHR ''a'')"
    by (subst ecdh_data_ref_run) (simp_all add: symkeys.get_put, simp add: ecdh_store_ref_def GetSymmetricKey_def)
  from key_exchange_authentic [OF refl this] show ?thesis by blast
qed

section \<open>Replay\<close>

lemma VerifySignature_publicKeys:
  "publicKeys a = publicKeys b \<Longrightarrow> VerifySignature C a m = VerifySignature C b m"
  by (simp add: VerifySignature_def GetPublicKey_def split: option.split)

text \<open>The effect of a broadcast on the store depends only on the identity keys in it.\<close>

lemma ecdh_effect_publicKeys:
  "publicKeys a = publicKeys b \<Longrightarrow> ecdh_effect C e a data = ecdh_effect C e b data"
  by (simp add: ecdh_effect_def VerifySignature_publicKeys [of a b] split: prod.split option.split)

text \<open>
  A key exchange broadcast that once set the key of a peer sets it to the same key again whenever it
  is received later, whatever key has been agreed with the peer since: broadcasts carry no freshness
  that is checked, so an old one that is replayed brings the old key back.
\<close>

lemma key_exchange_replay:
  assumes "fst (run_state (on_ecdh_message C e ids data) t1) = ids1"
    and "GetSymmetricKey p ids1 \<noteq> GetSymmetricKey p ids"
    and "publicKeys ids2 = publicKeys ids"
  shows "GetSymmetricKey p (fst (run_state (on_ecdh_message C e ids2 data) t2)) = GetSymmetricKey p ids1"
proof -
  have ids1: "ids1 = (case ecdh_effect C e ids data of None \<Rightarrow> ids | Some (p, k) \<Rightarrow> SetSymmetricKey p k ids)"
    using on_ecdh_message_effect assms(1) by blast
  with assms(2) obtain k where "ecdh_effect C e ids data = Some (p, k)"
    by (cases "ecdh_effect C e ids data") (auto simp: symkeys.get_put split: if_splits)
  with ids1 ecdh_effect_publicKeys [OF assms(3)] show ?thesis
    by (simp add: on_ecdh_message_effect symkeys.get_put)
qed

lemma key_exchange_replay_example:
  "GetSymmetricKey ''n1'' (fst (run_state (on_ecdh_message crypto_ref (ecdh_ref ''n2'' ''y'')
      (SetSymmetricKey ''n1'' (Some ''newer'') (ecdh_store_ref CHR ''b'' ''n1'' CHR ''a''))
      (ecdh_data_ref ''n1'' ''x'' CHR ''a'')) [])) = Inr (Some (''xyn1n2'' @ replicate 26 CHR ''0''))"
proof -
  let ?h = "on_ecdh_message crypto_ref (ecdh_ref ''n2'' ''y'') (ecdh_store_ref CHR ''b'' ''n1'' CHR ''a'')
     (ecdh_data_ref ''n1'' ''x'' CHR ''a'')"
  have k: "take 32 (''xy'' @ ''n1n2'' @ replicate 32 CHR ''0'') = ''xyn1n2'' @ replicate 26 CHR ''0''"
    by code_simp
  have one: "GetSymmetricKey ''n1'' (fst (run_state ?h [])) = Inr (Some (''xyn1n2'' @ replicate 26 CHR ''0''))"
    using k by (subst ecdh_data_ref_run) (simp_all add: symkeys.get_put deriveConsistentInfo_def)
  have two: "GetSymmetricKey ''n1'' (fst (run_state ?h [])) \<noteq>
      GetSymmetricKey ''n1'' (ecdh_store_ref CHR ''b'' ''n1'' CHR ''a'')"
    unfolding one by (simp add: ecdh_store_ref_def GetSymmetricKey_def)
  show ?thesis
    unfolding one [symmetric] by (rule key_exchange_replay [OF refl two]) (simp add: SetSymmetricKey_def)
qed

end
