(* ===== verification/Peer_Registry.thy ===== *)
theory Peer_Registry
  imports Key_Exchange "HOL-Library.Multiset"
begin

text \<open>
  \<^verbatim>\<open>pkg/mpc/registry.go\<close>: which peers are ready. Ready nodes keep a key under \<^verbatim>\<open>ready/\<close> in Consul; every
  second each node lists these keys and updates its map of ready peers, its counter and the symmetric
  keys it holds; every five seconds it pings the ready peers and deletes the key of one that does not
  answer.

  The two endless loops are given by one round each (\<open>watch_tick\<close>, \<open>health_round\<close>) and the step
  relation \<open>registry_step\<close>, in which rounds and key exchange messages interleave. The order in which Go
  walks a map is the argument \<open>ord\<close>; \<^verbatim>\<open>lo.Filter\<close> and \<^verbatim>\<open>lo.Difference\<close> are the arguments \<open>F\<close> and \<open>D\<close>. A
  call of \<^verbatim>\<open>logger.Fatal\<close> ends the process, which the result \<open>Panic\<close> stands for.
\<close>

section \<open>Library parameters\<close>

definition map_order_ok :: "((string \<times> bool) list \<Rightarrow> (string \<times> bool) list) \<Rightarrow> bool" where
  "map_order_ok ord \<longleftrightarrow> (\<forall>xs. mset (ord xs) = mset xs)"

definition lo_Filter_ok :: "(string list \<Rightarrow> (string \<Rightarrow> bool) \<Rightarrow> string list) \<Rightarrow> bool" where
  "lo_Filter_ok F \<longleftrightarrow> (\<forall>xs p. F xs p = filter p xs)"

definition lo_Difference_ok :: "(string list \<Rightarrow> string list \<Rightarrow> string list \<times> string list) \<Rightarrow> bool" where
  "lo_Difference_ok D \<longleftrightarrow> (\<forall>a b. D a b = (filter (\<lambda>x. x \<notin> set b) a, filter (\<lambda>x. x \<notin> set a) b))"

definition lo_Difference_ref :: "string list \<Rightarrow> string list \<Rightarrow> string list \<times> string list" where
  "lo_Difference_ref a b = (filter (\<lambda>x. x \<notin> set b) a, filter (\<lambda>x. x \<notin> set a) b)"

lemma lo_Difference_ref_ok: "lo_Difference_ok lo_Difference_ref"
  by (simp add: lo_Difference_ok_def lo_Difference_ref_def)

lemma map_order_id: "map_order_ok (\<lambda>xs. xs)"
  by (simp add: map_order_ok_def)

section \<open>Standard library\<close>

text \<open>
  \<^verbatim>\<open>fmt.Sscanf(s, lit + "%s", &v)\<close>: the value of \<open>v\<close>, empty on an error. The verb skips blanks but no
  newline, and reads up to the next white space.
\<close>

definition sscanf_word :: "string \<Rightarrow> string \<Rightarrow> string \<times> go_error option" where
  "sscanf_word lit s =
     (if \<not> strings_HasPrefix s lit then ([], Some (errorf ''input does not match format''))
      else let r = dropWhile (\<lambda>c. is_space c \<and> c \<noteq> CHR 0x0A) (drop (length lit) s);
               w = takeWhile (\<lambda>c. \<not> is_space c) r
           in if w = [] then ([], Some (errorf (if r = [] then ''unexpected EOF'' else ''unexpected newline'')))
              else (w, None))"

definition strconv_ParseBool :: "string \<Rightarrow> bool option" where
  "strconv_ParseBool s =
     (if s \<in> {''1'', ''t'', ''T'', ''TRUE'', ''true'', ''True''} then Some True
      else if s \<in> {''0'', ''f'', ''F'', ''FALSE'', ''false'', ''False''} then Some False
      else None)"

definition fmt_t :: "bool \<Rightarrow> string" where
  "fmt_t b = (if b then ''true'' else ''false'')"

section \<open>The registry\<close>

record registry =
  rg_nodeID :: string
  rg_peerNodeIDs :: "string list"
  rg_readyMap :: "bool gomap"
  rg_readyCount :: int
  rg_ready :: bool
  rg_ecdhSession :: ecdhSession
  rg_threshold :: int
  rg_onPeerConnected :: "(string \<Rightarrow> unit io) option"
  rg_onPeerDisconnected :: "(string \<Rightarrow> unit io) option"
  rg_onPeerReConnected :: "(string \<Rightarrow> unit io) option"

definition NewRegistry ::
  "(string list \<Rightarrow> (string \<Rightarrow> bool) \<Rightarrow> string list) \<Rightarrow> string \<Rightarrow> string list \<Rightarrow> int \<Rightarrow> registry go_res io" where
  "NewRegistry F nodeID peerNodeIDs threshold =
     (if threshold < 1 then do { io_Fatal; State_Monad.return Panic }
      else do {
        let otherPeerNodeIDs = F peerNodeIDs (\<lambda>item. item \<noteq> nodeID);
        io_Go ''consumeECDHErrors'';
        State_Monad.return (Ret
          \<lparr>rg_nodeID = nodeID, rg_peerNodeIDs = otherPeerNodeIDs, rg_readyMap = [], rg_readyCount = 1,
           rg_ready = False, rg_ecdhSession = NewECDHSession nodeID peerNodeIDs, rg_threshold = threshold,
           rg_onPeerConnected = None, rg_onPeerDisconnected = None, rg_onPeerReConnected = None\<rparr>) })"

definition readyKey :: "string \<Rightarrow> string" where
  "readyKey nodeID = ''ready/'' @ nodeID"

definition call_hook :: "(string \<Rightarrow> unit io) option \<Rightarrow> string \<Rightarrow> unit io" where
  "call_hook h peerID = (case h of None \<Rightarrow> State_Monad.return () | Some f \<Rightarrow> f peerID)"

definition OnPeerConnected :: "(string \<Rightarrow> unit io) \<Rightarrow> registry \<Rightarrow> registry" where
  "OnPeerConnected callback r = r\<lparr>rg_onPeerConnected := Some callback\<rparr>"

definition OnPeerDisconnected :: "(string \<Rightarrow> unit io) \<Rightarrow> registry \<Rightarrow> registry" where
  "OnPeerDisconnected callback r = r\<lparr>rg_onPeerDisconnected := Some callback\<rparr>"

definition OnPeerReConnected :: "(string \<Rightarrow> unit io) \<Rightarrow> registry \<Rightarrow> registry" where
  "OnPeerReConnected callback r = r\<lparr>rg_onPeerReConnected := Some callback\<rparr>"

text \<open>One peer of \<^verbatim>\<open>registerReadyPairs\<close>.\<close>

definition register_peer :: "string \<Rightarrow> registry \<Rightarrow> registry io" where
  "register_peer peerID r =
     (case gm_get (rg_readyMap r) peerID of
        None \<Rightarrow> do {
          call_hook (rg_onPeerConnected r) peerID;
          io_Go ''triggerECDHExchange'';
          State_Monad.return (r\<lparr>rg_readyCount := inc64 (rg_readyCount r),
                                rg_readyMap := gm_put peerID True (rg_readyMap r)\<rparr>) }
      | Some False \<Rightarrow> do {
          call_hook (rg_onPeerReConnected r) peerID;
          io_Go ''triggerECDHExchange'';
          State_Monad.return (r\<lparr>rg_readyCount := inc64 (rg_readyCount r),
                                rg_readyMap := gm_put peerID True (rg_readyMap r)\<rparr>) }
      | Some True \<Rightarrow> State_Monad.return (r\<lparr>rg_readyMap := gm_put peerID True (rg_readyMap r)\<rparr>))"

fun register_peers :: "string list \<Rightarrow> registry \<Rightarrow> registry io" where
  "register_peers [] r = State_Monad.return r"
| "register_peers (p # ps) r = do { r1 \<leftarrow> register_peer p r; register_peers ps r1 }"

definition registerReadyPairs :: "string list \<Rightarrow> registry \<Rightarrow> registry io" where
  "registerReadyPairs peerIDs r = do {
     r1 \<leftarrow> register_peers peerIDs r;
     State_Monad.return
       (if length peerIDs = length (rg_peerNodeIDs r1) \<and> \<not> rg_ready r1 then r1\<lparr>rg_ready := True\<rparr> else r1) }"

definition triggerECDHExchange :: "env \<Rightarrow> crypto \<Rightarrow> registry \<Rightarrow> fileStore \<Rightarrow> unit io" where
  "triggerECDHExchange E C r ids = do {
     err \<leftarrow> BroadcastPublicKey E C (rg_ecdhSession r) ids;
     State_Monad.return () }"

definition startECDHExchange ::
  "env \<Rightarrow> crypto \<Rightarrow> registry \<Rightarrow> fileStore \<Rightarrow> (go_error option \<times> registry) go_res io" where
  "startECDHExchange E C r ids = do {
     (err, e) \<leftarrow> ListenKeyExchange E C (rg_ecdhSession r);
     let r1 = r\<lparr>rg_ecdhSession := e\<rparr>;
     (case err of
        Some x \<Rightarrow> State_Monad.return (Ret (Some (wrapf ''failed to start ECDH listener'' x), r1))
      | None \<Rightarrow> do {
          b \<leftarrow> BroadcastPublicKey E C e ids;
          State_Monad.return
            (case b of
               Panic \<Rightarrow> Panic
             | Ret (Some x) \<Rightarrow> Ret (Some (wrapf ''failed to broadcast ECDH public key'' x), r1)
             | Ret None \<Rightarrow> Ret (None, r1)) }) }"

definition composeHealthCheckTopic :: "string \<Rightarrow> string" where
  "composeHealthCheckTopic nodeID = ''healthcheck:'' @ nodeID"

definition Ready :: "env \<Rightarrow> crypto \<Rightarrow> registry \<Rightarrow> fileStore \<Rightarrow> (go_error option \<times> registry) go_res io" where
  "Ready E C r ids = do {
     started \<leftarrow> startECDHExchange E C r ids;
     (case started of
        Panic \<Rightarrow> State_Monad.return Panic
      | Ret (Some x, r1) \<Rightarrow> State_Monad.return (Ret (Some (wrapf ''failed to start ECDH exchange'' x), r1))
      | Ret (None, r1) \<Rightarrow> do {
          err \<leftarrow> io_ConsulPut E (readyKey (rg_nodeID r1)) ''true'';
          (case err of
             Some x \<Rightarrow> State_Monad.return (Ret (Some (wrapf ''put ready key failed'' x), r1))
           | None \<Rightarrow> do {
               err \<leftarrow> io_Listen E (composeHealthCheckTopic (rg_nodeID r1));
               State_Monad.return (Ret
                 (case err of
                    Some x \<Rightarrow> (Some (wrapf ''listen health check failed'' x), r1)
                  | None \<Rightarrow> (None, r1))) }) }) }"

text \<open>The keys of the pairs a Consul listing returns; the entry of a key that does not parse is the empty string.\<close>

fun getReadyPeersFromKVStore :: "string \<Rightarrow> (string \<times> bytes) list \<Rightarrow> string list" where
  "getReadyPeersFromKVStore nodeID [] = []"
| "getReadyPeersFromKVStore nodeID ((k, _) # kvPairs) =
     (let (peerNodeID, err) = sscanf_word ''ready/'' k in
      if peerNodeID = nodeID then getReadyPeersFromKVStore nodeID kvPairs
      else peerNodeID # getReadyPeersFromKVStore nodeID kvPairs)"

text \<open>The peers marked ready, in the order of the walk over the map.\<close>

definition ready_peers :: "((string \<times> bool) list \<Rightarrow> (string \<times> bool) list) \<Rightarrow> registry \<Rightarrow> string list" where
  "ready_peers ord r = map fst (filter snd (ord (rg_readyMap r)))"

definition GetReadyPeersCount :: "registry \<Rightarrow> int" where
  "GetReadyPeersCount r = rg_readyCount r"

definition GetReadyPeersCountExcludeSelf :: "registry \<Rightarrow> int" where
  "GetReadyPeersCountExcludeSelf r = wrap64 (GetReadyPeersCount r - 1)"

definition GetReadyPeersIncludeSelf ::
  "((string \<times> bool) list \<Rightarrow> (string \<times> bool) list) \<Rightarrow> registry \<Rightarrow> string list" where
  "GetReadyPeersIncludeSelf ord r = ready_peers ord r @ [rg_nodeID r]"

definition GetTotalPeersCount :: "registry \<Rightarrow> int" where
  "GetTotalPeersCount r = int (length (rg_peerNodeIDs r)) + 1"

definition isECDHReady :: "registry \<Rightarrow> fileStore \<Rightarrow> bool" where
  "isECDHReady r ids =
     (let requiredKeyCount = GetReadyPeersCountExcludeSelf r in CheckSymmetricKeyComplete requiredKeyCount ids)"

definition ArePeersReady :: "registry \<Rightarrow> fileStore \<Rightarrow> bool" where
  "ArePeersReady r ids \<longleftrightarrow> rg_ready r \<and> isECDHReady r ids"

definition AreMajorityReady :: "registry \<Rightarrow> fileStore \<Rightarrow> bool" where
  "AreMajorityReady r ids \<longleftrightarrow>
     (let readyCount = GetReadyPeersCount r in readyCount \<ge> inc64 (rg_threshold r) \<and> isECDHReady r ids)"

definition Resign :: "env \<Rightarrow> registry \<Rightarrow> go_error option io" where
  "Resign E r = do {
     err \<leftarrow> io_ConsulDelete E (readyKey (rg_nodeID r));
     State_Monad.return (case err of Some x \<Rightarrow> Some (wrapf ''delete ready key failed'' x) | None \<Rightarrow> None) }"

text \<open>One peer that is no longer listed.\<close>

definition disconnect_peer :: "string \<Rightarrow> registry \<times> fileStore \<Rightarrow> (registry \<times> fileStore) io" where
  "disconnect_peer peerID st =
     (case st of (r, ids) \<Rightarrow> do {
        call_hook (rg_onPeerDisconnected r) peerID;
        State_Monad.return
          (r\<lparr>rg_readyMap := gm_put peerID False (rg_readyMap r), rg_readyCount := wrap64 (rg_readyCount r - 1)\<rparr>,
           RemovePeer peerID ids) })"

fun disconnect_peers :: "string list \<Rightarrow> registry \<times> fileStore \<Rightarrow> (registry \<times> fileStore) io" where
  "disconnect_peers [] st = State_Monad.return st"
| "disconnect_peers (p # ps) st = do { st1 \<leftarrow> disconnect_peer p st; disconnect_peers ps st1 }"

text \<open>One round of \<^verbatim>\<open>WatchPeersReady\<close>. A listing that failed is treated as an empty one.\<close>

definition watch_tick ::
  "env \<Rightarrow> (string list \<Rightarrow> string list \<Rightarrow> string list \<times> string list) \<Rightarrow>
   ((string \<times> bool) list \<Rightarrow> (string \<times> bool) list) \<Rightarrow> registry \<times> fileStore \<Rightarrow> (registry \<times> fileStore) io" where
  "watch_tick E D ord st =
     (case st of (r, ids) \<Rightarrow> do {
        pairs \<leftarrow> io_ConsulList E ''ready/'';
        let newReadyPeerIDs = getReadyPeersFromKVStore (rg_nodeID r) (case pairs of Inl _ \<Rightarrow> [] | Inr ks \<Rightarrow> ks);
        (r1, ids1) \<leftarrow>
          (if length newReadyPeerIDs \<noteq> length (rg_peerNodeIDs r)
           then disconnect_peers (fst (D (ready_peers ord r) newReadyPeerIDs)) (r\<lparr>rg_ready := False\<rparr>, ids)
           else State_Monad.return (r, ids));
        r2 \<leftarrow> registerReadyPairs newReadyPeerIDs r1;
        State_Monad.return (r2, ids1) })"

text \<open>The first \<open>n\<close> rounds of \<^verbatim>\<open>WatchPeersReady\<close>, which never returns.\<close>

fun watch_ticks ::
  "env \<Rightarrow> (string list \<Rightarrow> string list \<Rightarrow> string list \<times> string list) \<Rightarrow>
   ((string \<times> bool) list \<Rightarrow> (string \<times> bool) list) \<Rightarrow> nat \<Rightarrow> registry \<times> fileStore \<Rightarrow> (registry \<times> fileStore) io" where
  "watch_ticks E D ord 0 st = State_Monad.return st"
| "watch_ticks E D ord (Suc n) st = do { st1 \<leftarrow> watch_tick E D ord st; watch_ticks E D ord n st1 }"

definition WatchPeersReady ::
  "env \<Rightarrow> (string list \<Rightarrow> string list \<Rightarrow> string list \<times> string list) \<Rightarrow>
   ((string \<times> bool) list \<Rightarrow> (string \<times> bool) list) \<Rightarrow> nat \<Rightarrow> registry \<times> fileStore \<Rightarrow> (registry \<times> fileStore) io" where
  "WatchPeersReady E D ord rounds st = do { io_Go ''checkPeersHealth''; watch_ticks E D ord rounds st }"

subsection \<open>Health checks\<close>

definition composeHealthData :: "registry \<Rightarrow> fileStore \<Rightarrow> string" where
  "composeHealthData r ids = rg_nodeID r @ '','' @ fmt_t (isECDHReady r ids)"

definition parseHealthDataSplit :: "string \<Rightarrow> string \<times> bool \<times> go_error option" where
  "parseHealthDataSplit s =
     (case strings_SplitN CHR '','' 2 s of
        [peerID, flag] \<Rightarrow>
          (case strconv_ParseBool flag of
             None \<Rightarrow> ([], False, Some (errorf ''strconv.ParseBool: invalid syntax''))
           | Some ready \<Rightarrow> (peerID, ready, None))
      | _ \<Rightarrow> ([], False, Some (errorf ''invalid format'')))"

text \<open>The handler that \<^verbatim>\<open>Ready\<close> listens with: a text that does not parse counts as not ready.\<close>

definition on_health_check :: "bytes \<Rightarrow> unit io" where
  "on_health_check data =
     (case parseHealthDataSplit data of
        (peerID, isEcdhReady, _) \<Rightarrow>
          if \<not> isEcdhReady then io_Go ''triggerECDHExchange'' else State_Monad.return ())"

definition health_check_peer :: "env \<Rightarrow> registry \<Rightarrow> fileStore \<Rightarrow> string \<Rightarrow> unit io" where
  "health_check_peer E r ids peerID = do {
     err \<leftarrow> io_SendRetry E (composeHealthCheckTopic peerID) (composeHealthData r ids) 2;
     (case err of
        Some x \<Rightarrow>
          if strings_Contains (err_msg x) ''no responders'' then do {
            _ \<leftarrow> io_ConsulDelete E (readyKey peerID);
            State_Monad.return () }
          else State_Monad.return ()
      | None \<Rightarrow> State_Monad.return ()) }"

definition health_round :: "env \<Rightarrow> registry \<Rightarrow> fileStore \<Rightarrow> unit io" where
  "health_round E r ids = do {
     io_Sleep 5000;
     pairs \<leftarrow> io_ConsulList E ''ready/'';
     (case pairs of
        Inl err \<Rightarrow> State_Monad.return ()
      | Inr ks \<Rightarrow> for_each (health_check_peer E r ids) (getReadyPeersFromKVStore (rg_nodeID r) ks)) }"

section \<open>The map of ready peers\<close>

definition ready_set :: "registry \<Rightarrow> string set" where
  "ready_set r = {p. gm_get (rg_readyMap r) p = Some True}"

text \<open>The counter counts this node and the peers marked ready; this node is not one of them.\<close>

definition registry_inv :: "registry \<Rightarrow> bool" where
  "registry_inv r \<longleftrightarrow> gm_ok (rg_readyMap r) \<and> gm_get (rg_readyMap r) (rg_nodeID r) = None
     \<and> rg_readyCount r = wrap64 (1 + int (card (ready_set r)))"

lemma finite_ready_set [simp]: "finite (ready_set r)"
proof -
  have "ready_set r \<subseteq> dom (gm_get (rg_readyMap r))" by (auto simp: ready_set_def)
  then show ?thesis by (rule finite_subset) (simp add: finite_dom_map_of)
qed

text \<open>What every operation on the map leaves as it is.\<close>

definition registry_frame :: "registry \<Rightarrow> registry \<Rightarrow> bool" where
  "registry_frame r r' \<longleftrightarrow> rg_nodeID r' = rg_nodeID r \<and> rg_peerNodeIDs r' = rg_peerNodeIDs r
     \<and> rg_threshold r' = rg_threshold r \<and> rg_ecdhSession r' = rg_ecdhSession r"

lemma register_peer_run:
  "fst (run_state (register_peer p r) tr) =
     r\<lparr>rg_readyCount := (if p \<in> ready_set r then rg_readyCount r else inc64 (rg_readyCount r)),
       rg_readyMap := gm_put p True (rg_readyMap r)\<rparr>"
  by (simp add: register_peer_def ready_set_def io_defs call_hook_def run_state_bind
      split: option.split bool.split prod.split)

lemma ready_set_put:
  "ready_set (r\<lparr>rg_readyCount := c, rg_readyMap := gm_put p b (rg_readyMap r)\<rparr>) =
     (if b then insert p (ready_set r) else ready_set r - {p})"
  "ready_set (r\<lparr>rg_readyMap := gm_put p b (rg_readyMap r), rg_readyCount := c\<rparr>) =
     (if b then insert p (ready_set r) else ready_set r - {p})"
  by (auto simp: ready_set_def gm_simps)

lemma ready_set_rg_ready [simp]: "ready_set (r\<lparr>rg_ready := b\<rparr>) = ready_set r"
  by (simp add: ready_set_def)

lemma register_peer_inv:
  assumes "registry_inv r" and "p \<noteq> rg_nodeID r" and "r' = fst (run_state (register_peer p r) tr)"
  shows "registry_inv r' \<and> ready_set r' = insert p (ready_set r) \<and> registry_frame r r' \<and> rg_ready r' = rg_ready r"
  using assms
  by (auto simp: register_peer_run registry_inv_def registry_frame_def gm_simps ready_set_put insert_absorb
      wrap64_add)

lemma register_peers_inv:
  assumes "registry_inv r" and "rg_nodeID r \<notin> set ps" and "r' = fst (run_state (register_peers ps r) tr)"
  shows "registry_inv r' \<and> ready_set r' = ready_set r \<union> set ps \<and> registry_frame r r' \<and> rg_ready r' = rg_ready r"
  using assms
proof (induction ps arbitrary: r tr)
  case Nil
  then show ?case by (simp add: registry_frame_def)
next
  case (Cons p ps)
  let ?r1 = "fst (run_state (register_peer p r) tr)"
  have one: "registry_inv ?r1" "ready_set ?r1 = insert p (ready_set r)" "registry_frame r ?r1" "rg_ready ?r1 = rg_ready r"
    using register_peer_inv [OF Cons.prems(1) _ refl] Cons.prems(2) by auto
  obtain tr1 where r': "r' = fst (run_state (register_peers ps ?r1) tr1)"
    using Cons.prems(3) by (auto simp: run_state_bind split: prod.splits)
  have "rg_nodeID ?r1 \<notin> set ps" using one(3) Cons.prems(2) by (simp add: registry_frame_def)
  from Cons.IH [OF one(1) this r'] one show ?case by (auto simp: registry_frame_def)
qed

lemma registerReadyPairs_inv:
  assumes "registry_inv r" and "rg_nodeID r \<notin> set ps" and "r' = fst (run_state (registerReadyPairs ps r) tr)"
  shows "registry_inv r' \<and> ready_set r' = ready_set r \<union> set ps \<and> registry_frame r r'
    \<and> (rg_ready r' \<longleftrightarrow> rg_ready r \<or> length ps = length (rg_peerNodeIDs r))"
proof -
  let ?r1 = "fst (run_state (register_peers ps r) tr)"
  have one: "registry_inv ?r1" "ready_set ?r1 = ready_set r \<union> set ps" "registry_frame r ?r1" "rg_ready ?r1 = rg_ready r"
    using register_peers_inv [OF assms(1,2) refl] by auto
  have r': "r' = (if length ps = length (rg_peerNodeIDs ?r1) \<and> \<not> rg_ready ?r1 then ?r1\<lparr>rg_ready := True\<rparr> else ?r1)"
    using assms(3) by (simp add: registerReadyPairs_def run_state_bind split: prod.split)
  have "ready_set r' = ready_set ?r1" "registry_inv r'" "registry_frame r r'"
    using one unfolding r' by (auto simp: registry_inv_def registry_frame_def)
  moreover have "rg_ready r' \<longleftrightarrow> rg_ready r \<or> length ps = length (rg_peerNodeIDs r)"
    using one(3,4) unfolding r' registry_frame_def by auto
  ultimately show ?thesis using one(2) by simp
qed

lemma disconnect_peer_run:
  "fst (run_state (disconnect_peer p (r, ids)) tr) =
     (r\<lparr>rg_readyMap := gm_put p False (rg_readyMap r), rg_readyCount := wrap64 (rg_readyCount r - 1)\<rparr>,
      RemovePeer p ids)"
  by (simp add: disconnect_peer_def run_state_bind split: prod.split)

lemma disconnect_peer_inv:
  assumes "registry_inv r" and "p \<in> ready_set r" and "(r', ids') = fst (run_state (disconnect_peer p (r, ids)) tr)"
  shows "registry_inv r' \<and> ready_set r' = ready_set r - {p} \<and> registry_frame r r' \<and> rg_ready r' = rg_ready r
    \<and> ids' = RemoveSymmetricKey p ids"
proof -
  have p: "p \<noteq> rg_nodeID r" using assms(1,2) by (auto simp: registry_inv_def ready_set_def)
  have c: "1 + int (card (ready_set r)) - 1 = 1 + int (card (ready_set r - {p}))"
    using card_Suc_Diff1 [OF finite_ready_set assms(2)] by linarith
  have r': "r' = r\<lparr>rg_readyMap := gm_put p False (rg_readyMap r), rg_readyCount := wrap64 (rg_readyCount r - 1)\<rparr>"
    and ids': "ids' = RemovePeer p ids"
    using assms(3) by (simp_all add: disconnect_peer_run)
  have s: "ready_set r' = ready_set r - {p}" unfolding r' ready_set_put by simp
  have "rg_readyCount r' = wrap64 (rg_readyCount r - 1)" by (simp add: r')
  also have "rg_readyCount r = wrap64 (1 + int (card (ready_set r)))" using assms(1) by (simp add: registry_inv_def)
  also have "wrap64 (\<dots> - 1) = wrap64 (1 + int (card (ready_set r)) - 1)" by (rule wrap64_diff)
  finally have "rg_readyCount r' = wrap64 (1 + int (card (ready_set r')))" unfolding s c .
  moreover have "gm_ok (rg_readyMap r')" "gm_get (rg_readyMap r') (rg_nodeID r') = None"
    using assms(1) p by (simp_all add: r' registry_inv_def gm_simps)
  ultimately show ?thesis using s by (simp add: registry_inv_def) (simp add: r' ids' registry_frame_def RemovePeer_def)
qed

lemma disconnect_peers_inv:
  assumes "registry_inv r" and "set ps \<subseteq> ready_set r" and "distinct ps"
    and "(r', ids') = fst (run_state (disconnect_peers ps (r, ids)) tr)"
  shows "registry_inv r' \<and> ready_set r' = ready_set r - set ps \<and> registry_frame r r' \<and> rg_ready r' = rg_ready r
    \<and> ids' = fold RemoveSymmetricKey ps ids"
  using assms
proof (induction ps arbitrary: r ids tr)
  case Nil
  then show ?case by (simp add: registry_frame_def)
next
  case (Cons p ps)
  obtain r1 ids1 where st: "fst (run_state (disconnect_peer p (r, ids)) tr) = (r1, ids1)"
    by fastforce
  have "p \<in> ready_set r" using Cons.prems(2) by simp
  from disconnect_peer_inv [OF Cons.prems(1) this st [symmetric]]
  have one: "registry_inv r1" "ready_set r1 = ready_set r - {p}" "registry_frame r r1" "rg_ready r1 = rg_ready r"
    "ids1 = RemoveSymmetricKey p ids" by auto
  obtain tr1 where r': "(r', ids') = fst (run_state (disconnect_peers ps (r1, ids1)) tr1)"
    using Cons.prems(4) st by (auto simp: run_state_bind split: prod.splits)
  have "set ps \<subseteq> ready_set r1" "distinct ps" using Cons.prems(2,3) one(2) by auto
  from Cons.IH [OF one(1) this r'] one show ?case by (auto simp: registry_frame_def)
qed

lemma ready_peers_set:
  assumes "map_order_ok ord" and "gm_ok (rg_readyMap r)"
  shows "set (ready_peers ord r) = ready_set r" and "distinct (ready_peers ord r)"
proof -
  have m: "mset (ord (rg_readyMap r)) = mset (rg_readyMap r)" using assms(1) by (simp add: map_order_ok_def)
  then have s: "set (ord (rg_readyMap r)) = set (rg_readyMap r)" by (metis set_mset_mset)
  have "set (ready_peers ord r) = fst ` {e \<in> set (rg_readyMap r). snd e}"
    by (simp add: ready_peers_def s)
  also have "\<dots> = {p. (p, True) \<in> set (rg_readyMap r)}" by force
  finally show "set (ready_peers ord r) = ready_set r"
    using assms(2) by (simp add: ready_set_def map_of_eq_Some_iff)
  have "mset (map fst (ord (rg_readyMap r))) = mset (map fst (rg_readyMap r))" using m by simp
  then have "distinct (map fst (ord (rg_readyMap r)))" using assms(2) by (metis mset_eq_imp_distinct_iff)
  then show "distinct (ready_peers ord r)" unfolding ready_peers_def by (rule distinct_map_filter)
qed

lemma getReadyPeers_not_self: "n \<notin> set (getReadyPeersFromKVStore n ks)"
  by (induction n ks rule: getReadyPeersFromKVStore.induct) (auto simp: Let_def split: prod.split)

section \<open>Rounds of the watcher\<close>

text \<open>The peers a listing names: none after a failed listing.\<close>

definition listed_peers :: "env \<Rightarrow> registry \<Rightarrow> call list \<Rightarrow> string list" where
  "listed_peers E r tr =
     getReadyPeersFromKVStore (rg_nodeID r) (case en_ConsulList E tr ''ready/'' of Inl _ \<Rightarrow> [] | Inr ks \<Rightarrow> ks)"

lemma lo_Difference_fst: "lo_Difference_ok D \<Longrightarrow> fst (D a b) = filter (\<lambda>x. x \<notin> set b) a"
  by (simp add: lo_Difference_ok_def)

lemma watch_tick_run:
  assumes "registry_inv r" and "map_order_ok ord" and "lo_Difference_ok D"
    and "fst (run_state (watch_tick E D ord (r, ids)) tr) = (r', ids')"
  shows "registry_inv r' \<and> registry_frame r r'
    \<and> (rg_ready r' \<longleftrightarrow> length (listed_peers E r tr) = length (rg_peerNodeIDs r) )
    \<and> (if length (listed_peers E r tr) \<noteq> length (rg_peerNodeIDs r)
       then ready_set r' = set (listed_peers E r tr)
          \<and> ids' = fold RemoveSymmetricKey (filter (\<lambda>p. p \<notin> set (listed_peers E r tr)) (ready_peers ord r)) ids
       else ready_set r' = ready_set r \<union> set (listed_peers E r tr) \<and> ids' = ids)"
proof -
  let ?N = "listed_peers E r tr"
  have notself: "rg_nodeID r \<notin> set ?N" by (simp add: listed_peers_def getReadyPeers_not_self)
  note rp = ready_peers_set [OF assms(2), of r]
  have ok: "gm_ok (rg_readyMap r)" using assms(1) by (simp add: registry_inv_def)
  show ?thesis
  proof (cases "length ?N = length (rg_peerNodeIDs r)")
    case True
    have "(r', ids') = (fst (run_state (registerReadyPairs ?N r) (tr @ [ConsulList ''ready/''])), ids)"
      using assms(4) True
      by (simp add: watch_tick_def io_defs Let_def run_state_bind listed_peers_def split: prod.splits sum.splits)
    then have "r' = fst (run_state (registerReadyPairs ?N r) (tr @ [ConsulList ''ready/'']))" and i: "ids' = ids"
      by simp_all
    from registerReadyPairs_inv [OF assms(1) notself this(1)] True i show ?thesis by simp
  next
    case False
    let ?gone = "filter (\<lambda>p. p \<notin> set ?N) (ready_peers ord r)"
    let ?r0 = "r\<lparr>rg_ready := False\<rparr>"
    obtain r1 ids1 tr1 where st: "run_state (disconnect_peers ?gone (?r0, ids)) (tr @ [ConsulList ''ready/'']) = ((r1, ids1), tr1)"
      by (metis prod.exhaust)
    have r': "r' = fst (run_state (registerReadyPairs ?N r1) tr1)" and i: "ids' = ids1"
      using assms(4) False st lo_Difference_fst [OF assms(3)]
      by (simp_all add: watch_tick_def io_defs Let_def run_state_bind listed_peers_def split: prod.splits sum.splits)
    have "registry_inv ?r0" using assms(1) by (simp add: registry_inv_def)
    then have one: "registry_inv r1" "ready_set r1 = ready_set r - set ?gone" "registry_frame ?r0 r1" "rg_ready r1 = False"
      "ids1 = fold RemoveSymmetricKey ?gone ids"
      using disconnect_peers_inv [of ?r0 ?gone r1 ids1 ids "tr @ [ConsulList ''ready/'']"] rp [OF ok] st by auto
    have "rg_nodeID r1 \<notin> set ?N" using one(3) notself by (simp add: registry_frame_def)
    from registerReadyPairs_inv [OF one(1) this r'] one i False rp(1) [OF ok] show ?thesis
      by (auto simp: registry_frame_def)
  qed
qed

text \<open>
  After one round of the watcher the registry is consistent (the counter is one more than the number
  of peers marked ready), and the ready flag says whether the listing named as many peers as are
  configured. If it did not, exactly the listed peers are marked ready and every peer that was marked
  and is no longer listed has lost its symmetric key, while all other keys are kept. If it did, the
  listed peers are added to the ones marked ready and no peer is marked off.
\<close>

lemma watch_tick_effect:
  assumes "registry_inv r" and "map_order_ok ord" and "lo_Difference_ok D"
    and "fst (run_state (watch_tick E D ord (r, ids)) tr) = (r', ids')"
    and "N = listed_peers E r tr"
  shows "registry_inv r'
    \<and> (rg_ready r' \<longleftrightarrow> length N = length (rg_peerNodeIDs r))
    \<and> ready_set r' = (if length N = length (rg_peerNodeIDs r) then ready_set r \<union> set N else set N)
    \<and> keyed_peers ids' = (if length N = length (rg_peerNodeIDs r) then keyed_peers ids
                          else keyed_peers ids - (ready_set r - set N))"
proof -
  have ok: "gm_ok (rg_readyMap r)" using assms(1) by (simp add: registry_inv_def)
  have gone: "set (filter (\<lambda>p. p \<notin> set N) (ready_peers ord r)) = ready_set r - set N"
    using ready_peers_set(1) [OF assms(2) ok] by auto
  show ?thesis
    using watch_tick_run [OF assms(1-4)] gone symkeys.keyed_dels [of _ ids] by (auto simp: assms(5) split: if_splits)
qed

text \<open>A registry of a cluster of three that has just started.\<close>

definition registry_ref :: registry where
  "registry_ref =
     \<lparr>rg_nodeID = ''n1'', rg_peerNodeIDs = [''n2'', ''n3''], rg_readyMap = [], rg_readyCount = 1, rg_ready = False,
      rg_ecdhSession = ecdh_ref ''n1'' ''x'', rg_threshold = 1, rg_onPeerConnected = None,
      rg_onPeerDisconnected = None, rg_onPeerReConnected = None\<rparr>"

lemma registry_ref_inv: "registry_inv registry_ref"
  by (simp add: registry_inv_def registry_ref_def ready_set_def wrap64_def)

definition env_listing :: "string list \<Rightarrow> env" where
  "env_listing ks = env_ref\<lparr>en_ConsulList := \<lambda>_ _. Inr (map (\<lambda>k. (k, ''true'')) ks)\<rparr>"

lemma watch_tick_effect_example:
  "ready_set (fst (fst (run_state (watch_tick (env_listing [''ready/n1'', ''ready/n2'']) lo_Difference_ref (\<lambda>xs. xs)
     (registry_ref, ecdh_store_ref CHR ''a'' ''n2'' CHR ''b'')) []))) = {''n2''}"
proof -
  let ?E = "env_listing [''ready/n1'', ''ready/n2'']"
  have l: "listed_peers ?E registry_ref [] = [''n2'']"
    by (simp add: listed_peers_def env_listing_def registry_ref_def sscanf_word_def strings_HasPrefix_def is_space_def)
  show ?thesis
    using watch_tick_effect [OF registry_ref_inv map_order_id lo_Difference_ref_ok surjective_pairing
        l [symmetric], of "ecdh_store_ref CHR ''a'' ''n2'' CHR ''b''"]
    by (simp add: registry_ref_def)
qed

text \<open>
  A round whose listing fails marks every peer off, leaves this node alone in the count and deletes
  the symmetric key of every peer that was marked ready, although no peer went away.
\<close>

lemma watch_tick_list_failure:
  assumes "registry_inv r" and "map_order_ok ord" and "lo_Difference_ok D" and "rg_peerNodeIDs r \<noteq> []"
    and "en_ConsulList E tr ''ready/'' = Inl err"
    and "fst (run_state (watch_tick E D ord (r, ids)) tr) = (r', ids')"
  shows "ready_set r' = {} \<and> GetReadyPeersCount r' = 1 \<and> \<not> rg_ready r'
    \<and> keyed_peers ids' = keyed_peers ids - ready_set r"
proof -
  have N: "listed_peers E r tr = []" using assms(5) by (simp add: listed_peers_def)
  have ok: "gm_ok (rg_readyMap r)" using assms(1) by (simp add: registry_inv_def)
  from watch_tick_run [OF assms(1-3,6)] assms(4) N ready_peers_set(1) [OF assms(2) ok] show ?thesis
    by (simp add: registry_inv_def GetReadyPeersCount_def wrap64_def symkeys.keyed_dels)
qed

lemma watch_tick_list_failure_example:
  "GetReadyPeersCount (fst (fst (run_state (watch_tick (env_ref\<lparr>en_ConsulList := \<lambda>_ _. Inl (errorf ''down'')\<rparr>)
     lo_Difference_ref (\<lambda>xs. xs)
     (registry_ref\<lparr>rg_readyMap := [(''n2'', True)], rg_readyCount := 2\<rparr>, ecdh_store_ref CHR ''a'' ''n2'' CHR ''b'')) []))) = 1"
proof -
  have s: "ready_set (registry_ref\<lparr>rg_readyMap := [(''n2'', True)], rg_readyCount := 2\<rparr>) = {''n2''}"
    by (auto simp: ready_set_def split: if_splits)
  have i: "registry_inv (registry_ref\<lparr>rg_readyMap := [(''n2'', True)], rg_readyCount := 2\<rparr>)"
    unfolding registry_inv_def s by (simp add: registry_ref_def wrap64_def)
  show ?thesis
    using watch_tick_list_failure [OF i map_order_id lo_Difference_ref_ok _ _ surjective_pairing,
        of "env_ref\<lparr>en_ConsulList := \<lambda>_ _. Inl (errorf ''down'')\<rparr>" "[]" "errorf ''down''"
           "ecdh_store_ref CHR ''a'' ''n2'' CHR ''b''"]
    by (simp add: registry_ref_def)
qed

section \<open>Reachable states\<close>

text \<open>
  The registry and the identity store of a running node: a round of the watcher, a key exchange message,
  the call of \<^verbatim>\<open>Ready\<close>, and the registration of a callback, in any order and after any history.
\<close>

inductive registry_step ::
  "(string list \<Rightarrow> string list \<Rightarrow> string list \<times> string list) \<Rightarrow>
   ((string \<times> bool) list \<Rightarrow> (string \<times> bool) list) \<Rightarrow> env \<Rightarrow> crypto \<Rightarrow>
   registry \<times> fileStore \<Rightarrow> registry \<times> fileStore \<Rightarrow> bool"
  for D :: "string list \<Rightarrow> string list \<Rightarrow> string list \<times> string list"
    and ord :: "(string \<times> bool) list \<Rightarrow> (string \<times> bool) list" and E :: env and C :: crypto where
  tick: "fst (run_state (watch_tick E D ord (r, ids)) tr) = (r', ids') \<Longrightarrow> registry_step D ord E C (r, ids) (r', ids')"
| exchange: "fst (run_state (on_ecdh_message C (rg_ecdhSession r) ids data) tr) = ids' \<Longrightarrow>
    registry_step D ord E C (r, ids) (r, ids')"
| ready: "fst (run_state (Ready E C r ids) tr) = Ret (err, r') \<Longrightarrow> registry_step D ord E C (r, ids) (r', ids)"
| hook_connected: "registry_step D ord E C (r, ids) (OnPeerConnected f r, ids)"
| hook_disconnected: "registry_step D ord E C (r, ids) (OnPeerDisconnected f r, ids)"
| hook_reconnected: "registry_step D ord E C (r, ids) (OnPeerReConnected f r, ids)"

inductive_cases registry_stepE: "registry_step D ord E C (r, ids) st'"

definition registry_reach ::
  "(string list \<Rightarrow> string list \<Rightarrow> string list \<times> string list) \<Rightarrow>
   ((string \<times> bool) list \<Rightarrow> (string \<times> bool) list) \<Rightarrow> env \<Rightarrow> crypto \<Rightarrow>
   registry \<times> fileStore \<Rightarrow> registry \<times> fileStore \<Rightarrow> bool" where
  "registry_reach D ord E C = (registry_step D ord E C)\<^sup>*\<^sup>*"

text \<open>What \<^verbatim>\<open>Ready\<close> changes: only the key exchange session.\<close>

lemma Ready_frame:
  "fst (run_state (Ready E C r ids) tr) = Ret (err, r') \<Longrightarrow> \<exists>e. r' = r\<lparr>rg_ecdhSession := e\<rparr>"
  by (auto simp: Ready_def startECDHExchange_def run_state_bind io_defs Let_def
      split: prod.splits go_res.splits option.splits)

lemma registry_inv_frame [simp]:
  "registry_inv (r\<lparr>rg_ecdhSession := e\<rparr>) = registry_inv r"
  "registry_inv (OnPeerConnected f r) = registry_inv r"
  "registry_inv (OnPeerDisconnected f r) = registry_inv r"
  "registry_inv (OnPeerReConnected f r) = registry_inv r"
  by (simp_all add: registry_inv_def ready_set_def OnPeerConnected_def OnPeerDisconnected_def OnPeerReConnected_def)

definition same_config :: "registry \<Rightarrow> registry \<Rightarrow> bool" where
  "same_config r r' \<longleftrightarrow> rg_nodeID r' = rg_nodeID r \<and> rg_peerNodeIDs r' = rg_peerNodeIDs r \<and> rg_threshold r' = rg_threshold r"

lemma registry_step_inv:
  assumes "registry_step D ord E C (r, ids) (r', ids')" and "map_order_ok ord" and "lo_Difference_ok D" and "registry_inv r"
  shows "registry_inv r' \<and> same_config r r'"
  using assms(1)
proof (cases rule: registry_step.cases)
  case (tick tr)
  from watch_tick_run [OF assms(4,2,3) this] show ?thesis by (simp add: registry_frame_def same_config_def)
next
  case (ready tr err)
  from Ready_frame [OF this(2)] assms(4) show ?thesis by (auto simp: same_config_def)
qed (use assms(4) in \<open>simp_all add: same_config_def OnPeerConnected_def OnPeerDisconnected_def OnPeerReConnected_def
        registry_inv_frame [unfolded OnPeerConnected_def OnPeerDisconnected_def OnPeerReConnected_def]\<close>)

lemma registry_reach_inv:
  assumes "registry_reach D ord E C st st'" and "map_order_ok ord" and "lo_Difference_ok D" and "registry_inv (fst st)"
  shows "registry_inv (fst st') \<and> same_config (fst st) (fst st')"
  using assms(1) unfolding registry_reach_def
proof (induction rule: rtranclp_induct)
  case base
  show ?case using assms(4) by (simp add: same_config_def)
next
  case (step y z)
  then show ?case
    using registry_step_inv [of D ord E C "fst y" "snd y" "fst z" "snd z", OF _ assms(2,3)]
    by (auto simp: same_config_def)
qed

lemma NewRegistry_run:
  assumes "fst (run_state (NewRegistry F nodeID peers t) tr) = Ret r"
  shows "registry_inv r \<and> rg_nodeID r = nodeID \<and> rg_threshold r = t \<and> t \<ge> 1
    \<and> rg_peerNodeIDs r = F peers (\<lambda>p. p \<noteq> nodeID)"
  using assms
  by (auto simp: NewRegistry_def io_defs registry_inv_def ready_set_def wrap64_def Let_def split: if_splits)

section \<open>The interface of the registry\<close>

text \<open>
  What the node relies on: the list of ready peers has no repetition and contains the node itself, and the
  count is its length.
\<close>

locale peer_registry =
  fixes inv :: "'r \<Rightarrow> bool" and node_of :: "'r \<Rightarrow> string"
    and ready_list :: "'r \<Rightarrow> string list" and ready_count :: "'r \<Rightarrow> int"
  assumes ready_distinct: "inv r \<Longrightarrow> distinct (ready_list r)"
    and ready_self: "node_of r \<in> set (ready_list r)"
    and count_length: "inv r \<Longrightarrow> int (length (ready_list r)) < 2 ^ 63 \<Longrightarrow> ready_count r = int (length (ready_list r))"
begin

text \<open>A committee without repetition whose members are all ready is no larger than the count.\<close>

lemma committee_bound:
  assumes "inv r" and "int (length (ready_list r)) < 2 ^ 63" and "distinct ps" and "set ps \<subseteq> set (ready_list r)"
  shows "int (length ps) \<le> ready_count r"
proof -
  have "length ps \<le> length (ready_list r)"
    using assms(3,4) ready_distinct [OF assms(1)] by (metis card_mono distinct_card List.finite_set)
  then show ?thesis using count_length [OF assms(1,2)] by simp
qed

end

lemma ready_list_facts:
  assumes "map_order_ok ord" and "registry_inv r"
  shows "distinct (GetReadyPeersIncludeSelf ord r)" and "set (GetReadyPeersIncludeSelf ord r) = insert (rg_nodeID r) (ready_set r)"
    and "length (GetReadyPeersIncludeSelf ord r) = Suc (card (ready_set r))"
proof -
  have ok: "gm_ok (rg_readyMap r)" and self: "rg_nodeID r \<notin> ready_set r"
    using assms(2) by (auto simp: registry_inv_def ready_set_def)
  note rp = ready_peers_set [OF assms(1) ok]
  show "distinct (GetReadyPeersIncludeSelf ord r)" and "set (GetReadyPeersIncludeSelf ord r) = insert (rg_nodeID r) (ready_set r)"
    using rp self by (auto simp: GetReadyPeersIncludeSelf_def)
  show "length (GetReadyPeersIncludeSelf ord r) = Suc (card (ready_set r))"
    using rp by (metis GetReadyPeersIncludeSelf_def distinct_card length_append_singleton)
qed

lemma GetReadyPeersCount_small:
  assumes "registry_inv r" and "int (card (ready_set r)) < 2 ^ 63 - 1"
  shows "GetReadyPeersCount r = 1 + int (card (ready_set r))"
  using assms by (simp add: registry_inv_def GetReadyPeersCount_def wrap64_id in_int64_def)

text \<open>The walk order of the map is part of the state the interface is read from.\<close>

definition view_inv :: "((string \<times> bool) list \<Rightarrow> (string \<times> bool) list) \<times> registry \<Rightarrow> bool" where
  "view_inv v \<longleftrightarrow> map_order_ok (fst v) \<and> registry_inv (snd v)"

definition view_list :: "((string \<times> bool) list \<Rightarrow> (string \<times> bool) list) \<times> registry \<Rightarrow> string list" where
  "view_list v = GetReadyPeersIncludeSelf (fst v) (snd v)"

interpretation registry_if: peer_registry view_inv "\<lambda>v. rg_nodeID (snd v)" view_list "\<lambda>v. GetReadyPeersCount (snd v)"
proof
  fix v :: "((string \<times> bool) list \<Rightarrow> (string \<times> bool) list) \<times> registry"
  show "rg_nodeID (snd v) \<in> set (view_list v)" by (simp add: view_list_def GetReadyPeersIncludeSelf_def)
  assume "view_inv v"
  then have o: "map_order_ok (fst v)" and inv: "registry_inv (snd v)" by (simp_all add: view_inv_def)
  note f = ready_list_facts [OF o inv]
  show "distinct (view_list v)" unfolding view_list_def by (rule f(1))
  assume "int (length (view_list v)) < 2 ^ 63"
  then show "GetReadyPeersCount (snd v) = int (length (view_list v))"
    using GetReadyPeersCount_small [OF inv] f(3) by (simp add: view_list_def)
qed



section \<open>Majority\<close>

text \<open>
  AreMajorityReady holds exactly when at least threshold plus one nodes, this one included, are marked
  ready and the number of symmetric keys held equals the number of ready peers.
\<close>

lemma majority_ready_iff:
  assumes "registry_inv r" and "int (card (ready_set r)) < 2 ^ 63 - 1" and "fileStore_ok ids"
    and "- (2 ^ 63) \<le> rg_threshold r" and "rg_threshold r < 2 ^ 63 - 1"
  shows "AreMajorityReady r ids \<longleftrightarrow>
    int (card (ready_set r)) \<ge> rg_threshold r \<and> card (keyed_peers ids) = card (ready_set r)"
proof -
  have c: "GetReadyPeersCount r = 1 + int (card (ready_set r))" by (rule GetReadyPeersCount_small [OF assms(1,2)])
  have e: "GetReadyPeersCountExcludeSelf r = int (card (ready_set r))"
    using assms(2) by (simp add: GetReadyPeersCountExcludeSelf_def c wrap64_id in_int64_def)
  have k: "length (symmetricKeys ids) = card (keyed_peers ids)"
    using symkeys.count_keyed [OF assms(3)] by (simp add: GetSymmetricKeyCount_def)
  show ?thesis
    using inc64_small [OF assms(4,5)]
    by (auto simp: AreMajorityReady_def isECDHReady_def c e k CheckSymmetricKeyComplete_def Let_def)
qed

lemma majority_ready_iff_example:
  "AreMajorityReady (registry_ref\<lparr>rg_readyMap := [(''n2'', True)], rg_readyCount := 2\<rparr>)
     (SetSymmetricKey ''n2'' (Some ''k'') (ecdh_store_ref CHR ''a'' ''n2'' CHR ''b''))"
proof -
  let ?r = "registry_ref\<lparr>rg_readyMap := [(''n2'', True)], rg_readyCount := 2\<rparr>"
  have s: "ready_set ?r = {''n2''}" by (auto simp: ready_set_def split: if_splits)
  have i: "registry_inv ?r" unfolding registry_inv_def s by (simp add: registry_ref_def wrap64_def)
  show ?thesis
    using majority_ready_iff [OF i, of "SetSymmetricKey ''n2'' (Some ''k'') (ecdh_store_ref CHR ''a'' ''n2'' CHR ''b'')"]
    unfolding s
    by (simp add: symkeys.ok_put fileStore_ok_def ecdh_store_ref_def registry_ref_def keyed_peers_def SetSymmetricKey_def)
qed

text \<open>
  The check only compares numbers: from a fresh registry, a round that lists \<^verbatim>\<open>n2\<close> and a key exchange
  with \<^verbatim>\<open>n3\<close> lead to a state in which a majority is reported ready although \<^verbatim>\<open>n2\<close>, the only ready peer,
  has no symmetric key.
\<close>

lemma majority_ready_without_key:
  "\<exists>E r' ids'. registry_reach lo_Difference_ref (\<lambda>xs. xs) E crypto_ref
       (registry_ref, ecdh_store_ref CHR ''a'' ''n3'' CHR ''b'') (r', ids')
     \<and> AreMajorityReady r' ids' \<and> GetReadyPeersIncludeSelf (\<lambda>xs. xs) r' = [''n2'', ''n1'']
     \<and> (\<forall>k. GetSymmetricKey ''n2'' ids' \<noteq> Inr k)"
proof -
  let ?E = "env_listing [''ready/n1'', ''ready/n2'']"
  let ?ids = "ecdh_store_ref CHR ''a'' ''n3'' CHR ''b''"
  let ?r = "registry_ref\<lparr>rg_readyCount := 2, rg_readyMap := [(''n2'', True)]\<rparr>"
  obtain key where key: "run_state (on_ecdh_message crypto_ref (rg_ecdhSession ?r) ?ids (ecdh_data_ref ''n3'' ''z'' CHR ''b'')) [] =
      (SetSymmetricKey ''n3'' key ?ids, [])"
    using ecdh_data_ref_run [of "''n3''" "''n1''"] by (simp add: registry_ref_def)
  let ?ids' = "SetSymmetricKey ''n3'' key ?ids"
  have "fst (run_state (watch_tick ?E lo_Difference_ref (\<lambda>xs. xs) (registry_ref, ?ids)) []) = (?r, ?ids)"
    by (simp add: watch_tick_def env_listing_def io_defs registry_ref_def sscanf_word_def strings_HasPrefix_def is_space_def
        ready_peers_def lo_Difference_ref_def registerReadyPairs_def register_peer_def call_hook_def wrap64_def)
  then have "registry_step lo_Difference_ref (\<lambda>xs. xs) ?E crypto_ref (registry_ref, ?ids) (?r, ?ids)"
    by (rule registry_step.tick)
  moreover have "registry_step lo_Difference_ref (\<lambda>xs. xs) ?E crypto_ref (?r, ?ids) (?r, ?ids')"
    by (rule registry_step.exchange [where data = "ecdh_data_ref ''n3'' ''z'' CHR ''b''" and tr = "[]"]) (simp only: key fst_conv)
  ultimately have "registry_reach lo_Difference_ref (\<lambda>xs. xs) ?E crypto_ref (registry_ref, ?ids) (?r, ?ids')"
    unfolding registry_reach_def by (meson rtranclp.rtrancl_into_rtrancl rtranclp.rtrancl_refl)
  moreover have "AreMajorityReady ?r ?ids'"
    by (simp add: AreMajorityReady_def GetReadyPeersCount_def isECDHReady_def GetReadyPeersCountExcludeSelf_def
        registry_ref_def CheckSymmetricKeyComplete_def SetSymmetricKey_def ecdh_store_ref_def wrap64_def)
  moreover have "GetReadyPeersIncludeSelf (\<lambda>xs. xs) ?r = [''n2'', ''n1'']"
    by (simp add: GetReadyPeersIncludeSelf_def ready_peers_def registry_ref_def)
  moreover have "GetSymmetricKey ''n2'' ?ids' \<noteq> Inr k" for k
    by (simp add: symkeys.get_put) (simp add: ecdh_store_ref_def GetSymmetricKey_def)
  ultimately show ?thesis by blast
qed

section \<open>Health checks\<close>

lemma strconv_ParseBool_fmt_t: "strconv_ParseBool (fmt_t b) = Some b"
  by (simp add: strconv_ParseBool_def fmt_t_def)

text \<open>
  The text of a health check parses back to the sender and its readiness, when the node ID has no comma.
\<close>

lemma health_data_round_trip:
  assumes "CHR '','' \<notin> set (rg_nodeID r)"
  shows "parseHealthDataSplit (composeHealthData r ids) = (rg_nodeID r, isECDHReady r ids, None)"
proof -
  have "strings_SplitN CHR '','' 2 (composeHealthData r ids) = [rg_nodeID r, fmt_t (isECDHReady r ids)]"
    using strings_SplitN_cons [OF assms, of 0 "fmt_t (isECDHReady r ids)"]
    by (simp add: composeHealthData_def numeral_2_eq_2)
  then show ?thesis by (simp add: parseHealthDataSplit_def strconv_ParseBool_fmt_t)
qed

lemma health_data_round_trip_example:
  "parseHealthDataSplit (composeHealthData registry_ref (ecdh_store_ref CHR ''a'' ''n2'' CHR ''b'')) = (''n1'', True, None)"
  by (subst health_data_round_trip)
     (simp_all add: registry_ref_def isECDHReady_def GetReadyPeersCountExcludeSelf_def GetReadyPeersCount_def
        CheckSymmetricKeyComplete_def ecdh_store_ref_def wrap64_def)

lemma health_check_peer_emits:
  "emits_only (\<lambda>c. c \<in> {SendRetry (composeHealthCheckTopic p) (composeHealthData r ids) 2, ConsulDelete (readyKey p)})
     (health_check_peer E r ids p)"
  unfolding health_check_peer_def io_defs by (intro emits) simp_all

end
