(* ===== verification/Mpc_Node.thy ===== *)
theory Mpc_Node
  imports Ecdsa_Session Eddsa_Session Peer_Registry
begin

text \<open>
  \<^verbatim>\<open>pkg/mpc/node.go\<close>: the node creates key generation, signing and resharing sessions from the state of the
  peer registry and the stored key information, and keeps the ECDSA pre-parameters.

  The registry runs concurrently, so an operation that asks it several times may see different states.
  The argument \<open>R\<close> gives the registry and the identity store at the first, second and third question of
  a call. The libraries and services a node is built with are gathered in the record \<open>node_env\<close>.
  \<^verbatim>\<open>logger.Fatal\<close> ends the process, which the result \<open>Panic\<close> stands for.
\<close>

record node_env =
  ne_E :: env
  ne_C :: crypto
  ne_T :: tss_lib
  ne_L_ecdsa :: share_lib
  ne_L_eddsa :: share_lib
  ne_parse_ecdsa :: "slice \<Rightarrow> party_id option \<Rightarrow> bool \<Rightarrow> go_error + ecdsa_content"
  ne_parse_eddsa :: "slice \<Rightarrow> party_id option \<Rightarrow> bool \<Rightarrow> go_error + eddsa_content"
  ne_Intersect :: "string list \<Rightarrow> string list \<Rightarrow> string list"
  ne_ord :: "(string \<times> bool) list \<Rightarrow> (string \<times> bool) list"
  ne_PreParams_Marshal :: "bytes \<Rightarrow> go_error + bytes"
  ne_PreParams_Unmarshal :: "bytes \<Rightarrow> go_error + bytes"

section \<open>The node\<close>

definition PurposeKeygen :: string where "PurposeKeygen = ''keygen''"
definition PurposeSign :: string where "PurposeSign = ''sign''"
definition PurposeResharing :: string where "PurposeResharing = ''resharing''"

text \<open>The slice of pre-parameters has two elements.\<close>

record Node =
  nd_nodeID :: string
  nd_peerIDs :: "string list"
  nd_ecdsaPreParams :: "slice \<times> slice"

datatype keygen_kind = ECDSA_keygen PartySession | EDDSA_keygen PartySession
datatype signing_kind = ECDSA_signing ecdsaSigningSession | EDDSA_signing eddsaSigningSession
datatype resharing_kind = ECDSA_resharing ecdsaResharingSession | EDDSA_resharing eddsaResharingSession

fun keygen_party :: "keygen_kind \<Rightarrow> PartySession" where
  "keygen_party (ECDSA_keygen s) = s"
| "keygen_party (EDDSA_keygen s) = s"

fun signing_party :: "signing_kind \<Rightarrow> PartySession" where
  "signing_party (ECDSA_signing s) = es_session s"
| "signing_party (EDDSA_signing s) = ds_session s"

fun resharing_party :: "resharing_kind \<Rightarrow> PartySession" where
  "resharing_party (ECDSA_resharing s) = er_session s"
| "resharing_party (EDDSA_resharing s) = dr_session s"

type_synonym registry_reads = "nat \<Rightarrow> registry \<times> fileStore"

text \<open>
  \<^verbatim>\<open>keygenPartyIDs\<close>: \<^verbatim>\<open>SortPartyIDs\<close> writes the index into the party IDs it is given, so the node's own party
  ID is the element of the sorted list that has its identifier.
\<close>

fun create_party_ids ::
  "env \<Rightarrow> tss_lib \<Rightarrow> string \<Rightarrow> string \<Rightarrow> string list \<Rightarrow> int \<Rightarrow> (party_id option \<times> party_id list) io" where
  "create_party_ids E T nodeID label [] version = State_Monad.return (None, [])"
| "create_party_ids E T nodeID label (peerID # peerIDs) version = do {
     u \<leftarrow> io_NewUUID E;
     let partyID = CreatePartyID T u peerID label version;
     (self, partyIDs) \<leftarrow> create_party_ids E T nodeID label peerIDs version;
     State_Monad.return
       (case self of
          Some s \<Rightarrow> (Some s, partyID # partyIDs)
        | None \<Rightarrow> (if peerID = nodeID then Some partyID else None, partyID # partyIDs)) }"

definition keygenPartyIDs ::
  "env \<Rightarrow> tss_lib \<Rightarrow> Node \<Rightarrow> string \<Rightarrow> string list \<Rightarrow> int \<Rightarrow> (party_id option \<times> party_id list) io" where
  "keygenPartyIDs E T n label readyPeerIDs version = do {
     (self, partyIDs) \<leftarrow> create_party_ids E T (nd_nodeID n) label readyPeerIDs version;
     let all = tl_SortPartyIDs T partyIDs;
     State_Monad.return
       (case self of None \<Rightarrow> None | Some s \<Rightarrow> List.find (\<lambda>p. pid_face T p = pid_face T s) all, all) }"

definition getKeyInfo :: "env \<Rightarrow> string \<Rightarrow> string \<Rightarrow> (go_error + KeyInfo) io" where
  "getKeyInfo E sessionType walletID =
     (if sessionType = SessionTypeECDSA then keyinfo_Get E (''ecdsa:'' @ walletID)
      else if sessionType = SessionTypeEDDSA then keyinfo_Get E (''eddsa:'' @ walletID)
      else State_Monad.return (Inl (errorf ''unsupported session type'')))"

definition getVersion :: "env \<Rightarrow> string \<Rightarrow> string \<Rightarrow> int go_res io" where
  "getVersion E sessionType walletID =
     (if sessionType = SessionTypeECDSA \<or> sessionType = SessionTypeEDDSA then do {
        let composeKey = (if sessionType = SessionTypeECDSA then ''ecdsa:'' else ''eddsa:'') @ walletID;
        keyinfo \<leftarrow> keyinfo_Get E composeKey;
        State_Monad.return (Ret (case keyinfo of Inl err \<Rightarrow> DefaultVersion | Inr k \<Rightarrow> ki_Version k)) }
      else do { io_Fatal; State_Monad.return Panic })"

definition sessionKeyPrefix :: "string \<Rightarrow> go_error + string" where
  "sessionKeyPrefix sessionType =
     (if sessionType = SessionTypeECDSA then Inr ''ecdsa''
      else if sessionType = SessionTypeEDDSA then Inr ''eddsa''
      else Inl (errorf (''unsupported session type: '' @ sessionType)))"

definition getReadyPeersForSession :: "KeyInfo \<Rightarrow> string list \<Rightarrow> string list" where
  "getReadyPeersForSession keyInfo readyPeers = filter (\<lambda>peerID. peerID \<in> set readyPeers) (ki_peers keyInfo)"

definition ensureNodeIsParticipant :: "Node \<Rightarrow> KeyInfo \<Rightarrow> go_error option" where
  "ensureNodeIsParticipant p keyInfo =
     (if nd_nodeID p \<notin> set (ki_peers keyInfo) then Some (Sentinel ErrNotInParticipantList) else None)"

section \<open>Key generation\<close>

definition createECDSAKeyGenSession ::
  "node_env \<Rightarrow> Node \<Rightarrow> registry \<Rightarrow> string \<Rightarrow> int \<Rightarrow> int \<Rightarrow> keygen_kind io" where
  "createECDSAKeyGenSession W p reg walletID threshold version = do {
     let readyPeerIDs = GetReadyPeersIncludeSelf (ne_ord W) reg;
     (selfPartyID, allPartyIDs) \<leftarrow> keygenPartyIDs (ne_E W) (ne_T W) p PurposeKeygen readyPeerIDs version;
     State_Monad.return (ECDSA_keygen (NewECDSAKeygenSession (ne_parse_ecdsa W) walletID readyPeerIDs
       selfPartyID allPartyIDs threshold (fst (nd_ecdsaPreParams p)))) }"

definition createEDDSAKeyGenSession ::
  "node_env \<Rightarrow> Node \<Rightarrow> registry \<Rightarrow> string \<Rightarrow> int \<Rightarrow> int \<Rightarrow> keygen_kind io" where
  "createEDDSAKeyGenSession W p reg walletID threshold version = do {
     let readyPeerIDs = GetReadyPeersIncludeSelf (ne_ord W) reg;
     (selfPartyID, allPartyIDs) \<leftarrow> keygenPartyIDs (ne_E W) (ne_T W) p PurposeKeygen readyPeerIDs version;
     State_Monad.return (EDDSA_keygen (NewEDDSAKeygenSession (ne_parse_eddsa W) walletID readyPeerIDs
       selfPartyID allPartyIDs threshold)) }"

definition CreateKeyGenSession ::
  "node_env \<Rightarrow> Node \<Rightarrow> registry_reads \<Rightarrow> string \<Rightarrow> string \<Rightarrow> int \<Rightarrow> (go_error + keygen_kind) io" where
  "CreateKeyGenSession W p R sessionType walletID threshold =
     (if \<not> ArePeersReady (fst (R 0)) (snd (R 0)) then State_Monad.return (Inl (errorf ''All nodes are not ready!''))
      else do {
        keyInfo \<leftarrow> getKeyInfo (ne_E W) sessionType walletID;
        (case keyInfo of
           Inr _ \<Rightarrow> State_Monad.return (Inl (errorf (''key already exists: '' @ walletID)))
         | Inl _ \<Rightarrow>
             if sessionType = SessionTypeECDSA then do {
               s \<leftarrow> createECDSAKeyGenSession W p (fst (R 1)) walletID threshold DefaultVersion;
               State_Monad.return (Inr s) }
             else if sessionType = SessionTypeEDDSA then do {
               s \<leftarrow> createEDDSAKeyGenSession W p (fst (R 1)) walletID threshold DefaultVersion;
               State_Monad.return (Inr s) }
             else State_Monad.return (Inl (errorf (''unknown session type: '' @ sessionType)))) })"

section \<open>Signing\<close>

definition CreateSigningSession ::
  "node_env \<Rightarrow> Node \<Rightarrow> registry_reads \<Rightarrow> string \<Rightarrow> string \<Rightarrow> string \<Rightarrow> string \<Rightarrow> (go_error + signing_kind) go_res io" where
  "CreateSigningSession W p R sessionType walletID txID idempotentKey = do {
     v \<leftarrow> getVersion (ne_E W) sessionType walletID;
     (case v of
        Panic \<Rightarrow> State_Monad.return Panic
      | Ret version \<Rightarrow> do {
          ki \<leftarrow> getKeyInfo (ne_E W) sessionType walletID;
          (case ki of
             Inl err \<Rightarrow> State_Monad.return (Ret (Inl err))
           | Inr keyInfo \<Rightarrow>
               (let readyPeers = GetReadyPeersIncludeSelf (ne_ord W) (fst (R 0));
                    readyParticipantIDs = getReadyPeersForSession keyInfo readyPeers
                in if int (length readyParticipantIDs) < inc64 (ki_Threshold keyInfo)
                   then State_Monad.return (Ret (Inl (errorf (
                     ''not enough peers to create signing session! expected '' @ itoa (inc64 (ki_Threshold keyInfo))
                     @ '', got '' @ utoa (length readyParticipantIDs)))))
                   else (case ensureNodeIsParticipant p keyInfo of
                     Some err \<Rightarrow> State_Monad.return (Ret (Inl err))
                   | None \<Rightarrow> do {
                       (selfPartyID, allPartyIDs) \<leftarrow>
                         keygenPartyIDs (ne_E W) (ne_T W) p PurposeKeygen readyParticipantIDs version;
                       State_Monad.return (Ret
                         (if sessionType = SessionTypeECDSA then Inr (ECDSA_signing
                            (NewECDSASigningSession (ne_parse_ecdsa W) walletID txID readyParticipantIDs selfPartyID
                               allPartyIDs (ki_Threshold keyInfo) (fst (nd_ecdsaPreParams p)) idempotentKey))
                          else if sessionType = SessionTypeEDDSA then Inr (EDDSA_signing
                            (NewEDDSASigningSession (ne_parse_eddsa W) walletID txID readyParticipantIDs selfPartyID
                               allPartyIDs (ki_Threshold keyInfo) idempotentKey))
                          else Inl (errorf ''unknown session type''))) }))) }) }"

section \<open>Resharing\<close>

text \<open>\<open>None\<close> in the result is the nil session of a node that has no part in the resharing.\<close>

definition CreateResharingSession ::
  "node_env \<Rightarrow> Node \<Rightarrow> registry_reads \<Rightarrow> string \<Rightarrow> string \<Rightarrow> int \<Rightarrow> string list \<Rightarrow> bool \<Rightarrow>
   (go_error + resharing_kind option) go_res io" where
  "CreateResharingSession W p R sessionType walletID newThreshold newPeerIDs isNewPeer =
     (let count = GetReadyPeersCount (fst (R 0)) in
      if count < inc64 newThreshold
      then State_Monad.return (Ret (Inl (errorf (''not enough peers to create reshare session! Expected at least ''
        @ itoa (inc64 newThreshold) @ '', got '' @ itoa count))))
      else if int (length newPeerIDs) < inc64 newThreshold
      then State_Monad.return (Ret (Inl (errorf ''new peer list is smaller than required t+1'')))
      else let readyNewPeerIDs = GetReadyPeersIncludeSelf (ne_ord W) (fst (R 1)) in
      (case List.find (\<lambda>peerID. peerID \<notin> set readyNewPeerIDs) newPeerIDs of
         Some peerID \<Rightarrow> State_Monad.return (Ret (Inl (errorf (''new peer '' @ peerID @ '' is not ready''))))
       | None \<Rightarrow>
       (case sessionKeyPrefix sessionType of
          Inl err \<Rightarrow> State_Monad.return (Ret (Inl (wrapf ''failed to get session key prefix'' err)))
        | Inr keyPrefix \<Rightarrow> do {
        ki \<leftarrow> keyinfo_Get (ne_E W) (keyPrefix @ '':'' @ walletID);
        (case ki of
           Inl err \<Rightarrow> State_Monad.return (Ret (Inl (wrapf ''failed to get old key info'' err)))
         | Inr oldKeyInfo \<Rightarrow>
        (let readyPeers = GetReadyPeersIncludeSelf (ne_ord W) (fst (R 2));
             readyOldParticipantIDs = getReadyPeersForSession oldKeyInfo readyPeers;
             isInOldCommittee = (nd_nodeID p \<in> set (ki_peers oldKeyInfo));
             isInNewCommittee = (nd_nodeID p \<in> set newPeerIDs)
         in if isNewPeer \<and> \<not> isInNewCommittee then State_Monad.return (Ret (Inr None))
         else if \<not> isNewPeer \<and> \<not> isInOldCommittee then State_Monad.return (Ret (Inr None))
         else if int (length readyOldParticipantIDs) < inc64 (ki_Threshold oldKeyInfo)
         then State_Monad.return (Ret (Inl (errorf (''not enough peers to create resharing session! expected ''
           @ itoa (inc64 (ki_Threshold oldKeyInfo)) @ '', got '' @ utoa (length readyOldParticipantIDs)))))
         else (case (if \<not> isNewPeer then ensureNodeIsParticipant p oldKeyInfo else None) of
           Some err \<Rightarrow> State_Monad.return (Ret (Inl err))
         | None \<Rightarrow> do {
             v \<leftarrow> getVersion (ne_E W) sessionType walletID;
             (case v of
                Panic \<Rightarrow> State_Monad.return Panic
              | Ret version \<Rightarrow> do {
                  (oldSelf, oldAllPartyIDs) \<leftarrow>
                    keygenPartyIDs (ne_E W) (ne_T W) p PurposeKeygen readyOldParticipantIDs version;
                  (newSelf, newAllPartyIDs) \<leftarrow>
                    keygenPartyIDs (ne_E W) (ne_T W) p PurposeResharing newPeerIDs (inc64 version);
                  let selfPartyID = (if isNewPeer then newSelf else oldSelf);
                  State_Monad.return (Ret
                    (if sessionType = SessionTypeECDSA then
                       (let preParams = (if isNewPeer then snd (nd_ecdsaPreParams p) else fst (nd_ecdsaPreParams p));
                            participantPeerIDs = (if isNewPeer then newPeerIDs else ki_peers oldKeyInfo)
                        in Inr (Some (ECDSA_resharing (NewECDSAResharingSession (ne_T W) (ne_parse_ecdsa W) walletID
                             participantPeerIDs selfPartyID oldAllPartyIDs newAllPartyIDs (ki_Threshold oldKeyInfo)
                             newThreshold preParams newPeerIDs isNewPeer (ki_Version oldKeyInfo)))))
                     else if sessionType = SessionTypeEDDSA then
                       (let participantPeerIDs = (if isNewPeer then newPeerIDs else readyOldParticipantIDs)
                        in Inr (Some (EDDSA_resharing (NewEDDSAResharingSession (ne_T W) (ne_parse_eddsa W) walletID
                             participantPeerIDs selfPartyID oldAllPartyIDs newAllPartyIDs (ki_Threshold oldKeyInfo)
                             newThreshold newPeerIDs isNewPeer (ki_Version oldKeyInfo)))))
                     else Inl (errorf (''unsupported session type: '' @ sessionType)))) }) }))) })))"

section \<open>Pre-parameters and life cycle\<close>

definition load_pre_params :: "node_env \<Rightarrow> nat \<Rightarrow> slice go_res io" where
  "load_pre_params W i = do {
     let key = ''pre_params_'' @ utoa i;
     val \<leftarrow> io_KvGet (ne_E W) key;
     (case val of
        Inr b \<Rightarrow>
          (case ne_PreParams_Unmarshal W b of
             Inl err \<Rightarrow> do { io_Fatal; State_Monad.return Panic }
           | Inr params \<Rightarrow> State_Monad.return (Ret (Some params)))
      | Inl _ \<Rightarrow> do {
          generated \<leftarrow> io_GenPreParams (ne_E W);
          (case generated of
             Inl err \<Rightarrow> do { io_Fatal; State_Monad.return Panic }
           | Inr params \<Rightarrow>
               (case ne_PreParams_Marshal W params of
                  Inl err \<Rightarrow> do { io_Fatal; State_Monad.return Panic }
                | Inr b \<Rightarrow> do {
                    err \<leftarrow> io_KvPut (ne_E W) key b;
                    (case err of
                       Some e \<Rightarrow> do { io_Fatal; State_Monad.return Panic }
                     | None \<Rightarrow> State_Monad.return (Ret (Some params))) })) }) }"

definition generatePreParams :: "node_env \<Rightarrow> (slice \<times> slice) go_res io" where
  "generatePreParams W = do {
     a \<leftarrow> load_pre_params W 0;
     (case a of
        Panic \<Rightarrow> State_Monad.return Panic
      | Ret p0 \<Rightarrow> do {
          b \<leftarrow> load_pre_params W 1;
          State_Monad.return (case b of Panic \<Rightarrow> Panic | Ret p1 \<Rightarrow> Ret (p0, p1)) }) }"

definition NewNode :: "node_env \<Rightarrow> string \<Rightarrow> string list \<Rightarrow> Node go_res io" where
  "NewNode W nodeID peerIDs = do {
     pp \<leftarrow> generatePreParams W;
     (case pp of
        Panic \<Rightarrow> State_Monad.return Panic
      | Ret params \<Rightarrow> do {
          io_Go ''WatchPeersReady'';
          State_Monad.return (Ret \<lparr>nd_nodeID = nodeID, nd_peerIDs = peerIDs, nd_ecdsaPreParams = params\<rparr>) }) }"

definition node_ID :: "Node \<Rightarrow> string" where "node_ID p = nd_nodeID p"

definition ComposeReadyKey :: "string \<Rightarrow> string" where
  "ComposeReadyKey nodeID = ''ready/'' @ nodeID"

definition Close_node :: "env \<Rightarrow> registry \<Rightarrow> unit io" where
  "Close_node E reg = do { _ \<leftarrow> Resign E reg; State_Monad.return () }"

section \<open>Party IDs of a committee\<close>

lemma PartyIDToNodeID_cong:
  "tl_KeyInt T a = tl_KeyInt T b \<Longrightarrow> PartyIDToNodeID T (Some a) = PartyIDToNodeID T (Some b)"
  by (simp add: PartyIDToNodeID_def)

lemma create_party_ids_run:
  assumes "tss_lib_ok T" and "fst (run_state (create_party_ids E T nodeID label ps v) tr) = (self, pids)"
  shows "map (tl_KeyInt T) pids = map (\<lambda>p. big_SetBytes (packed_key p v)) ps \<and> (self = None \<longleftrightarrow> nodeID \<notin> set ps)
    \<and> (\<forall>s. self = Some s \<longrightarrow> s \<in> set pids \<and> tl_KeyInt T s = big_SetBytes (packed_key nodeID v))"
  using assms(2)
proof (induction ps arbitrary: tr self pids)
  case Nil
  then show ?case by simp
next
  case (Cons q ps)
  let ?p = "CreatePartyID T (en_NewUUID E tr) q label v"
  obtain self' pids' where r: "fst (run_state (create_party_ids E T nodeID label ps v) (tr @ [NewUUID])) = (self', pids')"
    by fastforce
  have res: "(self, pids) = (case self' of Some s \<Rightarrow> (Some s, ?p # pids')
      | None \<Rightarrow> (if q = nodeID then Some ?p else None, ?p # pids'))"
    using Cons.prems r by (auto simp: run_state_bind io_defs Let_def split: prod.splits option.splits)
  from Cons.IH [OF r] res show ?case
    by (auto simp: CreatePartyID_KeyInt [OF assms(1)] split: option.splits if_splits)
qed

lemma keygenPartyIDs_run:
  assumes T: "tss_lib_ok T" and run: "fst (run_state (keygenPartyIDs E T n label ps v) tr) = (self, all)"
  shows "sorted (map (tl_KeyInt T) all)"
    and "mset (map (tl_KeyInt T) all) = mset (map (\<lambda>p. big_SetBytes (packed_key p v)) ps)"
    and "self = None \<longleftrightarrow> nd_nodeID n \<notin> set ps"
    and "self = Some s \<Longrightarrow> s \<in> set all \<and> tl_KeyInt T s = big_SetBytes (packed_key (nd_nodeID n) v)"
proof -
  obtain self' pids where c: "fst (run_state (create_party_ids E T (nd_nodeID n) label ps v) tr) = (self', pids)"
    by fastforce
  note f = create_party_ids_run [OF T c]
  have res: "all = tl_SortPartyIDs T pids"
    "self = (case self' of None \<Rightarrow> None | Some s \<Rightarrow> List.find (\<lambda>p. pid_face T p = pid_face T s) all)"
    using run c by (auto simp: keygenPartyIDs_def run_state_bind Let_def split: prod.splits)
  note srt = tss_lib_okD(4,5) [OF T, of pids]
  show "sorted (map (tl_KeyInt T) all)" using srt(1) by (simp add: res(1))
  have "mset (map (tl_KeyInt T) all) = image_mset (snd \<circ> snd) (mset (map (pid_face T) all))"
    by (simp add: pid_face_def multiset.map_comp o_def)
  also have "\<dots> = image_mset (snd \<circ> snd) (mset (map (pid_face T) pids))" using srt(2) by (simp add: res(1))
  also have "\<dots> = mset (map (tl_KeyInt T) pids)" by (simp add: pid_face_def multiset.map_comp o_def)
  finally show "mset (map (tl_KeyInt T) all) = mset (map (\<lambda>p. big_SetBytes (packed_key p v)) ps)" using f by simp
  have faces: "pid_face T ` set all = pid_face T ` set pids"
    using srt(2) by (metis list.set_map res(1) set_mset_mset)
  have found: "\<exists>q. List.find (\<lambda>p. pid_face T p = pid_face T s) all = Some q \<and> q \<in> set all \<and> pid_face T q = pid_face T s"
    if "s \<in> set pids" for s
  proof -
    from that faces obtain q where "q \<in> set all" "pid_face T q = pid_face T s" by (metis imageE imageI)
    then have "List.find (\<lambda>p. pid_face T p = pid_face T s) all \<noteq> None" by (auto simp: find_None_iff)
    then show ?thesis by (auto simp: find_Some_iff in_set_conv_nth)
  qed
  show "self = None \<longleftrightarrow> nd_nodeID n \<notin> set ps"
    using f found by (cases self') (auto simp: res(2))
  show "s \<in> set all \<and> tl_KeyInt T s = big_SetBytes (packed_key (nd_nodeID n) v)" if "self = Some s"
  proof -
    from that res(2) obtain a where a: "self' = Some a" "List.find (\<lambda>p. pid_face T p = pid_face T a) all = Some s"
      by (cases self') auto
    with f have "a \<in> set pids" and k: "tl_KeyInt T a = big_SetBytes (packed_key (nd_nodeID n) v)" by auto
    from found [OF this(1)] a(2) have "s \<in> set all" "pid_face T s = pid_face T a" by auto
    with k show ?thesis by (simp add: pid_face_def)
  qed
qed

text \<open>A committee of well-formed node IDs can be read back from its party IDs.\<close>

lemma keygenPartyIDs_nodes:
  assumes T: "tss_lib_ok T" and run: "fst (run_state (keygenPartyIDs E T n label ps v) tr) = (self, all)"
    and ok: "\<forall>p \<in> set ps. node_id_ok p"
  shows "mset (PartyIDsToNodeIDs T all) = mset ps"
    and "self = Some s \<Longrightarrow> nd_nodeID n \<in> set ps \<Longrightarrow> PartyIDToNodeID T (Some s) = nd_nodeID n"
proof -
  define dec where "dec k = PartyIDToNodeID T (Some (tl_NewPartyID T [] [] k))" for k
  have dec: "PartyIDToNodeID T (Some q) = dec (tl_KeyInt T q)" for q
    unfolding dec_def by (rule PartyIDToNodeID_cong) (simp add: tss_lib_okD(1) [OF T])
  have rb: "dec (big_SetBytes (packed_key p v)) = p" if "p \<in> set ps" for p
    using PartyIDToNodeID_Create [OF T, of p "[]" label v] ok that dec [of "CreatePartyID T [] p label v"]
    by (simp add: CreatePartyID_KeyInt [OF T])
  have "mset (PartyIDsToNodeIDs T all) = image_mset dec (mset (map (tl_KeyInt T) all))"
    by (simp add: PartyIDsToNodeIDs_def dec multiset.map_comp o_def)
  also have "\<dots> = image_mset dec (mset (map (\<lambda>p. big_SetBytes (packed_key p v)) ps))"
    by (simp only: keygenPartyIDs_run(2) [OF T run])
  also have "\<dots> = mset (map (\<lambda>p. dec (big_SetBytes (packed_key p v))) ps)" by (simp add: multiset.map_comp o_def)
  also have "\<dots> = mset ps" using rb by (metis (no_types, lifting) map_idI)
  finally show "mset (PartyIDsToNodeIDs T all) = mset ps" .
  show "self = Some s \<Longrightarrow> nd_nodeID n \<in> set ps \<Longrightarrow> PartyIDToNodeID T (Some s) = nd_nodeID n"
    using keygenPartyIDs_run(4) [OF T run] rb by (simp add: dec)
qed

text \<open>
  The committee a session is set up with: its party IDs in the order of their keys, one for each
  participant, and the node's own among them.
\<close>

definition committee_ok :: "tss_lib \<Rightarrow> string \<Rightarrow> PartySession \<Rightarrow> bool" where
  "committee_ok T nodeID s \<longleftrightarrow>
     sorted (map (tl_KeyInt T) (ps_PartyIDs s)) \<and> mset (PartyIDsToNodeIDs T (ps_PartyIDs s)) = mset (ps_ParticipantPeerIDs s)
     \<and> (\<exists>self. ps_SelfPartyID s = Some self \<and> self \<in> set (ps_PartyIDs s) \<and> PartyIDToNodeID T (Some self) = nodeID)"

lemma committee_okI:
  assumes "tss_lib_ok T" and "fst (run_state (keygenPartyIDs E T n label (ps_ParticipantPeerIDs s) v) tr) = (ps_SelfPartyID s, ps_PartyIDs s)"
    and "\<forall>p \<in> set (ps_ParticipantPeerIDs s). node_id_ok p" and "nd_nodeID n \<in> set (ps_ParticipantPeerIDs s)"
  shows "committee_ok T (nd_nodeID n) s"
  using keygenPartyIDs_run [OF assms(1,2)] keygenPartyIDs_nodes [OF assms(1-3)] assms(4)
  by (cases "ps_SelfPartyID s") (auto simp: committee_ok_def)

section \<open>Session creation\<close>

text \<open>What \<^verbatim>\<open>CreateSigningSession\<close> has established when it returns a session.\<close>

lemma CreateSigningSession_run:
  assumes "fst (run_state (CreateSigningSession W p R st w tx idem) tr) = Ret (Inr ss)"
  shows "\<exists>ki tr1 tr2 v. fst (run_state (getKeyInfo (ne_E W) st w) tr1) = Inr ki
    \<and> ps_ParticipantPeerIDs (signing_party ss) = getReadyPeersForSession ki (GetReadyPeersIncludeSelf (ne_ord W) (fst (R 0)))
    \<and> ps_Threshold (signing_party ss) = ki_Threshold ki
    \<and> inc64 (ki_Threshold ki) \<le> int (length (ps_ParticipantPeerIDs (signing_party ss)))
    \<and> nd_nodeID p \<in> set (ki_peers ki)
    \<and> fst (run_state (keygenPartyIDs (ne_E W) (ne_T W) p PurposeKeygen (ps_ParticipantPeerIDs (signing_party ss)) v) tr2)
        = (ps_SelfPartyID (signing_party ss), ps_PartyIDs (signing_party ss))
    \<and> ps_WalletID (signing_party ss) = w"
proof -
  obtain v tr1 where v: "run_state (getVersion (ne_E W) st w) tr = (v, tr1)" by fastforce
  obtain k tr2 where k: "run_state (getKeyInfo (ne_E W) st w) tr1 = (k, tr2)" by fastforce
  from assms v obtain ver where ver: "v = Ret ver"
    by (cases v) (auto simp: CreateSigningSession_def run_state_bind)
  from assms v k ver obtain ki where ki: "k = Inr ki"
    by (cases k) (auto simp: CreateSigningSession_def run_state_bind)
  define P where "P = getReadyPeersForSession ki (GetReadyPeersIncludeSelf (ne_ord W) (fst (R 0)))"
  obtain self all tr3 where kg: "run_state (keygenPartyIDs (ne_E W) (ne_T W) p PurposeKeygen P ver) tr2 = ((self, all), tr3)"
    by (metis prod.exhaust)
  have thr: "inc64 (ki_Threshold ki) \<le> int (length P)" and mem: "nd_nodeID p \<in> set (ki_peers ki)"
    and ss: "ss = ECDSA_signing (NewECDSASigningSession (ne_parse_ecdsa W) w tx P self all (ki_Threshold ki) (fst (nd_ecdsaPreParams p)) idem)
      \<or> ss = EDDSA_signing (NewEDDSASigningSession (ne_parse_eddsa W) w tx P self all (ki_Threshold ki) idem)"
    using assms
    by (auto simp: CreateSigningSession_def run_state_bind v ver k ki P_def [symmetric] kg ensureNodeIsParticipant_def Let_def
        split: if_splits option.splits)
  from ss have "ps_ParticipantPeerIDs (signing_party ss) = P \<and> ps_Threshold (signing_party ss) = ki_Threshold ki
      \<and> ps_SelfPartyID (signing_party ss) = self \<and> ps_PartyIDs (signing_party ss) = all \<and> ps_WalletID (signing_party ss) = w"
    by (auto simp: NewECDSASigningSession_def NewEDDSASigningSession_def)
  then show ?thesis
    using thr mem kg k ki
    by (simp only: P_def, rule_tac x = ki in exI, rule_tac x = tr1 in exI, rule_tac x = tr2 in exI,
        rule_tac x = ver in exI) simp
qed

text \<open>
  C11: A signing session that the node creates has a quorum. Its participants are the holders of the key
  that are ready, in the order of the key information; they are at least threshold plus one and include
  the node; the session's threshold is that of the key; and its party IDs are sorted by key, one for each
  participant, with the node's own among them.
\<close>

theorem signing_session_quorum:
  assumes "tss_lib_ok (ne_T W)" and "rg_nodeID (fst (R 0)) = nd_nodeID p"
    and "fst (run_state (CreateSigningSession W p R st w tx idem) tr) = Ret (Inr ss)"
    and "\<forall>n \<in> set (ps_ParticipantPeerIDs (signing_party ss)). node_id_ok n"
  shows "\<exists>ki tr1. fst (run_state (getKeyInfo (ne_E W) st w) tr1) = Inr ki
    \<and> ps_ParticipantPeerIDs (signing_party ss) =
        filter (\<lambda>n. n \<in> set (GetReadyPeersIncludeSelf (ne_ord W) (fst (R 0)))) (ki_peers ki)
    \<and> inc64 (ki_Threshold ki) \<le> int (length (ps_ParticipantPeerIDs (signing_party ss)))
    \<and> ps_Threshold (signing_party ss) = ki_Threshold ki
    \<and> nd_nodeID p \<in> set (ps_ParticipantPeerIDs (signing_party ss))
    \<and> committee_ok (ne_T W) (nd_nodeID p) (signing_party ss)"
proof -
  from CreateSigningSession_run [OF assms(3)] obtain ki tr1 tr2 v
    where k: "fst (run_state (getKeyInfo (ne_E W) st w) tr1) = Inr ki"
      and P: "ps_ParticipantPeerIDs (signing_party ss) = getReadyPeersForSession ki (GetReadyPeersIncludeSelf (ne_ord W) (fst (R 0)))"
      and t: "ps_Threshold (signing_party ss) = ki_Threshold ki"
        "inc64 (ki_Threshold ki) \<le> int (length (ps_ParticipantPeerIDs (signing_party ss)))"
      and mem: "nd_nodeID p \<in> set (ki_peers ki)"
      and kg: "fst (run_state (keygenPartyIDs (ne_E W) (ne_T W) p PurposeKeygen (ps_ParticipantPeerIDs (signing_party ss)) v) tr2)
        = (ps_SelfPartyID (signing_party ss), ps_PartyIDs (signing_party ss))" by blast
  have self: "nd_nodeID p \<in> set (ps_ParticipantPeerIDs (signing_party ss))"
    using mem assms(2) by (simp add: P getReadyPeersForSession_def GetReadyPeersIncludeSelf_def)
  from committee_okI [OF assms(1) kg assms(4) self] k t self P show ?thesis
    by (auto simp: getReadyPeersForSession_def)
qed

text \<open>A node environment, a node and stored key information for concrete runs.\<close>

definition node_env_ref :: "env \<Rightarrow> node_env" where
  "node_env_ref E =
     \<lparr>ne_E = E, ne_C = crypto_ref, ne_T = tss_lib_ref, ne_L_ecdsa = share_lib_ref, ne_L_eddsa = share_lib_ref,
      ne_parse_ecdsa = \<lambda>_ _ _. Inr ECDSA_KGRound1Message, ne_parse_eddsa = \<lambda>_ _ _. Inl (errorf ''parse''),
      ne_Intersect = lo_Intersect_ref, ne_ord = \<lambda>xs. xs,
      ne_PreParams_Marshal = Inr, ne_PreParams_Unmarshal = Inr\<rparr>"

definition node_ref :: "string \<Rightarrow> Node" where
  "node_ref n = \<lparr>nd_nodeID = n, nd_peerIDs = [''n1'', ''n2'', ''n3''], nd_ecdsaPreParams = (Some ''p0'', Some ''p1'')\<rparr>"

definition keyinfo_ref :: KeyInfo where
  "keyinfo_ref = \<lparr>ki_ParticipantPeerIDs = Some [''n1'', ''n2'', ''n3''], ki_Threshold = 1, ki_Version = 1\<rparr>"

definition env_keyinfo :: "KeyInfo \<Rightarrow> env" where
  "env_keyinfo ki = env_ref\<lparr>en_ConsulGet := \<lambda>_ _. Inr (Some (Marshal_KeyInfo ki)), en_KvGet := \<lambda>_ _. Inr ''share''\<rparr>"

definition registry_two :: registry where
  "registry_two = registry_ref\<lparr>rg_readyMap := [(''n2'', True)], rg_readyCount := 2\<rparr>"

lemma keyinfo_Get_ref: "KeyInfo_wf ki \<Longrightarrow> fst (run_state (keyinfo_Get (env_keyinfo ki) w) tr) = Inr ki"
  by (simp add: keyinfo_Get_def io_defs env_keyinfo_def KeyInfo_codec)

lemma keyinfo_Get_ref_run:
  "KeyInfo_wf ki \<Longrightarrow>
   run_state (keyinfo_Get (env_keyinfo ki) w) tr = (Inr ki, tr @ [ConsulGet (keyinfo_composeKey w)])"
  using keyinfo_Get_ref keyinfo_Get_trace by (metis prod.collapse)

lemma keyinfo_ref_wf: "KeyInfo_wf keyinfo_ref"
  by (simp add: KeyInfo_wf_def keyinfo_ref_def in_int64_def)

lemma session_types_distinct [simp]: "SessionTypeEDDSA \<noteq> SessionTypeECDSA" "SessionTypeECDSA \<noteq> SessionTypeEDDSA"
  by (simp_all add: SessionTypeECDSA_def SessionTypeEDDSA_def)

lemma CreateSigningSession_ref:
  "\<exists>self pids tr'. run_state (CreateSigningSession (node_env_ref (env_keyinfo keyinfo_ref)) (node_ref ''n1'')
      (\<lambda>_. (registry_two, ids)) SessionTypeECDSA ''w'' tx idem) [] =
    (Ret (Inr (ECDSA_signing (NewECDSASigningSession (ne_parse_ecdsa (node_env_ref (env_keyinfo keyinfo_ref))) ''w'' tx [''n1'', ''n2'']
       self pids 1 (Some ''p0'') idem))), tr')"
proof -
  let ?E = "env_keyinfo keyinfo_ref" and ?tr1 = "[ConsulGet (keyinfo_composeKey ''ecdsa:w'')]"
  have t: "wrap64 2 = 2" by (simp add: wrap64_def)
  have v: "run_state (getVersion ?E SessionTypeECDSA ''w'') [] = (Ret 1, ?tr1)"
    by (simp add: getVersion_def keyinfo_Get_ref_run [OF keyinfo_ref_wf]) (simp add: keyinfo_ref_def)
  have k: "run_state (getKeyInfo ?E SessionTypeECDSA ''w'') ?tr1 =
      (Inr keyinfo_ref, ?tr1 @ [ConsulGet (keyinfo_composeKey ''ecdsa:w'')])"
    by (simp add: getKeyInfo_def keyinfo_Get_ref_run [OF keyinfo_ref_wf])
  have P: "getReadyPeersForSession keyinfo_ref (GetReadyPeersIncludeSelf (\<lambda>xs. xs) registry_two) = [''n1'', ''n2'']"
    by (simp add: getReadyPeersForSession_def GetReadyPeersIncludeSelf_def ready_peers_def registry_two_def
        registry_ref_def keyinfo_ref_def)
  have e: "ensureNodeIsParticipant (node_ref ''n1'') keyinfo_ref = None" "ki_Threshold keyinfo_ref = 1"
    by (simp_all add: ensureNodeIsParticipant_def node_ref_def keyinfo_ref_def)
  have W: "ne_E (node_env_ref E) = E" "ne_ord (node_env_ref E) = (\<lambda>xs. xs)" for E by (simp_all add: node_env_ref_def)
  have pp: "fst (nd_ecdsaPreParams (node_ref ''n1'')) = Some ''p0''" by (simp add: node_ref_def)
  show ?thesis
    by (simp add: CreateSigningSession_def run_state_bind W v k P e t pp Let_def split: prod.split) blast
qed

theorem signing_session_quorum_witness:
  "\<exists>ss. committee_ok tss_lib_ref ''n1'' (signing_party ss) \<and> ps_ParticipantPeerIDs (signing_party ss) = [''n1'', ''n2'']
     \<and> fst (run_state (CreateSigningSession (node_env_ref (env_keyinfo keyinfo_ref)) (node_ref ''n1'')
      (\<lambda>_. (registry_two, store_ref ''n1'' ''n2'' CHR ''a'' CHR ''b'')) SessionTypeECDSA ''w'' ''tx'' ''idem'') []) = Ret (Inr ss)"
proof -
  obtain ss where ss: "fst (run_state (CreateSigningSession (node_env_ref (env_keyinfo keyinfo_ref)) (node_ref ''n1'')
      (\<lambda>_. (registry_two, store_ref ''n1'' ''n2'' CHR ''a'' CHR ''b'')) SessionTypeECDSA ''w'' ''tx'' ''idem'') []) = Ret (Inr ss)"
    and P: "ps_ParticipantPeerIDs (signing_party ss) = [''n1'', ''n2'']"
    using CreateSigningSession_ref [of "store_ref ''n1'' ''n2'' CHR ''a'' CHR ''b''" "''tx''" "''idem''"]
    by (auto simp: NewECDSASigningSession_def)
  have T: "tss_lib_ok (ne_T (node_env_ref (env_keyinfo keyinfo_ref)))" by (simp add: node_env_ref_def tss_lib_ref_ok)
  from signing_session_quorum [OF T _ ss] P node_id_ok_ref ss show ?thesis
    by (auto simp: registry_two_def registry_ref_def node_ref_def node_env_ref_def)
qed

lemma CreateKeyGenSession_run:
  assumes "fst (run_state (CreateKeyGenSession W p R st w t) tr) = Inr ks"
  shows "ArePeersReady (fst (R 0)) (snd (R 0)) \<and> (\<exists>e. fst (run_state (getKeyInfo (ne_E W) st w) tr) = Inl e)
    \<and> ps_ParticipantPeerIDs (keygen_party ks) = GetReadyPeersIncludeSelf (ne_ord W) (fst (R 1))
    \<and> ps_Threshold (keygen_party ks) = t \<and> ps_Version (keygen_party ks) = 1 \<and> ps_WalletID (keygen_party ks) = w
    \<and> (\<exists>tr2. fst (run_state (keygenPartyIDs (ne_E W) (ne_T W) p PurposeKeygen (ps_ParticipantPeerIDs (keygen_party ks)) 1) tr2)
        = (ps_SelfPartyID (keygen_party ks), ps_PartyIDs (keygen_party ks)))"
proof -
  obtain k tr1 where k: "run_state (getKeyInfo (ne_E W) st w) tr = (k, tr1)" by fastforce
  let ?P = "GetReadyPeersIncludeSelf (ne_ord W) (fst (R 1))"
  obtain self all tr2 where kg: "run_state (keygenPartyIDs (ne_E W) (ne_T W) p PurposeKeygen ?P DefaultVersion) tr1 = ((self, all), tr2)"
    by (metis prod.exhaust)
  have r: "ArePeersReady (fst (R 0)) (snd (R 0))" and e: "\<exists>e. k = Inl e"
    and ks: "ks = ECDSA_keygen (NewECDSAKeygenSession (ne_parse_ecdsa W) w ?P self all t (fst (nd_ecdsaPreParams p)))
      \<or> ks = EDDSA_keygen (NewEDDSAKeygenSession (ne_parse_eddsa W) w ?P self all t)"
    using assms
    by (auto simp: CreateKeyGenSession_def run_state_bind k kg createECDSAKeyGenSession_def createEDDSAKeyGenSession_def
        Let_def simp del: One_nat_def split: if_splits sum.splits)
  from ks have "ps_ParticipantPeerIDs (keygen_party ks) = ?P \<and> ps_Threshold (keygen_party ks) = t \<and> ps_Version (keygen_party ks) = 1
      \<and> ps_WalletID (keygen_party ks) = w \<and> ps_SelfPartyID (keygen_party ks) = self \<and> ps_PartyIDs (keygen_party ks) = all"
    by (auto simp: NewECDSAKeygenSession_def NewEDDSAKeygenSession_def DefaultVersion_def)
  then show ?thesis using r e k kg [unfolded DefaultVersion_def] by (metis fst_conv)
qed

text \<open>
  C28: A key generation session is created only when the registry reported all peers ready and no key
  information could be read for the wallet; its participants are the peers ready when the session was set
  up, this node included, its party IDs are sorted, one per participant, with the node's own among them,
  and it writes version 1.
\<close>

theorem keygen_session_committee:
  assumes "tss_lib_ok (ne_T W)" and "rg_nodeID (fst (R 1)) = nd_nodeID p"
    and "fst (run_state (CreateKeyGenSession W p R st w t) tr) = Inr ks"
    and "\<forall>n \<in> set (GetReadyPeersIncludeSelf (ne_ord W) (fst (R 1))). node_id_ok n"
  shows "ArePeersReady (fst (R 0)) (snd (R 0)) \<and> (\<exists>e. fst (run_state (getKeyInfo (ne_E W) st w) tr) = Inl e)
    \<and> ps_ParticipantPeerIDs (keygen_party ks) = GetReadyPeersIncludeSelf (ne_ord W) (fst (R 1))
    \<and> committee_ok (ne_T W) (nd_nodeID p) (keygen_party ks)
    \<and> ps_Threshold (keygen_party ks) = t \<and> ps_Version (keygen_party ks) = 1"
proof -
  note c = CreateKeyGenSession_run [OF assms(3)]
  then obtain tr2 where kg: "fst (run_state (keygenPartyIDs (ne_E W) (ne_T W) p PurposeKeygen (ps_ParticipantPeerIDs (keygen_party ks)) 1) tr2)
        = (ps_SelfPartyID (keygen_party ks), ps_PartyIDs (keygen_party ks))" by blast
  have "nd_nodeID p \<in> set (ps_ParticipantPeerIDs (keygen_party ks))"
    using c assms(2) by (simp add: GetReadyPeersIncludeSelf_def)
  from committee_okI [OF assms(1) kg _ this] c assms(4) show ?thesis by simp
qed

lemma keyinfo_Get_down:
  "en_ConsulGet E tr (keyinfo_composeKey w) = Inl err \<Longrightarrow>
   run_state (keyinfo_Get E w) tr = (Inl (wrapf ''failed to get key info'' err), tr @ [ConsulGet (keyinfo_composeKey w)])"
  by (simp add: keyinfo_Get_def io_defs)

lemma CreateKeyGenSession_unreadable:
  assumes "st = SessionTypeECDSA \<or> st = SessionTypeEDDSA" and "ArePeersReady (fst (R 0)) (snd (R 0))"
  shows "(\<exists>ks. fst (run_state (CreateKeyGenSession W p R st w t) tr) = Inr ks) \<longleftrightarrow>
    (\<exists>e. fst (run_state (getKeyInfo (ne_E W) st w) tr) = Inl e)"
  using assms
  by (cases "run_state (getKeyInfo (ne_E W) st w) tr")
     (auto simp: CreateKeyGenSession_def run_state_bind createECDSAKeyGenSession_def createEDDSAKeyGenSession_def
       split: prod.split sum.split)

text \<open>
  Once all peers are ready, whether a second key generation for a wallet is refused depends only on
  whether its key information can be read: it is refused exactly when the read succeeds. If Consul fails to
  answer, a session is created, for the same wallet and version 1 as the key that exists.
\<close>

lemma keygen_refused_iff_key_readable:
  assumes "st = SessionTypeECDSA \<or> st = SessionTypeEDDSA" and "ArePeersReady (fst (R 0)) (snd (R 0))"
  shows "((\<exists>ks. fst (run_state (CreateKeyGenSession W p R st w t) tr) = Inr ks) \<longleftrightarrow>
        (\<exists>e. fst (run_state (getKeyInfo (ne_E W) st w) tr) = Inl e))
    \<and> (\<forall>err. (\<forall>k. en_ConsulGet (ne_E W) tr k = Inl err) \<longrightarrow>
          (\<exists>ks. fst (run_state (CreateKeyGenSession W p R st w t) tr) = Inr ks
             \<and> ps_WalletID (keygen_party ks) = w \<and> ps_Version (keygen_party ks) = 1))"
proof (intro conjI allI impI)
  note iff = CreateKeyGenSession_unreadable [of st R W p w t tr, OF assms]
  show "(\<exists>ks. fst (run_state (CreateKeyGenSession W p R st w t) tr) = Inr ks) \<longleftrightarrow>
        (\<exists>e. fst (run_state (getKeyInfo (ne_E W) st w) tr) = Inl e)" by (rule iff)
  fix err assume "\<forall>k. en_ConsulGet (ne_E W) tr k = Inl err"
  then have "\<exists>e. fst (run_state (getKeyInfo (ne_E W) st w) tr) = Inl e"
    using assms(1) by (auto simp: getKeyInfo_def keyinfo_Get_down)
  with iff obtain ks where "fst (run_state (CreateKeyGenSession W p R st w t) tr) = Inr ks" by blast
  with CreateKeyGenSession_run [OF this] show "\<exists>ks. fst (run_state (CreateKeyGenSession W p R st w t) tr) = Inr ks
      \<and> ps_WalletID (keygen_party ks) = w \<and> ps_Version (keygen_party ks) = 1" by blast
qed

definition env_down :: env where
  "env_down = env_ref\<lparr>en_ConsulGet := \<lambda>_ _. Inl (errorf ''down'')\<rparr>"

definition registry_full :: registry where
  "registry_full = registry_ref\<lparr>rg_readyMap := [(''n2'', True), (''n3'', True)], rg_readyCount := 3, rg_ready := True\<rparr>"

definition store_full :: fileStore where
  "store_full = SetSymmetricKey ''n3'' (Some ''k3'') (SetSymmetricKey ''n2'' (Some ''k2'') (ecdh_store_ref CHR ''a'' ''n2'' CHR ''b''))"

lemma full_ready: "ArePeersReady registry_full store_full"
  by (simp add: ArePeersReady_def registry_full_def isECDHReady_def GetReadyPeersCountExcludeSelf_def GetReadyPeersCount_def
      CheckSymmetricKeyComplete_def store_full_def SetSymmetricKey_def ecdh_store_ref_def wrap64_def)

lemma keygen_refused_iff_key_readable_example:
  "\<exists>ks. fst (run_state (CreateKeyGenSession (node_env_ref env_down) (node_ref ''n1'') (\<lambda>_. (registry_full, store_full))
      SessionTypeECDSA ''w'' 1) []) = Inr ks \<and> ps_WalletID (keygen_party ks) = ''w'' \<and> ps_Version (keygen_party ks) = 1"
  using keygen_refused_iff_key_readable [of SessionTypeECDSA "\<lambda>_. (registry_full, store_full)" "node_env_ref env_down"
      "node_ref ''n1''" "''w''" 1 "[]"]
  by (simp add: full_ready) (simp add: node_env_ref_def env_down_def)

theorem keygen_session_committee_witness:
  "\<exists>ks. fst (run_state (CreateKeyGenSession (node_env_ref env_down) (node_ref ''n1'') (\<lambda>_. (registry_full, store_full))
      SessionTypeECDSA ''w'' 1) []) = Inr ks \<and> committee_ok tss_lib_ref ''n1'' (keygen_party ks)
      \<and> ps_ParticipantPeerIDs (keygen_party ks) = [''n2'', ''n3'', ''n1'']"
proof -
  let ?W = "node_env_ref env_down" and ?R = "\<lambda>_ :: nat. (registry_full, store_full)"
  have "\<exists>e. fst (run_state (getKeyInfo (ne_E ?W) SessionTypeECDSA ''w'') []) = Inl e"
    by (simp add: getKeyInfo_def keyinfo_Get_def io_defs node_env_ref_def env_down_def)
  then obtain ks where ks: "fst (run_state (CreateKeyGenSession ?W (node_ref ''n1'') ?R SessionTypeECDSA ''w'' 1) []) = Inr ks"
    using CreateKeyGenSession_unreadable [of SessionTypeECDSA ?R ?W "node_ref ''n1''" "''w''" 1 "[]"] full_ready by fastforce
  have P: "GetReadyPeersIncludeSelf (ne_ord ?W) registry_full = [''n2'', ''n3'', ''n1'']"
    by (simp add: node_env_ref_def GetReadyPeersIncludeSelf_def ready_peers_def registry_full_def registry_ref_def)
  have ok: "node_id_ok ''n3''" by (simp add: node_id_ok_def is_space_def)
  have T: "ne_T ?W = tss_lib_ref" by (simp add: node_env_ref_def)
  show ?thesis
    using keygen_session_committee [OF _ _ ks] ks P ok node_id_ok_ref tss_lib_ref_ok
    by (simp add: T registry_full_def registry_ref_def node_ref_def)
qed

text \<open>The committee a resharing session belongs to: the new one, or the ready members of the old one.\<close>

definition resharing_committee :: "bool \<Rightarrow> string list \<Rightarrow> KeyInfo \<Rightarrow> string list \<Rightarrow> string list" where
  "resharing_committee isNewPeer newPeerIDs ki readyPeers =
     (if isNewPeer then newPeerIDs else getReadyPeersForSession ki readyPeers)"

lemma CreateResharingSession_run:
  assumes "fst (run_state (CreateResharingSession W p R st w t newPeers isNew) tr) = Ret (Inr (Some rs))"
  shows "inc64 t \<le> GetReadyPeersCount (fst (R 0)) \<and> inc64 t \<le> int (length newPeers)
    \<and> set newPeers \<subseteq> set (GetReadyPeersIncludeSelf (ne_ord W) (fst (R 1)))
    \<and> (\<exists>prefix ki tr2 v label. sessionKeyPrefix st = Inr prefix
        \<and> fst (run_state (keyinfo_Get (ne_E W) (prefix @ '':'' @ w)) tr) = Inr ki
        \<and> inc64 (ki_Threshold ki) \<le> int (length (getReadyPeersForSession ki (GetReadyPeersIncludeSelf (ne_ord W) (fst (R 2)))))
        \<and> (if isNew then nd_nodeID p \<in> set newPeers else nd_nodeID p \<in> set (ki_peers ki))
        \<and> ps_Threshold (resharing_party rs) = ki_Threshold ki \<and> ps_Version (resharing_party rs) = ki_Version ki
        \<and> ps_WalletID (resharing_party rs) = w
        \<and> fst (run_state (keygenPartyIDs (ne_E W) (ne_T W) p label
              (resharing_committee isNew newPeers ki (GetReadyPeersIncludeSelf (ne_ord W) (fst (R 2)))) v) tr2)
            = (ps_SelfPartyID (resharing_party rs), ps_PartyIDs (resharing_party rs)))"
proof -
  note unf = CreateResharingSession_def Let_def
  have g1: "inc64 t \<le> GetReadyPeersCount (fst (R 0))" "inc64 t \<le> int (length newPeers)"
    using assms by (auto simp: unf split: if_splits)
  have fnd: "List.find (\<lambda>q. q \<notin> set (GetReadyPeersIncludeSelf (ne_ord W) (fst (R 1)))) newPeers = None"
  proof (cases "List.find (\<lambda>q. q \<notin> set (GetReadyPeersIncludeSelf (ne_ord W) (fst (R 1)))) newPeers")
    case (Some q)
    with assms g1 show ?thesis by (simp add: unf del: One_nat_def)
  qed
  then have g2: "set newPeers \<subseteq> set (GetReadyPeersIncludeSelf (ne_ord W) (fst (R 1)))" by (auto simp: find_None_iff)
  obtain prefix where px: "sessionKeyPrefix st = Inr prefix"
    using assms g1 fnd by (cases "sessionKeyPrefix st") (auto simp: unf simp del: One_nat_def)
  obtain k tr1 where k: "run_state (keyinfo_Get (ne_E W) (prefix @ CHR '':'' # w)) tr = (k, tr1)" by fastforce
  obtain ki where ki: "k = Inr ki"
    using assms g1 fnd px k by (cases k) (auto simp: unf run_state_bind simp del: One_nat_def)
  define P where "P = getReadyPeersForSession ki (GetReadyPeersIncludeSelf (ne_ord W) (fst (R 2)))"
  have g3: "inc64 (ki_Threshold ki) \<le> int (length P)"
    "if isNew then nd_nodeID p \<in> set newPeers else nd_nodeID p \<in> set (ki_peers ki)"
    using assms g1 fnd px k ki
    by (auto simp: unf run_state_bind P_def simp del: One_nat_def split: if_splits)
  have ens: "(if \<not> isNew then ensureNodeIsParticipant p ki else None) = None"
    using g3(2) by (cases isNew) (simp_all only: ensureNodeIsParticipant_def if_True if_False not_not simp_thms)
  obtain v tr3 where v: "run_state (getVersion (ne_E W) st w) tr1 = (v, tr3)" by fastforce
  have skip: "\<not> (isNew \<and> nd_nodeID p \<notin> set newPeers)" "\<not> (\<not> isNew \<and> nd_nodeID p \<notin> set (ki_peers ki))"
    using g3(2) by (cases isNew; simp only: if_True if_False simp_thms)+
  note step = unf run_state_bind g1 [unfolded not_less [symmetric]] fnd px k ki P_def [symmetric]
    g3(1) [unfolded not_less [symmetric]] ens v
  have vr: "\<exists>ver. v = Ret ver"
    using assms skip by (cases v) (auto simp: step simp del: One_nat_def split: if_splits)
  then obtain ver where ver: "v = Ret ver" by blast
  obtain os oa tr4 where o: "run_state (keygenPartyIDs (ne_E W) (ne_T W) p PurposeKeygen P ver) tr3 = ((os, oa), tr4)"
    by (metis prod.exhaust)
  obtain ns na tr5 where n: "run_state (keygenPartyIDs (ne_E W) (ne_T W) p PurposeResharing newPeers (inc64 ver)) tr4 = ((ns, na), tr5)"
    by (metis prod.exhaust)
  have rs: "ps_Threshold (resharing_party rs) = ki_Threshold ki \<and> ps_Version (resharing_party rs) = ki_Version ki
      \<and> ps_WalletID (resharing_party rs) = w
      \<and> (ps_SelfPartyID (resharing_party rs), ps_PartyIDs (resharing_party rs)) = (if isNew then (ns, na) else (os, oa))"
    using assms skip
    by (auto simp: step ver o n NewECDSAResharingSession_def NewEDDSAResharingSession_def simp del: One_nat_def
        split: if_splits)
  have "\<exists>tr2 u label. fst (run_state (keygenPartyIDs (ne_E W) (ne_T W) p label
      (resharing_committee isNew newPeers ki (GetReadyPeersIncludeSelf (ne_ord W) (fst (R 2)))) u) tr2)
      = (ps_SelfPartyID (resharing_party rs), ps_PartyIDs (resharing_party rs))"
  proof (cases isNew)
    case True
    show ?thesis
      by (rule exI [of _ tr4], rule exI [of _ "inc64 ver"], rule exI [of _ PurposeResharing])
         (use True n rs in \<open>simp add: resharing_committee_def\<close>)
  next
    case False
    show ?thesis
      by (rule exI [of _ tr3], rule exI [of _ ver], rule exI [of _ PurposeKeygen])
         (use False o rs in \<open>simp add: resharing_committee_def P_def\<close>)
  qed
  with g1 g2 g3 px k ki rs show ?thesis unfolding P_def by fastforce
qed


lemma sessionKeyPrefix_simps [simp]:
  "sessionKeyPrefix SessionTypeECDSA = Inr ''ecdsa''" "sessionKeyPrefix SessionTypeEDDSA = Inr ''eddsa''"
  by (simp_all add: sessionKeyPrefix_def)

text \<open>The operation on stored key information, run forward: a node that has a part in it gets a session.\<close>

lemma CreateResharingSession_ref:
  assumes "KeyInfo_wf ki" and "inc64 t \<le> GetReadyPeersCount (fst (R 0))" and "inc64 t \<le> int (length newPeers)"
    and "set newPeers \<subseteq> set (GetReadyPeersIncludeSelf (\<lambda>xs. xs) (fst (R 1)))"
    and "inc64 (ki_Threshold ki) \<le> int (length (getReadyPeersForSession ki (GetReadyPeersIncludeSelf (\<lambda>xs. xs) (fst (R 2)))))"
    and "if isNew then nd_nodeID p \<in> set newPeers else nd_nodeID p \<in> set (ki_peers ki)"
  shows "\<exists>rs. fst (run_state (CreateResharingSession (node_env_ref (env_keyinfo ki)) p R SessionTypeECDSA w t newPeers isNew) tr)
    = Ret (Inr (Some (ECDSA_resharing rs))) \<and> er_newThreshold rs = t"
proof -
  have W: "ne_E (node_env_ref E) = E" "ne_ord (node_env_ref E) = (\<lambda>xs. xs)" for E by (simp_all add: node_env_ref_def)
  have fnd: "List.find (\<lambda>q. q \<notin> set (GetReadyPeersIncludeSelf (\<lambda>xs. xs) (fst (R 1)))) newPeers = None"
    using assms(4) by (auto simp: find_None_iff)
  have ens: "(if \<not> isNew then ensureNodeIsParticipant p ki else None) = None"
    using assms(6) by (auto simp: ensureNodeIsParticipant_def split: if_splits)
  show ?thesis
    using assms(2,3,5,6)
    by (auto simp: CreateResharingSession_def Let_def run_state_bind W fnd keyinfo_Get_ref_run [OF assms(1)] ens
        getVersion_def NewECDSAResharingSession_def simp del: One_nat_def split: prod.split if_splits)
qed


text \<open>
  C39: The guards of resharing say nothing for a new threshold out of range: with the largest 64-bit integer,
  or with any negative one, an old member of a ready committee gets a session even for an empty new
  committee, and the session carries that threshold.
\<close>

theorem resharing_threshold_out_of_range:
  assumes "KeyInfo_wf ki" and "registry_inv (fst (R 0))" and "int (card (ready_set (fst (R 0)))) < 2 ^ 63 - 1"
    and "t = 2 ^ 63 - 1 \<or> (- (2 ^ 63) \<le> t \<and> t < 0)"
    and "inc64 (ki_Threshold ki) \<le> int (length (getReadyPeersForSession ki (GetReadyPeersIncludeSelf (\<lambda>xs. xs) (fst (R 2)))))"
    and "nd_nodeID p \<in> set (ki_peers ki)"
  shows "\<exists>rs. fst (run_state (CreateResharingSession (node_env_ref (env_keyinfo ki)) p R SessionTypeECDSA w t [] False) tr)
    = Ret (Inr (Some (ECDSA_resharing rs))) \<and> er_newThreshold rs = t"
proof -
  have t: "inc64 t \<le> 0"
  proof (cases "t = 2 ^ 63 - 1")
    case True
    then show ?thesis by (simp only: inc64_max) simp
  next
    case False
    then have "inc64 t = t + 1" using assms(4) by (intro inc64_small) auto
    with False assms(4) show ?thesis by simp
  qed
  have "1 \<le> GetReadyPeersCount (fst (R 0))" using GetReadyPeersCount_small [OF assms(2,3)] by simp
  with t assms(5,6) show ?thesis by (intro CreateResharingSession_ref [OF assms(1)]) simp_all
qed

theorem resharing_threshold_out_of_range_witness:
  "\<exists>rs. fst (run_state (CreateResharingSession (node_env_ref (env_keyinfo keyinfo_ref)) (node_ref ''n1'')
       (\<lambda>_. (registry_full, store_full)) SessionTypeECDSA ''w'' (2 ^ 63 - 1) [] False) [])
    = Ret (Inr (Some (ECDSA_resharing rs))) \<and> er_newThreshold rs = 2 ^ 63 - 1"
proof -
  have s: "ready_set registry_full = {''n2'', ''n3''}"
    by (auto simp: ready_set_def registry_full_def split: if_splits)
  have inv: "registry_inv registry_full"
    unfolding registry_inv_def s by (simp add: registry_full_def registry_ref_def wrap64_def)
  have L: "GetReadyPeersIncludeSelf (\<lambda>xs. xs) registry_full = [''n2'', ''n3'', ''n1'']"
    by (simp add: GetReadyPeersIncludeSelf_def ready_peers_def registry_full_def registry_ref_def)
  have t: "wrap64 2 = 2" by (simp add: wrap64_def)
  show ?thesis
    by (rule resharing_threshold_out_of_range [OF keyinfo_ref_wf])
       (simp_all add: inv s L t getReadyPeersForSession_def keyinfo_ref_def node_ref_def)
qed

section \<open>Pre-parameters\<close>

definition pre_params_codec_ok :: "node_env \<Rightarrow> bool" where
  "pre_params_codec_ok W \<longleftrightarrow> (\<forall>x b. ne_PreParams_Marshal W x = Inr b \<longrightarrow> ne_PreParams_Unmarshal W b = Inr x)"

text \<open>
  Pre-parameters are generated once. If a start of the node generated the parameters of a slot, a later
  start with no write to that slot in between loads the same parameters from the store and generates none.
\<close>

lemma pre_params_survive_restart:
  assumes "pre_params_codec_ok W" and "kv_faithful (ne_E W)"
    and "run_state (load_pre_params W i) tr = (Ret x, tr')"
    and "list_all (\<lambda>c. \<forall>v. c \<noteq> KvPut (''pre_params_'' @ utoa i) v) mid"
    and "GenPreParams \<in> set (drop (length tr) tr')"
  shows "run_state (load_pre_params W i) (tr' @ mid) = (Ret x, tr' @ mid @ [KvGet (''pre_params_'' @ utoa i)])"
proof -
  let ?k = "''pre_params_'' @ utoa i"
  have no: "KvPut ?k v \<notin> set mid" for v using assms(4) by (auto simp: list_all_iff)
  from assms(3,5) obtain params b where g: "x = Some params" "ne_PreParams_Marshal W params = Inr b"
      "en_KvPut (ne_E W) (tr @ [KvGet ?k, GenPreParams]) ?k b = None"
      "tr' = tr @ [KvGet ?k, GenPreParams, KvPut ?k b]"
    by (auto simp: load_pre_params_def io_defs Let_def split: sum.splits option.splits)
  have "en_KvGet (ne_E W) ((tr @ [KvGet ?k, GenPreParams]) @ KvPut ?k b # mid) ?k = Inr b"
    by (rule kv_faithfulD [OF assms(2) g(3) no])
  moreover have "ne_PreParams_Unmarshal W b = Inr params" using assms(1) g(2) by (simp add: pre_params_codec_ok_def)
  ultimately show ?thesis by (simp add: load_pre_params_def io_defs Let_def g(1,4))
qed

lemma pre_params_survive_restart_example:
  "run_state (load_pre_params (node_env_ref env_ref) 0)
      ([KvGet ''pre_params_0'', GenPreParams, KvPut ''pre_params_0'' ''pre''] @ [TimeNow]) =
   (Ret (Some ''pre''), [KvGet ''pre_params_0'', GenPreParams, KvPut ''pre_params_0'' ''pre'', TimeNow, KvGet ''pre_params_0''])"
proof -
  have u: "utoa 0 = ''0''" by code_simp
  have W: "pre_params_codec_ok (node_env_ref env_ref)" "kv_faithful (ne_E (node_env_ref env_ref))"
    by (simp_all add: pre_params_codec_ok_def node_env_ref_def env_ref_kv)
  have run: "run_state (load_pre_params (node_env_ref env_ref) 0) [] =
      (Ret (Some ''pre''), [KvGet ''pre_params_0'', GenPreParams, KvPut ''pre_params_0'' ''pre''])"
    by (simp add: load_pre_params_def io_defs node_env_ref_def env_ref_def u Let_def)
  show ?thesis using pre_params_survive_restart [OF W run, of "[TimeNow]"] by (simp add: u)
qed

end
