(* ===== verification/Session_Manager.thy ===== *)
theory Session_Manager
  imports Prelude
begin

text \<open>
  \<^verbatim>\<open>pkg/session/manager.go\<close>: the table of active signing sessions that detects duplicate requests, and
  its cleanup routine. Times are nanoseconds since the epoch. The routine \<^verbatim>\<open>StartCleanup\<close>, which
  selects between the ticker and the stop channel, is the step relation \<open>cleanup_step\<close>. The locale
  \<open>session_table\<close> states what the event consumer relies on; it is interpreted on \<^verbatim>\<open>Manager\<close>.
\<close>

section \<open>The manager\<close>

text \<open>\<^verbatim>\<open>time.Time.Sub\<close> saturates at the bounds of \<^verbatim>\<open>time.Duration\<close>.\<close>

definition time_Sub :: "int \<Rightarrow> int \<Rightarrow> int" where
  "time_Sub t u = max (- (2 ^ 63)) (min (2 ^ 63 - 1) (t - u))"

definition GetSessionID :: "string \<Rightarrow> string \<Rightarrow> string" where
  "GetSessionID walletID txID = walletID @ ''-'' @ txID"

record Manager =
  activeSessions :: "int gomap"
  cleanupInterval :: int
  sessionTimeout :: int
  stopChan_closed :: bool

definition NewManager :: "int \<Rightarrow> int \<Rightarrow> Manager" where
  "NewManager cleanup_interval session_timeout =
     \<lparr>activeSessions = [], cleanupInterval = cleanup_interval, sessionTimeout = session_timeout,
      stopChan_closed = False\<rparr>"

definition AddSession :: "string \<Rightarrow> string \<Rightarrow> int \<Rightarrow> Manager \<Rightarrow> Manager" where
  "AddSession walletID txID now m =
     (let sessionID = GetSessionID walletID txID
      in m\<lparr>activeSessions := gm_put sessionID now (activeSessions m)\<rparr>)"

definition HasSession :: "string \<Rightarrow> string \<Rightarrow> Manager \<Rightarrow> bool" where
  "HasSession walletID txID m =
     (let sessionID = GetSessionID walletID txID
      in case gm_get (activeSessions m) sessionID of Some _ \<Rightarrow> True | None \<Rightarrow> False)"

text \<open>The loop of \<^verbatim>\<open>cleanupStaleSessions\<close> over the entries the map had when it started.\<close>

fun cleanup_loop :: "int \<Rightarrow> int \<Rightarrow> (string \<times> int) list \<Rightarrow> int gomap \<times> nat \<Rightarrow> int gomap \<times> nat" where
  "cleanup_loop now limit [] (sessions, cleanedCount) = (sessions, cleanedCount)"
| "cleanup_loop now limit ((sessionID, creationTime) # es) (sessions, cleanedCount) =
     (if time_Sub now creationTime > limit
      then cleanup_loop now limit es (gm_del sessionID sessions, Suc cleanedCount)
      else cleanup_loop now limit es (sessions, cleanedCount))"

definition cleanupStaleSessions :: "int \<Rightarrow> Manager \<Rightarrow> Manager" where
  "cleanupStaleSessions now m =
     m\<lparr>activeSessions := fst (cleanup_loop now (sessionTimeout m) (activeSessions m) (activeSessions m, 0))\<rparr>"

definition GetActiveSessionCount :: "Manager \<Rightarrow> nat" where
  "GetActiveSessionCount m = length (activeSessions m)"

definition GetActiveSessions :: "Manager \<Rightarrow> int gomap" where
  "GetActiveSessions m = foldr (\<lambda>(k, v) acc. gm_put k v acc) (activeSessions m) []"

text \<open>Closing a closed channel panics.\<close>

definition Stop_sessions :: "Manager \<Rightarrow> Manager go_res" where
  "Stop_sessions m = (if stopChan_closed m then Panic else Ret (m\<lparr>stopChan_closed := True\<rparr>))"

text \<open>
  \<^verbatim>\<open>StartCleanup\<close>: the state pairs the manager with whether the routine is still running. When the
  ticker and the stop channel are both ready the runtime picks either.
\<close>

inductive cleanup_step :: "Manager \<times> bool \<Rightarrow> Manager \<times> bool \<Rightarrow> bool" where
  tick: "cleanup_step (m, True) (cleanupStaleSessions now m, True)"
| stop: "stopChan_closed m \<Longrightarrow> cleanup_step (m, True) (m, False)"

inductive_cases cleanup_stepE: "cleanup_step (m, b) (m', b')"

section \<open>Laws of the table\<close>

definition manager_inv :: "Manager \<Rightarrow> bool" where
  "manager_inv m \<longleftrightarrow> gm_ok (activeSessions m)"

definition created_at :: "string \<Rightarrow> string \<Rightarrow> Manager \<Rightarrow> int option" where
  "created_at w t m = gm_get (activeSessions m) (GetSessionID w t)"

definition stale :: "int \<Rightarrow> Manager \<Rightarrow> int \<Rightarrow> bool" where
  "stale now m c \<longleftrightarrow> time_Sub now c > sessionTimeout m"

lemma cleanup_loop_get:
  "distinct (map fst es) \<Longrightarrow>
   gm_get (fst (cleanup_loop now limit es (s, n))) k =
     (case map_of es k of
        Some c \<Rightarrow> if time_Sub now c > limit then None else gm_get s k
      | None \<Rightarrow> gm_get s k)"
proof (induction now limit es "(s, n)" arbitrary: s n rule: cleanup_loop.induct)
  case (2 now limit i c es s n)
  then have i: "map_of es i = None" by (simp add: map_of_eq_None_iff)
  from 2 i show ?case
    by (cases "map_of es k") (auto simp: gm_simps)
qed simp

lemma cleanup_loop_ok: "gm_ok s \<Longrightarrow> gm_ok (fst (cleanup_loop now limit es (s, n)))"
  by (induction now limit es "(s, n)" arbitrary: s n rule: cleanup_loop.induct)
     (auto simp: gm_simps)

lemma cleanup_loop_count:
  "snd (cleanup_loop now limit es (s, n)) = n + length (filter (\<lambda>(_, c). time_Sub now c > limit) es)"
  by (induction now limit es "(s, n)" arbitrary: s n rule: cleanup_loop.induct) auto

lemma created_at_cleanup:
  assumes "manager_inv m"
  shows "created_at w t (cleanupStaleSessions now m) =
    (case created_at w t m of None \<Rightarrow> None | Some c \<Rightarrow> if stale now m c then None else Some c)"
  using assms
  by (auto simp: created_at_def cleanupStaleSessions_def manager_inv_def cleanup_loop_get stale_def
      split: option.splits)

lemma GetSessionID_inject:
  "length w = length w' \<Longrightarrow> GetSessionID w t = GetSessionID w' t' \<longleftrightarrow> w = w' \<and> t = t'"
  by (auto simp: GetSessionID_def)

lemma GetSessionID_inject_no_dash:
  "CHR ''-'' \<notin> set w \<Longrightarrow> CHR ''-'' \<notin> set w' \<Longrightarrow>
   GetSessionID w t = GetSessionID w' t' \<longleftrightarrow> w = w' \<and> t = t'"
  by (auto simp: GetSessionID_def dest: append_sep_inject)

text \<open>An operation on a table: a further session added, or a cleanup tick, each at a time.\<close>

fun table_op :: "(string \<Rightarrow> string \<Rightarrow> int \<Rightarrow> 'm \<Rightarrow> 'm) \<Rightarrow> (int \<Rightarrow> 'm \<Rightarrow> 'm) \<Rightarrow>
    (string \<times> string) option \<times> int \<Rightarrow> 'm \<Rightarrow> 'm" where
  "table_op add clean (Some (w, t), now) m = add w t now m"
| "table_op add clean (None, now) m = clean now m"

text \<open>
  The contract the signing handler relies on: a session that was added is reported until a cleanup
  that runs after it has expired.
\<close>

locale session_table =
  fixes inv :: "'m \<Rightarrow> bool"
    and add :: "string \<Rightarrow> string \<Rightarrow> int \<Rightarrow> 'm \<Rightarrow> 'm"
    and clean :: "int \<Rightarrow> 'm \<Rightarrow> 'm"
    and has :: "string \<Rightarrow> string \<Rightarrow> 'm \<Rightarrow> bool"
    and born :: "string \<Rightarrow> string \<Rightarrow> 'm \<Rightarrow> int option"
    and limit :: "'m \<Rightarrow> int"
  assumes inv_add: "inv m \<Longrightarrow> inv (add w t now m)"
    and inv_clean: "inv m \<Longrightarrow> inv (clean now m)"
    and has_born: "has w t m \<longleftrightarrow> born w t m \<noteq> None"
    and born_add: "born w t (add w t now m) = Some now"
    and born_add_other: "born w t (add w' t' now m) \<in> {Some now, born w t m}"
    and born_clean: "inv m \<Longrightarrow> born w t (clean now m) =
          (case born w t m of None \<Rightarrow> None
           | Some c \<Rightarrow> if time_Sub now c > limit m then None else Some c)"
    and limit_keeps: "limit (add w t now m) = limit m" "limit (clean now m) = limit m"
begin

abbreviation apply_op :: "(string \<times> string) option \<times> int \<Rightarrow> 'm \<Rightarrow> 'm" where
  "apply_op \<equiv> table_op add clean"

lemma inv_ops: "inv m \<Longrightarrow> inv (fold apply_op ops m)"
proof (induction ops arbitrary: m)
  case (Cons x ops)
  then show ?case by (cases x; cases "fst x") (auto simp: inv_add inv_clean)
qed simp

lemma born_ops:
  assumes "inv m" and "born w t m = Some c" and "lo \<le> c"
    and "\<forall>(_, now) \<in> set ops. lo \<le> now \<and> time_Sub now lo \<le> limit m"
  shows "\<exists>c'. born w t (fold apply_op ops m) = Some c' \<and> lo \<le> c'"
  using assms
proof (induction ops arbitrary: m c)
  case (Cons x ops)
  obtain o' now where x: "x = (o', now)" by (cases x)
  with Cons.prems have now: "lo \<le> now" "time_Sub now lo \<le> limit m" by auto
  have "\<exists>c'. born w t (apply_op x m) = Some c' \<and> lo \<le> c'"
  proof (cases o')
    case None
    have "time_Sub now c \<le> time_Sub now lo" using Cons.prems(3) by (auto simp: time_Sub_def)
    with None x now Cons.prems show ?thesis by (auto simp: born_clean)
  next
    case (Some p)
    then obtain w' t' where p: "o' = Some (w', t')" by (cases p) auto
    have "born w t (add w' t' now m) \<in> {Some now, born w t m}" by (rule born_add_other)
    with p x now Cons.prems show ?thesis by auto
  qed
  moreover have "inv (apply_op x m)"
    using Cons.prems(1) x by (cases o') (auto simp: inv_add inv_clean)
  moreover have "limit (apply_op x m) = limit m"
    using x by (cases o') (auto simp: limit_keeps)
  ultimately show ?case using Cons.IH Cons.prems(4) by fastforce
qed auto

lemma has_within_limit:
  assumes "inv m" and "\<forall>(_, now) \<in> set ops. start \<le> now \<and> time_Sub now start \<le> limit m"
  shows "has w t (fold apply_op ops (add w t start m))"
  using born_ops [of "add w t start m" w t start start ops] assms
  by (auto simp: has_born inv_add born_add limit_keeps)

lemma gone_after_limit:
  assumes "inv m" and "born w t m = Some c" and "time_Sub now c > limit m"
  shows "\<not> has w t (clean now m)"
  using assms by (simp add: has_born born_clean)

end

interpretation sessions: session_table manager_inv AddSession cleanupStaleSessions HasSession created_at
  sessionTimeout
proof
  show "created_at w t (AddSession w' t' now m) \<in> {Some now, created_at w t m}" for w t w' t' now m
    by (simp add: created_at_def AddSession_def gm_simps)
  show "HasSession w t m \<longleftrightarrow> created_at w t m \<noteq> None" for w t m
    by (simp add: HasSession_def created_at_def split: option.splits)
  show "manager_inv m \<Longrightarrow> manager_inv (cleanupStaleSessions now m)" for m now
    by (simp add: manager_inv_def cleanupStaleSessions_def cleanup_loop_ok)
  show "manager_inv m \<Longrightarrow> created_at w t (cleanupStaleSessions now m) =
      (case created_at w t m of None \<Rightarrow> None
       | Some c \<Rightarrow> if time_Sub now c > sessionTimeout m then None else Some c)" for w t now m
    using created_at_cleanup [of m w t now] by (cases "created_at w t m") (simp_all add: stale_def)
qed (auto simp: manager_inv_def AddSession_def Let_def gm_simps created_at_def cleanupStaleSessions_def)

section \<open>Properties\<close>

text \<open>
  A signing session is protected against duplicates for the whole session timeout. After
  \<^verbatim>\<open>AddSession\<close>, any mix of further sessions and cleanup ticks that happen no later than the timeout
  leaves \<^verbatim>\<open>HasSession\<close> true; and the first cleanup after the timeout forgets the session, so its
  entry does not leak.
\<close>

lemma session_dedup_window:
  assumes "manager_inv m"
    and "\<forall>(_, now) \<in> set ops. start \<le> now \<and> time_Sub now start \<le> sessionTimeout m"
    and "time_Sub late start > sessionTimeout m"
  shows "HasSession w t (fold (table_op AddSession cleanupStaleSessions) ops (AddSession w t start m))
    \<and> \<not> HasSession w t (cleanupStaleSessions late (AddSession w t start m))"
proof
  show "HasSession w t (fold (table_op AddSession cleanupStaleSessions) ops (AddSession w t start m))"
    using assms by (intro sessions.has_within_limit)
  show "\<not> HasSession w t (cleanupStaleSessions late (AddSession w t start m))"
    using assms(1,3)
    by (intro sessions.gone_after_limit [of _ w t start]) (simp_all add: sessions.inv_add sessions.born_add sessions.limit_keeps)
qed

lemma session_dedup_window_example:
  "HasSession ''w'' ''t'' (fold (table_op AddSession cleanupStaleSessions) [(Some (''w'', ''u''), 12), (None, 20)]
      (AddSession ''w'' ''t'' 10 (NewManager 5 100)))"
  using session_dedup_window [of "NewManager 5 100" "[(Some (''w'', ''u''), 12), (None, 20)]" 10 200 "''w''" "''t''"]
  by (simp add: manager_inv_def NewManager_def time_Sub_def)

text \<open>
  The session key \<^verbatim>\<open>walletID-txID\<close> identifies a request among wallets whose IDs have one common
  length, as UUIDs have, and in general it does not: there are two different requests of which adding one
  makes the other look like a duplicate.
\<close>

lemma session_id_collision:
  "(length w = length w' \<longrightarrow> (w, t) \<noteq> (w', t') \<longrightarrow>
      HasSession w t (AddSession w' t' now m) = HasSession w t m)
   \<and> HasSession ''a'' ''b-c'' (AddSession ''a-b'' ''c'' now m)"
proof
  show "length w = length w' \<longrightarrow> (w, t) \<noteq> (w', t') \<longrightarrow>
      HasSession w t (AddSession w' t' now m) = HasSession w t m"
    by (auto simp: HasSession_def AddSession_def Let_def gm_simps GetSessionID_inject)
  show "HasSession ''a'' ''b-c'' (AddSession ''a-b'' ''c'' now m)"
    by (simp add: HasSession_def AddSession_def GetSessionID_def gm_simps)
qed

lemma session_id_collision_example:
  "HasSession ''w1'' ''t'' (AddSession ''w2'' ''t'' 7 (NewManager 1 2)) = HasSession ''w1'' ''t'' (NewManager 1 2)"
  using session_id_collision [of "''w1''" "''w2''" "''t''" "''t''" 7 "NewManager 1 2"] by simp

end
