(* ===== verification/Event_Consumer.thy ===== *)
theory Event_Consumer
  imports Mpc_Node Session_Manager
begin

text \<open>
  \<^verbatim>\<open>pkg/eventconsumer/event.go\<close>: the handlers of key generation, signing and resharing requests, the
  reports of failures, the workers that bound concurrency, and the life cycle of the consumer.

  A handler is split where it starts goroutines. What it does before is a function (\<open>keygen_setup\<close>,
  \<open>handleSigningEvent\<close>, \<open>resharing_setup\<close>); what the goroutines and the final select do is a step
  relation (\<open>keygen_step\<close>, \<open>signing_step\<close>, \<open>resharing_step\<close>) on the shared variables of the handler, whose
  steps may come in any order the channels allow. The calls of one step follow each other in the history.
\<close>

section \<open>Messages and results\<close>

text \<open>A NATS message: its data, the reply subject and its headers (the first value of each).\<close>

record nats_Msg =
  nm_Data :: bytes
  nm_Reply :: string
  nm_Header :: "string gomap"

definition header_Get :: "nats_Msg \<Rightarrow> string \<Rightarrow> string" where
  "header_Get m k = (case gm_get (nm_Header m) k of None \<Rightarrow> [] | Some v \<Rightarrow> v)"

definition MPCGenerateEvent :: string where "MPCGenerateEvent = ''mpc:generate''"
definition MPCSignEvent :: string where "MPCSignEvent = ''mpc:signing''"
definition MPCResharingEvent :: string where "MPCResharingEvent = ''mpc:resharing''"

definition TypeGenerateWalletResultFmt :: "string \<Rightarrow> string" where
  "TypeGenerateWalletResultFmt s = ''mpc.mpc_keygen_result.'' @ s"
definition TypeResharingWalletResultFmt :: "string \<Rightarrow> string" where
  "TypeResharingWalletResultFmt s = ''mpc.mpc_resharing_result.'' @ s"
definition TypeSigningResultFmt :: "string \<Rightarrow> string" where
  "TypeSigningResultFmt s = ''mpc.mpc_signing_result.'' @ s"

definition composeIdempotentKey :: "string \<Rightarrow> nats_Msg \<Rightarrow> (string \<Rightarrow> string) \<Rightarrow> string" where
  "composeIdempotentKey baseID natMsg formatTemplate =
     (let sid = header_Get natMsg ''SessionID'';
          uniqueKey = (if sid \<noteq> [] then baseID @ '':'' @ sid else baseID)
      in formatTemplate uniqueKey)"

definition composeKeygenIdempotentKey :: "string \<Rightarrow> nats_Msg \<Rightarrow> string" where
  "composeKeygenIdempotentKey walletID natMsg = composeIdempotentKey walletID natMsg TypeGenerateWalletResultFmt"
definition composeSigningResultIdempotentKey :: "string \<Rightarrow> nats_Msg \<Rightarrow> string" where
  "composeSigningResultIdempotentKey txID natMsg = composeIdempotentKey txID natMsg TypeSigningResultFmt"
definition composeResharingResultIdempotentKey :: "string \<Rightarrow> nats_Msg \<Rightarrow> string" where
  "composeResharingResultIdempotentKey sessionID natMsg = composeIdempotentKey sessionID natMsg TypeResharingWalletResultFmt"

definition sessionTypeFromKeyType :: "string \<Rightarrow> go_error + string" where
  "sessionTypeFromKeyType keyType =
     (if keyType = KeyTypeSecp256k1 then Inr SessionTypeECDSA
      else if keyType = KeyTypeEd25519 then Inr SessionTypeEDDSA
      else Inl (errorf (''unsupported key type: '' @ keyType)))"

definition sendReplyToRemoveMsg :: "env \<Rightarrow> nats_Msg \<Rightarrow> unit io" where
  "sendReplyToRemoveMsg E natMsg =
     (if nm_Reply natMsg = [] then State_Monad.return ()
      else do { _ \<leftarrow> io_Publish E (nm_Reply natMsg) (nm_Data natMsg); State_Monad.return () })"

definition handleKeygenSessionError :: "env \<Rightarrow> string \<Rightarrow> go_error \<Rightarrow> string \<Rightarrow> nats_Msg \<Rightarrow> unit io" where
  "handleKeygenSessionError E walletID err contextMsg natMsg = do {
     let fullErrMsg = contextMsg @ '': '' @ err_msg err;
     let errorCode = GetErrorCodeFromError (Some err);
     let keygenResult = KeygenResponse_zero\<lparr>kr_ErrorCode := errorCode, kr_WalletID := walletID, kr_ErrorReason := fullErrMsg\<rparr>;
     _ \<leftarrow> io_Enqueue E (TypeGenerateWalletResultFmt walletID) (Marshal_KeygenResponse keygenResult)
           (composeKeygenIdempotentKey walletID natMsg);
     sendReplyToRemoveMsg E natMsg }"

definition handleSigningSessionError :: "env \<Rightarrow> string \<Rightarrow> string \<Rightarrow> go_error \<Rightarrow> string \<Rightarrow> nats_Msg \<Rightarrow> unit io" where
  "handleSigningSessionError E walletID txID err contextMsg natMsg = do {
     let fullErrMsg = contextMsg @ '': '' @ err_msg err;
     let errorCode = GetErrorCodeFromError (Some err);
     let signingResult = SigningResponse_zero\<lparr>sr_ErrorCode := errorCode, sr_WalletID := walletID, sr_TxID := txID,
                            sr_ErrorReason := fullErrMsg\<rparr>;
     _ \<leftarrow> io_Enqueue E SigningResultCompleteTopic (Marshal_SigningResponse signingResult)
           (composeSigningResultIdempotentKey txID natMsg);
     sendReplyToRemoveMsg E natMsg }"

definition handleResharingSessionError ::
  "env \<Rightarrow> string \<Rightarrow> string \<Rightarrow> int \<Rightarrow> go_error \<Rightarrow> string \<Rightarrow> nats_Msg \<Rightarrow> unit io" where
  "handleResharingSessionError E walletID keyType newThreshold err contextMsg natMsg = do {
     let fullErrMsg = contextMsg @ '': '' @ err_msg err;
     let errorCode = GetErrorCodeFromError (Some err);
     let resharingResult = ResharingResponse_zero\<lparr>rr_ErrorCode := errorCode, rr_WalletID := walletID,
                             rr_KeyType := keyType, rr_NewThreshold := newThreshold, rr_ErrorReason := fullErrMsg\<rparr>;
     _ \<leftarrow> io_Enqueue E (TypeResharingWalletResultFmt walletID) (Marshal_ResharingResponse resharingResult)
           (composeResharingResultIdempotentKey walletID natMsg);
     sendReplyToRemoveMsg E natMsg }"

section \<open>The consumer\<close>

definition DefaultConcurrentKeygen :: int where "DefaultConcurrentKeygen = 2"
definition DefaultConcurrentSigning :: int where "DefaultConcurrentSigning = 20"
definition DefaultConcurrentResharing :: int where "DefaultConcurrentResharing = 5"
definition DefaultSessionWarmUpDelay :: int where "DefaultSessionWarmUpDelay = 200"

record eventConsumer =
  cn_threshold :: int
  cn_node :: Node
  cn_keygenSub :: "string option"
  cn_signingSub :: "string option"
  cn_resharingSub :: "string option"
  cn_closed :: bool
  cn_maxConcurrentKeygen :: int
  cn_maxConcurrentSigning :: int
  cn_maxConcurrentResharing :: int
  cn_sessionMgr :: Manager
  cn_sessionWarmUpDelayMs :: int

text \<open>The configuration values are arguments; zero stands for a value that is not set. Times are nanoseconds.\<close>

definition NewEventConsumer :: "Node \<Rightarrow> int \<Rightarrow> int \<Rightarrow> int \<Rightarrow> int \<Rightarrow> int \<Rightarrow> eventConsumer io" where
  "NewEventConsumer node threshold confKeygen confSigning confResharing confWarmUp = do {
     let maxConcurrentKeygen = (if confKeygen = 0 then DefaultConcurrentKeygen else confKeygen);
     let maxConcurrentSigning = (if confSigning = 0 then DefaultConcurrentSigning else confSigning);
     let maxConcurrentResharing = (if confResharing = 0 then DefaultConcurrentResharing else confResharing);
     let sessionWarmUpDelayMs = (if confWarmUp = 0 then DefaultSessionWarmUpDelay else confWarmUp);
     let sessionMgr = NewManager (5 * 60 * 10 ^ 9) (30 * 60 * 10 ^ 9);
     io_Go ''startKeyGenEventWorker'';
     io_Go ''startSigningEventWorker'';
     io_Go ''startResharingEventWorker'';
     io_Go ''StartCleanup'';
     State_Monad.return
       \<lparr>cn_threshold = threshold, cn_node = node, cn_keygenSub = None, cn_signingSub = None, cn_resharingSub = None,
        cn_closed = False, cn_maxConcurrentKeygen = maxConcurrentKeygen, cn_maxConcurrentSigning = maxConcurrentSigning,
        cn_maxConcurrentResharing = maxConcurrentResharing, cn_sessionMgr = sessionMgr,
        cn_sessionWarmUpDelayMs = sessionWarmUpDelayMs\<rparr> }"

definition warmUpSession :: "eventConsumer \<Rightarrow> unit io" where
  "warmUpSession ec = io_Sleep (cn_sessionWarmUpDelayMs ec)"

definition consumeKeyGenerationEvent :: "env \<Rightarrow> eventConsumer \<Rightarrow> (go_error option \<times> eventConsumer) io" where
  "consumeKeyGenerationEvent E ec = do {
     err \<leftarrow> io_Subscribe E MPCGenerateEvent;
     State_Monad.return (err, ec\<lparr>cn_keygenSub := (if err = None then Some MPCGenerateEvent else None)\<rparr>) }"

definition consumeSigningEvent :: "env \<Rightarrow> eventConsumer \<Rightarrow> (go_error option \<times> eventConsumer) io" where
  "consumeSigningEvent E ec = do {
     err \<leftarrow> io_Subscribe E MPCSignEvent;
     State_Monad.return (err, ec\<lparr>cn_signingSub := (if err = None then Some MPCSignEvent else None)\<rparr>) }"

definition consumeResharingEvent :: "env \<Rightarrow> eventConsumer \<Rightarrow> (go_error option \<times> eventConsumer) io" where
  "consumeResharingEvent E ec = do {
     err \<leftarrow> io_Subscribe E MPCResharingEvent;
     State_Monad.return (err, ec\<lparr>cn_resharingSub := (if err = None then Some MPCResharingEvent else None)\<rparr>) }"

definition Run_consumer :: "env \<Rightarrow> eventConsumer \<Rightarrow> eventConsumer go_res io" where
  "Run_consumer E ec = do {
     (e1, ec1) \<leftarrow> consumeKeyGenerationEvent E ec;
     if e1 \<noteq> None then do { io_Fatal; State_Monad.return Panic } else do {
     (e2, ec2) \<leftarrow> consumeSigningEvent E ec1;
     if e2 \<noteq> None then do { io_Fatal; State_Monad.return Panic } else do {
     (e3, ec3) \<leftarrow> consumeResharingEvent E ec2;
     if e3 \<noteq> None then do { io_Fatal; State_Monad.return Panic } else State_Monad.return (Ret ec3) }}}"

text \<open>Closing a channel twice panics, and so does a method call on a nil subscription.\<close>

definition Close_consumer :: "env \<Rightarrow> eventConsumer \<Rightarrow> (go_error option \<times> eventConsumer) go_res io" where
  "Close_consumer E ec =
     (if cn_closed ec then do { io_Crash; State_Monad.return Panic }
      else let ec1 = ec\<lparr>cn_closed := True\<rparr> in
      (case (cn_keygenSub ec, cn_signingSub ec, cn_resharingSub ec) of
         (Some a, Some b, Some c) \<Rightarrow> do {
           e1 \<leftarrow> io_Unsubscribe E a;
           (case e1 of Some x \<Rightarrow> State_Monad.return (Ret (Some x, ec1)) | None \<Rightarrow> do {
           e2 \<leftarrow> io_Unsubscribe E b;
           (case e2 of Some x \<Rightarrow> State_Monad.return (Ret (Some x, ec1)) | None \<Rightarrow> do {
           e3 \<leftarrow> io_Unsubscribe E c;
           (case e3 of Some x \<Rightarrow> State_Monad.return (Ret (Some x, ec1)) | None \<Rightarrow>
             (case Stop_sessions (cn_sessionMgr ec) of
                Panic \<Rightarrow> do { io_Crash; State_Monad.return Panic }
              | Ret m \<Rightarrow> State_Monad.return (Ret (None, ec1\<lparr>cn_sessionMgr := m\<rparr>)))) }) }) }
       | _ \<Rightarrow> do { io_Crash; State_Monad.return Panic }))"

section \<open>Key generation\<close>

text \<open>
  The handler up to its goroutines: the two sessions, initialised and listening, or nothing when it has
  reported a failure. The registry and the identity store at its questions are given by \<open>R\<close> for the ECDSA
  session and \<open>R'\<close> for the EdDSA session; \<open>k\<close> and \<open>k'\<close> are the numbers of direct subscriptions made before
  the broadcast subscription of each. The select goroutines start before the subscriptions; they are
  \<open>keygen_step\<close>, which begins after the warm-up.
\<close>

definition keygen_kind_Init :: "keygen_kind \<Rightarrow> unit io" where
  "keygen_kind_Init s = (case s of ECDSA_keygen x \<Rightarrow> ecdsa_keygen_Init x | EDDSA_keygen x \<Rightarrow> eddsa_keygen_Init x)"

definition keygen_setup ::
  "node_env \<Rightarrow> fileStore \<Rightarrow> eventConsumer \<Rightarrow> registry_reads \<Rightarrow> registry_reads \<Rightarrow> nat \<Rightarrow> nat \<Rightarrow> nats_Msg \<Rightarrow>
   (string \<times> PartySession \<times> PartySession) option io" where
  "keygen_setup W ids ec R R' k k' natMsg =
     (let E = ne_E W; raw = nm_Data natMsg in
      case Unmarshal_KeygenMessage raw of
        (msg, Some err) \<Rightarrow> do {
          handleKeygenSessionError E (km_WalletID msg) err ''Failed to unmarshal keygen message'' natMsg;
          State_Monad.return None }
      | (msg, None) \<Rightarrow>
      (case VerifyInitiatorMessage (ne_C W) ids (IKeygen msg) of
         Panic \<Rightarrow> do { io_Crash; State_Monad.return None }
       | Ret (Some err) \<Rightarrow> do {
           handleKeygenSessionError E (km_WalletID msg) err ''Failed to verify initiator message'' natMsg;
           State_Monad.return None }
       | Ret None \<Rightarrow> do {
           let walletID = km_WalletID msg;
           ecdsa \<leftarrow> CreateKeyGenSession W (cn_node ec) R SessionTypeECDSA walletID (cn_threshold ec);
           (case ecdsa of
              Inl err \<Rightarrow> do {
                handleKeygenSessionError E walletID err ''Failed to create ECDSA key generation session'' natMsg;
                State_Monad.return None }
            | Inr ecdsaSession \<Rightarrow> do {
                eddsa \<leftarrow> CreateKeyGenSession W (cn_node ec) R' SessionTypeEDDSA walletID (cn_threshold ec);
                (case eddsa of
                   Inl err \<Rightarrow> do {
                     handleKeygenSessionError E walletID err ''Failed to create EdDSA key generation session'' natMsg;
                     State_Monad.return None }
                 | Inr eddsaSession \<Rightarrow> do {
                     keygen_kind_Init ecdsaSession;
                     keygen_kind_Init eddsaSession;
                     s1 \<leftarrow> ListenToIncomingMessageAsync E (ne_T W) k (keygen_party ecdsaSession);
                     s2 \<leftarrow> ListenToIncomingMessageAsync E (ne_T W) k' (keygen_party eddsaSession);
                     warmUpSession ec;
                     io_Go ''GenerateKey'';
                     io_Go ''GenerateKey'';
                     State_Monad.return (Some (walletID, s1, s2)) }) }) }))"

text \<open>
  The shared variables of the handler once its goroutines run: the sessions, the response, the error
  channel, whether the deadline has passed, which goroutine still watches, and how the handler ended. The
  last arguments of \<open>keygen_start\<close> are the errors that setting up the subscriptions has already offered.
\<close>

datatype keygen_outcome = KG_waiting | KG_success | KG_failed | KG_timeout | KG_publish_failed

record keygen_run =
  kg_walletID :: string
  kg_msg :: nats_Msg
  kg_ecdsa :: "PartySession live"
  kg_eddsa :: "PartySession live"
  kg_response :: KeygenResponse
  kg_errors :: "go_error list"
  kg_timeout :: bool
  kg_watchEcdsa :: bool
  kg_watchEddsa :: bool
  kg_outcome :: keygen_outcome
  kg_trace :: "call list"

definition keygen_start ::
  "string \<Rightarrow> nats_Msg \<Rightarrow> PartySession \<Rightarrow> PartySession \<Rightarrow> go_error list \<Rightarrow> go_error list \<Rightarrow> call list \<Rightarrow> keygen_run" where
  "keygen_start walletID natMsg s1 s2 errs1 errs2 tr =
     \<lparr>kg_walletID = walletID, kg_msg = natMsg, kg_ecdsa = live_start s1 errs1, kg_eddsa = live_start s2 errs2,
      kg_response = KeygenResponse_zero\<lparr>kr_WalletID := walletID\<rparr>, kg_errors = [],
      kg_timeout = False, kg_watchEcdsa = True, kg_watchEddsa = True,
      kg_outcome = KG_waiting, kg_trace = tr\<rparr>"

text \<open>What follows the select of the handler when both goroutines are done and no error was seen.\<close>

definition keygen_publish :: "env \<Rightarrow> string \<Rightarrow> nats_Msg \<Rightarrow> KeygenResponse \<Rightarrow> keygen_outcome io" where
  "keygen_publish E walletID natMsg response = do {
     let payload = Marshal_KeygenResponse response;
     err \<leftarrow> io_Enqueue E (TypeGenerateWalletResultFmt walletID) payload (composeKeygenIdempotentKey walletID natMsg);
     (case err of
        Some e \<Rightarrow> do {
          handleKeygenSessionError E walletID e ''Failed to publish key generation success message'' natMsg;
          State_Monad.return KG_publish_failed }
      | None \<Rightarrow> do { sendReplyToRemoveMsg E natMsg; State_Monad.return KG_success }) }"

definition keygen_timeout_error :: go_error where
  "keygen_timeout_error = errorf ''keygen session timed out after 30s''"

inductive keygen_step :: "node_env \<Rightarrow> fileStore \<Rightarrow> keygen_run \<Rightarrow> keygen_run \<Rightarrow> bool"
  for W :: node_env and ids :: fileStore where
  ecdsa: "live_step (\<lambda>s. s) (ecdsa_keygen_loop (ne_E W) (ne_C W) (ne_T W) (ne_L_ecdsa W) ids)
      (handle_incoming (ne_E W) (ne_C W) (ne_T W) ids) (kg_ecdsa g) (kg_trace g) v' tr' \<Longrightarrow>
    keygen_step W ids g (g\<lparr>kg_ecdsa := v', kg_trace := tr'\<rparr>)"
| eddsa: "live_step (\<lambda>s. s) (eddsa_keygen_loop (ne_E W) (ne_C W) (ne_T W) (ne_L_eddsa W) ids)
      (handle_incoming (ne_E W) (ne_C W) (ne_T W) ids) (kg_eddsa g) (kg_trace g) v' tr' \<Longrightarrow>
    keygen_step W ids g (g\<lparr>kg_eddsa := v', kg_trace := tr'\<rparr>)"
| timeout: "keygen_step W ids g (g\<lparr>kg_timeout := True\<rparr>)"
| watch_ecdsa: "kg_watchEcdsa g \<Longrightarrow> lv_done (kg_ecdsa g) \<or> kg_timeout g \<Longrightarrow>
    keygen_step W ids g (g\<lparr>kg_watchEcdsa := False,
      kg_response := (kg_response g)\<lparr>kr_ECDSAPubKey := GetPubKeyResult (lv_session (kg_ecdsa g))\<rparr>\<rparr>)"
| watch_eddsa: "kg_watchEddsa g \<Longrightarrow> lv_done (kg_eddsa g) \<or> kg_timeout g \<Longrightarrow>
    keygen_step W ids g (g\<lparr>kg_watchEddsa := False,
      kg_response := (kg_response g)\<lparr>kr_EDDSAPubKey := GetPubKeyResult (lv_session (kg_eddsa g))\<rparr>\<rparr>)"
| error_ecdsa: "kg_watchEcdsa g \<Longrightarrow> err \<in> set (lv_pending (kg_ecdsa g)) \<Longrightarrow>
    keygen_step W ids g (g\<lparr>kg_watchEcdsa := False, kg_errors := kg_errors g @ [err],
      kg_ecdsa := (kg_ecdsa g)\<lparr>lv_pending := remove1 err (lv_pending (kg_ecdsa g)), lv_done := True\<rparr>,
      kg_trace := snd (run_state (handleKeygenSessionError (ne_E W) (kg_walletID g) err ''ECDSA keygen session error'' (kg_msg g)) (kg_trace g))\<rparr>)"
| error_eddsa: "kg_watchEddsa g \<Longrightarrow> err \<in> set (lv_pending (kg_eddsa g)) \<Longrightarrow>
    keygen_step W ids g (g\<lparr>kg_watchEddsa := False, kg_errors := kg_errors g @ [err],
      kg_eddsa := (kg_eddsa g)\<lparr>lv_pending := remove1 err (lv_pending (kg_eddsa g)), lv_done := True\<rparr>,
      kg_trace := snd (run_state (handleKeygenSessionError (ne_E W) (kg_walletID g) err ''EdDSA keygen session error'' (kg_msg g)) (kg_trace g))\<rparr>)"
| main_error: "kg_outcome g = KG_waiting \<Longrightarrow> \<not> kg_watchEcdsa g \<Longrightarrow> \<not> kg_watchEddsa g \<Longrightarrow> kg_errors g \<noteq> [] \<Longrightarrow>
    keygen_step W ids g (g\<lparr>kg_outcome := KG_failed, kg_timeout := True\<rparr>)"
| main_success: "kg_outcome g = KG_waiting \<Longrightarrow> \<not> kg_watchEcdsa g \<Longrightarrow> \<not> kg_watchEddsa g \<Longrightarrow> kg_errors g = [] \<Longrightarrow>
    run_state (keygen_publish (ne_E W) (kg_walletID g) (kg_msg g) (kg_response g)) (kg_trace g) = (out, tr') \<Longrightarrow>
    keygen_step W ids g (g\<lparr>kg_outcome := out, kg_timeout := True, kg_trace := tr'\<rparr>)"
| main_timeout: "kg_outcome g = KG_waiting \<Longrightarrow> kg_timeout g \<Longrightarrow>
    keygen_step W ids g (g\<lparr>kg_outcome := KG_timeout,
      kg_trace := snd (run_state (handleKeygenSessionError (ne_E W) (kg_walletID g) keygen_timeout_error ''Key generation timed out'' (kg_msg g)) (kg_trace g))\<rparr>)"

section \<open>Signing\<close>

definition signing_kind_Init ::
  "node_env \<Rightarrow> signing_kind \<Rightarrow> nat \<Rightarrow> (go_error option \<times> signing_kind) go_res io" where
  "signing_kind_Init W s tx =
     (case s of
        ECDSA_signing x \<Rightarrow> do {
          (err, x') \<leftarrow> ecdsa_signing_Init (ne_E W) (ne_L_ecdsa W) (ne_Intersect W) x tx;
          State_Monad.return (Ret (err, ECDSA_signing x')) }
      | EDDSA_signing x \<Rightarrow> do {
          r \<leftarrow> eddsa_signing_Init (ne_E W) (ne_L_eddsa W) (ne_Intersect W) x tx;
          State_Monad.return (case r of Panic \<Rightarrow> Panic | Ret (err, x') \<Rightarrow> Ret (err, EDDSA_signing x')) })"

definition signing_set_party :: "signing_kind \<Rightarrow> PartySession \<Rightarrow> signing_kind" where
  "signing_set_party s p =
     (case s of ECDSA_signing x \<Rightarrow> ECDSA_signing (x\<lparr>es_session := p\<rparr>) | EDDSA_signing x \<Rightarrow> EDDSA_signing (x\<lparr>ds_session := p\<rparr>))"

text \<open>The choice of the session by key type.\<close>

definition create_signing ::
  "node_env \<Rightarrow> Node \<Rightarrow> registry_reads \<Rightarrow> SigningMessage \<Rightarrow> string \<Rightarrow> (go_error + signing_kind) go_res io" where
  "create_signing W node R msg idempotentKey =
     (if sm_KeyType msg = KeyTypeSecp256k1 then
        CreateSigningSession W node R SessionTypeECDSA (sm_WalletID msg) (sm_TxID msg) idempotentKey
      else if sm_KeyType msg = KeyTypeEd25519 then
        CreateSigningSession W node R SessionTypeEDDSA (sm_WalletID msg) (sm_TxID msg) idempotentKey
      else State_Monad.return (Ret (Inl (errorf (''unsupported key type: '' @ sm_KeyType msg)))))"

text \<open>
  The handler, with the consumer after it and the session whose \<^verbatim>\<open>Sign\<close> it has started, if any. A request
  that does not parse or is not signed by the initiator is dropped without a reply.
\<close>

definition handleSigningEvent ::
  "node_env \<Rightarrow> fileStore \<Rightarrow> eventConsumer \<Rightarrow> registry_reads \<Rightarrow> nat \<Rightarrow> nats_Msg \<Rightarrow>
   (eventConsumer \<times> (SigningMessage \<times> signing_kind) option) io" where
  "handleSigningEvent W ids ec R k natMsg =
     (let E = ne_E W in
      case Unmarshal_SigningMessage (nm_Data natMsg) of
        (_, Some err) \<Rightarrow> State_Monad.return (ec, None)
      | (msg, None) \<Rightarrow>
      (case VerifyInitiatorMessage (ne_C W) ids (ISigning msg) of
         Panic \<Rightarrow> do { io_Crash; State_Monad.return (ec, None) }
       | Ret (Some err) \<Rightarrow> State_Monad.return (ec, None)
       | Ret None \<Rightarrow>
           if HasSession (sm_WalletID msg) (sm_TxID msg) (cn_sessionMgr ec) then do {
             let duplicateErr = errorf (''session already exists for walletID='' @ sm_WalletID msg @ '' txID='' @ sm_TxID msg);
             handleSigningSessionError E (sm_WalletID msg) (sm_TxID msg) duplicateErr ''Duplicate session'' natMsg;
             State_Monad.return (ec, None) }
           else do {
             let idempotentKey = composeSigningResultIdempotentKey (sm_TxID msg) natMsg;
             created \<leftarrow> create_signing W (cn_node ec) R msg idempotentKey;
             (case created of
                Panic \<Rightarrow> State_Monad.return (ec, None)
              | Ret (Inl sessionErr) \<Rightarrow>
                  if errors_Is sessionErr ErrNotEnoughParticipants then State_Monad.return (ec, None)
                  else if errors_Is sessionErr ErrNotInParticipantList then State_Monad.return (ec, None)
                  else do {
                    handleSigningSessionError E (sm_WalletID msg) (sm_TxID msg) sessionErr
                      ''Failed to create signing session'' natMsg;
                    State_Monad.return (ec, None) }
              | Ret (Inr session) \<Rightarrow> do {
                  inited \<leftarrow> signing_kind_Init W session (big_SetBytes (slice_bytes (sm_Tx msg)));
                  (case inited of
                     Panic \<Rightarrow> State_Monad.return (ec, None)
                   | Ret (Some e, _) \<Rightarrow> do {
                       handleSigningSessionError E (sm_WalletID msg) (sm_TxID msg) e ''Failed to init signing session'' natMsg;
                       State_Monad.return (ec, None) }
                   | Ret (None, session1) \<Rightarrow> do {
                       now \<leftarrow> io_TimeNow E;
                       let ec1 = ec\<lparr>cn_sessionMgr := AddSession (sm_WalletID msg) (sm_TxID msg) now (cn_sessionMgr ec)\<rparr>;
                       p \<leftarrow> ListenToIncomingMessageAsync E (ne_T W) k (signing_party session1);
                       warmUpSession ec1;
                       io_Go ''Sign'';
                       State_Monad.return (ec1, Some (msg, signing_set_party session1 p)) }) }) }))"

text \<open>The running session, the goroutine that watches its error channel, and the callback of \<^verbatim>\<open>Sign\<close>.\<close>

record signing_run =
  sg_request :: SigningMessage
  sg_msg :: nats_Msg
  sg_session :: "signing_kind live"
  sg_watch :: bool
  sg_trace :: "call list"

definition onSuccess_signing :: "env \<Rightarrow> nats_Msg \<Rightarrow> bytes \<Rightarrow> unit io" where
  "onSuccess_signing E natMsg data = do { io_CallDone; sendReplyToRemoveMsg E natMsg }"

definition signing_start :: "SigningMessage \<Rightarrow> nats_Msg \<Rightarrow> signing_kind \<Rightarrow> go_error list \<Rightarrow> call list \<Rightarrow> signing_run" where
  "signing_start msg natMsg s errs tr =
     \<lparr>sg_request = msg, sg_msg = natMsg, sg_session = live_start s errs, sg_watch = True, sg_trace = tr\<rparr>"

definition signing_kind_loop ::
  "node_env \<Rightarrow> fileStore \<Rightarrow> nats_Msg \<Rightarrow> signing_kind \<Rightarrow> signature_data party_event list \<Rightarrow> signing_kind loop_result io" where
  "signing_kind_loop W ids natMsg s evs =
     (case s of
        ECDSA_signing x \<Rightarrow> do {
          r \<leftarrow> ecdsa_sign_loop (ne_E W) (ne_C W) (ne_T W) (ne_L_ecdsa W) ids (onSuccess_signing (ne_E W) natMsg) x evs;
          State_Monad.return (map_loop_result ECDSA_signing r) }
      | EDDSA_signing x \<Rightarrow> do {
          r \<leftarrow> eddsa_sign_loop (ne_E W) (ne_C W) (ne_T W) (ne_L_eddsa W) ids (onSuccess_signing (ne_E W) natMsg) x evs;
          State_Monad.return (map_loop_result EDDSA_signing r) })"

inductive signing_step :: "node_env \<Rightarrow> fileStore \<Rightarrow> signing_run \<Rightarrow> signing_run \<Rightarrow> bool"
  for W :: node_env and ids :: fileStore where
  session: "live_step signing_party (signing_kind_loop W ids (sg_msg g))
      (handle_incoming (ne_E W) (ne_C W) (ne_T W) ids) (sg_session g) (sg_trace g) v' tr' \<Longrightarrow>
    signing_step W ids g (g\<lparr>sg_session := v', sg_trace := tr'\<rparr>)"
| watch_done: "sg_watch g \<Longrightarrow> lv_done (sg_session g) \<Longrightarrow> signing_step W ids g (g\<lparr>sg_watch := False\<rparr>)"
| watch_error: "sg_watch g \<Longrightarrow> err \<in> set (lv_pending (sg_session g)) \<Longrightarrow>
    signing_step W ids g (g\<lparr>sg_watch := False,
      sg_session := (sg_session g)\<lparr>lv_pending := remove1 err (lv_pending (sg_session g))\<rparr>,
      sg_trace := snd (run_state (handleSigningSessionError (ne_E W)
        (sm_WalletID (sg_request g)) (sm_TxID (sg_request g)) err ''Failed to sign tx'' (sg_msg g)) (sg_trace g))\<rparr>)"

section \<open>Resharing\<close>

definition resharing_kind_Init :: "node_env \<Rightarrow> resharing_kind \<Rightarrow> go_error option io" where
  "resharing_kind_Init W s =
     (case s of
        ECDSA_resharing x \<Rightarrow> ecdsa_resharing_Init (ne_E W) (ne_L_ecdsa W) x
      | EDDSA_resharing x \<Rightarrow> eddsa_resharing_Init (ne_E W) (ne_L_eddsa W) x)"

definition resharing_set_party :: "resharing_kind \<Rightarrow> PartySession \<Rightarrow> resharing_kind" where
  "resharing_set_party s p =
     (case s of ECDSA_resharing x \<Rightarrow> ECDSA_resharing (x\<lparr>er_session := p\<rparr>) | EDDSA_resharing x \<Rightarrow> EDDSA_resharing (x\<lparr>dr_session := p\<rparr>))"

definition resharing_legacy_peers :: "resharing_kind \<Rightarrow> string list" where
  "resharing_legacy_peers s =
     (case s of ECDSA_resharing x \<Rightarrow> ecdsa_GetLegacyCommitteePeers x | EDDSA_resharing x \<Rightarrow> eddsa_GetLegacyCommitteePeers x)"

definition resharing_kind_loop ::
  "node_env \<Rightarrow> fileStore \<Rightarrow> resharing_kind \<Rightarrow> save_data party_event list \<Rightarrow> resharing_kind loop_result io" where
  "resharing_kind_loop W ids s evs =
     (case s of
        ECDSA_resharing x \<Rightarrow> do {
          r \<leftarrow> ecdsa_reshare_loop (ne_E W) (ne_C W) (ne_T W) (ne_L_ecdsa W) ids x evs;
          State_Monad.return (map_loop_result ECDSA_resharing r) }
      | EDDSA_resharing x \<Rightarrow> do {
          r \<leftarrow> eddsa_reshare_loop (ne_E W) (ne_C W) (ne_T W) (ne_L_eddsa W) ids x evs;
          State_Monad.return (map_loop_result EDDSA_resharing r) })"

text \<open>Initialise the session of the old committee, if there is one, and listen.\<close>

definition start_old :: "node_env \<Rightarrow> nat \<Rightarrow> resharing_kind option \<Rightarrow> (go_error option \<times> resharing_kind option) io" where
  "start_old W k s =
     (case s of
        None \<Rightarrow> State_Monad.return (None, None)
      | Some session \<Rightarrow> do {
          err \<leftarrow> resharing_kind_Init W session;
          (case err of
             Some e \<Rightarrow> State_Monad.return (Some e, s)
           | None \<Rightarrow> do {
               p \<leftarrow> ListenToIncomingMessageAsync (ne_E W) (ne_T W) k (resharing_party session);
               State_Monad.return (None, Some (resharing_set_party session p)) }) })"

text \<open>The same for the new committee, which also listens to the members that leave.\<close>

definition start_new :: "node_env \<Rightarrow> nat \<Rightarrow> resharing_kind option \<Rightarrow> (go_error option \<times> resharing_kind option) io" where
  "start_new W k s =
     (case s of
        None \<Rightarrow> State_Monad.return (None, None)
      | Some session \<Rightarrow> do {
          err \<leftarrow> resharing_kind_Init W session;
          (case err of
             Some e \<Rightarrow> State_Monad.return (Some e, s)
           | None \<Rightarrow> do {
               p \<leftarrow> ListenToIncomingMessageAsync (ne_E W) (ne_T W) k (resharing_party session);
               let extraOldCommitteePeers = resharing_legacy_peers (resharing_set_party session p);
               p' \<leftarrow> ListenToPeersAsync (ne_E W) (ne_T W) extraOldCommitteePeers p;
               State_Monad.return (None, Some (resharing_set_party session p')) }) })"

abbreviation rm_peers :: "ResharingMessage \<Rightarrow> string list" where
  "rm_peers m \<equiv> (case rm_NodeIDs m of None \<Rightarrow> [] | Some l \<Rightarrow> l)"

definition resharing_setup ::
  "node_env \<Rightarrow> fileStore \<Rightarrow> eventConsumer \<Rightarrow> registry_reads \<Rightarrow> registry_reads \<Rightarrow> nat \<Rightarrow> nat \<Rightarrow> nats_Msg \<Rightarrow>
   (ResharingMessage \<times> resharing_kind option \<times> resharing_kind option) option io" where
  "resharing_setup W ids ec R R' k k' natMsg =
     (let E = ne_E W; fail = (\<lambda>msg err ctx. do {
            handleResharingSessionError E (rm_WalletID msg) (rm_KeyType msg) (rm_NewThreshold msg) err ctx natMsg;
            State_Monad.return None }) in
      case Unmarshal_ResharingMessage (nm_Data natMsg) of
        (msg, Some err) \<Rightarrow> fail msg err ''Failed to unmarshal resharing message''
      | (msg, None) \<Rightarrow>
      if rm_SessionID msg = [] then fail msg (errorf ''validation: session ID is empty'') ''Session ID is empty''
      else (case VerifyInitiatorMessage (ne_C W) ids (IResharing msg) of
         Panic \<Rightarrow> do { io_Crash; State_Monad.return None }
       | Ret (Some err) \<Rightarrow> fail msg err ''Failed to verify initiator message''
       | Ret None \<Rightarrow>
      (case sessionTypeFromKeyType (rm_KeyType msg) of
         Inl err \<Rightarrow> fail msg err ''Failed to get session type''
       | Inr sessionType \<Rightarrow> do {
           old \<leftarrow> CreateResharingSession W (cn_node ec) R sessionType (rm_WalletID msg) (rm_NewThreshold msg) (rm_peers msg) False;
           (case old of
              Panic \<Rightarrow> State_Monad.return None
            | Ret (Inl err) \<Rightarrow> fail msg err ''Failed to create old resharing session''
            | Ret (Inr oldSession) \<Rightarrow> do {
                new \<leftarrow> CreateResharingSession W (cn_node ec) R' sessionType (rm_WalletID msg) (rm_NewThreshold msg) (rm_peers msg) True;
                (case new of
                   Panic \<Rightarrow> State_Monad.return None
                 | Ret (Inl err) \<Rightarrow> fail msg err ''Failed to create new resharing session''
                 | Ret (Inr newSession) \<Rightarrow>
                     if oldSession = None \<and> newSession = None then do {
                       sendReplyToRemoveMsg E natMsg;
                       State_Monad.return None }
                     else do {
                       (e1, old1) \<leftarrow> start_old W k oldSession;
                       (case e1 of
                          Some err \<Rightarrow> fail msg err ''Failed to init old resharing session''
                        | None \<Rightarrow> do {
                            (e2, new1) \<leftarrow> start_new W k' newSession;
                            (case e2 of
                               Some err \<Rightarrow> fail msg err ''Failed to init new resharing session''
                             | None \<Rightarrow> do {
                                 warmUpSession ec;
                                 (if old1 \<noteq> None then io_Go ''Reshare'' else State_Monad.return ());
                                 (if new1 \<noteq> None then io_Go ''Reshare'' else State_Monad.return ());
                                 State_Monad.return (Some (msg, old1, new1)) }) }) }) }) })))"

text \<open>
  The goroutines of a resharing: each session runs and is watched until its context is done or it reports
  an error; then the handler publishes. \<open>rs_errors\<close> records the errors that were reported.
\<close>

record resharing_run =
  rs_request :: ResharingMessage
  rs_msg :: nats_Msg
  rs_old :: "resharing_kind live option"
  rs_new :: "resharing_kind live option"
  rs_response :: ResharingResponse
  rs_watchOld :: bool
  rs_watchNew :: bool
  rs_errors :: "go_error list"
  rs_finished :: bool
  rs_trace :: "call list"

definition resharing_start ::
  "ResharingMessage \<Rightarrow> nats_Msg \<Rightarrow> resharing_kind option \<Rightarrow> resharing_kind option \<Rightarrow> go_error list \<Rightarrow> go_error list \<Rightarrow>
   call list \<Rightarrow> resharing_run" where
  "resharing_start msg natMsg old new errs1 errs2 tr =
     \<lparr>rs_request = msg, rs_msg = natMsg, rs_old = map_option (\<lambda>s. live_start s errs1) old,
      rs_new = map_option (\<lambda>s. live_start s errs2) new,
      rs_response = ResharingResponse_zero\<lparr>rr_WalletID := rm_WalletID msg, rr_NewThreshold := rm_NewThreshold msg,
                      rr_KeyType := rm_KeyType msg\<rparr>,
      rs_watchOld = (old \<noteq> None), rs_watchNew = (new \<noteq> None),
      rs_errors = [], rs_finished = False, rs_trace = tr\<rparr>"

definition report_resharing :: "env \<Rightarrow> resharing_run \<Rightarrow> go_error \<Rightarrow> string \<Rightarrow> unit io" where
  "report_resharing E g err ctx =
     handleResharingSessionError E (rm_WalletID (rs_request g)) (rm_KeyType (rs_request g)) (rm_NewThreshold (rs_request g))
       err ctx (rs_msg g)"

text \<open>The end of the handler, after both goroutines.\<close>

definition resharing_publish :: "env \<Rightarrow> resharing_run \<Rightarrow> unit io" where
  "resharing_publish E g =
     (if rs_new g \<noteq> None then do {
        let key = TypeResharingWalletResultFmt (rm_SessionID (rs_request g));
        err \<leftarrow> io_Enqueue E key (Marshal_ResharingResponse (rs_response g))
                (composeResharingResultIdempotentKey (rm_SessionID (rs_request g)) (rs_msg g));
        (case err of
           Some e \<Rightarrow> report_resharing E g e ''Failed to publish reshare success message''
         | None \<Rightarrow> sendReplyToRemoveMsg E (rs_msg g)) }
      else sendReplyToRemoveMsg E (rs_msg g))"

inductive resharing_step :: "node_env \<Rightarrow> fileStore \<Rightarrow> resharing_run \<Rightarrow> resharing_run \<Rightarrow> bool"
  for W :: node_env and ids :: fileStore where
  run_old: "rs_old g = Some v \<Longrightarrow> live_step resharing_party (resharing_kind_loop W ids)
      (handle_incoming (ne_E W) (ne_C W) (ne_T W) ids) v (rs_trace g) v' tr' \<Longrightarrow>
    resharing_step W ids g (g\<lparr>rs_old := Some v', rs_trace := tr'\<rparr>)"
| run_new: "rs_new g = Some v \<Longrightarrow> live_step resharing_party (resharing_kind_loop W ids)
      (handle_incoming (ne_E W) (ne_C W) (ne_T W) ids) v (rs_trace g) v' tr' \<Longrightarrow>
    resharing_step W ids g (g\<lparr>rs_new := Some v', rs_trace := tr'\<rparr>)"
| watch_old: "rs_watchOld g \<Longrightarrow> rs_old g = Some v \<Longrightarrow> lv_done v \<Longrightarrow>
    resharing_step W ids g (g\<lparr>rs_watchOld := False\<rparr>)"
| watch_new: "rs_watchNew g \<Longrightarrow> rs_new g = Some v \<Longrightarrow> lv_done v \<Longrightarrow>
    resharing_step W ids g (g\<lparr>rs_watchNew := False,
      rs_response := (rs_response g)\<lparr>rr_PubKey := GetPubKeyResult (resharing_party (lv_session v))\<rparr>\<rparr>)"
| error_old: "rs_watchOld g \<Longrightarrow> rs_old g = Some v \<Longrightarrow> err \<in> set (lv_pending v) \<Longrightarrow>
    resharing_step W ids g (g\<lparr>rs_watchOld := False, rs_errors := rs_errors g @ [err],
      rs_old := Some (v\<lparr>lv_pending := remove1 err (lv_pending v), lv_done := True\<rparr>),
      rs_trace := snd (run_state (report_resharing (ne_E W) g err ''Old reshare session error'') (rs_trace g))\<rparr>)"
| error_new: "rs_watchNew g \<Longrightarrow> rs_new g = Some v \<Longrightarrow> err \<in> set (lv_pending v) \<Longrightarrow>
    resharing_step W ids g (g\<lparr>rs_watchNew := False, rs_errors := rs_errors g @ [err],
      rs_new := Some (v\<lparr>lv_pending := remove1 err (lv_pending v), lv_done := True\<rparr>),
      rs_trace := snd (run_state (report_resharing (ne_E W) g err ''New reshare session error'') (rs_trace g))\<rparr>)"
| main: "\<not> rs_finished g \<Longrightarrow> \<not> rs_watchOld g \<Longrightarrow> \<not> rs_watchNew g \<Longrightarrow>
    resharing_step W ids g (g\<lparr>rs_finished := True, rs_trace := snd (run_state (resharing_publish (ne_E W) g) (rs_trace g))\<rparr>)"

section \<open>Reports\<close>

text \<open>The calls a handler makes to report a failure.\<close>

definition reports :: "call \<Rightarrow> bool" where
  "reports c \<longleftrightarrow> (case c of Enqueue _ _ _ \<Rightarrow> True | Publish _ _ \<Rightarrow> True | Crash \<Rightarrow> True | _ \<Rightarrow> False)"

lemma reports_simps [simp]: "reports (Enqueue a b c)" "reports (Publish a b)" "reports Crash"
  by (simp_all add: reports_def)

lemma sendReply_emits [emits]: "(\<And>t d. P (Publish t d)) \<Longrightarrow> emits_only P (sendReplyToRemoveMsg E m)"
  unfolding sendReplyToRemoveMsg_def io_defs by (intro emits) simp_all

lemma handleKeygenSessionError_emits [emits]: "emits_only reports (handleKeygenSessionError E w err ctx m)"
  unfolding handleKeygenSessionError_def io_defs Let_def by (intro emits) simp_all

lemma handleSigningSessionError_emits [emits]: "emits_only reports (handleSigningSessionError E w t err ctx m)"
  unfolding handleSigningSessionError_def io_defs Let_def by (intro emits) simp_all

lemma handleResharingSessionError_emits [emits]: "emits_only reports (handleResharingSessionError E w kt t err ctx m)"
  unfolding handleResharingSessionError_def io_defs Let_def by (intro emits) simp_all

lemma report_then_emits: "emits_only P m \<Longrightarrow> emits_only P (do { m; State_Monad.return x })"
  by (intro emits)

text \<open>What the handlers do with a request that the identity store does not accept.\<close>

lemma keygen_setup_rejects:
  assumes "Unmarshal_KeygenMessage (nm_Data m) = (q, e)" and "e \<noteq> None \<or> VerifyInitiatorMessage (ne_C W) ids (IKeygen q) \<noteq> Ret None"
  shows "emits_only reports (keygen_setup W ids ec R R' k k' m) \<and> fst (run_state (keygen_setup W ids ec R R' k k' m) tr) = None"
proof (cases e)
  case (Some err)
  with assms(1) show ?thesis
    by (simp add: keygen_setup_def emits run_state_bind split: prod.split)
next
  case None
  with assms show ?thesis
    by (cases "VerifyInitiatorMessage (ne_C W) ids (IKeygen q)")
       (auto simp: keygen_setup_def emits run_state_bind io_defs split: prod.split option.split)
qed

lemma handleSigningEvent_rejects:
  assumes "Unmarshal_SigningMessage (nm_Data m) = (q, e)" and "e \<noteq> None \<or> VerifyInitiatorMessage (ne_C W) ids (ISigning q) \<noteq> Ret None"
  shows "emits_only reports (handleSigningEvent W ids ec R k m) \<and> fst (run_state (handleSigningEvent W ids ec R k m) tr) = (ec, None)"
proof (cases e)
  case (Some err)
  with assms(1) show ?thesis by (simp add: handleSigningEvent_def emits)
next
  case None
  with assms show ?thesis
    by (cases "VerifyInitiatorMessage (ne_C W) ids (ISigning q)")
       (auto simp: handleSigningEvent_def emits io_defs split: option.split)
qed

lemma resharing_setup_rejects:
  assumes "Unmarshal_ResharingMessage (nm_Data m) = (q, e)"
    and "e \<noteq> None \<or> VerifyInitiatorMessage (ne_C W) ids (IResharing q) \<noteq> Ret None"
  shows "emits_only reports (resharing_setup W ids ec R R' k k' m) \<and> fst (run_state (resharing_setup W ids ec R R' k k' m) tr) = None"
proof (cases "e \<noteq> None \<or> rm_SessionID q = []")
  case True
  with assms(1) show ?thesis
    by (auto simp: resharing_setup_def Let_def run_state_bind intro!: emits split: prod.split option.split)
next
  case False
  with assms show ?thesis
    by (cases "VerifyInitiatorMessage (ne_C W) ids (IResharing q)")
       (auto simp: resharing_setup_def Let_def run_state_bind io_defs intro!: emits split: prod.split option.split)
qed

definition initiator_signed :: "crypto \<Rightarrow> fileStore \<Rightarrow> InitiatorMessage \<Rightarrow> bool" where
  "initiator_signed C ids q \<longleftrightarrow> initiator_accepts C (initiatorKey ids) (Raw q) (slice_bytes (Sig q))"

lemma not_signed_rejected:
  "initiator_key_ok (initiatorKey ids) \<Longrightarrow> \<not> initiator_signed C ids q \<Longrightarrow> VerifyInitiatorMessage C ids q \<noteq> Ret None"
  using VerifyInitiatorMessage_iff [of ids C q] by (auto simp: initiator_signed_def)


definition msg_ref :: "bytes \<Rightarrow> nats_Msg" where
  "msg_ref d = \<lparr>nm_Data = d, nm_Reply = ''inbox'', nm_Header = [(''SessionID'', ''s1'')]\<rparr>"

definition consumer_ref :: eventConsumer where
  "consumer_ref =
     \<lparr>cn_threshold = 1, cn_node = node_ref ''n1'', cn_keygenSub = None, cn_signingSub = None, cn_resharingSub = None,
      cn_closed = False, cn_maxConcurrentKeygen = 2, cn_maxConcurrentSigning = 20, cn_maxConcurrentResharing = 5,
      cn_sessionMgr = NewManager 300 1800, cn_sessionWarmUpDelayMs = 200\<rparr>"

definition ids_ref :: fileStore where
  "ids_ref = (store_ref ''n1'' ''n2'' CHR ''a'' CHR ''b'')
     \<lparr>initiatorKey := \<lparr>ik_Algorithm = EventInitiatorKeyTypeEd25519, ik_Ed25519 = replicate 32 CHR ''i'', ik_P256 = None\<rparr>\<rparr>"

lemma ids_ref_key_ok: "initiator_key_ok (initiatorKey ids_ref)"
  by (simp add: ids_ref_def initiator_key_ok_def ed25519_PublicKeySize_def)

lemma empty_signing_message: "Unmarshal_SigningMessage [] \<noteq> (q, None)"
proof -
  have "snd (Unmarshal_SigningMessage []) \<noteq> None" by code_simp
  then show ?thesis by auto
qed


section \<open>Duplicate signing requests\<close>

lemma sendReply_run:
  "snd (run_state (sendReplyToRemoveMsg E m) tr) =
     (if nm_Reply m = [] then tr else tr @ [Publish (nm_Reply m) (nm_Data m)])"
  by (simp add: sendReplyToRemoveMsg_def io_defs)

lemma handleSigningSessionError_run:
  "run_state (handleSigningSessionError E w t err ctx m) tr =
     ((), tr @ [Enqueue SigningResultCompleteTopic
           (Marshal_SigningResponse (SigningResponse_zero\<lparr>sr_ErrorCode := GetErrorCodeFromError (Some err), sr_WalletID := w,
              sr_TxID := t, sr_ErrorReason := ctx @ '': '' @ err_msg err\<rparr>))
           (composeSigningResultIdempotentKey t m)]
        @ (if nm_Reply m = [] then [] else [Publish (nm_Reply m) (nm_Data m)]))"
  by (simp add: handleSigningSessionError_def io_defs Let_def sendReplyToRemoveMsg_def)

lemma handleSigningEvent_duplicate:
  assumes "Unmarshal_SigningMessage (nm_Data m) = (q, None)"
    and "HasSession (sm_WalletID q) (sm_TxID q) (cn_sessionMgr ec)"
  shows "fst (run_state (handleSigningEvent W ids ec R k m) tr) = (ec, None)"
  using assms by (auto simp: handleSigningEvent_def io_defs run_state_bind handleSigningSessionError_run Let_def
      split: go_res.split option.split)

lemma handleSigningEvent_started:
  assumes "run_state (handleSigningEvent W ids ec R k m) tr = ((ec1, Some (q, ss)), tr')"
  shows "Unmarshal_SigningMessage (nm_Data m) = (q, None) \<and> VerifyInitiatorMessage (ne_C W) ids (ISigning q) = Ret None
    \<and> \<not> HasSession (sm_WalletID q) (sm_TxID q) (cn_sessionMgr ec)
    \<and> (\<exists>now. ec1 = ec\<lparr>cn_sessionMgr := AddSession (sm_WalletID q) (sm_TxID q) now (cn_sessionMgr ec)\<rparr>)"
proof -
  obtain q' e where u: "Unmarshal_SigningMessage (nm_Data m) = (q', e)" by fastforce
  have "\<not> (e \<noteq> None \<or> VerifyInitiatorMessage (ne_C W) ids (ISigning q') \<noteq> Ret None)"
    using assms handleSigningEvent_rejects [OF u, of W ids ec R k tr] by force
  then have ok: "e = None" "VerifyInitiatorMessage (ne_C W) ids (ISigning q') = Ret None" by simp_all
  with assms u handleSigningEvent_duplicate [of m q' ec W ids R k tr]
  have dup: "\<not> HasSession (sm_WalletID q') (sm_TxID q') (cn_sessionMgr ec)" by auto
  show ?thesis
    using assms u ok dup
    by (auto simp: handleSigningEvent_def Let_def run_state_bind io_defs warmUpSession_def
        split: prod.splits go_res.splits sum.splits option.splits if_splits)
qed


text \<open>A request that the toy initiator key accepts.\<close>

definition signing_request_ref :: SigningMessage where
  "signing_request_ref =
     (let q = \<lparr>sm_KeyType = KeyTypeSecp256k1, sm_WalletID = ''w'', sm_TxID = ''tx'', sm_Tx = Some ''data'', sm_Signature = None\<rparr>
      in q\<lparr>sm_Signature := Some (CHR ''s'' # replicate 32 CHR ''i'' @ SigningMessage_Raw q)\<rparr>)"

lemma signing_request_ref_ok:
  "Unmarshal_SigningMessage (Marshal_SigningMessage signing_request_ref) = (signing_request_ref, None)"
  "VerifyInitiatorMessage crypto_ref ids_ref (ISigning signing_request_ref) = Ret None"
  "sm_KeyType signing_request_ref = KeyTypeSecp256k1" "sm_WalletID signing_request_ref = ''w''" "sm_TxID signing_request_ref = ''tx''"
proof -
  show "Unmarshal_SigningMessage (Marshal_SigningMessage signing_request_ref) = (signing_request_ref, None)"
    by (simp add: Unmarshal_SigningMessage_def Marshal_SigningMessage_def SigningMessage_json_def SigningMessage_fields_def
        SigningMessage_zero_def struct_codec_simps)
  have raw: "SigningMessage_Raw signing_request_ref = SigningMessage_Raw (signing_request_ref\<lparr>sm_Signature := None\<rparr>)"
    by (simp add: SigningMessage_Raw_def)
  show "VerifyInitiatorMessage crypto_ref ids_ref (ISigning signing_request_ref) = Ret None"
    by (simp add: VerifyInitiatorMessage_def verifyEd25519_def ids_ref_def ed25519_Verify_def ed25519_PublicKeySize_def raw
        SigningMessage_Sig_def) (simp add: signing_request_ref_def crypto_ref_def Let_def ed25519_Verify_def ed25519_PublicKeySize_def)
qed (simp_all add: signing_request_ref_def Let_def)

lemma handleSigningEvent_ref:
  "\<exists>ec1 ss tr'. run_state (handleSigningEvent (node_env_ref (env_keyinfo keyinfo_ref)) ids_ref consumer_ref
      (\<lambda>_. (registry_two, ids_ref)) 0 (msg_ref (Marshal_SigningMessage signing_request_ref))) [] =
      ((ec1, Some (signing_request_ref, ss)), tr')"
proof -
  let ?W = "node_env_ref (env_keyinfo keyinfo_ref)"
  let ?m = "msg_ref (Marshal_SigningMessage signing_request_ref)"
  let ?idem = "composeSigningResultIdempotentKey ''tx'' ?m"
  obtain self pids tr1 where c: "run_state (CreateSigningSession ?W (node_ref ''n1'') (\<lambda>_. (registry_two, ids_ref)) SessionTypeECDSA ''w'' ''tx'' ?idem) [] =
      (Ret (Inr (ECDSA_signing (NewECDSASigningSession (ne_parse_ecdsa ?W) ''w'' ''tx'' [''n1'', ''n2''] self pids 1 (Some ''p0'') ?idem))), tr1)"
    using CreateSigningSession_ref [of ids_ref "''tx''" ?idem] by blast
  let ?s = "NewECDSASigningSession (ne_parse_ecdsa ?W) ''w'' ''tx'' [''n1'', ''n2''] self pids 1 (Some ''p0'') ?idem"
  have t: "wrap64 2 = 2" by (simp add: wrap64_def)
  have kv: "en_KvGet (env_keyinfo ki) a b = Inr ''share''" for ki a b by (simp add: env_keyinfo_def)
  have W: "ne_E (node_env_ref E) = E" "ne_L_ecdsa (node_env_ref E) = share_lib_ref" "ne_Intersect (node_env_ref E) = lo_Intersect_ref" for E
    by (simp_all add: node_env_ref_def)
  have I: "lo_Intersect_ref [''n1'', ''n2''] (ki_peers keyinfo_ref) = [''n1'', ''n2'']" "ki_Threshold keyinfo_ref = 1"
    by (simp_all add: keyinfo_ref_def lo_Intersect_ref_def)
  have "\<exists>s' tr2. run_state (signing_kind_Init ?W (ECDSA_signing ?s) x) tr1 = (Ret (None, ECDSA_signing s'), tr2)" for x
    by (simp add: signing_kind_Init_def ecdsa_signing_Init_def run_state_bind NewECDSASigningSession_def W kv I t
        keyinfo_Get_ref_run [OF keyinfo_ref_wf] io_defs Let_def share_lib_ref_def)
  then obtain s' tr2 where i: "run_state (signing_kind_Init ?W (ECDSA_signing ?s)
      (big_SetBytes (slice_bytes (sm_Tx signing_request_ref)))) tr1 = (Ret (None, ECDSA_signing s'), tr2)" by blast
  have d: "nm_Data ?m = Marshal_SigningMessage signing_request_ref" by (simp add: msg_ref_def)
  have h: "\<not> HasSession ''w'' ''tx'' (cn_sessionMgr consumer_ref)" "cn_node consumer_ref = node_ref ''n1''" "ne_C ?W = crypto_ref"
    by (simp_all add: consumer_ref_def NewManager_def HasSession_def node_env_ref_def)
  show ?thesis
    by (simp add: handleSigningEvent_def d signing_request_ref_ok h create_signing_def run_state_bind c i Let_def
        warmUpSession_def io_defs split: prod.split)
qed


section \<open>The outcome of signing\<close>

definition signing_reach :: "node_env \<Rightarrow> fileStore \<Rightarrow> signing_run \<Rightarrow> signing_run \<Rightarrow> bool" where
  "signing_reach W ids = (signing_step W ids)\<^sup>*\<^sup>*"

text \<open>The body of a result that carries a signature the public key of the share accepts.\<close>

definition verified_result :: "node_env \<Rightarrow> signing_kind \<Rightarrow> bytes \<Rightarrow> bool" where
  "verified_result W s body \<longleftrightarrow>
     (\<exists>sig pub. case s of
        ECDSA_signing x \<Rightarrow> Option.bind (es_data x) sd_Pub = Some pub
          \<and> sl_Verify (ne_L_ecdsa W) pub (big_Bytes (es_tx x)) (big_SetBytes (slice_bytes (sg_R sig))) (big_SetBytes (slice_bytes (sg_S sig)))
          \<and> body = Marshal_SigningResponse (ecdsa_response x sig)
      | EDDSA_signing x \<Rightarrow> Option.bind (ds_data x) sd_Pub = Some pub
          \<and> sl_Verify (ne_L_eddsa W) pub (big_Bytes (ds_tx x)) (big_SetBytes (slice_bytes (sg_R sig))) (big_SetBytes (slice_bytes (sg_S sig)))
          \<and> body = Marshal_SigningResponse (eddsa_response x sig))"

text \<open>What a running signing may put on the result queue: a verified result, or the report of a failure.\<close>

definition signing_allowed :: "node_env \<Rightarrow> SigningMessage \<Rightarrow> nats_Msg \<Rightarrow> signing_kind \<Rightarrow> call \<Rightarrow> bool" where
  "signing_allowed W q m s c \<longleftrightarrow>
     (case c of
        Enqueue t b k \<Rightarrow> t = SigningResultCompleteTopic
          \<and> (verified_result W s b \<and> k = ps_IdempotentKey (signing_party s)
             \<or> (\<exists>err. b = Marshal_SigningResponse (SigningResponse_zero\<lparr>sr_ErrorCode := GetErrorCodeFromError (Some err),
                    sr_WalletID := sm_WalletID q, sr_TxID := sm_TxID q, sr_ErrorReason := ''Failed to sign tx: '' @ err_msg err\<rparr>)
                  \<and> k = composeSigningResultIdempotentKey (sm_TxID q) m))
      | _ \<Rightarrow> True)"

lemma not_result_allowed: "not_result c \<Longrightarrow> signing_allowed W q m s c"
  by (cases c) (simp_all add: not_result_def signing_allowed_def)

lemma handle_incoming_emits: "emits_only not_result (handle_incoming E C T ids s m)"
proof -
  have r: "emits_only not_result (receiveTssMessage E T s x)" for x
    by (rule emits_mono [OF receiveTssMessage_emits]) (simp add: receives_def not_result_def split: call.splits)
  have "emits_only not_result (receiveBroadcastTssMessage E C T ids s raw)" for raw
    unfolding receiveBroadcastTssMessage_def io_defs by (intro emits r) simp_all
  moreover have "emits_only not_result (receiveP2PTssMessage E C T ids s topic c)" for topic c
    unfolding receiveP2PTssMessage_def Let_def io_defs by (intro emits r) simp_all
  ultimately show ?thesis by (simp add: handle_incoming_def split: incoming.split)
qed

lemma onSuccess_signing_emits: "emits_only not_result (onSuccess_signing E m b)"
  unfolding onSuccess_signing_def io_defs by (intro emits) (simp_all add: not_result_def)

lemma signing_loop_event:
  assumes "run_state (signing_kind_loop W ids m s [e]) tr = (r, tr')"
  shows "result_session r = s \<and> (\<exists>new. tr' = tr @ new \<and> list_all (signing_allowed W q m s) new)"
proof (cases s)
  case (ECDSA_signing x)
  let ?loop = "ecdsa_sign_loop (ne_E W) (ne_C W) (ne_T W) (ne_L_ecdsa W) ids (onSuccess_signing (ne_E W) m)"
  obtain r1 where r1: "run_state (?loop x [e]) tr = (r1, tr')" "r = map_loop_result ECDSA_signing r1"
    using assms ECDSA_signing by (auto simp: signing_kind_loop_def run_state_bind split: prod.splits)
  have "result_session r1 = x" using ecdsa_sign.event_session [OF r1(1)] .
  moreover obtain new where new: "tr' = tr @ new"
    using ecdsa_sign.event_extends [OF onSuccess_signing_emits r1(1)] by blast
  moreover have "signing_allowed W q m s c" if "c \<in> set new" for c
  proof (cases "not_result c")
    case False
    then obtain t b k where "c = Enqueue t b k" by (cases c) (simp_all add: not_result_def)
    with that new ecdsa_sign.event_results [OF onSuccess_signing_emits r1(1), of t b k] ECDSA_signing
    show ?thesis by (auto simp: signing_allowed_def verified_result_def)
  qed (rule not_result_allowed)
  ultimately show ?thesis using r1(2) ECDSA_signing by (cases r1) (auto simp: list_all_iff)
next
  case (EDDSA_signing x)
  let ?loop = "eddsa_sign_loop (ne_E W) (ne_C W) (ne_T W) (ne_L_eddsa W) ids (onSuccess_signing (ne_E W) m)"
  obtain r1 where r1: "run_state (?loop x [e]) tr = (r1, tr')" "r = map_loop_result EDDSA_signing r1"
    using assms EDDSA_signing by (auto simp: signing_kind_loop_def run_state_bind split: prod.splits)
  have "result_session r1 = x" using eddsa_sign.event_session [OF r1(1)] .
  moreover obtain new where new: "tr' = tr @ new"
    using eddsa_sign.event_extends [OF onSuccess_signing_emits r1(1)] by blast
  moreover have "signing_allowed W q m s c" if "c \<in> set new" for c
  proof (cases "not_result c")
    case False
    then obtain t b k where "c = Enqueue t b k" by (cases c) (simp_all add: not_result_def)
    with that new eddsa_sign.event_results [OF onSuccess_signing_emits r1(1), of t b k] EDDSA_signing
    show ?thesis by (auto simp: signing_allowed_def verified_result_def)
  qed (rule not_result_allowed)
  ultimately show ?thesis using r1(2) EDDSA_signing by (cases r1) (auto simp: list_all_iff)
qed

definition signing_inv :: "node_env \<Rightarrow> SigningMessage \<Rightarrow> nats_Msg \<Rightarrow> signing_kind \<Rightarrow> call list \<Rightarrow> signing_run \<Rightarrow> bool" where
  "signing_inv W q m s tr g \<longleftrightarrow> sg_request g = q \<and> sg_msg g = m \<and> lv_session (sg_session g) = s
     \<and> (\<exists>new. sg_trace g = tr @ new \<and> list_all (signing_allowed W q m s) new)"

lemma signing_step_inv:
  assumes "signing_step W ids g g'" and "signing_inv W q m s tr g"
  shows "signing_inv W q m s tr g'"
  using assms(1)
proof cases
  case (session v' tr')
  from session(2) show ?thesis
  proof cases
    case (event e r)
    with signing_loop_event [OF event(3), of q] assms(2) session(1) show ?thesis
      by (auto simp: signing_inv_def)
  next
    case (incoming x)
    from emits_onlyD [OF handle_incoming_emits incoming(2)] obtain new
      where "tr' = sg_trace g @ new" "list_all not_result new" by blast
    with incoming assms(2) session(1) show ?thesis
      by (auto simp: signing_inv_def list_all_iff not_result_allowed)
  qed (use assms(2) session(1) in \<open>auto simp: signing_inv_def signing_allowed_def\<close>)
next
  case (watch_error err)
  with assms(2) show ?thesis
    by (auto simp: signing_inv_def handleSigningSessionError_run signing_allowed_def)
qed (use assms(2) in \<open>auto simp: signing_inv_def\<close>)

text \<open>
  C2: A signing session publishes a signature only if it verifies. Whatever messages arrive, in whatever
  interleaving with the goroutine that watches for errors, everything a running signing puts on a queue is a
  result of the wallet's request: either a response with a signature that the public key of the loaded share
  accepts for the requested transaction, or the report of an error.
\<close>

theorem signing_results_verified:
  assumes "signing_reach W ids (signing_start q m s errs tr) g"
    and "Enqueue t b k \<in> set (drop (length tr) (sg_trace g))"
  shows "t = SigningResultCompleteTopic
     \<and> (verified_result W s b \<and> k = ps_IdempotentKey (signing_party s)
        \<or> (\<exists>err. b = Marshal_SigningResponse (SigningResponse_zero\<lparr>sr_ErrorCode := GetErrorCodeFromError (Some err),
               sr_WalletID := sm_WalletID q, sr_TxID := sm_TxID q, sr_ErrorReason := ''Failed to sign tx: '' @ err_msg err\<rparr>)
             \<and> k = composeSigningResultIdempotentKey (sm_TxID q) m))"
proof -
  have "signing_inv W q m s tr g"
    using assms(1) unfolding signing_reach_def
  proof (induction rule: rtranclp_induct)
    case base
    show ?case by (simp add: signing_inv_def signing_start_def live_start_def)
  qed (rule signing_step_inv)
  with assms(2) have "signing_allowed W q m s (Enqueue t b k)" by (auto simp: signing_inv_def list_all_iff)
  then show ?thesis by (simp only: signing_allowed_def call.case)
qed

theorem signing_results_verified_witness:
  "\<exists>g b. signing_reach (node_env_ref env_ref) ids_ref (signing_start signing_request_ref (msg_ref [])
       (EDDSA_signing (NewEDDSASigningSession (\<lambda>_ _ _. Inl (errorf [])) ''w'' ''tx'' [] None [] 1 ''idem'')) [errorf ''boom''] []) g
     \<and> Enqueue SigningResultCompleteTopic b (composeSigningResultIdempotentKey ''tx'' (msg_ref [])) \<in> set (sg_trace g)
     \<and> (\<exists>err. b = Marshal_SigningResponse (SigningResponse_zero\<lparr>sr_ErrorCode := GetErrorCodeFromError (Some err),
               sr_WalletID := ''w'', sr_TxID := ''tx'', sr_ErrorReason := ''Failed to sign tx: '' @ err_msg err\<rparr>))"
proof -
  let ?s = "EDDSA_signing (NewEDDSASigningSession (\<lambda>_ _ _. Inl (errorf [])) ''w'' ''tx'' [] None [] 1 ''idem'')"
  let ?W = "node_env_ref env_ref"
  let ?g0 = "signing_start signing_request_ref (msg_ref []) ?s [errorf ''boom''] []"
  let ?b = "Marshal_SigningResponse (SigningResponse_zero\<lparr>sr_ErrorCode := GetErrorCodeFromError (Some (errorf ''boom'')),
               sr_WalletID := ''w'', sr_TxID := ''tx'', sr_ErrorReason := ''Failed to sign tx: '' @ err_msg (errorf ''boom'')\<rparr>)"
  let ?g1 = "?g0\<lparr>sg_watch := False,
      sg_session := (sg_session ?g0)\<lparr>lv_pending := remove1 (errorf ''boom'') (lv_pending (sg_session ?g0))\<rparr>,
      sg_trace := snd (run_state (handleSigningSessionError (ne_E ?W)
        (sm_WalletID (sg_request ?g0)) (sm_TxID (sg_request ?g0)) (errorf ''boom'') ''Failed to sign tx'' (sg_msg ?g0)) (sg_trace ?g0))\<rparr>"
  have "signing_step ?W ids_ref ?g0 ?g1"
    by (rule signing_step.watch_error) (simp_all add: signing_start_def live_start_def)
  then have r: "signing_reach ?W ids_ref ?g0 ?g1" by (simp add: signing_reach_def)
  have mem: "Enqueue SigningResultCompleteTopic ?b (composeSigningResultIdempotentKey ''tx'' (msg_ref [])) \<in> set (drop (length []) (sg_trace ?g1))"
    by (simp add: signing_start_def handleSigningSessionError_run signing_request_ref_ok)
  from signing_results_verified [OF r mem] have "verified_result ?W ?s ?b
      \<or> (\<exists>err. ?b = Marshal_SigningResponse (SigningResponse_zero\<lparr>sr_ErrorCode := GetErrorCodeFromError (Some err),
               sr_WalletID := ''w'', sr_TxID := ''tx'', sr_ErrorReason := ''Failed to sign tx: '' @ err_msg err\<rparr>))"
    by (auto simp: signing_request_ref_ok)
  moreover have "\<not> verified_result ?W ?s ?b" by (simp add: verified_result_def NewEDDSASigningSession_def)
  ultimately have f: "\<exists>err. ?b = Marshal_SigningResponse (SigningResponse_zero\<lparr>sr_ErrorCode := GetErrorCodeFromError (Some err),
               sr_WalletID := ''w'', sr_TxID := ''tx'', sr_ErrorReason := ''Failed to sign tx: '' @ err_msg err\<rparr>)" by blast
  from mem have "Enqueue SigningResultCompleteTopic ?b (composeSigningResultIdempotentKey ''tx'' (msg_ref [])) \<in> set (sg_trace ?g1)"
    by (rule in_set_dropD)
  with r f show ?thesis by blast
qed

section \<open>The outcome of key generation\<close>

definition keygen_reach :: "node_env \<Rightarrow> fileStore \<Rightarrow> keygen_run \<Rightarrow> keygen_run \<Rightarrow> bool" where
  "keygen_reach W ids = (keygen_step W ids)\<^sup>*\<^sup>*"

text \<open>
  As long as the deadline has not passed and no error was reported: a session that called its callback has
  its public key, and a goroutine that has stopped watching has put that key into the response.
\<close>

definition keygen_inv :: "keygen_run \<Rightarrow> bool" where
  "keygen_inv g \<longleftrightarrow> (\<not> kg_timeout g \<and> kg_errors g = [] \<longrightarrow>
     (lv_done (kg_ecdsa g) \<longrightarrow> ps_PubkeyBytes (lv_session (kg_ecdsa g)) \<noteq> None) \<and>
     (lv_done (kg_eddsa g) \<longrightarrow> ps_PubkeyBytes (lv_session (kg_eddsa g)) \<noteq> None) \<and>
     (\<not> kg_watchEcdsa g \<longrightarrow> kr_ECDSAPubKey (kg_response g) \<noteq> None) \<and>
     (\<not> kg_watchEddsa g \<longrightarrow> kr_EDDSAPubKey (kg_response g) \<noteq> None))"

lemma keygen_step_inv:
  assumes "keygen_step W ids g g'" and "keygen_inv g"
  shows "keygen_inv g'"
  using assms
proof (cases rule: keygen_step.cases)
  case (ecdsa v' tr')
  from ecdsa_keygen.live_pubkey [OF ecdsa(2)] ecdsa(1) assms(2) show ?thesis by (simp add: keygen_inv_def)
next
  case (eddsa v' tr')
  from eddsa_keygen.live_pubkey [OF eddsa(2)] eddsa(1) assms(2) show ?thesis by (simp add: keygen_inv_def)
qed (auto simp: keygen_inv_def GetPubKeyResult_def)

lemma keygen_reach_inv:
  assumes "keygen_reach W ids g g'" and "keygen_inv g"
  shows "keygen_inv g'"
  using assms unfolding keygen_reach_def by (induction rule: rtranclp_induct) (auto intro: keygen_step_inv)

lemma keygen_start_inv: "keygen_inv (keygen_start w m s1 s2 e1 e2 tr)"
  by (simp add: keygen_inv_def keygen_start_def live_start_def)

text \<open>
  C12: A key generation that ends before its deadline reports complete results. In every state its goroutines
  can reach, with any interleaving of the two sessions, when the handler is about to publish, no error was
  reported and the deadline has not passed, both public keys are in the response.
\<close>

theorem keygen_success_has_both_keys:
  assumes "keygen_reach W ids (keygen_start w m s1 s2 e1 e2 tr) g"
    and "\<not> kg_watchEcdsa g" and "\<not> kg_watchEddsa g" and "kg_errors g = []" and "\<not> kg_timeout g"
  shows "\<exists>k1 k2. kr_ECDSAPubKey (kg_response g) = Some k1 \<and> kr_EDDSAPubKey (kg_response g) = Some k2"
  using keygen_reach_inv [OF assms(1) keygen_start_inv] assms(2-5) by (auto simp: keygen_inv_def)

text \<open>Sessions of the toy environment that can finish.\<close>

definition keygen_session_ref :: "string \<Rightarrow> PartySession" where
  "keygen_session_ref topic = (session_ref (CreatePartyID tss_lib_ref ''u'' ''n1'' ''keygen'' 1))
     \<lparr>ps_BroadcastSub := Some topic, ps_DirectSubs := []\<rparr>"

definition save_ref :: save_data where
  "save_ref = \<lparr>sd_Pub = Some (1, 2), sd_Blob = ''share''\<rparr>"

lemma generate_ref:
  "\<exists>s' tr'. run_state (ecdsa_keygen_loop env_ref crypto_ref tss_lib_ref share_lib_ref ids (keygen_session_ref t) [EndData save_ref]) tr = (Returned s', tr')
     \<and> CallDone \<in> set (drop (length tr) tr')"
  "\<exists>s' tr'. run_state (eddsa_keygen_loop env_ref crypto_ref tss_lib_ref share_lib_ref ids (keygen_session_ref t) [EndData save_ref]) tr = (Returned s', tr')
     \<and> CallDone \<in> set (drop (length tr) tr')"
  by (simp_all add: ecdsa_keygen_end_def eddsa_keygen_end_def io_defs env_ref_def
      share_lib_ref_def save_ref_def keyinfo_Save_def Close_session_def keygen_session_ref_def Let_def)

text \<open>A session that starts and finishes at once.\<close>

lemma live_finishes:
  assumes "run_state (loop s [EndData d]) (tr @ [PartyStart]) = (Returned s', tr')"
    and "CallDone \<in> set (drop (length (tr @ [PartyStart])) tr')"
  shows "\<exists>v v'. live_step sess loop receive (live_start s []) tr v (tr @ [PartyStart])
     \<and> live_step sess loop receive v (tr @ [PartyStart]) v' tr' \<and> lv_done v' \<and> lv_session v' = s'"
proof -
  let ?v = "(live_start s [])\<lparr>lv_phase := Live_running\<rparr>"
  have "live_step sess loop receive (live_start s []) tr ?v (tr @ [PartyStart])"
    by (rule live_step.start) (simp add: live_start_def)
  moreover have "live_step sess loop receive ?v (tr @ [PartyStart])
      (?v\<lparr>lv_session := result_session (Returned s'), lv_phase := result_phase (Returned s'),
          lv_pending := lv_pending ?v @ sent_errors (tr @ [PartyStart]) tr',
          lv_done := (lv_done ?v \<or> CallDone \<in> set (drop (length (tr @ [PartyStart])) tr'))\<rparr>) tr'"
    by (rule live_step.event) (use assms(1) in \<open>simp_all add: live_start_def\<close>)
  ultimately show ?thesis using assms(2) by (intro exI conjI) (auto simp: live_start_def)
qed

lemma keygen_reach_trans: "keygen_reach W ids a b \<Longrightarrow> keygen_step W ids b c \<Longrightarrow> keygen_reach W ids a c"
  unfolding keygen_reach_def by (rule rtranclp.rtrancl_into_rtrancl)

theorem keygen_success_has_both_keys_witness:
  "\<exists>g k1 k2. keygen_reach (node_env_ref env_ref) ids_ref
       (keygen_start ''w'' (msg_ref []) (keygen_session_ref ''a'') (keygen_session_ref ''b'') [] [] []) g
     \<and> kr_ECDSAPubKey (kg_response g) = Some k1 \<and> kr_EDDSAPubKey (kg_response g) = Some k2"
proof -
  let ?W = "node_env_ref env_ref"
  let ?g0 = "keygen_start ''w'' (msg_ref []) (keygen_session_ref ''a'') (keygen_session_ref ''b'') [] [] []"
  have W: "ne_E ?W = env_ref" "ne_C ?W = crypto_ref" "ne_T ?W = tss_lib_ref" "ne_L_ecdsa ?W = share_lib_ref" "ne_L_eddsa ?W = share_lib_ref"
    by (simp_all add: node_env_ref_def)
  obtain s1 t1 where e1: "run_state (ecdsa_keygen_loop env_ref crypto_ref tss_lib_ref share_lib_ref ids_ref (keygen_session_ref ''a'') [EndData save_ref])
      (kg_trace ?g0 @ [PartyStart]) = (Returned s1, t1)" "CallDone \<in> set (drop (length (kg_trace ?g0 @ [PartyStart])) t1)"
    using generate_ref(1) by blast
  from live_finishes [of "ecdsa_keygen_loop env_ref crypto_ref tss_lib_ref share_lib_ref ids_ref", OF this,
      of "\<lambda>s. s" "handle_incoming env_ref crypto_ref tss_lib_ref ids_ref"] obtain u v
    where uv: "live_step (\<lambda>s. s) (ecdsa_keygen_loop env_ref crypto_ref tss_lib_ref share_lib_ref ids_ref)
        (handle_incoming env_ref crypto_ref tss_lib_ref ids_ref) (kg_ecdsa ?g0) (kg_trace ?g0) u (kg_trace ?g0 @ [PartyStart])"
      "live_step (\<lambda>s. s) (ecdsa_keygen_loop env_ref crypto_ref tss_lib_ref share_lib_ref ids_ref)
        (handle_incoming env_ref crypto_ref tss_lib_ref ids_ref) u (kg_trace ?g0 @ [PartyStart]) v t1" "lv_done v"
    by (auto simp: keygen_start_def)
  obtain s2 t2 where e2: "run_state (eddsa_keygen_loop env_ref crypto_ref tss_lib_ref share_lib_ref ids_ref (keygen_session_ref ''b'') [EndData save_ref])
      (t1 @ [PartyStart]) = (Returned s2, t2)" "CallDone \<in> set (drop (length (t1 @ [PartyStart])) t2)"
    using generate_ref(2) by blast
  from live_finishes [of "eddsa_keygen_loop env_ref crypto_ref tss_lib_ref share_lib_ref ids_ref", OF this,
      of "\<lambda>s. s" "handle_incoming env_ref crypto_ref tss_lib_ref ids_ref"] obtain x y
    where xy: "live_step (\<lambda>s. s) (eddsa_keygen_loop env_ref crypto_ref tss_lib_ref share_lib_ref ids_ref)
        (handle_incoming env_ref crypto_ref tss_lib_ref ids_ref) (kg_eddsa ?g0) t1 x (t1 @ [PartyStart])"
      "live_step (\<lambda>s. s) (eddsa_keygen_loop env_ref crypto_ref tss_lib_ref share_lib_ref ids_ref)
        (handle_incoming env_ref crypto_ref tss_lib_ref ids_ref) x (t1 @ [PartyStart]) y t2" "lv_done y"
    by (auto simp: keygen_start_def)
  let ?g1 = "?g0\<lparr>kg_ecdsa := u, kg_trace := kg_trace ?g0 @ [PartyStart]\<rparr>"
  let ?g2 = "?g1\<lparr>kg_ecdsa := v, kg_trace := t1\<rparr>"
  let ?g3 = "?g2\<lparr>kg_eddsa := x, kg_trace := t1 @ [PartyStart]\<rparr>"
  let ?g4 = "?g3\<lparr>kg_eddsa := y, kg_trace := t2\<rparr>"
  let ?g5 = "?g4\<lparr>kg_watchEcdsa := False, kg_response := (kg_response ?g4)\<lparr>kr_ECDSAPubKey := GetPubKeyResult (lv_session (kg_ecdsa ?g4))\<rparr>\<rparr>"
  let ?g6 = "?g5\<lparr>kg_watchEddsa := False, kg_response := (kg_response ?g5)\<lparr>kr_EDDSAPubKey := GetPubKeyResult (lv_session (kg_eddsa ?g5))\<rparr>\<rparr>"
  have s1: "keygen_step ?W ids_ref ?g0 ?g1" by (rule keygen_step.ecdsa) (unfold W, rule uv(1))
  have s2: "keygen_step ?W ids_ref ?g1 ?g2" by (rule keygen_step.ecdsa) (use uv(2) in \<open>simp add: W\<close>)
  have s3: "keygen_step ?W ids_ref ?g2 ?g3" by (rule keygen_step.eddsa) (use xy(1) in \<open>simp add: W\<close>)
  have s4: "keygen_step ?W ids_ref ?g3 ?g4" by (rule keygen_step.eddsa) (use xy(2) in \<open>simp add: W\<close>)
  have s5: "keygen_step ?W ids_ref ?g4 ?g5" by (rule keygen_step.watch_ecdsa) (use uv(3) in \<open>simp_all add: keygen_start_def\<close>)
  have s6: "keygen_step ?W ids_ref ?g5 ?g6" by (rule keygen_step.watch_eddsa) (use xy(3) in \<open>simp_all add: keygen_start_def\<close>)
  have r0: "keygen_reach ?W ids_ref ?g0 ?g0" by (simp add: keygen_reach_def)
  note r = r0 [THEN keygen_reach_trans, OF s1, THEN keygen_reach_trans, OF s2, THEN keygen_reach_trans, OF s3,
    THEN keygen_reach_trans, OF s4, THEN keygen_reach_trans, OF s5, THEN keygen_reach_trans, OF s6]
  have "\<exists>k1 k2. kr_ECDSAPubKey (kg_response ?g6) = Some k1 \<and> kr_EDDSAPubKey (kg_response ?g6) = Some k2"
    by (rule keygen_success_has_both_keys [OF r]) (simp_all add: keygen_start_def)
  with r show ?thesis by blast
qed

text \<open>
  C37: At the deadline the handler may report a success that is none. When the deadline passes before either
  session has finished, both goroutines stop and the final select may take either of its ready cases; if
  it takes the one for completed goroutines, the handler publishes a result with no error and no public
  key and acknowledges the request.
\<close>

theorem keygen_deadline_may_report_success:
  assumes "ps_PubkeyBytes s1 = None" and "ps_PubkeyBytes s2 = None"
    and "\<And>t. en_Enqueue (ne_E W) t (TypeGenerateWalletResultFmt w)
             (Marshal_KeygenResponse (KeygenResponse_zero\<lparr>kr_WalletID := w\<rparr>)) (composeKeygenIdempotentKey w m) = None"
  shows "\<exists>g. keygen_reach W ids (keygen_start w m s1 s2 e1 e2 tr) g \<and> kg_outcome g = KG_success
    \<and> Enqueue (TypeGenerateWalletResultFmt w) (Marshal_KeygenResponse (KeygenResponse_zero\<lparr>kr_WalletID := w\<rparr>))
         (composeKeygenIdempotentKey w m) \<in> set (kg_trace g)"
proof -
  let ?g0 = "keygen_start w m s1 s2 e1 e2 tr"
  let ?g1 = "?g0\<lparr>kg_timeout := True\<rparr>"
  let ?g2 = "?g1\<lparr>kg_watchEcdsa := False, kg_response := (kg_response ?g1)\<lparr>kr_ECDSAPubKey := GetPubKeyResult (lv_session (kg_ecdsa ?g1))\<rparr>\<rparr>"
  let ?g3 = "?g2\<lparr>kg_watchEddsa := False, kg_response := (kg_response ?g2)\<lparr>kr_EDDSAPubKey := GetPubKeyResult (lv_session (kg_eddsa ?g2))\<rparr>\<rparr>"
  have resp: "kg_response ?g3 = KeygenResponse_zero\<lparr>kr_WalletID := w\<rparr>"
    using assms(1,2) by (simp add: keygen_start_def live_start_def GetPubKeyResult_def KeygenResponse_zero_def)
  have st: "kg_walletID ?g3 = w" "kg_msg ?g3 = m" "kg_trace ?g3 = tr" by (simp_all add: keygen_start_def)
  obtain tr' where pub: "run_state (keygen_publish (ne_E W) w m (KeygenResponse_zero\<lparr>kr_WalletID := w\<rparr>)) tr = (KG_success, tr')"
    and mem: "Enqueue (TypeGenerateWalletResultFmt w) (Marshal_KeygenResponse (KeygenResponse_zero\<lparr>kr_WalletID := w\<rparr>))
         (composeKeygenIdempotentKey w m) \<in> set tr'"
    using assms(3) [of tr] by (cases "nm_Reply m = []") (simp_all add: keygen_publish_def io_defs Let_def sendReplyToRemoveMsg_def)
  let ?g4 = "?g3\<lparr>kg_outcome := KG_success, kg_timeout := True, kg_trace := tr'\<rparr>"
  have "keygen_step W ids ?g0 ?g1" by (rule keygen_step.timeout)
  moreover have "keygen_step W ids ?g1 ?g2" by (rule keygen_step.watch_ecdsa) (simp_all add: keygen_start_def)
  moreover have "keygen_step W ids ?g2 ?g3" by (rule keygen_step.watch_eddsa) (simp_all add: keygen_start_def)
  moreover have "keygen_step W ids ?g3 ?g4"
    by (rule keygen_step.main_success) (use pub in \<open>simp_all only: resp st\<close>, simp_all add: keygen_start_def)
  moreover have "keygen_reach W ids ?g0 ?g0" by (simp add: keygen_reach_def)
  ultimately have "keygen_reach W ids ?g0 ?g4" by (blast intro: keygen_reach_trans)
  with mem show ?thesis by (intro exI [of _ ?g4]) simp
qed

theorem keygen_deadline_may_report_success_witness:
  "\<exists>g. keygen_reach (node_env_ref env_ref) ids_ref
       (keygen_start ''w'' (msg_ref []) (keygen_session_ref ''a'') (keygen_session_ref ''b'') [] [] []) g \<and> kg_outcome g = KG_success"
  using keygen_deadline_may_report_success [of "keygen_session_ref ''a''" "keygen_session_ref ''b''" "node_env_ref env_ref" "''w''" "msg_ref []" ids_ref "[]" "[]" "[]"]
  by (auto simp: keygen_session_ref_def session_ref_def node_env_ref_def env_ref_def)

section \<open>The outcome of resharing\<close>

definition resharing_reach :: "node_env \<Rightarrow> fileStore \<Rightarrow> resharing_run \<Rightarrow> resharing_run \<Rightarrow> bool" where
  "resharing_reach W ids = (resharing_step W ids)\<^sup>*\<^sup>*"

lemma resharing_reach_trans: "resharing_reach W ids a b \<Longrightarrow> resharing_step W ids b c \<Longrightarrow> resharing_reach W ids a c"
  unfolding resharing_reach_def by (rule rtranclp.rtrancl_into_rtrancl)

lemma handleResharingSessionError_run:
  "run_state (handleResharingSessionError E w kt t err ctx m) tr =
     ((), tr @ [Enqueue (TypeResharingWalletResultFmt w)
           (Marshal_ResharingResponse (ResharingResponse_zero\<lparr>rr_ErrorCode := GetErrorCodeFromError (Some err), rr_WalletID := w,
              rr_KeyType := kt, rr_NewThreshold := t, rr_ErrorReason := ctx @ '': '' @ err_msg err\<rparr>))
           (composeResharingResultIdempotentKey w m)]
        @ (if nm_Reply m = [] then [] else [Publish (nm_Reply m) (nm_Data m)]))"
  by (simp add: handleResharingSessionError_def io_defs Let_def sendReplyToRemoveMsg_def)

text \<open>The response a resharing starts with: no error, no public key.\<close>

definition resharing_blank :: "ResharingMessage \<Rightarrow> ResharingResponse" where
  "resharing_blank q = ResharingResponse_zero\<lparr>rr_WalletID := rm_WalletID q, rr_NewThreshold := rm_NewThreshold q,
                      rr_KeyType := rm_KeyType q\<rparr>"

text \<open>
  C38: A resharing whose session fails still reports success. When the session of the new committee sends an
  error, the handler publishes the failure under the wallet ID and then, having waited for its goroutines,
  publishes a result with no error and no public key under the session ID and acknowledges the request.
\<close>

theorem resharing_reports_success_after_error:
  assumes "\<And>t. en_Enqueue (ne_E W) t (TypeResharingWalletResultFmt (rm_SessionID q))
             (Marshal_ResharingResponse (resharing_blank q)) (composeResharingResultIdempotentKey (rm_SessionID q) m) = None"
  shows "\<exists>g a b c. resharing_reach W ids (resharing_start q m None (Some s) errs (err # errs') tr) g \<and> rs_finished g \<and> rs_errors g = [err]
    \<and> rs_trace g = tr @ a @ [Enqueue (TypeResharingWalletResultFmt (rm_WalletID q))
           (Marshal_ResharingResponse ((resharing_blank q)\<lparr>rr_ErrorCode := GetErrorCodeFromError (Some err),
              rr_ErrorReason := ''New reshare session error: '' @ err_msg err\<rparr>)) (composeResharingResultIdempotentKey (rm_WalletID q) m)]
        @ b @ [Enqueue (TypeResharingWalletResultFmt (rm_SessionID q)) (Marshal_ResharingResponse (resharing_blank q))
           (composeResharingResultIdempotentKey (rm_SessionID q) m)] @ c"
proof -
  let ?g0 = "resharing_start q m None (Some s) errs (err # errs') tr"
  let ?v = "live_start s (err # errs')"
  let ?tr1 = "snd (run_state (report_resharing (ne_E W) ?g0 err ''New reshare session error'') (rs_trace ?g0))"
  let ?g1 = "?g0\<lparr>rs_watchNew := False, rs_errors := rs_errors ?g0 @ [err],
      rs_new := Some (?v\<lparr>lv_pending := remove1 err (lv_pending ?v), lv_done := True\<rparr>), rs_trace := ?tr1\<rparr>"
  let ?tr2 = "snd (run_state (resharing_publish (ne_E W) ?g1) (rs_trace ?g1))"
  let ?g2 = "?g1\<lparr>rs_finished := True, rs_trace := ?tr2\<rparr>"
  let ?reply = "if nm_Reply m = [] then [] else [Publish (nm_Reply m) (nm_Data m)]"
  have "resharing_step W ids ?g0 ?g1" by (rule resharing_step.error_new) (simp_all add: resharing_start_def live_start_def)
  moreover have "resharing_step W ids ?g1 ?g2" by (rule resharing_step.main) (simp_all add: resharing_start_def)
  moreover have "resharing_reach W ids ?g0 ?g0" by (simp add: resharing_reach_def)
  ultimately have r: "resharing_reach W ids ?g0 ?g2" by (blast intro: resharing_reach_trans)
  have resp: "rs_response ?g1 = resharing_blank q" "rs_request ?g1 = q" "rs_msg ?g1 = m" "rs_new ?g1 \<noteq> None"
    by (simp_all add: resharing_start_def resharing_blank_def)
  have t1: "?tr1 = tr @ [Enqueue (TypeResharingWalletResultFmt (rm_WalletID q))
           (Marshal_ResharingResponse ((resharing_blank q)\<lparr>rr_ErrorCode := GetErrorCodeFromError (Some err),
              rr_ErrorReason := ''New reshare session error: '' @ err_msg err\<rparr>)) (composeResharingResultIdempotentKey (rm_WalletID q) m)] @ ?reply"
    by (simp add: report_resharing_def handleResharingSessionError_run resharing_start_def resharing_blank_def
        ResharingResponse_zero_def)
  have "?tr2 = rs_trace ?g1 @ [Enqueue (TypeResharingWalletResultFmt (rm_SessionID q)) (Marshal_ResharingResponse (resharing_blank q))
           (composeResharingResultIdempotentKey (rm_SessionID q) m)] @ ?reply"
    using assms unfolding resharing_publish_def resp(1-3) using resp(4)
    by (simp add: io_defs Let_def sendReply_run)
  then have tr2: "rs_trace ?g2 = ?tr1 @ [Enqueue (TypeResharingWalletResultFmt (rm_SessionID q)) (Marshal_ResharingResponse (resharing_blank q))
           (composeResharingResultIdempotentKey (rm_SessionID q) m)] @ ?reply" by simp
  have tr2': "rs_trace ?g2 = tr @ [] @ [Enqueue (TypeResharingWalletResultFmt (rm_WalletID q))
           (Marshal_ResharingResponse ((resharing_blank q)\<lparr>rr_ErrorCode := GetErrorCodeFromError (Some err),
              rr_ErrorReason := ''New reshare session error: '' @ err_msg err\<rparr>)) (composeResharingResultIdempotentKey (rm_WalletID q) m)]
        @ ?reply @ [Enqueue (TypeResharingWalletResultFmt (rm_SessionID q)) (Marshal_ResharingResponse (resharing_blank q))
           (composeResharingResultIdempotentKey (rm_SessionID q) m)] @ ?reply"
    by (rule trans [OF tr2]) (simp only: t1 append_Nil append_assoc)
  show ?thesis
    by (rule exI [of _ ?g2], rule exI [of _ "[]"], rule exI [of _ ?reply], rule exI [of _ ?reply])
       (intro conjI, rule r, simp, simp add: resharing_start_def, rule tr2')
qed

theorem resharing_reports_success_after_error_witness:
  "\<exists>g. resharing_reach (node_env_ref env_ref) ids_ref (resharing_start (ResharingMessage_zero\<lparr>rm_SessionID := ''s''\<rparr>) (msg_ref [])
       None (Some (EDDSA_resharing (NewEDDSAResharingSession tss_lib_ref (\<lambda>_ _ _. Inl (errorf [])) ''w'' [] None [] [] 1 1 [] True 1)))
       [] [errorf ''boom''] []) g
     \<and> rs_finished g \<and> rs_errors g = [errorf ''boom'']"
proof -
  have "en_Enqueue (ne_E (node_env_ref env_ref)) t a b c = None" for t a b c by (simp add: node_env_ref_def env_ref_def)
  from resharing_reports_success_after_error [of "node_env_ref env_ref", OF this] show ?thesis by blast
qed

section \<open>Workers\<close>

text \<open>
  A worker takes messages from its channel one by one, waits for a slot of the semaphore and starts a
  handler, which gives the slot back when it returns. A send on a full channel blocks the subscription.
\<close>

record worker =
  wk_cap :: nat
  wk_max :: nat
  wk_queue :: "nats_Msg list"
  wk_taken :: "nats_Msg option"
  wk_running :: "nats_Msg list"
  wk_handled :: "nats_Msg list"

text \<open>A channel of negative size panics.\<close>

definition worker_start :: "nat \<Rightarrow> int \<Rightarrow> worker go_res" where
  "worker_start cap maxConcurrent =
     (if maxConcurrent < 0 then Panic
      else Ret \<lparr>wk_cap = cap, wk_max = nat maxConcurrent, wk_queue = [], wk_taken = None, wk_running = [], wk_handled = []\<rparr>)"

definition startKeyGenEventWorker :: "eventConsumer \<Rightarrow> worker go_res" where
  "startKeyGenEventWorker ec = worker_start 100 (cn_maxConcurrentKeygen ec)"
definition startSigningEventWorker :: "eventConsumer \<Rightarrow> worker go_res" where
  "startSigningEventWorker ec = worker_start 200 (cn_maxConcurrentSigning ec)"
definition startResharingEventWorker :: "eventConsumer \<Rightarrow> worker go_res" where
  "startResharingEventWorker ec = worker_start 100 (cn_maxConcurrentResharing ec)"

inductive worker_step :: "worker \<Rightarrow> nats_Msg list \<Rightarrow> worker \<Rightarrow> bool" where
  arrive: "length (wk_queue w) < wk_cap w \<Longrightarrow> worker_step w [m] (w\<lparr>wk_queue := wk_queue w @ [m]\<rparr>)"
| take_msg: "wk_taken w = None \<Longrightarrow> wk_queue w = m # q \<Longrightarrow> worker_step w [] (w\<lparr>wk_taken := Some m, wk_queue := q\<rparr>)"
| acquire: "wk_taken w = Some m \<Longrightarrow> length (wk_running w) < wk_max w \<Longrightarrow>
    worker_step w [] (w\<lparr>wk_taken := None, wk_running := wk_running w @ [m]\<rparr>)"
| release: "wk_running w = a @ m # b \<Longrightarrow> worker_step w [] (w\<lparr>wk_running := a @ b, wk_handled := wk_handled w @ [m]\<rparr>)"

inductive worker_run :: "worker \<Rightarrow> nats_Msg list \<Rightarrow> worker \<Rightarrow> bool" where
  idle: "worker_run w [] w"
| more: "worker_run w ms w' \<Longrightarrow> worker_step w' ns w'' \<Longrightarrow> worker_run w (ms @ ns) w''"

definition worker_msgs :: "worker \<Rightarrow> nats_Msg multiset" where
  "worker_msgs w = mset (wk_queue w) + mset (case wk_taken w of None \<Rightarrow> [] | Some m \<Rightarrow> [m]) + mset (wk_running w) + mset (wk_handled w)"

definition worker_inv :: "worker \<Rightarrow> bool" where
  "worker_inv w \<longleftrightarrow> length (wk_queue w) \<le> wk_cap w \<and> length (wk_running w) \<le> wk_max w"

lemma worker_step_inv:
  "worker_step w ms w' \<Longrightarrow> worker_inv w \<Longrightarrow>
   worker_inv w' \<and> wk_cap w' = wk_cap w \<and> wk_max w' = wk_max w \<and> worker_msgs w' = worker_msgs w + mset ms"
  by (induction rule: worker_step.induct) (auto simp: worker_inv_def worker_msgs_def)

lemma worker_run_inv:
  "worker_run w ms w' \<Longrightarrow> worker_inv w \<Longrightarrow>
   worker_inv w' \<and> wk_cap w' = wk_cap w \<and> wk_max w' = wk_max w \<and> worker_msgs w' = worker_msgs w + mset ms"
  by (induction rule: worker_run.induct) (auto dest!: worker_step_inv)



end
