(* ===== verification/Stream_Consumers.thy ===== *)
theory Stream_Consumers
  imports Event_Consumer
begin

text \<open>
  The consumers of the JetStream requests (\<^verbatim>\<open>pkg/eventconsumer/keygen.go\<close>, \<^verbatim>\<open>signing.go\<close>, \<^verbatim>\<open>resharing.go\<close>) and of the
  advisories for requests that were delivered too often (\<^verbatim>\<open>timeout.go\<close>). A consumer forwards a request to the
  handlers of \<^verbatim>\<open>event.go\<close> with an inbox for the reply, polls the inbox and settles the request: it is
  acknowledged, or given back for redelivery. The polling loops run on fuel; the theorems show that one turn
  per polling interval of the deadline, and one more, is enough.
\<close>

section \<open>Polling for a reply\<close>

text \<open>
  Times are in nanoseconds. A context made with \<^verbatim>\<open>context.WithTimeout\<close> is done from its deadline on, so the loops
  of the signing and resharing consumers read the clock as the loop of the key generation consumer does.
\<close>

definition millisecond :: int where "millisecond = 1000000"
definition second :: int where "second = 1000 * millisecond"

definition signingResponseTimeout :: int where "signingResponseTimeout = 30 * second"
definition keygenResponseTimeout :: int where "keygenResponseTimeout = 30 * second"
definition resharingResponseTimeout :: int where "resharingResponseTimeout = 60 * second"
definition pollingInterval :: int where "pollingInterval = 500 * millisecond"

fun poll_reply :: "nat \<Rightarrow> env \<Rightarrow> int \<Rightarrow> string \<Rightarrow> unit option io" where
  "poll_reply 0 E deadline inbox = State_Monad.return None"
| "poll_reply (Suc n) E deadline inbox = do {
     now \<leftarrow> io_TimeNow E;
     (if deadline \<le> now then do { _ \<leftarrow> io_MsgNak E; State_Monad.return (Some ()) }
      else do {
        r \<leftarrow> io_NextMsg E inbox;
        (case r of
           Inl err \<Rightarrow>
             if err = Sentinel ErrTimeout then poll_reply n E deadline inbox
             else do { _ \<leftarrow> io_MsgNak E; State_Monad.return (Some ()) }
         | Inr None \<Rightarrow> poll_reply n E deadline inbox
         | Inr (Some _) \<Rightarrow> do { _ \<leftarrow> io_MsgAck E; State_Monad.return (Some ()) }) }) }"

text \<open>
  Forward a request and wait for the reply, as the three handlers do; the inbox is unsubscribed on every way
  out once it exists. The result \<open>None\<close> stands for a loop that ran out of fuel.
\<close>

definition forward_request :: "nat \<Rightarrow> env \<Rightarrow> string \<Rightarrow> int \<Rightarrow> nats_Msg \<Rightarrow> unit option io" where
  "forward_request fuel E event timeout msg = do {
     replyInbox \<leftarrow> io_NewInbox E;
     err \<leftarrow> io_Subscribe E replyInbox;
     (case err of
        Some e \<Rightarrow> do { _ \<leftarrow> io_MsgNak E; State_Monad.return (Some ()) }
      | None \<Rightarrow> do {
          sid \<leftarrow> io_NewUUID E;
          err \<leftarrow> io_PublishReply E event replyInbox (nm_Data msg) [(''SessionID'', sid)];
          r \<leftarrow> (case err of
             Some e \<Rightarrow> do { _ \<leftarrow> io_MsgNak E; State_Monad.return (Some ()) }
           | None \<Rightarrow> do {
               start \<leftarrow> io_TimeNow E;
               poll_reply fuel E (start + timeout) replyInbox });
          _ \<leftarrow> io_Unsubscribe E replyInbox;
          State_Monad.return r }) }"

definition buildIdempotentKey :: "string \<Rightarrow> string \<Rightarrow> (string \<Rightarrow> string) \<Rightarrow> string" where
  "buildIdempotentKey baseID sessionID formatTemplate =
     (let uniqueKey = (if sessionID \<noteq> [] then baseID @ '':'' @ sessionID else baseID)
      in formatTemplate uniqueKey)"

section \<open>Signing requests\<close>

record signingConsumer =
  sc_threshold :: int
  sc_jsSub :: "string option"

definition NewSigningConsumer :: signingConsumer where
  "NewSigningConsumer = \<lparr>sc_threshold = 0, sc_jsSub = None\<rparr>"

definition stream_handleSigningError :: "env \<Rightarrow> SigningMessage \<Rightarrow> string \<Rightarrow> go_error \<Rightarrow> string \<Rightarrow> unit io" where
  "stream_handleSigningError E msg errorCode err sessionID = do {
     let signingResult = SigningResponse_zero\<lparr>sr_ErrorCode := errorCode, sr_WalletID := sm_WalletID msg,
           sr_TxID := sm_TxID msg, sr_ErrorReason := err_msg err\<rparr>;
     _ \<leftarrow> io_Enqueue E SigningResultCompleteTopic (Marshal_SigningResponse signingResult)
           (buildIdempotentKey (sm_TxID msg) sessionID TypeSigningResultFmt);
     State_Monad.return () }"

definition stream_handleSigningEvent ::
  "nat \<Rightarrow> env \<Rightarrow> registry_reads \<Rightarrow> signingConsumer \<Rightarrow> nats_Msg \<Rightarrow> unit option io" where
  "stream_handleSigningEvent fuel E R sc msg =
     (let sessionID = header_Get msg ''SessionID'' in
      case Unmarshal_SigningMessage (nm_Data msg) of
        (signingMsg, Some err) \<Rightarrow> do {
          stream_handleSigningError E signingMsg (code_text ErrorCodeUnmarshalFailure) err sessionID;
          _ \<leftarrow> io_MsgAck E; State_Monad.return (Some ()) }
      | (signingMsg, None) \<Rightarrow>
          if \<not> AreMajorityReady (fst (R 0)) (snd (R 0)) then do {
            let requiredPeers = inc64 (sc_threshold sc);
            let err = errorf (''not enough peers to process signing request: ready='' @ itoa (GetReadyPeersCount (fst (R 1)))
                        @ '', required='' @ itoa requiredPeers);
            stream_handleSigningError E signingMsg (code_text ErrorCodeNotMajority) err sessionID;
            _ \<leftarrow> io_MsgAck E; State_Monad.return (Some ()) }
          else forward_request fuel E MPCSignEvent signingResponseTimeout msg)"

text \<open>
  What a consumer that waits for peers sees: ticks, at each of which it reads the registry, and the end of its
  context. It returns at the first tick with enough peers; without one it is still waiting.
\<close>

datatype wait_event = Tick registry fileStore | Ctx_done go_error

fun signing_waitForSufficientPeers :: "signingConsumer \<Rightarrow> wait_event list \<Rightarrow> go_error option option" where
  "signing_waitForSufficientPeers sc [] = None"
| "signing_waitForSufficientPeers sc (Ctx_done err # evs) =
     Some (if err = Sentinel ErrCanceled then None else Some err)"
| "signing_waitForSufficientPeers sc (Tick r ids # evs) =
     (if GetReadyPeersCount r \<ge> inc64 (sc_threshold sc) then Some None
      else signing_waitForSufficientPeers sc evs)"

definition signing_Close :: "env \<Rightarrow> signingConsumer \<Rightarrow> go_error option io" where
  "signing_Close E sc = (case sc_jsSub sc of None \<Rightarrow> State_Monad.return None | Some s \<Rightarrow> io_Unsubscribe E s)"

definition KeygenRequestTopic :: string where "KeygenRequestTopic = ''mpc.keygen_request.*''"
definition SigningRequestTopic :: string where "SigningRequestTopic = ''mpc.signing_request.*''"
definition ResharingRequestTopic :: string where "ResharingRequestTopic = ''mpc.resharing_request.*''"

text \<open>
  \<^verbatim>\<open>Run\<close> with the events it waits through: it subscribes once there are enough peers and closes the
  subscription when its context ends. The outer \<open>None\<close> stands for a consumer that still waits.
\<close>

definition signing_Run :: "env \<Rightarrow> signingConsumer \<Rightarrow> wait_event list \<Rightarrow> (go_error option option \<times> signingConsumer) io" where
  "signing_Run E sc evs =
     (case signing_waitForSufficientPeers sc evs of
        None \<Rightarrow> State_Monad.return (None, sc)
      | Some (Some err) \<Rightarrow>
          State_Monad.return (Some (if err = Sentinel ErrCanceled then None
                                    else Some (wrapf ''failed to wait for sufficient peers'' err)), sc)
      | Some None \<Rightarrow> do {
          err \<leftarrow> io_Subscribe E SigningRequestTopic;
          (case err of
             Some e \<Rightarrow> State_Monad.return (Some (Some (wrapf ''failed to subscribe to signing events'' e)), sc)
           | None \<Rightarrow> do {
               let sc1 = sc\<lparr>sc_jsSub := Some SigningRequestTopic\<rparr>;
               r \<leftarrow> signing_Close E sc1;
               State_Monad.return (Some r, sc1) }) })"

section \<open>Key generation requests\<close>

record keygenConsumer =
  kc_jsSub :: "string option"

definition NewKeygenConsumer :: keygenConsumer where
  "NewKeygenConsumer = \<lparr>kc_jsSub = None\<rparr>"

definition stream_handleKeygenError :: "env \<Rightarrow> KeygenMessage \<Rightarrow> string \<Rightarrow> go_error \<Rightarrow> string \<Rightarrow> unit io" where
  "stream_handleKeygenError E keygenMsg errorCode err sessionID = do {
     let keygenResult = KeygenResponse_zero\<lparr>kr_ErrorCode := errorCode, kr_WalletID := km_WalletID keygenMsg,
           kr_ErrorReason := err_msg err\<rparr>;
     _ \<leftarrow> io_Enqueue E (TypeGenerateWalletResultFmt (km_WalletID keygenMsg)) (Marshal_KeygenResponse keygenResult)
           (buildIdempotentKey (km_WalletID keygenMsg) sessionID TypeGenerateWalletResultFmt);
     State_Monad.return () }"

definition stream_handleKeygenEvent :: "nat \<Rightarrow> env \<Rightarrow> registry_reads \<Rightarrow> nats_Msg \<Rightarrow> unit option io" where
  "stream_handleKeygenEvent fuel E R msg =
     (let sessionID = header_Get msg ''SessionID'' in
      case Unmarshal_KeygenMessage (nm_Data msg) of
        (keygenMsg, Some err) \<Rightarrow> do {
          stream_handleKeygenError E keygenMsg (code_text ErrorCodeUnmarshalFailure) err sessionID;
          _ \<leftarrow> io_MsgAck E; State_Monad.return (Some ()) }
      | (keygenMsg, None) \<Rightarrow>
          if \<not> ArePeersReady (fst (R 0)) (snd (R 0)) then do {
            stream_handleKeygenError E keygenMsg (code_text ErrorCodeClusterNotReady)
              (errorf ''not all peers are ready'') sessionID;
            _ \<leftarrow> io_MsgAck E; State_Monad.return (Some ()) }
          else forward_request fuel E MPCGenerateEvent keygenResponseTimeout msg)"

fun keygen_waitForSufficientPeers :: "wait_event list \<Rightarrow> go_error option option" where
  "keygen_waitForSufficientPeers [] = None"
| "keygen_waitForSufficientPeers (Ctx_done err # evs) =
     Some (if err = Sentinel ErrCanceled then None else Some err)"
| "keygen_waitForSufficientPeers (Tick r ids # evs) =
     (if ArePeersReady r ids then Some None else keygen_waitForSufficientPeers evs)"

definition keygen_Close :: "env \<Rightarrow> keygenConsumer \<Rightarrow> go_error option io" where
  "keygen_Close E kc = (case kc_jsSub kc of None \<Rightarrow> State_Monad.return None | Some s \<Rightarrow> io_Unsubscribe E s)"

definition keygen_Run :: "env \<Rightarrow> keygenConsumer \<Rightarrow> wait_event list \<Rightarrow> (go_error option option \<times> keygenConsumer) io" where
  "keygen_Run E kc evs =
     (case keygen_waitForSufficientPeers evs of
        None \<Rightarrow> State_Monad.return (None, kc)
      | Some (Some err) \<Rightarrow>
          State_Monad.return (Some (if err = Sentinel ErrCanceled then None
                                    else Some (wrapf ''failed to wait for sufficient peers'' err)), kc)
      | Some None \<Rightarrow> do {
          err \<leftarrow> io_Subscribe E KeygenRequestTopic;
          (case err of
             Some e \<Rightarrow> State_Monad.return (Some (Some (wrapf ''failed to subscribe to keygen events'' e)), kc)
           | None \<Rightarrow> do {
               let kc1 = kc\<lparr>kc_jsSub := Some KeygenRequestTopic\<rparr>;
               r \<leftarrow> keygen_Close E kc1;
               State_Monad.return (Some r, kc1) }) })"

section \<open>Resharing requests\<close>

record resharingConsumer =
  rc_jsSub :: "string option"

definition NewResharingConsumer :: resharingConsumer where
  "NewResharingConsumer = \<lparr>rc_jsSub = None\<rparr>"

definition stream_handleResharingError :: "env \<Rightarrow> ResharingMessage \<Rightarrow> string \<Rightarrow> go_error \<Rightarrow> string \<Rightarrow> unit io" where
  "stream_handleResharingError E msg errorCode err sessionID = do {
     let resharingResult = ResharingResponse_zero\<lparr>rr_ErrorCode := errorCode, rr_WalletID := rm_WalletID msg,
           rr_KeyType := rm_KeyType msg, rr_NewThreshold := rm_NewThreshold msg, rr_ErrorReason := err_msg err\<rparr>;
     _ \<leftarrow> io_Enqueue E ResharingResultCompleteTopic (Marshal_ResharingResponse resharingResult)
           (buildIdempotentKey (rm_WalletID msg) sessionID TypeResharingWalletResultFmt);
     State_Monad.return () }"

definition stream_handleResharingEvent :: "nat \<Rightarrow> env \<Rightarrow> nats_Msg \<Rightarrow> unit option io" where
  "stream_handleResharingEvent fuel E msg =
     (let sessionID = header_Get msg ''SessionID'' in
      case Unmarshal_ResharingMessage (nm_Data msg) of
        (resharingMsg, Some err) \<Rightarrow> do {
          stream_handleResharingError E resharingMsg (code_text ErrorCodeUnmarshalFailure) err sessionID;
          _ \<leftarrow> io_MsgAck E; State_Monad.return (Some ()) }
      | (resharingMsg, None) \<Rightarrow> forward_request fuel E MPCResharingEvent resharingResponseTimeout msg)"

definition resharing_Close :: "env \<Rightarrow> resharingConsumer \<Rightarrow> go_error option io" where
  "resharing_Close E rc = (case rc_jsSub rc of None \<Rightarrow> State_Monad.return None | Some s \<Rightarrow> io_Unsubscribe E s)"

definition resharing_Run :: "env \<Rightarrow> resharingConsumer \<Rightarrow> (go_error option \<times> resharingConsumer) io" where
  "resharing_Run E rc = do {
     err \<leftarrow> io_Subscribe E ResharingRequestTopic;
     (case err of
        Some e \<Rightarrow> State_Monad.return (Some (wrapf ''failed to subscribe to resharing events'' e), rc)
      | None \<Rightarrow> do {
          let rc1 = rc\<lparr>rc_jsSub := Some ResharingRequestTopic\<rparr>;
          r \<leftarrow> resharing_Close E rc1;
          State_Monad.return (r, rc1) }) }"

section \<open>Requests delivered too often\<close>

definition KeygenResultTopic :: string where "KeygenResultTopic = ''mpc.mpc_keygen_result.*''"
definition SigningResultTopic :: string where "SigningResultTopic = ''mpc.mpc_signing_result.*''"
definition ResharingResultTopic :: string where "ResharingResultTopic = ''mpc.mpc_resharing_result.*''"

definition KeygenBrokerStream :: string where "KeygenBrokerStream = ''mpc-keygen''"
definition SigningBrokerStream :: string where "SigningBrokerStream = ''mpc-signing''"
definition ResharingBrokerStream :: string where "ResharingBrokerStream = ''mpc-resharing''"

definition errorMsgSigningTimeout :: string where
  "errorMsgSigningTimeout = ''Signing failed: maximum delivery attempts exceeded''"
definition errorMsgResharingTimeout :: string where
  "errorMsgResharingTimeout = ''Resharing failed: maximum delivery attempts exceeded''"
definition errorMsgKeygenTimeout :: string where
  "errorMsgKeygenTimeout = ''Keygen failed: maximum delivery attempts exceeded''"

text \<open>The handlers decode the stored request as if it were a response and send it back as a failure.\<close>

definition Signing_HandleTimeout :: "env \<Rightarrow> bytes \<Rightarrow> (go_error + string) io" where
  "Signing_HandleTimeout E data =
     (case Unmarshal_SigningResponse data of
        (_, Some err) \<Rightarrow> State_Monad.return (Inl (wrapf ''failed to unmarshal signing response'' err))
      | (signResponse, None) \<Rightarrow> do {
          let signResponse = signResponse\<lparr>sr_ErrorCode := code_text ErrorCodeMaxDeliveryAttempts, sr_IsTimeout := True,
                sr_ErrorReason := errorMsgSigningTimeout\<rparr>;
          err \<leftarrow> io_Enqueue E SigningResultTopic (Marshal_SigningResponse signResponse) (sr_TxID signResponse);
          State_Monad.return
            (case err of
               Some e \<Rightarrow> Inl (wrapf ''failed to enqueue signing response'' e)
             | None \<Rightarrow> Inr (sr_TxID signResponse)) })"

definition Resharing_HandleTimeout :: "env \<Rightarrow> bytes \<Rightarrow> (go_error + string) io" where
  "Resharing_HandleTimeout E data =
     (case Unmarshal_ResharingResponse data of
        (_, Some err) \<Rightarrow> State_Monad.return (Inl (wrapf ''failed to unmarshal resharing response'' err))
      | (resharingResponse, None) \<Rightarrow> do {
          let resharingResponse = resharingResponse\<lparr>rr_ErrorCode := code_text ErrorCodeMaxDeliveryAttempts,
                rr_ErrorReason := errorMsgResharingTimeout\<rparr>;
          err \<leftarrow> io_Enqueue E ResharingResultTopic (Marshal_ResharingResponse resharingResponse) (rr_WalletID resharingResponse);
          State_Monad.return
            (case err of
               Some e \<Rightarrow> Inl (wrapf ''failed to enqueue resharing response'' e)
             | None \<Rightarrow> Inr (rr_WalletID resharingResponse)) })"

definition Keygen_HandleTimeout :: "env \<Rightarrow> bytes \<Rightarrow> (go_error + string) io" where
  "Keygen_HandleTimeout E data =
     (case Unmarshal_KeygenResponse data of
        (_, Some err) \<Rightarrow> State_Monad.return (Inl (wrapf ''failed to unmarshal keygen response'' err))
      | (keygenResponse, None) \<Rightarrow> do {
          let keygenResponse = keygenResponse\<lparr>kr_ErrorCode := code_text ErrorCodeMaxDeliveryAttempts,
                kr_ErrorReason := errorMsgKeygenTimeout\<rparr>;
          err \<leftarrow> io_Enqueue E KeygenResultTopic (Marshal_KeygenResponse keygenResponse) (kr_WalletID keygenResponse);
          State_Monad.return
            (case err of
               Some e \<Rightarrow> Inl (wrapf ''failed to enqueue keygen response'' e)
             | None \<Rightarrow> Inr (kr_WalletID keygenResponse)) })"

record timeOutConsumer =
  tc_subscription :: "string option"
  tc_handlers :: "(string \<times> (env \<Rightarrow> bytes \<Rightarrow> (go_error + string) io)) list"

definition NewTimeOutConsumer :: timeOutConsumer where
  "NewTimeOutConsumer = \<lparr>tc_subscription = None,
     tc_handlers = [(SigningBrokerStream, Signing_HandleTimeout), (ResharingBrokerStream, Resharing_HandleTimeout),
                    (KeygenBrokerStream, Keygen_HandleTimeout)]\<rparr>"

definition maxDeliveriesExceededSubject :: string where
  "maxDeliveriesExceededSubject = ''$JS.EVENT.ADVISORY.CONSUMER.MAX_DELIVERIES.>''"

definition timeout_Run :: "env \<Rightarrow> timeOutConsumer \<Rightarrow> timeOutConsumer io" where
  "timeout_Run E tc = do {
     err \<leftarrow> io_Subscribe E maxDeliveriesExceededSubject;
     State_Monad.return (case err of Some _ \<Rightarrow> tc | None \<Rightarrow> tc\<lparr>tc_subscription := Some maxDeliveriesExceededSubject\<rparr>) }"

record advisory =
  ad_Stream :: string
  ad_StreamSeq :: nat

definition advisory_fields :: "(string \<times> advisory decoder) list" where
  "advisory_fields = [(''stream'', fld_str ad_Stream_update), (''stream_seq'', fld_uint64 ad_StreamSeq_update)]"

definition Unmarshal_advisory :: "bytes \<Rightarrow> advisory \<times> go_error option" where
  "Unmarshal_advisory data = json_Unmarshal (decode_struct advisory_fields) data \<lparr>ad_Stream = [], ad_StreamSeq = 0\<rparr>"

definition handleDeadlineExceeded :: "env \<Rightarrow> timeOutConsumer \<Rightarrow> nats_Msg \<Rightarrow> unit io" where
  "handleDeadlineExceeded E tc msg =
     (case Unmarshal_advisory (nm_Data msg) of
        (_, Some err) \<Rightarrow> State_Monad.return ()
      | (advisory, None) \<Rightarrow>
          (case map_of (tc_handlers tc) (ad_Stream advisory) of
             None \<Rightarrow> State_Monad.return ()
           | Some HandleTimeout \<Rightarrow> do {
               failedMsg \<leftarrow> io_GetMsg E (ad_Stream advisory) (ad_StreamSeq advisory);
               (case failedMsg of
                  Inl err \<Rightarrow> State_Monad.return ()
                | Inr data \<Rightarrow> do { _ \<leftarrow> HandleTimeout E data; State_Monad.return () }) }))"

definition timeout_Close :: "env \<Rightarrow> timeOutConsumer \<Rightarrow> go_error option io" where
  "timeout_Close E tc = (case tc_subscription tc of None \<Rightarrow> State_Monad.return None | Some s \<Rightarrow> io_Unsubscribe E s)"

section \<open>Settling requests\<close>

text \<open>
  What the polling relies on: the clock does not go back, a poll that times out has lasted the polling interval, and
  a poll without an error has a message (\<^verbatim>\<open>NextMsg\<close> of nats.go).
\<close>

definition nats_polls :: "env \<Rightarrow> bool" where
  "nats_polls E \<longleftrightarrow>
     (\<forall>tr x. en_TimeNow E tr \<le> en_TimeNow E (tr @ x))
     \<and> (\<forall>tr inbox. en_NextMsg E tr inbox \<noteq> Inr None)
     \<and> (\<forall>tr inbox. en_NextMsg E (tr @ [TimeNow]) inbox = Inl (Sentinel ErrTimeout) \<longrightarrow>
          en_TimeNow E tr + pollingInterval \<le> en_TimeNow E (tr @ [TimeNow, NextMsg inbox]))"

definition settles :: "call \<Rightarrow> bool" where
  "settles c \<longleftrightarrow> c = MsgAck \<or> c = MsgNak \<or> c = MsgTerm"

text \<open>A reply arrived among the calls \<open>new\<close> that follow the history \<open>tr\<close>.\<close>

definition replied :: "env \<Rightarrow> call list \<Rightarrow> call list \<Rightarrow> bool" where
  "replied E tr new \<longleftrightarrow>
     (\<exists>pre post inbox m. new = pre @ NextMsg inbox # post \<and> en_NextMsg E (tr @ pre) inbox = Inr (Some m))"

lemma replied_append:
  assumes "replied E (tr @ a) new"
  shows "replied E tr (a @ new @ b)"
proof -
  obtain pre post inbox m where "new = pre @ NextMsg inbox # post" "en_NextMsg E ((tr @ a) @ pre) inbox = Inr (Some m)"
    using assms unfolding replied_def by blast
  then have "a @ new @ b = (a @ pre) @ NextMsg inbox # (post @ b)" "en_NextMsg E (tr @ (a @ pre)) inbox = Inr (Some m)"
    by simp_all
  then show ?thesis unfolding replied_def by blast
qed

text \<open>
  The outcome of handling a request: it is settled once; if it is acknowledged, then because a result was
  enqueued or a reply arrived; and it was forwarded at most once, unchanged.
\<close>

definition settled :: "env \<Rightarrow> string \<Rightarrow> bytes \<Rightarrow> call list \<Rightarrow> call list \<Rightarrow> bool" where
  "settled E event data tr new \<longleftrightarrow>
     length (filter settles new) = 1
     \<and> (MsgAck \<in> set new \<longrightarrow> (\<exists>t b k. Enqueue t b k \<in> set new) \<or> replied E tr new)
     \<and> length (filter (\<lambda>c. case c of PublishReply _ _ _ _ \<Rightarrow> True | _ \<Rightarrow> False) new) \<le> 1
     \<and> (\<forall>t i b h. PublishReply t i b h \<in> set new \<longrightarrow> t = event \<and> b = data)"

definition polled :: "env \<Rightarrow> call list \<Rightarrow> call list \<Rightarrow> bool" where
  "polled E tr new \<longleftrightarrow>
     list_all (\<lambda>c. case c of TimeNow \<Rightarrow> True | NextMsg _ \<Rightarrow> True | MsgAck \<Rightarrow> True | MsgNak \<Rightarrow> True | _ \<Rightarrow> False) new
     \<and> length (filter settles new) = 1
     \<and> (MsgAck \<in> set new \<longrightarrow> replied E tr new)"

lemma settles_simps [simp]:
  "settles MsgAck" "settles MsgNak" "\<not> settles TimeNow" "\<not> settles (NextMsg i)" "\<not> settles NewInbox" "\<not> settles NewUUID"
  "\<not> settles (Subscribe t)" "\<not> settles (Unsubscribe t)" "\<not> settles (PublishReply t i b h)" "\<not> settles (Enqueue t b k)"
  by (simp_all add: settles_def)

lemma polled_poll:
  assumes "polled E (tr @ [TimeNow, NextMsg i]) new"
  shows "polled E tr (TimeNow # NextMsg i # new)"
  using assms replied_append [of E tr "[TimeNow, NextMsg i]" new "[]"] by (auto simp: polled_def)

lemma polled_reply: "en_NextMsg E (tr @ [TimeNow]) i = Inr (Some m) \<Longrightarrow> polled E tr [TimeNow, NextMsg i, MsgAck]"
proof -
  assume "en_NextMsg E (tr @ [TimeNow]) i = Inr (Some m)"
  then have "replied E tr ([TimeNow] @ NextMsg i # [MsgAck])" unfolding replied_def by blast
  then show ?thesis by (simp add: polled_def)
qed

text \<open>One turn per polling interval until the deadline, and one more, is enough fuel.\<close>

lemma poll_reply_run:
  assumes "nats_polls E" and "deadline - en_TimeNow E tr \<le> int n * pollingInterval"
  shows "\<exists>new. run_state (poll_reply (Suc n) E deadline inbox) tr = (Some (), tr @ new) \<and> polled E tr new"
  using assms(2)
proof (induction n arbitrary: tr)
  case 0
  then show ?case by (auto simp: io_defs polled_def)
next
  case (Suc n)
  show ?case
  proof (cases "deadline \<le> en_TimeNow E tr")
    case True
    then show ?thesis by (simp add: io_defs polled_def)
  next
    case before: False
    show ?thesis
    proof (cases "en_NextMsg E (tr @ [TimeNow]) inbox")
      case (Inl err)
      show ?thesis
      proof (cases "err = Sentinel ErrTimeout")
        case True
        let ?t = "tr @ [TimeNow, NextMsg inbox]"
        have "en_TimeNow E tr + pollingInterval \<le> en_TimeNow E ?t"
          using assms(1) Inl True by (simp add: nats_polls_def)
        with Suc.prems have "deadline - en_TimeNow E ?t \<le> int n * pollingInterval" by (simp add: algebra_simps)
        from Suc.IH [OF this] obtain new
          where "run_state (poll_reply (Suc n) E deadline inbox) ?t = (Some (), ?t @ new)" "polled E ?t new" by blast
        with before Inl True polled_poll show ?thesis
          by (intro exI [of _ "TimeNow # NextMsg inbox # new"]) (simp add: io_defs)
      qed (use before Inl in \<open>auto simp: io_defs polled_def\<close>)
    next
      case (Inr r)
      then have "r \<noteq> None" using assms(1) by (metis nats_polls_def)
      then obtain m where "r = Some m" by blast
      with Inr before polled_reply [of E tr inbox m] show ?thesis by (simp add: io_defs)
    qed
  qed
qed

lemma polled_settled:
  assumes "polled E (tr @ [NewInbox, Subscribe i, NewUUID, PublishReply event i data h, TimeNow]) new"
  shows "settled E event data tr ([NewInbox, Subscribe i, NewUUID, PublishReply event i data h, TimeNow] @ new @ [Unsubscribe i])"
proof -
  let ?a = "[NewInbox, Subscribe i, NewUUID, PublishReply event i data h, TimeNow]"
  have no: "PublishReply t j b g \<notin> set new" for t j b g
    using assms by (auto simp: polled_def list_all_iff)
  then have f: "filter (\<lambda>c. case c of PublishReply _ _ _ _ \<Rightarrow> True | _ \<Rightarrow> False) new = []"
    by (auto simp: filter_empty_conv split: call.splits)
  have "replied E tr (?a @ new @ [Unsubscribe i])" if "MsgAck \<in> set new"
    using assms that by (intro replied_append) (simp add: polled_def)
  moreover have "length (filter settles new) = 1" using assms by (simp only: polled_def)
  ultimately show ?thesis using no f by (auto simp: settled_def)
qed

lemma forward_request_settled:
  assumes "nats_polls E" and "timeout \<le> int n * pollingInterval"
  shows "\<exists>new. run_state (forward_request (Suc n) E event timeout msg) tr = (Some (), tr @ new)
     \<and> settled E event (nm_Data msg) tr new"
proof (cases "en_Subscribe E (tr @ [NewInbox]) (en_NewInbox E tr)")
  case (Some e)
  then show ?thesis by (simp add: forward_request_def io_defs settled_def)
next
  case sub: None
  let ?i = "en_NewInbox E tr"
  let ?h = "[(''SessionID'', en_NewUUID E (tr @ [NewInbox, Subscribe ?i]))]"
  let ?t = "tr @ [NewInbox, Subscribe ?i, NewUUID, PublishReply event ?i (nm_Data msg) ?h]"
  show ?thesis
  proof (cases "en_PublishReply E (tr @ [NewInbox, Subscribe ?i, NewUUID]) event ?i (nm_Data msg) ?h")
    case (Some e)
    with sub show ?thesis by (simp add: forward_request_def io_defs settled_def)
  next
    case None
    have "en_TimeNow E ?t \<le> en_TimeNow E (?t @ [TimeNow])" using assms(1) by (simp only: nats_polls_def)
    with assms(2) have "en_TimeNow E ?t + timeout - en_TimeNow E (?t @ [TimeNow]) \<le> int n * pollingInterval" by simp
    from poll_reply_run [OF assms(1) this, of ?i] obtain new
      where "run_state (poll_reply (Suc n) E (en_TimeNow E ?t + timeout) ?i) (?t @ [TimeNow]) = (Some (), (?t @ [TimeNow]) @ new)"
        "polled E (?t @ [TimeNow]) new" by blast
    with sub None polled_settled [of E tr ?i event "nm_Data msg" ?h new] show ?thesis
      by (auto simp: forward_request_def io_defs simp del: poll_reply.simps)
  qed
qed

lemma settled_report: "settled E event data tr [Enqueue t b k, MsgAck]"
  by (auto simp: settled_def)


text \<open>An environment in which no reply ever comes: every poll lasts its interval.\<close>

definition env_slow :: env where
  "env_slow = env_ref\<lparr>
     en_TimeNow := \<lambda>tr. pollingInterval * int (length (filter (\<lambda>c. case c of NextMsg _ \<Rightarrow> True | _ \<Rightarrow> False) tr)),
     en_NextMsg := \<lambda>_ _. Inl (Sentinel ErrTimeout)\<rparr>"

lemma env_slow_polls: "nats_polls env_slow"
  by (simp add: nats_polls_def env_slow_def pollingInterval_def second_def millisecond_def)


section \<open>Reports of requests delivered too often\<close>

text \<open>A request of the initiator decoded as the response of its kind: the fields with a common name are taken over.\<close>

lemma find_field_absent: "strings_ToLower k \<notin> set (map strings_ToLower (map fst fs)) \<Longrightarrow> find_field fs k = None"
proof -
  assume a: "strings_ToLower k \<notin> set (map strings_ToLower (map fst fs))"
  then have "map_of fs k = None" by (auto simp: map_of_eq_None_iff)
  moreover have "filter (\<lambda>(n, _). strings_ToLower n = strings_ToLower k) fs = []"
    using a by (force simp: filter_empty_conv)
  ultimately show ?thesis unfolding find_field_def by (simp only: option.case list.case)
qed

lemma response_fields_absent:
  "find_field SigningResponse_fields ''key_type'' = None" "find_field SigningResponse_fields ''tx'' = None"
  "find_field KeygenResponse_fields ''signature'' = None"
  "find_field ResharingResponse_fields ''session_id'' = None" "find_field ResharingResponse_fields ''node_ids'' = None"
  "find_field ResharingResponse_fields ''signature'' = None"
  by (rule find_field_absent, simp only: SigningResponse_fields_def KeygenResponse_fields_def ResharingResponse_fields_def list.map fst_conv, code_simp)+

lemmas response_fields_unfold = SigningResponse_fields_def KeygenResponse_fields_def ResharingResponse_fields_def

lemmas request_as_response_simps = struct_codec_simps response_fields_absent [unfolded response_fields_unfold] response_fields_unfold

lemma signing_request_as_response:
  "Unmarshal_SigningResponse (Marshal_SigningMessage m) =
     (SigningResponse_zero\<lparr>sr_WalletID := sm_WalletID m, sr_TxID := sm_TxID m, sr_Signature := sm_Signature m\<rparr>, None)"
  by (simp add: Unmarshal_SigningResponse_def SigningResponse_zero_def
      Marshal_SigningMessage_def SigningMessage_json_def request_as_response_simps)

lemma keygen_request_as_response:
  "Unmarshal_KeygenResponse (Marshal_KeygenMessage m) = (KeygenResponse_zero\<lparr>kr_WalletID := km_WalletID m\<rparr>, None)"
  by (simp add: Unmarshal_KeygenResponse_def KeygenResponse_zero_def
      Marshal_KeygenMessage_def KeygenMessage_json_def request_as_response_simps)

lemma resharing_request_as_response:
  "in_int64 (rm_NewThreshold m) \<Longrightarrow> Unmarshal_ResharingResponse (Marshal_ResharingMessage m) =
     (ResharingResponse_zero\<lparr>rr_WalletID := rm_WalletID m, rr_NewThreshold := rm_NewThreshold m, rr_KeyType := rm_KeyType m\<rparr>, None)"
  by (simp add: Unmarshal_ResharingResponse_def ResharingResponse_zero_def
      Marshal_ResharingMessage_def ResharingMessage_json_def request_as_response_simps)

text \<open>The response that reports a request of the initiator.\<close>

definition signing_timeout_report :: "SigningMessage \<Rightarrow> SigningResponse" where
  "signing_timeout_report m = SigningResponse_zero\<lparr>
     sr_ErrorCode := code_text ErrorCodeMaxDeliveryAttempts, sr_ErrorReason := errorMsgSigningTimeout,
     sr_IsTimeout := True, sr_WalletID := sm_WalletID m, sr_TxID := sm_TxID m, sr_Signature := sm_Signature m\<rparr>"

definition keygen_timeout_report :: "KeygenMessage \<Rightarrow> KeygenResponse" where
  "keygen_timeout_report m = KeygenResponse_zero\<lparr>
     kr_ErrorCode := code_text ErrorCodeMaxDeliveryAttempts, kr_ErrorReason := errorMsgKeygenTimeout,
     kr_WalletID := km_WalletID m\<rparr>"

definition resharing_timeout_report :: "ResharingMessage \<Rightarrow> ResharingResponse" where
  "resharing_timeout_report m = ResharingResponse_zero\<lparr>
     rr_ErrorCode := code_text ErrorCodeMaxDeliveryAttempts, rr_ErrorReason := errorMsgResharingTimeout,
     rr_WalletID := rm_WalletID m, rr_NewThreshold := rm_NewThreshold m, rr_KeyType := rm_KeyType m\<rparr>"

lemma Signing_HandleTimeout_request:
  "snd (run_state (Signing_HandleTimeout E (Marshal_SigningMessage m)) tr) =
     tr @ [Enqueue SigningResultTopic (Marshal_SigningResponse (signing_timeout_report m)) (sm_TxID m)]"
  by (simp add: Signing_HandleTimeout_def signing_request_as_response signing_timeout_report_def io_defs Let_def
      SigningResponse_zero_def)

lemma Keygen_HandleTimeout_request:
  "snd (run_state (Keygen_HandleTimeout E (Marshal_KeygenMessage m)) tr) =
     tr @ [Enqueue KeygenResultTopic (Marshal_KeygenResponse (keygen_timeout_report m)) (km_WalletID m)]"
  by (simp add: Keygen_HandleTimeout_def keygen_request_as_response keygen_timeout_report_def io_defs Let_def
      KeygenResponse_zero_def)

lemma Resharing_HandleTimeout_request:
  "in_int64 (rm_NewThreshold m) \<Longrightarrow> snd (run_state (Resharing_HandleTimeout E (Marshal_ResharingMessage m)) tr) =
     tr @ [Enqueue ResharingResultTopic (Marshal_ResharingResponse (resharing_timeout_report m)) (rm_WalletID m)]"
  by (simp add: Resharing_HandleTimeout_def resharing_request_as_response resharing_timeout_report_def io_defs Let_def
      ResharingResponse_zero_def)

lemma handleDeadlineExceeded_dispatch:
  assumes "Unmarshal_advisory (nm_Data msg) = (a, None)"
    and "map_of (tc_handlers tc) (ad_Stream a) = Some h"
    and "en_GetMsg E tr (ad_Stream a) (ad_StreamSeq a) = Inr data"
  shows "run_state (handleDeadlineExceeded E tc msg) tr =
     ((), snd (run_state (h E data) (tr @ [GetMsg (ad_Stream a) (ad_StreamSeq a)])))"
  using assms by (simp add: handleDeadlineExceeded_def io_defs split_beta)

lemma timeout_handlers:
  "map_of (tc_handlers NewTimeOutConsumer) SigningBrokerStream = Some Signing_HandleTimeout"
  "map_of (tc_handlers NewTimeOutConsumer) KeygenBrokerStream = Some Keygen_HandleTimeout"
  "map_of (tc_handlers NewTimeOutConsumer) ResharingBrokerStream = Some Resharing_HandleTimeout"
  by (simp_all add: NewTimeOutConsumer_def KeygenBrokerStream_def SigningBrokerStream_def ResharingBrokerStream_def)

text \<open>
  C30: a request that JetStream delivered too often is reported to the initiator. The handler of the stream's
  advisory reads the stored request and enqueues one response: it names the wallet (and the transaction, or the new
  threshold and key type) of the request and carries the code for too many deliveries. The idempotency key is the bare
  transaction or wallet ID. A signing report carries the initiator's own signature of the request in the field of the
  transaction's signature.
\<close>

theorem timed_out_requests_reported:
  assumes adv: "Unmarshal_advisory (nm_Data msg) = (a, None)"
    and req: "en_GetMsg E tr (ad_Stream a) (ad_StreamSeq a) = Inr data"
  shows "(ad_Stream a = SigningBrokerStream \<and> data = Marshal_SigningMessage sm \<longrightarrow>
      run_state (handleDeadlineExceeded E NewTimeOutConsumer msg) tr =
        ((), tr @ [GetMsg SigningBrokerStream (ad_StreamSeq a),
                   Enqueue SigningResultTopic (Marshal_SigningResponse (signing_timeout_report sm)) (sm_TxID sm)]))
    \<and> (ad_Stream a = KeygenBrokerStream \<and> data = Marshal_KeygenMessage km \<longrightarrow>
      run_state (handleDeadlineExceeded E NewTimeOutConsumer msg) tr =
        ((), tr @ [GetMsg KeygenBrokerStream (ad_StreamSeq a),
                   Enqueue KeygenResultTopic (Marshal_KeygenResponse (keygen_timeout_report km)) (km_WalletID km)]))
    \<and> (ad_Stream a = ResharingBrokerStream \<and> in_int64 (rm_NewThreshold rm) \<and> data = Marshal_ResharingMessage rm \<longrightarrow>
      run_state (handleDeadlineExceeded E NewTimeOutConsumer msg) tr =
        ((), tr @ [GetMsg ResharingBrokerStream (ad_StreamSeq a),
                   Enqueue ResharingResultTopic (Marshal_ResharingResponse (resharing_timeout_report rm)) (rm_WalletID rm)]))"
  using handleDeadlineExceeded_dispatch [OF adv _ req, of NewTimeOutConsumer]
  by (auto simp: timeout_handlers Signing_HandleTimeout_request Keygen_HandleTimeout_request Resharing_HandleTimeout_request)

definition advisory_ref :: nats_Msg where
  "advisory_ref = \<lparr>nm_Data = json_print (JObj [(''stream'', JStr SigningBrokerStream), (''stream_seq'', JNum ''7'')]),
     nm_Reply = '''', nm_Header = []\<rparr>"

definition timed_out_ref :: SigningMessage where
  "timed_out_ref = \<lparr>sm_KeyType = KeyTypeEd25519, sm_WalletID = ''w'', sm_TxID = ''t'', sm_Tx = Some ''tx'', sm_Signature = Some ''sig''\<rparr>"

lemma advisory_ref_decodes:
  "Unmarshal_advisory (nm_Data advisory_ref) = (\<lparr>ad_Stream = SigningBrokerStream, ad_StreamSeq = 7\<rparr>, None)"
proof -
  have "json_wf (JNum ''7'')" "atou ''7'' = Some 7" by code_simp+
  then show ?thesis
    by (simp add: Unmarshal_advisory_def advisory_ref_def advisory_fields_def struct_codec_simps fld_uint64_def)
qed

theorem timed_out_requests_reported_witness:
  "run_state (handleDeadlineExceeded (env_ref\<lparr>en_GetMsg := \<lambda>_ _ _. Inr (Marshal_SigningMessage timed_out_ref)\<rparr>)
       NewTimeOutConsumer advisory_ref) [] =
     ((), [GetMsg SigningBrokerStream 7,
           Enqueue SigningResultTopic (Marshal_SigningResponse (signing_timeout_report timed_out_ref)) ''t''])"
  using timed_out_requests_reported [OF advisory_ref_decodes,
      of "env_ref\<lparr>en_GetMsg := \<lambda>_ _ _. Inr (Marshal_SigningMessage timed_out_ref)\<rparr>" "[]" "Marshal_SigningMessage timed_out_ref"]
  by (simp add: timed_out_ref_def)

section \<open>Waiting for peers\<close>

text \<open>
  The signing consumer is made without a threshold, so it waits for one ready peer; the registry always counts the
  node itself, so the first tick ends the wait, while the key generation consumer waits for all peers.
\<close>

lemma signing_wait_is_first_tick:
  assumes "GetReadyPeersCount r \<ge> 1"
  shows "signing_waitForSufficientPeers NewSigningConsumer (Tick r ids # evs) = Some None"
proof -
  have "inc64 0 = 1" by code_simp
  then show ?thesis using assms by (simp add: NewSigningConsumer_def)
qed

lemma keygen_wait_all_peers:
  "keygen_waitForSufficientPeers (map (\<lambda>(r, ids). Tick r ids) ts) =
     (if list_ex (\<lambda>(r, ids). ArePeersReady r ids) ts then Some None else None)"
  by (induction ts) auto

end
