(* ===== verification/File_Path.thy ===== *)
theory File_Path
  imports Go_Lib
begin

text \<open>
  \<^verbatim>\<open>pkg/filesystem/path.go\<close> and what it uses of \<^verbatim>\<open>path/filepath\<close> on Unix: \<^verbatim>\<open>Clean\<close>, \<^verbatim>\<open>Join\<close> and \<^verbatim>\<open>Abs\<close>. A cleaned path is a
  list of elements without \<^verbatim>\<open>.\<close>, and with \<^verbatim>\<open>..\<close> only at the front of a path that is not rooted. The theorem shows that
  \<^verbatim>\<open>SafePath\<close> never leaves its base directory and refuses exactly the names whose cleaned form contains two dots.

  The files a component reads and the age library are records of functions, parameters of the readers in the theories
  \<open>Identity_Files\<close> and \<open>Signers\<close>.
\<close>

section \<open>Package filepath\<close>

text \<open>
  \<^verbatim>\<open>filepath.Clean\<close> walks over the elements between the separators: empty elements and \<^verbatim>\<open>.\<close> are dropped, \<^verbatim>\<open>..\<close> removes
  the element before it, stays where there is none to remove, and is dropped at the root.
\<close>

definition clean_step :: "bool \<Rightarrow> string list \<Rightarrow> string \<Rightarrow> string list" where
  "clean_step rooted acc e =
     (if e = [] \<or> e = ''.'' then acc
      else if e = ''..'' then
        (case acc of
           [] \<Rightarrow> if rooted then [] else [e]
         | a # acc' \<Rightarrow> if a = ''..'' then e # acc else acc')
      else e # acc)"

definition clean_elems :: "bool \<Rightarrow> string list \<Rightarrow> string list" where
  "clean_elems rooted es = rev (foldl (clean_step rooted) [] es)"

fun strings_Join :: "string list \<Rightarrow> string" where
  "strings_Join [] = []"
| "strings_Join [e] = e"
| "strings_Join (e # es) = e @ ''/'' @ strings_Join es"

definition is_rooted :: "string \<Rightarrow> bool" where
  "is_rooted path \<longleftrightarrow> strings_HasPrefix path ''/''"

definition path_elems :: "string \<Rightarrow> string list" where
  "path_elems path = clean_elems (is_rooted path) (strings_Split CHR ''/'' path)"

definition filepath_Clean :: "string \<Rightarrow> string" where
  "filepath_Clean path =
     (if is_rooted path then ''/'' @ strings_Join (path_elems path)
      else if path_elems path = [] then ''.'' else strings_Join (path_elems path))"

definition filepath_Join :: "string \<Rightarrow> string \<Rightarrow> string" where
  "filepath_Join dir name =
     (if dir \<noteq> [] then filepath_Clean (dir @ ''/'' @ name)
      else if name \<noteq> [] then filepath_Clean name else [])"

text \<open>\<^verbatim>\<open>filepath.Dir\<close>: what is before the last separator, cleaned.\<close>

definition filepath_Dir :: "string \<Rightarrow> string" where
  "filepath_Dir path = filepath_Clean (rev (dropWhile (\<lambda>c. c \<noteq> CHR ''/'') (rev path)))"

text \<open>The working directory is what \<^verbatim>\<open>os.Getwd\<close> returns.\<close>

definition filepath_Abs :: "go_error + string \<Rightarrow> string \<Rightarrow> go_error + string" where
  "filepath_Abs wd path =
     (if is_rooted path then Inr (filepath_Clean path)
      else (case wd of Inl err \<Rightarrow> Inl err | Inr d \<Rightarrow> Inr (filepath_Join d path)))"

section \<open>The checks of the program\<close>

definition SafePath :: "go_error + string \<Rightarrow> string \<Rightarrow> string \<Rightarrow> go_error + string" where
  "SafePath wd baseDir filename =
     (let cleanFilename = filepath_Clean filename in
      if strings_Contains cleanFilename ''..'' then Inl (errorf ''invalid filename: path traversal not allowed'')
      else
        (let fullPath = filepath_Join baseDir cleanFilename in
         case filepath_Abs wd baseDir of
           Inl err \<Rightarrow> Inl (wrapf ''failed to get absolute path for base directory'' err)
         | Inr absBase \<Rightarrow>
             (case filepath_Abs wd fullPath of
                Inl err \<Rightarrow> Inl (wrapf ''failed to get absolute path'' err)
              | Inr absPath \<Rightarrow>
                  if \<not> strings_HasPrefix absPath absBase then Inl (errorf ''path outside base directory not allowed'')
                  else Inr fullPath)))"

definition ValidateFilePath :: "string \<Rightarrow> go_error option" where
  "ValidateFilePath filePath =
     (let cleanPath = filepath_Clean filePath in
      if strings_Contains cleanPath ''..'' then Some (errorf ''invalid file path: path traversal not allowed'')
      else None)"

section \<open>Files and age\<close>

text \<open>\<^verbatim>\<open>os.Stat\<close> and \<^verbatim>\<open>os.ReadFile\<close> on the files as they are when a component reads them.\<close>

record files =
  fl_Stat :: "string \<Rightarrow> go_error option"
  fl_ReadFile :: "string \<Rightarrow> go_error + bytes"

text \<open>
  age: making an identity from a password can fail, so can opening the encrypted file with it, and so can reading the
  decrypted text to its end.
\<close>

record age_lib =
  ag_NewScryptIdentity :: "string \<Rightarrow> go_error option"
  ag_Decrypt :: "string \<Rightarrow> bytes \<Rightarrow> go_error option"
  ag_ReadAll :: "string \<Rightarrow> bytes \<Rightarrow> go_error + bytes"

section \<open>Laws of cleaning\<close>

text \<open>An element that cleaning keeps where it stands.\<close>

definition plain_elem :: "string \<Rightarrow> bool" where
  "plain_elem e \<longleftrightarrow> e \<noteq> [] \<and> e \<noteq> ''.'' \<and> e \<noteq> ''..''"

lemma clean_steps_plain: "list_all plain_elem es \<Longrightarrow> foldl (clean_step r) acc es = rev es @ acc"
  by (induction es arbitrary: acc) (auto simp: plain_elem_def clean_step_def)

lemma clean_elems_append_plain: "list_all plain_elem ys \<Longrightarrow> clean_elems r (xs @ ys) = clean_elems r xs @ ys"
  by (simp add: clean_elems_def clean_steps_plain)

lemma clean_step_kept:
  "list_all P acc \<Longrightarrow> (e \<noteq> [] \<and> e \<noteq> ''.'' \<Longrightarrow> P e) \<Longrightarrow> list_all P (clean_step r acc e)"
  by (auto simp: clean_step_def split: list.splits)

lemma clean_elems_kept:
  assumes "\<And>e. e \<in> set es \<Longrightarrow> e \<noteq> [] \<Longrightarrow> e \<noteq> ''.'' \<Longrightarrow> P e"
  shows "list_all P (clean_elems r es)"
proof -
  have "list_all P acc \<Longrightarrow> list_all P (foldl (clean_step r) acc es)" for acc
    using assms by (induction es arbitrary: acc) (auto intro: clean_step_kept)
  from this [of "[]"] show ?thesis by (simp add: clean_elems_def list_all_iff)
qed

lemma strings_Split_no_sep: "\<forall>e \<in> set (strings_Split c s). c \<notin> set e"
  by (induction s) (auto split: list.splits)

lemma strings_Split_append: "strings_Split c (xs @ c # ys) = strings_Split c xs @ strings_Split c ys"
  by (induction xs) (auto split: list.splits)

lemma strings_Split_single: "c \<notin> set e \<Longrightarrow> strings_Split c e = [e]"
  by (induction e) auto

lemma strings_Split_Join:
  "es \<noteq> [] \<Longrightarrow> \<forall>e \<in> set es. CHR ''/'' \<notin> set e \<Longrightarrow> strings_Split CHR ''/'' (strings_Join es) = es"
proof (induction es rule: strings_Join.induct)
  case (3 e e' es)
  have "strings_Join (e # e' # es) = e @ CHR ''/'' # strings_Join (e' # es)" by simp
  with 3 show ?case by (simp only: strings_Split_append) (simp add: strings_Split_single)
qed (auto simp: strings_Split_single)

text \<open>An element of a cleaned path.\<close>

definition elem_ok :: "string \<Rightarrow> bool" where
  "elem_ok e \<longleftrightarrow> e \<noteq> [] \<and> e \<noteq> ''.'' \<and> CHR ''/'' \<notin> set e"

lemma path_elems_ok: "list_all elem_ok (path_elems path)"
  unfolding path_elems_def by (rule clean_elems_kept) (use strings_Split_no_sep in \<open>auto simp: elem_ok_def\<close>)

lemma is_rooted_simps [simp]: "is_rooted (CHR ''/'' # s)" "\<not> is_rooted []" "is_rooted (c # s) = (c = CHR ''/'')"
  by (auto simp: is_rooted_def strings_HasPrefix_def)

lemma is_rooted_append [simp]: "s \<noteq> [] \<Longrightarrow> is_rooted (s @ t) = is_rooted s"
  by (cases s) simp_all

lemma strings_Join_first: "es \<noteq> [] \<Longrightarrow> \<forall>e \<in> set es. e \<noteq> [] \<Longrightarrow> hd (strings_Join es) = hd (hd es) \<and> strings_Join es \<noteq> []"
  by (induction es rule: strings_Join.induct) auto

lemma strings_Join_append: "xs \<noteq> [] \<Longrightarrow> ys \<noteq> [] \<Longrightarrow> strings_Join (xs @ ys) = strings_Join xs @ ''/'' @ strings_Join ys"
  by (induction xs rule: strings_Join.induct) (auto simp: neq_Nil_conv)

lemma strings_Join_prefix: "\<exists>t. strings_Join (xs @ ys) = strings_Join xs @ t"
  by (cases "xs = []"; cases "ys = []") (auto simp: strings_Join_append)

lemma strings_Contains_mid: "strings_Contains (a @ p @ b) p"
proof (induction a)
  case Nil
  show ?case by (cases "p @ b") (use strings_HasPrefix_append [of p b] in auto)
qed simp

lemma strings_Join_elem: "e \<in> set es \<Longrightarrow> \<exists>a b. strings_Join es = a @ e @ b"
proof (induction es rule: strings_Join.induct)
  case (3 x y es)
  show ?case
  proof (cases "e = x")
    case True
    then have "strings_Join (x # y # es) = [] @ e @ (''/'' @ strings_Join (y # es))" by simp
    then show ?thesis by blast
  next
    case False
    with 3 obtain a b where "strings_Join (y # es) = a @ e @ b" by auto
    then have "strings_Join (x # y # es) = (x @ ''/'' @ a) @ e @ b" by simp
    then show ?thesis by blast
  qed
next
  case (2 x)
  then have "strings_Join [x] = [] @ e @ []" by simp
  then show ?case by blast
qed simp

text \<open>The elements of a cleaned path, read again, are pushed one after the other.\<close>

lemma foldl_split_Join:
  assumes "list_all elem_ok es"
  shows "foldl (clean_step r) acc (strings_Split CHR ''/'' (strings_Join es)) = foldl (clean_step r) acc es"
proof (cases "es = []")
  case False
  then show ?thesis using assms strings_Split_Join [of es] by (simp add: list_all_iff elem_ok_def)
qed (simp add: clean_step_def)

lemma foldl_split_Clean:
  "foldl (clean_step r) acc (strings_Split CHR ''/'' (filepath_Clean path)) = foldl (clean_step r) acc (path_elems path)"
proof -
  have "strings_Split CHR ''/'' (''/'' @ strings_Join es) = [] # strings_Split CHR ''/'' (strings_Join es)" for es by simp
  moreover have "clean_step r acc [] = acc" "foldl (clean_step r) acc (strings_Split CHR ''/'' ''.'') = acc"
    by (simp_all add: clean_step_def)
  ultimately show ?thesis
    using foldl_split_Join [OF path_elems_ok, of r acc path] by (simp add: filepath_Clean_def)
qed

lemma foldl_rooted_no_dots:
  "''..'' \<notin> set acc \<Longrightarrow> ''..'' \<notin> set (foldl (clean_step True) acc es)"
proof (induction es arbitrary: acc)
  case (Cons e es)
  have "''..'' \<notin> set (clean_step True acc e)" using Cons.prems by (auto simp: clean_step_def split: list.splits)
  then show ?case using Cons.IH by simp
qed simp

lemma path_elems_rooted_plain: "is_rooted path \<Longrightarrow> list_all plain_elem (path_elems path)"
  using path_elems_ok [of path] foldl_rooted_no_dots [of "[]"]
  by (auto simp: path_elems_def clean_elems_def list_all_iff elem_ok_def plain_elem_def)

text \<open>Cleaning a relative path first does not change what it means below a rooted one.\<close>

lemma foldl_clean_rel:
  assumes "list_all (\<lambda>e. e \<noteq> [] \<and> e \<noteq> ''.'') acc0"
  shows "foldl (clean_step True) acc (rev (foldl (clean_step False) acc0 xs)) = foldl (clean_step True) acc (rev acc0 @ xs)"
  using assms
proof (induction xs arbitrary: acc0)
  case (Cons x xs)
  have "foldl (clean_step True) acc (rev (clean_step False acc0 x)) = foldl (clean_step True) acc (rev acc0 @ [x])"
  proof (cases "x = ''..''")
    case True
    with Cons.prems show ?thesis by (cases acc0) (auto simp: clean_step_def split: list.splits)
  qed (simp add: clean_step_def)
  moreover have "list_all (\<lambda>e. e \<noteq> [] \<and> e \<noteq> ''.'') (clean_step False acc0 x)"
    by (rule clean_step_kept [OF Cons.prems])
  ultimately show ?case using Cons.IH [of "clean_step False acc0 x"] by simp
qed simp

lemma foldl_path_elems:
  "\<not> is_rooted path \<Longrightarrow> foldl (clean_step True) acc (path_elems path) = foldl (clean_step True) acc (strings_Split CHR ''/'' path)"
  using foldl_clean_rel [of "[]" acc] by (simp add: path_elems_def clean_elems_def)

section \<open>Joined paths\<close>

lemma Join_eq: "dir \<noteq> [] \<Longrightarrow> filepath_Join dir name = filepath_Clean (dir @ ''/'' @ name)"
  by (simp add: filepath_Join_def)

lemma path_elems_below:
  assumes "dir \<noteq> []"
  shows "path_elems (dir @ ''/'' @ filepath_Clean name) =
     rev (foldl (clean_step (is_rooted dir)) (rev (path_elems dir)) (path_elems name))"
  using assms foldl_split_Clean
  by (simp add: path_elems_def clean_elems_def strings_Split_append [of "CHR ''/''" dir "filepath_Clean name", simplified])

text \<open>A name that passes the check has only plain elements.\<close>

lemma no_dots_plain:
  assumes "\<not> strings_Contains (filepath_Clean name) ''..''"
  shows "list_all plain_elem (path_elems name)"
proof -
  have "''..'' \<notin> set (path_elems name)"
  proof
    assume "''..'' \<in> set (path_elems name)"
    then obtain a b where j: "strings_Join (path_elems name) = a @ ''..'' @ b" using strings_Join_elem by blast
    have "strings_Contains ((''/'' @ a) @ ''..'' @ b) ''..''" "strings_Contains (a @ ''..'' @ b) ''..''"
      by (rule strings_Contains_mid)+
    with assms j \<open>''..'' \<in> set (path_elems name)\<close> show False
      by (auto simp: filepath_Clean_def split: if_splits)
  qed
  with path_elems_ok [of name] show ?thesis by (auto simp: list_all_iff elem_ok_def plain_elem_def)
qed

lemma path_elems_Join:
  assumes "dir \<noteq> []" and "list_all plain_elem (path_elems name)"
  shows "path_elems (dir @ ''/'' @ filepath_Clean name) = path_elems dir @ path_elems name"
  using path_elems_below [OF assms(1)] clean_steps_plain [OF assms(2)] by simp

lemma Clean_nonempty: "filepath_Clean path \<noteq> []"
  using strings_Join_first [of "path_elems path"] path_elems_ok [of path]
  by (auto simp: filepath_Clean_def list_all_iff elem_ok_def)

lemma is_rooted_Clean: "is_rooted (filepath_Clean path) = is_rooted path"
proof (cases "is_rooted path \<or> path_elems path = []")
  case False
  then have "hd (strings_Join (path_elems path)) = hd (hd (path_elems path)) \<and> strings_Join (path_elems path) \<noteq> []"
    using strings_Join_first path_elems_ok [of path] by (auto simp: list_all_iff elem_ok_def)
  moreover have "elem_ok (hd (path_elems path))" using False path_elems_ok [of path] by (cases "path_elems path") auto
  then have "hd (hd (path_elems path)) \<noteq> CHR ''/''" by (cases "hd (path_elems path)") (auto simp: elem_ok_def)
  ultimately show ?thesis using False by (cases "strings_Join (path_elems path)") (auto simp: filepath_Clean_def)
qed (auto simp: filepath_Clean_def)

lemma path_elems_Clean_rooted: "is_rooted path \<Longrightarrow> path_elems (filepath_Clean path) = path_elems path"
  using foldl_split_Clean [of True "[]" path] clean_steps_plain [OF path_elems_rooted_plain, of path True "[]"]
  by (simp add: path_elems_def [of "filepath_Clean path"] clean_elems_def is_rooted_Clean)

text \<open>The elements of the absolute path of something below a directory.\<close>

definition abs_elems :: "string \<Rightarrow> string \<Rightarrow> string list" where
  "abs_elems d path = (if is_rooted path then path_elems path else path_elems (d @ ''/'' @ path))"

lemma filepath_Abs_elems:
  assumes "is_rooted d \<and> wd = Inr d \<or> is_rooted path"
  shows "filepath_Abs wd path = Inr (''/'' @ strings_Join (abs_elems d path))"
proof (cases "is_rooted path")
  case False
  with assms have "d \<noteq> []" by (cases d) simp_all
  with False assms show ?thesis by (simp add: filepath_Abs_def abs_elems_def Join_eq filepath_Clean_def)
qed (simp add: filepath_Abs_def abs_elems_def filepath_Clean_def)

lemma abs_elems_Join:
  assumes "is_rooted d \<or> is_rooted base" and "base \<noteq> []" and "list_all plain_elem (path_elems name)"
  shows "abs_elems d (filepath_Join base (filepath_Clean name)) = abs_elems d base @ path_elems name"
proof (cases "is_rooted base")
  case True
  then show ?thesis
    using path_elems_Join [OF assms(2,3)] assms(2)
    by (simp add: abs_elems_def Join_eq is_rooted_Clean path_elems_Clean_rooted)
next
  case False
  with assms(1) have d: "is_rooted d" "d \<noteq> []" by auto
  let ?b = "base @ ''/'' @ filepath_Clean name"
  have nr: "\<not> is_rooted ?b" using False assms(2) by simp
  have base: "path_elems (d @ ''/'' @ base) = rev (foldl (clean_step True) (rev (path_elems d)) (path_elems base))"
    using d False foldl_path_elems [of base]
    by (simp add: path_elems_def [of "d @ CHR ''/'' # base"] path_elems_def [of d] clean_elems_def
        strings_Split_append [of "CHR ''/''" d base, simplified])
  have "abs_elems d (filepath_Join base (filepath_Clean name)) =
      rev (foldl (clean_step True) (rev (path_elems d)) (path_elems ?b))"
    using nr d assms(2) path_elems_below [OF d(2), of ?b] by (simp add: abs_elems_def Join_eq is_rooted_Clean)
  also have "\<dots> = rev (foldl (clean_step True) (rev (path_elems d)) (path_elems base @ path_elems name))"
    by (simp add: path_elems_Join [OF assms(2,3), simplified])
  also have "\<dots> = abs_elems d base @ path_elems name"
    using False base clean_steps_plain [OF assms(3)] by (simp add: abs_elems_def)
  finally show ?thesis .
qed

section \<open>Properties\<close>

lemma SafePath_iff:
  assumes "baseDir \<noteq> []" and "is_rooted d \<and> wd = Inr d \<or> is_rooted baseDir"
  shows "SafePath wd baseDir filename = Inr p \<longleftrightarrow>
     \<not> strings_Contains (filepath_Clean filename) ''..'' \<and> p = filepath_Join baseDir (filepath_Clean filename)"
proof (cases "strings_Contains (filepath_Clean filename) ''..''")
  case False
  note plain = no_dots_plain [OF False]
  let ?full = "filepath_Join baseDir (filepath_Clean filename)"
  have rooted: "is_rooted ?full = is_rooted baseDir" using assms(1) by (simp add: Join_eq is_rooted_Clean)
  have base: "filepath_Abs wd baseDir = Inr (''/'' @ strings_Join (abs_elems d baseDir))"
    by (rule filepath_Abs_elems [OF assms(2)])
  have full: "filepath_Abs wd ?full = Inr (''/'' @ strings_Join (abs_elems d baseDir @ path_elems filename))"
    using filepath_Abs_elems [of d wd ?full] abs_elems_Join [OF _ assms(1) plain, of d] assms(2) rooted by auto
  obtain t where "strings_Join (abs_elems d baseDir @ path_elems filename) = strings_Join (abs_elems d baseDir) @ t"
    using strings_Join_prefix by blast
  then have "strings_HasPrefix (''/'' @ strings_Join (abs_elems d baseDir @ path_elems filename)) (''/'' @ strings_Join (abs_elems d baseDir))"
    using strings_HasPrefix_append [of "''/'' @ strings_Join (abs_elems d baseDir)" t] by simp
  with False base full show ?thesis by (auto simp: SafePath_def Let_def)
qed (simp add: SafePath_def Let_def)

text \<open>
  C29: \<^verbatim>\<open>SafePath\<close> stays inside its directory. For a base directory that is not the empty string, in a process with a
  rooted working directory, it refuses exactly the names whose cleaned form contains two dots; and the absolute
  path of what it returns is, element by element, the absolute base directory followed by the elements of the
  name, none of which is \<^verbatim>\<open>..\<close>.
\<close>

theorem safe_path_inside:
  assumes "baseDir \<noteq> []" and "is_rooted d"
  shows "(SafePath (Inr d) baseDir filename = Inr p \<longleftrightarrow>
       \<not> strings_Contains (filepath_Clean filename) ''..'' \<and> p = filepath_Join baseDir (filepath_Clean filename))
    \<and> (SafePath (Inr d) baseDir filename = Inr p \<longrightarrow>
       (\<exists>b. filepath_Abs (Inr d) baseDir = Inr (''/'' @ strings_Join b)
          \<and> filepath_Abs (Inr d) p = Inr (''/'' @ strings_Join (b @ path_elems filename))
          \<and> list_all plain_elem (path_elems filename)))"
proof -
  have wd: "is_rooted d \<and> Inr d = (Inr d :: go_error + string) \<or> is_rooted path" for path using assms(2) by simp
  note iff = SafePath_iff [OF assms(1) wd, of filename p]
  moreover have "\<exists>b. filepath_Abs (Inr d) baseDir = Inr (''/'' @ strings_Join b)
          \<and> filepath_Abs (Inr d) p = Inr (''/'' @ strings_Join (b @ path_elems filename)) \<and> list_all plain_elem (path_elems filename)"
    if "SafePath (Inr d) baseDir filename = Inr p"
  proof -
    from that iff have dots: "\<not> strings_Contains (filepath_Clean filename) ''..''"
      and p: "p = filepath_Join baseDir (filepath_Clean filename)" by simp_all
    note plain = no_dots_plain [OF dots]
    show ?thesis
      using filepath_Abs_elems [OF wd, of baseDir] filepath_Abs_elems [OF wd, of p]
        abs_elems_Join [OF _ assms(1) plain, of d] assms(2) plain p by auto
  qed
  ultimately show ?thesis by blast
qed

theorem safe_path_inside_witness:
  "SafePath (Inr ''/srv/node'') ''identity'' ''node0_identity.json'' = Inr ''identity/node0_identity.json''
    \<and> (\<forall>p. SafePath (Inr ''/srv/node'') ''identity'' ''../../etc/passwd'' \<noteq> Inr p)"
proof -
  have "\<not> strings_Contains (filepath_Clean ''node0_identity.json'') ''..''" "strings_Contains (filepath_Clean ''../../etc/passwd'') ''..''"
    "filepath_Join ''identity'' (filepath_Clean ''node0_identity.json'') = ''identity/node0_identity.json''" "is_rooted ''/srv/node''"
    by code_simp+
  then show ?thesis
    using safe_path_inside [of "''identity''" "''/srv/node''" "''node0_identity.json''" "''identity/node0_identity.json''"]
      safe_path_inside [of "''identity''" "''/srv/node''" "''../../etc/passwd''"] by auto
qed

text \<open>
  With an empty base directory the textual check of the prefix is all that is left, and a sibling whose name extends
  the name of the working directory passes it.
\<close>

lemma safe_path_empty_base: "SafePath (Inr ''/srv/node'') [] ''/srv/node-old/key'' = Inr ''/srv/node-old/key''"
  by code_simp

end
