(* ===== verification/Signers.thy ===== *)
theory Signers
  imports Identity_Store File_Path
begin

text \<open>
  \<^verbatim>\<open>pkg/client/signer\<close>: the signers an initiator uses. \<open>LocalSigner\<close> reads a key file, optionally encrypted with age;
  \<open>KMSSigner\<close> signs with a P-256 key that AWS KMS keeps. The file system, age and AWS are parameters: records of the
  functions the code calls. The theorems show that a node configured with the algorithm and the public key of a
  signer accepts whatever that signer signs.
\<close>

section \<open>The outside\<close>

record kms_client =
  ks_GetPublicKey :: "string \<Rightarrow> go_error + bytes"
  ks_Sign :: "string \<Rightarrow> bytes \<Rightarrow> go_error + bytes"

text \<open>What the client of AWS KMS is made from: region, static credentials if both parts are given, endpoint if given.\<close>

record kms_conf =
  kf_Region :: string
  kf_Credentials :: "(string \<times> string) option"
  kf_BaseEndpoint :: "string option"

record aws_lib =
  aw_LoadDefaultConfig :: "kms_conf \<Rightarrow> go_error option"
  aw_NewFromConfig :: "kms_conf \<Rightarrow> kms_client"

section \<open>The interface\<close>

text \<open>
  The interface \<^verbatim>\<open>Signer\<close>. Signing reads randomness, the first argument, and panics when an Ed25519 key has the wrong
  length.
\<close>

record Signer =
  sg_Sign :: "bytes \<Rightarrow> bytes \<Rightarrow> (go_error + bytes) go_res"
  sg_Algorithm :: string
  sg_PublicKey :: "go_error + string"

section \<open>Keys in files\<close>

record LocalSigner =
  ls_keyType :: string
  ls_ed25519Key :: slice
  ls_p256Key :: "ecdsa_key option"

record LocalSignerOptions =
  lo_KeyPath :: string
  lo_Encrypted :: bool
  lo_Password :: string

definition decryptPrivateKey :: "age_lib \<Rightarrow> bytes \<Rightarrow> string \<Rightarrow> go_error + bytes" where
  "decryptPrivateKey A encryptedData password =
     (case ag_NewScryptIdentity A password of
        Some err \<Rightarrow> Inl (wrapf ''failed to create identity from password'' err)
      | None \<Rightarrow>
          (case ag_Decrypt A password encryptedData of
             Some err \<Rightarrow> Inl (wrapf ''failed to create decrypter'' err)
           | None \<Rightarrow>
               (case ag_ReadAll A password encryptedData of
                  Inl err \<Rightarrow> Inl (wrapf ''failed to read decrypted data'' err)
                | Inr decryptedData \<Rightarrow> Inr decryptedData)))"

definition readKeyFile :: "files \<Rightarrow> age_lib \<Rightarrow> string \<Rightarrow> bool \<Rightarrow> string \<Rightarrow> go_error + bytes" where
  "readKeyFile F A keyPath encrypted password =
     (case fl_Stat F keyPath of
        Some err \<Rightarrow> Inl (errorf (''key file not found: '' @ keyPath))
      | None \<Rightarrow>
          if encrypted then
            if password = [] then Inl (errorf ''encrypted key found but no password provided'')
            else (case fl_ReadFile F keyPath of
                    Inl err \<Rightarrow> Inl (wrapf ''failed to read encrypted key file'' err)
                  | Inr encryptedBytes \<Rightarrow> decryptPrivateKey A encryptedBytes password)
          else fl_ReadFile F keyPath)"

text \<open>\<^verbatim>\<open>ed25519.NewKeyFromSeed\<close> panics unless the seed has 32 bytes.\<close>

definition loadEd25519Key :: "crypto \<Rightarrow> LocalSigner \<Rightarrow> bytes \<Rightarrow> (go_error + LocalSigner) go_res" where
  "loadEd25519Key C s keyData =
     (case hex_DecodeString (strings_TrimSpace keyData) of
        Inl err \<Rightarrow> Ret (Inl (wrapf ''failed to decode Ed25519 private key hex'' err))
      | Inr privSeed \<Rightarrow>
          if length privSeed = ed25519_SeedSize
          then Ret (Inr (s\<lparr>ls_ed25519Key := Some (cr_NewKeyFromSeed C privSeed)\<rparr>))
          else Panic)"

definition loadP256Key :: "crypto \<Rightarrow> LocalSigner \<Rightarrow> bytes \<Rightarrow> go_error + LocalSigner" where
  "loadP256Key C s keyData =
     (case ParseP256PrivateKey C keyData of
        Inl err \<Rightarrow> Inl (wrapf ''failed to parse P256 private key'' err)
      | Inr privKey \<Rightarrow> Inr (s\<lparr>ls_p256Key := Some privKey\<rparr>))"

definition NewLocalSigner :: "crypto \<Rightarrow> files \<Rightarrow> age_lib \<Rightarrow> string \<Rightarrow> LocalSignerOptions \<Rightarrow> (go_error + LocalSigner) go_res" where
  "NewLocalSigner C F A keyType opts =
     (let signer = \<lparr>ls_keyType = keyType, ls_ed25519Key = None, ls_p256Key = None\<rparr>;
          keyPath = (if lo_KeyPath opts = [] then ''event_initiator.key'' else lo_KeyPath opts);
          encrypted = (strings_HasSuffix keyPath ''.age'' \<or> lo_Encrypted opts)
      in case readKeyFile F A keyPath encrypted (lo_Password opts) of
           Inl err \<Rightarrow> Ret (Inl (wrapf ''failed to read key file'' err))
         | Inr keyData \<Rightarrow>
             if keyType = EventInitiatorKeyTypeEd25519 then
               (case loadEd25519Key C signer keyData of
                  Panic \<Rightarrow> Panic
                | Ret (Inl err) \<Rightarrow> Ret (Inl (wrapf ''failed to load Ed25519 key'' err))
                | Ret (Inr s) \<Rightarrow> Ret (Inr s))
             else if keyType = EventInitiatorKeyTypeP256 then
               (case loadP256Key C signer keyData of
                  Inl err \<Rightarrow> Ret (Inl (wrapf ''failed to load P256 key'' err))
                | Inr s \<Rightarrow> Ret (Inr s))
             else Ret (Inl (errorf (''unsupported key type: '' @ keyType))))"

definition LocalSigner_Sign :: "crypto \<Rightarrow> bytes \<Rightarrow> LocalSigner \<Rightarrow> bytes \<Rightarrow> (go_error + bytes) go_res" where
  "LocalSigner_Sign C rand s data =
     (if ls_keyType s = EventInitiatorKeyTypeEd25519 then
        (case ls_ed25519Key s of
           None \<Rightarrow> Ret (Inl (errorf ''Ed25519 private key not initialized''))
         | Some key \<Rightarrow> (case ed25519_Sign C key data of Panic \<Rightarrow> Panic | Ret sig \<Rightarrow> Ret (Inr sig)))
      else if ls_keyType s = EventInitiatorKeyTypeP256 then
        (case ls_p256Key s of
           None \<Rightarrow> Ret (Inl (errorf ''P256 private key not initialized''))
         | Some key \<Rightarrow> Ret (SignWithP256 C rand (Some key) data))
      else Ret (Inl (errorf (''unsupported key type: '' @ ls_keyType s))))"

definition LocalSigner_Algorithm :: "LocalSigner \<Rightarrow> string" where
  "LocalSigner_Algorithm s = ls_keyType s"

definition LocalSigner_PublicKey :: "crypto \<Rightarrow> LocalSigner \<Rightarrow> go_error + string" where
  "LocalSigner_PublicKey C s =
     (if ls_keyType s = EventInitiatorKeyTypeEd25519 then
        (case ls_ed25519Key s of
           None \<Rightarrow> Inl (errorf ''Ed25519 private key not initialized'')
         | Some key \<Rightarrow> Inr (hex_EncodeToString (cr_PublicKey C key)))
      else if ls_keyType s = EventInitiatorKeyTypeP256 then
        (case ls_p256Key s of
           None \<Rightarrow> Inl (errorf ''P256 private key not initialized'')
         | Some key \<Rightarrow>
             (case MarshalP256PublicKey C (Some (cr_P256Public C key)) of
                Inl err \<Rightarrow> Inl (wrapf ''failed to marshal P256 public key'' err)
              | Inr pubKeyBytes \<Rightarrow> Inr (hex_EncodeToString pubKeyBytes)))
      else Inl (errorf (''unsupported key type: '' @ ls_keyType s)))"

definition local_Signer :: "crypto \<Rightarrow> LocalSigner \<Rightarrow> Signer" where
  "local_Signer C s = \<lparr>sg_Sign = \<lambda>rand. LocalSigner_Sign C rand s, sg_Algorithm = LocalSigner_Algorithm s,
     sg_PublicKey = LocalSigner_PublicKey C s\<rparr>"

section \<open>Keys in AWS KMS\<close>

record KMSSigner =
  kg_keyType :: string
  kg_client :: kms_client
  kg_keyID :: string
  kg_publicKey :: "ecdsa_key option"

record KMSSignerOptions =
  ko_Region :: string
  ko_KeyID :: string
  ko_EndpointURL :: string
  ko_AccessKeyID :: string
  ko_SecretAccessKey :: string

definition loadPublicKey :: "crypto \<Rightarrow> KMSSigner \<Rightarrow> go_error + KMSSigner" where
  "loadPublicKey C k =
     (case ks_GetPublicKey (kg_client k) (kg_keyID k) of
        Inl err \<Rightarrow> Inl (wrapf ''failed to get public key from AWS KMS'' err)
      | Inr der \<Rightarrow>
          (case cr_ParsePKIX C der of
             Inl err \<Rightarrow> Inl (wrapf ''failed to parse public key from KMS response'' err)
           | Inr X509_other \<Rightarrow> Inl (errorf ''KMS public key is not an ECDSA key'')
           | Inr (X509_ecdsa publicKey) \<Rightarrow>
               (case ValidateP256PublicKey (Some publicKey) of
                  Some err \<Rightarrow> Inl (wrapf ''KMS public key is not a valid P256 key'' err)
                | None \<Rightarrow> Inr (k\<lparr>kg_publicKey := Some publicKey\<rparr>))))"

definition kms_conf_of :: "KMSSignerOptions \<Rightarrow> kms_conf" where
  "kms_conf_of opts =
     \<lparr>kf_Region = ko_Region opts,
      kf_Credentials = (if ko_AccessKeyID opts \<noteq> [] \<and> ko_SecretAccessKey opts \<noteq> []
                        then Some (ko_AccessKeyID opts, ko_SecretAccessKey opts) else None),
      kf_BaseEndpoint = (if ko_EndpointURL opts \<noteq> [] then Some (ko_EndpointURL opts) else None)\<rparr>"

definition NewKMSSigner :: "crypto \<Rightarrow> aws_lib \<Rightarrow> string \<Rightarrow> KMSSignerOptions \<Rightarrow> go_error + KMSSigner" where
  "NewKMSSigner C W keyType opts =
     (if keyType \<noteq> EventInitiatorKeyTypeP256 then Inl (errorf (''AWS KMS only supports P256 keys, not '' @ keyType))
      else if ko_KeyID opts = [] then Inl (errorf ''keyID is required for KMS signer'')
      else if ko_Region opts = [] then Inl (errorf ''region is required for KMS signer'')
      else (case aw_LoadDefaultConfig W (kms_conf_of opts) of
              Some err \<Rightarrow> Inl (wrapf ''failed to load AWS config'' err)
            | None \<Rightarrow>
                (case loadPublicKey C \<lparr>kg_keyType = keyType, kg_client = aw_NewFromConfig W (kms_conf_of opts),
                        kg_keyID = ko_KeyID opts, kg_publicKey = None\<rparr> of
                   Inl err \<Rightarrow> Inl (wrapf ''failed to load public key from KMS'' err)
                 | Inr signer \<Rightarrow> Inr signer)))"

definition KMSSigner_Sign :: "KMSSigner \<Rightarrow> bytes \<Rightarrow> go_error + bytes" where
  "KMSSigner_Sign k data =
     (case ks_Sign (kg_client k) (kg_keyID k) data of
        Inl err \<Rightarrow> Inl (wrapf ''failed to sign with AWS KMS'' err)
      | Inr signature \<Rightarrow> Inr signature)"

definition KMSSigner_Algorithm :: "KMSSigner \<Rightarrow> string" where
  "KMSSigner_Algorithm k = kg_keyType k"

definition KMSSigner_PublicKey :: "crypto \<Rightarrow> KMSSigner \<Rightarrow> go_error + string" where
  "KMSSigner_PublicKey C k =
     (case kg_publicKey k of
        None \<Rightarrow> Inl (errorf ''public key not loaded'')
      | Some publicKey \<Rightarrow>
          (case MarshalP256PublicKey C (Some publicKey) of
             Inl err \<Rightarrow> Inl (wrapf ''failed to marshal P256 public key'' err)
           | Inr pubKeyBytes \<Rightarrow> Inr (hex_EncodeToString pubKeyBytes)))"

definition kms_Signer :: "crypto \<Rightarrow> KMSSigner \<Rightarrow> Signer" where
  "kms_Signer C k = \<lparr>sg_Sign = \<lambda>rand data. Ret (KMSSigner_Sign k data), sg_Algorithm = KMSSigner_Algorithm k,
     sg_PublicKey = KMSSigner_PublicKey C k\<rparr>"

text \<open>
  What AWS documents for \<^verbatim>\<open>ECDSA_SHA_256\<close> on a raw message: the signature is ASN.1 over the SHA-256 digest and is valid
  under the key that \<^verbatim>\<open>GetPublicKey\<close> returns.
\<close>

definition kms_ok :: "crypto \<Rightarrow> kms_client \<Rightarrow> bool" where
  "kms_ok C K \<longleftrightarrow>
     (\<forall>keyID der key data s. ks_GetPublicKey K keyID = Inr der \<and> cr_ParsePKIX C der = Inr (X509_ecdsa key)
        \<and> ks_Sign K keyID data = Inr s \<longrightarrow> s \<noteq> [] \<and> cr_VerifyASN1 C key (cr_Sum256 C data) s)"

section \<open>Signers and the keys nodes load\<close>

text \<open>A signer and the initiator key of a node belong together: what the signer signs, the key accepts.\<close>

definition signer_matches :: "crypto \<Rightarrow> Signer \<Rightarrow> InitiatorKey \<Rightarrow> bool" where
  "signer_matches C sg key \<longleftrightarrow>
     (\<forall>rand data s. sg_Sign sg rand data = Ret (Inr s) \<longrightarrow> initiator_accepts C key data s)"

lemma crypto_ok_seed:
  "crypto_ok C \<Longrightarrow> length seed = ed25519_SeedSize \<Longrightarrow> length (cr_NewKeyFromSeed C seed) = ed25519_PrivateKeySize"
  unfolding crypto_ok_def by blast

lemma hex_nonempty: "bs \<noteq> [] \<Longrightarrow> hex_EncodeToString bs \<noteq> []"
  by (cases bs) simp_all

lemma ed25519_key_loads:
  assumes "length pub = ed25519_PublicKeySize"
  shows "loadInitiatorKeys C EventInitiatorKeyTypeEd25519 (hex_EncodeToString pub) =
     Inr \<lparr>ik_Algorithm = EventInitiatorKeyTypeEd25519, ik_Ed25519 = pub, ik_P256 = None\<rparr>"
proof -
  have "pub \<noteq> []" using assms by (auto simp: ed25519_PublicKeySize_def)
  with hex_nonempty assms show ?thesis
    by (simp add: loadInitiatorKeys_def Let_def loadEd25519InitiatorKey_def ParseEd25519PublicKeyFromHex_def
        hex_round_trip ValidateEd25519PublicKey_def EventInitiatorKeyTypeEd25519_def)
qed

lemma p256_key_loads:
  assumes "crypto_ok C" and "MarshalP256PublicKey C (Some k) = Inr b" and "b \<noteq> []"
  shows "loadInitiatorKeys C EventInitiatorKeyTypeP256 (hex_EncodeToString b) =
     Inr \<lparr>ik_Algorithm = EventInitiatorKeyTypeP256, ik_Ed25519 = [], ik_P256 = Some k\<rparr>"
proof -
  from assms(2) have curve: "ek_Curve k = Some P256" and m: "cr_MarshalPKIX C k = Inr b"
    by (auto simp: MarshalP256PublicKey_def ValidateP256PublicKey_def split: option.splits if_splits)
  from crypto_okD(7) [OF assms(1) m] curve hex_nonempty [OF assms(3)] show ?thesis
    by (simp add: loadInitiatorKeys_def Let_def loadP256InitiatorKey_def ParseP256PublicKeyFromHex_def hex_no_prefix
        hex_round_trip ParseP256PublicKeyFromBytes_def EventInitiatorKeyTypeP256_def EventInitiatorKeyTypeEd25519_def)
qed

lemma NewLocalSigner_key:
  assumes "NewLocalSigner C F A keyType opts = Ret (Inr s)"
  shows "ls_keyType s = keyType
    \<and> (keyType = EventInitiatorKeyTypeEd25519 \<and> (\<exists>seed. length seed = ed25519_SeedSize \<and> ls_ed25519Key s = Some (cr_NewKeyFromSeed C seed))
       \<or> keyType = EventInitiatorKeyTypeP256 \<and> (\<exists>k. ls_p256Key s = Some k))"
  using assms
  by (auto simp: NewLocalSigner_def loadEd25519Key_def loadP256Key_def Let_def
      split: sum.splits if_splits go_res.splits)

lemma local_signer_loads:
  assumes "crypto_ok C" and "NewLocalSigner C F A keyType opts = Ret (Inr s)"
    and "LocalSigner_PublicKey C s = Inr pub" and "pub \<noteq> []"
  shows "\<exists>key. loadInitiatorKeys C (LocalSigner_Algorithm s) pub = Inr key \<and> signer_matches C (local_Signer C s) key"
  using NewLocalSigner_key [OF assms(2)]
proof (elim conjE disjE exE)
  fix seed
  assume t: "ls_keyType s = keyType" "keyType = EventInitiatorKeyTypeEd25519"
    and seed: "length seed = ed25519_SeedSize" "ls_ed25519Key s = Some (cr_NewKeyFromSeed C seed)"
  note len = crypto_ok_seed [OF assms(1) seed(1)]
  have "pub = hex_EncodeToString (cr_PublicKey C (cr_NewKeyFromSeed C seed))"
    using assms(3) t seed(2) by (simp add: LocalSigner_PublicKey_def)
  then show ?thesis
    using ed25519_key_loads [OF crypto_okD(2) [OF assms(1) len], of C] crypto_okD(1,3) [OF assms(1) len] t seed(2) len
    by (auto simp: LocalSigner_Algorithm_def signer_matches_def local_Signer_def LocalSigner_Sign_def ed25519_Sign_def
        initiator_accepts_def)
next
  fix k
  assume t: "ls_keyType s = keyType" "keyType = EventInitiatorKeyTypeP256" and k: "ls_p256Key s = Some k"
  then obtain b where b: "MarshalP256PublicKey C (Some (cr_P256Public C k)) = Inr b" "pub = hex_EncodeToString b"
    using assms(3) by (auto simp: LocalSigner_PublicKey_def split: sum.splits)
  have "b \<noteq> []" using assms(4) b(2) by auto
  with p256_key_loads [OF assms(1) b(1)] t k b(2) crypto_okD(5) [OF assms(1)] show ?thesis
    by (auto simp: LocalSigner_Algorithm_def signer_matches_def local_Signer_def LocalSigner_Sign_def SignWithP256_def
        initiator_accepts_def Let_def split: if_splits sum.splits)
qed

lemma kms_signer_loads:
  assumes "crypto_ok C" and "NewKMSSigner C W keyType opts = Inr k" and "kms_ok C (aw_NewFromConfig W (kms_conf_of opts))"
    and "KMSSigner_PublicKey C k = Inr pub" and "pub \<noteq> []"
  shows "\<exists>key. loadInitiatorKeys C (KMSSigner_Algorithm k) pub = Inr key \<and> signer_matches C (kms_Signer C k) key"
proof -
  from assms(2) obtain der p where t: "kg_keyType k = EventInitiatorKeyTypeP256"
    and c: "kg_client k = aw_NewFromConfig W (kms_conf_of opts)" and p: "kg_publicKey k = Some p"
    and der: "ks_GetPublicKey (kg_client k) (kg_keyID k) = Inr der" "cr_ParsePKIX C der = Inr (X509_ecdsa p)"
    by (auto simp: NewKMSSigner_def loadPublicKey_def split: if_splits sum.splits option.splits x509_key.splits)
  from p assms(4) obtain b where b: "MarshalP256PublicKey C (Some p) = Inr b" "pub = hex_EncodeToString b"
    by (auto simp: KMSSigner_PublicKey_def split: sum.splits)
  have "b \<noteq> []" using assms(5) b(2) by auto
  moreover have "s \<noteq> [] \<and> cr_VerifyASN1 C p (cr_Sum256 C d) s" if "KMSSigner_Sign k d = Inr s" for d s
    using assms(3) der that unfolding kms_ok_def c [symmetric] by (auto simp: KMSSigner_Sign_def split: sum.splits)
  ultimately show ?thesis
    using p256_key_loads [OF assms(1) b(1)] t b(2)
    by (simp add: KMSSigner_Algorithm_def signer_matches_def kms_Signer_def initiator_accepts_def)
qed

text \<open>A signer of the package: made from a key file, or from an AWS KMS that does what it documents.\<close>

definition made_signer :: "crypto \<Rightarrow> Signer \<Rightarrow> bool" where
  "made_signer C sg \<longleftrightarrow>
     (\<exists>F A keyType opts s. NewLocalSigner C F A keyType opts = Ret (Inr s) \<and> sg = local_Signer C s)
     \<or> (\<exists>W keyType opts k. NewKMSSigner C W keyType opts = Inr k \<and> kms_ok C (aw_NewFromConfig W (kms_conf_of opts))
          \<and> sg = kms_Signer C k)"

lemma made_signer_loads:
  assumes "crypto_ok C" and "made_signer C sg" and "sg_PublicKey sg = Inr pub" and "pub \<noteq> []"
  shows "\<exists>key. loadInitiatorKeys C (sg_Algorithm sg) pub = Inr key \<and> signer_matches C sg key"
  using assms(2) unfolding made_signer_def
proof (elim disjE exE conjE)
  fix F A keyType opts s
  assume "NewLocalSigner C F A keyType opts = Ret (Inr s)" and sg: "sg = local_Signer C s"
  from local_signer_loads [OF assms(1) this(1), of pub] assms(3,4) sg show ?thesis
    by (simp add: local_Signer_def)
next
  fix W keyType opts k
  assume "NewKMSSigner C W keyType opts = Inr k" "kms_ok C (aw_NewFromConfig W (kms_conf_of opts))" and sg: "sg = kms_Signer C k"
  from kms_signer_loads [OF assms(1) this(1,2), of pub] assms(3,4) sg show ?thesis
    by (simp add: kms_Signer_def)
qed

section \<open>Properties\<close>

text \<open>
  Signers and nodes agree on keys. Take a signer made from a key file or from AWS KMS, and configure a node with the
  signer's algorithm and the public key it prints: the node loads that key, and every signature the signer makes is
  accepted under it.
\<close>

lemma signer_key_accepted:
  assumes "crypto_ok C" and "made_signer C sg" and "sg_PublicKey sg = Inr pub" and "pub \<noteq> []"
  shows "\<exists>key. loadInitiatorKeys C (sg_Algorithm sg) pub = Inr key
     \<and> (\<forall>rand data s. sg_Sign sg rand data = Ret (Inr s) \<longrightarrow> initiator_accepts C key data s)"
  using made_signer_loads [OF assms] by (simp add: signer_matches_def)

definition files_ref :: "bytes \<Rightarrow> files" where
  "files_ref content = \<lparr>fl_Stat = \<lambda>_. None, fl_ReadFile = \<lambda>_. Inr content\<rparr>"

definition age_ref :: age_lib where
  "age_ref = \<lparr>ag_NewScryptIdentity = \<lambda>_. None, ag_Decrypt = \<lambda>_ _. None, ag_ReadAll = \<lambda>_ b. Inr b\<rparr>"

definition local_signer_ref :: LocalSigner where
  "local_signer_ref = \<lparr>ls_keyType = ''ed25519'', ls_ed25519Key = Some (replicate 64 CHR ''a''), ls_p256Key = None\<rparr>"

definition signer_opts_ref :: LocalSignerOptions where
  "signer_opts_ref = \<lparr>lo_KeyPath = [], lo_Encrypted = False, lo_Password = []\<rparr>"

lemma local_signer_ref_made:
  "NewLocalSigner crypto_ref (files_ref (hex_EncodeToString (replicate 32 CHR ''a'') @ [CHR 0x0A])) age_ref ''ed25519'' signer_opts_ref =
     Ret (Inr local_signer_ref)"
  by code_simp

lemma local_signer_ref_match: "made_signer crypto_ref (local_Signer crypto_ref local_signer_ref)"
  unfolding made_signer_def using local_signer_ref_made by blast

lemma signer_key_accepted_example:
  "\<exists>key. loadInitiatorKeys crypto_ref ''ed25519'' (hex_EncodeToString (replicate 32 CHR ''a'')) = Inr key
     \<and> initiator_accepts crypto_ref key ''w'' (CHR ''s'' # replicate 32 CHR ''a'' @ ''w'')"
proof -
  have pub: "sg_PublicKey (local_Signer crypto_ref local_signer_ref) = Inr (hex_EncodeToString (replicate 32 CHR ''a''))"
    and ne: "hex_EncodeToString (replicate 32 CHR ''a'') \<noteq> []" by code_simp+
  have sign: "sg_Sign (local_Signer crypto_ref local_signer_ref) [] ''w'' = Ret (Inr (CHR ''s'' # replicate 32 CHR ''a'' @ ''w''))"
    and alg: "sg_Algorithm (local_Signer crypto_ref local_signer_ref) = ''ed25519''"
    by code_simp+
  from signer_key_accepted [OF crypto_ref_ok local_signer_ref_match pub ne] sign alg show ?thesis by metis
qed

end
