(* ===== verification/Messaging.thy ===== *)
theory Messaging
  imports Msg_Types "HOL-Library.State_Monad"
begin

text \<open>
  \<^verbatim>\<open>pkg/messaging\<close>: direct messages between nodes (\<^verbatim>\<open>p2p.go\<close>), plain publish and subscribe (\<^verbatim>\<open>pubsub.go\<close>), the
  work queues for results (\<^verbatim>\<open>message_queue.go\<close>) and the JetStream broker for requests (\<^verbatim>\<open>jetstream_broker.go\<close>). This
  is the layer below the calls of theory \<open>World\<close>: its effects are the calls of the nats.go client, recorded in a
  history; \<open>nats_env\<close> answers them. Callbacks are programs of the same kind.

  The retry library is a parameter of the environment; \<open>retry_ok\<close> states what it documents: at most the configured
  number of attempts, ending with the first success.
\<close>

section \<open>The NATS client\<close>

datatype RetentionPolicy = LimitsPolicy | InterestPolicy | WorkQueuePolicy
datatype StorageType = FileStorage | MemoryStorage
datatype DiscardPolicy = DiscardOld | DiscardNew
datatype DeliverPolicy = DeliverAllPolicy | DeliverLastPolicy | DeliverNewPolicy
datatype AckPolicy = AckExplicitPolicy | AckAllPolicy | AckNonePolicy

text \<open>The fields of the JetStream configurations that the code sets; an unset field has Go's zero value. Times are in nanoseconds.\<close>

record StreamConfig =
  stc_Name :: string
  stc_Description :: string
  stc_Subjects :: "string list"
  stc_MaxBytes :: int
  stc_MaxAge :: int
  stc_Storage :: StorageType
  stc_Retention :: RetentionPolicy
  stc_Discard :: DiscardPolicy

definition StreamConfig_zero :: StreamConfig where
  "StreamConfig_zero = \<lparr>stc_Name = [], stc_Description = [], stc_Subjects = [], stc_MaxBytes = 0, stc_MaxAge = 0,
     stc_Storage = FileStorage, stc_Retention = LimitsPolicy, stc_Discard = DiscardOld\<rparr>"

record ConsumerConfig =
  cc_Name :: string
  cc_Durable :: string
  cc_MaxAckPending :: int
  cc_AckWait :: int
  cc_AckPolicy :: AckPolicy
  cc_FilterSubjects :: "string list"
  cc_FilterSubject :: string
  cc_MaxDeliver :: int
  cc_BackOff :: "int list"
  cc_DeliverPolicy :: DeliverPolicy

definition ConsumerConfig_zero :: ConsumerConfig where
  "ConsumerConfig_zero = \<lparr>cc_Name = [], cc_Durable = [], cc_MaxAckPending = 0, cc_AckWait = 0, cc_AckPolicy = AckExplicitPolicy,
     cc_FilterSubjects = [], cc_FilterSubject = [], cc_MaxDeliver = 0, cc_BackOff = [], cc_DeliverPolicy = DeliverAllPolicy\<rparr>"

datatype (plugins only: code) nats_call =
    Nc_Publish string bytes
  | Nc_PublishMsg string string bytes "(string \<times> string) list"
  | Nc_Subscribe string
  | Nc_Unsubscribe string
  | Nc_Request string bytes int
  | Nc_Respond bytes
  | Nc_Flush
  | Nc_Close
  | Nc_Drain
  | Js_New
  | Js_Stream string
  | Js_StreamInfo string
  | Js_CreateOrUpdateStream StreamConfig
  | Js_CreateOrUpdateConsumer string ConsumerConfig
  | Js_Publish string bytes
  | Js_PublishMsg string bytes "(string \<times> string) list"
  | Js_Consume string
  | Js_Fetch string int int
  | Js_Stop string
  | Msg_Ack
  | Msg_Nak
  | Msg_Term
  | Log_Fatal
  | Callback bytes

type_synonym 'a nio = "(nats_call list, 'a) state"

datatype DelayType = FixedDelay | BackOffDelay

text \<open>The options of \<^verbatim>\<open>retry.Do\<close> that are set.\<close>

record retry_opts =
  ro_Attempts :: "nat option"
  ro_Delay :: "int option"
  ro_DelayType :: "DelayType option"
  ro_MaxJitter :: "int option"
  ro_OnRetry :: bool

record nats_env =
  ne_err :: "nats_call list \<Rightarrow> nats_call \<Rightarrow> go_error option"
  ne_IsClosed :: "nats_call list \<Rightarrow> bool"
  ne_Fetched :: "nats_call list \<Rightarrow> string \<Rightarrow> bytes list"
  ne_retry :: "retry_opts \<Rightarrow> go_error option nio \<Rightarrow> go_error option nio"

definition nats_do :: "nats_env \<Rightarrow> nats_call \<Rightarrow> go_error option nio" where
  "nats_do E c = State (\<lambda>tr. (ne_err E tr c, tr @ [c]))"

definition nats_IsClosed :: "nats_env \<Rightarrow> bool nio" where
  "nats_IsClosed E = State (\<lambda>tr. (ne_IsClosed E tr, tr))"

definition nats_Fetched :: "nats_env \<Rightarrow> string \<Rightarrow> bytes list nio" where
  "nats_Fetched E consumer = State (\<lambda>tr. (ne_Fetched E tr consumer, tr))"

lemma run_nats [simp]:
  "run_state (nats_do E c) tr = (ne_err E tr c, tr @ [c])"
  "run_state (nats_IsClosed E) tr = (ne_IsClosed E tr, tr)"
  "run_state (nats_Fetched E n) tr = (ne_Fetched E tr n, tr)"
  by (simp_all add: nats_do_def nats_IsClosed_def nats_Fetched_def)

fun nio_for :: "('a \<Rightarrow> unit nio) \<Rightarrow> 'a list \<Rightarrow> unit nio" where
  "nio_for f [] = State_Monad.return ()"
| "nio_for f (x # xs) = do { f x; nio_for f xs }"

lemma nio_for_append:
  "run_state (nio_for f (xs @ ys)) tr = run_state (nio_for f ys) (snd (run_state (nio_for f xs) tr))"
  by (induction xs arbitrary: tr) (simp_all add: State_Monad.bind_def split_beta)

text \<open>Trying up to \<open>n\<close> times until the first success.\<close>

fun retry_loop :: "nat \<Rightarrow> go_error option nio \<Rightarrow> go_error option nio" where
  "retry_loop 0 f = State_Monad.return (Some (errorf ''All attempts fail''))"
| "retry_loop (Suc n) f = do {
     r \<leftarrow> f;
     (case r of
        None \<Rightarrow> State_Monad.return None
      | Some e \<Rightarrow> if n = 0 then State_Monad.return (Some e) else retry_loop n f) }"

definition retry_ok :: "(retry_opts \<Rightarrow> go_error option nio \<Rightarrow> go_error option nio) \<Rightarrow> bool" where
  "retry_ok retry_Do \<longleftrightarrow>
     (\<forall>opts f tr n. ro_Attempts opts = Some n \<and> 0 < n \<longrightarrow>
        snd (run_state (retry_Do opts f) tr) = snd (run_state (retry_loop n f) tr)
        \<and> (fst (run_state (retry_Do opts f) tr) = None \<longleftrightarrow> fst (run_state (retry_loop n f) tr) = None))"

section \<open>Direct messages\<close>

record RetryConfig =
  rcf_RetryAttempt :: nat
  rcf_ExponentialBackoff :: bool
  rcf_Delay :: int
  rcf_OnRetry :: bool

record natsDirectMessaging =
  dm_handlers :: "(bytes \<Rightarrow> unit nio) list gomap"

definition NewNatsDirectMessaging :: natsDirectMessaging where
  "NewNatsDirectMessaging = \<lparr>dm_handlers = []\<rparr>"

definition dm_SendToSelf :: "natsDirectMessaging \<Rightarrow> string \<Rightarrow> bytes \<Rightarrow> go_error option nio" where
  "dm_SendToSelf d topic message =
     (case gm_get (dm_handlers d) topic of
        None \<Rightarrow> State_Monad.return (Some (errorf (''no handlers found for topic '' @ topic)))
      | Some [] \<Rightarrow> State_Monad.return (Some (errorf (''no handlers found for topic '' @ topic)))
      | Some handlers \<Rightarrow> do {
          nio_for (\<lambda>handler. handler message) handlers;
          State_Monad.return None })"

definition ns_second :: int where "ns_second = 1000000000"
definition ns_millisecond :: int where "ns_millisecond = 1000000"

definition dm_SendToOther :: "nats_env \<Rightarrow> string \<Rightarrow> bytes \<Rightarrow> go_error option nio" where
  "dm_SendToOther E topic message =
     ne_retry E
       \<lparr>ro_Attempts = Some 3, ro_Delay = Some (50 * ns_millisecond), ro_DelayType = Some FixedDelay,
        ro_MaxJitter = None, ro_OnRetry = True\<rparr>
       (nats_do E (Nc_Request topic message (3 * ns_second)))"

definition retry_options :: "RetryConfig \<Rightarrow> retry_opts" where
  "retry_options config =
     \<lparr>ro_Attempts = (if rcf_RetryAttempt config > 0 then Some (rcf_RetryAttempt config) else None),
      ro_Delay = (if rcf_Delay config > 0 then Some (rcf_Delay config) else None),
      ro_DelayType = (if rcf_ExponentialBackoff config then Some BackOffDelay else None),
      ro_MaxJitter = Some (80 * ns_millisecond), ro_OnRetry = rcf_OnRetry config\<rparr>"

definition dm_SendToOtherWithRetry :: "nats_env \<Rightarrow> string \<Rightarrow> bytes \<Rightarrow> RetryConfig \<Rightarrow> go_error option nio" where
  "dm_SendToOtherWithRetry E topic message config =
     ne_retry E (retry_options config) (nats_do E (Nc_Request topic message (3 * ns_second)))"

text \<open>What a subscription does with a message: the handler runs, then the sender gets its reply.\<close>

definition on_direct_message :: "nats_env \<Rightarrow> (bytes \<Rightarrow> unit nio) \<Rightarrow> bytes \<Rightarrow> unit nio" where
  "on_direct_message E handler data = do {
     handler data;
     _ \<leftarrow> nats_do E (Nc_Respond ''OK'');
     State_Monad.return () }"

text \<open>
  The error of a failed flush is shadowed by the result of \<^verbatim>\<open>Unsubscribe\<close>; formatting a nil error with \<^verbatim>\<open>%w\<close> gives
  \<^verbatim>\<open>%!w(<nil>)\<close>.
\<close>

definition dm_Listen ::
  "nats_env \<Rightarrow> natsDirectMessaging \<Rightarrow> string \<Rightarrow> (bytes \<Rightarrow> unit nio) \<Rightarrow> ((go_error + string) \<times> natsDirectMessaging) nio" where
  "dm_Listen E d topic handler = do {
     err \<leftarrow> nats_do E (Nc_Subscribe topic);
     (case err of
        Some e \<Rightarrow> State_Monad.return (Inl e, d)
      | None \<Rightarrow> do {
          err \<leftarrow> nats_do E Nc_Flush;
          (case err of
             Some _ \<Rightarrow> do {
               err \<leftarrow> nats_do E (Nc_Unsubscribe topic);
               State_Monad.return
                 (Inl (case err of
                         Some e \<Rightarrow> wrapf ''flush after subscribe failed'' e
                       | None \<Rightarrow> errorf ''flush after subscribe failed: %!w(<nil>)''), d) }
           | None \<Rightarrow>
               State_Monad.return
                 (Inr topic,
                  d\<lparr>dm_handlers := gm_put topic
                       ((case gm_get (dm_handlers d) topic of None \<Rightarrow> [] | Some hs \<Rightarrow> hs) @ [handler]) (dm_handlers d)\<rparr>)) }) }"

text \<open>Closing the subscription that \<^verbatim>\<open>Listen\<close> or \<^verbatim>\<open>Subscribe\<close> returned.\<close>

definition natsSubscription_Unsubscribe :: "nats_env \<Rightarrow> string \<Rightarrow> go_error option nio" where
  "natsSubscription_Unsubscribe E topic = nats_do E (Nc_Unsubscribe topic)"

section \<open>Publish and subscribe\<close>

definition ps_Publish :: "nats_env \<Rightarrow> string \<Rightarrow> bytes \<Rightarrow> go_error option nio" where
  "ps_Publish E topic message = nats_do E (Nc_Publish topic message)"

definition ps_PublishWithReply :: "nats_env \<Rightarrow> string \<Rightarrow> string \<Rightarrow> bytes \<Rightarrow> string gomap \<Rightarrow> go_error option nio" where
  "ps_PublishWithReply E topic reply data headers =
     nats_do E (Nc_PublishMsg topic reply data (fold (\<lambda>(k, v) h. gm_put k v h) headers []))"

definition ps_Subscribe :: "nats_env \<Rightarrow> string \<Rightarrow> (go_error + string) nio" where
  "ps_Subscribe E topic = do {
     err \<leftarrow> nats_do E (Nc_Subscribe topic);
     State_Monad.return (case err of Some e \<Rightarrow> Inl e | None \<Rightarrow> Inr topic) }"

section \<open>Message queues\<close>

record messageQueue =
  mq_consumerName :: string
  mq_consumer :: ConsumerConfig
  mq_context :: bool

text \<open>A result \<open>None\<close> stands for the end of the process in \<^verbatim>\<open>logger.Fatal\<close>.\<close>

definition log_Fatal :: "nats_env \<Rightarrow> 'a option nio" where
  "log_Fatal E = do { _ \<leftarrow> nats_do E Log_Fatal; State_Monad.return None }"

definition queue_stream_config :: "string \<Rightarrow> string list \<Rightarrow> StreamConfig" where
  "queue_stream_config queueName subjects = StreamConfig_zero\<lparr>stc_Name := queueName,
     stc_Description := ''Stream for '' @ queueName, stc_Subjects := subjects, stc_MaxBytes := 10485760,
     stc_Storage := FileStorage, stc_Retention := WorkQueuePolicy\<rparr>"

definition NewNATsMessageQueueManager :: "nats_env \<Rightarrow> string \<Rightarrow> string list \<Rightarrow> string option nio" where
  "NewNATsMessageQueueManager E queueName subjects = do {
     err \<leftarrow> nats_do E Js_New;
     (if err \<noteq> None then log_Fatal E
      else do {
        err \<leftarrow> nats_do E (Js_Stream queueName);
        (if err \<noteq> None then State_Monad.return None else nats_do E (Js_StreamInfo queueName));
        err \<leftarrow> nats_do E (Js_CreateOrUpdateStream (queue_stream_config queueName subjects));
        (if err \<noteq> None then log_Fatal E else State_Monad.return (Some queueName)) }) }"

definition queue_consumer_config :: "string \<Rightarrow> string \<Rightarrow> ConsumerConfig" where
  "queue_consumer_config queueName consumerName =
     (let consumerWildCard = queueName @ ''.'' @ consumerName @ ''.*''
      in ConsumerConfig_zero\<lparr>cc_Name := consumerName, cc_Durable := consumerName, cc_MaxAckPending := 1000,
           cc_AckWait := 30 * ns_second, cc_AckPolicy := AckExplicitPolicy, cc_FilterSubjects := [consumerWildCard],
           cc_MaxDeliver := 3\<rparr>)"

definition NewMessageQueue :: "nats_env \<Rightarrow> string \<Rightarrow> string \<Rightarrow> messageQueue option nio" where
  "NewMessageQueue E queueName consumerName = do {
     let cfg = queue_consumer_config queueName consumerName;
     err \<leftarrow> nats_do E (Js_CreateOrUpdateConsumer queueName cfg);
     (if err \<noteq> None then log_Fatal E
      else State_Monad.return (Some \<lparr>mq_consumerName = consumerName, mq_consumer = cfg, mq_context = False\<rparr>)) }"

text \<open>The options are a pointer: \<open>None\<close> is nil, \<open>Some k\<close> carries the idempotency key.\<close>

definition mq_Enqueue :: "nats_env \<Rightarrow> string \<Rightarrow> bytes \<Rightarrow> string option \<Rightarrow> go_error option nio" where
  "mq_Enqueue E topic message options = do {
     let header = (case options of None \<Rightarrow> [] | Some k \<Rightarrow> [(''Nats-Msg-Id'', k)]);
     err \<leftarrow> nats_do E (Js_PublishMsg topic message header);
     State_Monad.return (map_option (wrapf ''error enqueueing message'') err) }"

text \<open>What the consumer does with a message: \<^verbatim>\<open>handler\<close>, then one of \<^verbatim>\<open>Term\<close>, \<^verbatim>\<open>Nak\<close> and \<^verbatim>\<open>Ack\<close>.\<close>

definition dequeue_message :: "nats_env \<Rightarrow> (bytes \<Rightarrow> go_error option nio) \<Rightarrow> bytes \<Rightarrow> unit nio" where
  "dequeue_message E handler data = do {
     err \<leftarrow> handler data;
     (case err of
        Some e \<Rightarrow>
          if errors_Is e ErrPermanent then do { _ \<leftarrow> nats_do E Msg_Term; State_Monad.return () }
          else do { _ \<leftarrow> nats_do E Msg_Nak; State_Monad.return () }
      | None \<Rightarrow> do { _ \<leftarrow> nats_do E Msg_Ack; State_Monad.return () }) }"

text \<open>The topic is not used: the consumer reads what its filter selects.\<close>

definition mq_Dequeue :: "nats_env \<Rightarrow> messageQueue \<Rightarrow> string \<Rightarrow> (go_error option \<times> messageQueue) nio" where
  "mq_Dequeue E mq topic = do {
     err \<leftarrow> nats_do E (Js_Consume (mq_consumerName mq));
     State_Monad.return (err, mq\<lparr>mq_context := (err = None)\<rparr>) }"

definition mq_Close :: "nats_env \<Rightarrow> messageQueue \<Rightarrow> unit nio" where
  "mq_Close E mq =
     (if mq_context mq then do { _ \<leftarrow> nats_do E (Js_Stop (mq_consumerName mq)); State_Monad.return () }
      else State_Monad.return ())"

section \<open>The JetStream broker\<close>

definition DefaultAckWait :: int where "DefaultAckWait = 30 * ns_second"
definition DefaultMaxDeliveryAttempts :: int where "DefaultMaxDeliveryAttempts = 3"
definition DefaultConsumerPrefix :: string where "DefaultConsumerPrefix = ''consumer''"
definition DefaultStreamMaxAge :: int where "DefaultStreamMaxAge = 180 * ns_second"
definition DefaultBackoffDuration :: int where "DefaultBackoffDuration = 30 * ns_second"

record brokerConfiguration =
  bc_streamName :: string
  bc_subjects :: "string list"
  bc_description :: string
  bc_retention :: RetentionPolicy
  bc_storage :: StorageType
  bc_maxAge :: int
  bc_discard :: DiscardPolicy
  bc_ackWait :: int
  bc_maxDeliveryAttempts :: int
  bc_consumerNamePrefix :: string
  bc_deliverPolicy :: DeliverPolicy
  bc_backoffDurations :: "int list"

type_synonym BrokerOption = "brokerConfiguration \<Rightarrow> brokerConfiguration"

definition WithStreamDescription :: "string \<Rightarrow> BrokerOption" where
  "WithStreamDescription description cfg = cfg\<lparr>bc_description := description\<rparr>"
definition WithRetentionPolicy :: "RetentionPolicy \<Rightarrow> BrokerOption" where
  "WithRetentionPolicy policy cfg = cfg\<lparr>bc_retention := policy\<rparr>"
definition WithStorageType :: "StorageType \<Rightarrow> BrokerOption" where
  "WithStorageType storage cfg = cfg\<lparr>bc_storage := storage\<rparr>"
definition WithMaxAge :: "int \<Rightarrow> BrokerOption" where
  "WithMaxAge maxAge cfg = cfg\<lparr>bc_maxAge := maxAge\<rparr>"
definition WithDiscardPolicy :: "DiscardPolicy \<Rightarrow> BrokerOption" where
  "WithDiscardPolicy policy cfg = cfg\<lparr>bc_discard := policy\<rparr>"
definition WithAckWait :: "int \<Rightarrow> BrokerOption" where
  "WithAckWait ackWait cfg = cfg\<lparr>bc_ackWait := ackWait\<rparr>"
definition WithMaxDeliveryAttempts :: "int \<Rightarrow> BrokerOption" where
  "WithMaxDeliveryAttempts maxAttempts cfg = cfg\<lparr>bc_maxDeliveryAttempts := maxAttempts\<rparr>"
definition WithConsumerNamePrefix :: "string \<Rightarrow> BrokerOption" where
  "WithConsumerNamePrefix name_prefix cfg = cfg\<lparr>bc_consumerNamePrefix := name_prefix\<rparr>"
definition WithDeliverPolicy :: "DeliverPolicy \<Rightarrow> BrokerOption" where
  "WithDeliverPolicy policy cfg = cfg\<lparr>bc_deliverPolicy := policy\<rparr>"
definition WithBackoffDurations :: "int list \<Rightarrow> BrokerOption" where
  "WithBackoffDurations durations cfg = cfg\<lparr>bc_backoffDurations := durations\<rparr>"

definition ensureStreamExists :: "nats_env \<Rightarrow> brokerConfiguration \<Rightarrow> go_error option nio" where
  "ensureStreamExists E cfg = do {
     let streamConfig = StreamConfig_zero\<lparr>stc_Name := bc_streamName cfg, stc_Description := bc_description cfg,
           stc_Subjects := bc_subjects cfg, stc_MaxAge := bc_maxAge cfg\<rparr>;
     err \<leftarrow> nats_do E (Js_CreateOrUpdateStream streamConfig);
     State_Monad.return
       (map_option (\<lambda>e. Errorf (sentinel_text ErrStreamCreation @ '' for stream '' @ [CHR 0x27] @ bc_streamName cfg
                            @ [CHR 0x27] @ '': '' @ err_msg e) (Some (Sentinel ErrStreamCreation))) err) }"

definition default_broker_configuration :: "string \<Rightarrow> string list \<Rightarrow> brokerConfiguration" where
  "default_broker_configuration streamName subjects =
     \<lparr>bc_streamName = streamName, bc_subjects = subjects, bc_description = ''Stream for '' @ streamName,
      bc_retention = InterestPolicy, bc_storage = FileStorage, bc_maxAge = DefaultStreamMaxAge, bc_discard = DiscardOld,
      bc_ackWait = DefaultAckWait, bc_maxDeliveryAttempts = DefaultMaxDeliveryAttempts,
      bc_consumerNamePrefix = DefaultConsumerPrefix, bc_deliverPolicy = DeliverAllPolicy,
      bc_backoffDurations = [DefaultBackoffDuration, DefaultBackoffDuration, DefaultBackoffDuration]\<rparr>"

definition NewJetStreamBroker ::
  "nats_env \<Rightarrow> string \<Rightarrow> string list \<Rightarrow> BrokerOption list \<Rightarrow> (go_error + brokerConfiguration) nio" where
  "NewJetStreamBroker E streamName subjects opts = do {
     let config = fold (\<lambda>opt cfg. opt cfg) opts (default_broker_configuration streamName subjects);
     err \<leftarrow> nats_do E Js_New;
     (case err of
        Some e \<Rightarrow> State_Monad.return (Inl (wrapf ''failed to create JetStream context'' e))
      | None \<Rightarrow> do {
          err \<leftarrow> ensureStreamExists E config;
          State_Monad.return
            (case err of
               Some e \<Rightarrow> Inl (wrapf ''failed to ensure stream exists'' e)
             | None \<Rightarrow> Inr config) }) }"

definition PublishMessage :: "nats_env \<Rightarrow> string \<Rightarrow> bytes \<Rightarrow> go_error option nio" where
  "PublishMessage E subject data = do {
     closed \<leftarrow> nats_IsClosed E;
     (if closed then State_Monad.return (Some (Sentinel ErrConnectionClosed))
      else do {
        err \<leftarrow> nats_do E (Js_Publish subject data);
        State_Monad.return (map_option (wrapf (''failed to publish message to subject '' @ subject)) err) }) }"

text \<open>\<^verbatim>\<open>unicode.IsLetter\<close> on a byte taken as a code point below 256.\<close>

definition latin_letter :: "char \<Rightarrow> bool" where
  "latin_letter c =
     (let n = (of_char c :: nat) in
      (65 \<le> n \<and> n \<le> 90) \<or> (97 \<le> n \<and> n \<le> 122) \<or> n = 0xAA \<or> n = 0xB5 \<or> n = 0xBA
      \<or> (0xC0 \<le> n \<and> n \<noteq> 0xD7 \<and> n \<noteq> 0xF7))"

definition sanitizeConsumerName :: "string \<Rightarrow> string" where
  "sanitizeConsumerName name =
     (let name = strings_ReplaceAll CHR ''.'' ''_'' name;
          name = strings_ReplaceAll CHR '':'' ''_'' name;
          name = strings_ReplaceAll CHR '' '' ''_'' name;
          name = strings_ReplaceAll CHR ''-'' ''_'' name;
          name = strings_ReplaceAll CHR ''>'' ''all'' name;
          name = strings_ReplaceAll CHR ''*'' ''any'' name
      in case name of
           [] \<Rightarrow> name
         | c # _ \<Rightarrow> if \<not> latin_letter c \<and> c \<noteq> CHR ''_'' then ''_'' @ name else name)"

definition broker_consumer_config :: "brokerConfiguration \<Rightarrow> string \<Rightarrow> string \<Rightarrow> ConsumerConfig" where
  "broker_consumer_config cfg sanitizedName subject = ConsumerConfig_zero\<lparr>cc_Name := sanitizedName,
     cc_Durable := sanitizedName, cc_AckPolicy := AckExplicitPolicy, cc_MaxDeliver := inc64 (bc_maxDeliveryAttempts cfg),
     cc_BackOff := bc_backoffDurations cfg, cc_DeliverPolicy := bc_deliverPolicy cfg, cc_FilterSubject := subject,
     cc_AckWait := bc_ackWait cfg\<rparr>"

definition consumer_creation_error :: "string \<Rightarrow> string \<Rightarrow> go_error \<Rightarrow> go_error" where
  "consumer_creation_error consumer stream e =
     Errorf (sentinel_text ErrConsumerCreation @ '' for consumer '' @ [CHR 0x27] @ consumer @ [CHR 0x27] @ '' on stream ''
        @ [CHR 0x27] @ stream @ [CHR 0x27] @ '': '' @ err_msg e) (Some (Sentinel ErrConsumerCreation))"

text \<open>A subscription is the name of the consumer whose messages it receives.\<close>

definition CreateSubscription :: "nats_env \<Rightarrow> brokerConfiguration \<Rightarrow> string \<Rightarrow> string \<Rightarrow> (go_error + string) nio" where
  "CreateSubscription E cfg consumerName subject = do {
     closed \<leftarrow> nats_IsClosed E;
     (if closed then State_Monad.return (Inl (Sentinel ErrConnectionClosed))
      else do {
        let sanitizedName = sanitizeConsumerName consumerName;
        err \<leftarrow> nats_do E (Js_CreateOrUpdateConsumer (bc_streamName cfg) (broker_consumer_config cfg sanitizedName subject));
        (case err of
           Some e \<Rightarrow> State_Monad.return (Inl (consumer_creation_error sanitizedName (bc_streamName cfg) e))
         | None \<Rightarrow> do {
             err \<leftarrow> nats_do E (Js_Consume sanitizedName);
             State_Monad.return
               (case err of
                  Some e \<Rightarrow> Inl (wrapf (''failed to start consuming messages for consumer '' @ [CHR 0x27] @ sanitizedName
                      @ [CHR 0x27] @ '' on stream '' @ [CHR 0x27] @ bc_streamName cfg @ [CHR 0x27]) e)
                | None \<Rightarrow> Inr sanitizedName) }) }) }"

definition GetStreamInfo :: "nats_env \<Rightarrow> brokerConfiguration \<Rightarrow> go_error option nio" where
  "GetStreamInfo E cfg = do {
     err \<leftarrow> nats_do E (Js_Stream (bc_streamName cfg));
     (case err of
        Some e \<Rightarrow> State_Monad.return
          (Some (wrapf (''failed to get stream '' @ [CHR 0x27] @ bc_streamName cfg @ [CHR 0x27]) e))
      | None \<Rightarrow> nats_do E (Js_StreamInfo (bc_streamName cfg))) }"

definition broker_Close :: "nats_env \<Rightarrow> go_error option nio" where
  "broker_Close E = do {
     closed \<leftarrow> nats_IsClosed E;
     (if \<not> closed then do { _ \<leftarrow> nats_do E Nc_Close; State_Monad.return None } else State_Monad.return None) }"

definition jetStreamSubscription_Unsubscribe :: "nats_env \<Rightarrow> string option \<Rightarrow> go_error option nio" where
  "jetStreamSubscription_Unsubscribe E consumeContext =
     (case consumeContext of
        Some c \<Rightarrow> do { _ \<leftarrow> nats_do E (Js_Stop c); State_Monad.return None }
      | None \<Rightarrow> State_Monad.return None)"

definition FetchMessages ::
  "nats_env \<Rightarrow> brokerConfiguration \<Rightarrow> string \<Rightarrow> string \<Rightarrow> int \<Rightarrow> (bytes \<Rightarrow> unit nio) \<Rightarrow> go_error option nio" where
  "FetchMessages E cfg consumerName subject batchSize handler = do {
     closed \<leftarrow> nats_IsClosed E;
     (if closed then State_Monad.return (Some (Sentinel ErrConnectionClosed))
      else do {
        let sanitizedName = sanitizeConsumerName consumerName;
        err \<leftarrow> nats_do E (Js_CreateOrUpdateConsumer (bc_streamName cfg) (broker_consumer_config cfg sanitizedName subject));
        (case err of
           Some e \<Rightarrow> State_Monad.return (Some (consumer_creation_error sanitizedName (bc_streamName cfg) e))
         | None \<Rightarrow> do {
             err \<leftarrow> nats_do E (Js_Fetch sanitizedName batchSize (bc_ackWait cfg));
             (case err of
                Some e \<Rightarrow> State_Monad.return
                  (Some (wrapf (''failed to fetch messages for consumer '' @ [CHR 0x27] @ sanitizedName @ [CHR 0x27]) e))
              | None \<Rightarrow> do {
                  msgs \<leftarrow> nats_Fetched E sanitizedName;
                  nio_for handler msgs;
                  State_Monad.return None }) }) }) }"

section \<open>Names of consumers\<close>

lemma ReplaceAll_absent: "c \<notin> set s \<Longrightarrow> strings_ReplaceAll c r s = s"
  by (induction s) (auto simp: strings_ReplaceAll_def)

lemma ReplaceAll_set: "x \<in> set (strings_ReplaceAll c r s) \<Longrightarrow> x \<in> set r \<or> (x \<in> set s \<and> x \<noteq> c)"
  by (auto simp: strings_ReplaceAll_def split: if_splits)

definition reserved_chars :: "char list" where
  "reserved_chars = ''.: ->*''"

text \<open>A name JetStream accepts for a durable consumer, and that starts like an identifier.\<close>

definition consumer_name_ok :: "string \<Rightarrow> bool" where
  "consumer_name_ok s \<longleftrightarrow>
     list_all (\<lambda>c. c \<notin> set reserved_chars) s \<and> (case s of [] \<Rightarrow> True | c # _ \<Rightarrow> latin_letter c \<or> c = CHR ''_'')"

definition replace_reserved :: "string \<Rightarrow> string" where
  "replace_reserved name =
     strings_ReplaceAll CHR ''*'' ''any'' (strings_ReplaceAll CHR ''>'' ''all'' (strings_ReplaceAll CHR ''-'' ''_''
       (strings_ReplaceAll CHR '' '' ''_'' (strings_ReplaceAll CHR '':'' ''_'' (strings_ReplaceAll CHR ''.'' ''_'' name)))))"

lemma sanitizeConsumerName_alt:
  "sanitizeConsumerName name =
     (case replace_reserved name of
        [] \<Rightarrow> []
      | c # r \<Rightarrow> if \<not> latin_letter c \<and> c \<noteq> CHR ''_'' then CHR ''_'' # c # r else c # r)"
  by (simp add: sanitizeConsumerName_def replace_reserved_def Let_def split: list.split)

lemma replace_reserved_chars: "c \<in> set reserved_chars \<Longrightarrow> c \<notin> set (replace_reserved name)"
  unfolding replace_reserved_def reserved_chars_def by (auto dest!: ReplaceAll_set)

lemma replace_reserved_id: "\<forall>c \<in> set reserved_chars. c \<notin> set name \<Longrightarrow> replace_reserved name = name"
  by (simp add: replace_reserved_def reserved_chars_def ReplaceAll_absent)

lemma sanitize_ok: "consumer_name_ok (sanitizeConsumerName name)"
proof -
  have "\<forall>c \<in> set (replace_reserved name). c \<notin> set reserved_chars" using replace_reserved_chars by blast
  moreover have "CHR ''_'' \<notin> set reserved_chars" by (simp add: reserved_chars_def)
  ultimately show ?thesis
    by (cases "replace_reserved name") (simp_all add: sanitizeConsumerName_alt consumer_name_ok_def list_all_iff)
qed

lemma sanitize_fixes_ok: "consumer_name_ok s \<Longrightarrow> sanitizeConsumerName s = s"
proof -
  assume ok: "consumer_name_ok s"
  then have "replace_reserved s = s" by (intro replace_reserved_id) (auto simp: consumer_name_ok_def list_all_iff)
  with ok show ?thesis by (auto simp: sanitizeConsumerName_alt consumer_name_ok_def split: list.splits)
qed

text \<open>
  Durable consumers are found by name, and every subscription of the broker sanitizes it: a sanitized name has no
  character that NATS reserves, starts with a letter or an underscore and is left alone by a second pass.
  Two names can meet.
\<close>

lemma sanitizeConsumerName_normal_form:
  "consumer_name_ok (sanitizeConsumerName name) \<and> sanitizeConsumerName (sanitizeConsumerName name) = sanitizeConsumerName name"
  by (simp add: sanitize_ok sanitize_fixes_ok)

lemma sanitizeConsumerName_collides: "sanitizeConsumerName ''mpc-signing'' = sanitizeConsumerName ''mpc.signing''"
  by code_simp

section \<open>Direct delivery\<close>

definition retry_ref :: "retry_opts \<Rightarrow> go_error option nio \<Rightarrow> go_error option nio" where
  "retry_ref opts f = retry_loop (case ro_Attempts opts of None \<Rightarrow> 10 | Some n \<Rightarrow> n) f"

lemma retry_ref_ok: "retry_ok retry_ref"
  by (simp add: retry_ok_def retry_ref_def)

definition nats_ref :: nats_env where
  "nats_ref = \<lparr>ne_err = \<lambda>_ _. None, ne_IsClosed = \<lambda>_. False, ne_Fetched = \<lambda>_ _. [], ne_retry = retry_ref\<rparr>"

text \<open>
  \<open>k\<close> attempts of a call: all but the last failed, and the last one failed only if all \<open>n\<close> attempts were used.
\<close>

definition attempts_of :: "nats_env \<Rightarrow> nats_call \<Rightarrow> nats_call list \<Rightarrow> nat \<Rightarrow> nat \<Rightarrow> bool \<Rightarrow> bool" where
  "attempts_of E c tr n k ok \<longleftrightarrow>
     1 \<le> k \<and> k \<le> n \<and> (\<forall>i < k - 1. ne_err E (tr @ replicate i c) c \<noteq> None)
     \<and> (ok \<longleftrightarrow> ne_err E (tr @ replicate (k - 1) c) c = None) \<and> (\<not> ok \<longrightarrow> k = n)"

lemma attempts_of_Suc:
  assumes "ne_err E tr c \<noteq> None" and "attempts_of E c (tr @ [c]) n k ok"
  shows "attempts_of E c tr (Suc n) (Suc k) ok"
proof -
  have shift: "tr @ replicate (Suc i) c = (tr @ [c]) @ replicate i c" for i by simp
  have early: "ne_err E (tr @ replicate i c) c \<noteq> None" if "i < Suc k - 1" for i
  proof (cases i)
    case (Suc j)
    with that have "j < k - 1" by simp
    with assms(2) have "ne_err E ((tr @ [c]) @ replicate j c) c \<noteq> None" unfolding attempts_of_def by blast
    then show ?thesis unfolding Suc shift .
  qed (use assms(1) in simp)
  have a: "1 \<le> k" "k \<le> n" "ok \<longleftrightarrow> ne_err E ((tr @ [c]) @ replicate (k - 1) c) c = None" "\<not> ok \<longrightarrow> k = n"
    using assms(2) unfolding attempts_of_def by blast+
  have last: "tr @ replicate (Suc k - 1) c = (tr @ [c]) @ replicate (k - 1) c" using a(1) by (cases k) simp_all
  show ?thesis
    unfolding attempts_of_def last
  proof (intro conjI)
    show "ok \<longleftrightarrow> ne_err E ((tr @ [c]) @ replicate (k - 1) c) c = None" by (rule a(3))
  qed (use a(2,4) early in blast | use a(2,4) in simp)+
qed

lemma retry_loop_attempts:
  "0 < n \<Longrightarrow> \<exists>k. snd (run_state (retry_loop n (nats_do E c)) tr) = tr @ replicate k c
     \<and> attempts_of E c tr n k (fst (run_state (retry_loop n (nats_do E c)) tr) = None)"
proof (induction n arbitrary: tr)
  case (Suc n)
  show ?case
  proof (cases "ne_err E tr c")
    case None
    then show ?thesis by (intro exI [of _ 1]) (simp add: attempts_of_def)
  next
    case (Some e)
    show ?thesis
    proof (cases "n = 0")
      case True
      with Some show ?thesis by (intro exI [of _ 1]) (simp add: attempts_of_def)
    next
      case False
      then obtain k where k: "snd (run_state (retry_loop n (nats_do E c)) (tr @ [c])) = (tr @ [c]) @ replicate k c"
        "attempts_of E c (tr @ [c]) n k (fst (run_state (retry_loop n (nats_do E c)) (tr @ [c])) = None)"
        using Suc.IH [of "tr @ [c]"] by auto
      with Some False attempts_of_Suc [OF _ k(2)] show ?thesis
        by (intro exI [of _ "Suc k"]) simp
    qed
  qed
qed simp



section \<open>Messages to the node itself\<close>

text \<open>
  A run of \<^verbatim>\<open>Listen\<close> and \<^verbatim>\<open>Unsubscribe\<close> calls on a node's direct messaging, with the handlers that were registered, in
  order.
\<close>

datatype dm_op = Op_Listen string "bytes \<Rightarrow> unit nio" | Op_Unsubscribe string

fun dm_ops :: "nats_env \<Rightarrow> dm_op list \<Rightarrow> natsDirectMessaging \<Rightarrow> (natsDirectMessaging \<times> (string \<times> (bytes \<Rightarrow> unit nio)) list) nio" where
  "dm_ops E [] d = State_Monad.return (d, [])"
| "dm_ops E (Op_Listen topic handler # ops) d = do {
     (r, d1) \<leftarrow> dm_Listen E d topic handler;
     (d2, regs) \<leftarrow> dm_ops E ops d1;
     State_Monad.return (d2, (case r of Inl _ \<Rightarrow> [] | Inr _ \<Rightarrow> [(topic, handler)]) @ regs) }"
| "dm_ops E (Op_Unsubscribe topic # ops) d = do {
     _ \<leftarrow> natsSubscription_Unsubscribe E topic;
     dm_ops E ops d }"

definition handlers_of :: "natsDirectMessaging \<Rightarrow> string \<Rightarrow> (bytes \<Rightarrow> unit nio) list" where
  "handlers_of d topic = (case gm_get (dm_handlers d) topic of None \<Rightarrow> [] | Some hs \<Rightarrow> hs)"

abbreviation registered :: "(string \<times> 'h) list \<Rightarrow> string \<Rightarrow> 'h list" where
  "registered regs topic \<equiv> map snd (filter (\<lambda>(t, _). t = topic) regs)"

lemma dm_SendToSelf_handlers:
  "dm_SendToSelf d topic data =
     (if handlers_of d topic = [] then State_Monad.return (Some (errorf (''no handlers found for topic '' @ topic)))
      else do { nio_for (\<lambda>h. h data) (handlers_of d topic); State_Monad.return None })"
  by (auto simp: dm_SendToSelf_def handlers_of_def split: option.split list.split)

lemma dm_Listen_handlers:
  assumes "run_state (dm_Listen E d topic h) tr = ((r, d1), tr1)"
  shows "handlers_of d1 t = handlers_of d t @ (case r of Inl _ \<Rightarrow> [] | Inr _ \<Rightarrow> if t = topic then [h] else [])"
  using assms by (auto simp: dm_Listen_def handlers_of_def gm_simps split: option.splits)

lemma dm_ops_handlers:
  "run_state (dm_ops E ops d) tr = ((d1, regs), tr1) \<Longrightarrow> handlers_of d1 t = handlers_of d t @ registered regs t"
proof (induction E ops d arbitrary: tr d1 regs tr1 rule: dm_ops.induct)
  case (2 E topic handler ops d)
  obtain r d2 tr2 where l: "run_state (dm_Listen E d topic handler) tr = ((r, d2), tr2)"
    by (metis prod.collapse)
  obtain d3 regs3 tr3 where o: "run_state (dm_ops E ops d2) tr2 = ((d3, regs3), tr3)"
    by (metis prod.collapse)
  from 2(2) l o have eq: "d1 = d3" "regs = (case r of Inl _ \<Rightarrow> [] | Inr _ \<Rightarrow> [(topic, handler)]) @ regs3" by simp_all
  from 2(1) [OF o] l dm_Listen_handlers [OF l, of t] show ?case
    by (auto simp: eq split: sum.split)
qed (simp_all add: natsSubscription_Unsubscribe_def)

text \<open>
  C34: a message a node sends to itself reaches every handler that was ever registered for the topic, in the order of the
  registrations, and is refused exactly when there is none. Closing a subscription does not remove its handler, so the
  handlers of finished sessions are still called when a topic is used again.
\<close>

theorem self_delivery:
  assumes "run_state (dm_ops E ops NewNatsDirectMessaging) tr = ((d, regs), tr1)"
  shows "run_state (dm_SendToSelf d topic data) tr2 =
     (if registered regs topic = [] then (Some (errorf (''no handlers found for topic '' @ topic)), tr2)
      else (None, snd (run_state (nio_for (\<lambda>h. h data) (registered regs topic)) tr2)))"
proof -
  have "handlers_of NewNatsDirectMessaging topic = []" by (simp add: handlers_of_def NewNatsDirectMessaging_def)
  then have "handlers_of d topic = registered regs topic" using dm_ops_handlers [OF assms, of topic] by simp
  then show ?thesis by (simp add: dm_SendToSelf_handlers State_Monad.bind_def split_beta)
qed

theorem self_delivery_witness:
  "run_state (dm_SendToSelf (fst (fst (run_state (dm_ops nats_ref [Op_Listen ''t'' (\<lambda>b. nats_do nats_ref (Callback b) \<bind> (\<lambda>_. State_Monad.return ())),
       Op_Unsubscribe ''t''] NewNatsDirectMessaging) []))) ''t'' ''d'') [] = (None, [Callback ''d''])"
proof -
  define h where "h = (\<lambda>b. nats_do nats_ref (Callback b) \<bind> (\<lambda>_. State_Monad.return ()))"
  define ops where "ops = [Op_Listen ''t'' h, Op_Unsubscribe ''t'']"
  have run: "run_state (dm_ops nats_ref ops NewNatsDirectMessaging) [] =
      ((fst (fst (run_state (dm_ops nats_ref ops NewNatsDirectMessaging) [])), [(''t'', h)]),
       [Nc_Subscribe ''t'', Nc_Flush, Nc_Unsubscribe ''t''])"
    by (simp add: ops_def dm_Listen_def nats_ref_def natsSubscription_Unsubscribe_def)
  show ?thesis
    using self_delivery [OF run, of "''t''" "''d''" "[]"] by (simp add: ops_def h_def nats_ref_def)
qed

end
