(* ===== verification/Client.thy ===== *)
theory Client
  imports Signers Messaging Stream_Consumers
begin

text \<open>
  \<^verbatim>\<open>pkg/client/client.go\<close>: the initiator. A request is built, signed over its \<^verbatim>\<open>Raw\<close> bytes and published on the topic of
  its wallet or transaction; results are read from work queues. The locale \<open>client_request\<close> is the contract the three
  request methods share; its interpretations give the end-to-end theorem that a node with the matching key
  accepts what the client publishes.
\<close>

section \<open>The client\<close>

definition StreamName :: string where "StreamName = ''mpc''"
definition KeygenResultQueueName :: string where "KeygenResultQueueName = ''mpc_keygen_result''"
definition SigningResultQueueName :: string where "SigningResultQueueName = ''mpc_signing_result''"
definition ResharingResultQueueName :: string where "ResharingResultQueueName = ''mpc_resharing_result''"

record initiator =
  in_signingBroker :: brokerConfiguration
  in_keygenBroker :: brokerConfiguration
  in_resharingBroker :: brokerConfiguration
  in_keygenResultQueue :: messageQueue
  in_signingResultQueue :: messageQueue
  in_resharingResultQueue :: messageQueue
  in_signer :: Signer

text \<open>A step that ends the process when it failed (\<^verbatim>\<open>logger.Fatal\<close>); the result \<open>None\<close> is such an end.\<close>

definition or_fatal :: "nats_env \<Rightarrow> (go_error + 'a) nio \<Rightarrow> 'a option nio" where
  "or_fatal E m = do {
     r \<leftarrow> m;
     (case r of Inl _ \<Rightarrow> log_Fatal E | Inr x \<Rightarrow> State_Monad.return (Some x)) }"

definition then_do :: "'a option nio \<Rightarrow> ('a \<Rightarrow> 'b option nio) \<Rightarrow> 'b option nio" where
  "then_do m f = do {
     r \<leftarrow> m;
     (case r of None \<Rightarrow> State_Monad.return None | Some x \<Rightarrow> f x) }"

definition NewMPCClient :: "nats_env \<Rightarrow> Signer option \<Rightarrow> initiator option nio" where
  "NewMPCClient E opts_Signer =
     (case opts_Signer of
        None \<Rightarrow> log_Fatal E
      | Some signer \<Rightarrow>
          then_do (or_fatal E (NewJetStreamBroker E SigningBrokerStream [SigningRequestTopic] [])) (\<lambda>signingBroker.
          then_do (or_fatal E (NewJetStreamBroker E KeygenBrokerStream [KeygenRequestTopic] [])) (\<lambda>keygenBroker.
          then_do (or_fatal E (NewJetStreamBroker E ResharingBrokerStream [ResharingRequestTopic] [])) (\<lambda>resharingBroker.
          then_do (NewNATsMessageQueueManager E StreamName [KeygenResultTopic, SigningResultTopic, ResharingResultTopic]) (\<lambda>mgr.
          then_do (NewMessageQueue E mgr KeygenResultQueueName) (\<lambda>keygenResultQueue.
          then_do (NewMessageQueue E mgr SigningResultQueueName) (\<lambda>signingResultQueue.
          then_do (NewMessageQueue E mgr ResharingResultQueueName) (\<lambda>resharingResultQueue.
          State_Monad.return (Some
            \<lparr>in_signingBroker = signingBroker, in_keygenBroker = keygenBroker, in_resharingBroker = resharingBroker,
             in_keygenResultQueue = keygenResultQueue, in_signingResultQueue = signingResultQueue,
             in_resharingResultQueue = resharingResultQueue, in_signer = signer\<rparr>)))))))))"

section \<open>Requests\<close>

definition CreateWallet :: "nats_env \<Rightarrow> bytes \<Rightarrow> initiator \<Rightarrow> string \<Rightarrow> go_error option go_res nio" where
  "CreateWallet E rand c walletID = do {
     let msg = KeygenMessage_zero\<lparr>km_WalletID := walletID\<rparr>;
     let raw = KeygenMessage_Raw msg;
     (case sg_Sign (in_signer c) rand raw of
        Panic \<Rightarrow> State_Monad.return Panic
      | Ret (Inl err) \<Rightarrow> State_Monad.return (Ret (Some (wrapf ''CreateWallet: failed to sign message'' err)))
      | Ret (Inr signature) \<Rightarrow> do {
          let msg = msg\<lparr>km_Signature := Some signature\<rparr>;
          let bytes = Marshal_KeygenMessage msg;
          let topic = FormatKeygenRequestTopic walletID;
          err \<leftarrow> PublishMessage E topic bytes;
          State_Monad.return (Ret (map_option (wrapf ''CreateWallet: publish error'') err)) }) }"

definition SignTransaction :: "nats_env \<Rightarrow> bytes \<Rightarrow> initiator \<Rightarrow> SigningMessage \<Rightarrow> go_error option go_res nio" where
  "SignTransaction E rand c msg = do {
     let raw = SigningMessage_Raw msg;
     (case sg_Sign (in_signer c) rand raw of
        Panic \<Rightarrow> State_Monad.return Panic
      | Ret (Inl err) \<Rightarrow> State_Monad.return (Ret (Some (wrapf ''SignTransaction: failed to sign message'' err)))
      | Ret (Inr signature) \<Rightarrow> do {
          let msg = msg\<lparr>sm_Signature := Some signature\<rparr>;
          let bytes = Marshal_SigningMessage msg;
          let topic = FormatSigningRequestTopic (sm_TxID msg);
          err \<leftarrow> PublishMessage E topic bytes;
          State_Monad.return (Ret (map_option (wrapf ''SignTransaction: publish error'') err)) }) }"

definition Resharing :: "nats_env \<Rightarrow> bytes \<Rightarrow> initiator \<Rightarrow> ResharingMessage \<Rightarrow> go_error option go_res nio" where
  "Resharing E rand c msg = do {
     let raw = ResharingMessage_Raw msg;
     (case sg_Sign (in_signer c) rand raw of
        Panic \<Rightarrow> State_Monad.return Panic
      | Ret (Inl err) \<Rightarrow> State_Monad.return (Ret (Some (wrapf ''Resharing: failed to sign message'' err)))
      | Ret (Inr signature) \<Rightarrow> do {
          let msg = msg\<lparr>rm_Signature := Some signature\<rparr>;
          let bytes = Marshal_ResharingMessage msg;
          let topic = FormatResharingRequestTopic (rm_WalletID msg);
          err \<leftarrow> PublishMessage E topic bytes;
          State_Monad.return (Ret (map_option (wrapf ''Resharing: publish error'') err)) }) }"

section \<open>Results\<close>

text \<open>The handlers the client passes to \<^verbatim>\<open>Dequeue\<close>.\<close>

definition on_wallet_creation_result :: "(KeygenResponse \<Rightarrow> unit nio) \<Rightarrow> bytes \<Rightarrow> go_error option nio" where
  "on_wallet_creation_result callback msg =
     (case Unmarshal_KeygenResponse msg of
        (_, Some err) \<Rightarrow> State_Monad.return (Some err)
      | (event, None) \<Rightarrow> do { callback event; State_Monad.return None })"

definition on_sign_result :: "(SigningResponse \<Rightarrow> unit nio) \<Rightarrow> bytes \<Rightarrow> go_error option nio" where
  "on_sign_result callback msg =
     (case Unmarshal_SigningResponse msg of
        (_, Some err) \<Rightarrow> State_Monad.return (Some err)
      | (event, None) \<Rightarrow> do { callback event; State_Monad.return None })"

definition on_resharing_result :: "(ResharingResponse \<Rightarrow> unit nio) \<Rightarrow> bytes \<Rightarrow> go_error option nio" where
  "on_resharing_result callback msg =
     (case Unmarshal_ResharingResponse msg of
        (_, Some err) \<Rightarrow> State_Monad.return (Some err)
      | (event, None) \<Rightarrow> do { callback event; State_Monad.return None })"

definition OnWalletCreationResult :: "nats_env \<Rightarrow> initiator \<Rightarrow> (go_error option \<times> initiator) nio" where
  "OnWalletCreationResult E c = do {
     (err, q) \<leftarrow> mq_Dequeue E (in_keygenResultQueue c) KeygenResultTopic;
     State_Monad.return (map_option (wrapf ''OnWalletCreationResult: subscribe error'') err, c\<lparr>in_keygenResultQueue := q\<rparr>) }"

definition OnSignResult :: "nats_env \<Rightarrow> initiator \<Rightarrow> (go_error option \<times> initiator) nio" where
  "OnSignResult E c = do {
     (err, q) \<leftarrow> mq_Dequeue E (in_signingResultQueue c) SigningResultCompleteTopic;
     State_Monad.return (map_option (wrapf ''OnSignResult: subscribe error'') err, c\<lparr>in_signingResultQueue := q\<rparr>) }"

definition OnResharingResult :: "nats_env \<Rightarrow> initiator \<Rightarrow> (go_error option \<times> initiator) nio" where
  "OnResharingResult E c = do {
     (err, q) \<leftarrow> mq_Dequeue E (in_resharingResultQueue c) ResharingResultTopic;
     State_Monad.return (map_option (wrapf ''OnResharingResult: subscribe error'') err, c\<lparr>in_resharingResultQueue := q\<rparr>) }"

section \<open>The contract of a request\<close>

text \<open>
  What the three request methods have in common: sign the \<^verbatim>\<open>Raw\<close> bytes, store the signature, publish the encoded request
  on its topic; a signer that fails publishes nothing.
\<close>

locale client_request = wire_message raw sig put_sig marshal unmarshal wf
  for raw :: "'m \<Rightarrow> bytes" and sig :: "'m \<Rightarrow> slice" and put_sig :: "slice \<Rightarrow> 'm \<Rightarrow> 'm"
    and marshal :: "'m \<Rightarrow> bytes" and unmarshal :: "bytes \<Rightarrow> 'm \<times> go_error option" and wf :: "'m \<Rightarrow> bool" +
  fixes request :: "nats_env \<Rightarrow> bytes \<Rightarrow> initiator \<Rightarrow> 'm \<Rightarrow> go_error option go_res nio"
    and topic :: "'m \<Rightarrow> string"
    and message :: "'m \<Rightarrow> InitiatorMessage"
    and sign_error :: "go_error \<Rightarrow> go_error"
    and publish_error :: "go_error \<Rightarrow> go_error"
  assumes put_put: "put_sig a (put_sig b m) = put_sig a m"
    and message_raw: "Raw (message m) = raw m"
    and message_sig: "Sig (message m) = sig m"
    and request_run: "run_state (request E rand c m) tr =
       (case sg_Sign (in_signer c) rand (raw m) of
          Panic \<Rightarrow> (Panic, tr)
        | Ret (Inl err) \<Rightarrow> (Ret (Some (sign_error err)), tr)
        | Ret (Inr s) \<Rightarrow>
            (let (r, tr') = run_state (PublishMessage E (topic m) (marshal (put_sig (Some s) m))) tr
             in (Ret (map_option publish_error r), tr')))"
begin

lemma request_footprint:
  assumes "run_state (request E rand c m) tr = (r, tr1)"
  shows "tr1 = tr \<and> r \<noteq> Ret None \<or>
     (\<exists>s. sg_Sign (in_signer c) rand (raw m) = Ret (Inr s) \<and> tr1 = tr @ [Js_Publish (topic m) (marshal (put_sig (Some s) m))])"
  using assms
  by (auto simp: request_run PublishMessage_def split: go_res.splits sum.splits if_splits prod.splits)

lemma request_accepted:
  assumes "wf m" and "signer_matches C (in_signer c) (initiatorKey fs)" and "initiator_key_ok (initiatorKey fs)"
    and "run_state (request E rand c m) tr = (Ret None, tr1)"
  shows "\<exists>data m'. tr1 = tr @ [Js_Publish (topic m) data] \<and> unmarshal data = (m', None) \<and> put_sig None m' = put_sig None m
     \<and> VerifyInitiatorMessage C fs (message m') = Ret None"
proof -
  from request_footprint [OF assms(4)] obtain s where s: "sg_Sign (in_signer c) rand (raw m) = Ret (Inr s)"
    and tr1: "tr1 = tr @ [Js_Publish (topic m) (marshal (put_sig (Some s) m))]" by auto
  let ?m = "put_sig (Some s) m"
  have acc: "initiator_accepts C (initiatorKey fs) (raw m) s"
    using assms(2) s unfolding signer_matches_def by blast
  then have "s \<noteq> []" unfolding initiator_accepts_def by simp
  then have "unmarshal (marshal ?m) = (?m, None)" using codec wf_put_sig [OF assms(1)] by simp
  moreover have "VerifyInitiatorMessage C fs (message ?m) = Ret None"
    using VerifyInitiatorMessage_iff [OF assms(3), of C "message ?m"] acc
    by (auto simp: message_raw message_sig raw_put_sig sig_put_sig)
  ultimately show ?thesis using tr1 put_put by blast
qed

end

interpretation client_keygen: client_request KeygenMessage_Raw KeygenMessage_Sig
  "\<lambda>s. km_Signature_update (\<lambda>_. s)" Marshal_KeygenMessage Unmarshal_KeygenMessage "\<lambda>m. True"
  "\<lambda>E rand c m. CreateWallet E rand c (km_WalletID m)" "\<lambda>m. FormatKeygenRequestTopic (km_WalletID m)" IKeygen
  "wrapf ''CreateWallet: failed to sign message''" "wrapf ''CreateWallet: publish error''"
proof unfold_locales
  fix E :: nats_env and rand c tr and m :: KeygenMessage
  have m: "\<lparr>km_WalletID = km_WalletID m, km_Signature = x\<rparr> = m\<lparr>km_Signature := x\<rparr>" for x by (cases m) simp
  show "run_state (CreateWallet E rand c (km_WalletID m)) tr =
       (case sg_Sign (in_signer c) rand (KeygenMessage_Raw m) of
          Panic \<Rightarrow> (Panic, tr)
        | Ret (Inl err) \<Rightarrow> (Ret (Some (wrapf ''CreateWallet: failed to sign message'' err)), tr)
        | Ret (Inr s) \<Rightarrow>
            (let (r, tr') = run_state (PublishMessage E (FormatKeygenRequestTopic (km_WalletID m))
                   (Marshal_KeygenMessage (m\<lparr>km_Signature := Some s\<rparr>))) tr
             in (Ret (map_option (wrapf ''CreateWallet: publish error'') r), tr')))"
    by (simp add: CreateWallet_def KeygenMessage_Raw_def KeygenMessage_zero_def Let_def m
        split: go_res.split sum.split prod.split)
qed simp_all

interpretation client_signing: client_request SigningMessage_Raw SigningMessage_Sig
  "\<lambda>s. sm_Signature_update (\<lambda>_. s)" Marshal_SigningMessage Unmarshal_SigningMessage "\<lambda>m. True"
  SignTransaction "\<lambda>m. FormatSigningRequestTopic (sm_TxID m)" ISigning
  "wrapf ''SignTransaction: failed to sign message''" "wrapf ''SignTransaction: publish error''"
  by unfold_locales (simp_all add: SignTransaction_def Let_def split: go_res.split sum.split prod.split)

interpretation client_resharing: client_request ResharingMessage_Raw ResharingMessage_Sig
  "\<lambda>s. rm_Signature_update (\<lambda>_. s)" Marshal_ResharingMessage Unmarshal_ResharingMessage ResharingMessage_wf
  Resharing "\<lambda>m. FormatResharingRequestTopic (rm_WalletID m)" IResharing
  "wrapf ''Resharing: failed to sign message''" "wrapf ''Resharing: publish error''"
  by unfold_locales (simp_all add: Resharing_def Let_def split: go_res.split sum.split prod.split)

section \<open>Properties\<close>

lemma empty_key_not_loaded: "loadInitiatorKeys C a [] \<noteq> Inr k"
  by (auto simp: loadInitiatorKeys_def Let_def loadEd25519InitiatorKey_def loadP256InitiatorKey_def split: if_splits)

lemma configured_node_matches:
  assumes "crypto_ok C" and "made_signer C sg" and "sg_PublicKey sg = Inr pub"
    and "loadInitiatorKeys C (sg_Algorithm sg) pub = Inr key"
  shows "signer_matches C sg key \<and> initiator_key_ok key"
proof -
  have "pub \<noteq> []" using assms(4) empty_key_not_loaded by blast
  from made_signer_loads [OF assms(1-3) this] assms(4) loadInitiatorKeys_ok [OF assms(4)] show ?thesis by auto
qed


definition client_ref :: initiator where
  "client_ref =
     \<lparr>in_signingBroker = default_broker_configuration SigningBrokerStream [SigningRequestTopic],
      in_keygenBroker = default_broker_configuration KeygenBrokerStream [KeygenRequestTopic],
      in_resharingBroker = default_broker_configuration ResharingBrokerStream [ResharingRequestTopic],
      in_keygenResultQueue = \<lparr>mq_consumerName = KeygenResultQueueName, mq_consumer = queue_consumer_config StreamName KeygenResultQueueName, mq_context = False\<rparr>,
      in_signingResultQueue = \<lparr>mq_consumerName = SigningResultQueueName, mq_consumer = queue_consumer_config StreamName SigningResultQueueName, mq_context = False\<rparr>,
      in_resharingResultQueue = \<lparr>mq_consumerName = ResharingResultQueueName, mq_consumer = queue_consumer_config StreamName ResharingResultQueueName, mq_context = False\<rparr>,
      in_signer = local_Signer crypto_ref local_signer_ref\<rparr>"

definition client_store_ref :: fileStore where
  "client_store_ref =
     \<lparr>publicKeys = [], privateKey = [],
      initiatorKey = \<lparr>ik_Algorithm = ''ed25519'', ik_Ed25519 = replicate 32 CHR ''a'', ik_P256 = None\<rparr>, symmetricKeys = []\<rparr>"


lemma json_error_not_permanent: "json_Unmarshal d s r = (r', Some e) \<Longrightarrow> errors_Is e ErrPermanent \<Longrightarrow> False"
  by (auto simp: json_Unmarshal_def json_syntax_error_def json_type_error_def split: sum.splits prod.splits if_splits json_err.splits)

lemma queue_filters:
  "cc_FilterSubjects (queue_consumer_config StreamName KeygenResultQueueName) = [KeygenResultTopic]"
  "cc_FilterSubjects (queue_consumer_config StreamName SigningResultQueueName) = [SigningResultTopic]"
  "cc_FilterSubjects (queue_consumer_config StreamName ResharingResultQueueName) = [ResharingResultTopic]"
  by code_simp+

lemma run_then_do:
  "run_state (then_do m f) tr =
     (case run_state m tr of (None, tr1) \<Rightarrow> (None, tr1) | (Some x, tr1) \<Rightarrow> run_state (f x) tr1)"
  by (simp add: then_do_def State_Monad.bind_def split: option.split prod.split)

lemma then_do_Some:
  "run_state (then_do m f) tr = (Some c, tr1) \<Longrightarrow> \<exists>x tr2. run_state m tr = (Some x, tr2) \<and> run_state (f x) tr2 = (Some c, tr1)"
  by (auto simp: run_then_do split: prod.splits option.splits)

lemma NewMessageQueue_consumer:
  "run_state (NewMessageQueue E q n) tr = (Some mq, tr1) \<Longrightarrow> mq_consumer mq = queue_consumer_config q n"
  by (auto simp: NewMessageQueue_def log_Fatal_def Let_def split: if_splits)

lemma NewNATsMessageQueueManager_name:
  "run_state (NewNATsMessageQueueManager E q subjects) tr = (Some m, tr1) \<Longrightarrow> m = q"
  by (auto simp: NewNATsMessageQueueManager_def log_Fatal_def split: if_splits)

lemma NewMPCClient_queues:
  assumes "run_state (NewMPCClient E (Some sg)) tr = (Some c, tr1)"
  shows "mq_consumer (in_keygenResultQueue c) = queue_consumer_config StreamName KeygenResultQueueName
    \<and> mq_consumer (in_signingResultQueue c) = queue_consumer_config StreamName SigningResultQueueName
    \<and> mq_consumer (in_resharingResultQueue c) = queue_consumer_config StreamName ResharingResultQueueName
    \<and> in_signer c = sg"
  using assms unfolding NewMPCClient_def option.case
  by (auto dest!: then_do_Some NewMessageQueue_consumer NewNATsMessageQueueManager_name)

lemma dequeue_settles:
  "run_state (dequeue_message E handler data) tr =
     (let (r, tr1) = run_state (handler data) tr
      in ((), tr1 @ [case r of None \<Rightarrow> Msg_Ack | Some e \<Rightarrow> if errors_Is e ErrPermanent then Msg_Term else Msg_Nak]))"
  by (simp add: dequeue_message_def split: option.split prod.split)

text \<open>
  C15: results reach the client's callbacks. The queues of a new client read exactly the result topics. A result that a
  node encoded is handed to the callback once, unchanged, and then acknowledged; data that does not decode is given back
  for redelivery without a callback, and never terminated.
\<close>

theorem client_results_delivered:
  assumes "run_state (NewMPCClient E (Some sg)) tr0 = (Some c, tr1)"
  shows "cc_FilterSubjects (mq_consumer (in_keygenResultQueue c)) = [KeygenResultTopic]
    \<and> cc_FilterSubjects (mq_consumer (in_signingResultQueue c)) = [SigningResultTopic]
    \<and> cc_FilterSubjects (mq_consumer (in_resharingResultQueue c)) = [ResharingResultTopic]
    \<and> snd (run_state (dequeue_message E (on_wallet_creation_result kcb) (Marshal_KeygenResponse kr)) tr) =
        snd (run_state (kcb kr) tr) @ [Msg_Ack]
    \<and> snd (run_state (dequeue_message E (on_sign_result scb) (Marshal_SigningResponse sr)) tr) =
        snd (run_state (scb sr) tr) @ [Msg_Ack]
    \<and> (in_int64 (rr_NewThreshold rr) \<longrightarrow>
        snd (run_state (dequeue_message E (on_resharing_result rcb) (Marshal_ResharingResponse rr)) tr) =
          snd (run_state (rcb rr) tr) @ [Msg_Ack])
    \<and> (snd (Unmarshal_SigningResponse data) \<noteq> None \<longrightarrow>
        snd (run_state (dequeue_message E (on_sign_result scb) data) tr) = tr @ [Msg_Nak])
    \<and> (snd (Unmarshal_KeygenResponse data) \<noteq> None \<longrightarrow>
        snd (run_state (dequeue_message E (on_wallet_creation_result kcb) data) tr) = tr @ [Msg_Nak])
    \<and> (snd (Unmarshal_ResharingResponse data) \<noteq> None \<longrightarrow>
        snd (run_state (dequeue_message E (on_resharing_result rcb) data) tr) = tr @ [Msg_Nak])"
proof (intro conjI impI)
  show "cc_FilterSubjects (mq_consumer (in_keygenResultQueue c)) = [KeygenResultTopic]"
    "cc_FilterSubjects (mq_consumer (in_signingResultQueue c)) = [SigningResultTopic]"
    "cc_FilterSubjects (mq_consumer (in_resharingResultQueue c)) = [ResharingResultTopic]"
    using NewMPCClient_queues [OF assms] by (simp_all add: queue_filters)
  show "snd (run_state (dequeue_message E (on_wallet_creation_result kcb) (Marshal_KeygenResponse kr)) tr) =
        snd (run_state (kcb kr) tr) @ [Msg_Ack]"
    "snd (run_state (dequeue_message E (on_sign_result scb) (Marshal_SigningResponse sr)) tr) =
        snd (run_state (scb sr) tr) @ [Msg_Ack]"
    by (simp_all add: dequeue_settles on_wallet_creation_result_def on_sign_result_def KeygenResponse_codec
        SigningResponse_codec State_Monad.bind_def split_beta)
  show "in_int64 (rr_NewThreshold rr) \<Longrightarrow> snd (run_state (dequeue_message E (on_resharing_result rcb) (Marshal_ResharingResponse rr)) tr) =
        snd (run_state (rcb rr) tr) @ [Msg_Ack]"
    by (simp add: dequeue_settles on_resharing_result_def ResharingResponse_codec State_Monad.bind_def split_beta)
  note nak = dequeue_settles on_wallet_creation_result_def on_sign_result_def on_resharing_result_def
    Unmarshal_KeygenResponse_def Unmarshal_SigningResponse_def Unmarshal_ResharingResponse_def
  show "snd (Unmarshal_SigningResponse data) \<noteq> None \<Longrightarrow> snd (run_state (dequeue_message E (on_sign_result scb) data) tr) = tr @ [Msg_Nak]"
    "snd (Unmarshal_KeygenResponse data) \<noteq> None \<Longrightarrow> snd (run_state (dequeue_message E (on_wallet_creation_result kcb) data) tr) = tr @ [Msg_Nak]"
    "snd (Unmarshal_ResharingResponse data) \<noteq> None \<Longrightarrow> snd (run_state (dequeue_message E (on_resharing_result rcb) data) tr) = tr @ [Msg_Nak]"
    by (auto simp: nak split: prod.splits) (erule (1) json_error_not_permanent)+
qed

theorem client_results_delivered_witness:
  "\<exists>c. fst (run_state (NewMPCClient nats_ref (Some (local_Signer crypto_ref local_signer_ref))) []) = Some c
     \<and> cc_FilterSubjects (mq_consumer (in_signingResultQueue c)) = [''mpc.mpc_signing_result.*'']
     \<and> snd (run_state (dequeue_message nats_ref (on_sign_result (\<lambda>r. State (\<lambda>tr. ((), tr @ [Callback (sr_TxID r)]))))
          (Marshal_SigningResponse (SigningResponse_zero\<lparr>sr_TxID := ''t''\<rparr>))) []) = [Callback ''t'', Msg_Ack]"
proof -
  define run where "run = run_state (NewMPCClient nats_ref (Some (local_Signer crypto_ref local_signer_ref))) []"
  have c: "fst run = Some client_ref"
    by (simp add: run_def NewMPCClient_def run_then_do or_fatal_def NewJetStreamBroker_def ensureStreamExists_def nats_ref_def
        Let_def NewNATsMessageQueueManager_def NewMessageQueue_def client_ref_def)
  then have "run_state (NewMPCClient nats_ref (Some (local_Signer crypto_ref local_signer_ref))) [] = (Some client_ref, snd run)"
    unfolding run_def by (metis prod.collapse)
  from client_results_delivered [OF this, where scb = "\<lambda>r. State (\<lambda>tr. ((), tr @ [Callback (sr_TxID r)]))"
      and sr = "SigningResponse_zero\<lparr>sr_TxID := ''t''\<rparr>" and tr = "[]"] c
  show ?thesis unfolding run_def [symmetric] by (intro exI [of _ client_ref] conjI) (simp_all add: SigningResultTopic_def)
qed

end
