(* ===== verification/Identity_Files.thy ===== *)
theory Identity_Files
  imports Identity_Store File_Path
begin

text \<open>
  Loading a node's identity store (\<^verbatim>\<open>NewFileStore\<close> and \<^verbatim>\<open>loadPrivateKey\<close> of \<^verbatim>\<open>pkg/identity/identity.go\<close>): the private key
  file, plain or encrypted with age, the initiator's public key from the configuration, \<^verbatim>\<open>peers.json\<close>, and the identity
  file of every peer. The order in which Go walks the map of peers is the argument \<open>ord\<close>. The theorem says what a
  store that was loaded without an error holds.
\<close>

section \<open>Files of a node\<close>

record NodeIdentity =
  ni_NodeName :: string
  ni_NodeID :: string
  ni_PublicKey :: string
  ni_CreatedAt :: string

definition NodeIdentity_fields :: "(string \<times> NodeIdentity decoder) list" where
  "NodeIdentity_fields =
     [(''node_name'', fld_str ni_NodeName_update), (''node_id'', fld_str ni_NodeID_update),
      (''public_key'', fld_str ni_PublicKey_update), (''created_at'', fld_str ni_CreatedAt_update)]"

definition Unmarshal_NodeIdentity :: "bytes \<Rightarrow> NodeIdentity \<times> go_error option" where
  "Unmarshal_NodeIdentity data =
     json_Unmarshal (decode_struct NodeIdentity_fields) data \<lparr>ni_NodeName = [], ni_NodeID = [], ni_PublicKey = [], ni_CreatedAt = []\<rparr>"

text \<open>Decoding into a \<^verbatim>\<open>map[string]string\<close>: the last of several equal keys wins, \<^verbatim>\<open>null\<close> gives the empty string.\<close>

fun decode_string_members :: "(string \<times> json) list \<Rightarrow> string gomap \<Rightarrow> string gomap \<times> bool" where
  "decode_string_members [] m = (m, False)"
| "decode_string_members ((k, v) # ms) m =
     (let (s, bad) = str_elem v; (m2, bad2) = decode_string_members ms (gm_put k s m) in (m2, bad \<or> bad2))"

definition decode_string_map :: "string gomap decoder" where
  "decode_string_map j m =
     (case j of JNull \<Rightarrow> (m, False) | JObj ms \<Rightarrow> decode_string_members ms m | _ \<Rightarrow> (m, True))"

definition Unmarshal_peers :: "bytes \<Rightarrow> string gomap \<times> go_error option" where
  "Unmarshal_peers data = json_Unmarshal decode_string_map data []"

section \<open>Loading\<close>

text \<open>
  What the loader reads beside the files: the working directory, the passphrase typed at the terminal, the result of
  creating the identity directory, and the two settings for the initiator.
\<close>

record identity_env =
  ie_Getwd :: "go_error + string"
  ie_ReadPassword :: "go_error + string"
  ie_MkdirAll :: "string \<Rightarrow> go_error option"
  ie_EventInitiatorAlgorithm :: string
  ie_EventInitiatorPubKey :: string

definition read_passphrase :: "files \<Rightarrow> identity_env \<Rightarrow> string \<Rightarrow> go_error + string" where
  "read_passphrase F I agePasswordFile =
     (if agePasswordFile \<noteq> [] then
        (case fl_ReadFile F agePasswordFile of
           Inl err \<Rightarrow> Inl (wrapf (''failed to read age key file '' @ agePasswordFile) err)
         | Inr data \<Rightarrow> Inr (strings_TrimSpace data))
      else
        (case ie_ReadPassword I of
           Inl err \<Rightarrow> Inl (wrapf ''failed to read passphrase'' err)
         | Inr bytePassword \<Rightarrow> Inr bytePassword))"

definition loadPrivateKey ::
  "files \<Rightarrow> age_lib \<Rightarrow> identity_env \<Rightarrow> string \<Rightarrow> string \<Rightarrow> bool \<Rightarrow> string \<Rightarrow> go_error + string" where
  "loadPrivateKey F A I identityDir nodeName decrypt agePasswordFile =
     (case SafePath (ie_Getwd I) identityDir (nodeName @ ''_private.key.age'') of
        Inl err \<Rightarrow> Inl (wrapf (''invalid encrypted key path for node '' @ nodeName) err)
      | Inr encryptedKeyPath \<Rightarrow>
          (case SafePath (ie_Getwd I) identityDir (nodeName @ ''_private.key'') of
             Inl err \<Rightarrow> Inl (wrapf (''invalid unencrypted key path for node '' @ nodeName) err)
           | Inr unencryptedKeyPath \<Rightarrow>
               if decrypt then
                 (case fl_Stat F encryptedKeyPath of
                    Some err \<Rightarrow> Inl (wrapf (''failed to check encrypted private key for node '' @ nodeName @ '' at '' @ encryptedKeyPath) err)
                  | None \<Rightarrow>
                      (case fl_ReadFile F encryptedKeyPath of
                         Inl err \<Rightarrow> Inl (wrapf ''failed to open encrypted key file'' err)
                       | Inr encryptedFile \<Rightarrow>
                           (case read_passphrase F I agePasswordFile of
                              Inl err \<Rightarrow> Inl err
                            | Inr passphrase \<Rightarrow>
                                (case ag_NewScryptIdentity A passphrase of
                                   Some err \<Rightarrow> Inl (wrapf ''failed to create identity for decryption'' err)
                                 | None \<Rightarrow>
                                     (case ag_Decrypt A passphrase encryptedFile of
                                        Some err \<Rightarrow> Inl (wrapf ''failed to decrypt private key'' err)
                                      | None \<Rightarrow>
                                          (case ag_ReadAll A passphrase encryptedFile of
                                             Inl err \<Rightarrow> Inl (wrapf ''failed to read decrypted key'' err)
                                           | Inr decryptedData \<Rightarrow> Inr decryptedData))))))
               else
                 (case fl_Stat F unencryptedKeyPath of
                    Some err \<Rightarrow> Inl (errorf (''no unencrypted private key found for node '' @ nodeName))
                  | None \<Rightarrow>
                      (case fl_ReadFile F unencryptedKeyPath of
                         Inl err \<Rightarrow> Inl (wrapf ''failed to read private key file'' err)
                       | Inr privateKeyData \<Rightarrow> Inr privateKeyData))))"

text \<open>One turn of the loop over \<^verbatim>\<open>peers.json\<close>: the checked key of one peer.\<close>

definition load_peer :: "files \<Rightarrow> identity_env \<Rightarrow> string \<Rightarrow> string \<Rightarrow> string \<Rightarrow> go_error + bytes" where
  "load_peer F I identityDir nodeName nodeID =
     (case SafePath (ie_Getwd I) identityDir (nodeName @ ''_identity.json'') of
        Inl err \<Rightarrow> Inl (wrapf (''invalid identity file path for node '' @ nodeName) err)
      | Inr identityFilePath \<Rightarrow>
          (case fl_ReadFile F identityFilePath of
             Inl err \<Rightarrow> Inl (wrapf (''missing identity file for node '' @ nodeName @ '' ('' @ nodeID @ '')'') err)
           | Inr data \<Rightarrow>
               (case Unmarshal_NodeIdentity data of
                  (_, Some err) \<Rightarrow> Inl (wrapf (''failed to parse identity file for node '' @ nodeName) err)
                | (identity, None) \<Rightarrow>
                    if ni_NodeID identity \<noteq> nodeID then
                      Inl (errorf (''node ID mismatch for '' @ nodeName @ '': '' @ nodeID @ '' in peers.json vs ''
                        @ ni_NodeID identity @ '' in identity file''))
                    else (case hex_DecodeString (ni_PublicKey identity) of
                            Inl err \<Rightarrow> Inl (wrapf (''invalid public key format for node '' @ nodeName) err)
                          | Inr key \<Rightarrow> Inr key))))"

fun load_peers :: "files \<Rightarrow> identity_env \<Rightarrow> string \<Rightarrow> string gomap \<Rightarrow> bytes gomap \<Rightarrow> go_error + bytes gomap" where
  "load_peers F I identityDir [] keys = Inr keys"
| "load_peers F I identityDir ((nodeName, nodeID) # peers) keys =
     (case load_peer F I identityDir nodeName nodeID of
        Inl err \<Rightarrow> Inl err
      | Inr key \<Rightarrow> load_peers F I identityDir peers (gm_put nodeID key keys))"

definition NewFileStore ::
  "crypto \<Rightarrow> files \<Rightarrow> age_lib \<Rightarrow> identity_env \<Rightarrow> (string gomap \<Rightarrow> string gomap) \<Rightarrow> string \<Rightarrow> string \<Rightarrow> bool \<Rightarrow> string
     \<Rightarrow> go_error + fileStore" where
  "NewFileStore C F A I ord identityDir nodeName decrypt agePasswordFile =
     (case ie_MkdirAll I identityDir of
        Some err \<Rightarrow> Inl (wrapf ''failed to create identity directory'' err)
      | None \<Rightarrow>
          (case loadPrivateKey F A I identityDir nodeName decrypt agePasswordFile of
             Inl err \<Rightarrow> Inl err
           | Inr privateKeyHex \<Rightarrow>
               (case hex_DecodeString privateKeyHex of
                  Inl err \<Rightarrow> Inl (wrapf ''invalid private key format'' err)
                | Inr privKey \<Rightarrow>
                    (case loadInitiatorKeys C (ie_EventInitiatorAlgorithm I) (ie_EventInitiatorPubKey I) of
                       Inl err \<Rightarrow> Inl err
                     | Inr initKey \<Rightarrow>
                         (case fl_ReadFile F ''peers.json'' of
                            Inl err \<Rightarrow> Inl (wrapf ''failed to read peers.json'' err)
                          | Inr peersData \<Rightarrow>
                              (case Unmarshal_peers peersData of
                                 (_, Some err) \<Rightarrow> Inl (wrapf ''failed to parse peers.json'' err)
                               | (peers, None) \<Rightarrow>
                                   (case load_peers F I identityDir (ord peers) [] of
                                      Inl err \<Rightarrow> Inl err
                                    | Inr keys \<Rightarrow>
                                        Inr \<lparr>publicKeys = keys, privateKey = privKey, initiatorKey = initKey,
                                             symmetricKeys = []\<rparr>)))))))"

section \<open>What a loaded store holds\<close>

lemma load_peers_dom:
  "load_peers F I dir peers keys = Inr keys' \<Longrightarrow> dom (gm_get keys') = dom (gm_get keys) \<union> snd ` set peers"
proof (induction peers arbitrary: keys)
  case (Cons p peers)
  then show ?case by (cases p) (auto simp: gm_simps split: sum.splits if_splits)
qed simp

lemma load_peers_all:
  "load_peers F I dir peers keys = Inr keys' \<Longrightarrow> (n, i) \<in> set peers \<Longrightarrow> \<exists>key. load_peer F I dir n i = Inr key"
proof (induction peers arbitrary: keys)
  case (Cons p peers)
  then show ?case by (cases p) (auto split: sum.splits)
qed simp

lemma load_peers_key:
  "load_peers F I dir peers keys = Inr keys' \<Longrightarrow> gm_get keys' i = Some key \<Longrightarrow>
   gm_get keys i = Some key \<or> (\<exists>n. (n, i) \<in> set peers \<and> load_peer F I dir n i = Inr key)"
proof (induction peers arbitrary: keys)
  case (Cons p peers)
  obtain n j where p: "p = (n, j)" by fastforce
  with Cons.prems obtain k where k: "load_peer F I dir n j = Inr k" "load_peers F I dir peers (gm_put j k keys) = Inr keys'"
    by (auto split: sum.splits)
  from Cons.IH [OF k(2) Cons.prems(2)] k(1) p show ?case by (auto simp: gm_simps split: if_splits)
qed simp

text \<open>The identity file of a peer, inside the identity directory, names the peer and carries the key.\<close>

definition identity_file_key :: "files \<Rightarrow> identity_env \<Rightarrow> string \<Rightarrow> string \<Rightarrow> string \<Rightarrow> bytes \<Rightarrow> bool" where
  "identity_file_key F I dir nodeName nodeID key \<longleftrightarrow>
     (\<exists>path data identity. SafePath (ie_Getwd I) dir (nodeName @ ''_identity.json'') = Inr path \<and> fl_ReadFile F path = Inr data
        \<and> Unmarshal_NodeIdentity data = (identity, None) \<and> ni_NodeID identity = nodeID
        \<and> hex_DecodeString (ni_PublicKey identity) = Inr key)"

lemma load_peer_iff: "load_peer F I dir n i = Inr key \<longleftrightarrow> identity_file_key F I dir n i key"
  by (auto simp: load_peer_def identity_file_key_def split: sum.splits prod.splits option.splits if_splits)

section \<open>Properties\<close>

text \<open>
  C14: a store that loads is complete and checked. When \<^verbatim>\<open>NewFileStore\<close> returns a store, in whatever order it walked the
  peers, the store has a usable initiator key and no symmetric keys; every peer of \<^verbatim>\<open>peers.json\<close> has an identity file
  inside the identity directory that names its node ID and a key in hex; and a node's public key is known exactly when
  \<^verbatim>\<open>peers.json\<close> lists the node, and then it is the key of an identity file for that node.
\<close>

theorem file_store_loaded:
  assumes "NewFileStore C F A I ord dir nodeName decrypt agePasswordFile = Inr s" and "\<And>m. set (ord m) = set m"
  shows "initiator_key_ok (initiatorKey s) \<and> symmetricKeys s = []
    \<and> (\<exists>data peers. fl_ReadFile F ''peers.json'' = Inr data \<and> Unmarshal_peers data = (peers, None)
        \<and> (\<forall>(n, i) \<in> set peers. \<exists>key. identity_file_key F I dir n i key)
        \<and> (\<forall>i. (\<exists>key. GetPublicKey i s = Inr key) \<longleftrightarrow> i \<in> snd ` set peers)
        \<and> (\<forall>i key. GetPublicKey i s = Inr key \<longrightarrow> (\<exists>n. (n, i) \<in> set peers \<and> identity_file_key F I dir n i key)))"
proof -
  from assms(1) obtain initKey data peers keys where
    init: "loadInitiatorKeys C (ie_EventInitiatorAlgorithm I) (ie_EventInitiatorPubKey I) = Inr initKey"
    and data: "fl_ReadFile F ''peers.json'' = Inr data" "Unmarshal_peers data = (peers, None)"
    and keys: "load_peers F I dir (ord peers) [] = Inr keys"
    and s: "initiatorKey s = initKey" "publicKeys s = keys" "symmetricKeys s = []"
    by (auto simp: NewFileStore_def split: option.splits sum.splits prod.splits)
  have get: "GetPublicKey i s = Inr key \<longleftrightarrow> gm_get keys i = Some key" for i key
    by (auto simp: GetPublicKey_def s(2) split: option.splits)
  have "\<forall>(n, i) \<in> set peers. \<exists>key. identity_file_key F I dir n i key"
    using load_peers_all [OF keys] assms(2) by (auto simp: load_peer_iff)
  moreover have "(\<exists>key. GetPublicKey i s = Inr key) \<longleftrightarrow> i \<in> snd ` set peers" for i
    using load_peers_dom [OF keys] assms(2) by (auto simp: get dom_def)
  moreover have "\<exists>n. (n, i) \<in> set peers \<and> identity_file_key F I dir n i key" if "GetPublicKey i s = Inr key" for i key
    using load_peers_key [OF keys, of i key] that assms(2) by (auto simp: get load_peer_iff)
  ultimately show ?thesis using loadInitiatorKeys_ok [OF init] data s by blast
qed

definition node_files_ref :: files where
  "node_files_ref = \<lparr>fl_Stat = \<lambda>_. None,
     fl_ReadFile = \<lambda>p.
       if p = ''peers.json'' then Inr (json_print (JObj [(''node0'', JStr ''id0'')]))
       else if p = ''identity/node0_private.key'' then Inr (hex_EncodeToString ''k'')
       else if p = ''identity/node0_identity.json'' then
         Inr (json_print (JObj [(''node_id'', JStr ''id0''), (''public_key'', JStr (hex_EncodeToString ''p''))]))
       else Inl (Sentinel ErrNotExist)\<rparr>"

definition age_none :: age_lib where
  "age_none = \<lparr>ag_NewScryptIdentity = \<lambda>_. None, ag_Decrypt = \<lambda>_ _. None, ag_ReadAll = \<lambda>_ b. Inr b\<rparr>"

definition identity_env_ref :: identity_env where
  "identity_env_ref = \<lparr>ie_Getwd = Inr ''/srv'', ie_ReadPassword = Inr [], ie_MkdirAll = \<lambda>_. None,
     ie_EventInitiatorAlgorithm = [], ie_EventInitiatorPubKey = hex_EncodeToString (replicate 32 CHR ''i'')\<rparr>"

definition loaded_store_ref :: fileStore where
  "loaded_store_ref = \<lparr>publicKeys = [(''id0'', ''p'')], privateKey = ''k'',
     initiatorKey = \<lparr>ik_Algorithm = EventInitiatorKeyTypeEd25519, ik_Ed25519 = replicate 32 CHR ''i'', ik_P256 = None\<rparr>,
     symmetricKeys = []\<rparr>"

lemma loaded_store_ref_loads:
  "NewFileStore crypto_ref node_files_ref age_none identity_env_ref (\<lambda>m. m) ''identity'' ''node0'' False [] = Inr loaded_store_ref"
  by code_simp

theorem file_store_loaded_witness:
  "\<exists>n. identity_file_key node_files_ref identity_env_ref ''identity'' n ''id0'' ''p''"
proof -
  have "GetPublicKey ''id0'' loaded_store_ref = Inr ''p''" by code_simp
  then show ?thesis using file_store_loaded [OF loaded_store_ref_loads] by blast
qed

text \<open>
  Neither key is checked for its length, although \<^verbatim>\<open>ed25519.Verify\<close> and \<^verbatim>\<open>ed25519.Sign\<close> panic on a key of the wrong
  length: the store above has keys of one byte, and signing with it panics.
\<close>

lemma short_keys_load:
  "tm_From m = Some from \<Longrightarrow> SignMessage crypto_ref tss_lib_ref loaded_store_ref m = Panic"
  by (simp add: SignMessage_def MarshalForSigning_def loaded_store_ref_def ed25519_Sign_def ed25519_PrivateKeySize_def)

end
