(* ===== verification/Disk.thy ===== *)
theory Disk
  imports File_Path "HOL-Library.State_Monad"
begin

text \<open>
  The files that the program writes. Files are a map from paths to contents; the environment \<open>disk_env\<close> may fail any
  file operation, and a failing write may leave a part of its data behind. Directories are not recorded: making one
  can fail and has no other effect. The readers of the theories \<open>Identity_Files\<close> and \<open>Signers\<close> see a disk through
  \<open>files_of\<close>. \<^verbatim>\<open>sort.Strings\<close> and the order in which maps are encoded are here too.
\<close>

section \<open>The disk\<close>

record disk =
  dk_files :: "bytes gomap"
  dk_ops :: nat

record disk_env =
  de_fault :: "nat \<Rightarrow> go_error option"
  de_partial :: "nat \<Rightarrow> nat option"

type_synonym 'a dio = "(disk, 'a) state"

definition tick :: "disk \<Rightarrow> disk" where
  "tick d = d\<lparr>dk_ops := Suc (dk_ops d)\<rparr>"

definition put_file :: "string \<Rightarrow> bytes \<Rightarrow> disk \<Rightarrow> disk" where
  "put_file path content d = d\<lparr>dk_files := gm_put path content (dk_files d)\<rparr>"

definition file_content :: "disk \<Rightarrow> string \<Rightarrow> bytes" where
  "file_content d path = (case gm_get (dk_files d) path of None \<Rightarrow> [] | Some b \<Rightarrow> b)"

definition os_MkdirAll :: "disk_env \<Rightarrow> string \<Rightarrow> go_error option dio" where
  "os_MkdirAll D path = State (\<lambda>d. (de_fault D (dk_ops d), tick d))"

definition os_ReadFile :: "disk_env \<Rightarrow> string \<Rightarrow> (go_error + bytes) dio" where
  "os_ReadFile D path = State (\<lambda>d.
     (case de_fault D (dk_ops d) of
        Some e \<Rightarrow> Inl e
      | None \<Rightarrow> (case gm_get (dk_files d) path of
                   None \<Rightarrow> Inl (wrapf (''open '' @ path) (Sentinel ErrNotExist))
                 | Some b \<Rightarrow> Inr b), tick d))"

definition os_Create :: "disk_env \<Rightarrow> string \<Rightarrow> go_error option dio" where
  "os_Create D path = State (\<lambda>d.
     case de_fault D (dk_ops d) of
       Some e \<Rightarrow> (Some e, tick d)
     | None \<Rightarrow> (None, put_file path [] (tick d)))"

definition file_Write :: "disk_env \<Rightarrow> string \<Rightarrow> bytes \<Rightarrow> go_error option dio" where
  "file_Write D path data = State (\<lambda>d.
     case de_fault D (dk_ops d) of
       Some e \<Rightarrow> (Some e,
         case de_partial D (dk_ops d) of
           None \<Rightarrow> tick d
         | Some k \<Rightarrow> put_file path (file_content d path @ take k data) (tick d))
     | None \<Rightarrow> (None, put_file path (file_content d path @ data) (tick d)))"

definition os_WriteFile :: "disk_env \<Rightarrow> string \<Rightarrow> bytes \<Rightarrow> go_error option dio" where
  "os_WriteFile D path data = State (\<lambda>d.
     case de_fault D (dk_ops d) of
       Some e \<Rightarrow> (Some e,
         case de_partial D (dk_ops d) of
           None \<Rightarrow> tick d
         | Some k \<Rightarrow> put_file path (take k data) (tick d))
     | None \<Rightarrow> (None, put_file path data (tick d)))"

definition os_Stat :: "disk_env \<Rightarrow> string \<Rightarrow> go_error option dio" where
  "os_Stat D path = State (\<lambda>d.
     (case de_fault D (dk_ops d) of
        Some e \<Rightarrow> Some e
      | None \<Rightarrow> (case gm_get (dk_files d) path of
                   None \<Rightarrow> Some (wrapf (''stat '' @ path) (Sentinel ErrNotExist))
                 | Some _ \<Rightarrow> None), tick d))"

text \<open>\<^verbatim>\<open>os.IsNotExist\<close>\<close>

abbreviation os_IsNotExist :: "go_error \<Rightarrow> bool" where
  "os_IsNotExist e \<equiv> errors_Is e ErrNotExist"

text \<open>A disk at rest, as the readers see it.\<close>

definition files_of :: "disk \<Rightarrow> files" where
  "files_of d =
     \<lparr>fl_Stat = \<lambda>p. if gm_get (dk_files d) p = None then Some (wrapf (''stat '' @ p) (Sentinel ErrNotExist)) else None,
      fl_ReadFile = \<lambda>p. case gm_get (dk_files d) p of
        None \<Rightarrow> Inl (wrapf (''open '' @ p) (Sentinel ErrNotExist)) | Some b \<Rightarrow> Inr b\<rparr>"

definition disk_good :: disk_env where
  "disk_good = \<lparr>de_fault = \<lambda>_. None, de_partial = \<lambda>_. None\<rparr>"

section \<open>Sorting\<close>

fun insert_string :: "string \<Rightarrow> string list \<Rightarrow> string list" where
  "insert_string x [] = [x]"
| "insert_string x (y # ys) = (if string_less y x then y # insert_string x ys else x # y # ys)"

definition sort_Strings :: "string list \<Rightarrow> string list" where
  "sort_Strings xs = foldr insert_string xs []"

text \<open>The order in which \<^verbatim>\<open>encoding/json\<close> writes the members of a map.\<close>

definition sorted_pairs :: "string gomap \<Rightarrow> (string \<times> string) list" where
  "sorted_pairs m = map (\<lambda>k. (k, case gm_get m k of None \<Rightarrow> [] | Some v \<Rightarrow> v)) (sort_Strings (map fst m))"

lemma set_insert_string: "set (insert_string x xs) = insert x (set xs)"
  by (induction xs) auto

lemma set_sort_Strings: "set (sort_Strings xs) = set xs"
  by (induction xs) (simp_all add: sort_Strings_def set_insert_string)

lemma length_insert_string: "length (insert_string x xs) = Suc (length xs)"
  by (induction xs) auto

lemma distinct_sort_Strings: "distinct xs \<Longrightarrow> distinct (sort_Strings xs)"
proof -
  have "length (sort_Strings xs) = length xs"
    by (induction xs) (simp_all add: sort_Strings_def length_insert_string)
  then show "distinct xs \<Longrightarrow> distinct (sort_Strings xs)"
    by (metis card_distinct distinct_card set_sort_Strings)
qed

lemma set_sorted_pairs: "gm_ok m \<Longrightarrow> set (sorted_pairs m) = set m"
  by (force simp: sorted_pairs_def set_sort_Strings)

lemma sorted_pairs_ok: "gm_ok m \<Longrightarrow> gm_ok (sorted_pairs m)"
  by (simp add: sorted_pairs_def distinct_sort_Strings comp_def)

section \<open>Laws\<close>

lemmas disk_defs = os_MkdirAll_def os_ReadFile_def os_Create_def file_Write_def os_WriteFile_def os_Stat_def tick_def put_file_def

lemma file_content_put [simp]:
  "file_content (put_file p c d) q = (if q = p then c else file_content d q)" "file_content (tick d) q = file_content d q"
  by (simp_all add: file_content_def put_file_def tick_def gm_simps)

end
