(* ===== verification/Kv_Backup.thy ===== *)
theory Kv_Backup
  imports Msg_Types Encryption Disk
begin

text \<open>
  \<^verbatim>\<open>pkg/kvstore\<close>: the encrypted incremental backups of the key store (\<^verbatim>\<open>badger_backup.go\<close>) and the store's own
  operations (\<^verbatim>\<open>badger.go\<close>). Badger is a parameter, a record of the functions
  the code calls. The theorems show that a backup that was reported as written can be loaded again, and what a
  backup that failed half way does to a restore.
\<close>

section \<open>The database\<close>

text \<open>Badger: a backup of everything since a version, with the version reached; loading such a stream; transactions.\<close>

record 'db badger_lib =
  bd_Open :: "string \<Rightarrow> bytes \<Rightarrow> go_error + 'db"
  bd_Backup :: "'db \<Rightarrow> nat \<Rightarrow> go_error + bytes \<times> nat"
  bd_Load :: "'db \<Rightarrow> bytes \<Rightarrow> go_error + 'db"
  bd_Close :: "'db \<Rightarrow> go_error option"
  bd_Set :: "'db \<Rightarrow> bytes \<Rightarrow> bytes \<Rightarrow> go_error + 'db"
  bd_Get :: "'db \<Rightarrow> bytes \<Rightarrow> go_error + bytes"
  bd_Keys :: "'db \<Rightarrow> go_error + bytes list"
  bd_Delete :: "'db \<Rightarrow> bytes \<Rightarrow> go_error + 'db"

section \<open>The formats\<close>

definition backup_magic :: string where "backup_magic = ''MPCIUM_BACKUP''"
definition kv_defaultBackupDir :: string where "kv_defaultBackupDir = ''./backups''"

record BadgerBackupMeta =
  bm_Algo :: string
  bm_NonceB64 :: string
  bm_CreatedAt :: string
  bm_Since :: nat
  bm_NextSince :: nat
  bm_EncryptionKeyID :: string

definition BadgerBackupMeta_zero :: BadgerBackupMeta where
  "BadgerBackupMeta_zero = \<lparr>bm_Algo = [], bm_NonceB64 = [], bm_CreatedAt = [], bm_Since = 0, bm_NextSince = 0, bm_EncryptionKeyID = []\<rparr>"

definition Marshal_BadgerBackupMeta :: "BadgerBackupMeta \<Rightarrow> bytes" where
  "Marshal_BadgerBackupMeta m = json_print (
     JObj [(''algo'', JStr (bm_Algo m)), (''nonce_b64'', JStr (bm_NonceB64 m)), (''created_at'', JStr (bm_CreatedAt m)),
           (''since'', enc_uint (bm_Since m)), (''next_since'', enc_uint (bm_NextSince m)),
           (''encryption_key_id'', JStr (bm_EncryptionKeyID m))])"

definition BadgerBackupMeta_fields :: "(string \<times> BadgerBackupMeta decoder) list" where
  "BadgerBackupMeta_fields =
     [(''algo'', fld_str bm_Algo_update), (''nonce_b64'', fld_str bm_NonceB64_update), (''created_at'', fld_str bm_CreatedAt_update),
      (''since'', fld_uint64 bm_Since_update), (''next_since'', fld_uint64 bm_NextSince_update),
      (''encryption_key_id'', fld_str bm_EncryptionKeyID_update)]"

definition Unmarshal_BadgerBackupMeta :: "bytes \<Rightarrow> BadgerBackupMeta \<times> go_error option" where
  "Unmarshal_BadgerBackupMeta s = json_Unmarshal (decode_struct BadgerBackupMeta_fields) s BadgerBackupMeta_zero"

record BadgerBackupVersionInfo =
  bv_Version :: nat
  bv_Since :: nat
  bv_UpdatedAt :: string

definition Marshal_BadgerBackupVersionInfo :: "BadgerBackupVersionInfo \<Rightarrow> bytes" where
  "Marshal_BadgerBackupVersionInfo v = json_print (
     JObj [(''version'', enc_uint (bv_Version v)), (''since'', enc_uint (bv_Since v)), (''updated_at'', JStr (bv_UpdatedAt v))])"

definition BadgerBackupVersionInfo_fields :: "(string \<times> BadgerBackupVersionInfo decoder) list" where
  "BadgerBackupVersionInfo_fields =
     [(''version'', fld_uint64 bv_Version_update), (''since'', fld_uint64 bv_Since_update), (''updated_at'', fld_str bv_UpdatedAt_update)]"

definition Unmarshal_BadgerBackupVersionInfo :: "bytes \<Rightarrow> BadgerBackupVersionInfo \<times> go_error option" where
  "Unmarshal_BadgerBackupVersionInfo s =
     json_Unmarshal (decode_struct BadgerBackupVersionInfo_fields) s \<lparr>bv_Version = 0, bv_Since = 0, bv_UpdatedAt = []\<rparr>"

text \<open>\<^verbatim>\<open>binary.Write\<close> and \<^verbatim>\<open>binary.Read\<close> of a \<^verbatim>\<open>uint32\<close> in big endian order.\<close>

definition be32 :: "nat \<Rightarrow> bytes" where
  "be32 n = [char_of (n div 16777216), char_of (n div 65536), char_of (n div 256), char_of n]"

definition unbe32 :: "bytes \<Rightarrow> nat" where
  "unbe32 bs = foldl (\<lambda>a c. a * 256 + of_char c) 0 bs"

section \<open>Making backups\<close>

record badgerBackupExecutor =
  bx_NodeID :: string
  bx_BackupEncryptionKey :: bytes
  bx_BackupDir :: string

text \<open>A failing \<^verbatim>\<open>MkdirAll\<close> panics.\<close>

definition NewBadgerBackupExecutor :: "disk_env \<Rightarrow> string \<Rightarrow> bytes \<Rightarrow> string \<Rightarrow> badgerBackupExecutor go_res dio" where
  "NewBadgerBackupExecutor D nodeID backupEncryptionKey backupDir = do {
     let backupDir = (if backupDir = [] then kv_defaultBackupDir else backupDir);
     err \<leftarrow> os_MkdirAll D backupDir;
     State_Monad.return
       (case err of
          Some _ \<Rightarrow> Panic
        | None \<Rightarrow> Ret \<lparr>bx_NodeID = nodeID, bx_BackupEncryptionKey = backupEncryptionKey, bx_BackupDir = backupDir\<rparr>) }"

text \<open>The clock as the texts that the code formats: for the file name, local time and UTC in RFC 3339.\<close>

record clock =
  ck_stamp :: string
  ck_rfc3339 :: string
  ck_utc :: string

definition version_file :: "badgerBackupExecutor \<Rightarrow> string" where
  "version_file b = filepath_Join (bx_BackupDir b) ''latest.version''"

definition SaveVersionInfo :: "disk_env \<Rightarrow> clock \<Rightarrow> badgerBackupExecutor \<Rightarrow> nat \<Rightarrow> nat \<Rightarrow> go_error option dio" where
  "SaveVersionInfo D now b counter since = do {
     let info = \<lparr>bv_Version = counter, bv_Since = since, bv_UpdatedAt = ck_utc now\<rparr>;
     os_WriteFile D (version_file b) (Marshal_BadgerBackupVersionInfo info) }"

definition LoadVersionInfo :: "disk_env \<Rightarrow> clock \<Rightarrow> badgerBackupExecutor \<Rightarrow> (go_error + BadgerBackupVersionInfo) dio" where
  "LoadVersionInfo D now b = do {
     data \<leftarrow> os_ReadFile D (version_file b);
     State_Monad.return
       (case data of
          Inl err \<Rightarrow>
            if errors_Is err ErrNotExist then Inr \<lparr>bv_Version = 0, bv_Since = 0, bv_UpdatedAt = ck_rfc3339 now\<rparr>
            else Inl err
        | Inr data \<Rightarrow>
            (case Unmarshal_BadgerBackupVersionInfo data of
               (info, Some err) \<Rightarrow> Inl err
             | (info, None) \<Rightarrow> Inr info)) }"

definition backup_filename :: "badgerBackupExecutor \<Rightarrow> clock \<Rightarrow> nat \<Rightarrow> string" where
  "backup_filename b now version = ''backup-'' @ bx_NodeID b @ ''-'' @ ck_stamp now @ ''-'' @ utoa version @ ''.enc''"

text \<open>The writes of a backup file, each returning at its first error.\<close>

fun write_all :: "disk_env \<Rightarrow> string \<Rightarrow> bytes list \<Rightarrow> go_error option dio" where
  "write_all D path [] = State_Monad.return None"
| "write_all D path (data # rest) = do {
     err \<leftarrow> file_Write D path data;
     (case err of Some e \<Rightarrow> State_Monad.return (Some e) | None \<Rightarrow> write_all D path rest) }"

text \<open>A version counter is a \<^verbatim>\<open>uint64\<close> and wraps around.\<close>

definition next_version :: "BadgerBackupVersionInfo \<Rightarrow> nat" where
  "next_version info = (bv_Version info + 1) mod 2 ^ 64"

definition backup_path :: "badgerBackupExecutor \<Rightarrow> clock \<Rightarrow> nat \<Rightarrow> string" where
  "backup_path b now version = filepath_Join (bx_BackupDir b) (backup_filename b now version)"

definition backup_meta :: "crypto \<Rightarrow> clock \<Rightarrow> badgerBackupExecutor \<Rightarrow> nat \<Rightarrow> nat \<Rightarrow> bytes \<Rightarrow> BadgerBackupMeta" where
  "backup_meta C now b since nextSince nonce =
     \<lparr>bm_Algo = ''AES-256-GCM'', bm_NonceB64 = b64_encode nonce, bm_CreatedAt = ck_rfc3339 now, bm_Since = since,
      bm_NextSince = nextSince,
      bm_EncryptionKeyID = take 16 (hex_EncodeToString (cr_Sum256 C (bx_BackupEncryptionKey b)))\<rparr>"

text \<open>The part of \<^verbatim>\<open>Execute\<close> that writes the file, from \<^verbatim>\<open>os.Create\<close> on; a failure to save the version is only a warning.\<close>

definition write_backup ::
  "disk_env \<Rightarrow> clock \<Rightarrow> badgerBackupExecutor \<Rightarrow> nat \<Rightarrow> nat \<Rightarrow> bytes \<Rightarrow> bytes \<Rightarrow> go_error option dio" where
  "write_backup D now b version nextSince metaJSON ct = do {
     let outPath = backup_path b now version;
     err \<leftarrow> os_Create D outPath;
     (case err of
        Some e \<Rightarrow> State_Monad.return (Some e)
      | None \<Rightarrow> do {
          err \<leftarrow> write_all D outPath [backup_magic];
          (case err of
             Some e \<Rightarrow> State_Monad.return (Some e)
           | None \<Rightarrow>
               if length metaJSON > 4294967295 then State_Monad.return (Some (errorf ''metaJSON too large''))
               else do {
                 err \<leftarrow> write_all D outPath [be32 (length metaJSON), metaJSON, ct];
                 (case err of
                    Some e \<Rightarrow> State_Monad.return (Some e)
                  | None \<Rightarrow> do {
                      _ \<leftarrow> SaveVersionInfo D now b version nextSince;
                      State_Monad.return None }) }) }) }"

definition backup_Execute ::
  "disk_env \<Rightarrow> 'db badger_lib \<Rightarrow> crypto \<Rightarrow> go_error + bytes \<Rightarrow> clock \<Rightarrow> badgerBackupExecutor \<Rightarrow> 'db \<Rightarrow> go_error option dio" where
  "backup_Execute D L C rand now b db = do {
     info \<leftarrow> LoadVersionInfo D now b;
     (case info of
        Inl err \<Rightarrow> State_Monad.return (Some (wrapf ''failed to load version info'' err))
      | Inr info \<Rightarrow>
          (case bd_Backup L db (bv_Since info) of
             Inl err \<Rightarrow> State_Monad.return (Some err)
           | Inr (plain, nextSince) \<Rightarrow>
               if plain = [] \<or> nextSince = bv_Since info then State_Monad.return None
               else
                 (case EncryptAESGCM C rand plain (bx_BackupEncryptionKey b) of
                    Inl err \<Rightarrow> State_Monad.return (Some err)
                  | Inr (ct, nonce) \<Rightarrow>
                      write_backup D now b (next_version info) nextSince
                        (Marshal_BadgerBackupMeta (backup_meta C now b (bv_Since info) nextSince nonce)) ct))) }"

section \<open>Restoring\<close>

text \<open>
  \<^verbatim>\<open>filepath.Glob\<close> with the pattern \<^verbatim>\<open>backup-*.enc\<close> in a directory whose path has no special characters: the star matches
  any text without a separator.
\<close>

definition backup_pattern :: "badgerBackupExecutor \<Rightarrow> string" where
  "backup_pattern b = filepath_Join (bx_BackupDir b) ''backup-*.enc''"

definition glob_match :: "string \<Rightarrow> string \<Rightarrow> bool" where
  "glob_match pattern path =
     (let pre = take (length pattern - 5) pattern
      in strings_HasPrefix path pre \<and> strings_HasSuffix path ''.enc'' \<and> length pre + 4 \<le> length path
         \<and> CHR ''/'' \<notin> set (take (length path - length pre - 4) (drop (length pre) path)))"

definition SortedEncryptedBackups :: "badgerBackupExecutor \<Rightarrow> disk \<Rightarrow> string list" where
  "SortedEncryptedBackups b d = sort_Strings (filter (glob_match (backup_pattern b)) (map fst (dk_files d)))"

definition unexpected_EOF :: go_error where "unexpected_EOF = errorf ''unexpected EOF''"

text \<open>The decoding of an opened backup file; \<^verbatim>\<open>io.ReadFull\<close> fails when bytes are missing.\<close>

definition decode_backup :: "crypto \<Rightarrow> bytes \<Rightarrow> bytes \<Rightarrow> (go_error + bytes) go_res" where
  "decode_backup C key f =
     (if length f < length backup_magic then Ret (Inl unexpected_EOF)
      else if take (length backup_magic) f \<noteq> backup_magic then Ret (Inl (errorf ''bad magic''))
      else
        (let f1 = drop (length backup_magic) f in
         if length f1 < 4 then Ret (Inl unexpected_EOF)
         else
           (let metaLen = unbe32 (take 4 f1); f2 = drop 4 f1 in
            if length f2 < metaLen then Ret (Inl unexpected_EOF)
            else
              (case Unmarshal_BadgerBackupMeta (take metaLen f2) of
                 (_, Some err) \<Rightarrow> Ret (Inl err)
               | (meta, None) \<Rightarrow>
                   (case b64_decode (bm_NonceB64 meta) of
                      None \<Rightarrow> Ret (Inl (errorf ''illegal base64 data''))
                    | Some nonce \<Rightarrow> DecryptAESGCM C (drop metaLen f2) key nonce)))))"

definition loadEncryptedBackup ::
  "disk_env \<Rightarrow> 'db badger_lib \<Rightarrow> crypto \<Rightarrow> badgerBackupExecutor \<Rightarrow> 'db \<Rightarrow> string \<Rightarrow> (go_error + 'db) go_res dio" where
  "loadEncryptedBackup D L C b db path = do {
     f \<leftarrow> os_ReadFile D path;
     State_Monad.return
       (case f of
          Inl err \<Rightarrow> Ret (Inl err)
        | Inr f \<Rightarrow>
            (case decode_backup C (bx_BackupEncryptionKey b) f of
               Panic \<Rightarrow> Panic
             | Ret (Inl err) \<Rightarrow> Ret (Inl err)
             | Ret (Inr plain) \<Rightarrow> Ret (bd_Load L db plain))) }"

fun load_backups ::
  "disk_env \<Rightarrow> 'db badger_lib \<Rightarrow> crypto \<Rightarrow> badgerBackupExecutor \<Rightarrow> 'db \<Rightarrow> string list \<Rightarrow> (go_error + 'db) go_res dio" where
  "load_backups D L C b db [] = State_Monad.return (Ret (Inr db))"
| "load_backups D L C b db (file # files) = do {
     r \<leftarrow> loadEncryptedBackup D L C b db file;
     (case r of
        Ret (Inr db1) \<Rightarrow> load_backups D L C b db1 files
      | _ \<Rightarrow> State_Monad.return r) }"

definition RestoreAllBackupsEncrypted ::
  "disk_env \<Rightarrow> 'db badger_lib \<Rightarrow> crypto \<Rightarrow> badgerBackupExecutor \<Rightarrow> string \<Rightarrow> bytes \<Rightarrow> (go_error option) go_res dio" where
  "RestoreAllBackupsEncrypted D L C b restorePath encryptionKey = do {
     err \<leftarrow> os_MkdirAll D restorePath;
     (case err of
        Some e \<Rightarrow> State_Monad.return (Ret (Some (wrapf ''failed to create restore directory'' e)))
      | None \<Rightarrow>
          (case bd_Open L restorePath encryptionKey of
             Inl err \<Rightarrow> State_Monad.return (Ret (Some err))
           | Inr restoreDB \<Rightarrow> do {
               d \<leftarrow> State_Monad.get;
               r \<leftarrow> load_backups D L C b restoreDB (SortedEncryptedBackups b d);
               State_Monad.return
                 (case r of
                    Panic \<Rightarrow> Panic
                  | Ret (Inl err) \<Rightarrow> Ret (Some err)
                  | Ret (Inr db) \<Rightarrow> Ret (map_option (wrapf ''failed to close restore database'') (bd_Close L db))) })) }"

section \<open>The store\<close>

record 'db BadgerKVStore =
  kv_DB :: 'db
  kv_BackupExecutor :: "badgerBackupExecutor option"

record BadgerConfig =
  bg_NodeID :: string
  bg_EncryptionKey :: bytes
  bg_BackupEncryptionKey :: bytes
  bg_BackupDir :: string
  bg_DBPath :: string

definition NewBadgerKVStore :: "disk_env \<Rightarrow> 'db badger_lib \<Rightarrow> BadgerConfig \<Rightarrow> (go_error + 'db BadgerKVStore) go_res dio" where
  "NewBadgerKVStore D L config =
     (if bg_EncryptionKey config = [] then State_Monad.return (Ret (Inl (Sentinel ErrEncryptionKeyNotProvided)))
      else if bg_BackupEncryptionKey config = [] then State_Monad.return (Ret (Inl (Sentinel ErrBackupEncryptionKeyNotProvided)))
      else (case bd_Open L (bg_DBPath config) (bg_EncryptionKey config) of
              Inl err \<Rightarrow> State_Monad.return (Ret (Inl err))
            | Inr db \<Rightarrow> do {
                backupExecutor \<leftarrow> NewBadgerBackupExecutor D (bg_NodeID config) (bg_BackupEncryptionKey config) (bg_BackupDir config);
                State_Monad.return
                  (case backupExecutor of
                     Panic \<Rightarrow> Panic
                   | Ret b \<Rightarrow> Ret (Inr \<lparr>kv_DB = db, kv_BackupExecutor = Some b\<rparr>)) }))"

definition kv_Put :: "'db badger_lib \<Rightarrow> 'db BadgerKVStore \<Rightarrow> string \<Rightarrow> bytes \<Rightarrow> go_error + 'db BadgerKVStore" where
  "kv_Put L s key val = (case bd_Set L (kv_DB s) key val of Inl err \<Rightarrow> Inl err | Inr db \<Rightarrow> Inr (s\<lparr>kv_DB := db\<rparr>))"

definition kv_Get :: "'db badger_lib \<Rightarrow> 'db BadgerKVStore \<Rightarrow> string \<Rightarrow> go_error + bytes" where
  "kv_Get L s key = (case bd_Get L (kv_DB s) key of Inl err \<Rightarrow> Inl err | Inr val \<Rightarrow> Inr val)"

definition kv_Keys :: "'db badger_lib \<Rightarrow> 'db BadgerKVStore \<Rightarrow> go_error + string list" where
  "kv_Keys L s = bd_Keys L (kv_DB s)"

definition kv_Delete :: "'db badger_lib \<Rightarrow> 'db BadgerKVStore \<Rightarrow> string \<Rightarrow> go_error + 'db BadgerKVStore" where
  "kv_Delete L s key = (case bd_Delete L (kv_DB s) key of Inl err \<Rightarrow> Inl err | Inr db \<Rightarrow> Inr (s\<lparr>kv_DB := db\<rparr>))"

definition kv_Backup ::
  "disk_env \<Rightarrow> 'db badger_lib \<Rightarrow> crypto \<Rightarrow> go_error + bytes \<Rightarrow> clock \<Rightarrow> 'db BadgerKVStore \<Rightarrow> go_error option dio" where
  "kv_Backup D L C rand now s =
     (case kv_BackupExecutor s of
        None \<Rightarrow> State_Monad.return (Some (errorf ''backup executor is not initialized''))
      | Some b \<Rightarrow> backup_Execute D L C rand now b (kv_DB s))"

definition kv_Close :: "'db badger_lib \<Rightarrow> 'db BadgerKVStore \<Rightarrow> go_error option" where
  "kv_Close L s = bd_Close L (kv_DB s)"

section \<open>Laws of the formats\<close>

lemma unbe32_be32: "n < 4294967296 \<Longrightarrow> unbe32 (be32 n) = n"
proof -
  assume n: "n < 4294967296"
  define q where "q = n div 256"
  define p where "p = q div 256"
  have "n div 65536 = p" "n div 16777216 = p div 256"
    unfolding p_def q_def by (simp_all add: div_mult2_eq [symmetric])
  moreover have "p < 65536" using n unfolding p_def q_def by (simp add: div_mult2_eq [symmetric] less_mult_imp_div_less)
  ultimately have "unbe32 (be32 n) = ((p div 256 * 256 + p mod 256) * 256 + q mod 256) * 256 + n mod 256"
    unfolding unbe32_def be32_def q_def [symmetric] by (simp add: less_mult_imp_div_less)
  then show ?thesis unfolding p_def q_def by simp
qed

lemma BadgerBackupMeta_codec:
  "bm_Since m < 2 ^ 64 \<Longrightarrow> bm_NextSince m < 2 ^ 64 \<Longrightarrow> Unmarshal_BadgerBackupMeta (Marshal_BadgerBackupMeta m) = (m, None)"
  by (simp add: Unmarshal_BadgerBackupMeta_def Marshal_BadgerBackupMeta_def BadgerBackupMeta_fields_def
      BadgerBackupMeta_zero_def struct_codec_simps)

lemma BadgerBackupVersionInfo_codec:
  "bv_Version v < 2 ^ 64 \<Longrightarrow> bv_Since v < 2 ^ 64 \<Longrightarrow>
   Unmarshal_BadgerBackupVersionInfo (Marshal_BadgerBackupVersionInfo v) = (v, None)"
  by (simp add: Unmarshal_BadgerBackupVersionInfo_def Marshal_BadgerBackupVersionInfo_def BadgerBackupVersionInfo_fields_def
      struct_codec_simps)

lemma decode_backup_written:
  assumes "crypto_ok C" and "length nonce = gcm_nonce_size" and "EncryptAESGCM C (Inr nonce) plain key = Inr (ct, nonce)"
    and "bm_Since meta < 2 ^ 64" and "bm_NextSince meta < 2 ^ 64" and "bm_NonceB64 meta = b64_encode nonce"
    and "length (Marshal_BadgerBackupMeta meta) \<le> 4294967295"
  shows "decode_backup C key (backup_magic @ be32 (length (Marshal_BadgerBackupMeta meta)) @ Marshal_BadgerBackupMeta meta @ ct) = Ret (Inr plain)"
proof -
  let ?m = "Marshal_BadgerBackupMeta meta"
  have b: "length (be32 (length ?m)) = 4" "unbe32 (be32 (length ?m)) = length ?m"
    using unbe32_be32 [of "length ?m"] assms(7) by (simp_all add: be32_def)
  show ?thesis
    using b BadgerBackupMeta_codec [OF assms(4,5)] assms(6) detached_round_trip [OF assms(1-3)]
    by (simp add: decode_backup_def Let_def b64_decode_encode)
qed

section \<open>Laws of the disk\<close>

lemma write_all_done:
  "run_state (write_all D path ds) d = (None, d') \<Longrightarrow> file_content d' path = file_content d path @ concat ds"
proof (induction ds arbitrary: d)
  case (Cons x ds)
  from Cons.prems have "de_fault D (dk_ops d) = None"
    by (auto simp: file_Write_def split: option.splits)
  with Cons show ?case by (auto simp: file_Write_def)
qed simp

lemma write_all_keeps:
  "run_state (write_all D path ds) d = (r, d') \<Longrightarrow> gm_get (dk_files d) path \<noteq> None \<Longrightarrow> gm_get (dk_files d') path \<noteq> None"
proof (induction ds arbitrary: d)
  case (Cons x ds)
  show ?case
  proof (cases "de_fault D (dk_ops d)")
    case None
    have "gm_get (dk_files (put_file path (file_content d path @ x) (tick d))) path \<noteq> None" by (simp add: put_file_def gm_simps)
    from Cons.IH [OF _ this] Cons.prems(1) None show ?thesis by (simp add: file_Write_def)
  next
    case (Some e)
    with Cons.prems show ?thesis by (auto simp: file_Write_def put_file_def tick_def gm_simps split: option.splits)
  qed
qed simp

section \<open>Paths of backups\<close>

text \<open>The last element of a joined path is the file's name.\<close>

lemma plain_name:
  assumes "plain_elem name" and "CHR ''/'' \<notin> set name"
  shows "path_elems name = [name]" and "filepath_Clean name = name"
proof -
  have "\<not> is_rooted name" using assms by (cases name) (auto simp: plain_elem_def)
  moreover show "path_elems name = [name]"
    using assms clean_steps_plain [of "[name]"] by (simp add: path_elems_def clean_elems_def strings_Split_single)
  ultimately show "filepath_Clean name = name" by (simp add: filepath_Clean_def)
qed

lemma last_Split_Clean:
  assumes "path_elems path \<noteq> []"
  shows "last (strings_Split CHR ''/'' (filepath_Clean path)) = last (path_elems path)"
proof -
  have "strings_Split CHR ''/'' (strings_Join (path_elems path)) = path_elems path"
    by (rule strings_Split_Join [OF assms]) (use path_elems_ok in \<open>auto simp: list_all_iff elem_ok_def\<close>)
  then show ?thesis using assms by (simp add: filepath_Clean_def)
qed

lemma last_Join_name:
  assumes "plain_elem name" and "CHR ''/'' \<notin> set name"
  shows "last (strings_Split CHR ''/'' (filepath_Join dir name)) = name"
proof (cases "dir = []")
  case True
  then show ?thesis
    using assms plain_name [OF assms] last_Split_Clean [of name] by (auto simp: filepath_Join_def plain_elem_def)
next
  case False
  have "path_elems (dir @ ''/'' @ name) = path_elems dir @ [name]"
    using path_elems_Join [OF False, of name] plain_name [OF assms] assms(1) by simp
  then show ?thesis using last_Split_Clean [of "dir @ ''/'' @ name"] Join_eq [OF False] by simp
qed

definition safe_text :: "string \<Rightarrow> bool" where
  "safe_text s \<longleftrightarrow> CHR ''/'' \<notin> set s"

lemma backup_filename_plain:
  assumes "safe_text (bx_NodeID b)" and "safe_text (ck_stamp now)"
  shows "plain_elem (backup_filename b now v)" and "CHR ''/'' \<notin> set (backup_filename b now v)"
proof -
  have "CHR ''/'' \<notin> set (utoa v)" using utoa_chars [of "CHR ''/''" v] by (auto simp: is_digit_def)
  with assms show "plain_elem (backup_filename b now v)" and "CHR ''/'' \<notin> set (backup_filename b now v)"
    by (auto simp: backup_filename_def plain_elem_def safe_text_def)
qed

lemma backup_path_not_version_file:
  assumes "safe_text (bx_NodeID b)" and "safe_text (ck_stamp now)"
  shows "backup_path b now v \<noteq> version_file b"
proof
  assume eq: "backup_path b now v = version_file b"
  have "last (strings_Split CHR ''/'' (version_file b)) = ''latest.version''"
    unfolding version_file_def by (rule last_Join_name) (simp_all add: plain_elem_def)
  then show False
    using last_Join_name [OF backup_filename_plain [OF assms], of "bx_BackupDir b" v] eq [unfolded backup_path_def]
    by (simp add: backup_filename_def)
qed

section \<open>A backup that succeeded\<close>

definition backup_text :: "bytes \<Rightarrow> bytes \<Rightarrow> bytes" where
  "backup_text metaJSON ct = backup_magic @ be32 (length metaJSON) @ metaJSON @ ct"

lemma SaveVersionInfo_keeps:
  "p \<noteq> version_file b \<Longrightarrow> gm_get (dk_files (snd (run_state (SaveVersionInfo D now b v n) d))) p = gm_get (dk_files d) p"
  by (simp add: SaveVersionInfo_def Let_def os_WriteFile_def put_file_def tick_def gm_simps split: option.split)

lemma write_backup_done:
  assumes "run_state (write_backup D now b v n m ct) d = (None, d')"
  shows "length m \<le> 4294967295
    \<and> (\<exists>d2. gm_get (dk_files d2) (backup_path b now v) = Some (backup_text m ct) \<and> d' = snd (run_state (SaveVersionInfo D now b v n) d2))"
proof -
  let ?p = "backup_path b now v"
  obtain r1 e1 where c: "run_state (os_Create D ?p) d = (r1, e1)" by fastforce
  obtain r2 e2 where w1: "run_state (write_all D ?p [backup_magic]) e1 = (r2, e2)" by fastforce
  obtain r3 e3 where w2: "run_state (write_all D ?p [be32 (length m), m, ct]) e2 = (r3, e3)" by fastforce
  have r: "r1 = None" "r2 = None" "r3 = None" and len: "length m \<le> 4294967295"
    and d': "d' = snd (run_state (SaveVersionInfo D now b v n) e3)"
    using assms c w1 w2
    by (auto simp: write_backup_def Let_def split: option.splits if_splits prod.splits simp del: write_all.simps)
  have e1: "gm_get (dk_files e1) ?p = Some []"
    using c r(1) by (auto simp: os_Create_def put_file_def tick_def gm_simps split: option.splits)
  then have "file_content e3 ?p = backup_text m ct"
    using write_all_done [OF w1 [unfolded r]] write_all_done [OF w2 [unfolded r]]
    by (simp add: file_content_def backup_text_def)
  moreover have "gm_get (dk_files e3) ?p \<noteq> None"
    using write_all_keeps [OF w2] write_all_keeps [OF w1] e1 by simp
  ultimately have "gm_get (dk_files e3) ?p = Some (backup_text m ct)" by (auto simp: file_content_def)
  with len d' show ?thesis by blast
qed

lemma Join_name_prefix:
  "\<exists>pre. \<forall>name. plain_elem name \<and> CHR ''/'' \<notin> set name \<longrightarrow> filepath_Join dir name = pre @ name"
proof (cases "dir = []")
  case True
  then have "filepath_Join dir name = [] @ name" if "plain_elem name" "CHR ''/'' \<notin> set name" for name
    using plain_name [OF that] that by (auto simp: filepath_Join_def plain_elem_def)
  then show ?thesis by blast
next
  case False
  define pre where "pre = (if is_rooted dir then ''/'' else []) @ (if path_elems dir = [] then [] else strings_Join (path_elems dir) @ ''/'')"
  have "filepath_Join dir name = pre @ name" if "plain_elem name" "CHR ''/'' \<notin> set name" for name
  proof -
    have "path_elems (dir @ ''/'' @ name) = path_elems dir @ [name]"
      using path_elems_Join [OF False, of name] plain_name [OF that] that by simp
    then show ?thesis
      using False strings_Join_append [of "path_elems dir" "[name]"]
      by (simp add: Join_eq filepath_Clean_def pre_def)
  qed
  then show ?thesis by blast
qed

lemma glob_backup_path:
  assumes "safe_text (bx_NodeID b)" and "safe_text (ck_stamp now)"
  shows "glob_match (backup_pattern b) (backup_path b now v)"
proof -
  obtain pre where pre: "\<And>name. plain_elem name \<Longrightarrow> CHR ''/'' \<notin> set name \<Longrightarrow> filepath_Join (bx_BackupDir b) name = pre @ name"
    using Join_name_prefix by blast
  have pat: "backup_pattern b = (pre @ ''backup-'') @ ''*.enc''"
    unfolding backup_pattern_def using pre [of "''backup-*.enc''"] by (simp add: plain_elem_def)
  define x where "x = bx_NodeID b @ ''-'' @ ck_stamp now @ ''-'' @ utoa v"
  have path: "backup_path b now v = (pre @ ''backup-'') @ x @ ''.enc''"
    unfolding backup_path_def using pre [OF backup_filename_plain [OF assms]] by (simp add: backup_filename_def x_def)
  have "CHR ''/'' \<notin> set x" using backup_filename_plain(2) [OF assms, of v] by (simp add: backup_filename_def x_def)
  moreover have "take (length (backup_pattern b) - 5) (backup_pattern b) = pre @ ''backup-''" unfolding pat by simp
  ultimately show ?thesis
    unfolding glob_match_def Let_def path by (simp add: strings_HasPrefix_def strings_HasSuffix_def)
qed

lemma SortedEncryptedBackups_iff:
  "p \<in> set (SortedEncryptedBackups b d) \<longleftrightarrow> gm_get (dk_files d) p \<noteq> None \<and> glob_match (backup_pattern b) p"
  by (auto simp: SortedEncryptedBackups_def set_sort_Strings map_of_eq_None_iff)

text \<open>
  C13: a backup that was reported as written can be restored. When \<^verbatim>\<open>Execute\<close> returns without an error and there was
  something to back up, whatever failures the disk had in between, the file of the new version is among the backups that
  a restore reads, and reading it gives Badger back exactly the bytes that Badger produced. If the disk did not fail, the next
  backup starts from the version and the offset that were reached.
\<close>

theorem backup_round_trip:
  assumes "crypto_ok C" and "length nonce = gcm_nonce_size" and "safe_text (bx_NodeID b)" and "safe_text (ck_stamp now)"
    and load: "run_state (LoadVersionInfo D now b) d = (Inr info, d1)"
    and "bd_Backup L db (bv_Since info) = Inr (plain, nextSince)" and "plain \<noteq> []" and "nextSince \<noteq> bv_Since info"
    and "bv_Since info < 2 ^ 64" and "nextSince < 2 ^ 64"
    and "run_state (backup_Execute D L C (Inr nonce) now b db) d = (None, d')"
    and good: "\<And>n. de_fault G n = None"
  shows "backup_path b now (next_version info) \<in> set (SortedEncryptedBackups b d')
    \<and> fst (run_state (loadEncryptedBackup G L C b db2 (backup_path b now (next_version info))) d') = Ret (bd_Load L db2 plain)
    \<and> ((\<forall>n. de_fault D n = None) \<longrightarrow>
        fst (run_state (LoadVersionInfo G now b) d') =
          Inr \<lparr>bv_Version = next_version info, bv_Since = nextSince, bv_UpdatedAt = ck_utc now\<rparr>)"
proof -
  let ?p = "backup_path b now (next_version info)"
  obtain ct where enc: "EncryptAESGCM C (Inr nonce) plain (bx_BackupEncryptionKey b) = Inr (ct, nonce)"
    and run: "run_state (write_backup D now b (next_version info) nextSince
        (Marshal_BadgerBackupMeta (backup_meta C now b (bv_Since info) nextSince nonce)) ct) d1 = (None, d')"
    using assms(6-8,11) load by (auto simp: backup_Execute_def EncryptAESGCM_def Let_def split: option.splits)
  define meta where "meta = backup_meta C now b (bv_Since info) nextSince nonce"
  from write_backup_done [OF run] obtain d2 where len: "length (Marshal_BadgerBackupMeta meta) \<le> 4294967295"
    and d2: "gm_get (dk_files d2) ?p = Some (backup_text (Marshal_BadgerBackupMeta meta) ct)"
    and d': "d' = snd (run_state (SaveVersionInfo D now b (next_version info) nextSince) d2)"
    unfolding meta_def by blast
  have content: "gm_get (dk_files d') ?p = Some (backup_text (Marshal_BadgerBackupMeta meta) ct)"
    using d2 d' SaveVersionInfo_keeps [OF backup_path_not_version_file [OF assms(3,4)]] by simp
  have dec: "decode_backup C (bx_BackupEncryptionKey b) (backup_text (Marshal_BadgerBackupMeta meta) ct) = Ret (Inr plain)"
    unfolding backup_text_def
    by (rule decode_backup_written [OF assms(1,2) enc]) (use assms(9,10) len in \<open>simp_all add: meta_def backup_meta_def\<close>)
  have "?p \<in> set (SortedEncryptedBackups b d')"
    using content glob_backup_path [OF assms(3,4)] by (simp add: SortedEncryptedBackups_iff)
  moreover have "fst (run_state (loadEncryptedBackup G L C b db2 ?p) d') = Ret (bd_Load L db2 plain)"
    using content dec by (simp add: loadEncryptedBackup_def os_ReadFile_def good)
  moreover have "fst (run_state (LoadVersionInfo G now b) d') =
      Inr \<lparr>bv_Version = next_version info, bv_Since = nextSince, bv_UpdatedAt = ck_utc now\<rparr>" if "\<forall>n. de_fault D n = None"
  proof -
    have "next_version info < 2 ^ 64" by (simp add: next_version_def)
    then show ?thesis
      using that assms(10)
      by (simp add: d' SaveVersionInfo_def LoadVersionInfo_def os_ReadFile_def os_WriteFile_def Let_def good put_file_def
          tick_def gm_simps BadgerBackupVersionInfo_codec)
  qed
  ultimately show ?thesis by blast
qed

definition badger_ref :: "bytes badger_lib" where
  "badger_ref = \<lparr>bd_Open = \<lambda>_ _. Inr [], bd_Backup = \<lambda>db since. Inr (drop since db, length db), bd_Load = \<lambda>db s. Inr (db @ s),
     bd_Close = \<lambda>_. None, bd_Set = \<lambda>db k v. Inr (db @ v), bd_Get = \<lambda>db k. Inr db, bd_Keys = \<lambda>_. Inr [], bd_Delete = \<lambda>db k. Inr db\<rparr>"

definition executor_ref :: badgerBackupExecutor where
  "executor_ref = \<lparr>bx_NodeID = ''node0'', bx_BackupEncryptionKey = replicate 32 CHR ''k'', bx_BackupDir = ''./backups''\<rparr>"

definition clock_ref :: clock where
  "clock_ref = \<lparr>ck_stamp = ''2024-01-02_03-04-05'', ck_rfc3339 = ''2024-01-02T03:04:05Z'', ck_utc = ''2024-01-02T03:04:05Z''\<rparr>"

definition disk_empty :: disk where
  "disk_empty = \<lparr>dk_files = [], dk_ops = 0\<rparr>"

definition first_version :: BadgerBackupVersionInfo where
  "first_version = \<lparr>bv_Version = 0, bv_Since = 0, bv_UpdatedAt = ck_rfc3339 clock_ref\<rparr>"

definition meta_ref :: bytes where
  "meta_ref = Marshal_BadgerBackupMeta (backup_meta crypto_ref clock_ref executor_ref 0 6 (replicate 12 CHR ''n''))"

lemma nonce_ref: "b64_encode (replicate 12 CHR ''n'') = ''bm5ubm5ubm5ubm5u''"
proof -
  have "replicate 12 CHR ''n'' = ''nnnnnnnnnnnn''" by (simp add: eval_nat_numeral)
  moreover have "char_of (98 :: nat) = CHR ''b''" "char_of (109 :: nat) = CHR ''m''" "char_of (53 :: nat) = CHR ''5''" "char_of (117 :: nat) = CHR ''u''"
    by code_simp+
  ultimately show ?thesis by (simp add: b64_char_def)
qed

lemma meta_ref_length: "length meta_ref \<le> 4294967295"
proof -
  have "meta_ref = json_print (JObj [(''algo'', JStr ''AES-256-GCM''), (''nonce_b64'', JStr ''bm5ubm5ubm5ubm5u''),
     (''created_at'', JStr ''2024-01-02T03:04:05Z''), (''since'', enc_uint 0), (''next_since'', enc_uint 6),
     (''encryption_key_id'', JStr ''6b6b6b6b6b6b6b6b'')])"
  proof -
    have "take 16 (hex_EncodeToString (cr_Sum256 crypto_ref (bx_BackupEncryptionKey executor_ref))) = ''6b6b6b6b6b6b6b6b''" by code_simp
    then show ?thesis by (simp add: meta_ref_def Marshal_BadgerBackupMeta_def backup_meta_def nonce_ref clock_ref_def)
  qed
  also have "length (json_print (JObj [(''algo'', JStr ''AES-256-GCM''), (''nonce_b64'', JStr ''bm5ubm5ubm5ubm5u''),
     (''created_at'', JStr ''2024-01-02T03:04:05Z''), (''since'', enc_uint 0), (''next_since'', enc_uint 6),
     (''encryption_key_id'', JStr ''6b6b6b6b6b6b6b6b'')])) < 300" by code_simp
  finally show ?thesis by linarith
qed

lemma first_version_loaded:
  "de_fault D 0 = None \<Longrightarrow> run_state (LoadVersionInfo D clock_ref b) disk_empty = (Inr first_version, tick disk_empty)"
  by (simp add: LoadVersionInfo_def os_ReadFile_def disk_empty_def first_version_def)

text \<open>The first backup of a store with six bytes, on a disk that reads well.\<close>

lemma Execute_ref:
  assumes "de_fault D 0 = None"
  shows "run_state (backup_Execute D badger_ref crypto_ref (Inr (replicate 12 CHR ''n'')) clock_ref executor_ref ''shares'') disk_empty =
     run_state (write_backup D clock_ref executor_ref 1 6 meta_ref (cr_Seal crypto_ref (replicate 32 CHR ''k'') (replicate 12 CHR ''n'') ''shares''))
       (tick disk_empty)"
proof -
  let ?n = "replicate 12 CHR ''n''" and ?k = "replicate 32 CHR ''k''"
  have v: "next_version first_version = 1" by (simp add: next_version_def first_version_def)
  have z: "bv_Since first_version = 0" by (simp add: first_version_def)
  have backup: "bd_Backup badger_ref ''shares'' 0 = Inr (''shares'', 6)" by (simp add: badger_ref_def)
  have "EncryptAESGCM crypto_ref (Inr n) ''shares'' (bx_BackupEncryptionKey executor_ref) = Inr (cr_Seal crypto_ref ?k n ''shares'', n)" for n
    by (simp add: EncryptAESGCM_def aes_NewCipher_def executor_ref_def)
  from this [of ?n] show ?thesis
    unfolding backup_Execute_def meta_ref_def
    by (simp only: run_state_bind first_version_loaded [OF assms] prod.case sum.case v z backup) simp
qed

theorem backup_round_trip_witness:
  "fst (run_state (loadEncryptedBackup disk_good badger_ref crypto_ref executor_ref [] (backup_path executor_ref clock_ref 1))
     (snd (run_state (backup_Execute disk_good badger_ref crypto_ref (Inr (replicate 12 CHR ''n'')) clock_ref executor_ref ''shares'') disk_empty))) =
   Ret (Inr ''shares'')"
proof -
  let ?run = "run_state (backup_Execute disk_good badger_ref crypto_ref (Inr (replicate 12 CHR ''n'')) clock_ref executor_ref ''shares'') disk_empty"
  have good: "de_fault disk_good n = None" for n by (simp add: disk_good_def)
  have "fst ?run = None"
    unfolding Execute_ref [OF good] using meta_ref_length
    by (simp add: good write_backup_def Let_def os_Create_def file_Write_def SaveVersionInfo_def os_WriteFile_def)
  then have run: "?run = (None, snd ?run)" by (metis prod.collapse)
  have names: "safe_text (bx_NodeID executor_ref)" "safe_text (ck_stamp clock_ref)" by code_simp+
  have v: "next_version first_version = 1" by (simp add: next_version_def first_version_def)
  show ?thesis
    using backup_round_trip [OF crypto_ref_ok _ names(1,2) first_version_loaded _ _ _ _ _ run good, of "''shares''" 6 "[]"] v
    by (simp add: good gcm_nonce_size_def badger_ref_def first_version_def)
qed

section \<open>A backup that failed\<close>

lemma loadEncryptedBackup_files: "dk_files (snd (run_state (loadEncryptedBackup D L C b db p) d)) = dk_files d"
  by (simp add: loadEncryptedBackup_def os_ReadFile_def tick_def)

lemma load_backups_truncated:
  assumes "p \<in> set ps" and "gm_get (dk_files d) p = Some f" and "length f < length backup_magic"
  shows "\<forall>db1. fst (run_state (load_backups D L C b db ps) d) \<noteq> Ret (Inr db1)"
  using assms(1,2)
proof (induction ps arbitrary: db d)
  case (Cons q ps)
  obtain r d1 where l: "run_state (loadEncryptedBackup D L C b db q) d = (r, d1)" by fastforce
  have d1: "gm_get (dk_files d1) p = Some f"
    using loadEncryptedBackup_files [of D L C b db q d] l Cons.prems(2) by simp
  show ?case
  proof (cases "p = q")
    case True
    then have "\<forall>db1. r \<noteq> Ret (Inr db1)"
      using l Cons.prems(2) assms(3)
      by (auto simp: loadEncryptedBackup_def os_ReadFile_def decode_backup_def split: option.splits)
    then show ?thesis using l by (auto split: go_res.splits sum.splits)
  next
    case False
    with Cons.prems(1) have "p \<in> set ps" by simp
    from Cons.IH [OF this d1] l show ?thesis by (auto split: go_res.splits sum.splits)
  qed
qed simp

text \<open>
  A backup that failed half way blocks every restore. A backup file that ends before its magic text, which a
  failing write leaves behind, makes \<^verbatim>\<open>RestoreAllBackupsEncrypted\<close> fail for every disk, key and database: the good backups
  beside it cannot be restored until the file is removed by hand.
\<close>

lemma truncated_backup_blocks_restore:
  assumes "gm_get (dk_files d) p = Some f" and "length f < length backup_magic" and "glob_match (backup_pattern b) p"
  shows "fst (run_state (RestoreAllBackupsEncrypted D L C b restorePath key) d) \<noteq> Ret None"
proof -
  have "p \<in> set (SortedEncryptedBackups b (tick d))" "gm_get (dk_files (tick d)) p = Some f"
    using assms by (simp_all add: SortedEncryptedBackups_iff tick_def)
  from load_backups_truncated [OF this assms(2), of D L C b]
  have "fst (run_state (load_backups D L C b db (SortedEncryptedBackups b (tick d))) (tick d)) \<noteq> Ret (Inr db1)" for db db1
    by blast
  then show ?thesis
    by (auto simp: RestoreAllBackupsEncrypted_def os_MkdirAll_def State_Monad.get_def State_Monad.bind_def split_beta
        split: option.splits sum.splits go_res.splits)
qed

text \<open>A disk that fails at the third operation, the first write of the backup, after the file was created.\<close>

definition disk_full :: disk_env where
  "disk_full = \<lparr>de_fault = \<lambda>n. if n = 2 then Some (errorf ''no space left on device'') else None, de_partial = \<lambda>_. None\<rparr>"

lemma truncated_backup_blocks_restore_example:
  "fst (run_state (RestoreAllBackupsEncrypted disk_good badger_ref crypto_ref executor_ref ''restored'' [])
     (snd (run_state (backup_Execute disk_full badger_ref crypto_ref (Inr (replicate 12 CHR ''n'')) clock_ref executor_ref ''shares'') disk_empty)))
   \<noteq> Ret None"
proof -
  let ?d = "snd (run_state (backup_Execute disk_full badger_ref crypto_ref (Inr (replicate 12 CHR ''n'')) clock_ref executor_ref ''shares'') disk_empty)"
  have "gm_get (dk_files ?d) (backup_path executor_ref clock_ref 1) = Some []"
    by (subst Execute_ref) (simp_all add: disk_full_def write_backup_def Let_def os_Create_def file_Write_def put_file_def tick_def disk_empty_def)
  moreover have "glob_match (backup_pattern executor_ref) (backup_path executor_ref clock_ref 1)" by code_simp
  ultimately show ?thesis by (intro truncated_backup_blocks_restore [of ?d _ "[]"]) (simp_all add: backup_magic_def)
qed

text \<open>
  The version file has the same weakness: \<^verbatim>\<open>Execute\<close> only warns when saving it failed, and a version file that was cut
  off makes every later backup fail.
\<close>

lemma corrupt_version_blocks_backup:
  assumes "gm_get (dk_files d) (version_file b) = Some f" and "snd (Unmarshal_BadgerBackupVersionInfo f) \<noteq> None"
    and "de_fault D (dk_ops d) = None"
  shows "fst (run_state (backup_Execute D L C rand now b db) d) \<noteq> None"
  using assms
  by (auto simp: backup_Execute_def LoadVersionInfo_def os_ReadFile_def split: option.splits prod.splits)

end
