(* ===== verification/App_Config.thy ===== *)
theory App_Config
  imports Go_Lib "HOL-Library.State_Monad"
begin

text \<open>
  \<^verbatim>\<open>pkg/config/config.go\<close>: reading the configuration, its defaults and checks, and the process-wide configuration behind
  \<^verbatim>\<open>GetConfig\<close> and \<^verbatim>\<open>Update\<close>. \<^verbatim>\<open>Load\<close> returns the same pointer it stores in the package variable, and the node program
  writes through both, so configurations live in cells and a pointer is the index of a cell. Every access holds the
  lock, which makes it one step.

  viper and mapstructure are a parameter: viper's state is the history of the calls made to it, from which it answers,
  and \<open>vl_Decode\<close> decodes its settings. Every call ends the process (\<open>Panic\<close>) where the source calls
  \<^verbatim>\<open>logger.Fatal\<close> or panics.
\<close>

section \<open>The configuration\<close>

record ConsulConfig =
  co_Address :: string
  co_Username :: string
  co_Password :: string
  co_Token :: string

record TLSConfig =
  tls_ClientCert :: string
  tls_ClientKey :: string
  tls_CACert :: string

record NATsConfig =
  na_URL :: string
  na_Username :: string
  na_Password :: string
  na_TLS :: "TLSConfig option"

text \<open>The pointers \<^verbatim>\<open>Consul\<close>, \<^verbatim>\<open>NATs\<close> and \<^verbatim>\<open>TLS\<close> are only read after decoding; \<open>None\<close> is nil.\<close>

record Config =
  cf_Consul :: "ConsulConfig option"
  cf_NATs :: "NATsConfig option"
  cf_Environment :: string
  cf_BadgerPassword :: string
  cf_DBPath :: string
  cf_BackupDir :: string
  cf_BackupEnabled :: bool
  cf_BackupPeriodSeconds :: int
  cf_EventInitiatorAlgorithm :: string
  cf_EventInitiatorPubKey :: string
  cf_Threshold :: int
  cf_MaxConcurrentKeygen :: int
  cf_MaxConcurrentSigning :: int
  cf_MaxConcurrentResharing :: int
  cf_SessionWarmUpDelayMillis :: int

definition Config_zero :: Config where
  "Config_zero = \<lparr>cf_Consul = None, cf_NATs = None, cf_Environment = [], cf_BadgerPassword = [], cf_DBPath = [],
     cf_BackupDir = [], cf_BackupEnabled = False, cf_BackupPeriodSeconds = 0, cf_EventInitiatorAlgorithm = [],
     cf_EventInitiatorPubKey = [], cf_Threshold = 0, cf_MaxConcurrentKeygen = 0, cf_MaxConcurrentSigning = 0,
     cf_MaxConcurrentResharing = 0, cf_SessionWarmUpDelayMillis = 0\<rparr>"

definition EnvProduction :: string where "EnvProduction = ''production''"

definition defaultEnvironment :: string where "defaultEnvironment = ''development''"
definition defaultBadgerDBPath :: string where "defaultBadgerDBPath = ''.''"
definition defaultBackupDir :: string where "defaultBackupDir = ''backups''"
definition defaultBackupPeriodSeconds :: int where "defaultBackupPeriodSeconds = 300"
definition defaultMaxConcurrentKeygen :: int where "defaultMaxConcurrentKeygen = 2"
definition defaultMaxConcurrentSigning :: int where "defaultMaxConcurrentSigning = 10"
definition defaultMaxConcurrentResharing :: int where "defaultMaxConcurrentResharing = 5"
definition defaultSessionWarmUpDelayMs :: int where "defaultSessionWarmUpDelayMs = 100"
definition defaultThreshold :: int where "defaultThreshold = 1"
definition defaultInitiatorAlgorithm :: string where "defaultInitiatorAlgorithm = ''ed25519''"
definition EnvConfigFile :: string where "EnvConfigFile = ''MPC_CONFIG_FILE''"

lemmas default_defs =
  defaultEnvironment_def defaultBadgerDBPath_def defaultBackupDir_def defaultBackupPeriodSeconds_def
  defaultMaxConcurrentKeygen_def defaultMaxConcurrentSigning_def defaultMaxConcurrentResharing_def
  defaultSessionWarmUpDelayMs_def defaultThreshold_def defaultInitiatorAlgorithm_def

section \<open>Viper\<close>

datatype setting = S_str string | S_int int | S_bool bool

datatype viper_call =
    V_SetEnvPrefix string
  | V_SetEnvKeyReplacer "(string \<times> string) list"
  | V_AutomaticEnv
  | V_SetDefault string setting
  | V_SetConfigFile string
  | V_SetConfigName string
  | V_SetConfigType string
  | V_AddConfigPath string
  | V_ReadInConfig

record 's viper_lib =
  vl_ReadInConfig :: "viper_call list \<Rightarrow> go_error option"
  vl_AllSettings :: "viper_call list \<Rightarrow> 's"
  vl_NewDecoder :: "go_error option"
  vl_Decode :: "'s \<Rightarrow> go_error + Config"

text \<open>
  The state of the process that this package reads and writes: the environment variables, viper, the cells of the
  configurations allocated so far, and the package variable \<^verbatim>\<open>app\<close>.
\<close>

record app_state =
  as_environ :: "string gomap"
  as_viper :: "viper_call list"
  as_cells :: "Config list"
  as_app :: "nat option"

type_synonym 'a cio = "(app_state, 'a) state"

definition viper_do :: "viper_call \<Rightarrow> unit cio" where
  "viper_do c = State (\<lambda>s. ((), s\<lparr>as_viper := as_viper s @ [c]\<rparr>))"

fun viper_all :: "viper_call list \<Rightarrow> unit cio" where
  "viper_all [] = State_Monad.return ()"
| "viper_all (c # cs) = do { viper_do c; viper_all cs }"

definition viper_ReadInConfig :: "'s viper_lib \<Rightarrow> go_error option cio" where
  "viper_ReadInConfig V = State (\<lambda>s. (vl_ReadInConfig V (as_viper s), s\<lparr>as_viper := as_viper s @ [V_ReadInConfig]\<rparr>))"

definition os_Getenv :: "string \<Rightarrow> string cio" where
  "os_Getenv name = State (\<lambda>s. (case gm_get (as_environ s) name of None \<Rightarrow> [] | Some v \<Rightarrow> v, s))"

definition os_Setenv :: "string \<Rightarrow> string \<Rightarrow> unit cio" where
  "os_Setenv name v = State (\<lambda>s. ((), s\<lparr>as_environ := gm_put name v (as_environ s)\<rparr>))"

section \<open>Loading\<close>

definition config_defaults :: "(string \<times> setting) list" where
  "config_defaults =
     [(''environment'', S_str defaultEnvironment), (''db_path'', S_str defaultBadgerDBPath),
      (''backup_dir'', S_str defaultBackupDir), (''backup_period_seconds'', S_int defaultBackupPeriodSeconds),
      (''backup_enabled'', S_bool True), (''threshold'', S_int defaultThreshold),
      (''event_initiator_algorithm'', S_str defaultInitiatorAlgorithm),
      (''max_concurrent_keygen'', S_int defaultMaxConcurrentKeygen),
      (''max_concurrent_signing'', S_int defaultMaxConcurrentSigning),
      (''max_concurrent_resharing'', S_int defaultMaxConcurrentResharing),
      (''session_warm_up_delay_ms'', S_int defaultSessionWarmUpDelayMs)]"

definition initConfig :: "'s viper_lib \<Rightarrow> go_error option cio" where
  "initConfig V = do {
     viper_do (V_SetEnvPrefix ''MPC'');
     viper_do (V_SetEnvKeyReplacer [(''.'', ''_'')]);
     viper_do V_AutomaticEnv;
     viper_all (map (\<lambda>(k, v). V_SetDefault k v) config_defaults);
     configFile \<leftarrow> os_Getenv EnvConfigFile;
     (if configFile \<noteq> [] then viper_do (V_SetConfigFile configFile)
      else do {
        viper_do (V_SetConfigName ''config'');
        viper_do (V_SetConfigType ''yaml'');
        viper_do (V_AddConfigPath ''.'');
        viper_do (V_AddConfigPath ''/etc/mpc/'');
        viper_do (V_AddConfigPath ''$HOME/.mpc/'') });
     err \<leftarrow> viper_ReadInConfig V;
     State_Monad.return (map_option (wrapf ''viper read config'') err) }"

definition SetEnvConfigPath :: "string \<Rightarrow> unit cio" where
  "SetEnvConfigPath configPath = (if configPath \<noteq> [] then os_Setenv EnvConfigFile configPath else State_Monad.return ())"

definition validateEnvironment :: "string \<Rightarrow> go_error option" where
  "validateEnvironment environment =
     (if environment \<notin> set [''production'', ''development''] then
        Some (errorf (''invalid environment '' @ [CHR 0x27] @ environment @ [CHR 0x27]
          @ ''. Must be one of: production, development''))
      else None)"

text \<open>\<^verbatim>\<open>if cfg.F == zero { cfg.F = d }\<close>\<close>

definition or_else :: "'a \<Rightarrow> 'a \<Rightarrow> 'a \<Rightarrow> 'a" where
  "or_else z d v = (if v = z then d else v)"

definition applyDefaults :: "Config \<Rightarrow> Config" where
  "applyDefaults cfg = cfg
     \<lparr>cf_Environment := or_else [] defaultEnvironment (cf_Environment cfg),
      cf_DBPath := or_else [] defaultBadgerDBPath (cf_DBPath cfg),
      cf_BackupDir := or_else [] defaultBackupDir (cf_BackupDir cfg),
      cf_BackupPeriodSeconds := or_else 0 defaultBackupPeriodSeconds (cf_BackupPeriodSeconds cfg),
      cf_MaxConcurrentKeygen := or_else 0 defaultMaxConcurrentKeygen (cf_MaxConcurrentKeygen cfg),
      cf_MaxConcurrentSigning := or_else 0 defaultMaxConcurrentSigning (cf_MaxConcurrentSigning cfg),
      cf_MaxConcurrentResharing := or_else 0 defaultMaxConcurrentResharing (cf_MaxConcurrentResharing cfg),
      cf_SessionWarmUpDelayMillis := or_else 0 defaultSessionWarmUpDelayMs (cf_SessionWarmUpDelayMillis cfg),
      cf_Threshold := or_else 0 defaultThreshold (cf_Threshold cfg),
      cf_EventInitiatorAlgorithm := or_else [] defaultInitiatorAlgorithm (cf_EventInitiatorAlgorithm cfg)\<rparr>"

text \<open>A fresh cell for a configuration; its address is the result.\<close>

definition new_cell :: "Config \<Rightarrow> nat cio" where
  "new_cell c = State (\<lambda>s. (length (as_cells s), s\<lparr>as_cells := as_cells s @ [c]\<rparr>))"

definition setConfig :: "nat \<Rightarrow> unit cio" where
  "setConfig p = State (\<lambda>s. ((), s\<lparr>as_app := Some p\<rparr>))"

definition LoadConfig :: "'s viper_lib \<Rightarrow> (go_error + nat) cio" where
  "LoadConfig V =
     (case vl_NewDecoder V of
        Some err \<Rightarrow> State_Monad.return (Inl (wrapf ''create decoder'' err))
      | None \<Rightarrow> do {
          history \<leftarrow> State (\<lambda>s. (as_viper s, s));
          (case vl_Decode V (vl_AllSettings V history) of
             Inl err \<Rightarrow> State_Monad.return (Inl (wrapf ''decode config'' err))
           | Inr decoded \<Rightarrow>
               (let cfg = applyDefaults decoded in
                case validateEnvironment (cf_Environment cfg) of
                  Some err \<Rightarrow> State_Monad.return (Inl (wrapf ''config validation failed'' err))
                | None \<Rightarrow> do {
                    p \<leftarrow> new_cell cfg;
                    setConfig p;
                    State_Monad.return (Inr p) })) })"

definition Load :: "'s viper_lib \<Rightarrow> (go_error + nat) cio" where
  "Load V = do {
     err \<leftarrow> initConfig V;
     (case err of Some e \<Rightarrow> State_Monad.return (Inl e) | None \<Rightarrow> LoadConfig V) }"

section \<open>Access\<close>

text \<open>The configuration a pointer refers to, and a write through it.\<close>

definition cell :: "nat \<Rightarrow> app_state \<Rightarrow> Config" where
  "cell p s = (if p < length (as_cells s) then as_cells s ! p else Config_zero)"

definition write_cell :: "nat \<Rightarrow> (Config \<Rightarrow> Config) \<Rightarrow> app_state \<Rightarrow> app_state" where
  "write_cell p f s = s\<lparr>as_cells := (as_cells s)[p := f (cell p s)]\<rparr>"

definition GetConfig :: "app_state \<Rightarrow> nat go_res" where
  "GetConfig s = (case as_app s of None \<Rightarrow> Panic | Some p \<Rightarrow> Ret p)"

definition Update_config :: "(Config \<Rightarrow> Config) \<Rightarrow> app_state \<Rightarrow> app_state go_res" where
  "Update_config fn s = (case as_app s of None \<Rightarrow> Panic | Some p \<Rightarrow> Ret (write_cell p fn s))"

text \<open>A field of the current configuration: \<^verbatim>\<open>GetConfig().F\<close>.\<close>

definition config_field :: "(Config \<Rightarrow> 'a) \<Rightarrow> app_state \<Rightarrow> 'a go_res" where
  "config_field f s = (case GetConfig s of Panic \<Rightarrow> Panic | Ret p \<Rightarrow> Ret (f (cell p s)))"

definition BadgerPassword :: "app_state \<Rightarrow> string go_res" where "BadgerPassword = config_field cf_BadgerPassword"

definition SetBadgerPassword :: "string \<Rightarrow> app_state \<Rightarrow> app_state go_res" where
  "SetBadgerPassword password = Update_config (\<lambda>cfg. cfg\<lparr>cf_BadgerPassword := password\<rparr>)"

definition EventInitiatorAlgorithm :: "app_state \<Rightarrow> string go_res" where
  "EventInitiatorAlgorithm = config_field cf_EventInitiatorAlgorithm"
definition EventInitiatorPubKey :: "app_state \<Rightarrow> string go_res" where
  "EventInitiatorPubKey = config_field cf_EventInitiatorPubKey"
definition Threshold :: "app_state \<Rightarrow> int go_res" where "Threshold = config_field cf_Threshold"
definition MaxConcurrentKeygen :: "app_state \<Rightarrow> int go_res" where "MaxConcurrentKeygen = config_field cf_MaxConcurrentKeygen"
definition MaxConcurrentSigning :: "app_state \<Rightarrow> int go_res" where "MaxConcurrentSigning = config_field cf_MaxConcurrentSigning"
definition MaxConcurrentResharing :: "app_state \<Rightarrow> int go_res" where
  "MaxConcurrentResharing = config_field cf_MaxConcurrentResharing"
definition SessionWarmUpDelayMillis :: "app_state \<Rightarrow> int go_res" where
  "SessionWarmUpDelayMillis = config_field cf_SessionWarmUpDelayMillis"
definition DBPath :: "app_state \<Rightarrow> string go_res" where "DBPath = config_field cf_DBPath"
definition BackupEnabled :: "app_state \<Rightarrow> bool go_res" where "BackupEnabled = config_field cf_BackupEnabled"
definition BackupPeriodSeconds :: "app_state \<Rightarrow> int go_res" where "BackupPeriodSeconds = config_field cf_BackupPeriodSeconds"
definition NATs :: "app_state \<Rightarrow> NATsConfig option go_res" where "NATs = config_field cf_NATs"
definition Environment :: "app_state \<Rightarrow> string go_res" where "Environment = config_field cf_Environment"
definition BackupDir :: "app_state \<Rightarrow> string go_res" where "BackupDir = config_field cf_BackupDir"

section \<open>Readers of the current configuration\<close>

text \<open>
  What the components that ask for a setting rely on: before a load the question ends the process; after one it is
  answered from the loaded cell. A setting other than the password is not changed by setting the password.
\<close>

locale config_reader =
  fixes read :: "app_state \<Rightarrow> 'a go_res" and field :: "Config \<Rightarrow> 'a"
  assumes read_none: "as_app s = None \<Longrightarrow> read s = Panic"
    and read_some: "as_app s = Some p \<Longrightarrow> read s = Ret (field (cell p s))"
begin

lemma read_iff: "read s = Ret v \<longleftrightarrow> (\<exists>p. as_app s = Some p \<and> field (cell p s) = v)"
  by (cases "as_app s") (auto simp: read_none read_some)

end

locale config_reader_kept = config_reader +
  assumes keeps: "field (c\<lparr>cf_BadgerPassword := w\<rparr>) = field c"
begin

lemma read_after_password: "SetBadgerPassword w s = Ret s' \<Longrightarrow> read s' = read s"
  by (auto simp: SetBadgerPassword_def Update_config_def write_cell_def cell_def read_some keeps
      nth_list_update split: option.splits)

end

lemma config_field_reader: "config_reader (config_field f) f"
  by unfold_locales (simp_all add: config_field_def GetConfig_def)

lemma config_field_kept: "(\<And>c w. f (c\<lparr>cf_BadgerPassword := w\<rparr>) = f c) \<Longrightarrow> config_reader_kept (config_field f) f"
  by (intro config_reader_kept.intro config_field_reader config_reader_kept_axioms.intro)

interpretation cfg_password: config_reader BadgerPassword cf_BadgerPassword
  unfolding BadgerPassword_def by (rule config_field_reader)

interpretation cfg_algorithm: config_reader_kept EventInitiatorAlgorithm cf_EventInitiatorAlgorithm
  unfolding EventInitiatorAlgorithm_def by (rule config_field_kept) simp

interpretation cfg_pubkey: config_reader_kept EventInitiatorPubKey cf_EventInitiatorPubKey
  unfolding EventInitiatorPubKey_def by (rule config_field_kept) simp

interpretation cfg_threshold: config_reader_kept Threshold cf_Threshold
  unfolding Threshold_def by (rule config_field_kept) simp

interpretation cfg_keygen: config_reader_kept MaxConcurrentKeygen cf_MaxConcurrentKeygen
  unfolding MaxConcurrentKeygen_def by (rule config_field_kept) simp

interpretation cfg_signing: config_reader_kept MaxConcurrentSigning cf_MaxConcurrentSigning
  unfolding MaxConcurrentSigning_def by (rule config_field_kept) simp

interpretation cfg_resharing: config_reader_kept MaxConcurrentResharing cf_MaxConcurrentResharing
  unfolding MaxConcurrentResharing_def by (rule config_field_kept) simp

interpretation cfg_warm_up: config_reader_kept SessionWarmUpDelayMillis cf_SessionWarmUpDelayMillis
  unfolding SessionWarmUpDelayMillis_def by (rule config_field_kept) simp

interpretation cfg_db_path: config_reader_kept DBPath cf_DBPath
  unfolding DBPath_def by (rule config_field_kept) simp

interpretation cfg_backup_enabled: config_reader_kept BackupEnabled cf_BackupEnabled
  unfolding BackupEnabled_def by (rule config_field_kept) simp

interpretation cfg_backup_period: config_reader_kept BackupPeriodSeconds cf_BackupPeriodSeconds
  unfolding BackupPeriodSeconds_def by (rule config_field_kept) simp

interpretation cfg_nats: config_reader_kept NATs cf_NATs
  unfolding NATs_def by (rule config_field_kept) simp

interpretation cfg_environment: config_reader_kept Environment cf_Environment
  unfolding Environment_def by (rule config_field_kept) simp

interpretation cfg_backup_dir: config_reader_kept BackupDir cf_BackupDir
  unfolding BackupDir_def by (rule config_field_kept) simp

lemmas config_kept =
  cfg_algorithm.read_after_password cfg_pubkey.read_after_password cfg_threshold.read_after_password
  cfg_keygen.read_after_password cfg_signing.read_after_password cfg_resharing.read_after_password
  cfg_warm_up.read_after_password cfg_db_path.read_after_password cfg_backup_enabled.read_after_password
  cfg_backup_period.read_after_password cfg_nats.read_after_password cfg_environment.read_after_password
  cfg_backup_dir.read_after_password

section \<open>Loaded configurations\<close>

text \<open>
  What the program may assume of a loaded configuration. The numbers are only known not to be zero: a negative
  threshold or limit of the file passes.
\<close>

definition config_valid :: "Config \<Rightarrow> bool" where
  "config_valid c \<longleftrightarrow> cf_Environment c \<in> {''production'', ''development''} \<and> cf_DBPath c \<noteq> [] \<and> cf_BackupDir c \<noteq> []
     \<and> cf_EventInitiatorAlgorithm c \<noteq> [] \<and> cf_BackupPeriodSeconds c \<noteq> 0 \<and> cf_Threshold c \<noteq> 0
     \<and> cf_MaxConcurrentKeygen c \<noteq> 0 \<and> cf_MaxConcurrentSigning c \<noteq> 0 \<and> cf_MaxConcurrentResharing c \<noteq> 0
     \<and> cf_SessionWarmUpDelayMillis c \<noteq> 0"

lemma applyDefaults_valid: "validateEnvironment (cf_Environment (applyDefaults d)) = None \<Longrightarrow> config_valid (applyDefaults d)"
  by (simp add: config_valid_def validateEnvironment_def applyDefaults_def or_else_def default_defs split: if_splits)

lemma applyDefaults_idem: "applyDefaults (applyDefaults d) = applyDefaults d"
  by (simp add: applyDefaults_def or_else_def default_defs)

text \<open>The calls \<^verbatim>\<open>initConfig\<close> makes to viper.\<close>

definition config_source :: "string \<Rightarrow> viper_call list" where
  "config_source configFile =
     (if configFile \<noteq> [] then [V_SetConfigFile configFile]
      else [V_SetConfigName ''config'', V_SetConfigType ''yaml'', V_AddConfigPath ''.'', V_AddConfigPath ''/etc/mpc/'',
            V_AddConfigPath ''$HOME/.mpc/''])"

definition viper_setup :: "string \<Rightarrow> viper_call list" where
  "viper_setup configFile =
     [V_SetEnvPrefix ''MPC'', V_SetEnvKeyReplacer [(''.'', ''_'')], V_AutomaticEnv]
     @ map (\<lambda>(k, v). V_SetDefault k v) config_defaults @ config_source configFile"

lemma run_viper_do [simp]: "run_state (viper_do c) s = ((), s\<lparr>as_viper := as_viper s @ [c]\<rparr>)"
  by (simp add: viper_do_def)

lemma run_viper_all: "run_state (viper_all cs) s = ((), s\<lparr>as_viper := as_viper s @ cs\<rparr>)"
  by (induction cs arbitrary: s) simp_all

definition config_file_of :: "app_state \<Rightarrow> string" where
  "config_file_of s = (case gm_get (as_environ s) EnvConfigFile of None \<Rightarrow> [] | Some v \<Rightarrow> v)"

lemma run_initConfig:
  "run_state (initConfig V) s =
     (map_option (wrapf ''viper read config'') (vl_ReadInConfig V (as_viper s @ viper_setup (config_file_of s))),
      s\<lparr>as_viper := as_viper s @ viper_setup (config_file_of s) @ [V_ReadInConfig]\<rparr>)"
  by (simp add: initConfig_def run_viper_all os_Getenv_def viper_ReadInConfig_def viper_setup_def config_source_def
      config_file_of_def)

lemma run_LoadConfig:
  "run_state (LoadConfig V) s = (Inr p, s') \<longleftrightarrow>
     vl_NewDecoder V = None \<and>
     (\<exists>d. vl_Decode V (vl_AllSettings V (as_viper s)) = Inr d \<and> validateEnvironment (cf_Environment (applyDefaults d)) = None
        \<and> p = length (as_cells s) \<and> s' = s\<lparr>as_cells := as_cells s @ [applyDefaults d], as_app := Some p\<rparr>)"
  by (auto simp: LoadConfig_def new_cell_def setConfig_def Let_def split: option.splits sum.splits)

lemma run_LoadConfig_fails: "run_state (LoadConfig V) s = (Inl err, s') \<Longrightarrow> s' = s"
  by (auto simp: LoadConfig_def new_cell_def setConfig_def Let_def split: option.splits sum.splits)

text \<open>A pointer refers to a cell, and the current configuration is valid.\<close>

definition app_ok :: "app_state \<Rightarrow> bool" where
  "app_ok s \<longleftrightarrow> (\<forall>p. as_app s = Some p \<longrightarrow> p < length (as_cells s) \<and> config_valid (cell p s))"

lemma write_password_ok:
  assumes "app_ok s"
  shows "app_ok (write_cell p (\<lambda>c. c\<lparr>cf_BadgerPassword := w\<rparr>) s)"
proof -
  have "config_valid (c\<lparr>cf_BadgerPassword := w\<rparr>) = config_valid c" for c by (simp add: config_valid_def)
  then show ?thesis using assms by (auto simp: app_ok_def write_cell_def cell_def nth_list_update)
qed

lemma SetBadgerPassword_ok: "app_ok s \<Longrightarrow> SetBadgerPassword w s = Ret s' \<Longrightarrow> app_ok s'"
  using write_password_ok by (auto simp: SetBadgerPassword_def Update_config_def split: option.splits)

lemma SetBadgerPassword_reads:
  assumes "app_ok s" and "SetBadgerPassword w s = Ret s'"
  shows "BadgerPassword s' = Ret w"
proof -
  from assms(2) obtain p where p: "as_app s = Some p" and s': "s' = write_cell p (\<lambda>c. c\<lparr>cf_BadgerPassword := w\<rparr>) s"
    by (auto simp: SetBadgerPassword_def Update_config_def split: option.splits)
  have "p < length (as_cells s)" using assms(1) p by (simp add: app_ok_def)
  then show ?thesis using p cfg_password.read_some [of s' p] by (simp add: s' write_cell_def cell_def)
qed

lemma config_load_cases:
  "case run_state (Load V) s of
     (Inr p, s') \<Rightarrow>
       p = length (as_cells s) \<and> GetConfig s' = Ret p \<and> as_cells s' = as_cells s @ [cell p s'] \<and> config_valid (cell p s')
       \<and> as_viper s' = as_viper s @ viper_setup (config_file_of s) @ [V_ReadInConfig]
       \<and> (\<exists>d. vl_Decode V (vl_AllSettings V (as_viper s')) = Inr d \<and> cell p s' = applyDefaults d)
   | (Inl err, s') \<Rightarrow> as_app s' = as_app s \<and> as_cells s' = as_cells s"
proof -
  obtain r s1 where init: "run_state (initConfig V) s = (r, s1)" by fastforce
  then have s1: "s1 = s\<lparr>as_viper := as_viper s @ viper_setup (config_file_of s) @ [V_ReadInConfig]\<rparr>"
    by (simp add: run_initConfig)
  show ?thesis
  proof (cases r)
    case (Some e)
    with init s1 show ?thesis by (simp add: Load_def)
  next
    case None
    obtain v s' where load: "run_state (LoadConfig V) s1 = (v, s')" by fastforce
    have run: "run_state (Load V) s = (v, s')" using init None load by (simp add: Load_def)
    show ?thesis
    proof (cases v)
      case (Inl e)
      with load run s1 show ?thesis using run_LoadConfig_fails [of V s1 e s'] by simp
    next
      case (Inr p)
      with load obtain d where d: "vl_Decode V (vl_AllSettings V (as_viper s1)) = Inr d"
        "validateEnvironment (cf_Environment (applyDefaults d)) = None" "p = length (as_cells s1)"
        "s' = s1\<lparr>as_cells := as_cells s1 @ [applyDefaults d], as_app := Some p\<rparr>"
        by (auto simp: run_LoadConfig)
      then have c: "cell p s' = applyDefaults d" and g: "GetConfig s' = Ret p" by (simp_all add: GetConfig_def cell_def)
      have "run_state (Load V) s = (Inr p, s')" using run Inr by simp
      moreover have "as_cells s' = as_cells s @ [cell p s']" "p = length (as_cells s)" "as_viper s' = as_viper s1"
        unfolding c using d(3,4) s1 by simp_all
      ultimately show ?thesis using c g d(1) applyDefaults_valid [OF d(2)] s1 by auto
    qed
  qed
qed

lemma config_load_facts:
  assumes "run_state (Load V) s = (Inr p, s')"
  shows "GetConfig s' = Ret p \<and> p < length (as_cells s') \<and> config_valid (cell p s')"
  using config_load_cases [of s V] assms by (auto dest: arg_cong [where f = length])

section \<open>Properties\<close>

text \<open>
  C20: what loading the configuration does, in every state. When \<^verbatim>\<open>Load\<close> succeeds, viper was set up with the prefix, the
  defaults and the configuration file that \<^verbatim>\<open>MPC_CONFIG_FILE\<close> names (or the three search directories), the result is a
  fresh pointer to the decoded settings with every empty field replaced by its default, that pointer is the current
  configuration, its environment is one of the two allowed ones, and no setting that has a default is empty or zero.
  When it fails, the configuration in force stays the same. No other configuration is touched.
\<close>

theorem config_load_effect:
  "case run_state (Load V) s of
     (Inr p, s') \<Rightarrow>
       p = length (as_cells s) \<and> GetConfig s' = Ret p \<and> as_cells s' = as_cells s @ [cell p s'] \<and> config_valid (cell p s')
       \<and> as_viper s' = as_viper s @ viper_setup (config_file_of s) @ [V_ReadInConfig]
       \<and> (\<exists>d. vl_Decode V (vl_AllSettings V (as_viper s')) = Inr d \<and> cell p s' = applyDefaults d)
   | (Inl err, s') \<Rightarrow> as_app s' = as_app s \<and> as_cells s' = as_cells s"
  by (rule config_load_cases)

end
