(* ===== verification/Process.thy ===== *)
theory Process
  imports App_Config World Messaging Disk
begin

text \<open>
  The state of a whole program of \<^verbatim>\<open>cmd\<close>: the configuration, the calls made to the services of theory \<open>World\<close>, the calls
  made to the NATS client, the disk, and how often the terminal was asked for a password. A program of \<^verbatim>\<open>cmd\<close> is built
  from the operations of the packages, each lifted to this state. \<open>cmd_env\<close> gathers what lies outside. The result
  \<open>Panic\<close> stands for the end of the process in \<^verbatim>\<open>logger.Fatal\<close> or in a panic.

  \<^verbatim>\<open>pkg/infra/consul.go\<close> and \<^verbatim>\<open>pkg/messaging/nats_connection.go\<close>, which turn the configuration into connections, are here
  too.
\<close>

section \<open>Connections\<close>

text \<open>The Consul client: its configuration, the library's default one, and the two calls that can fail.\<close>

record api_Config =
  ac_Address :: string
  ac_Token :: string
  ac_HttpAuth :: "(string \<times> string) option"
  ac_WaitTime :: int

record consul_api =
  ca_DefaultConfig :: api_Config
  ca_NewClient :: "api_Config \<Rightarrow> go_error option"
  ca_Leader :: "api_Config \<Rightarrow> go_error option"

definition GetConsulConfig :: "consul_api \<Rightarrow> app_state \<Rightarrow> api_Config go_res" where
  "GetConsulConfig A s =
     (case GetConfig s of
        Panic \<Rightarrow> Panic
      | Ret p \<Rightarrow>
          (let cfg = cell p s; environment = cf_Environment cfg; config = ca_DefaultConfig A in
           case cf_Consul cfg of
             None \<Rightarrow> Panic
           | Some consulCfg \<Rightarrow>
               (let config1 =
                  (if environment = EnvProduction then
                     (let config0 = config\<lparr>ac_Token := co_Token consulCfg\<rparr> in
                      if co_Username consulCfg \<noteq> [] \<or> co_Password consulCfg \<noteq> []
                      then config0\<lparr>ac_HttpAuth := Some (co_Username consulCfg, co_Password consulCfg)\<rparr>
                      else config0)
                   else config);
                  config2 = config1\<lparr>ac_Address := co_Address consulCfg\<rparr>
                in Ret (if ac_Address config2 = [] then config2\<lparr>ac_Address := ac_Address (ca_DefaultConfig A)\<rparr> else config2))))"

definition GetConsulClient :: "consul_api \<Rightarrow> app_state \<Rightarrow> api_Config go_res" where
  "GetConsulClient A s =
     (case GetConsulConfig A s of
        Panic \<Rightarrow> Panic
      | Ret config0 \<Rightarrow>
          (let config = config0\<lparr>ac_WaitTime := 10 * ns_second\<rparr> in
           if ca_NewClient A config \<noteq> None then Panic
           else if ca_Leader A config \<noteq> None then Panic
           else Ret config))"

text \<open>\<^verbatim>\<open>NewConsulClient\<close> of the node program, which connects without the configuration.\<close>

definition NewConsulClient :: "consul_api \<Rightarrow> string \<Rightarrow> api_Config go_res" where
  "NewConsulClient A addr =
     (let consulConfig = (ca_DefaultConfig A)\<lparr>ac_Address := addr\<rparr> in
      if ca_NewClient A consulConfig \<noteq> None then Panic else Ret consulConfig)"

text \<open>The options of a NATS connection; the handlers only log.\<close>

datatype nats_option =
    O_MaxReconnects int
  | O_ReconnectWait int
  | O_DisconnectHandler
  | O_ReconnectHandler
  | O_ClosedHandler
  | O_ClientCert string string
  | O_RootCAs string
  | O_UserInfo string string

definition tls_path :: "string \<Rightarrow> string \<Rightarrow> string" where
  "tls_path configured name = (if configured = [] then filepath_Join (filepath_Join ''.'' ''certs'') name else configured)"

definition nats_options :: "string \<Rightarrow> NATsConfig \<Rightarrow> nats_option list" where
  "nats_options environment nats =
     [O_MaxReconnects (- 1), O_ReconnectWait (2 * ns_second), O_DisconnectHandler, O_ReconnectHandler, O_ClosedHandler]
     @ (if environment = EnvProduction then
          (let tls = (case na_TLS nats of
                        None \<Rightarrow> \<lparr>tls_ClientCert = [], tls_ClientKey = [], tls_CACert = []\<rparr> | Some t \<Rightarrow> t);
               clientCert = tls_path (tls_ClientCert tls) ''client-cert.pem'';
               clientKey = tls_path (tls_ClientKey tls) ''client-key.pem'';
               caCert = tls_path (tls_CACert tls) ''rootCA.pem''
           in [O_ClientCert clientCert clientKey, O_RootCAs caCert, O_UserInfo (na_Username nats) (na_Password nats)])
        else [])"

definition GetNATSConnection ::
  "(string \<Rightarrow> nats_option list \<Rightarrow> go_error option) \<Rightarrow> app_state \<Rightarrow> (go_error + string \<times> nats_option list) go_res" where
  "GetNATSConnection nats_Connect s =
     (case GetConfig s of
        Panic \<Rightarrow> Panic
      | Ret p \<Rightarrow>
          (case cf_NATs (cell p s) of
             None \<Rightarrow> Panic
           | Some nats \<Rightarrow>
               (let opts = nats_options (cf_Environment (cell p s)) nats in
                Ret (case nats_Connect (na_URL nats) opts of Some e \<Rightarrow> Inl e | None \<Rightarrow> Inr (na_URL nats, opts)))))"

section \<open>The process\<close>

text \<open>
  age on the writing side: making a recipient can fail, so can starting the encryption; what is written to the file
  is a header, what a \<^verbatim>\<open>Write\<close> of the plain text flushes, and what \<^verbatim>\<open>Close\<close> flushes.
\<close>

record age_enc =
  ae_NewScryptRecipient :: "string \<Rightarrow> go_error option"
  ae_Encrypt :: "string \<Rightarrow> go_error + bytes"
  ae_Write :: "string \<Rightarrow> bytes \<Rightarrow> bytes"
  ae_Close :: "string \<Rightarrow> bytes \<Rightarrow> bytes"

record 's cmd_env =
  ce_viper :: "'s viper_lib"
  ce_disk :: disk_env
  ce_env :: env
  ce_nats :: nats_env
  ce_consul :: consul_api
  ce_Connect :: "string \<Rightarrow> nats_option list \<Rightarrow> go_error option"
  ce_age :: age_lib
  ce_age_enc :: age_enc
  ce_crypto :: crypto
  ce_tty :: "nat \<Rightarrow> go_error + string"
  ce_Getwd :: "go_error + string"

record proc =
  ps_app :: app_state
  ps_io :: "call list"
  ps_nats :: "nats_call list"
  ps_disk :: disk
  ps_reads :: nat

type_synonym 'a pio = "(proc, 'a) state"

definition on_app :: "'a cio \<Rightarrow> 'a pio" where
  "on_app m = State (\<lambda>s. let (x, a) = run_state m (ps_app s) in (x, s\<lparr>ps_app := a\<rparr>))"
definition on_io :: "'a io \<Rightarrow> 'a pio" where
  "on_io m = State (\<lambda>s. let (x, t) = run_state m (ps_io s) in (x, s\<lparr>ps_io := t\<rparr>))"
definition on_nats :: "'a nio \<Rightarrow> 'a pio" where
  "on_nats m = State (\<lambda>s. let (x, t) = run_state m (ps_nats s) in (x, s\<lparr>ps_nats := t\<rparr>))"
definition on_disk :: "'a dio \<Rightarrow> 'a pio" where
  "on_disk m = State (\<lambda>s. let (x, d) = run_state m (ps_disk s) in (x, s\<lparr>ps_disk := d\<rparr>))"

text \<open>A question to the configuration.\<close>

definition ask :: "(app_state \<Rightarrow> 'a) \<Rightarrow> 'a pio" where
  "ask f = State (\<lambda>s. (f (ps_app s), s))"

definition term_ReadPassword :: "'s cmd_env \<Rightarrow> (go_error + string) pio" where
  "term_ReadPassword W = State (\<lambda>s. (ce_tty W (ps_reads s), s\<lparr>ps_reads := Suc (ps_reads s)\<rparr>))"

text \<open>A step that may end the process, and what follows it.\<close>

definition go_bind :: "'a go_res pio \<Rightarrow> ('a \<Rightarrow> 'b go_res pio) \<Rightarrow> 'b go_res pio" where
  "go_bind m f = do { r \<leftarrow> m; (case r of Panic \<Rightarrow> State_Monad.return Panic | Ret x \<Rightarrow> f x) }"

lemma run_on [simp]:
  "run_state (on_app m) s = (fst (run_state m (ps_app s)), s\<lparr>ps_app := snd (run_state m (ps_app s))\<rparr>)"
  "run_state (on_io n) s = (fst (run_state n (ps_io s)), s\<lparr>ps_io := snd (run_state n (ps_io s))\<rparr>)"
  "run_state (on_nats k) s = (fst (run_state k (ps_nats s)), s\<lparr>ps_nats := snd (run_state k (ps_nats s))\<rparr>)"
  "run_state (on_disk l) s = (fst (run_state l (ps_disk s)), s\<lparr>ps_disk := snd (run_state l (ps_disk s))\<rparr>)"
  "run_state (ask f) s = (f (ps_app s), s)"
  "run_state (term_ReadPassword W) s = (ce_tty W (ps_reads s), s\<lparr>ps_reads := Suc (ps_reads s)\<rparr>)"
  by (simp_all add: on_app_def on_io_def on_nats_def on_disk_def ask_def term_ReadPassword_def split_beta)

lemma run_go_bind:
  "run_state (go_bind m f) s =
     (case run_state m s of (Panic, s1) \<Rightarrow> (Panic, s1) | (Ret x, s1) \<Rightarrow> run_state (f x) s1)"
  by (simp add: go_bind_def split: prod.splits go_res.splits)

lemma run_go_bind_Ret:
  "run_state (go_bind m f) s = (Ret y, s') \<longleftrightarrow>
     (\<exists>x s1. run_state m s = (Ret x, s1) \<and> run_state (f x) s1 = (Ret y, s'))"
  by (auto simp: run_go_bind split: prod.splits go_res.splits)

section \<open>What a configuration gives\<close>

text \<open>
  Credentials are used in production only; TLS is on exactly there; a connection is refused only by a missing section
  or by the service.
\<close>

lemma GetConsulClient_credentials:
  assumes "GetConsulClient A s = Ret client" and "GetConfig s = Ret p" and "cf_Consul (cell p s) = Some c"
  shows "ac_Address client = (if co_Address c = [] then ac_Address (ca_DefaultConfig A) else co_Address c)
    \<and> ac_WaitTime client = 10 * ns_second
    \<and> ac_Token client = (if cf_Environment (cell p s) = EnvProduction then co_Token c else ac_Token (ca_DefaultConfig A))"
  using assms by (auto simp: GetConsulClient_def GetConsulConfig_def Let_def split: if_splits)

lemma GetNATSConnection_tls:
  assumes "GetNATSConnection nc s = Ret (Inr (url, opts))" and "GetConfig s = Ret p" and "cf_NATs (cell p s) = Some n"
  shows "url = na_URL n \<and> O_MaxReconnects (- 1) \<in> set opts
    \<and> ((\<exists>c k. O_ClientCert c k \<in> set opts) \<longleftrightarrow> cf_Environment (cell p s) = EnvProduction)
    \<and> (cf_Environment (cell p s) = EnvProduction \<longrightarrow> O_UserInfo (na_Username n) (na_Password n) \<in> set opts)"
  using assms by (auto simp: GetNATSConnection_def nats_options_def Let_def split: option.splits if_splits)

end
