(* ===== verification/Json_Indent.thy ===== *)
theory Json_Indent
  imports Json
begin

text \<open>
  \<^verbatim>\<open>json.MarshalIndent(v, "", "  ")\<close> for the values the command line tools write, objects whose members are all strings,
  and the proof that the parser of theory \<open>Json\<close> reads such a text back.
\<close>

fun indent_members :: "(string \<times> string) list \<Rightarrow> string" where
  "indent_members [] = []"
| "indent_members ((k, v) # ms) =
     CHR 0x0A # ''  '' @ json_quote k @ '': '' @ json_quote v
       @ (if ms = [] then [CHR 0x0A, CHR ''}''] else CHR '','' # indent_members ms)"

definition json_MarshalIndent :: "(string \<times> string) list \<Rightarrow> bytes" where
  "json_MarshalIndent ms = CHR ''{'' # (if ms = [] then ''}'' else indent_members ms)"

abbreviation str_obj :: "(string \<times> string) list \<Rightarrow> (string \<times> json) list" where
  "str_obj ms \<equiv> map (\<lambda>(k, v). (k, JStr v)) ms"

lemma json_ws_blank [simp]: "json_ws CHR 0x0A" "json_ws CHR '' ''"
  by (simp_all add: json_ws_def)

lemma parse_value_quote:
  "0 < n \<Longrightarrow> parse_value n (CHR '' '' # json_quote v @ rest) = Inr (JStr v, rest)"
  by (cases n) (simp_all add: json_quote_def parse_str_quote parse_value.simps(2))

lemma parse_indent_members:
  "ms \<noteq> [] \<Longrightarrow> length ms < n \<Longrightarrow> parse_members n (indent_members ms @ rest) = Inr (str_obj ms, rest)"
proof (induction ms arbitrary: n)
  case (Cons p ms)
  obtain k v where p: "p = (k, v)" by fastforce
  from Cons.prems obtain m where n: "n = Suc m" "length ms < m" by (cases n) auto
  have q: "parse_str (concat (map json_escape k) @ CHR 0x22 # t) = Inr (k, t)" for t
    by (rule parse_str_quote)
  have v: "parse_value m (CHR '' '' # json_quote v @ t) = Inr (JStr v, t)" for t
    using n(2) by (intro parse_value_quote) simp
  show ?case
  proof (cases "ms = []")
    case True
    then show ?thesis using q v [of "CHR 0x0A # CHR ''}'' # rest"] by (simp add: p n(1) json_quote_def [of k] parse_members.simps(2))
  next
    case False
    with Cons.IH [OF False n(2)] show ?thesis
      using q v [of "CHR '','' # indent_members ms @ rest"] by (simp add: p n(1) json_quote_def [of k] parse_members.simps(2))
  qed
qed simp

lemma indent_members_length: "2 * length ms \<le> length (indent_members ms)"
  by (induction ms rule: indent_members.induct) auto

lemma parse_MarshalIndent: "json_parse (json_MarshalIndent ms) = Inr (JObj (str_obj ms))"
proof (cases ms)
  case Nil
  then show ?thesis by (simp add: json_parse_def json_MarshalIndent_def parse_value.simps(2) numeral_eq_Suc)
next
  case (Cons p rest)
  obtain k v where p: "p = (k, v)" by fastforce
  obtain t where t: "dropWhile json_ws (indent_members ms) = CHR 0x22 # t"
    by (simp add: Cons p json_quote_def)
  define f where "f = Suc (2 * length (json_MarshalIndent ms))"
  have "length ms < f" using indent_members_length [of ms] by (simp add: f_def json_MarshalIndent_def Cons)
  then have "parse_members f (indent_members ms) = Inr (str_obj ms, [])"
    using parse_indent_members [of ms f "[]"] Cons by simp
  then have "parse_value (Suc f) (json_MarshalIndent ms) = Inr (JObj (str_obj ms), [])"
    using t Cons by (simp add: json_MarshalIndent_def parse_value.simps(2))
  then show ?thesis by (simp add: json_parse_def f_def)
qed

lemma json_Unmarshal_indent [codec_simps]:
  "json_Unmarshal dec (json_MarshalIndent ms) r
     = (fst (dec (JObj (str_obj ms)) r), if snd (dec (JObj (str_obj ms)) r) then Some json_type_error else None)"
  by (simp add: json_Unmarshal_def parse_MarshalIndent split: prod.split)

end
