(* ===== verification/Peers_Setup.thy ===== *)
theory Peers_Setup
  imports Process Json_Indent Identity_Files
begin

text \<open>
  The peers of a cluster, from their generation to their use: \<^verbatim>\<open>mpc-cli peer generate\<close> writes \<^verbatim>\<open>peers.json\<close>,
  \<^verbatim>\<open>mpc-cli peer register\<close> puts it into Consul (\<^verbatim>\<open>cmd/cli/peers\<close>), and a node loads the peers from Consul and finds its
  own ID by its name (\<^verbatim>\<open>pkg/config/peers.go\<close>, \<^verbatim>\<open>cmd/node/consul.go\<close>). The theorem follows the peers through all three.
\<close>

section \<open>Loading from Consul\<close>

record Peer =
  pr_ID :: string
  pr_Name :: string

text \<open>Slicing a key that is shorter than the prefix would panic.\<close>

definition config_LoadPeersFromConsul :: "env \<Rightarrow> string \<Rightarrow> (go_error + Peer list) go_res io" where
  "config_LoadPeersFromConsul E pre = do {
     pairs \<leftarrow> io_ConsulList E pre;
     State_Monad.return
       (case pairs of
          Inl err \<Rightarrow> Ret (Inl err)
        | Inr ps \<Rightarrow>
            if list_ex (\<lambda>(k, v). length k < length pre) ps then Panic
            else Ret (Inr (map (\<lambda>(k, v). \<lparr>pr_ID = v, pr_Name = drop (length pre) k\<rparr>) ps))) }"

fun GetNodeID :: "string \<Rightarrow> Peer list \<Rightarrow> string" where
  "GetNodeID nodeName [] = []"
| "GetNodeID nodeName (peer # peers) = (if pr_Name peer = nodeName then pr_ID peer else GetNodeID nodeName peers)"

definition peers_prefix :: string where "peers_prefix = ''mpc_peers/''"

definition LoadPeersFromConsul :: "env \<Rightarrow> Peer list go_res io" where
  "LoadPeersFromConsul E = do {
     r \<leftarrow> config_LoadPeersFromConsul E peers_prefix;
     (case r of
        Panic \<Rightarrow> State_Monad.return Panic
      | Ret (Inl err) \<Rightarrow> do { io_Fatal; State_Monad.return Panic }
      | Ret (Inr peers) \<Rightarrow> State_Monad.return (Ret peers)) }"

definition GetPeerIDs :: "Peer list \<Rightarrow> string list" where
  "GetPeerIDs peers = map pr_ID peers"

definition GetIDFromName :: "string \<Rightarrow> Peer list \<Rightarrow> string go_res io" where
  "GetIDFromName name peers =
     (let nodeID = GetNodeID name peers in
      if nodeID = [] then do { io_Fatal; State_Monad.return Panic } else State_Monad.return (Ret nodeID))"

section \<open>Generating\<close>

text \<open>The loop over the nodes: \<open>uuids\<close> gives the result of each call of \<^verbatim>\<open>uuid.NewRandom\<close>.\<close>

fun new_peers :: "(nat \<Rightarrow> go_error + string) \<Rightarrow> nat list \<Rightarrow> string gomap \<Rightarrow> go_error + string gomap" where
  "new_peers uuids [] peers = Inr peers"
| "new_peers uuids (i # is) peers =
     (case uuids i of
        Inl err \<Rightarrow> Inl (wrapf ''failed to generate UUID'' err)
      | Inr u \<Rightarrow> new_peers uuids is (gm_put (''node'' @ utoa i) u peers))"

definition generatePeers :: "disk_env \<Rightarrow> (nat \<Rightarrow> go_error + string) \<Rightarrow> int \<Rightarrow> string \<Rightarrow> go_error option dio" where
  "generatePeers D uuids numberOfNodes outputPath =
     (if numberOfNodes < 1 then State_Monad.return (Some (errorf ''number of nodes must be at least 1''))
      else do {
        st \<leftarrow> os_Stat D outputPath;
        (case st of
           None \<Rightarrow> State_Monad.return (Some (errorf (''file '' @ outputPath @ '' already exists, won'' @ [CHR 0x27] @ ''t overwrite'')))
         | Some err \<Rightarrow>
             if \<not> os_IsNotExist err then State_Monad.return (Some (wrapf ''error checking file status'' err))
             else do {
               mk \<leftarrow> (if filepath_Dir outputPath \<noteq> ''.'' then os_MkdirAll D (filepath_Dir outputPath) else State_Monad.return None);
               (case mk of
                  Some err \<Rightarrow> State_Monad.return (Some (wrapf ''failed to create directory'' err))
                | None \<Rightarrow>
                    (case new_peers uuids [0..<nat numberOfNodes] [] of
                       Inl err \<Rightarrow> State_Monad.return (Some err)
                     | Inr peers \<Rightarrow> do {
                         err \<leftarrow> os_WriteFile D outputPath (json_MarshalIndent (sorted_pairs peers));
                         State_Monad.return (map_option (wrapf ''failed to write file'') err) })) }) })"

section \<open>Registering\<close>

definition register_peer_id :: "env \<Rightarrow> string \<Rightarrow> string \<Rightarrow> go_error option io" where
  "register_peer_id E nodeName nodeID = do {
     let key = peers_prefix @ nodeName;
     existing \<leftarrow> io_ConsulGet E key;
     (case existing of
        Inl err \<Rightarrow> State_Monad.return (Some (wrapf (''failed to check existing key '' @ key) err))
      | Inr (Some existingID) \<Rightarrow>
          State_Monad.return
            (if existingID \<noteq> nodeID then
               Some (errorf (''conflict detected: peer '' @ nodeName @ '' already exists with ID '' @ existingID
                 @ '', but trying to register with different ID '' @ nodeID))
             else None)
      | Inr None \<Rightarrow> do {
          err \<leftarrow> io_ConsulPut E key nodeID;
          State_Monad.return (map_option (wrapf (''failed to store key '' @ key)) err) }) }"

fun register_peer_ids :: "env \<Rightarrow> (string \<times> string) list \<Rightarrow> go_error option io" where
  "register_peer_ids E [] = State_Monad.return None"
| "register_peer_ids E ((nodeName, nodeID) # peers) = do {
     err \<leftarrow> register_peer_id E nodeName nodeID;
     (case err of Some e \<Rightarrow> State_Monad.return (Some e) | None \<Rightarrow> register_peer_ids E peers) }"

definition peers_missing :: "string \<Rightarrow> go_error" where
  "peers_missing path =
     errorf (if path = ''peers.json'' then
       ''peers.json not found in current directory. Please specify the path using --peers flag or create peers.json in the current directory''
       else ''input file '' @ path @ '' does not exist'')"

text \<open>The walk over the map of peers may take any order, which the argument \<open>ord\<close> chooses.\<close>

definition registerPeers ::
  "'s cmd_env \<Rightarrow> (string gomap \<Rightarrow> string gomap) \<Rightarrow> string \<Rightarrow> go_error option go_res pio" where
  "registerPeers W ord registerPeersPath =
     (let path = (if registerPeersPath = [] then ''peers.json'' else registerPeersPath) in
      case ValidateFilePath path of
        Some err \<Rightarrow> State_Monad.return (Ret (Some (wrapf ''invalid input file path'' err)))
      | None \<Rightarrow> do {
          st \<leftarrow> on_disk (os_Stat (ce_disk W) path);
          (if (case st of Some e \<Rightarrow> os_IsNotExist e | None \<Rightarrow> False) then State_Monad.return (Ret (Some (peers_missing path)))
           else do {
             data \<leftarrow> on_disk (os_ReadFile (ce_disk W) path);
             (case data of
                Inl err \<Rightarrow> State_Monad.return (Ret (Some (wrapf ''failed to read JSON file'' err)))
              | Inr bs \<Rightarrow>
                  (case Unmarshal_peers bs of
                     (_, Some err) \<Rightarrow> State_Monad.return (Ret (Some (wrapf ''failed to unmarshal JSON data'' err)))
                   | (peerMap, None) \<Rightarrow>
                       if peerMap = [] then State_Monad.return (Ret (Some (errorf ''no peers found in the input file'')))
                       else do {
                         cfg \<leftarrow> on_app (Load (ce_viper W));
                         (case cfg of
                            Inl err \<Rightarrow> State_Monad.return (Ret (Some (wrapf ''load config'' err)))
                          | Inr _ \<Rightarrow>
                              go_bind (ask (GetConsulClient (ce_consul W))) (\<lambda>client. do {
                                err \<leftarrow> on_io (register_peer_ids (ce_env W) (ord peerMap));
                                State_Monad.return (Ret err) })) })) }) })"

section \<open>Maps through JSON\<close>

lemma gm_put_fresh: "k \<notin> fst ` set m \<Longrightarrow> gm_put k v m = m @ [(k, v)]"
  by (induction m) auto

lemma decode_string_members_str:
  "gm_ok (m @ ms) \<Longrightarrow> decode_string_members (str_obj ms) m = (m @ ms, False)"
proof (induction ms arbitrary: m)
  case (Cons p ms)
  obtain k v where p: "p = (k, v)" by fastforce
  with Cons.prems have "gm_put k v m = m @ [(k, v)]" by (intro gm_put_fresh) auto
  with Cons.IH [of "m @ [(k, v)]"] Cons.prems p show ?case by simp
qed simp

lemma Unmarshal_peers_indent: "gm_ok m \<Longrightarrow> Unmarshal_peers (json_MarshalIndent (sorted_pairs m)) = (sorted_pairs m, None)"
  using decode_string_members_str [of "[]" "sorted_pairs m"] sorted_pairs_ok [of m]
  by (simp add: Unmarshal_peers_def json_Unmarshal_indent decode_string_map_def)

abbreviation node_name :: "nat \<Rightarrow> string" where
  "node_name i \<equiv> ''node'' @ utoa i"

lemma new_peers_get:
  assumes "new_peers uuids is peers = Inr peers'" and "distinct is" and "gm_ok peers"
  shows "gm_ok peers' \<and> (\<forall>i \<in> set is. \<exists>u. uuids i = Inr u \<and> (node_name i, u) \<in> set peers')
    \<and> (\<forall>k. k \<notin> node_name ` set is \<longrightarrow> gm_get peers' k = gm_get peers k)"
  using assms
proof (induction uuids "is" peers rule: new_peers.induct)
  case (2 uuids i "is" peers)
  from 2(2) obtain u where u: "uuids i = Inr u" "new_peers uuids is (gm_put (node_name i) u peers) = Inr peers'"
    by (auto split: sum.splits)
  have IH: "gm_ok peers'" "\<forall>j \<in> set is. \<exists>u. uuids j = Inr u \<and> (node_name j, u) \<in> set peers'"
    "\<forall>k. k \<notin> node_name ` set is \<longrightarrow> gm_get peers' k = gm_get (gm_put (node_name i) u peers) k"
    using 2(1) [OF u(1,2)] 2(3,4) by (auto simp: gm_simps)
  have "node_name i \<notin> node_name ` set is" using 2(3) by (auto simp: utoa_inject)
  with IH(3) have "gm_get peers' (node_name i) = Some u" by (simp add: gm_simps)
  then have "(node_name i, u) \<in> set peers'" by (rule map_of_SomeD)
  with IH u(1) show ?case by (auto simp: gm_simps)
qed simp

lemma generatePeers_writes:
  assumes "run_state (generatePeers D uuids n path) d = (None, d1)"
  shows "1 \<le> n \<and> (\<exists>peers. new_peers uuids [0..<nat n] [] = Inr peers
    \<and> gm_get (dk_files d1) path = Some (json_MarshalIndent (sorted_pairs peers)))"
  using assms
  by (auto simp: generatePeers_def disk_defs gm_simps split: if_splits option.splits sum.splits)

section \<open>Keys in Consul\<close>

text \<open>A part of the history that neither writes nor deletes a key.\<close>

fun touches :: "string \<Rightarrow> call \<Rightarrow> bool" where
  "touches k (ConsulPut k' v) = (k' = k)"
| "touches k (ConsulDelete k') = (k' = k)"
| "touches k _ = False"

abbreviation untouched :: "string \<Rightarrow> call list \<Rightarrow> bool" where
  "untouched k tr \<equiv> list_all (\<lambda>c. \<not> touches k c) tr"

text \<open>The last thing the history says of a key is that it holds a value: the value was stored, or it was read.\<close>

definition stored :: "env \<Rightarrow> call list \<Rightarrow> string \<Rightarrow> bytes \<Rightarrow> bool" where
  "stored E tr k v \<longleftrightarrow> (\<exists>a b. untouched k b \<and>
     (tr = a @ ConsulPut k v # b \<and> en_ConsulPut E a k v = None
      \<or> tr = a @ ConsulGet k # b \<and> en_ConsulGet E a k = Inr (Some v)))"

text \<open>
  What Consul documents for a listing with a prefix: each key once, only keys with the prefix, and every key with the
  prefix that holds a value.
\<close>

definition consul_lists :: "env \<Rightarrow> bool" where
  "consul_lists E \<longleftrightarrow> (\<forall>tr pre ps. en_ConsulList E tr pre = Inr ps \<longrightarrow>
     gm_ok ps \<and> (\<forall>k v. (k, v) \<in> set ps \<longrightarrow> strings_HasPrefix k pre)
     \<and> (\<forall>k v. stored E tr k v \<longrightarrow> strings_HasPrefix k pre \<longrightarrow> (k, v) \<in> set ps))"

lemma stored_append: "stored E tr k v \<Longrightarrow> untouched k c \<Longrightarrow> stored E (tr @ c) k v"
  unfolding stored_def by (elim exE, rule_tac x = a in exI, rule_tac x = "b @ c" in exI) auto

lemma register_peer_id_run:
  assumes "run_state (register_peer_id E n i) tr = (None, tr')"
  shows "stored E tr' (peers_prefix @ n) i
    \<and> (\<exists>new. tr' = tr @ new \<and> (\<forall>k. k \<noteq> peers_prefix @ n \<longrightarrow> untouched k new))"
proof -
  let ?k = "peers_prefix @ n"
  from assms consider
      "en_ConsulGet E tr ?k = Inr (Some i)" "tr' = tr @ [ConsulGet ?k]"
    | "en_ConsulPut E (tr @ [ConsulGet ?k]) ?k i = None" "tr' = tr @ [ConsulGet ?k, ConsulPut ?k i]"
    by (auto simp: register_peer_id_def io_defs Let_def split: sum.splits option.splits if_splits)
  then show ?thesis
  proof cases
    case 1
    then have "stored E tr' ?k i" unfolding stored_def by (intro exI [of _ tr] exI [of _ "[]"]) simp
    with 1 show ?thesis by simp
  next
    case 2
    then have "stored E tr' ?k i" unfolding stored_def by (intro exI [of _ "tr @ [ConsulGet ?k]"] exI [of _ "[]"]) simp
    with 2 show ?thesis by auto
  qed
qed

lemma register_peer_ids_run:
  assumes "run_state (register_peer_ids E peers) tr = (None, tr')" and "gm_ok peers"
  shows "(\<forall>(n, i) \<in> set peers. stored E tr' (peers_prefix @ n) i)
    \<and> (\<exists>new. tr' = tr @ new \<and> (\<forall>k. k \<notin> (\<lambda>(n, i). peers_prefix @ n) ` set peers \<longrightarrow> untouched k new))"
  using assms
proof (induction peers arbitrary: tr)
  case (Cons p peers)
  obtain n i where p: "p = (n, i)" by fastforce
  with Cons.prems obtain tr1 where 1: "run_state (register_peer_id E n i) tr = (None, tr1)"
    and 2: "run_state (register_peer_ids E peers) tr1 = (None, tr')"
    by (auto split: prod.splits option.splits)
  have ok: "gm_ok peers" "n \<notin> fst ` set peers" using Cons.prems(2) p by auto
  from register_peer_id_run [OF 1] obtain a where
    a: "stored E tr1 (peers_prefix @ n) i" "tr1 = tr @ a" "\<And>k. k \<noteq> peers_prefix @ n \<Longrightarrow> untouched k a" by blast
  from Cons.IH [OF 2 ok(1)] obtain b where
    b: "\<forall>(n, i) \<in> set peers. stored E tr' (peers_prefix @ n) i" "tr' = tr1 @ b"
      "\<And>k. k \<notin> (\<lambda>(n, i). peers_prefix @ n) ` set peers \<Longrightarrow> untouched k b" by blast
  have "stored E tr' (peers_prefix @ n) i"
    unfolding b(2) using a(1) b(3) [of "peers_prefix @ n"] ok(2) by (intro stored_append) force+
  with a b p show ?case by (intro conjI exI [of _ "a @ b"]) auto
qed simp

lemma GetNodeID_unique:
  "distinct (map pr_Name peers) \<Longrightarrow> p \<in> set peers \<Longrightarrow> GetNodeID (pr_Name p) peers = pr_ID p"
  by (induction peers) (auto simp: image_iff)

lemma LoadPeers_finds:
  assumes "run_state (LoadPeersFromConsul E) tr = (Ret peers, tr')" and "consul_lists E"
    and "stored E tr (peers_prefix @ n) i"
  shows "GetNodeID n peers = i \<and> i \<in> set (GetPeerIDs peers)"
proof -
  from assms(1) obtain ps where list: "en_ConsulList E tr peers_prefix = Inr ps"
    and peers: "peers = map (\<lambda>(k, v). \<lparr>pr_ID = v, pr_Name = drop (length peers_prefix) k\<rparr>) ps"
    by (auto simp: LoadPeersFromConsul_def config_LoadPeersFromConsul_def io_defs split: sum.splits if_splits)
  from assms(2) list have ok: "gm_ok ps" and pre: "\<And>k v. (k, v) \<in> set ps \<Longrightarrow> strings_HasPrefix k peers_prefix"
    and mem: "(peers_prefix @ n, i) \<in> set ps"
    using assms(3) unfolding consul_lists_def by (blast, blast, metis strings_HasPrefix_append)
  have "inj_on (drop (length peers_prefix)) (fst ` set ps)"
    using pre by (auto simp: inj_on_def strings_HasPrefix_iff dest!: pre)
  then have "distinct (map (drop (length peers_prefix)) (map fst ps))" using ok by (simp add: distinct_map comp_inj_on)
  moreover have "map pr_Name peers = map (drop (length peers_prefix)) (map fst ps)" by (simp add: peers split_beta)
  ultimately have dist: "distinct (map pr_Name peers)" by simp
  have p: "\<lparr>pr_ID = i, pr_Name = n\<rparr> \<in> set peers" using mem by (force simp: peers)
  from GetNodeID_unique [OF dist p] p show ?thesis by (force simp: GetPeerIDs_def)
qed

lemma registerPeers_run:
  assumes "run_state (registerPeers W ord path) s = (Ret None, s')" and "path \<noteq> []"
  obtains bs m where "gm_get (dk_files (ps_disk s)) path = Some bs" and "Unmarshal_peers bs = (m, None)"
    and "run_state (register_peer_ids (ce_env W) (ord m)) (ps_io s) = (None, ps_io s')"
proof -
  from assms have "\<exists>bs m. gm_get (dk_files (ps_disk s)) path = Some bs \<and> Unmarshal_peers bs = (m, None)
      \<and> fst (run_state (register_peer_ids (ce_env W) (ord m)) (ps_io s)) = None
      \<and> snd (run_state (register_peer_ids (ce_env W) (ord m)) (ps_io s)) = ps_io s'"
    by (auto simp: registerPeers_def Let_def run_go_bind disk_defs
        split: option.splits sum.splits prod.splits if_splits go_res.splits)
  then show ?thesis using that by (metis prod.collapse)
qed

section \<open>Properties\<close>

text \<open>
  C23: the peers that are generated are the peers that the nodes load. After \<^verbatim>\<open>peer generate\<close> has written its file and
  \<^verbatim>\<open>peer register\<close> has succeeded with it, in whatever order it walked the peers and whether it stored a key or found it
  there, a node that loads the peers from Consul later finds for each of the names \<^verbatim>\<open>node0\<close>, \<^verbatim>\<open>node1\<close>, ... the UUID that
  was drawn for it, as long as nobody overwrites or deletes the keys; and every such UUID is among the peer IDs.
\<close>

theorem peers_reach_nodes:
  assumes "run_state (generatePeers D uuids n path) d = (None, d1)" and "path \<noteq> []"
    and "gm_get (dk_files (ps_disk s)) path = gm_get (dk_files d1) path"
    and "run_state (registerPeers W ord path) s = (Ret None, s')" and "\<And>m. mset (ord m) = mset m"
    and "consul_lists (ce_env W)" and "untouched (peers_prefix @ node_name i) later"
    and "run_state (LoadPeersFromConsul (ce_env W)) (ps_io s' @ later) = (Ret peers, tr)" and "int i < n"
  shows "\<exists>u. uuids i = Inr u \<and> GetNodeID (node_name i) peers = u \<and> u \<in> set (GetPeerIDs peers)
    \<and> (u \<noteq> [] \<longrightarrow> run_state (GetIDFromName (node_name i) peers) tr = (Ret u, tr))"
proof -
  from generatePeers_writes [OF assms(1)] obtain gen where gen: "new_peers uuids [0..<nat n] [] = Inr gen"
    and written: "gm_get (dk_files d1) path = Some (json_MarshalIndent (sorted_pairs gen))" by blast
  have i: "i \<in> set [0..<nat n]" using assms(9) by simp
  have "gm_ok gen \<and> (\<forall>i \<in> set [0..<nat n]. \<exists>u. uuids i = Inr u \<and> (node_name i, u) \<in> set gen)"
    using new_peers_get [OF gen] by simp
  with i obtain u where u: "uuids i = Inr u" "(node_name i, u) \<in> set gen" and ok: "gm_ok gen" by blast
  from registerPeers_run [OF assms(4,2)] obtain bs m where bs: "gm_get (dk_files (ps_disk s)) path = Some bs"
    "Unmarshal_peers bs = (m, None)" "run_state (register_peer_ids (ce_env W) (ord m)) (ps_io s) = (None, ps_io s')" .
  have m: "m = sorted_pairs gen" using bs(1,2) written assms(3) Unmarshal_peers_indent [OF ok] by simp
  have "set (ord m) = set gen" using assms(5) set_sorted_pairs [OF ok] m by (metis mset_eq_setD)
  moreover have "gm_ok (ord m)" using sorted_pairs_ok [OF ok] assms(5) m by (metis mset_map mset_eq_imp_distinct_iff)
  ultimately have "stored (ce_env W) (ps_io s') (peers_prefix @ node_name i) u"
    using register_peer_ids_run [OF bs(3)] u(2) by blast
  from LoadPeers_finds [OF assms(8,6) stored_append [OF this assms(7)]] u(1) show ?thesis
    by (auto simp: GetIDFromName_def)
qed

text \<open>A Consul that keeps what the history stores.\<close>

fun consul_apply :: "bytes gomap \<Rightarrow> call \<Rightarrow> bytes gomap" where
  "consul_apply m (ConsulPut k v) = gm_put k v m"
| "consul_apply m (ConsulDelete k) = gm_del k m"
| "consul_apply m _ = m"

definition env_consul :: env where
  "env_consul = env_ref\<lparr>en_ConsulList :=
     \<lambda>tr pre. Inr (filter (\<lambda>(k, v). strings_HasPrefix k pre) (foldl consul_apply [] tr))\<rparr>"

lemma consul_apply_ok: "gm_ok (foldl consul_apply [] tr)"
proof (induction tr rule: rev_induct)
  case (snoc c tr)
  then show ?case by (cases c) (simp_all add: gm_simps)
qed simp

lemma consul_apply_last: "gm_get (foldl consul_apply [] tr) k = last_consul k (rev tr)"
proof (induction tr rule: rev_induct)
  case (snoc c tr)
  then show ?case by (cases c) (simp_all add: gm_simps)
qed simp

lemma last_consul_untouched: "untouched k b \<Longrightarrow> last_consul k (rev b @ a) = last_consul k a"
  by (rule last_consul_append) (auto simp: list_all_iff)

lemma env_consul_lists: "consul_lists env_consul"
proof -
  have "last_consul k (rev tr) = Some v" if "stored env_consul tr k v" for tr k v
    using that by (auto simp: stored_def env_consul_def env_ref_def last_consul_untouched)
  then have "(k, v) \<in> set (foldl consul_apply [] tr)" if "stored env_consul tr k v" for tr k v
    using that by (metis consul_apply_last map_of_SomeD)
  moreover have "en_ConsulList env_consul tr pre = Inr (filter (\<lambda>(k, v). strings_HasPrefix k pre) (foldl consul_apply [] tr))"
    for tr pre by (simp add: env_consul_def)
  ultimately show ?thesis
    unfolding consul_lists_def by (auto simp: consul_apply_ok intro!: distinct_map_filter)
qed

definition config_ref :: Config where
  "config_ref = Config_zero\<lparr>cf_Consul := Some \<lparr>co_Address = ''consul:8500'', co_Username = [], co_Password = [], co_Token = []\<rparr>,
     cf_NATs := Some \<lparr>na_URL = ''nats://nats:4222'', na_Username = [], na_Password = [], na_TLS = None\<rparr>\<rparr>"

definition viper_ref :: "unit viper_lib" where
  "viper_ref = \<lparr>vl_ReadInConfig = \<lambda>_. None, vl_AllSettings = \<lambda>_. (), vl_NewDecoder = None, vl_Decode = \<lambda>_. Inr config_ref\<rparr>"

definition consul_ref :: consul_api where
  "consul_ref = \<lparr>ca_DefaultConfig = \<lparr>ac_Address = ''127.0.0.1:8500'', ac_Token = [], ac_HttpAuth = None, ac_WaitTime = 0\<rparr>,
     ca_NewClient = \<lambda>_. None, ca_Leader = \<lambda>_. None\<rparr>"

text \<open>age in a toy form: the file carries the text after a header.\<close>

definition age_enc_ref :: age_enc where
  "age_enc_ref = \<lparr>ae_NewScryptRecipient = \<lambda>_. None, ae_Encrypt = \<lambda>_. Inr ''age:'', ae_Write = \<lambda>_ _. [], ae_Close = \<lambda>_ t. t\<rparr>"

definition cmd_ref :: "unit cmd_env" where
  "cmd_ref = \<lparr>ce_viper = viper_ref, ce_disk = disk_good, ce_env = env_consul, ce_nats = nats_ref, ce_consul = consul_ref,
     ce_Connect = \<lambda>_ _. None, ce_age = age_none, ce_age_enc = age_enc_ref, ce_crypto = crypto_ref,
     ce_tty = \<lambda>_. Inr ''correct horse battery!'', ce_Getwd = Inr ''/srv''\<rparr>"

definition proc_ref :: "disk \<Rightarrow> proc" where
  "proc_ref d = \<lparr>ps_app = \<lparr>as_environ = [], as_viper = [], as_cells = [], as_app = None\<rparr>, ps_io = [], ps_nats = [], ps_disk = d,
     ps_reads = 0\<rparr>"

definition uuids_ref :: "nat \<Rightarrow> go_error + string" where
  "uuids_ref i = Inr (''uuid-'' @ utoa i)"

definition peers_disk_ref :: disk where
  "peers_disk_ref = snd (run_state (generatePeers disk_good uuids_ref 2 ''peers.json'') \<lparr>dk_files = [], dk_ops = 0\<rparr>)"

definition registered_ref :: proc where
  "registered_ref = snd (run_state (registerPeers cmd_ref (\<lambda>m. m) ''peers.json'') (proc_ref peers_disk_ref))"

lemma peers_generated_ref: "fst (run_state (generatePeers disk_good uuids_ref 2 ''peers.json'') \<lparr>dk_files = [], dk_ops = 0\<rparr>) = None"
  by code_simp

definition peers_ref :: "string gomap" where
  "peers_ref = [(''node0'', ''uuid-0''), (''node1'', ''uuid-1'')]"

lemma peers_read_ref:
  "\<exists>bs. gm_get (dk_files peers_disk_ref) ''peers.json'' = Some bs \<and> Unmarshal_peers bs = (peers_ref, None)"
proof -
  have gen: "new_peers uuids_ref [0..<nat 2] [] = Inr peers_ref" "sorted_pairs peers_ref = peers_ref" by code_simp+
  have "run_state (generatePeers disk_good uuids_ref 2 ''peers.json'') \<lparr>dk_files = [], dk_ops = 0\<rparr> = (None, peers_disk_ref)"
    using peers_generated_ref by (simp add: peers_disk_ref_def prod_eq_iff)
  from generatePeers_writes [OF this] gen Unmarshal_peers_indent [of peers_ref] show ?thesis
    by (simp add: peers_ref_def)
qed

lemma load_config_ref: "run_state (Load viper_ref) s = (Inr (length (as_cells s)),
    s\<lparr>as_viper := as_viper s @ viper_setup (config_file_of s) @ [V_ReadInConfig],
      as_cells := as_cells s @ [applyDefaults config_ref], as_app := Some (length (as_cells s))\<rparr>)"
proof -
  have "validateEnvironment (cf_Environment (applyDefaults config_ref)) = None" by code_simp
  then show ?thesis
    by (simp add: Load_def run_initConfig viper_ref_def LoadConfig_def new_cell_def setConfig_def)
qed

lemma consul_client_ref:
  "as_app s = Some p \<Longrightarrow> cf_Consul (cell p s) = Some c \<Longrightarrow> \<exists>client. GetConsulClient consul_ref s = Ret client"
  by (simp add: GetConsulClient_def GetConsulConfig_def consul_ref_def GetConfig_def Let_def)

lemma register_ref:
  "run_state (register_peer_ids env_consul peers_ref) [] =
     (None, [ConsulGet ''mpc_peers/node0'', ConsulPut ''mpc_peers/node0'' ''uuid-0'',
             ConsulGet ''mpc_peers/node1'', ConsulPut ''mpc_peers/node1'' ''uuid-1''])"
  by (simp add: peers_ref_def register_peer_id_def io_defs env_consul_def env_ref_def peers_prefix_def Let_def)

lemma peers_registered_ref:
  "fst (run_state (registerPeers cmd_ref (\<lambda>m. m) ''peers.json'') (proc_ref peers_disk_ref)) = Ret None
   \<and> ps_io registered_ref = [ConsulGet ''mpc_peers/node0'', ConsulPut ''mpc_peers/node0'' ''uuid-0'',
        ConsulGet ''mpc_peers/node1'', ConsulPut ''mpc_peers/node1'' ''uuid-1'']"
proof -
  obtain bs where bs: "gm_get (dk_files peers_disk_ref) ''peers.json'' = Some bs" "Unmarshal_peers bs = (peers_ref, None)"
    using peers_read_ref by blast
  have v: "ValidateFilePath ''peers.json'' = None" "peers_ref \<noteq> []" by code_simp+
  let ?s = "snd (run_state (Load viper_ref) (ps_app (proc_ref peers_disk_ref)))"
  have "cf_Consul (cell 0 ?s) \<noteq> None"
    by (simp add: load_config_ref proc_ref_def cell_def applyDefaults_def config_ref_def)
  then obtain client where "GetConsulClient consul_ref ?s = Ret client"
    using consul_client_ref [of ?s 0] by (auto simp: load_config_ref proc_ref_def)
  then show ?thesis
    using bs v register_ref
    by (simp add: registered_ref_def registerPeers_def cmd_ref_def disk_defs disk_good_def run_go_bind load_config_ref proc_ref_def Let_def)
qed

theorem peers_reach_nodes_witness:
  "\<exists>peers tr. run_state (LoadPeersFromConsul env_consul) (ps_io registered_ref) = (Ret peers, tr)
     \<and> GetNodeID ''node1'' peers = ''uuid-1''"
proof -
  have "fst (run_state (LoadPeersFromConsul env_consul) (ps_io registered_ref)) \<noteq> Panic"
    using peers_registered_ref
    by (simp add: LoadPeersFromConsul_def config_LoadPeersFromConsul_def io_defs env_consul_def peers_prefix_def strings_HasPrefix_def)
  then obtain peers tr where load: "run_state (LoadPeersFromConsul env_consul) (ps_io registered_ref) = (Ret peers, tr)"
    by (metis go_res.exhaust prod.collapse)
  have gen: "run_state (generatePeers disk_good uuids_ref 2 ''peers.json'') \<lparr>dk_files = [], dk_ops = 0\<rparr> = (None, peers_disk_ref)"
    using peers_generated_ref by (simp add: peers_disk_ref_def prod_eq_iff)
  have reg: "run_state (registerPeers cmd_ref (\<lambda>m. m) ''peers.json'') (proc_ref peers_disk_ref) = (Ret None, registered_ref)"
    using peers_registered_ref by (simp add: registered_ref_def prod_eq_iff)
  have names: "node_name 1 = ''node1''" "uuids_ref 1 = Inr ''uuid-1''" by code_simp+
  have "ce_env cmd_ref = env_consul" by (simp add: cmd_ref_def)
  then show ?thesis
    using peers_reach_nodes [OF gen _ _ reg, of 1 "[]" peers tr] load env_consul_lists names by (auto simp: proc_ref_def)
qed

end
