(* ===== verification/Cli_Keys.thy ===== *)
theory Cli_Keys
  imports Peers_Setup Signers Kv_Backup
begin

text \<open>
  The key tools of \<^verbatim>\<open>mpc-cli\<close>: passphrases (\<^verbatim>\<open>cmd/cli/utils/password.go\<close>), the identity of a node
  (\<^verbatim>\<open>cmd/cli/identity/generate.go\<close>), the identity of the event initiator (\<^verbatim>\<open>cmd/cli/initiator/generate.go\<close>) and the
  recovery of a database (\<^verbatim>\<open>cmd/cli/recovery\<close>). The theorems show that what the tools write is what the node and the
  client load, and what they leave behind when they fail half way.
\<close>

section \<open>Passphrases\<close>

text \<open>
  A \<^verbatim>\<open>range\<close> over a string walks over its UTF-8 encoded characters; a byte that starts no valid encoding is a character
  of its own. Only the width is needed: no character outside ASCII is a letter or digit here.
\<close>

definition utf8_tail :: "nat \<Rightarrow> nat \<Rightarrow> string \<Rightarrow> bool" where
  "utf8_tail lo hi s = (case s of [] \<Rightarrow> False | c # _ \<Rightarrow> lo \<le> of_char c \<and> of_char c \<le> hi)"

definition rune_width :: "string \<Rightarrow> nat" where
  "rune_width s = (case s of [] \<Rightarrow> 0 | c # r \<Rightarrow>
     (let b = (of_char c :: nat); cont = utf8_tail 128 191 in
      if 194 \<le> b \<and> b \<le> 223 \<and> cont r then 2
      else if 224 \<le> b \<and> b \<le> 239
        \<and> utf8_tail (if b = 224 then 160 else 128) (if b = 237 then 159 else 191) r \<and> cont (drop 1 r) then 3
      else if 240 \<le> b \<and> b \<le> 244
        \<and> utf8_tail (if b = 240 then 144 else 128) (if b = 244 then 143 else 191) r \<and> cont (drop 1 r) \<and> cont (drop 2 r) then 4
      else 1))"

lemma rune_width_pos: "s \<noteq> [] \<Longrightarrow> 0 < rune_width s"
  by (cases s) (simp_all add: rune_width_def Let_def)

definition alphanumeric :: "char \<Rightarrow> bool" where
  "alphanumeric c \<longleftrightarrow> (let b = (of_char c :: nat) in 97 \<le> b \<and> b \<le> 122 \<or> 65 \<le> b \<and> b \<le> 90 \<or> 48 \<le> b \<and> b \<le> 57)"

function special_loop :: "int \<Rightarrow> int \<Rightarrow> string \<Rightarrow> bool" where
  "special_loop n seen [] = False"
| "special_loop n seen (c # r) =
     (if \<not> alphanumeric c then
        if seen + 1 \<ge> n then True else special_loop n (seen + 1) (drop (rune_width (c # r)) (c # r))
      else special_loop n seen (drop (rune_width (c # r)) (c # r)))"
  by pat_completeness auto
termination
proof (relation "measure (\<lambda>(_, _, s). length s)", goal_cases)
  case (2 n seen c r)
  then show ?case using rune_width_pos [of "c # r"] by simp
next
  case (3 n seen c r)
  then show ?case using rune_width_pos [of "c # r"] by simp
qed simp

definition ContainsAtLeastNSpecial :: "string \<Rightarrow> int \<Rightarrow> bool" where
  "ContainsAtLeastNSpecial s n = special_loop n 0 s"

definition RequestPassword :: "'s cmd_env \<Rightarrow> (go_error + string) pio" where
  "RequestPassword W = do {
     a \<leftarrow> term_ReadPassword W;
     (case a of
        Inl err \<Rightarrow> State_Monad.return (Inl (wrapf ''failed to read passphrase'' err))
      | Inr passphrase \<Rightarrow> do {
          b \<leftarrow> term_ReadPassword W;
          State_Monad.return
            (case b of
               Inl err \<Rightarrow> Inl (wrapf ''failed to read confirmation passphrase'' err)
             | Inr confirmation \<Rightarrow>
                 if passphrase \<noteq> confirmation then Inl (errorf ''passphrases do not match'')
                 else if length passphrase < 12 then Inl (errorf ''passphrase too short (minimum 12 characters recommended)'')
                 else if \<not> ContainsAtLeastNSpecial passphrase 1
                   then Inl (errorf ''passphrase must contain at least 2 special characters'')
                 else Inr passphrase) }) }"

definition PromptPassword :: "'s cmd_env \<Rightarrow> (go_error + string) pio" where
  "PromptPassword W = do {
     a \<leftarrow> term_ReadPassword W;
     State_Monad.return
       (case a of
          Inl err \<Rightarrow> Inl (wrapf ''failed to read password'' err)
        | Inr password \<Rightarrow> if length password = 0 then Inl (errorf ''password cannot be empty'') else Inr password) }"

section \<open>Encrypted key files\<close>

text \<open>A flush of nothing is no write.\<close>

definition flush :: "disk_env \<Rightarrow> string \<Rightarrow> bytes \<Rightarrow> go_error option dio" where
  "flush D path bs = (if bs = [] then State_Monad.return None else file_Write D path bs)"

definition age_write :: "disk_env \<Rightarrow> age_enc \<Rightarrow> string \<Rightarrow> string \<Rightarrow> bytes \<Rightarrow> go_error option dio" where
  "age_write D A path passphrase text = do {
     c \<leftarrow> os_Create D path;
     (case c of
        Some err \<Rightarrow> State_Monad.return (Some (wrapf ''failed to create encrypted private key file'' err))
      | None \<Rightarrow>
          (case ae_NewScryptRecipient A passphrase of
             Some err \<Rightarrow> State_Monad.return (Some (wrapf ''failed to create scrypt recipient'' err))
           | None \<Rightarrow>
               (case ae_Encrypt A passphrase of
                  Inl err \<Rightarrow> State_Monad.return (Some (wrapf ''failed to create age encryption writer'' err))
                | Inr header \<Rightarrow> do {
                    h \<leftarrow> flush D path header;
                    (case h of
                       Some err \<Rightarrow> State_Monad.return (Some (wrapf ''failed to create age encryption writer'' err))
                     | None \<Rightarrow> do {
                         w \<leftarrow> flush D path (ae_Write A passphrase text);
                         (case w of
                            Some err \<Rightarrow> State_Monad.return (Some (wrapf ''failed to write encrypted private key'' err))
                          | None \<Rightarrow> do {
                              f \<leftarrow> flush D path (ae_Close A passphrase text);
                              State_Monad.return (map_option (wrapf ''failed to finalize age encryption'') f) }) }) }))) }"

section \<open>Node identities\<close>

record Identity =
  id_NodeName :: string
  id_NodeID :: string
  id_PublicKey :: string
  id_CreatedAt :: string

definition Identity_members :: "Identity \<Rightarrow> (string \<times> string) list" where
  "Identity_members i = [(''node_name'', id_NodeName i), (''node_id'', id_NodeID i), (''public_key'', id_PublicKey i),
     (''created_at'', id_CreatedAt i)]"

text \<open>\<open>keys\<close> is the result of \<^verbatim>\<open>ed25519.GenerateKey\<close>, \<open>now\<close> the current time as text.\<close>

definition generateNodeIdentity ::
  "disk_env \<Rightarrow> age_enc \<Rightarrow> go_error + bytes \<times> bytes \<Rightarrow> string \<Rightarrow> string \<Rightarrow> string \<Rightarrow> string \<Rightarrow> bool \<Rightarrow> string \<Rightarrow> bool
     \<Rightarrow> go_error option dio" where
  "generateNodeIdentity D A keys now nodeName nodeID identityDir encrypt passphrase overwrite =
     (case keys of
        Inl err \<Rightarrow> State_Monad.return (Some (wrapf ''failed to generate keypair'' err))
      | Inr (pubKey, privKey) \<Rightarrow> do {
          let identity = \<lparr>id_NodeName = nodeName, id_NodeID = nodeID, id_PublicKey = hex_EncodeToString pubKey,
                          id_CreatedAt = now\<rparr>;
          let identityPath = filepath_Join identityDir (nodeName @ ''_identity.json'');
          st \<leftarrow> os_Stat D identityPath;
          (if st = None \<and> \<not> overwrite
           then State_Monad.return (Some (errorf (''identity file '' @ identityPath @ '' already exists. Use --overwrite to force'')))
           else do {
             w \<leftarrow> os_WriteFile D identityPath (json_MarshalIndent (Identity_members identity));
             (case w of
                Some err \<Rightarrow> State_Monad.return (Some (wrapf ''failed to write identity JSON'' err))
              | None \<Rightarrow> do {
                  let privateKeyHex = hex_EncodeToString privKey;
                  let privateKeyPath = filepath_Join identityDir (nodeName @ ''_private.key'');
                  (if encrypt then do {
                     let encryptedKeyPath = privateKeyPath @ ''.age'';
                     st \<leftarrow> os_Stat D encryptedKeyPath;
                     (if st = None \<and> \<not> overwrite
                      then State_Monad.return
                        (Some (errorf (''encrypted key file '' @ encryptedKeyPath @ '' already exists. Use --overwrite to force'')))
                      else (case ValidateFilePath encryptedKeyPath of
                              Some err \<Rightarrow> State_Monad.return (Some (wrapf ''invalid encrypted key file path'' err))
                            | None \<Rightarrow> age_write D A encryptedKeyPath passphrase privateKeyHex)) }
                   else do {
                     st \<leftarrow> os_Stat D privateKeyPath;
                     (if st = None \<and> \<not> overwrite
                      then State_Monad.return
                        (Some (errorf (''private key file '' @ privateKeyPath @ '' already exists. Use --overwrite to force'')))
                      else do {
                        w \<leftarrow> os_WriteFile D privateKeyPath privateKeyHex;
                        State_Monad.return (map_option (wrapf ''failed to write private key'') w) }) }) }) }) })"

record identity_flags =
  if_node :: string
  if_peers :: string
  if_dir :: string
  if_encrypt :: bool
  if_overwrite :: bool

definition runGenerateIdentity ::
  "'s cmd_env \<Rightarrow> go_error + bytes \<times> bytes \<Rightarrow> string \<Rightarrow> identity_flags \<Rightarrow> go_error option pio" where
  "runGenerateIdentity W keys now fl = do {
     pw \<leftarrow> (if if_encrypt fl then RequestPassword W else State_Monad.return (Inr []));
     (case pw of
        Inl err \<Rightarrow> State_Monad.return (Some err)
      | Inr passphrase \<Rightarrow> do {
          st \<leftarrow> on_disk (os_Stat (ce_disk W) (if_peers fl));
          (case st of
             Some err \<Rightarrow> State_Monad.return (Some
               (if os_IsNotExist err then errorf (''peers file '' @ if_peers fl @ '' does not exist'')
                else wrapf ''error checking peers file'' err))
           | None \<Rightarrow>
               (case ValidateFilePath (if_peers fl) of
                  Some err \<Rightarrow> State_Monad.return (Some (wrapf ''invalid peers file path'' err))
                | None \<Rightarrow> do {
                    data \<leftarrow> on_disk (os_ReadFile (ce_disk W) (if_peers fl));
                    (case data of
                       Inl err \<Rightarrow> State_Monad.return (Some (wrapf ''failed to read peers file'' err))
                     | Inr peersData \<Rightarrow>
                         (case Unmarshal_peers peersData of
                            (_, Some err) \<Rightarrow> State_Monad.return (Some (wrapf ''failed to parse peers JSON'' err))
                          | (peers, None) \<Rightarrow>
                              (case gm_get peers (if_node fl) of
                                 None \<Rightarrow> State_Monad.return (Some (errorf (''node '' @ if_node fl @ '' not found in peers file'')))
                               | Some nodeID \<Rightarrow> do {
                                   mk \<leftarrow> on_disk (os_MkdirAll (ce_disk W) (if_dir fl));
                                   (case mk of
                                      Some err \<Rightarrow> State_Monad.return (Some (wrapf ''failed to create identity directory'' err))
                                    | None \<Rightarrow> do {
                                        r \<leftarrow> on_disk (generateNodeIdentity (ce_disk W) (ce_age_enc W) keys now (if_node fl) nodeID
                                               (if_dir fl) (if_encrypt fl) passphrase (if_overwrite fl));
                                        State_Monad.return
                                          (map_option (wrapf (''failed to generate identity for '' @ if_node fl)) r) }) }))) })) }) }"

section \<open>The event initiator\<close>

record InitiatorIdentity =
  ii_NodeName :: string
  ii_Algorithm :: string
  ii_PublicKey :: string
  ii_CreatedAt :: string
  ii_CreatedBy :: string
  ii_MachineOS :: string
  ii_MachineName :: string

text \<open>\<^verbatim>\<open>omitempty\<close> on the algorithm.\<close>

definition InitiatorIdentity_members :: "InitiatorIdentity \<Rightarrow> (string \<times> string) list" where
  "InitiatorIdentity_members i =
     (''node_name'', ii_NodeName i) # (if ii_Algorithm i = [] then [] else [(''algorithm'', ii_Algorithm i)])
     @ [(''public_key'', ii_PublicKey i), (''created_at'', ii_CreatedAt i), (''created_by'', ii_CreatedBy i),
        (''machine_os'', ii_MachineOS i), (''machine_name'', ii_MachineName i)]"

record initiator_flags =
  nf_node :: string
  nf_dir :: string
  nf_encrypt :: bool
  nf_overwrite :: bool
  nf_algorithm :: string

text \<open>What the tool asks the machine for.\<close>

record machine =
  mc_ed25519 :: "go_error + bytes \<times> bytes"
  mc_p256 :: "go_error + ecdsa_key"
  mc_user :: "go_error + string"
  mc_hostname :: "go_error + string"
  mc_GOOS :: string
  mc_now :: string

definition initiator_keys :: "crypto \<Rightarrow> machine \<Rightarrow> string \<Rightarrow> go_error + KeyData" where
  "initiator_keys C M algorithm =
     (if algorithm = EventInitiatorKeyTypeEd25519 then GenerateEd25519Keys (mc_ed25519 M) else GenerateP256Keys C (mc_p256 M))"

text \<open>The end of the tool: the private key, encrypted under a passphrase that is asked for only now, or as it is.\<close>

definition save_initiator_key :: "'s cmd_env \<Rightarrow> bool \<Rightarrow> string \<Rightarrow> KeyData \<Rightarrow> go_error option pio" where
  "save_initiator_key W encrypt keyPath keyData =
     (if encrypt then do {
        pw \<leftarrow> RequestPassword W;
        (case pw of
           Inl err \<Rightarrow> State_Monad.return (Some err)
         | Inr passphrase \<Rightarrow>
             (let encKeyPath = keyPath @ ''.age'' in
              case ValidateFilePath encKeyPath of
                Some err \<Rightarrow> State_Monad.return (Some (wrapf ''invalid encrypted key file path'' err))
              | None \<Rightarrow> on_disk (age_write (ce_disk W) (ce_age_enc W) encKeyPath passphrase (PrivateKeyHex keyData)))) }
      else do {
        w \<leftarrow> on_disk (os_WriteFile (ce_disk W) keyPath (PrivateKeyHex keyData));
        State_Monad.return (map_option (wrapf ''failed to save private key'') w) })"

definition initiator_identity :: "machine \<Rightarrow> initiator_flags \<Rightarrow> string \<Rightarrow> string \<Rightarrow> KeyData \<Rightarrow> InitiatorIdentity" where
  "initiator_identity M fl algorithm username keyData =
     \<lparr>ii_NodeName = nf_node fl, ii_Algorithm = algorithm, ii_PublicKey = PublicKeyHex keyData, ii_CreatedAt = mc_now M,
      ii_CreatedBy = username, ii_MachineOS = mc_GOOS M,
      ii_MachineName = (case mc_hostname M of Inl _ \<Rightarrow> ''unknown'' | Inr h \<Rightarrow> h)\<rparr>"

definition write_initiator ::
  "'s cmd_env \<Rightarrow> bool \<Rightarrow> string \<Rightarrow> string \<Rightarrow> InitiatorIdentity \<Rightarrow> KeyData \<Rightarrow> go_error option pio" where
  "write_initiator W encrypt identityPath keyPath identity keyData = do {
     w \<leftarrow> on_disk (os_WriteFile (ce_disk W) identityPath (json_MarshalIndent (InitiatorIdentity_members identity)));
     (case w of
        Some err \<Rightarrow> State_Monad.return (Some (wrapf ''failed to save identity file'' err))
      | None \<Rightarrow> save_initiator_key W encrypt keyPath keyData) }"

definition runGenerateInitiatorIdentity :: "'s cmd_env \<Rightarrow> machine \<Rightarrow> initiator_flags \<Rightarrow> go_error option pio" where
  "runGenerateInitiatorIdentity W M fl =
     (let algorithm = (if nf_algorithm fl = [] then EventInitiatorKeyTypeEd25519 else nf_algorithm fl);
          identityPath = filepath_Join (nf_dir fl) (nf_node fl @ ''.identity.json'');
          keyPath = filepath_Join (nf_dir fl) (nf_node fl @ ''.key'');
          encKeyPath = keyPath @ ''.age'' in
      if algorithm \<notin> set [EventInitiatorKeyTypeEd25519, EventInitiatorKeyTypeP256] then
        State_Monad.return (Some (errorf (''invalid algorithm: '' @ algorithm @ ''. Must be '' @ EventInitiatorKeyTypeEd25519
          @ '' or '' @ EventInitiatorKeyTypeP256)))
      else do {
        mk \<leftarrow> on_disk (os_MkdirAll (ce_disk W) (nf_dir fl));
        (case mk of
           Some err \<Rightarrow> State_Monad.return (Some (wrapf ''failed to create output directory'' err))
         | None \<Rightarrow> do {
             st1 \<leftarrow> on_disk (os_Stat (ce_disk W) identityPath);
             (if st1 = None \<and> \<not> nf_overwrite fl then State_Monad.return (Some
                (errorf (''identity file already exists: '' @ identityPath @ '' (use --overwrite to force)'')))
              else do {
             st2 \<leftarrow> on_disk (os_Stat (ce_disk W) keyPath);
             (if st2 = None \<and> \<not> nf_overwrite fl then State_Monad.return (Some
                (errorf (''key file already exists: '' @ keyPath @ '' (use --overwrite to force)'')))
              else do {
             st3 \<leftarrow> (if nf_encrypt fl then on_disk (os_Stat (ce_disk W) encKeyPath) else State_Monad.return (Some (errorf [])));
             (if st3 = None \<and> \<not> nf_overwrite fl then State_Monad.return (Some
                (errorf (''encrypted key file already exists: '' @ encKeyPath @ '' (use --overwrite to force)'')))
              else
             (case initiator_keys (ce_crypto W) M algorithm of
                Inl err \<Rightarrow> State_Monad.return (Some (wrapf (''failed to generate '' @ algorithm @ '' keys'') err))
              | Inr keyData \<Rightarrow>
             (case mc_user M of
                Inl err \<Rightarrow> State_Monad.return (Some (wrapf ''failed to get current user'' err))
              | Inr username \<Rightarrow> write_initiator W (nf_encrypt fl) identityPath keyPath (initiator_identity M fl algorithm username keyData) keyData)))
              }) }) }) })"

section \<open>Recovering a database\<close>

record recover_flags =
  rf_backupDir :: string
  rf_recoveryPath :: string
  rf_force :: bool

text \<open>
  Directories: \<open>stat\<close> and \<open>removed\<close> are the results of \<^verbatim>\<open>os.Stat\<close> on the two paths and of \<^verbatim>\<open>os.RemoveAll\<close> on the recovery
  path, whose content belongs to the database library.
\<close>

definition recoverDatabase ::
  "'s cmd_env \<Rightarrow> 'db badger_lib \<Rightarrow> (string \<Rightarrow> go_error option) \<Rightarrow> go_error option \<Rightarrow> recover_flags \<Rightarrow> go_error option go_res pio" where
  "recoverDatabase W L stat removed fl =
     (if (case stat (rf_backupDir fl) of Some e \<Rightarrow> os_IsNotExist e | None \<Rightarrow> False)
      then State_Monad.return (Ret (Some (errorf (''backup directory does not exist: '' @ rf_backupDir fl))))
      else if stat (rf_recoveryPath fl) = None \<and> \<not> rf_force fl
      then State_Monad.return (Ret (Some (errorf (''recovery path already exists: '' @ rf_recoveryPath fl @ '' (use --force to overwrite)''))))
      else do {
        k \<leftarrow> term_ReadPassword W;
        (case k of
           Inl err \<Rightarrow> State_Monad.return (Ret (Some (wrapf ''failed to read encryption key'' err)))
         | Inr key \<Rightarrow>
             if length key = 0 then State_Monad.return (Ret (Some (errorf ''encryption key cannot be empty'')))
             else
               (case (if rf_force fl then removed else None) of
                  Some err \<Rightarrow> State_Monad.return (Ret (Some (wrapf ''failed to remove existing recovery path'' err)))
                | None \<Rightarrow>
                    go_bind (on_disk (NewBadgerBackupExecutor (ce_disk W) ''temp'' key (rf_backupDir fl))) (\<lambda>tempExecutor.
                      go_bind (on_disk (RestoreAllBackupsEncrypted (ce_disk W) L (ce_crypto W) tempExecutor (rf_recoveryPath fl) key))
                        (\<lambda>err. State_Monad.return (Ret (map_option (wrapf ''recovery failed'') err)))))) })"

section \<open>What the tools write\<close>

lemma special_loop_one: "special_loop 1 0 s \<longleftrightarrow> (\<exists>c \<in> set s. \<not> alphanumeric c)"
proof (induction s)
  case (Cons c r)
  have "rune_width (c # r) = 1" if "alphanumeric c"
    using that by (auto simp: alphanumeric_def rune_width_def Let_def)
  with Cons show ?case by auto
qed simp

text \<open>A passphrase is accepted when it was typed twice, has at least 12 bytes and one byte that is no letter or digit.\<close>

lemma RequestPassword_iff:
  "run_state (RequestPassword W) s = (Inr p, s') \<longleftrightarrow>
     ce_tty W (ps_reads s) = Inr p \<and> ce_tty W (Suc (ps_reads s)) = Inr p \<and> 12 \<le> length p \<and> (\<exists>c \<in> set p. \<not> alphanumeric c)
     \<and> s' = s\<lparr>ps_reads := Suc (Suc (ps_reads s))\<rparr>"
  by (auto simp: RequestPassword_def ContainsAtLeastNSpecial_def special_loop_one split: sum.splits if_splits)

text \<open>What age documents: a text that was encrypted under a passphrase is decrypted under it.\<close>

definition age_ok :: "age_enc \<Rightarrow> age_lib \<Rightarrow> bool" where
  "age_ok A L \<longleftrightarrow> (\<forall>pw h text. ae_NewScryptRecipient A pw = None \<and> ae_Encrypt A pw = Inr h \<longrightarrow>
     (let f = h @ ae_Write A pw text @ ae_Close A pw text in
      ag_NewScryptIdentity L pw = None \<and> ag_Decrypt L pw f = None \<and> ag_ReadAll L pw f = Inr text))"

definition age_text :: "age_enc \<Rightarrow> string \<Rightarrow> bytes \<Rightarrow> bytes \<Rightarrow> bool" where
  "age_text A pw text f \<longleftrightarrow> (\<exists>h. ae_NewScryptRecipient A pw = None \<and> ae_Encrypt A pw = Inr h
     \<and> f = h @ ae_Write A pw text @ ae_Close A pw text)"

lemma flush_done:
  assumes "run_state (flush D p bs) d = (None, d')" and "gm_get (dk_files d) p = Some b"
  shows "gm_get (dk_files d') p = Some (b @ bs) \<and> (\<forall>q. q \<noteq> p \<longrightarrow> gm_get (dk_files d') q = gm_get (dk_files d) q)"
  using assms by (auto simp: flush_def disk_defs file_content_def gm_simps split: if_splits option.splits)

lemma age_write_done:
  assumes "run_state (age_write D A p pw text) d = (None, d')"
  shows "(\<exists>f. gm_get (dk_files d') p = Some f \<and> age_text A pw text f)
    \<and> (\<forall>q. q \<noteq> p \<longrightarrow> gm_get (dk_files d') q = gm_get (dk_files d) q)"
proof -
  let ?run = "\<lambda>bs d. run_state (flush D p bs) d"
  from assms obtain d0 d1 d2 h where
    c: "run_state (os_Create D p) d = (None, d0)" and h: "ae_NewScryptRecipient A pw = None" "ae_Encrypt A pw = Inr h"
    and w: "?run h d0 = (None, d1)" "?run (ae_Write A pw text) d1 = (None, d2)" "?run (ae_Close A pw text) d2 = (None, d')"
    by (auto simp: age_write_def split: option.splits sum.splits prod.splits)
  have 0: "gm_get (dk_files d0) p = Some []" "\<forall>q. q \<noteq> p \<longrightarrow> gm_get (dk_files d0) q = gm_get (dk_files d) q"
    using c by (auto simp: disk_defs gm_simps split: option.splits)
  note 1 = flush_done [OF w(1) 0(1)]
  note 2 = flush_done [OF w(2) conjunct1 [OF 1]]
  note 3 = flush_done [OF w(3) conjunct1 [OF 2]]
  from 3 2 1 0(2) h show ?thesis by (auto simp: age_text_def)
qed

text \<open>A name that stays one element of a path.\<close>

definition node_name_ok :: "string \<Rightarrow> bool" where
  "node_name_ok n \<longleftrightarrow> CHR ''/'' \<notin> set n \<and> \<not> strings_Contains n ''..''"

definition private_key_path :: "string \<Rightarrow> string \<Rightarrow> bool \<Rightarrow> string" where
  "private_key_path dir n encrypt = filepath_Join dir (n @ ''_private.key'') @ (if encrypt then ''.age'' else [])"

definition identity_path :: "string \<Rightarrow> string \<Rightarrow> string" where
  "identity_path dir n = filepath_Join dir (n @ ''_identity.json'')"

lemma generateNodeIdentity_done:
  assumes "run_state (generateNodeIdentity D A keys now n i dir encrypt pw overwrite) d = (None, d')"
    and "private_key_path dir n encrypt \<noteq> identity_path dir n"
  obtains pub priv f where "keys = Inr (pub, priv)"
    and "gm_get (dk_files d') (identity_path dir n) = Some (json_MarshalIndent (Identity_members
          \<lparr>id_NodeName = n, id_NodeID = i, id_PublicKey = hex_EncodeToString pub, id_CreatedAt = now\<rparr>))"
    and "gm_get (dk_files d') (private_key_path dir n encrypt) = Some f"
    and "if encrypt then age_text A pw (hex_EncodeToString priv) f else f = hex_EncodeToString priv"
    and "\<And>q. q \<noteq> identity_path dir n \<Longrightarrow> q \<noteq> private_key_path dir n encrypt \<Longrightarrow> gm_get (dk_files d') q = gm_get (dk_files d) q"
proof -
  let ?j = "identity_path dir n" and ?k = "private_key_path dir n encrypt"
  from assms(1) obtain pub priv where keys: "keys = Inr (pub, priv)"
    by (auto simp: generateNodeIdentity_def split: sum.splits)
  let ?json = "json_MarshalIndent (Identity_members \<lparr>id_NodeName = n, id_NodeID = i, id_PublicKey = hex_EncodeToString pub, id_CreatedAt = now\<rparr>)"
  show ?thesis
  proof (cases encrypt)
    case False
    with assms keys show ?thesis
      by (intro that [of pub priv "hex_EncodeToString priv"])
        (auto simp: generateNodeIdentity_def Let_def disk_defs gm_simps identity_path_def private_key_path_def
          split: option.splits if_splits)
  next
    case True
    with assms(1) keys obtain d1 where d1: "run_state (age_write D A ?k pw (hex_EncodeToString priv)) d1 = (None, d')"
      "dk_files d1 = gm_put ?j ?json (dk_files d)"
      by (auto simp: generateNodeIdentity_def Let_def disk_defs gm_simps identity_path_def private_key_path_def
          split: option.splits if_splits)
    from age_write_done [OF d1(1)] d1(2) assms(2) True keys show ?thesis
      by (auto simp: gm_simps intro: that)
  qed
qed

section \<open>What the loaders read\<close>

lemma Contains_across:
  "\<not> strings_Contains a p \<Longrightarrow> \<not> strings_Contains (c # b) p \<Longrightarrow> c \<notin> set p \<Longrightarrow> p \<noteq> [] \<Longrightarrow> \<not> strings_Contains (a @ c # b) p"
proof (induction a)
  case (Cons x a)
  have "\<not> strings_HasPrefix ((x # a) @ c # b) p"
  proof
    assume "strings_HasPrefix ((x # a) @ c # b) p"
    then have p: "take (length p) ((x # a) @ c # b) = p" by (simp add: strings_HasPrefix_def)
    have "length p \<le> length (x # a)"
    proof (rule ccontr)
      assume "\<not> length p \<le> length (x # a)"
      then have "length p = length (x # a) + Suc (length p - length (x # a) - 1)" by simp
      then obtain k where "length p = length (x # a) + Suc k" by blast
      then have "take (length p) ((x # a) @ c # b) = (x # a) @ c # take k b" by simp
      then have "c \<in> set (take (length p) ((x # a) @ c # b))" by simp
      with p Cons.prems(3) show False by simp
    qed
    then have "take (length p) ((x # a) @ c # b) = take (length p) (x # a)" by (simp only: take_append) simp
    with p have "strings_HasPrefix (x # a) p" by (simp add: strings_HasPrefix_def)
    with Cons.prems(1) show False by simp
  qed
  with Cons show ?case by simp
qed simp

lemma node_file_name:
  assumes "node_name_ok n" and "\<not> strings_Contains (CHR ''_'' # t) ''..''" and "CHR ''/'' \<notin> set t"
  shows "filepath_Clean (n @ CHR ''_'' # t) = n @ CHR ''_'' # t" and "\<not> strings_Contains (n @ CHR ''_'' # t) ''..''"
    and "plain_elem (n @ CHR ''_'' # t) \<and> CHR ''/'' \<notin> set (n @ CHR ''_'' # t)"
proof -
  show nc: "\<not> strings_Contains (n @ CHR ''_'' # t) ''..''"
    using assms by (intro Contains_across) (simp_all add: node_name_ok_def)
  have "n @ CHR ''_'' # t \<noteq> w" if "CHR ''_'' \<notin> set w" for w using that by auto
  from this [of "''.''"] this [of "''..''"]
  show pl: "plain_elem (n @ CHR ''_'' # t) \<and> CHR ''/'' \<notin> set (n @ CHR ''_'' # t)"
    using assms(1,3) by (simp add: plain_elem_def node_name_ok_def)
  from plain_name pl show "filepath_Clean (n @ CHR ''_'' # t) = n @ CHR ''_'' # t" by blast
qed

lemma SafePath_node_file:
  assumes "node_name_ok n" and "\<not> strings_Contains (CHR ''_'' # t) ''..''" and "CHR ''/'' \<notin> set t"
    and "dir \<noteq> []" and "is_rooted wd"
  shows "SafePath (Inr wd) dir (n @ CHR ''_'' # t) = Inr (filepath_Join dir (n @ CHR ''_'' # t))"
  using node_file_name [OF assms(1-3)] assms(4,5) by (subst SafePath_iff [where d = wd]) simp_all

lemma node_suffixes:
  "\<not> strings_Contains ''_private.key'' ''..''" "\<not> strings_Contains ''_private.key.age'' ''..''"
  "\<not> strings_Contains ''_identity.json'' ''..''"
  by (simp_all add: strings_HasPrefix_def)

lemma node_paths:
  assumes "node_name_ok n" and "dir \<noteq> []" and "is_rooted wd"
  shows "SafePath (Inr wd) dir (n @ ''_private.key'') = Inr (private_key_path dir n False)"
    and "SafePath (Inr wd) dir (n @ ''_private.key.age'') = Inr (private_key_path dir n True)"
    and "SafePath (Inr wd) dir (n @ ''_identity.json'') = Inr (identity_path dir n)"
    and "private_key_path dir n e \<noteq> identity_path dir n"
proof -
  note safe = SafePath_node_file [OF assms(1) _ _ assms(2,3)] and names = node_file_name [OF assms(1)]
  obtain pre where pre: "\<And>name. plain_elem name \<and> CHR ''/'' \<notin> set name \<Longrightarrow> filepath_Join dir name = pre @ name"
    using Join_name_prefix by blast
  have k: "filepath_Join dir (n @ ''_private.key'') = pre @ n @ ''_private.key''"
    using pre [OF names(3) [of "''private.key''"]] node_suffixes(1) by simp
  have a: "filepath_Join dir (n @ ''_private.key.age'') = pre @ n @ ''_private.key.age''"
    using pre [OF names(3) [of "''private.key.age''"]] node_suffixes(2) by simp
  have j: "identity_path dir n = pre @ n @ ''_identity.json''"
    using pre [OF names(3) [of "''identity.json''"]] node_suffixes(3) by (simp add: identity_path_def)
  show "SafePath (Inr wd) dir (n @ ''_private.key'') = Inr (private_key_path dir n False)"
    using safe [of "''private.key''"] node_suffixes(1) by (simp add: private_key_path_def)
  show "SafePath (Inr wd) dir (n @ ''_private.key.age'') = Inr (private_key_path dir n True)"
    using safe [of "''private.key.age''"] node_suffixes(2) a k by (simp add: private_key_path_def)
  show "SafePath (Inr wd) dir (n @ ''_identity.json'') = Inr (identity_path dir n)"
    using safe [of "''identity.json''"] node_suffixes(3) by (simp add: identity_path_def)
  show "private_key_path dir n e \<noteq> identity_path dir n" unfolding private_key_path_def k j by simp
qed

lemma Unmarshal_written_identity:
  "Unmarshal_NodeIdentity (json_MarshalIndent (Identity_members i)) =
     (\<lparr>ni_NodeName = id_NodeName i, ni_NodeID = id_NodeID i, ni_PublicKey = id_PublicKey i, ni_CreatedAt = id_CreatedAt i\<rparr>, None)"
  by (simp add: Unmarshal_NodeIdentity_def json_Unmarshal_indent Identity_members_def decode_struct_def NodeIdentity_fields_def
      find_field_def fld_str_def)

section \<open>Properties\<close>

lemma runGenerateIdentity_done:
  assumes "run_state (runGenerateIdentity W keys now fl) s = (None, s')"
  obtains bs peers nodeID pw d where "gm_get (dk_files (ps_disk s)) (if_peers fl) = Some bs" and "Unmarshal_peers bs = (peers, None)"
    and "gm_get peers (if_node fl) = Some nodeID"
    and "run_state (generateNodeIdentity (ce_disk W) (ce_age_enc W) keys now (if_node fl) nodeID (if_dir fl) (if_encrypt fl) pw
           (if_overwrite fl)) d = (None, ps_disk s')"
    and "if_encrypt fl \<Longrightarrow> ce_tty W (ps_reads s) = Inr pw"
proof -
  let ?gen = "\<lambda>nodeID pw. generateNodeIdentity (ce_disk W) (ce_age_enc W) keys now (if_node fl) nodeID (if_dir fl) (if_encrypt fl) pw
           (if_overwrite fl)"
  obtain r s1 where r: "run_state (if if_encrypt fl then RequestPassword W else State_Monad.return (Inr [])) s = (r, s1)" by fastforce
  from assms r obtain pw where pw: "r = Inr pw" by (cases r) (simp_all add: runGenerateIdentity_def)
  have s1: "ps_disk s1 = ps_disk s" and tty: "if_encrypt fl \<Longrightarrow> ce_tty W (ps_reads s) = Inr pw"
    using r pw by (auto simp: RequestPassword_iff split: if_splits)
  from assms r pw have "\<exists>bs peers nodeID d. gm_get (dk_files (ps_disk s1)) (if_peers fl) = Some bs \<and> Unmarshal_peers bs = (peers, None)
      \<and> gm_get peers (if_node fl) = Some nodeID \<and> fst (run_state (?gen nodeID pw) d) = None
      \<and> snd (run_state (?gen nodeID pw) d) = ps_disk s'"
    by (auto simp: runGenerateIdentity_def disk_defs split: option.splits sum.splits prod.splits if_splits)
  then show ?thesis using that s1 tty by (metis prod.collapse)
qed

text \<open>
  C22: the identity that \<^verbatim>\<open>identity generate\<close> writes is the one the node loads. When the tool reports success for a node,
  with or without encryption, the peers file gives the node an ID, and the files on the disk hold a generated key pair:
  \<^verbatim>\<open>loadPrivateKey\<close> returns its private half (after the passphrase that was typed, when encrypted), the loop over the
  peers loads its public half for that node ID, and every store that \<^verbatim>\<open>NewFileStore\<close> makes from that disk for the node
  has the private key.
\<close>

theorem generated_identity_loads:
  assumes "run_state (runGenerateIdentity W keys now fl) s = (None, s')" and "node_name_ok (if_node fl)"
    and "if_dir fl \<noteq> []" and "is_rooted wd" and "age_ok (ce_age_enc W) A" and "ie_Getwd I = Inr wd"
    and "if_encrypt fl \<longrightarrow> ie_ReadPassword I = ce_tty W (ps_reads s)"
  shows "\<exists>bs peers nodeID pub priv. gm_get (dk_files (ps_disk s)) (if_peers fl) = Some bs \<and> Unmarshal_peers bs = (peers, None)
    \<and> gm_get peers (if_node fl) = Some nodeID \<and> keys = Inr (pub, priv)
    \<and> loadPrivateKey (files_of (ps_disk s')) A I (if_dir fl) (if_node fl) (if_encrypt fl) [] = Inr (hex_EncodeToString priv)
    \<and> load_peer (files_of (ps_disk s')) I (if_dir fl) (if_node fl) nodeID = Inr pub
    \<and> (\<forall>C ord st. NewFileStore C (files_of (ps_disk s')) A I ord (if_dir fl) (if_node fl) (if_encrypt fl) [] = Inr st \<longrightarrow>
         privateKey st = priv)"
proof -
  from runGenerateIdentity_done [OF assms(1)] obtain bs peers nodeID pw d where
    peers: "gm_get (dk_files (ps_disk s)) (if_peers fl) = Some bs" "Unmarshal_peers bs = (peers, None)"
      "gm_get peers (if_node fl) = Some nodeID"
    and gen: "run_state (generateNodeIdentity (ce_disk W) (ce_age_enc W) keys now (if_node fl) nodeID (if_dir fl) (if_encrypt fl) pw
           (if_overwrite fl)) d = (None, ps_disk s')"
    and tty: "if_encrypt fl \<Longrightarrow> ce_tty W (ps_reads s) = Inr pw" by blast
  note paths = node_paths [OF assms(2,3,4)]
  from generateNodeIdentity_done [OF gen paths(4)] obtain pub priv f where keys: "keys = Inr (pub, priv)"
    and json: "gm_get (dk_files (ps_disk s')) (identity_path (if_dir fl) (if_node fl)) = Some (json_MarshalIndent (Identity_members
          \<lparr>id_NodeName = if_node fl, id_NodeID = nodeID, id_PublicKey = hex_EncodeToString pub, id_CreatedAt = now\<rparr>))"
    and key: "gm_get (dk_files (ps_disk s')) (private_key_path (if_dir fl) (if_node fl) (if_encrypt fl)) = Some f"
      "if if_encrypt fl then age_text (ce_age_enc W) pw (hex_EncodeToString priv) f else f = hex_EncodeToString priv" by metis
  have load: "loadPrivateKey (files_of (ps_disk s')) A I (if_dir fl) (if_node fl) (if_encrypt fl) [] = Inr (hex_EncodeToString priv)"
  proof (cases "if_encrypt fl")
    case True
    have "ie_ReadPassword I = Inr pw" using assms(7) tty True by simp
    moreover have "ag_NewScryptIdentity A pw = None" "ag_Decrypt A pw f = None" "ag_ReadAll A pw f = Inr (hex_EncodeToString priv)"
      using assms(5) key(2) True unfolding age_ok_def age_text_def Let_def by (metis (no_types))+
    ultimately show ?thesis
      using True key(1) paths(1,2) by (simp add: loadPrivateKey_def assms(6) files_of_def read_passphrase_def)
  next
    case False
    with key paths(1,2) show ?thesis by (simp add: loadPrivateKey_def assms(6) files_of_def)
  qed
  have "load_peer (files_of (ps_disk s')) I (if_dir fl) (if_node fl) nodeID = Inr pub"
    using json paths(3) by (simp add: load_peer_def assms(6) files_of_def Unmarshal_written_identity hex_round_trip)
  moreover have "privateKey st = priv"
    if "NewFileStore C (files_of (ps_disk s')) A I ord (if_dir fl) (if_node fl) (if_encrypt fl) [] = Inr st" for C ord st
    using that load by (auto simp: NewFileStore_def hex_round_trip split: option.splits sum.splits prod.splits)
  ultimately show ?thesis using peers keys load by blast
qed

definition age_dec_ref :: age_lib where
  "age_dec_ref = \<lparr>ag_NewScryptIdentity = \<lambda>_. None, ag_Decrypt = \<lambda>_ _. None, ag_ReadAll = \<lambda>_ b. Inr (drop 4 b)\<rparr>"

lemma age_ref_ok: "age_ok age_enc_ref age_dec_ref"
  by (simp add: age_ok_def age_enc_ref_def age_dec_ref_def)

definition passphrase_ref :: string where "passphrase_ref = ''correct horse battery!''"

lemma cmd_ref_fields:
  "ce_disk cmd_ref = disk_good" "ce_age_enc cmd_ref = age_enc_ref" "ce_crypto cmd_ref = crypto_ref"
  by (simp_all add: cmd_ref_def)

lemma request_ref: "run_state (RequestPassword cmd_ref) s = (Inr passphrase_ref, s\<lparr>ps_reads := Suc (Suc (ps_reads s))\<rparr>)"
proof -
  have "12 \<le> length passphrase_ref" "\<exists>c \<in> set passphrase_ref. \<not> alphanumeric c" by code_simp+
  then show ?thesis unfolding RequestPassword_iff by (simp add: cmd_ref_def passphrase_ref_def)
qed

lemma peers_disk_ref_files: "\<exists>bs. dk_files peers_disk_ref = [(''peers.json'', bs)] \<and> Unmarshal_peers bs = (peers_ref, None)"
proof -
  have gen: "new_peers uuids_ref [0..<nat 2] [] = Inr peers_ref" "sorted_pairs peers_ref = peers_ref"
    "filepath_Dir ''peers.json'' = ''.''" by code_simp+
  have "dk_files peers_disk_ref = [(''peers.json'', json_MarshalIndent peers_ref)]"
    using gen by (simp add: peers_disk_ref_def generatePeers_def disk_defs disk_good_def)
  moreover have "Unmarshal_peers (json_MarshalIndent peers_ref) = (peers_ref, None)"
    using Unmarshal_peers_indent [of peers_ref] gen(2) by (simp add: peers_ref_def)
  ultimately show ?thesis by blast
qed

definition identity_flags_ref :: identity_flags where
  "identity_flags_ref = \<lparr>if_node = ''node1'', if_peers = ''peers.json'', if_dir = ''identity'', if_encrypt = True, if_overwrite = False\<rparr>"

definition node_keys_ref :: "go_error + bytes \<times> bytes" where
  "node_keys_ref = Inr (''public'', ''private'')"

lemma identity_generated_ref:
  "fst (run_state (runGenerateIdentity cmd_ref node_keys_ref ''2024-01-02T03:04:05Z'' identity_flags_ref) (proc_ref peers_disk_ref)) = None"
proof -
  obtain bs where bs: "dk_files peers_disk_ref = [(''peers.json'', bs)]" "Unmarshal_peers bs = (peers_ref, None)"
    using peers_disk_ref_files by blast
  have paths: "filepath_Join ''identity'' ''node1_identity.json'' = ''identity/node1_identity.json''"
    "filepath_Join ''identity'' ''node1_private.key'' = ''identity/node1_private.key''"
    "ValidateFilePath ''peers.json'' = None" "ValidateFilePath ''identity/node1_private.key.age'' = None"
    "gm_get peers_ref ''node1'' = Some ''uuid-1''" by code_simp+
  show ?thesis
    using bs paths
    by (simp add: runGenerateIdentity_def identity_flags_ref_def request_ref proc_ref_def cmd_ref_fields disk_good_def disk_defs
        generateNodeIdentity_def node_keys_ref_def Let_def age_write_def age_enc_ref_def flush_def)
qed

definition identity_written_ref :: proc where
  "identity_written_ref =
     snd (run_state (runGenerateIdentity cmd_ref node_keys_ref ''2024-01-02T03:04:05Z'' identity_flags_ref) (proc_ref peers_disk_ref))"

theorem generated_identity_loads_witness:
  "loadPrivateKey (files_of (ps_disk identity_written_ref)) age_dec_ref (identity_env_ref\<lparr>ie_ReadPassword := Inr passphrase_ref\<rparr>)
     ''identity'' ''node1'' True [] = Inr (hex_EncodeToString ''private'')"
proof -
  have run: "run_state (runGenerateIdentity cmd_ref node_keys_ref ''2024-01-02T03:04:05Z'' identity_flags_ref) (proc_ref peers_disk_ref)
      = (None, identity_written_ref)"
    using identity_generated_ref by (simp add: identity_written_ref_def prod_eq_iff)
  have ok: "node_name_ok ''node1''" "is_rooted ''/srv''" by code_simp+
  from generated_identity_loads [OF run, of "''/srv''" age_dec_ref "identity_env_ref\<lparr>ie_ReadPassword := Inr passphrase_ref\<rparr>"]
    ok age_ref_ok
  show ?thesis by (auto simp: identity_flags_ref_def cmd_ref_def identity_env_ref_def passphrase_ref_def node_keys_ref_def)
qed

section \<open>The initiator's key\<close>

definition initiator_algorithm :: "initiator_flags \<Rightarrow> string" where
  "initiator_algorithm fl = (if nf_algorithm fl = [] then EventInitiatorKeyTypeEd25519 else nf_algorithm fl)"

definition initiator_key_path :: "initiator_flags \<Rightarrow> string" where
  "initiator_key_path fl = filepath_Join (nf_dir fl) (nf_node fl @ ''.key'') @ (if nf_encrypt fl then ''.age'' else [])"

definition initiator_identity_path :: "initiator_flags \<Rightarrow> string" where
  "initiator_identity_path fl = filepath_Join (nf_dir fl) (nf_node fl @ ''.identity.json'')"

lemma initiator_paths:
  assumes "CHR ''/'' \<notin> set (nf_node fl)"
  shows "initiator_key_path fl \<noteq> initiator_identity_path fl" and "initiator_key_path fl \<noteq> []"
    and "strings_HasSuffix (initiator_key_path fl) ''.age'' = nf_encrypt fl"
proof -
  let ?n = "nf_node fl"
  obtain pre where pre: "\<And>name. plain_elem name \<and> CHR ''/'' \<notin> set name \<Longrightarrow> filepath_Join (nf_dir fl) name = pre @ name"
    using Join_name_prefix by blast
  have "t \<noteq> w" if "CHR ''k'' \<in> set t \<or> CHR ''j'' \<in> set t" "CHR ''k'' \<notin> set w" "CHR ''j'' \<notin> set w" for t w :: string using that by auto
  then have "plain_elem (?n @ ''.key'')" "plain_elem (?n @ ''.identity.json'')" by (simp_all add: plain_elem_def)
  then have "filepath_Join (nf_dir fl) (?n @ ''.key'') = pre @ ?n @ ''.key''"
    and "filepath_Join (nf_dir fl) (?n @ ''.identity.json'') = pre @ ?n @ ''.identity.json''"
    using pre assms by simp_all
  then show "initiator_key_path fl \<noteq> initiator_identity_path fl" "initiator_key_path fl \<noteq> []"
    "strings_HasSuffix (initiator_key_path fl) ''.age'' = nf_encrypt fl"
    by (simp_all add: initiator_key_path_def initiator_identity_path_def strings_HasSuffix_def strings_HasPrefix_def)
qed

lemma save_initiator_key_done:
  assumes "run_state (save_initiator_key W encrypt p kd) s = (None, s')"
  obtains f where "gm_get (dk_files (ps_disk s')) (p @ (if encrypt then ''.age'' else [])) = Some f"
    and "if encrypt then \<exists>pw. ce_tty W (ps_reads s) = Inr pw \<and> pw \<noteq> [] \<and> age_text (ce_age_enc W) pw (PrivateKeyHex kd) f
         else f = PrivateKeyHex kd"
    and "\<And>q. q \<noteq> p @ (if encrypt then ''.age'' else []) \<Longrightarrow> gm_get (dk_files (ps_disk s')) q = gm_get (dk_files (ps_disk s)) q"
proof (cases encrypt)
  case False
  with assms show ?thesis
    by (intro that [of "PrivateKeyHex kd"]) (auto simp: save_initiator_key_def disk_defs gm_simps split: option.splits)
next
  case True
  obtain r s1 where r: "run_state (RequestPassword W) s = (r, s1)" by fastforce
  with assms True obtain pw where pw: "r = Inr pw" by (cases r) (simp_all add: save_initiator_key_def)
  have tty: "ce_tty W (ps_reads s) = Inr pw" "pw \<noteq> []" "ps_disk s1 = ps_disk s" using r pw by (auto simp: RequestPassword_iff)
  have "run_state (age_write (ce_disk W) (ce_age_enc W) (p @ ''.age'') pw (PrivateKeyHex kd)) (ps_disk s1) = (None, ps_disk s')"
    using assms True r pw by (auto simp: save_initiator_key_def Let_def prod_eq_iff split: option.splits)
  from age_write_done [OF this] True tty show ?thesis by (auto intro: that)
qed

lemma run_disk_reads [simp]:
  "dk_files (snd (run_state (os_Stat D p) d)) = dk_files d" "dk_files (snd (run_state (os_MkdirAll D p) d)) = dk_files d"
  by (simp_all add: os_Stat_def os_MkdirAll_def tick_def)

lemma runGenerateInitiatorIdentity_writes:
  assumes "run_state (runGenerateInitiatorIdentity W M fl) s = (None, s')"
  shows "\<exists>kd username s1. run_state (write_initiator W (nf_encrypt fl) (initiator_identity_path fl)
        (filepath_Join (nf_dir fl) (nf_node fl @ ''.key'')) (initiator_identity M fl (initiator_algorithm fl) username kd) kd) s1 = (None, s')
     \<and> ps_reads s1 = ps_reads s \<and> dk_files (ps_disk s1) = dk_files (ps_disk s)
     \<and> initiator_algorithm fl \<in> {EventInitiatorKeyTypeEd25519, EventInitiatorKeyTypeP256}
     \<and> initiator_keys (ce_crypto W) M (initiator_algorithm fl) = Inr kd"
proof -
  let ?alg = "initiator_algorithm fl" and ?j = "initiator_identity_path fl"
  let ?k = "filepath_Join (nf_dir fl) (nf_node fl @ ''.key'')"
  define s3 where "s3 = snd (run_state (on_disk (os_Stat (ce_disk W) ?k)) (snd (run_state (on_disk (os_Stat (ce_disk W) ?j))
    (snd (run_state (on_disk (os_MkdirAll (ce_disk W) (nf_dir fl))) s)))))"
  define s1 where "s1 = (if nf_encrypt fl then snd (run_state (on_disk (os_Stat (ce_disk W) (?k @ ''.age''))) s3) else s3)"
  have alg: "?alg \<in> {EventInitiatorKeyTypeEd25519, EventInitiatorKeyTypeP256}"
    using assms by (auto simp: runGenerateInitiatorIdentity_def Let_def initiator_algorithm_def split: if_splits)
  from assms obtain kd where kd: "initiator_keys (ce_crypto W) M ?alg = Inr kd"
    by (cases "initiator_keys (ce_crypto W) M ?alg")
      (auto simp: runGenerateInitiatorIdentity_def Let_def initiator_algorithm_def split: if_splits option.splits)
  from assms kd obtain u where u: "mc_user M = Inr u"
    by (cases "mc_user M")
      (auto simp: runGenerateInitiatorIdentity_def Let_def initiator_algorithm_def split: if_splits option.splits)
  have "run_state (write_initiator W (nf_encrypt fl) ?j ?k (initiator_identity M fl ?alg u kd) kd) s1 = (None, s')"
    using assms kd u unfolding s1_def s3_def
    by (auto simp: runGenerateInitiatorIdentity_def Let_def initiator_algorithm_def initiator_identity_path_def
        split: if_splits option.splits)
  moreover have "ps_reads s1 = ps_reads s" "dk_files (ps_disk s1) = dk_files (ps_disk s)" by (simp_all add: s1_def s3_def)
  ultimately show ?thesis using alg kd by blast
qed

lemma runGenerateInitiatorIdentity_done:
  assumes "run_state (runGenerateInitiatorIdentity W M fl) s = (None, s')"
    and "initiator_key_path fl \<noteq> initiator_identity_path fl"
  obtains kd identity f where "initiator_algorithm fl \<in> {EventInitiatorKeyTypeEd25519, EventInitiatorKeyTypeP256}"
    and "initiator_keys (ce_crypto W) M (initiator_algorithm fl) = Inr kd"
    and "gm_get (dk_files (ps_disk s')) (initiator_identity_path fl) = Some (json_MarshalIndent (InitiatorIdentity_members identity))"
    and "ii_PublicKey identity = PublicKeyHex kd" and "ii_Algorithm identity = initiator_algorithm fl"
    and "gm_get (dk_files (ps_disk s')) (initiator_key_path fl) = Some f"
    and "if nf_encrypt fl then \<exists>pw. ce_tty W (ps_reads s) = Inr pw \<and> pw \<noteq> [] \<and> age_text (ce_age_enc W) pw (PrivateKeyHex kd) f
         else f = PrivateKeyHex kd"
proof -
  let ?j = "initiator_identity_path fl" and ?k = "filepath_Join (nf_dir fl) (nf_node fl @ ''.key'')"
  from runGenerateInitiatorIdentity_writes [OF assms(1)] obtain kd username s1 where
    w: "run_state (write_initiator W (nf_encrypt fl) ?j ?k (initiator_identity M fl (initiator_algorithm fl) username kd) kd) s1 = (None, s')"
    and reads: "ps_reads s1 = ps_reads s"
    and alg: "initiator_algorithm fl \<in> {EventInitiatorKeyTypeEd25519, EventInitiatorKeyTypeP256}"
    and kd: "initiator_keys (ce_crypto W) M (initiator_algorithm fl) = Inr kd" by blast
  let ?i = "initiator_identity M fl (initiator_algorithm fl) username kd"
  from w obtain s2 where s2: "run_state (save_initiator_key W (nf_encrypt fl) ?k kd) s2 = (None, s')" "ps_reads s2 = ps_reads s1"
    "gm_get (dk_files (ps_disk s2)) ?j = Some (json_MarshalIndent (InitiatorIdentity_members ?i))"
    by (auto simp: write_initiator_def disk_defs gm_simps split: option.splits)
  from save_initiator_key_done [OF s2(1), folded initiator_key_path_def] obtain f where
    f: "gm_get (dk_files (ps_disk s')) (initiator_key_path fl) = Some f"
      "if nf_encrypt fl then \<exists>pw. ce_tty W (ps_reads s2) = Inr pw \<and> pw \<noteq> [] \<and> age_text (ce_age_enc W) pw (PrivateKeyHex kd) f
         else f = PrivateKeyHex kd"
      "gm_get (dk_files (ps_disk s')) ?j = gm_get (dk_files (ps_disk s2)) ?j"
    using assms(2) by metis
  show ?thesis using alg kd f s2(2,3) reads by (intro that [of kd ?i f]) (auto simp: initiator_identity_def split: if_splits)
qed

text \<open>
  What Go documents of its key generators: an Ed25519 key pair comes from a seed; a P-256 key is on its curve, its DER
  form is read back, the hex form of it is not DER, and the DER form of a public key is not empty.
\<close>

definition machine_ok :: "crypto \<Rightarrow> machine \<Rightarrow> bool" where
  "machine_ok C M \<longleftrightarrow>
     (\<forall>pub priv. mc_ed25519 M = Inr (pub, priv) \<longrightarrow>
        (\<exists>seed. length seed = ed25519_SeedSize \<and> priv = cr_NewKeyFromSeed C seed \<and> pub = cr_PublicKey C priv))
     \<and> (\<forall>sk b p. mc_p256 M = Inr sk \<and> cr_MarshalEC C sk = Inr b \<and> cr_MarshalPKIX C (cr_P256Public C sk) = Inr p \<longrightarrow>
        ek_Curve sk = Some P256 \<and> try_private_der C b = Some sk \<and> try_private_der C (hex_EncodeToString b) = None \<and> p \<noteq> [])"

lemma hex_chars: "c \<in> set (hex_EncodeToString bs) \<Longrightarrow> \<not> is_space c"
proof (induction bs)
  case (Cons b bs)
  have "\<not> is_space (hex_char (n mod 16))" for n
  proof
    assume "is_space (hex_char (n mod 16))"
    then have "hex_val (hex_char (n mod 16)) = None" by (auto simp: is_space_def hex_val_def is_digit_def)
    then show False by (simp add: hex_val_hex_char)
  qed
  moreover have "(of_char b :: nat) div 16 = of_char b div 16 mod 16"
    using of_char_bound [of b] less_mult_imp_div_less [of "of_char b" 16 16] by (intro mod_less [symmetric]) simp
  ultimately show ?case using Cons by (auto split: if_splits) metis
qed simp

lemma hex_TrimSpace: "strings_TrimSpace (hex_EncodeToString bs) = hex_EncodeToString bs"
  using hex_chars by (intro strings_TrimSpace_id) (metis hd_in_set last_in_set)

lemma generated_key_loads:
  assumes "crypto_ok C" and "machine_ok C M" and "initiator_keys C M alg = Inr kd"
    and "alg \<in> {EventInitiatorKeyTypeEd25519, EventInitiatorKeyTypeP256}"
    and "readKeyFile F A path e pw = Inr (PrivateKeyHex kd)" and "path \<noteq> []" and "e = strings_HasSuffix path ''.age''"
  shows "\<exists>s. NewLocalSigner C F A alg \<lparr>lo_KeyPath = path, lo_Encrypted = e, lo_Password = pw\<rparr> = Ret (Inr s)
    \<and> LocalSigner_PublicKey C s = Inr (PublicKeyHex kd) \<and> PublicKeyHex kd \<noteq> [] \<and> LocalSigner_Algorithm s = alg"
proof (cases "alg = EventInitiatorKeyTypeEd25519")
  case True
  with assms(3) obtain pub priv where kp: "mc_ed25519 M = Inr (pub, priv)"
    and kd: "kd = \<lparr>PublicKeyHex = hex_EncodeToString pub, PrivateKeyHex = hex_EncodeToString (take 32 priv)\<rparr>"
    by (auto simp: initiator_keys_def GenerateEd25519Keys_def Let_def split: sum.splits)
  from assms(2) kp obtain seed where seed: "length seed = ed25519_SeedSize" "priv = cr_NewKeyFromSeed C seed" "pub = cr_PublicKey C priv"
    unfolding machine_ok_def by blast
  have "take 32 priv = seed" using assms(1) seed(1,2) by (simp add: crypto_ok_def ed25519_SeedSize_def)
  moreover have "pub \<noteq> []"
    using crypto_okD(2) [OF assms(1) crypto_ok_seed [OF assms(1) seed(1)]] seed(2,3) by (auto simp: ed25519_PublicKeySize_def)
  ultimately show ?thesis
    using assms(5-7) True seed hex_nonempty [of pub]
    by (simp add: kd NewLocalSigner_def Let_def loadEd25519Key_def hex_TrimSpace hex_round_trip LocalSigner_PublicKey_def LocalSigner_Algorithm_def)
next
  case False
  with assms(4) have alg: "alg = EventInitiatorKeyTypeP256" by simp
  with assms(3) obtain sk b p where kp: "mc_p256 M = Inr sk" "cr_MarshalEC C sk = Inr b" "cr_MarshalPKIX C (cr_P256Public C sk) = Inr p"
    and kd: "kd = \<lparr>PublicKeyHex = hex_EncodeToString p, PrivateKeyHex = hex_EncodeToString b\<rparr>"
    by (auto simp: initiator_keys_def GenerateP256Keys_def split: sum.splits)
  with assms(2) have ok: "ek_Curve sk = Some P256" "try_private_der C b = Some sk" "try_private_der C (hex_EncodeToString b) = None" "p \<noteq> []"
    unfolding machine_ok_def by blast+
  have "ParseP256PrivateKey C (hex_EncodeToString b) = Inr sk"
    by (simp add: ParseP256PrivateKey_def ok hex_TrimSpace hex_no_prefix hex_round_trip)
  moreover have "MarshalP256PublicKey C (Some (cr_P256Public C sk)) = Inr p"
    using kp(3) ok(1) crypto_okD(6) [OF assms(1)] by (simp add: MarshalP256PublicKey_def ValidateP256PublicKey_def)
  ultimately show ?thesis
    using assms(5-7) alg hex_nonempty [OF ok(4)]
    by (simp add: kd NewLocalSigner_def Let_def loadP256Key_def LocalSigner_PublicKey_def LocalSigner_Algorithm_def)
qed

text \<open>
  C21: the key that \<^verbatim>\<open>initiator generate\<close> writes works end to end. When the tool reports success, with either algorithm
  and with or without encryption, the identity file carries a public key; a client's \<^verbatim>\<open>NewLocalSigner\<close> loads the key file
  (with the passphrase that was typed, when encrypted) and prints that public key; and a node that is configured with the
  algorithm and that public key loads it and accepts everything the signer signs.
\<close>

theorem generated_initiator_key_works:
  assumes "run_state (runGenerateInitiatorIdentity W M fl) s = (None, s')" and "CHR ''/'' \<notin> set (nf_node fl)"
    and "crypto_ok (ce_crypto W)" and "machine_ok (ce_crypto W) M" and "age_ok (ce_age_enc W) A"
    and "nf_encrypt fl \<longrightarrow> ce_tty W (ps_reads s) = Inr pw"
  shows "\<exists>identity signer key.
      gm_get (dk_files (ps_disk s')) (initiator_identity_path fl) = Some (json_MarshalIndent (InitiatorIdentity_members identity))
    \<and> NewLocalSigner (ce_crypto W) (files_of (ps_disk s')) A (ii_Algorithm identity)
        \<lparr>lo_KeyPath = initiator_key_path fl, lo_Encrypted = nf_encrypt fl, lo_Password = pw\<rparr> = Ret (Inr signer)
    \<and> LocalSigner_PublicKey (ce_crypto W) signer = Inr (ii_PublicKey identity)
    \<and> loadInitiatorKeys (ce_crypto W) (ii_Algorithm identity) (ii_PublicKey identity) = Inr key
    \<and> signer_matches (ce_crypto W) (local_Signer (ce_crypto W) signer) key"
proof -
  let ?C = "ce_crypto W"
  note paths = initiator_paths [OF assms(2)]
  from runGenerateInitiatorIdentity_done [OF assms(1) paths(1)] obtain kd identity f where
    alg: "initiator_algorithm fl \<in> {EventInitiatorKeyTypeEd25519, EventInitiatorKeyTypeP256}"
    and kd: "initiator_keys ?C M (initiator_algorithm fl) = Inr kd"
    and json: "gm_get (dk_files (ps_disk s')) (initiator_identity_path fl) = Some (json_MarshalIndent (InitiatorIdentity_members identity))"
      "ii_PublicKey identity = PublicKeyHex kd" "ii_Algorithm identity = initiator_algorithm fl"
    and f: "gm_get (dk_files (ps_disk s')) (initiator_key_path fl) = Some f"
      "if nf_encrypt fl then \<exists>pw. ce_tty W (ps_reads s) = Inr pw \<and> pw \<noteq> [] \<and> age_text (ce_age_enc W) pw (PrivateKeyHex kd) f
         else f = PrivateKeyHex kd" by blast
  have read: "readKeyFile (files_of (ps_disk s')) A (initiator_key_path fl) (nf_encrypt fl) pw = Inr (PrivateKeyHex kd)"
  proof (cases "nf_encrypt fl")
    case True
    then have pw: "pw \<noteq> []" "age_text (ce_age_enc W) pw (PrivateKeyHex kd) f" using f(2) assms(6) by auto
    then have "ag_NewScryptIdentity A pw = None" "ag_Decrypt A pw f = None" "ag_ReadAll A pw f = Inr (PrivateKeyHex kd)"
      using assms(5) unfolding age_ok_def age_text_def Let_def by (metis (no_types))+
    with True pw(1) f(1) show ?thesis by (simp add: readKeyFile_def files_of_def decryptPrivateKey_def)
  next
    case False
    with f show ?thesis by (simp add: readKeyFile_def files_of_def)
  qed
  from generated_key_loads [OF assms(3,4) kd alg read paths(2) paths(3) [symmetric]] obtain signer where
    sg: "NewLocalSigner ?C (files_of (ps_disk s')) A (initiator_algorithm fl)
        \<lparr>lo_KeyPath = initiator_key_path fl, lo_Encrypted = nf_encrypt fl, lo_Password = pw\<rparr> = Ret (Inr signer)"
      "LocalSigner_PublicKey ?C signer = Inr (PublicKeyHex kd)" "PublicKeyHex kd \<noteq> []" "LocalSigner_Algorithm signer = initiator_algorithm fl"
    by blast
  from local_signer_loads [OF assms(3) sg(1-3)] sg json show ?thesis by metis
qed

definition machine_ref :: machine where
  "machine_ref = \<lparr>mc_ed25519 = Inr (replicate 32 CHR ''a'', replicate 64 CHR ''a''), mc_p256 = Inl (errorf ''no P-256''),
     mc_user = Inr ''root'', mc_hostname = Inl (errorf ''no name''), mc_GOOS = ''linux'', mc_now = ''2024-01-02T03:04:05Z''\<rparr>"

lemma machine_ref_ok: "machine_ok crypto_ref machine_ref"
proof -
  have "cr_NewKeyFromSeed crypto_ref (replicate 32 CHR ''a'') = replicate 64 CHR ''a''"
    "cr_PublicKey crypto_ref (replicate 64 CHR ''a'') = replicate 32 CHR ''a''"
    by (simp_all add: crypto_ref_def flip: replicate_add)
  then show ?thesis
    unfolding machine_ok_def by (auto simp: machine_ref_def ed25519_SeedSize_def intro!: exI [of _ "replicate 32 CHR ''a''"])
qed

definition initiator_flags_ref :: initiator_flags where
  "initiator_flags_ref = \<lparr>nf_node = ''event_initiator'', nf_dir = ''.'', nf_encrypt = False, nf_overwrite = False, nf_algorithm = []\<rparr>"

lemma initiator_flags_fields: "nf_encrypt initiator_flags_ref = False" "nf_node initiator_flags_ref = ''event_initiator''"
  by (simp_all add: initiator_flags_ref_def)

definition initiator_written_ref :: proc where
  "initiator_written_ref = snd (run_state (runGenerateInitiatorIdentity cmd_ref machine_ref initiator_flags_ref) (proc_ref peers_disk_ref))"

lemma initiator_generated_ref:
  "fst (run_state (runGenerateInitiatorIdentity cmd_ref machine_ref initiator_flags_ref) (proc_ref peers_disk_ref)) = None"
proof -
  obtain bs where bs: "dk_files peers_disk_ref = [(''peers.json'', bs)]" using peers_disk_ref_files by blast
  have "filepath_Join ''.'' ''event_initiator.identity.json'' = ''event_initiator.identity.json''"
    "filepath_Join ''.'' ''event_initiator.key'' = ''event_initiator.key''" by code_simp+
  then show ?thesis
    using bs by (simp add: runGenerateInitiatorIdentity_def initiator_flags_ref_def Let_def cmd_ref_fields disk_good_def disk_defs
        proc_ref_def initiator_keys_def GenerateEd25519Keys_def machine_ref_def write_initiator_def save_initiator_key_def)
qed

theorem generated_initiator_key_works_witness:
  "\<exists>(identity :: InitiatorIdentity) signer key. NewLocalSigner crypto_ref (files_of (ps_disk initiator_written_ref)) age_dec_ref (ii_Algorithm identity)
       \<lparr>lo_KeyPath = initiator_key_path initiator_flags_ref, lo_Encrypted = False, lo_Password = []\<rparr> = Ret (Inr signer)
     \<and> loadInitiatorKeys crypto_ref (ii_Algorithm identity) (ii_PublicKey identity) = Inr key
     \<and> signer_matches crypto_ref (local_Signer crypto_ref signer) key"
proof -
  have run: "run_state (runGenerateInitiatorIdentity cmd_ref machine_ref initiator_flags_ref) (proc_ref peers_disk_ref)
      = (None, initiator_written_ref)"
    using initiator_generated_ref by (simp add: initiator_written_ref_def prod_eq_iff)
  have "CHR ''/'' \<notin> set (nf_node initiator_flags_ref)" by code_simp
  from generated_initiator_key_works [OF run this, unfolded cmd_ref_fields initiator_flags_fields,
      OF crypto_ref_ok machine_ref_ok age_ref_ok, of "[]"]
  show ?thesis by blast
qed

section \<open>Tools that fail half way\<close>

text \<open>
  A refused key generation can leave an identity that nobody can use. When the private key file of a node exists
  and its identity file does not, \<^verbatim>\<open>identity generate\<close> without \<^verbatim>\<open>--overwrite\<close> refuses to touch the key file, but it has by
  then written an identity file with the public half of a new key pair: the key file keeps the old private key, the new
  private key is lost, and the next run stops at the identity file.
\<close>

lemma refused_identity_left_behind:
  assumes "node_name_ok n" and "dir \<noteq> []" and "\<forall>k. de_fault D k = None"
    and "gm_get (dk_files d) (identity_path dir n) = None" and "gm_get (dk_files d) (private_key_path dir n e) = Some f"
  shows "\<exists>err d'. run_state (generateNodeIdentity D A (Inr (pub, priv)) now n i dir e pw False) d = (Some err, d')
    \<and> gm_get (dk_files d') (private_key_path dir n e) = Some f
    \<and> gm_get (dk_files d') (identity_path dir n) = Some (json_MarshalIndent (Identity_members
          \<lparr>id_NodeName = n, id_NodeID = i, id_PublicKey = hex_EncodeToString pub, id_CreatedAt = now\<rparr>))
    \<and> (\<exists>err'. fst (run_state (generateNodeIdentity D A keys now' n i dir e pw' False) d') = Some err')"
proof -
  have ne: "private_key_path dir n e \<noteq> identity_path dir n"
    using node_paths(4) [OF assms(1,2), of "''/''" e] by simp
  let ?j = "identity_path dir n" and ?k = "private_key_path dir n e"
  let ?json = "json_MarshalIndent (Identity_members \<lparr>id_NodeName = n, id_NodeID = i, id_PublicKey = hex_EncodeToString pub, id_CreatedAt = now\<rparr>)"
  let ?d = "\<lparr>dk_files = gm_put ?j ?json (dk_files d), dk_ops = dk_ops d + 3\<rparr>"
  have "\<exists>err. run_state (generateNodeIdentity D A (Inr (pub, priv)) now n i dir e pw False) d = (Some err, ?d)"
    using assms(3-5) ne
    by (cases e) (auto simp: generateNodeIdentity_def Let_def disk_defs gm_simps identity_path_def private_key_path_def eval_nat_numeral
        split: option.splits)
  moreover have "gm_get (dk_files ?d) ?k = Some f" "gm_get (dk_files ?d) ?j = Some ?json"
    using assms(5) ne by (simp_all add: gm_simps)
  moreover have "\<exists>err'. fst (run_state (generateNodeIdentity D A keys now' n i dir e pw' False) ?d) = Some err'"
    using assms(3) by (auto simp: generateNodeIdentity_def Let_def disk_defs gm_simps identity_path_def split: sum.splits option.splits)
  ultimately show ?thesis by blast
qed

lemma refused_identity_left_behind_example:
  "gm_get (dk_files (snd (run_state (generateNodeIdentity disk_good age_enc_ref (Inr (''new'', ''lost'')) ''now'' ''node1'' ''uuid-1''
      ''identity'' False [] False) \<lparr>dk_files = [(''identity/node1_private.key'', ''old'')], dk_ops = 0\<rparr>)))
    ''identity/node1_private.key'' = Some ''old''"
proof -
  have ok: "node_name_ok ''node1''" and paths: "identity_path ''identity'' ''node1'' = ''identity/node1_identity.json''"
    "private_key_path ''identity'' ''node1'' False = ''identity/node1_private.key''" by code_simp+
  let ?d = "\<lparr>dk_files = [(''identity/node1_private.key'', ''old'')], dk_ops = 0\<rparr>"
  have "\<forall>k. de_fault disk_good k = None" "''identity'' \<noteq> []" by (simp_all add: disk_good_def)
  moreover have "gm_get (dk_files ?d) (identity_path ''identity'' ''node1'') = None"
    "gm_get (dk_files ?d) (private_key_path ''identity'' ''node1'' False) = Some ''old''" unfolding paths by simp_all
  ultimately show ?thesis
    using refused_identity_left_behind [OF ok, of "''identity''" disk_good ?d False "''old''" age_enc_ref
        "''new''" "''lost''" "''now''" "''uuid-1''" "[]"]
    unfolding paths by (metis snd_conv)
qed

end
