(* ===== verification/Benchmark.thy ===== *)
theory Benchmark
  imports Cli_Keys Client
begin

text \<open>
  The benchmark commands, \<^verbatim>\<open>cmd/cli/benchmark\<close>: the client they make, the names of the requests, the loop that sends them while a
  listener collects the answers, and the summary. The loop and the listener share the list of results and a wait group;
  their interleavings are the relation \<open>bench_step\<close>. Numbers of type \<^verbatim>\<open>float64\<close> occur only in the report: their operations and the
  formats \<^verbatim>\<open>%.2f\<close> and \<^verbatim>\<open>%v\<close> are parameters. The three commands differ in the request and in how an answer is
  matched with a result.
\<close>

section \<open>The client and the names\<close>

record bench_flags =
  bf_keyPath :: string
  bf_promptPassword :: bool
  bf_outputFile :: string

definition createMPCClient :: "'s cmd_env \<Rightarrow> bench_flags \<Rightarrow> (go_error + initiator) go_res pio" where
  "createMPCClient W fl = do {
     loaded \<leftarrow> on_app (Load (ce_viper W));
     (case loaded of
        Inl err \<Rightarrow> State_Monad.return (Ret (Inl (wrapf ''load config'' err)))
      | Inr cfg \<Rightarrow>
          go_bind (ask (GetNATSConnection (ce_Connect W))) (\<lambda>conn.
          case conn of
            Inl err \<Rightarrow> State_Monad.return (Ret (Inl (wrapf ''failed to connect to NATS'' err)))
          | Inr natsConn \<Rightarrow> do {
              pw \<leftarrow> (if bf_promptPassword fl then PromptPassword W else State_Monad.return (Inr []));
              (case pw of
                 Inl err \<Rightarrow> State_Monad.return (Ret (Inl (wrapf ''failed to get password'' err)))
               | Inr password \<Rightarrow> do {
                   d \<leftarrow> State (\<lambda>s. (ps_disk s, s));
                   (case NewLocalSigner (ce_crypto W) (files_of d) (ce_age W) EventInitiatorKeyTypeEd25519
                      \<lparr>lo_KeyPath = bf_keyPath fl, lo_Encrypted = False, lo_Password = password\<rparr> of
                      Panic \<Rightarrow> State_Monad.return Panic
                    | Ret (Inl err) \<Rightarrow> State_Monad.return (Ret (Inl (wrapf ''failed to create signer'' err)))
                    | Ret (Inr signer) \<Rightarrow> do {
                        c \<leftarrow> on_nats (NewMPCClient (ce_nats W) (Some (local_Signer (ce_crypto W) signer)));
                        State_Monad.return (case c of None \<Rightarrow> Panic | Some client \<Rightarrow> Ret (Inr client)) }) }) })) }"

text \<open>The clock, the process and the random bytes are arguments.\<close>

definition generateUniqueID :: "go_error + bytes \<Rightarrow> int \<Rightarrow> int \<Rightarrow> string \<Rightarrow> string" where
  "generateUniqueID rand nanos pid pre =
     (case rand of
        Inl err \<Rightarrow> pre @ ''-'' @ itoa nanos @ ''-'' @ itoa pid
      | Inr randomBytes \<Rightarrow> pre @ ''-'' @ itoa nanos @ ''-'' @ itoa pid @ ''-'' @ hex_EncodeToString randomBytes)"

section \<open>The summary\<close>

text \<open>Times are nanoseconds since 1970; the zero time, the year 1, is \<open>None\<close>.\<close>

record OperationResult =
  or_ID :: string
  or_StartTime :: "int option"
  or_EndTime :: "int option"
  or_Completed :: bool
  or_ErrorCode :: string
  or_ErrorReason :: string

record 'f BenchmarkResult =
  br_TotalOperations :: int
  br_SuccessfulOps :: int
  br_FailedOps :: int
  br_TotalTime :: int
  br_AverageTime :: int
  br_MedianTime :: int
  br_OperationTimes :: "int list"
  br_ErrorRate :: 'f
  br_OperationsPerMin :: 'f
  br_BatchSize :: int
  br_TotalBatches :: int
  br_BatchTimes :: "int list"

record 'f float64 =
  fl_of_int :: "int \<Rightarrow> 'f"
  fl_div :: "'f \<Rightarrow> 'f \<Rightarrow> 'f"
  fl_mul :: "'f \<Rightarrow> 'f \<Rightarrow> 'f"
  fl_sub :: "'f \<Rightarrow> 'f \<Rightarrow> 'f"
  fl_Minutes :: "int \<Rightarrow> 'f"
  fl_fixed2 :: "'f \<Rightarrow> string"
  fl_Duration :: "int \<Rightarrow> string"

text \<open>\<^verbatim>\<open>Time.Sub\<close> saturates; the quotient of integers is rounded towards zero.\<close>

definition time_nanos :: "int option \<Rightarrow> int" where
  "time_nanos t = (case t of None \<Rightarrow> - 62135596800 * 10 ^ 9 | Some x \<Rightarrow> x)"

definition time_Sub :: "int option \<Rightarrow> int option \<Rightarrow> int" where
  "time_Sub t u = max (- (2 ^ 63)) (min (2 ^ 63 - 1) (time_nanos t - time_nanos u))"

definition int_quot :: "int \<Rightarrow> int \<Rightarrow> int" where
  "int_quot a b = wrap64 (sgn a * sgn b * (\<bar>a\<bar> div \<bar>b\<bar>))"

definition op_successful :: "OperationResult \<Rightarrow> bool" where
  "op_successful r \<longleftrightarrow> or_Completed r \<and> or_ErrorCode r = []"

fun tally :: "OperationResult list \<Rightarrow> int list \<Rightarrow> int \<Rightarrow> int \<Rightarrow> int list \<times> int \<times> int" where
  "tally [] ts ok failed = (ts, ok, failed)"
| "tally (r # rs) ts ok failed =
     (if or_Completed r then
        if or_ErrorCode r = [] then
          tally rs (if or_EndTime r \<noteq> None then ts @ [time_Sub (or_EndTime r) (or_StartTime r)] else ts) (inc64 ok) failed
        else tally rs ts ok (inc64 failed)
      else tally rs ts ok (inc64 failed))"

definition median_of :: "int list \<Rightarrow> int" where
  "median_of ts =
     (if length ts mod 2 = 0 then int_quot (wrap64 (ts ! (length ts div 2 - 1) + ts ! (length ts div 2))) 2
      else ts ! (length ts div 2))"

definition calculateBenchmarkResult ::
  "'f float64 \<Rightarrow> OperationResult list \<Rightarrow> int \<Rightarrow> int \<Rightarrow> int list \<Rightarrow> 'f BenchmarkResult" where
  "calculateBenchmarkResult fl results totalTime batchSize batchTimes =
     (let (operationTimes, successfulOps, failedOps) = tally results [] 0 0;
          totalOperations = int (length results);
          errorRate = fl_mul fl (fl_div fl (fl_of_int fl failedOps) (fl_of_int fl totalOperations)) (fl_of_int fl 100);
          totalOpTime = fold (\<lambda>opTime total. wrap64 (total + opTime)) operationTimes 0;
          sortedTimes = sort operationTimes;
          some = operationTimes \<noteq> []
      in \<lparr>br_TotalOperations = totalOperations, br_SuccessfulOps = successfulOps, br_FailedOps = failedOps, br_TotalTime = totalTime,
          br_AverageTime = (if some then int_quot totalOpTime (int (length operationTimes)) else 0),
          br_MedianTime = (if some then median_of sortedTimes else 0),
          br_OperationTimes = sortedTimes, br_ErrorRate = errorRate,
          br_OperationsPerMin = (if some then fl_div fl (fl_of_int fl successfulOps) (fl_Minutes fl totalTime) else fl_of_int fl 0),
          br_BatchSize = batchSize, br_TotalBatches = int (length batchTimes), br_BatchTimes = batchTimes\<rparr>)"

section \<open>The report\<close>

text \<open>The lines on the first requests: slicing with a negative bound panics.\<close>

fun min_max :: "int list \<Rightarrow> int \<Rightarrow> int \<Rightarrow> int \<times> int" where
  "min_max [] lo hi = (lo, hi)"
| "min_max (t # ts) lo hi = min_max ts (if t < lo then t else lo) (if t > hi then t else hi)"

definition newline :: string where "newline = [CHR 0x0A]"

definition request_analysis :: "'f float64 \<Rightarrow> 'f BenchmarkResult \<Rightarrow> string go_res" where
  "request_analysis fl result =
     (if br_BatchSize result \<le> int (length (br_OperationTimes result)) then
        if br_BatchSize result < 0 then Panic
        else
          let firstNResults = take (nat (br_BatchSize result)) (br_OperationTimes result);
              completedCount = min (int (length firstNResults)) (br_BatchSize result);
              n = itoa (br_BatchSize result)
          in Ret (''Completed from first '' @ n @ '': '' @ itoa completedCount @ ''/'' @ n @ newline @
               (case firstNResults of
                  [] \<Rightarrow> []
                | t # _ \<Rightarrow>
                    let (minTime, maxTime) = min_max firstNResults t t
                    in ''Fastest (first '' @ n @ ''): '' @ fl_Duration fl minTime @ newline @
                       ''Slowest (first '' @ n @ ''): '' @ fl_Duration fl maxTime @ newline))
      else Ret [])"

text \<open>\<open>upper\<close> is \<^verbatim>\<open>strings.ToUpper\<close>, \<open>stamp\<close> the time in RFC 3339.\<close>

definition generateBenchmarkReport :: "'f float64 \<Rightarrow> (string \<Rightarrow> string) \<Rightarrow> string \<Rightarrow> string \<Rightarrow> 'f BenchmarkResult \<Rightarrow> string go_res" where
  "generateBenchmarkReport fl upper stamp operationType result =
     (case request_analysis fl result of
        Panic \<Rightarrow> Panic
      | Ret analysis \<Rightarrow> Ret (
          newline @ ''==============================='' @ newline
          @ upper operationType @ '' BENCHMARK RESULTS SUMMARY'' @ newline
          @ ''==============================='' @ newline
          @ ''Timestamp: '' @ stamp @ newline
          @ ''Operation Type: '' @ operationType @ newline
          @ ''Total benchmark time: '' @ fl_Duration fl (br_TotalTime result) @ newline
          @ ''Total batches sent: '' @ itoa (br_TotalBatches result) @ newline
          @ ''Total requests sent: '' @ itoa (br_TotalOperations result) @ newline
          @ ''Successful completions: '' @ itoa (br_SuccessfulOps result) @ newline
          @ ''Failed operations: '' @ itoa (br_FailedOps result) @ newline
          @ ''Success rate: '' @ fl_fixed2 fl (fl_sub fl (fl_of_int fl 100) (br_ErrorRate result)) @ ''%'' @ newline
          @ ''Error rate: '' @ fl_fixed2 fl (br_ErrorRate result) @ ''%'' @ newline
          @ ''Average operations per minute: '' @ fl_fixed2 fl (br_OperationsPerMin result) @ newline
          @ (if br_OperationTimes result \<noteq> []
             then ''Average operation time: '' @ fl_Duration fl (br_AverageTime result) @ newline
                  @ ''Median operation time: '' @ fl_Duration fl (br_MedianTime result) @ newline
             else [])
          @ newline @ ''------------------------------'' @ newline
          @ itoa (br_BatchSize result) @ '' REQUEST ANALYSIS'' @ newline
          @ ''------------------------------'' @ newline
          @ analysis @ newline))"

text \<open>Opening a file for appending keeps what it holds.\<close>

definition os_OpenAppend :: "disk_env \<Rightarrow> string \<Rightarrow> go_error option dio" where
  "os_OpenAppend D path = State (\<lambda>d.
     case de_fault D (dk_ops d) of
       Some e \<Rightarrow> (Some e, tick d)
     | None \<Rightarrow> (None, put_file path (file_content d path) (tick d)))"

definition separator :: string where
  "separator = newline @ replicate 80 CHR ''='' @ newline @ newline"

definition writeBenchmarkToFile :: "disk_env \<Rightarrow> string \<Rightarrow> string \<Rightarrow> go_error option dio" where
  "writeBenchmarkToFile D content outputFile = do {
     let dir = filepath_Dir outputFile;
     e1 \<leftarrow> os_MkdirAll D dir;
     (case e1 of
        Some err \<Rightarrow> State_Monad.return (Some (wrapf (''failed to create directory '' @ dir) err))
      | None \<Rightarrow> do {
          e2 \<leftarrow> os_OpenAppend D outputFile;
          (case e2 of
             Some err \<Rightarrow> State_Monad.return (Some (wrapf ''failed to open file'' err))
           | None \<Rightarrow> do {
               e3 \<leftarrow> file_Write D outputFile content;
               (case e3 of
                  Some err \<Rightarrow> State_Monad.return (Some (wrapf ''failed to write content'' err))
                | None \<Rightarrow> do {
                    e4 \<leftarrow> file_Write D outputFile separator;
                    State_Monad.return (map_option (wrapf ''failed to write separator'') e4) }) }) }) }"

definition printBenchmarkResult ::
  "disk_env \<Rightarrow> 'f float64 \<Rightarrow> (string \<Rightarrow> string) \<Rightarrow> string \<Rightarrow> bench_flags \<Rightarrow> string \<Rightarrow> 'f BenchmarkResult \<Rightarrow> go_error option go_res dio" where
  "printBenchmarkResult D fl upper stamp flags operationType result =
     (case generateBenchmarkReport fl upper stamp operationType result of
        Panic \<Rightarrow> State_Monad.return Panic
      | Ret reportContent \<Rightarrow>
          if bf_outputFile flags \<noteq> [] then do {
            err \<leftarrow> writeBenchmarkToFile D reportContent (bf_outputFile flags);
            State_Monad.return (Ret (map_option (wrapf (''failed to write to file '' @ bf_outputFile flags)) err)) }
          else State_Monad.return (Ret None))"

section \<open>The loop and the listener\<close>

text \<open>
  Where the loop of a command is: before its \<open>i\<close>th operation, between the append and \<^verbatim>\<open>wg.Add\<close>, in the request, after a failed
  one, between the note of the failure and \<^verbatim>\<open>wg.Done\<close>, waiting, or past the wait, which a timeout may have ended.
\<close>

datatype bench_pc = Bp_next nat | Bp_add nat | Bp_send nat | Bp_fail nat go_error | Bp_done nat | Bp_wait | Bp_over bool

record bench_state =
  bs_results :: "OperationResult list"
  bs_wg :: int
  bs_crashed :: bool
  bs_pc :: bench_pc

definition bench_init :: bench_state where
  "bench_init = \<lparr>bs_results = [], bs_wg = 0, bs_crashed = False, bs_pc = Bp_next 0\<rparr>"

definition new_operation :: "string \<Rightarrow> int \<Rightarrow> OperationResult" where
  "new_operation ident now =
     \<lparr>or_ID = ident, or_StartTime = Some now, or_EndTime = None, or_Completed = False, or_ErrorCode = [], or_ErrorReason = []\<rparr>"

definition complete :: "int \<Rightarrow> string \<Rightarrow> string \<Rightarrow> OperationResult \<Rightarrow> OperationResult" where
  "complete now errCode reason r = r\<lparr>or_EndTime := Some now, or_Completed := True, or_ErrorCode := errCode, or_ErrorReason := reason\<rparr>"

text \<open>The listener completes the first pending operation that the answer matches.\<close>

fun complete_first :: "(string \<Rightarrow> bool) \<Rightarrow> int \<Rightarrow> string \<Rightarrow> string \<Rightarrow> OperationResult list \<Rightarrow> OperationResult list option" where
  "complete_first mt now errCode reason [] = None"
| "complete_first mt now errCode reason (r # rs) =
     (if mt (or_ID r) \<and> \<not> or_Completed r then Some (complete now errCode reason r # rs)
      else map_option ((#) r) (complete_first mt now errCode reason rs))"

text \<open>How the three commands match an answer with the ID of a result.\<close>

definition match_keygen :: "KeygenResponse \<Rightarrow> string \<Rightarrow> bool" where
  "match_keygen response ident \<longleftrightarrow> ident = kr_WalletID response"

definition match_signing :: "SigningResponse \<Rightarrow> string \<Rightarrow> bool" where
  "match_signing response ident \<longleftrightarrow> ident = sr_TxID response"

definition match_resharing :: "ResharingResponse \<Rightarrow> string \<Rightarrow> bool" where
  "match_resharing result ident \<longleftrightarrow> strings_HasPrefix ident (rr_WalletID result)"

text \<open>\<^verbatim>\<open>wg.Done\<close>: a counter below zero panics.\<close>

definition wg_Done :: "bench_state \<Rightarrow> bench_state" where
  "wg_Done s = s\<lparr>bs_wg := bs_wg s - 1, bs_crashed := (bs_crashed s \<or> bs_wg s < 1)\<rparr>"

inductive bench_step :: "nat \<Rightarrow> bench_state \<Rightarrow> bench_state \<Rightarrow> bool" for n :: nat where
  append: "\<not> bs_crashed s \<Longrightarrow> bs_pc s = Bp_next i \<Longrightarrow> i < n \<Longrightarrow>
    bench_step n s (s\<lparr>bs_results := bs_results s @ [new_operation ident now], bs_pc := Bp_add i\<rparr>)"
| all_sent: "\<not> bs_crashed s \<Longrightarrow> bs_pc s = Bp_next i \<Longrightarrow> n \<le> i \<Longrightarrow> bench_step n s (s\<lparr>bs_pc := Bp_wait\<rparr>)"
| add: "\<not> bs_crashed s \<Longrightarrow> bs_pc s = Bp_add i \<Longrightarrow> bench_step n s (s\<lparr>bs_wg := bs_wg s + 1, bs_pc := Bp_send i\<rparr>)"
| sent: "\<not> bs_crashed s \<Longrightarrow> bs_pc s = Bp_send i \<Longrightarrow> bench_step n s (s\<lparr>bs_pc := Bp_next (Suc i)\<rparr>)"
| not_sent: "\<not> bs_crashed s \<Longrightarrow> bs_pc s = Bp_send i \<Longrightarrow> bench_step n s (s\<lparr>bs_pc := Bp_fail i err\<rparr>)"
| note_failure: "\<not> bs_crashed s \<Longrightarrow> bs_pc s = Bp_fail i err \<Longrightarrow>
    bench_step n s (s\<lparr>bs_results := (bs_results s)[i := complete now (GetErrorCodeFromError (Some err)) (err_msg err) (bs_results s ! i)],
      bs_pc := Bp_done i\<rparr>)"
| failed_done: "\<not> bs_crashed s \<Longrightarrow> bs_pc s = Bp_done i \<Longrightarrow> bench_step n s ((wg_Done s)\<lparr>bs_pc := Bp_next (Suc i)\<rparr>)"
| answer: "\<not> bs_crashed s \<Longrightarrow> (\<And>b. bs_pc s \<noteq> Bp_over b) \<Longrightarrow> complete_first mt now errCode reason (bs_results s) = Some rs \<Longrightarrow>
    bench_step n s (wg_Done (s\<lparr>bs_results := rs\<rparr>))"
| all_done: "\<not> bs_crashed s \<Longrightarrow> bs_pc s = Bp_wait \<Longrightarrow> bs_wg s = 0 \<Longrightarrow> bench_step n s (s\<lparr>bs_pc := Bp_over False\<rparr>)"
| timeout: "\<not> bs_crashed s \<Longrightarrow> bs_pc s = Bp_wait \<Longrightarrow> bench_step n s (s\<lparr>bs_pc := Bp_over True\<rparr>)"

section \<open>What the summary says\<close>

definition op_time :: "OperationResult \<Rightarrow> int" where
  "op_time r = time_Sub (or_EndTime r) (or_StartTime r)"

definition timed :: "OperationResult \<Rightarrow> bool" where
  "timed r \<longleftrightarrow> op_successful r \<and> or_EndTime r \<noteq> None"

lemma tally_counts:
  assumes "0 \<le> ok" and "0 \<le> failed" and "ok + failed + int (length rs) < 2 ^ 63"
  shows "tally rs ts ok failed = (ts @ map op_time (filter timed rs), ok + int (length (filter op_successful rs)),
     failed + int (length (filter (\<lambda>r. \<not> op_successful r) rs)))"
  using assms
proof (induction rs arbitrary: ts ok failed)
  case (Cons r rs)
  have "inc64 ok = ok + 1" "inc64 failed = failed + 1" using Cons.prems by (auto intro!: wrap64_id simp: in_int64_def)
  then show ?case
    using Cons.prems by (auto simp: Cons.IH op_successful_def timed_def op_time_def simp del: fun_upd_apply)
qed simp

lemma total_exact:
  assumes "\<And>t. t \<in> set ts \<Longrightarrow> 0 \<le> t" and "0 \<le> a" and "a + sum_list ts < 2 ^ 63"
  shows "fold (\<lambda>t total. wrap64 (total + t)) ts a = a + sum_list ts"
  using assms
proof (induction ts arbitrary: a)
  case (Cons t ts)
  have "0 \<le> sum_list ts" using Cons.prems(1) by (intro sum_list_nonneg) auto
  moreover have "0 \<le> t" using Cons.prems(1) by simp
  ultimately have "wrap64 (a + t) = a + t" using Cons.prems(2,3) by (intro wrap64_id) (simp add: in_int64_def)
  then show ?case using Cons.IH [of "a + t"] Cons.prems \<open>0 \<le> t\<close> by (simp add: algebra_simps)
qed simp

lemma int_quot_pos: "0 \<le> a \<Longrightarrow> 0 < b \<Longrightarrow> a < 2 ^ 63 \<Longrightarrow> int_quot a b = a div b"
proof -
  assume a: "0 \<le> a" "0 < b" "a < 2 ^ 63"
  then have "0 \<le> a div b" "a div b \<le> a" using zdiv_mono2 [of a 1 b] by (simp_all add: pos_imp_zdiv_nonneg_iff)
  with a show ?thesis by (cases "a = 0") (auto simp: int_quot_def intro!: wrap64_id simp: in_int64_def)
qed

lemma two_le_sum:
  fixes ts :: "int list"
  assumes "\<And>t. t \<in> set ts \<Longrightarrow> 0 \<le> t" and "j < k" and "k < length ts"
  shows "ts ! j + ts ! k \<le> sum_list ts"
proof -
  have "(\<Sum>i\<in>{j, k}. ts ! i) \<le> (\<Sum>i\<in>{0..<length ts}. ts ! i)" using assms by (intro sum_mono2) auto
  then show ?thesis using assms(2) by (simp add: sum_list_sum_nth)
qed

text \<open>In a sorted list the median splits it: what stands in the first half is not above it, what stands in the second not below.\<close>

lemma median_splits:
  assumes "sorted ts" and "\<And>t. t \<in> set ts \<Longrightarrow> 0 \<le> t" and "sum_list ts < 2 ^ 63" and "i < length ts"
  shows "(2 * i < length ts \<longrightarrow> ts ! i \<le> median_of ts) \<and> (length ts \<le> 2 * i + 1 \<longrightarrow> median_of ts \<le> ts ! i)"
proof -
  define h where "h = length ts div 2"
  have le: "ts ! j \<le> ts ! k" if "j \<le> k" "k < length ts" for j k using sorted_nth_mono [OF assms(1) that] .
  show ?thesis
  proof (cases "even (length ts)")
    case True
    then have len: "length ts = 2 * h" and h: "h - 1 < h" "h < length ts" using assms(4) by (auto simp: h_def elim!: evenE)
    let ?a = "ts ! (h - 1)" and ?b = "ts ! h"
    have ab: "0 \<le> ?a" "?a \<le> ?b" using assms(2) h le by auto
    have "?a + ?b \<le> sum_list ts" using two_le_sum [of ts "h - 1" h] assms(2) h len by simp
    then have sum: "wrap64 (?a + ?b) = ?a + ?b" using ab assms(3) by (intro wrap64_id) (simp add: in_int64_def)
    have "median_of ts = (?a + ?b) div 2"
      using True ab assms(3) \<open>?a + ?b \<le> sum_list ts\<close> by (simp add: median_of_def sum [unfolded One_nat_def] int_quot_pos flip: h_def)
    then have "?a \<le> median_of ts" "median_of ts \<le> ?b" using ab by simp_all
    moreover have "ts ! i \<le> ?a" if "2 * i < length ts" using le [of i "h - 1"] that len h by simp
    moreover have "?b \<le> ts ! i" if "length ts \<le> 2 * i + 1" using le [of h i] that len assms(4) by simp
    ultimately show ?thesis by (meson order_trans)
  next
    case False
    then have "median_of ts = ts ! h" "length ts = 2 * h + 1" by (auto simp: median_of_def h_def elim!: oddE)
    then show ?thesis using le [of i h] le [of h i] assms(4) by auto
  qed
qed

lemma op_time_range: "- (2 ^ 63) \<le> op_time r" "op_time r < 2 ^ 63"
  by (auto simp: op_time_def time_Sub_def)

text \<open>
  The summary of a benchmark counts every operation once and its times are right. Operations that did not complete
  or completed with an error code are failures, the others successes; the times are those of the successes, sorted. When
  the clock did not run backwards and the times together fit the type, the average is their sum divided by their number, rounded down,
  and the median splits the sorted times.
\<close>

lemma benchmark_summary:
  assumes "int (length results) < 2 ^ 63" and "b = calculateBenchmarkResult fl results totalTime batchSize batchTimes"
    and "ts = map op_time (filter timed results)"
  shows "br_TotalOperations b = int (length results) \<and> br_TotalOperations b = br_SuccessfulOps b + br_FailedOps b
    \<and> br_SuccessfulOps b = int (length (filter op_successful results))
    \<and> sorted (br_OperationTimes b) \<and> mset (br_OperationTimes b) = mset ts
    \<and> ((\<forall>t \<in> set ts. 0 \<le> t) \<and> sum_list ts < 2 ^ 63 \<and> ts \<noteq> [] \<longrightarrow>
         br_AverageTime b = sum_list ts div int (length ts)
         \<and> (\<forall>i < length ts. (2 * i < length ts \<longrightarrow> br_OperationTimes b ! i \<le> br_MedianTime b)
              \<and> (length ts \<le> 2 * i + 1 \<longrightarrow> br_MedianTime b \<le> br_OperationTimes b ! i)))"
proof -
  have t: "tally results [] 0 0 = (ts, int (length (filter op_successful results)), int (length (filter (\<lambda>r. \<not> op_successful r) results)))"
    using tally_counts [of 0 0 results "[]"] assms(1) by (simp add: assms(3))
  have b: "br_TotalOperations b = int (length results)" "br_SuccessfulOps b = int (length (filter op_successful results))"
    "br_FailedOps b = int (length (filter (\<lambda>r. \<not> op_successful r) results))" "br_OperationTimes b = sort ts"
    "ts \<noteq> [] \<Longrightarrow> br_AverageTime b = int_quot (fold (\<lambda>opTime total. wrap64 (total + opTime)) ts 0) (int (length ts))"
    "ts \<noteq> [] \<Longrightarrow> br_MedianTime b = median_of (sort ts)"
    by (simp_all add: assms(2) calculateBenchmarkResult_def t Let_def)
  have "int (length results) = br_SuccessfulOps b + br_FailedOps b"
    using sum_length_filter_compl [of op_successful results] by (simp add: b flip: of_nat_add)
  moreover have "br_AverageTime b = sum_list ts div int (length ts)"
    if "\<forall>t \<in> set ts. 0 \<le> t" "sum_list ts < 2 ^ 63" "ts \<noteq> []"
    using total_exact [of ts 0] that b(5) by (simp add: int_quot_pos sum_list_nonneg)
  moreover have "sum_list (sort ts) = sum_list ts" by (metis mset_sort sum_mset_sum_list)
  ultimately show ?thesis using b median_splits [of "sort ts"] by simp
qed

definition float_ref :: "int float64" where
  "float_ref = \<lparr>fl_of_int = \<lambda>i. i, fl_div = \<lambda>a b. a div b, fl_mul = \<lambda>a b. a * b, fl_sub = \<lambda>a b. a - b, fl_Minutes = \<lambda>t. t,
     fl_fixed2 = itoa, fl_Duration = itoa\<rparr>"

definition results_ref :: "OperationResult list" where
  "results_ref = [complete 30 [] [] (new_operation ''a'' 10), complete 90 [] [] (new_operation ''b'' 20),
     complete 95 ''ERROR'' ''r'' (new_operation ''c'' 30), new_operation ''d'' 40]"

lemma benchmark_summary_example:
  "\<exists>b. b = calculateBenchmarkResult float_ref results_ref 100 10 [] \<and> br_AverageTime b = 45 \<and> br_SuccessfulOps b = 2 \<and> br_TotalOperations b = 4"
proof -
  have ts: "map op_time (filter timed results_ref) = [20, 70]" "int (length results_ref) < 2 ^ 63" "length (filter op_successful results_ref) = 2" by code_simp+
  from benchmark_summary [OF ts(2) refl ts(1) [symmetric], of float_ref 100 10 "[]"] ts(3) show ?thesis
    by (simp add: results_ref_def)
qed

section \<open>The wait\<close>

definition pending :: "OperationResult list \<Rightarrow> nat" where
  "pending rs = length (filter (\<lambda>r. \<not> or_Completed r) rs)"

lemma pending_append [simp]: "pending (rs @ [r]) = pending rs + (if or_Completed r then 0 else 1)"
  by (simp add: pending_def)

lemma pending_mid: "pending (xs @ r # ys) = pending xs + (if or_Completed r then 0 else 1) + pending ys"
  by (simp add: pending_def)

lemma pending_pos: "i < length rs \<Longrightarrow> \<not> or_Completed (rs ! i) \<Longrightarrow> 0 < pending rs"
  by (auto simp: pending_def filter_empty_conv intro!: bexI [of _ "rs ! i"])

lemma pending_complete:
  assumes "j < length rs" and "\<not> or_Completed (rs ! j)"
  shows "Suc (pending (rs[j := complete now c e (rs ! j)])) = pending rs"
proof -
  have "pending rs = pending (take j rs @ rs ! j # drop (Suc j) rs)" by (rule arg_cong [OF id_take_nth_drop [OF assms(1)]])
  then show ?thesis using assms by (simp add: upd_conv_take_nth_drop pending_mid complete_def)
qed

lemma complete_first_some:
  assumes "complete_first mt now c e rs = Some rs'"
  shows "\<exists>j < length rs. \<not> or_Completed (rs ! j) \<and> mt (or_ID (rs ! j)) \<and> rs' = rs[j := complete now c e (rs ! j)]"
  using assms
proof (induction rs arbitrary: rs')
  case (Cons r rs)
  show ?case
  proof (cases "mt (or_ID r) \<and> \<not> or_Completed r")
    case True
    then show ?thesis using Cons.prems by (intro exI [of _ 0]) auto
  next
    case False
    then obtain rs1 where "complete_first mt now c e rs = Some rs1" "rs' = r # rs1" using Cons.prems by (auto split: if_splits)
    with Cons.IH show ?thesis by fastforce
  qed
qed simp

text \<open>How many operations have been sent, and how far the wait group is from the number of the pending ones.\<close>

fun sent_upto :: "nat \<Rightarrow> bench_pc \<Rightarrow> nat" where
  "sent_upto n (Bp_next i) = i"
| "sent_upto n (Bp_add i) = i"
| "sent_upto n (Bp_send i) = i"
| "sent_upto n (Bp_fail i e) = i"
| "sent_upto n (Bp_done i) = i"
| "sent_upto n Bp_wait = n"
| "sent_upto n (Bp_over b) = n"

text \<open>
  An answer in good order is one to an operation that has been sent: it does not overtake the call that sends the
  operation. Answers are the steps that do not move the loop.
\<close>

definition orderly :: "nat \<Rightarrow> bench_state \<Rightarrow> bench_state \<Rightarrow> bool" where
  "orderly n s s' \<longleftrightarrow> bs_pc s' = bs_pc s \<longrightarrow> (\<forall>j < length (bs_results s).
     \<not> or_Completed (bs_results s ! j) \<and> or_Completed (bs_results s' ! j) \<longrightarrow> j < sent_upto n (bs_pc s))"

fun pc_inv :: "nat \<Rightarrow> OperationResult list \<Rightarrow> int \<Rightarrow> bench_pc \<Rightarrow> bool" where
  "pc_inv n rs w (Bp_next i) = (length rs = i \<and> i \<le> n \<and> w = int (pending rs))"
| "pc_inv n rs w (Bp_add i) = (length rs = Suc i \<and> i < n \<and> \<not> or_Completed (rs ! i) \<and> w + 1 = int (pending rs))"
| "pc_inv n rs w (Bp_send i) = (length rs = Suc i \<and> i < n \<and> \<not> or_Completed (rs ! i) \<and> w = int (pending rs))"
| "pc_inv n rs w (Bp_fail i e) = (length rs = Suc i \<and> i < n \<and> \<not> or_Completed (rs ! i) \<and> w = int (pending rs))"
| "pc_inv n rs w (Bp_done i) = (length rs = Suc i \<and> i < n \<and> w = int (pending rs) + 1)"
| "pc_inv n rs w Bp_wait = (length rs = n \<and> w = int (pending rs))"
| "pc_inv n rs w (Bp_over b) = (length rs = n \<and> (\<not> b \<longrightarrow> pending rs = 0))"

definition bench_inv :: "nat \<Rightarrow> bench_state \<Rightarrow> bool" where
  "bench_inv n s \<longleftrightarrow> \<not> bs_crashed s \<and> pc_inv n (bs_results s) (bs_wg s) (bs_pc s)"

lemma pc_inv_answer:
  assumes "pc_inv n rs w pc" and "j < length rs" and "\<not> or_Completed (rs ! j)" and "j < sent_upto n pc" and "\<And>b. pc \<noteq> Bp_over b"
  shows "pc_inv n (rs[j := complete now c e (rs ! j)]) (w - 1) pc \<and> 0 < w"
proof (cases "\<exists>i. pc = Bp_add i")
  case True
  then obtain i where pc: "pc = Bp_add i" by blast
  then have "0 < pending (rs[j := complete now c e (rs ! j)])"
    using assms(1,4) pending_pos [of i "rs[j := complete now c e (rs ! j)]"] by simp
  then show ?thesis using assms(1,4) pending_complete [OF assms(2,3), of now c e] by (simp add: pc)
next
  case False
  then show ?thesis using assms pending_complete [OF assms(2,3), of now c e] by (cases pc) auto
qed

lemma bench_inv_answer:
  assumes "bench_inv n s" and "\<And>b. bs_pc s \<noteq> Bp_over b" and "complete_first mt now c e (bs_results s) = Some rs"
    and "orderly n s (wg_Done (s\<lparr>bs_results := rs\<rparr>))"
  shows "bench_inv n (wg_Done (s\<lparr>bs_results := rs\<rparr>))"
proof -
  obtain j where j: "j < length (bs_results s)" "\<not> or_Completed (bs_results s ! j)" "rs = (bs_results s)[j := complete now c e (bs_results s ! j)]"
    using complete_first_some [OF assms(3)] by blast
  have "or_Completed (rs ! j)" using j by (simp add: complete_def)
  with assms(4) j have "j < sent_upto n (bs_pc s)" by (auto simp: orderly_def wg_Done_def)
  from pc_inv_answer [OF _ j(1,2) this assms(2), of "bs_wg s" now c e] show ?thesis
    using assms(1) by (auto simp: bench_inv_def wg_Done_def j(3))
qed

lemma bench_inv_step:
  assumes "bench_step n s s'" and "orderly n s s'" and "bench_inv n s"
  shows "bench_inv n s'"
  using assms(1)
proof cases
  case (answer mt now c e rs)
  then show ?thesis using bench_inv_answer [OF assms(3) answer(3,4)] assms(2) by simp
next
  case (note_failure i err now)
  then show ?thesis using assms(3) pending_complete [of i "bs_results s" now "GetErrorCodeFromError (Some err)" "err_msg err"] by (auto simp: bench_inv_def)
qed (use assms(3) in \<open>auto simp: bench_inv_def wg_Done_def new_operation_def nth_append\<close>)

text \<open>
  A benchmark waits for its operations. When no answer overtakes the call that sends its operation, the wait
  group never goes below zero, and a wait that was not cut off by the timeout ends with every operation completed; then the summary is
  about exactly \<open>n\<close> operations.
\<close>

lemma benchmark_waits_for_all:
  assumes "(\<lambda>s s'. bench_step n s s' \<and> orderly n s s')\<^sup>*\<^sup>* bench_init s"
  shows "\<not> bs_crashed s \<and> (bs_pc s = Bp_over False \<longrightarrow> (\<forall>r \<in> set (bs_results s). or_Completed r))
    \<and> (\<forall>b. bs_pc s = Bp_over b \<longrightarrow> br_TotalOperations (calculateBenchmarkResult fl (bs_results s) t k ts) = int n)"
proof -
  have "bench_inv n s"
    using assms
  proof (induction rule: rtranclp_induct)
    case base
    show ?case by (simp add: bench_inv_def bench_init_def pending_def)
  qed (use bench_inv_step in blast)
  then show ?thesis
    by (auto simp: bench_inv_def pending_def filter_empty_conv calculateBenchmarkResult_def Let_def split: prod.splits)
qed

lemma orderly_run_ref:
  "\<exists>s. (\<lambda>s s'. bench_step 1 s s' \<and> orderly 1 s s')\<^sup>*\<^sup>* bench_init s \<and> bs_pc s = Bp_over False"
proof -
  let ?op = "new_operation ''w'' 0" 
  define R where "R = (\<lambda>s s'. bench_step 1 s s' \<and> orderly 1 s s')"
  define s1 where "s1 = bench_init\<lparr>bs_results := bs_results bench_init @ [?op], bs_pc := Bp_add 0\<rparr>"
  define s2 where "s2 = s1\<lparr>bs_wg := bs_wg s1 + 1, bs_pc := Bp_send 0\<rparr>"
  define s3 where "s3 = s2\<lparr>bs_pc := Bp_next (Suc 0)\<rparr>"
  define s4 where "s4 = wg_Done (s3\<lparr>bs_results := [complete 1 [] [] ?op]\<rparr>)"
  define s5 where "s5 = s4\<lparr>bs_pc := Bp_wait\<rparr>"
  define s6 where "s6 = s5\<lparr>bs_pc := Bp_over False\<rparr>"
  note defs = s1_def s2_def s3_def s4_def s5_def s6_def bench_init_def wg_Done_def
  have "bench_step 1 bench_init s1" unfolding s1_def by (rule bench_step.append) (simp_all add: bench_init_def)
  moreover have "bench_step 1 s1 s2" unfolding s2_def by (rule bench_step.add) (simp_all add: defs)
  moreover have "bench_step 1 s2 s3" unfolding s3_def by (rule bench_step.sent) (simp_all add: defs)
  moreover have "bench_step 1 s3 s4"
    unfolding s4_def by (rule bench_step.answer [where mt = "\<lambda>i. i = ''w''"]) (simp_all add: defs new_operation_def)
  moreover have "bench_step 1 s4 s5" unfolding s5_def by (rule bench_step.all_sent [where i = 1]) (simp_all add: defs)
  moreover have "bench_step 1 s5 s6" unfolding s6_def by (rule bench_step.all_done) (simp_all add: defs)
  moreover have "orderly 1 bench_init s1" "orderly 1 s1 s2" "orderly 1 s2 s3" "orderly 1 s3 s4" "orderly 1 s4 s5" "orderly 1 s5 s6"
    by (simp_all add: orderly_def defs)
  ultimately have "R bench_init s1" "R s1 s2" "R s2 s3" "R s3 s4" "R s4 s5" "R s5 s6" by (simp_all add: R_def)
  then have "R\<^sup>*\<^sup>* bench_init s6" by (meson converse_rtranclp_into_rtranclp rtranclp.rtrancl_refl)
  moreover have "bs_pc s6 = Bp_over False" by (simp add: defs)
  ultimately show ?thesis unfolding R_def by blast
qed

lemma benchmark_waits_for_all_example:
  "\<exists>s :: bench_state. bs_pc s = Bp_over False \<and> (\<forall>r \<in> set (bs_results s). or_Completed r)
     \<and> br_TotalOperations (calculateBenchmarkResult float_ref (bs_results s) 0 10 []) = 1"
proof -
  obtain s where s: "(\<lambda>s s'. bench_step 1 s s' \<and> orderly 1 s s')\<^sup>*\<^sup>* bench_init s" "bs_pc s = Bp_over False" using orderly_run_ref by blast
  from benchmark_waits_for_all [OF s(1), of float_ref 0 10 "[]"] s(2) show ?thesis by auto
qed

text \<open>
  The order matters: when the request is published but its acknowledgement is lost, the answer comes before the error, and both
  count the operation as done. The program panics.
\<close>

lemma overtaking_answer_panics: "\<exists>s. (bench_step 1)\<^sup>*\<^sup>* bench_init s \<and> bs_crashed s"
proof -
  let ?op = "new_operation ''w'' 0" and ?err = "errorf ''timeout''"
  define s1 where "s1 = bench_init\<lparr>bs_results := bs_results bench_init @ [?op], bs_pc := Bp_add 0\<rparr>"
  define s2 where "s2 = s1\<lparr>bs_wg := bs_wg s1 + 1, bs_pc := Bp_send 0\<rparr>"
  define s3 where "s3 = wg_Done (s2\<lparr>bs_results := [complete 1 [] [] ?op]\<rparr>)"
  define s4 where "s4 = s3\<lparr>bs_pc := Bp_fail 0 ?err\<rparr>"
  define s5 where "s5 = s4\<lparr>bs_results := (bs_results s4)[0 := complete 2 (GetErrorCodeFromError (Some ?err)) (err_msg ?err) (bs_results s4 ! 0)],
    bs_pc := Bp_done 0\<rparr>"
  define s6 where "s6 = (wg_Done s5)\<lparr>bs_pc := Bp_next (Suc 0)\<rparr>"
  note defs = s1_def s2_def s3_def s4_def s5_def s6_def bench_init_def wg_Done_def
  have "bench_step 1 bench_init s1" unfolding s1_def by (rule bench_step.append) (simp_all add: bench_init_def)
  moreover have "bench_step 1 s1 s2" unfolding s2_def by (rule bench_step.add) (simp_all add: defs)
  moreover have "bench_step 1 s2 s3"
    unfolding s3_def by (rule bench_step.answer [where mt = "\<lambda>i. i = ''w''"]) (simp_all add: defs new_operation_def)
  moreover have "bench_step 1 s3 s4" unfolding s4_def by (rule bench_step.not_sent) (simp_all add: defs)
  moreover have "bench_step 1 s4 s5" unfolding s5_def by (rule bench_step.note_failure) (simp_all add: defs)
  moreover have "bench_step 1 s5 s6" unfolding s6_def by (rule bench_step.failed_done) (simp_all add: defs)
  ultimately have "(bench_step 1)\<^sup>*\<^sup>* bench_init s6" by (meson converse_rtranclp_into_rtranclp rtranclp.rtrancl_refl)
  moreover have "bs_crashed s6" by (simp add: defs)
  ultimately show ?thesis by blast
qed

text \<open>
  The times are sorted before the report takes the first ones, so what it calls the first requests are the fastest.
\<close>

lemma first_are_fastest:
  assumes "r = calculateBenchmarkResult fl results totalTime batchSize batchTimes" and "i < k" and "k \<le> length (br_OperationTimes r)"
    and "k \<le> j" and "j < length (br_OperationTimes r)"
  shows "br_OperationTimes r ! i \<le> br_OperationTimes r ! j"
  using assms by (auto simp: calculateBenchmarkResult_def Let_def split: prod.splits intro!: sorted_nth_mono)

lemma negative_batch_panics: "br_BatchSize r < 0 \<Longrightarrow> generateBenchmarkReport fl up st ty r = Panic"
  by (simp add: generateBenchmarkReport_def request_analysis_def)

lemma report_appended:
  assumes "run_state (writeBenchmarkToFile D content path) d = (None, d')"
  shows "file_content d' path = file_content d path @ content @ separator"
  using assms
  by (auto simp: writeBenchmarkToFile_def os_OpenAppend_def os_MkdirAll_def file_Write_def Let_def file_content_def put_file_def tick_def gm_simps
      split: option.splits)

end
