(* ===== verification/Node_Start.thy ===== *)
theory Node_Start
  imports Peers_Setup Kv_Backup Stream_Consumers Client
begin

text \<open>
  The start of the node program \<^verbatim>\<open>cmd/node\<close>: the password of the key store (\<^verbatim>\<open>config.go\<close>), opening the store
  (\<^verbatim>\<open>storage.go\<close>), the periodic backups (\<^verbatim>\<open>backup.go\<close>) and the sequence of \<^verbatim>\<open>runNode\<close> in \<^verbatim>\<open>start.go\<close> up to the point where the
  consumers run. The operations are those of the other theories, composed in the order of the source. The theorem states
  what holds of every node that comes up. How the running node ends is the subject of theory \<open>Node_Run\<close>.
\<close>

section \<open>The password\<close>

text \<open>
  Clearing the buffers that held the password (\<^verbatim>\<open>security.ZeroBytes\<close>, theory \<open>Secure_Memory\<close>) has no effect on the
  configuration: the string is a copy.
\<close>

definition set_password :: "nat \<Rightarrow> string \<Rightarrow> unit go_res pio" where
  "set_password cfg password = State (\<lambda>s.
     case SetBadgerPassword password (ps_app s) of
       Panic \<Rightarrow> (Panic, s)
     | Ret a \<Rightarrow> (Ret (), s\<lparr>ps_app := write_cell cfg (\<lambda>c. c\<lparr>cf_BadgerPassword := password\<rparr>) a\<rparr>))"

definition loadPasswordFromFile :: "'s cmd_env \<Rightarrow> nat \<Rightarrow> string \<Rightarrow> go_error option go_res pio" where
  "loadPasswordFromFile W cfg filePath = do {
     data \<leftarrow> on_disk (os_ReadFile (ce_disk W) filePath);
     (case data of
        Inl err \<Rightarrow> State_Monad.return (Ret (Some (wrapf (''failed to read password file '' @ filePath) err)))
      | Inr passwordBytes \<Rightarrow>
          (let password = strings_TrimSpace passwordBytes in
           if password = [] then State_Monad.return (Ret (Some (errorf (''password file '' @ filePath @ '' is empty''))))
           else go_bind (set_password cfg password) (\<lambda>_. State_Monad.return (Ret None)))) }"

text \<open>
  The loop that asks for a password until two entries agree. It may run for ever: \<open>None\<close> says that the given number of
  rounds was not enough.
\<close>

fun prompt_loop :: "nat \<Rightarrow> 's cmd_env \<Rightarrow> string go_res option pio" where
  "prompt_loop 0 W = State_Monad.return None"
| "prompt_loop (Suc fuel) W = do {
     a \<leftarrow> term_ReadPassword W;
     (case a of
        Inl err \<Rightarrow> State_Monad.return (Some Panic)
      | Inr badgerPass \<Rightarrow>
          if length badgerPass = 0 then prompt_loop fuel W
          else do {
            b \<leftarrow> term_ReadPassword W;
            (case b of
               Inl err \<Rightarrow> State_Monad.return (Some Panic)
             | Inr confirmPass \<Rightarrow>
                 if badgerPass \<noteq> confirmPass then prompt_loop fuel W
                 else State_Monad.return (Some (Ret badgerPass))) }) }"

definition promptForSensitiveCredentials :: "nat \<Rightarrow> 's cmd_env \<Rightarrow> nat \<Rightarrow> unit go_res option pio" where
  "promptForSensitiveCredentials fuel W cfg = do {
     r \<leftarrow> prompt_loop fuel W;
     (case r of
        None \<Rightarrow> State_Monad.return None
      | Some Panic \<Rightarrow> State_Monad.return (Some Panic)
      | Some (Ret password) \<Rightarrow> do { u \<leftarrow> set_password cfg password; State_Monad.return (Some u) }) }"

definition maskString :: "string \<Rightarrow> string" where
  "maskString s = (if length s \<le> 2 then s else take 1 s @ replicate (length s - 2) CHR ''*'' @ drop (length s - 1) s)"

definition checkRequiredConfigValues :: "Config \<Rightarrow> unit go_res" where
  "checkRequiredConfigValues cfg =
     (if cf_BadgerPassword cfg = [] then Panic
      else if cf_EventInitiatorPubKey cfg = [] then Panic
      else Ret ())"

section \<open>Storage and backups\<close>

text \<open>The node's name stands for its ID in the store's configuration; the ID is not used.\<close>

definition NewBadgerKV :: "'s cmd_env \<Rightarrow> 'db badger_lib \<Rightarrow> string \<Rightarrow> string \<Rightarrow> 'db BadgerKVStore go_res pio" where
  "NewBadgerKV W L nodeName nodeID =
     go_bind (ask DBPath) (\<lambda>basePath.
     let basePath = (if basePath = [] then filepath_Join ''.'' ''db'' else basePath); dbPath = filepath_Join basePath nodeName in
     go_bind (ask BackupDir) (\<lambda>backupDir.
     let backupDir = (if backupDir = [] then filepath_Join ''.'' ''backups'' else backupDir) in
     go_bind (ask BadgerPassword) (\<lambda>password.
     go_bind (on_disk (NewBadgerKVStore (ce_disk W) L
        \<lparr>bg_NodeID = nodeName, bg_EncryptionKey = password, bg_BackupEncryptionKey = password, bg_BackupDir = backupDir, bg_DBPath = dbPath\<rparr>))
       (\<lambda>r. State_Monad.return (case r of Inl err \<Rightarrow> Panic | Inr kv \<Rightarrow> Ret kv)))))"

definition DefaultBackupPeriodSeconds :: int where "DefaultBackupPeriodSeconds = 300"

text \<open>The period of the ticker in nanoseconds; \<^verbatim>\<open>time.NewTicker\<close> panics when it is not positive.\<close>

definition StartPeriodicBackup :: "int \<Rightarrow> int go_res" where
  "StartPeriodicBackup periodSeconds =
     (let periodSeconds = (if periodSeconds \<le> 0 then DefaultBackupPeriodSeconds else periodSeconds);
          period = wrap64 (periodSeconds * ns_second)
      in if period \<le> 0 then Panic else Ret period)"

text \<open>
  The background job: a tick makes a backup, whose error is only logged; the end of the context stops the job. A tick
  carries the random bytes and the clock of its time, and the store as it is then.
\<close>

datatype 'db backup_event = Backup_tick "go_error + bytes" clock "'db BadgerKVStore" | Backup_stop

fun backup_job :: "disk_env \<Rightarrow> 'db badger_lib \<Rightarrow> crypto \<Rightarrow> 'db backup_event list \<Rightarrow> unit dio" where
  "backup_job D L C [] = State_Monad.return ()"
| "backup_job D L C (Backup_stop # evs) = State_Monad.return ()"
| "backup_job D L C (Backup_tick rand now kv # evs) = do { _ \<leftarrow> kv_Backup D L C rand now kv; backup_job D L C evs }"

section \<open>The start sequence\<close>

record node_flags =
  sf_name :: string
  sf_config :: string
  sf_decrypt :: bool
  sf_prompt :: bool
  sf_passwordFile :: string
  sf_agePasswordFile :: string

text \<open>The first part: the configuration with a password in it. The result is the pointer to it.\<close>

definition node_config :: "nat \<Rightarrow> 's cmd_env \<Rightarrow> node_flags \<Rightarrow> (go_error + nat) go_res option pio" where
  "node_config fuel W fl = do {
     (if sf_config fl \<noteq> [] then on_app (SetEnvConfigPath (sf_config fl)) else State_Monad.return ());
     loaded \<leftarrow> on_app (Load (ce_viper W));
     (case loaded of
        Inl err \<Rightarrow> State_Monad.return (Some (Ret (Inl (wrapf ''load config'' err))))
      | Inr cfg \<Rightarrow> do {
          pw \<leftarrow> (if sf_passwordFile fl \<noteq> [] then loadPasswordFromFile W cfg (sf_passwordFile fl) else State_Monad.return (Ret None));
          (case pw of
             Panic \<Rightarrow> State_Monad.return (Some Panic)
           | Ret (Some err) \<Rightarrow> State_Monad.return (Some (Ret (Inl (wrapf ''failed to load password from file'' err))))
           | Ret None \<Rightarrow>
               if sf_prompt fl then do {
                 u \<leftarrow> promptForSensitiveCredentials fuel W cfg;
                 State_Monad.return
                   (case u of None \<Rightarrow> None | Some Panic \<Rightarrow> Some Panic | Some (Ret _) \<Rightarrow> Some (Ret (Inr cfg))) }
               else do {
                 u \<leftarrow> ask (\<lambda>a. checkRequiredConfigValues (cell cfg a));
                 State_Monad.return (case u of Panic \<Rightarrow> Some Panic | Ret _ \<Rightarrow> Some (Ret (Inr cfg))) }) }) }"

text \<open>What a node that runs is made of.\<close>

record 'db node_run =
  nr_nodeID :: string
  nr_peers :: "Peer list"
  nr_kv :: "'db BadgerKVStore"
  nr_backup :: "int option"
  nr_identity :: fileStore
  nr_conn :: "string \<times> nats_option list"
  nr_keygenBroker :: brokerConfiguration
  nr_signingBroker :: brokerConfiguration
  nr_resharingBroker :: brokerConfiguration
  nr_keygenQueue :: messageQueue
  nr_signingQueue :: messageQueue
  nr_resharingQueue :: messageQueue
  nr_registry :: registry
  nr_node :: Node
  nr_consumer :: eventConsumer
  nr_timeout :: timeOutConsumer
  nr_ready :: "go_error option"

definition ret_or_fatal :: "(go_error + 'a) pio \<Rightarrow> 'a go_res pio" where
  "ret_or_fatal m = do { r \<leftarrow> m; State_Monad.return (case r of Inl err \<Rightarrow> Panic | Inr x \<Rightarrow> Ret x) }"

definition ret_or_exit :: "'a option pio \<Rightarrow> 'a go_res pio" where
  "ret_or_exit m = do { r \<leftarrow> m; State_Monad.return (case r of None \<Rightarrow> Panic | Some x \<Rightarrow> Ret x) }"

text \<open>What the loader of the identity store reads beside the files.\<close>

definition identity_env_of :: "'s cmd_env \<Rightarrow> proc \<Rightarrow> identity_env" where
  "identity_env_of W s =
     \<lparr>ie_Getwd = ce_Getwd W, ie_ReadPassword = ce_tty W (ps_reads s),
      ie_MkdirAll = \<lambda>_. de_fault (ce_disk W) (dk_ops (ps_disk s)),
      ie_EventInitiatorAlgorithm = (case EventInitiatorAlgorithm (ps_app s) of Panic \<Rightarrow> [] | Ret a \<Rightarrow> a),
      ie_EventInitiatorPubKey = (case EventInitiatorPubKey (ps_app s) of Panic \<Rightarrow> [] | Ret k \<Rightarrow> k)\<rparr>"

definition load_identity ::
  "'s cmd_env \<Rightarrow> files \<Rightarrow> (string gomap \<Rightarrow> string gomap) \<Rightarrow> node_flags \<Rightarrow> (go_error + fileStore) pio" where
  "load_identity W F ord fl = State (\<lambda>s.
     (NewFileStore (ce_crypto W) F (ce_age W) (identity_env_of W s) ord ''identity'' (sf_name fl) (sf_decrypt fl) (sf_agePasswordFile fl), s))"

text \<open>
  The second part: storage, identity, connections. \<open>F\<close> are the files the identity store reads, \<open>ord\<close> the order of its walk
  over the peers.
\<close>

definition node_storage ::
  "'s cmd_env \<Rightarrow> 'db badger_lib \<Rightarrow> files \<Rightarrow> (string gomap \<Rightarrow> string gomap) \<Rightarrow> node_flags \<Rightarrow> nat
     \<Rightarrow> (string \<times> Peer list \<times> 'db BadgerKVStore \<times> int option \<times> fileStore \<times> (string \<times> nats_option list)) go_res pio" where
  "node_storage W L F ord fl cfg =
     go_bind (ask (GetConsulClient (ce_consul W))) (\<lambda>consulClient.
     go_bind (on_io (LoadPeersFromConsul (ce_env W))) (\<lambda>peers.
     go_bind (on_io (GetIDFromName (sf_name fl) peers)) (\<lambda>nodeID.
     go_bind (NewBadgerKV W L (sf_name fl) nodeID) (\<lambda>badgerKV.
     go_bind (ask (\<lambda>a. if cf_BackupEnabled (cell cfg a)
                       then (case StartPeriodicBackup (cf_BackupPeriodSeconds (cell cfg a)) of Panic \<Rightarrow> Panic | Ret t \<Rightarrow> Ret (Some t))
                       else Ret None)) (\<lambda>backup.
     go_bind (ret_or_fatal (load_identity W F ord fl)) (\<lambda>identityStore.
     go_bind (ask (GetNATSConnection (ce_Connect W))) (\<lambda>conn.
     State_Monad.return
       (case conn of Inl err \<Rightarrow> Panic | Inr natsConn \<Rightarrow> Ret (nodeID, peers, badgerKV, backup, identityStore, natsConn)))))))))"

text \<open>The third part: the streams of requests and the queues of results.\<close>

definition node_streams ::
  "'s cmd_env \<Rightarrow> (brokerConfiguration \<times> brokerConfiguration \<times> brokerConfiguration \<times> messageQueue \<times> messageQueue \<times> messageQueue) go_res pio" where
  "node_streams W =
     go_bind (ret_or_fatal (on_nats (NewJetStreamBroker (ce_nats W) KeygenBrokerStream [KeygenRequestTopic] []))) (\<lambda>keygenBroker.
     go_bind (ret_or_fatal (on_nats (NewJetStreamBroker (ce_nats W) SigningBrokerStream [SigningRequestTopic] []))) (\<lambda>signingBroker.
     go_bind (ret_or_fatal (on_nats (NewJetStreamBroker (ce_nats W) ResharingBrokerStream [ResharingRequestTopic] []))) (\<lambda>resharingBroker.
     go_bind (ret_or_exit (on_nats (NewNATsMessageQueueManager (ce_nats W) StreamName
       [KeygenResultTopic, SigningResultTopic, ResharingResultTopic]))) (\<lambda>mgr.
     go_bind (ret_or_exit (on_nats (NewMessageQueue (ce_nats W) mgr KeygenResultQueueName))) (\<lambda>genKeyResultQueue.
     go_bind (ret_or_exit (on_nats (NewMessageQueue (ce_nats W) mgr SigningResultQueueName))) (\<lambda>signingResultQueue.
     go_bind (ret_or_exit (on_nats (NewMessageQueue (ce_nats W) mgr ResharingResultQueueName))) (\<lambda>resharingResultQueue.
     State_Monad.return
       (Ret (keygenBroker, signingBroker, resharingBroker, genKeyResultQueue, signingResultQueue, resharingResultQueue)))))))))"

text \<open>
  The last part: the registry, the node, the consumers, and the ready key. A failure to become ready is only logged.
  \<open>N\<close> are the libraries of the node, which uses the services of \<open>W\<close>; \<open>P\<close> is \<^verbatim>\<open>lo.Filter\<close>.
\<close>

definition node_parts ::
  "'s cmd_env \<Rightarrow> node_env \<Rightarrow> (string list \<Rightarrow> (string \<Rightarrow> bool) \<Rightarrow> string list) \<Rightarrow> string \<Rightarrow> Peer list \<Rightarrow> fileStore
     \<Rightarrow> (registry \<times> Node \<times> eventConsumer \<times> timeOutConsumer \<times> go_error option) go_res pio" where
  "node_parts W N P nodeID peers identityStore =
     (let peerNodeIDs = GetPeerIDs peers in
     go_bind (ask Threshold) (\<lambda>threshold.
     go_bind (on_io (NewRegistry P nodeID peerNodeIDs threshold)) (\<lambda>peerRegistry.
     go_bind (on_io (NewNode (N\<lparr>ne_E := ce_env W, ne_C := ce_crypto W\<rparr>) nodeID peerNodeIDs)) (\<lambda>mpcNode.
     go_bind (ask MaxConcurrentKeygen) (\<lambda>maxKeygen.
     go_bind (ask MaxConcurrentSigning) (\<lambda>maxSigning.
     go_bind (ask MaxConcurrentResharing) (\<lambda>maxResharing.
     go_bind (ask SessionWarmUpDelayMillis) (\<lambda>warmUp. do {
       eventConsumer \<leftarrow> on_io (NewEventConsumer mpcNode threshold maxKeygen maxSigning maxResharing warmUp);
       go_bind (on_io (Run_consumer (ce_env W) eventConsumer)) (\<lambda>eventConsumer. do {
         timeoutConsumer \<leftarrow> on_io (timeout_Run (ce_env W) NewTimeOutConsumer);
         go_bind (on_io (Ready (ce_env W) (ce_crypto W) peerRegistry identityStore)) (\<lambda>(err, peerRegistry).
         State_Monad.return (Ret (peerRegistry, mpcNode, eventConsumer, timeoutConsumer, err))) }) }))))))))"

definition node_services ::
  "'s cmd_env \<Rightarrow> 'db badger_lib \<Rightarrow> node_env \<Rightarrow> files \<Rightarrow> (string gomap \<Rightarrow> string gomap)
     \<Rightarrow> (string list \<Rightarrow> (string \<Rightarrow> bool) \<Rightarrow> string list) \<Rightarrow> node_flags \<Rightarrow> nat \<Rightarrow> 'db node_run go_res pio" where
  "node_services W L N F ord P fl cfg =
     go_bind (node_storage W L F ord fl cfg) (\<lambda>(nodeID, peers, badgerKV, backup, identityStore, natsConn).
     go_bind (node_streams W) (\<lambda>(keygenBroker, signingBroker, resharingBroker, keygenQueue, signingQueue, resharingQueue).
     go_bind (node_parts W N P nodeID peers identityStore) (\<lambda>(peerRegistry, mpcNode, eventConsumer, timeoutConsumer, err).
     State_Monad.return (Ret
       \<lparr>nr_nodeID = nodeID, nr_peers = peers, nr_kv = badgerKV, nr_backup = backup, nr_identity = identityStore, nr_conn = natsConn,
        nr_keygenBroker = keygenBroker, nr_signingBroker = signingBroker, nr_resharingBroker = resharingBroker,
        nr_keygenQueue = keygenQueue, nr_signingQueue = signingQueue, nr_resharingQueue = resharingQueue,
        nr_registry = peerRegistry, nr_node = mpcNode, nr_consumer = eventConsumer, nr_timeout = timeoutConsumer, nr_ready = err\<rparr>))))"

text \<open>All of it. \<open>None\<close> says that the program still asks for a password.\<close>

definition node_start ::
  "nat \<Rightarrow> 's cmd_env \<Rightarrow> 'db badger_lib \<Rightarrow> node_env \<Rightarrow> files \<Rightarrow> (string gomap \<Rightarrow> string gomap)
     \<Rightarrow> (string list \<Rightarrow> (string \<Rightarrow> bool) \<Rightarrow> string list) \<Rightarrow> node_flags \<Rightarrow> (go_error + 'db node_run) go_res option pio" where
  "node_start fuel W L N F ord P fl = do {
     c \<leftarrow> node_config fuel W fl;
     (case c of
        None \<Rightarrow> State_Monad.return None
      | Some Panic \<Rightarrow> State_Monad.return (Some Panic)
      | Some (Ret (Inl err)) \<Rightarrow> State_Monad.return (Some (Ret (Inl err)))
      | Some (Ret (Inr cfg)) \<Rightarrow> do {
          r \<leftarrow> node_services W L N F ord P fl cfg;
          State_Monad.return (Some (case r of Panic \<Rightarrow> Panic | Ret run \<Rightarrow> Ret (Inr run))) }) }"

section \<open>The configuration during the start\<close>

definition keeps_app :: "'a pio \<Rightarrow> bool" where
  "keeps_app m \<longleftrightarrow> (\<forall>s. ps_app (snd (run_state m s)) = ps_app s)"

named_theorems keeps \<open>programs that leave the configuration alone\<close>

lemma keeps_app_steps [keeps]:
  "keeps_app (State_Monad.return x)" "keeps_app (ask f)" "keeps_app (on_io m)" "keeps_app (on_nats n)" "keeps_app (on_disk d)"
  by (simp_all add: keeps_app_def)

lemma keeps_app_bind [keeps]: "keeps_app m \<Longrightarrow> (\<And>x. keeps_app (f x)) \<Longrightarrow> keeps_app (State_Monad.bind m f)"
  by (simp add: keeps_app_def split: prod.splits) (metis prod.collapse snd_conv)

lemma keeps_app_go_bind [keeps]:
  assumes "keeps_app m" and "\<And>x. keeps_app (f x)"
  shows "keeps_app (go_bind m f)"
  unfolding go_bind_def
proof (rule keeps_app_bind [OF assms(1)])
  fix r
  show "keeps_app (case r of Panic \<Rightarrow> State_Monad.return Panic | Ret x \<Rightarrow> f x)"
    by (cases r) (simp_all add: assms(2) keeps)
qed

lemma keeps_app_ret_or [keeps]: "keeps_app m \<Longrightarrow> keeps_app (ret_or_fatal m)" "keeps_app n \<Longrightarrow> keeps_app (ret_or_exit n)"
  by (simp_all add: ret_or_fatal_def ret_or_exit_def keeps)

lemma keeps_app_load_identity [keeps]: "keeps_app (load_identity W F ord fl)"
  by (simp add: keeps_app_def load_identity_def)

lemma keeps_app_case [keeps]: "(\<And>a b. keeps_app (f a b)) \<Longrightarrow> keeps_app (case p of (a, b) \<Rightarrow> f a b)"
  by (cases p) simp

lemma keeps_app_let [keeps]: "keeps_app (f x) \<Longrightarrow> keeps_app (let y = x in f y)"
  by simp

lemma keeps_app_services: "keeps_app (node_storage W L F ord fl cfg)" "keeps_app (node_streams W)" "keeps_app (node_parts W N P i ps ids)"
  unfolding node_storage_def node_streams_def node_parts_def NewBadgerKV_def by (intro keeps)+

lemma keeps_appD: "keeps_app m \<Longrightarrow> run_state m s = (x, s') \<Longrightarrow> ps_app s' = ps_app s"
  unfolding keeps_app_def by (metis snd_conv)

text \<open>Setting the password through both pointers, when they are the same.\<close>

lemma set_password_run:
  assumes "run_state (set_password p w) s = (Ret (), s')" and "as_app (ps_app s) = Some p" and "app_ok (ps_app s)"
  shows "as_app (ps_app s') = Some p \<and> cell p (ps_app s') = (cell p (ps_app s))\<lparr>cf_BadgerPassword := w\<rparr> \<and> app_ok (ps_app s')
    \<and> ps_disk s' = ps_disk s"
proof -
  let ?f = "\<lambda>c. c\<lparr>cf_BadgerPassword := w\<rparr>"
  have s': "s' = s\<lparr>ps_app := write_cell p ?f (write_cell p ?f (ps_app s))\<rparr>"
    using assms(1,2) by (simp add: set_password_def SetBadgerPassword_def Update_config_def)
  have "p < length (as_cells (ps_app s))" using assms(2,3) by (simp add: app_ok_def)
  then show ?thesis
    using write_password_ok [OF write_password_ok [OF assms(3), of p w], of p w] assms(2) by (simp add: s' write_cell_def cell_def)
qed

lemma prompt_loop_run:
  assumes "run_state (prompt_loop fuel W) s = (Some (Ret w), s')"
  shows "w \<noteq> [] \<and> ps_app s' = ps_app s \<and> ps_disk s' = ps_disk s
    \<and> (\<exists>k. ps_reads s \<le> k \<and> ce_tty W k = Inr w \<and> ce_tty W (Suc k) = Inr w)"
  using assms
proof (induction fuel arbitrary: s)
  case (Suc fuel)
  from Suc.prems consider
      "ce_tty W (ps_reads s) = Inr []" "run_state (prompt_loop fuel W) (s\<lparr>ps_reads := Suc (ps_reads s)\<rparr>) = (Some (Ret w), s')"
    | "run_state (prompt_loop fuel W) (s\<lparr>ps_reads := Suc (Suc (ps_reads s))\<rparr>) = (Some (Ret w), s')"
    | "ce_tty W (ps_reads s) = Inr w" "ce_tty W (Suc (ps_reads s)) = Inr w" "w \<noteq> []" "s' = s\<lparr>ps_reads := Suc (Suc (ps_reads s))\<rparr>"
    by (auto split: sum.splits if_splits)
  then show ?case
  proof cases
    case 1
    from Suc.IH [OF 1(2)] show ?thesis by (auto intro: Suc_leD)
  next
    case 2
    from Suc.IH [OF 2] show ?thesis by (auto intro: Suc_leD)
  qed auto
qed simp

text \<open>The loop ends as soon as two entries in a row agree: with enough rounds it returns.\<close>

lemma prompt_loop_returns:
  assumes "\<forall>j. \<exists>p. ce_tty W j = Inr p \<and> p \<noteq> []" and "ce_tty W (ps_reads s + 2 * k) = ce_tty W (Suc (ps_reads s + 2 * k))" and "k < fuel"
  shows "\<exists>w s'. run_state (prompt_loop fuel W) s = (Some (Ret w), s')"
  using assms
proof (induction fuel arbitrary: s k)
  case (Suc fuel)
  obtain a b where ab: "ce_tty W (ps_reads s) = Inr a" "a \<noteq> []" "ce_tty W (Suc (ps_reads s)) = Inr b" using Suc.prems(1) by metis
  show ?case
  proof (cases "a = b")
    case False
    then obtain k' where k: "k = Suc k'" using Suc.prems(2) ab by (cases k) auto
    from Suc.IH [of "s\<lparr>ps_reads := Suc (Suc (ps_reads s))\<rparr>" k'] Suc.prems ab False show ?thesis by (simp add: k)
  qed (use ab in simp)
qed simp

text \<open>A configuration that is in force, valid and has a password.\<close>

definition started_config :: "nat \<Rightarrow> app_state \<Rightarrow> bool" where
  "started_config p a \<longleftrightarrow> as_app a = Some p \<and> app_ok a \<and> cf_BadgerPassword (cell p a) \<noteq> []"

lemma load_ok:
  assumes "run_state (Load V) a = (Inr p, a')"
  shows "as_app a' = Some p \<and> app_ok a'"
  using config_load_facts [OF assms] by (auto simp: app_ok_def GetConfig_def split: option.splits)

lemma loadPasswordFromFile_run:
  assumes "run_state (loadPasswordFromFile W p path) s = (Ret None, s')" and "as_app (ps_app s) = Some p" and "app_ok (ps_app s)"
  shows "started_config p (ps_app s')
    \<and> (\<exists>bs. gm_get (dk_files (ps_disk s)) path = Some bs \<and> cf_BadgerPassword (cell p (ps_app s')) = strings_TrimSpace bs)"
proof -
  from assms(1) obtain bs s1 where bs: "gm_get (dk_files (ps_disk s)) path = Some bs" "strings_TrimSpace bs \<noteq> []"
    and s1: "run_state (set_password p (strings_TrimSpace bs)) s1 = (Ret (), s')" "ps_app s1 = ps_app s"
    by (auto simp: loadPasswordFromFile_def disk_defs Let_def run_go_bind split: sum.splits option.splits if_splits go_res.splits prod.splits)
  from set_password_run [OF s1(1)] s1(2) assms(2,3) bs show ?thesis by (simp add: started_config_def)
qed

lemma prompt_run:
  assumes "run_state (promptForSensitiveCredentials fuel W p) s = (Some (Ret u), s')" and "as_app (ps_app s) = Some p" and "app_ok (ps_app s)"
  shows "started_config p (ps_app s')"
proof -
  from assms(1) obtain w s1 where w: "run_state (prompt_loop fuel W) s = (Some (Ret w), s1)" "run_state (set_password p w) s1 = (Ret (), s')"
    by (auto simp: promptForSensitiveCredentials_def split: option.splits go_res.splits prod.splits)
  from prompt_loop_run [OF w(1)] set_password_run [OF w(2)] assms(2,3) show ?thesis by (simp add: started_config_def)
qed

lemma node_config_run:
  assumes "run_state (node_config fuel W fl) s = (Some (Ret (Inr p)), s')"
  shows "started_config p (ps_app s')"
proof -
  define s0 where "s0 = snd (run_state (if sf_config fl \<noteq> [] then on_app (SetEnvConfigPath (sf_config fl)) else State_Monad.return ()) s)"
  obtain v a1 where load: "run_state (Load (ce_viper W)) (ps_app s0) = (v, a1)" by fastforce
  define s1 where "s1 = s0\<lparr>ps_app := a1\<rparr>"
  let ?pw = "if sf_passwordFile fl \<noteq> [] then loadPasswordFromFile W p (sf_passwordFile fl) else State_Monad.return (Ret None)"
  obtain u s2 where pw: "run_state ?pw s1 = (u, s2)" by fastforce
  from assms load pw have v: "v = Inr p" and u: "u = Ret None"
    and rest: "run_state (if sf_prompt fl then do {
                 u \<leftarrow> promptForSensitiveCredentials fuel W p;
                 State_Monad.return (case u of None \<Rightarrow> None | Some Panic \<Rightarrow> Some Panic | Some (Ret _) \<Rightarrow> Some (Ret (Inr p))) }
               else do {
                 u \<leftarrow> ask (\<lambda>a. checkRequiredConfigValues (cell p a));
                 State_Monad.return (case u of Panic \<Rightarrow> Some Panic | Ret _ \<Rightarrow> Some (Ret (Inr p))) }) s2 = (Some (Ret (Inr p)), s')"
    by (auto simp: node_config_def s0_def s1_def split: sum.splits go_res.splits option.splits prod.splits if_splits)
  note ok = load_ok [OF load [unfolded v]]
  have 2: "as_app (ps_app s2) = Some p \<and> app_ok (ps_app s2)"
    using pw u ok loadPasswordFromFile_run [of W p "sf_passwordFile fl" s1 s2]
    by (auto simp: s1_def started_config_def split: if_splits)
  show ?thesis
  proof (cases "sf_prompt fl")
    case True
    then show ?thesis using rest prompt_run [of fuel W p s2] 2 by (auto split: option.splits go_res.splits prod.splits)
  next
    case False
    with rest 2 show ?thesis
      by (auto simp: started_config_def checkRequiredConfigValues_def split: if_splits go_res.splits)
  qed
qed

section \<open>The parts of a started node\<close>

lemma Run_consumer_subs:
  assumes "run_state (Run_consumer E ec) tr = (Ret ec', tr')"
  shows "cn_keygenSub ec' = Some MPCGenerateEvent \<and> cn_signingSub ec' = Some MPCSignEvent \<and> cn_resharingSub ec' = Some MPCResharingEvent
    \<and> cn_threshold ec' = cn_threshold ec \<and> cn_closed ec' = cn_closed ec \<and> cn_sessionMgr ec' = cn_sessionMgr ec"
  using assms
  by (auto simp: Run_consumer_def consumeKeyGenerationEvent_def consumeSigningEvent_def consumeResharingEvent_def io_defs
      split: if_splits)

lemma startECDHExchange_run:
  assumes "run_state (startECDHExchange E C r ids) tr = (Ret (err, r'), tr')"
  shows "rg_nodeID r' = rg_nodeID r \<and> rg_threshold r' = rg_threshold r \<and> rg_peerNodeIDs r' = rg_peerNodeIDs r"
  using assms by (auto simp: startECDHExchange_def Let_def split: option.splits go_res.splits prod.splits)

lemma Ready_run:
  assumes "run_state (Ready E C r ids) tr = (Ret (err, r'), tr')"
  shows "rg_nodeID r' = rg_nodeID r \<and> rg_threshold r' = rg_threshold r \<and> rg_peerNodeIDs r' = rg_peerNodeIDs r
    \<and> (err = None \<longrightarrow> ConsulPut (readyKey (rg_nodeID r)) ''true'' \<in> set tr')"
proof -
  obtain v tr1 where v: "run_state (startECDHExchange E C r ids) tr = (v, tr1)" by fastforce
  with assms obtain e1 r1 where 1: "v = Ret (e1, r1)" by (auto simp: Ready_def split: go_res.splits)
  from startECDHExchange_run [OF v [unfolded 1]] v assms show ?thesis
    by (cases e1) (auto simp: Ready_def 1 io_defs split: option.splits)
qed

lemma NewRegistry_reads:
  assumes "run_state (NewRegistry P i ps t) tr = (Ret r, tr')"
  shows "rg_nodeID r = i \<and> rg_threshold r = t \<and> 1 \<le> t \<and> rg_peerNodeIDs r = P ps (\<lambda>j. j \<noteq> i)"
  using assms by (auto simp: NewRegistry_def Let_def io_defs split: if_splits)

lemma NewNode_run: "run_state (NewNode N i ps) tr = (Ret n, tr') \<Longrightarrow> nd_nodeID n = i \<and> nd_peerIDs n = ps"
  by (auto simp: NewNode_def split: go_res.splits prod.splits)

lemma NewEventConsumer_run:
  "cn_threshold (fst (run_state (NewEventConsumer n t a b c d) tr)) = t \<and> \<not> cn_closed (fst (run_state (NewEventConsumer n t a b c d) tr))
   \<and> \<not> stopChan_closed (cn_sessionMgr (fst (run_state (NewEventConsumer n t a b c d) tr)))"
  by (simp add: NewEventConsumer_def Let_def io_defs NewManager_def)

lemma run_bind_iff: "run_state (State_Monad.bind m f) s = r \<longleftrightarrow> (\<exists>x s1. run_state m s = (x, s1) \<and> run_state (f x) s1 = r)"
  by (simp split: prod.splits)

lemma run_on_ioD: "run_state (on_io m) s = (x, s') \<Longrightarrow> run_state m (ps_io s) = (x, ps_io s') \<and> ps_app s' = ps_app s"
  by auto

lemma run_on_diskD: "run_state (on_disk m) s = (x, s') \<Longrightarrow> run_state m (ps_disk s) = (x, ps_disk s')"
  by auto

lemma run_askD: "run_state (ask f) s = (x, s') \<Longrightarrow> f (ps_app s) = x \<and> s' = s"
  by auto

lemma case_sum_Ret: "(case r of Inl err \<Rightarrow> Panic | Inr x \<Rightarrow> Ret (f x)) = Ret y \<longleftrightarrow> (\<exists>x. r = Inr x \<and> f x = y)"
  by (cases r) auto

lemma NewBadgerKVStore_run:
  assumes "run_state (NewBadgerKVStore D L c) d = (Ret (Inr kv), d')" and "bg_BackupDir c \<noteq> []"
  shows "bd_Open L (bg_DBPath c) (bg_EncryptionKey c) = Inr (kv_DB kv)
    \<and> (\<exists>b. kv_BackupExecutor kv = Some b \<and> bx_BackupEncryptionKey b = bg_BackupEncryptionKey c \<and> bx_BackupDir b = bg_BackupDir c)"
  using assms
  by (auto simp: NewBadgerKVStore_def NewBadgerBackupExecutor_def Let_def os_MkdirAll_def split: sum.splits if_splits option.splits go_res.splits)

lemma NewBadgerKV_run:
  assumes "run_state (NewBadgerKV W L name i) s = (Ret kv, s')" and "as_app (ps_app s) = Some p" and "config_valid (cell p (ps_app s))"
  shows "bd_Open L (filepath_Join (cf_DBPath (cell p (ps_app s))) name) (cf_BadgerPassword (cell p (ps_app s))) = Inr (kv_DB kv)
    \<and> (\<exists>b. kv_BackupExecutor kv = Some b \<and> bx_BackupEncryptionKey b = cf_BadgerPassword (cell p (ps_app s))
          \<and> bx_BackupDir b = cf_BackupDir (cell p (ps_app s)))"
proof -
  have ne: "cf_DBPath (cell p (ps_app s)) \<noteq> []" "cf_BackupDir (cell p (ps_app s)) \<noteq> []" using assms(3) by (auto simp: config_valid_def)
  from assms(1) obtain d' where "run_state (NewBadgerKVStore (ce_disk W) L
      \<lparr>bg_NodeID = name, bg_EncryptionKey = cf_BadgerPassword (cell p (ps_app s)), bg_BackupEncryptionKey = cf_BadgerPassword (cell p (ps_app s)),
       bg_BackupDir = cf_BackupDir (cell p (ps_app s)), bg_DBPath = filepath_Join (cf_DBPath (cell p (ps_app s))) name\<rparr>) (ps_disk s) = (Ret (Inr kv), d')"
    using assms(2) ne
    by (auto simp: NewBadgerKV_def run_go_bind_Ret cfg_db_path.read_some cfg_backup_dir.read_some cfg_password.read_some Let_def case_sum_Ret
        simp del: run_on dest!: run_askD run_on_diskD)
  from NewBadgerKVStore_run [OF this] ne(2) show ?thesis by simp
qed

lemma load_identity_run:
  assumes "run_state (ret_or_fatal (load_identity W F ord fl)) s = (Ret ids, s')" and "as_app (ps_app s) = Some p"
  shows "initiator_key_ok (initiatorKey ids) \<and> symmetricKeys ids = [] \<and> cf_EventInitiatorPubKey (cell p (ps_app s)) \<noteq> []"
proof -
  let ?c = "cell p (ps_app s)"
  from assms have "NewFileStore (ce_crypto W) F (ce_age W) (identity_env_of W s) ord ''identity'' (sf_name fl) (sf_decrypt fl) (sf_agePasswordFile fl)
      = Inr ids"
    by (auto simp: ret_or_fatal_def load_identity_def split: sum.splits)
  then have "loadInitiatorKeys (ce_crypto W) (cf_EventInitiatorAlgorithm ?c) (cf_EventInitiatorPubKey ?c) = Inr (initiatorKey ids) \<and> symmetricKeys ids = []"
    using assms(2)
    by (auto simp: NewFileStore_def identity_env_of_def cfg_pubkey.read_some cfg_algorithm.read_some split: sum.splits option.splits prod.splits)
  then show ?thesis using loadInitiatorKeys_ok empty_key_not_loaded by metis
qed

lemma node_storage_run:
  assumes "run_state (node_storage W L F ord fl cfg) s = (Ret (nodeID, peers, kv, backup, ids, conn), s')" and "started_config p (ps_app s)"
  shows "nodeID = GetNodeID (sf_name fl) peers \<and> nodeID \<noteq> []
    \<and> bd_Open L (filepath_Join (cf_DBPath (cell p (ps_app s))) (sf_name fl)) (cf_BadgerPassword (cell p (ps_app s))) = Inr (kv_DB kv)
    \<and> (\<exists>b. kv_BackupExecutor kv = Some b \<and> bx_BackupEncryptionKey b = cf_BadgerPassword (cell p (ps_app s))
          \<and> bx_BackupDir b = cf_BackupDir (cell p (ps_app s)))
    \<and> initiator_key_ok (initiatorKey ids) \<and> symmetricKeys ids = [] \<and> cf_EventInitiatorPubKey (cell p (ps_app s)) \<noteq> []
    \<and> cf_NATs (cell p (ps_app s)) \<noteq> None"
proof -
  from assms(1) obtain s1 s2 s3 s4 client where
    1: "run_state (on_io (LoadPeersFromConsul (ce_env W))) s = (Ret peers, s1)"
    and 2: "run_state (on_io (GetIDFromName (sf_name fl) peers)) s1 = (Ret nodeID, s2)"
    and 3: "run_state (NewBadgerKV W L (sf_name fl) nodeID) s2 = (Ret kv, s3)"
    and 4: "run_state (ret_or_fatal (load_identity W F ord fl)) s3 = (Ret ids, s4)"
    and 5: "GetNATSConnection (ce_Connect W) (ps_app s4) = Ret (Inr conn)"
    unfolding node_storage_def
    by (auto simp: run_go_bind_Ret run_bind_iff case_sum_Ret simp del: run_on run_state_bind dest!: run_askD)
  have app: "ps_app s1 = ps_app s" "ps_app s2 = ps_app s1" "ps_app s3 = ps_app s2" "ps_app s4 = ps_app s3"
    using keeps_appD [OF _ 1] keeps_appD [OF _ 2] keeps_appD [OF _ 3] keeps_appD [OF _ 4] by (simp_all add: keeps NewBadgerKV_def)
  from assms(2) have p: "as_app (ps_app s) = Some p" and valid: "config_valid (cell p (ps_app s))"
    by (auto simp: started_config_def app_ok_def)
  have "nodeID = GetNodeID (sf_name fl) peers" "nodeID \<noteq> []"
    using 2 by (auto simp: GetIDFromName_def Let_def io_defs split: if_splits)
  moreover note NewBadgerKV_run [OF 3] load_identity_run [OF 4]
  moreover have "cf_NATs (cell p (ps_app s)) \<noteq> None"
    using 5 p app by (auto simp: GetNATSConnection_def GetConfig_def split: option.splits)
  ultimately show ?thesis using p valid app by simp
qed

lemma node_parts_run:
  assumes "run_state (node_parts W N P i peers ids) s = (Ret (reg, n, ec, tc, err), s')" and "started_config p (ps_app s)"
  shows "rg_nodeID reg = i \<and> nd_nodeID n = i \<and> nd_peerIDs n = GetPeerIDs peers \<and> rg_peerNodeIDs reg = P (GetPeerIDs peers) (\<lambda>j. j \<noteq> i)
    \<and> rg_threshold reg = cf_Threshold (cell p (ps_app s)) \<and> cn_threshold ec = rg_threshold reg \<and> 1 \<le> rg_threshold reg
    \<and> cn_keygenSub ec = Some MPCGenerateEvent \<and> cn_signingSub ec = Some MPCSignEvent \<and> cn_resharingSub ec = Some MPCResharingEvent
    \<and> \<not> cn_closed ec \<and> \<not> stopChan_closed (cn_sessionMgr ec)
    \<and> (err = None \<longrightarrow> ConsulPut (readyKey i) ''true'' \<in> set (ps_io s'))"
proof -
  have p: "Threshold (ps_app s) = Ret (cf_Threshold (cell p (ps_app s)))"
    using assms(2) by (simp add: started_config_def cfg_threshold.read_some)
  from assms(1) obtain t reg0 a b c d ec0 s1 s2 s3 s4 s5 where
    0: "Threshold (ps_app s) = Ret t"
    and 1: "run_state (on_io (NewRegistry P i (GetPeerIDs peers) t)) s = (Ret reg0, s1)"
    and 2: "run_state (on_io (NewNode (N\<lparr>ne_E := ce_env W, ne_C := ce_crypto W\<rparr>) i (GetPeerIDs peers))) s1 = (Ret n, s2)"
    and 3: "run_state (on_io (NewEventConsumer n t a b c d)) s2 = (ec0, s3)"
    and 4: "run_state (on_io (Run_consumer (ce_env W) ec0)) s3 = (Ret ec, s4)"
    and 5: "run_state (on_io (Ready (ce_env W) (ce_crypto W) reg0 ids)) s5 = (Ret (err, reg), s')"
    unfolding node_parts_def Let_def
    by (auto simp: run_go_bind_Ret run_bind_iff simp del: run_on run_state_bind dest!: run_askD)
  note facts = run_on_ioD [OF 1] run_on_ioD [OF 2] run_on_ioD [OF 3] run_on_ioD [OF 4] run_on_ioD [OF 5]
  have ec0: "cn_threshold ec0 = t" "\<not> cn_closed ec0" "\<not> stopChan_closed (cn_sessionMgr ec0)"
    using NewEventConsumer_run [of n t a b c d "ps_io s2"] facts(3) by auto
  have "t = cf_Threshold (cell p (ps_app s))" using 0 p by simp
  with ec0 NewRegistry_reads [of P i "GetPeerIDs peers" t "ps_io s" reg0 "ps_io s1"] NewNode_run [of _ i "GetPeerIDs peers" "ps_io s1" n "ps_io s2"]
    Run_consumer_subs [of "ce_env W" ec0 "ps_io s3" ec "ps_io s4"] Ready_run [of "ce_env W" "ce_crypto W" reg0 ids "ps_io s5" err reg "ps_io s'"] facts
  show ?thesis by auto
qed

lemma node_services_run:
  assumes "run_state (node_services W L N F ord P fl cfg) s = (Ret r, s')"
  shows "\<exists>s1 s2. run_state (node_storage W L F ord fl cfg) s =
        (Ret (nr_nodeID r, nr_peers r, nr_kv r, nr_backup r, nr_identity r, nr_conn r), s1)
    \<and> run_state (node_parts W N P (nr_nodeID r) (nr_peers r) (nr_identity r)) s2 =
        (Ret (nr_registry r, nr_node r, nr_consumer r, nr_timeout r, nr_ready r), s')
    \<and> ps_app s1 = ps_app s \<and> ps_app s2 = ps_app s \<and> ps_app s' = ps_app s"
proof -
  from assms obtain s1 s2 where 1: "run_state (node_storage W L F ord fl cfg) s =
        (Ret (nr_nodeID r, nr_peers r, nr_kv r, nr_backup r, nr_identity r, nr_conn r), s1)"
    and 2: "run_state (node_streams W) s1 = (Ret (nr_keygenBroker r, nr_signingBroker r, nr_resharingBroker r, nr_keygenQueue r,
          nr_signingQueue r, nr_resharingQueue r), s2)"
    and 3: "run_state (node_parts W N P (nr_nodeID r) (nr_peers r) (nr_identity r)) s2 =
        (Ret (nr_registry r, nr_node r, nr_consumer r, nr_timeout r, nr_ready r), s')"
    by (auto simp: node_services_def run_go_bind_Ret)
  then show ?thesis
    using keeps_appD [OF keeps_app_services(1) 1] keeps_appD [OF keeps_app_services(2) 2] keeps_appD [OF keeps_app_services(3) 3] by metis
qed

lemma node_start_run:
  assumes "run_state (node_start fuel W L N F ord P fl) s = (Some (Ret (Inr r)), s')"
  shows "\<exists>p s1 s2 s3. started_config p (ps_app s1)
    \<and> run_state (node_storage W L F ord fl p) s1 = (Ret (nr_nodeID r, nr_peers r, nr_kv r, nr_backup r, nr_identity r, nr_conn r), s2)
    \<and> run_state (node_parts W N P (nr_nodeID r) (nr_peers r) (nr_identity r)) s3 =
        (Ret (nr_registry r, nr_node r, nr_consumer r, nr_timeout r, nr_ready r), s')
    \<and> ps_app s3 = ps_app s1 \<and> ps_app s' = ps_app s1"
proof -
  obtain p s1 where cfg: "run_state (node_config fuel W fl) s = (Some (Ret (Inr p)), s1)"
    and srv: "run_state (node_services W L N F ord P fl p) s1 = (Ret r, s')"
    using assms by (auto simp: node_start_def split: option.splits go_res.splits sum.splits prod.splits)
  from node_services_run [OF srv] node_config_run [OF cfg] show ?thesis by blast
qed

text \<open>
  C17: a node that comes up is configured and identified. When the start sequence of \<^verbatim>\<open>runNode\<close> reaches its consumers, the
  configuration in force passed the validation, has a password and a public key of the event initiator (the prompt skips
  the check of that key, and the identity store makes up for it) and a NATS section; the key store was opened under the
  node's own directory with that password, which is also the key of its backups; the node has a non-empty ID, the one Consul lists
  for its name, and the registry, the node and the exclusion of oneself from the peers use it; the threshold is at least
  one and the same everywhere; no symmetric key is shared yet; the three request topics are subscribed; and unless \<^verbatim>\<open>Ready\<close>
  failed, which is only logged, the node's ready key was written.
\<close>

theorem node_comes_up_checked:
  assumes "run_state (node_start fuel W L N F ord P fl) s = (Some (Ret (Inr r)), s')"
  shows "\<exists>p c. GetConfig (ps_app s') = Ret p \<and> c = cell p (ps_app s') \<and> config_valid c \<and> cf_BadgerPassword c \<noteq> [] \<and> cf_EventInitiatorPubKey c \<noteq> [] \<and> cf_NATs c \<noteq> None
    \<and> bd_Open L (filepath_Join (cf_DBPath c) (sf_name fl)) (cf_BadgerPassword c) = Inr (kv_DB (nr_kv r))
    \<and> (\<exists>b. kv_BackupExecutor (nr_kv r) = Some b \<and> bx_BackupEncryptionKey b = cf_BadgerPassword c \<and> bx_BackupDir b = cf_BackupDir c)
    \<and> nr_nodeID r = GetNodeID (sf_name fl) (nr_peers r) \<and> nr_nodeID r \<noteq> []
    \<and> rg_nodeID (nr_registry r) = nr_nodeID r \<and> nd_nodeID (nr_node r) = nr_nodeID r
    \<and> rg_peerNodeIDs (nr_registry r) = P (GetPeerIDs (nr_peers r)) (\<lambda>j. j \<noteq> nr_nodeID r) \<and> nd_peerIDs (nr_node r) = GetPeerIDs (nr_peers r)
    \<and> rg_threshold (nr_registry r) = cf_Threshold c \<and> cn_threshold (nr_consumer r) = cf_Threshold c \<and> 1 \<le> cf_Threshold c
    \<and> initiator_key_ok (initiatorKey (nr_identity r)) \<and> symmetricKeys (nr_identity r) = []
    \<and> cn_keygenSub (nr_consumer r) = Some MPCGenerateEvent \<and> cn_signingSub (nr_consumer r) = Some MPCSignEvent
    \<and> cn_resharingSub (nr_consumer r) = Some MPCResharingEvent \<and> \<not> cn_closed (nr_consumer r)
    \<and> (nr_ready r = None \<longrightarrow> ConsulPut (readyKey (nr_nodeID r)) ''true'' \<in> set (ps_io s'))"
proof -
  obtain p s1 s2 s3 where started: "started_config p (ps_app s1)"
    and st: "run_state (node_storage W L F ord fl p) s1 =
        (Ret (nr_nodeID r, nr_peers r, nr_kv r, nr_backup r, nr_identity r, nr_conn r), s2)"
    and pa: "run_state (node_parts W N P (nr_nodeID r) (nr_peers r) (nr_identity r)) s3 =
        (Ret (nr_registry r, nr_node r, nr_consumer r, nr_timeout r, nr_ready r), s')"
    and app: "ps_app s3 = ps_app s1" "ps_app s' = ps_app s1"
    using node_start_run [OF assms] by blast
  have "GetConfig (ps_app s') = Ret p" "config_valid (cell p (ps_app s'))" "cf_BadgerPassword (cell p (ps_app s')) \<noteq> []"
    using started app by (auto simp: started_config_def app_ok_def GetConfig_def)
  then show ?thesis
    using node_storage_run [OF st started] node_parts_run [OF pa, unfolded app(1), OF started] app
    by (intro exI [of _ p] exI [of _ "cell p (ps_app s')"]) auto
qed

text \<open>A node that starts: its name is listed in Consul, its password is typed in.\<close>

definition start_config :: Config where
  "start_config = config_ref\<lparr>cf_EventInitiatorPubKey := hex_EncodeToString (replicate 32 CHR ''i'')\<rparr>"

definition start_env :: "unit cmd_env" where
  "start_env = cmd_ref\<lparr>ce_viper := viper_ref\<lparr>vl_Decode := \<lambda>_. Inr start_config\<rparr>\<rparr>"

definition start_files :: files where
  "start_files = \<lparr>fl_Stat = \<lambda>_. None,
     fl_ReadFile = \<lambda>p.
       if p = ''peers.json'' then Inr (json_print (JObj [(''node0'', JStr ''id0'')]))
       else if p = ''identity/node0_private.key'' then Inr (hex_EncodeToString (replicate 64 CHR ''k''))
       else if p = ''identity/node0_identity.json'' then
         Inr (json_print (JObj [(''node_id'', JStr ''id0''), (''public_key'', JStr (hex_EncodeToString ''p''))]))
       else Inl (Sentinel ErrNotExist)\<rparr>"

definition start_flags :: node_flags where
  "start_flags = \<lparr>sf_name = ''node0'', sf_config = [], sf_decrypt = False, sf_prompt = True, sf_passwordFile = [], sf_agePasswordFile = []\<rparr>"

definition start_state :: proc where
  "start_state = (proc_ref disk_empty)\<lparr>ps_io := [ConsulPut ''mpc_peers/node0'' ''id0'', ConsulPut ''mpc_peers/node1'' ''id1'']\<rparr>"

definition start_identity :: fileStore where
  "start_identity = \<lparr>publicKeys = [(''id0'', ''p'')], privateKey = replicate 64 CHR ''k'',
     initiatorKey = \<lparr>ik_Algorithm = EventInitiatorKeyTypeEd25519, ik_Ed25519 = replicate 32 CHR ''i'', ik_P256 = None\<rparr>,
     symmetricKeys = []\<rparr>"

lemma start_env_fields:
  "ce_disk start_env = disk_good" "ce_env start_env = env_consul" "ce_nats start_env = nats_ref" "ce_consul start_env = consul_ref"
  "ce_Connect start_env = (\<lambda>_ _. None)" "ce_age start_env = age_none" "ce_crypto start_env = crypto_ref"
  "ce_tty start_env i = Inr ''correct horse battery!''" "ce_Getwd start_env = Inr ''/srv''"
  by (simp_all add: start_env_def cmd_ref_def)

lemma start_identity_loads:
  "NewFileStore crypto_ref start_files age_none
     \<lparr>ie_Getwd = Inr ''/srv'', ie_ReadPassword = Inr ''correct horse battery!'', ie_MkdirAll = \<lambda>_. None,
      ie_EventInitiatorAlgorithm = ''ed25519'', ie_EventInitiatorPubKey = hex_EncodeToString (replicate 32 CHR ''i'')\<rparr>
     (\<lambda>m. m) ''identity'' ''node0'' False [] = Inr start_identity"
  (is "NewFileStore _ _ _ ?I _ _ _ _ _ = _")
proof -
  have paths: "SafePath (Inr ''/srv'') ''identity'' ''node0_private.key.age'' = Inr ''identity/node0_private.key.age''"
    "SafePath (Inr ''/srv'') ''identity'' ''node0_private.key'' = Inr ''identity/node0_private.key''" by code_simp+
  have "loadPrivateKey start_files age_none ?I ''identity'' ''node0'' False [] = Inr (hex_EncodeToString (replicate 64 CHR ''k''))"
    by (simp add: loadPrivateKey_def paths start_files_def)
  moreover have "loadInitiatorKeys crypto_ref ''ed25519'' (hex_EncodeToString (replicate 32 CHR ''i'')) = Inr (initiatorKey start_identity)"
    by code_simp
  moreover have "fl_ReadFile start_files ''peers.json'' = Inr (json_print (JObj [(''node0'', JStr ''id0'')]))" by (simp add: start_files_def)
  moreover have "Unmarshal_peers (json_print (JObj [(''node0'', JStr ''id0'')])) = ([(''node0'', ''id0'')], None)" by code_simp
  moreover have "load_peers start_files ?I ''identity'' [(''node0'', ''id0'')] [] = Inr [(''id0'', ''p'')]" by code_simp
  ultimately show ?thesis by (simp add: NewFileStore_def hex_round_trip start_identity_def)
qed

lemma start_config_loads:
  "run_state (Load (ce_viper start_env)) (ps_app start_state) = (Inr 0,
    (ps_app start_state)\<lparr>as_viper := as_viper (ps_app start_state) @ viper_setup (config_file_of (ps_app start_state)) @ [V_ReadInConfig],
      as_cells := [applyDefaults start_config], as_app := Some 0\<rparr>)"
proof -
  have "validateEnvironment (cf_Environment (applyDefaults start_config)) = None" by code_simp
  then show ?thesis
    by (simp add: Load_def run_initConfig start_env_def viper_ref_def LoadConfig_def new_cell_def setConfig_def start_state_def proc_ref_def)
qed

definition start_configured :: proc where
  "start_configured = snd (run_state (node_config 1 start_env start_flags) start_state)"

lemma start_configured_ok:
  "fst (run_state (node_config 1 start_env start_flags) start_state) = Some (Ret (Inr 0))
   \<and> as_app (ps_app start_configured) = Some 0
   \<and> cell 0 (ps_app start_configured) = (applyDefaults start_config)\<lparr>cf_BadgerPassword := ''correct horse battery!''\<rparr>
   \<and> ps_io start_configured = ps_io start_state"
  by (simp add: start_configured_def node_config_def start_flags_def start_config_loads promptForSensitiveCredentials_def start_env_fields
      set_password_def SetBadgerPassword_def Update_config_def write_cell_def cell_def)

lemma start_values:
  "cf_Consul (applyDefaults start_config) = cf_Consul config_ref" "cf_NATs (applyDefaults start_config) = cf_NATs config_ref"
  "cf_DBPath (applyDefaults start_config) \<noteq> []" "cf_BackupDir (applyDefaults start_config) \<noteq> []"
  "cf_EventInitiatorAlgorithm (applyDefaults start_config) = ''ed25519''"
  "cf_EventInitiatorPubKey (applyDefaults start_config) = hex_EncodeToString (replicate 32 CHR ''i'')"
  "cf_Environment (applyDefaults start_config) = ''development''" "\<not> cf_BackupEnabled (applyDefaults start_config)"
  "cf_Threshold (applyDefaults start_config) = 1" "cf_MaxConcurrentKeygen (applyDefaults start_config) = 2"
  "cf_MaxConcurrentSigning (applyDefaults start_config) = 10" "cf_MaxConcurrentResharing (applyDefaults start_config) = 5"
  "cf_SessionWarmUpDelayMillis (applyDefaults start_config) = 100"
  by (simp_all add: start_config_def config_ref_def applyDefaults_def or_else_def default_defs Config_zero_def)

lemma start_consul:
  "run_state (LoadPeersFromConsul env_consul) (ps_io start_configured) =
     (Ret [\<lparr>pr_ID = ''id0'', pr_Name = ''node0''\<rparr>, \<lparr>pr_ID = ''id1'', pr_Name = ''node1''\<rparr>],
      ps_io start_state @ [ConsulList ''mpc_peers/''])"
  using start_configured_ok
  by (simp add: LoadPeersFromConsul_def config_LoadPeersFromConsul_def io_defs env_consul_def peers_prefix_def strings_HasPrefix_def
      start_state_def)

lemma start_storage:
  "\<exists>kv conn s. run_state (node_storage start_env badger_ref start_files (\<lambda>m. m) start_flags 0) start_configured =
     (Ret (''id0'', [\<lparr>pr_ID = ''id0'', pr_Name = ''node0''\<rparr>, \<lparr>pr_ID = ''id1'', pr_Name = ''node1''\<rparr>], kv, None, start_identity, conn), s)
     \<and> ps_app s = ps_app start_configured"
proof -
  note c = start_configured_ok start_values
  obtain client where "GetConsulClient consul_ref (ps_app start_configured) = Ret client"
    using consul_client_ref [of "ps_app start_configured" 0] c by (auto simp: config_ref_def)
  moreover have "run_state (GetIDFromName ''node0'' [\<lparr>pr_ID = ''id0'', pr_Name = ''node0''\<rparr>, \<lparr>pr_ID = ''id1'', pr_Name = ''node1''\<rparr>]) tr
      = (Ret ''id0'', tr)" for tr
    by (simp add: GetIDFromName_def)
  ultimately show ?thesis
    using c start_consul
    by (simp add: node_storage_def run_go_bind start_env_fields start_flags_def NewBadgerKV_def Let_def
      cfg_db_path.read_some cfg_backup_dir.read_some cfg_password.read_some cfg_pubkey.read_some cfg_algorithm.read_some
      NewBadgerKVStore_def NewBadgerBackupExecutor_def badger_ref_def disk_defs disk_good_def ret_or_fatal_def load_identity_def identity_env_of_def
      start_identity_loads GetNATSConnection_def GetConfig_def config_ref_def split: sum.splits)
qed

lemma start_streams: "\<exists>b1 b2 b3 q1 q2 q3 s'. run_state (node_streams start_env) s = (Ret (b1, b2, b3, q1, q2, q3), s') \<and> ps_app s' = ps_app s"
  by (simp add: node_streams_def run_go_bind ret_or_fatal_def ret_or_exit_def start_env_fields NewJetStreamBroker_def ensureStreamExists_def
      NewNATsMessageQueueManager_def NewMessageQueue_def nats_ref_def Let_def)

lemma env_consul_fields: "en_Subscribe env_consul = (\<lambda>_ _. None)" "en_Listen env_consul = (\<lambda>_ _. None)"
  by (simp_all add: env_consul_def env_ref_def)

lemma start_pre_params:
  "\<exists>x tr'. run_state (generatePreParams ((node_env_ref E)\<lparr>ne_E := env_consul, ne_C := crypto_ref\<rparr>)) tr = (Ret x, tr')"
  by (simp add: generatePreParams_def load_pre_params_def node_env_ref_def env_consul_def env_ref_def io_defs Let_def split: sum.splits option.splits)

lemma start_ready:
  "fst (run_state (Ready env_consul crypto_ref r start_identity) tr) = Ret (None, r\<lparr>rg_ecdhSession := (rg_ecdhSession r)
     \<lparr>ec_privateKey := Some (replicate 32 CHR ''r''), ec_publicKey := Some (cr_X25519Public crypto_ref (replicate 32 CHR ''r'')),
      ec_ecdhSub := Some ECDHExchangeTopic\<rparr>\<rparr>)"
  by (simp add: Ready_def startECDHExchange_def ListenKeyExchange_def BroadcastPublicKey_def io_defs env_consul_def env_ref_def Let_def
      SignEcdhMessage_def ed25519_Sign_def start_identity_def ed25519_PrivateKeySize_def)

lemma start_parts:
  assumes "ps_app s = ps_app start_configured"
  shows "\<exists>reg n ec tc s'. run_state (node_parts start_env (node_env_ref env_ref) (\<lambda>xs p. filter p xs) ''id0''
      [\<lparr>pr_ID = ''id0'', pr_Name = ''node0''\<rparr>, \<lparr>pr_ID = ''id1'', pr_Name = ''node1''\<rparr>] start_identity) s = (Ret (reg, n, ec, tc, None), s')"
proof -
  obtain x tr' where 1: "run_state (generatePreParams ((node_env_ref env_ref)\<lparr>ne_E := env_consul, ne_C := crypto_ref\<rparr>))
      (ps_io s @ [Go ''consumeECDHErrors'']) = (Ret x, tr')"
    using start_pre_params by blast
  have "Threshold (ps_app s) = Ret 1" using start_configured_ok start_values assms by (simp add: cfg_threshold.read_some)
  then show ?thesis
    using start_configured_ok
    by (simp add: node_parts_def run_go_bind start_ready start_values Let_def start_env_fields assms NewRegistry_def io_defs NewNode_def 1 GetPeerIDs_def
        NewEventConsumer_def Run_consumer_def consumeKeyGenerationEvent_def consumeSigningEvent_def consumeResharingEvent_def
        env_consul_fields timeout_Run_def cfg_keygen.read_some cfg_signing.read_some cfg_resharing.read_some cfg_warm_up.read_some)
qed

lemma start_runs:
  "\<exists>r s'. run_state (node_start 1 start_env badger_ref (node_env_ref env_ref) start_files (\<lambda>m. m) (\<lambda>xs p. filter p xs) start_flags) start_state
     = (Some (Ret (Inr r)), s') \<and> nr_nodeID r = ''id0'' \<and> nr_ready r = None"
proof -
  let ?run = "node_start 1 start_env badger_ref (node_env_ref env_ref) start_files (\<lambda>m. m) (\<lambda>xs p. filter p xs) start_flags"
  have cfg: "run_state (node_config 1 start_env start_flags) start_state = (Some (Ret (Inr 0)), start_configured)"
    using start_configured_ok by (simp add: start_configured_def prod_eq_iff)
  obtain kv conn s1 where 1: "run_state (node_storage start_env badger_ref start_files (\<lambda>m. m) start_flags 0) start_configured =
      (Ret (''id0'', [\<lparr>pr_ID = ''id0'', pr_Name = ''node0''\<rparr>, \<lparr>pr_ID = ''id1'', pr_Name = ''node1''\<rparr>], kv, None, start_identity, conn), s1)"
      "ps_app s1 = ps_app start_configured" using start_storage by blast
  obtain b1 b2 b3 q1 q2 q3 s2 where 2: "run_state (node_streams start_env) s1 = (Ret (b1, b2, b3, q1, q2, q3), s2)" "ps_app s2 = ps_app s1"
    using start_streams by blast
  obtain reg n ec tc s3 where 3: "run_state (node_parts start_env (node_env_ref env_ref) (\<lambda>xs p. filter p xs) ''id0''
      [\<lparr>pr_ID = ''id0'', pr_Name = ''node0''\<rparr>, \<lparr>pr_ID = ''id1'', pr_Name = ''node1''\<rparr>] start_identity) s2 = (Ret (reg, n, ec, tc, None), s3)"
    using start_parts [of s2] 1(2) 2(2) by auto
  show ?thesis by (intro exI conjI) (simp add: node_start_def cfg [unfolded One_nat_def] node_services_def run_go_bind 1(1) 2(1) 3, simp_all)
qed

theorem node_comes_up_checked_witness:
  "\<exists>r s'. run_state (node_start 1 start_env badger_ref (node_env_ref env_ref) start_files (\<lambda>m. m) (\<lambda>xs p. filter p xs) start_flags) start_state
       = (Some (Ret (Inr r)), s')
     \<and> nr_nodeID r = ''id0'' \<and> rg_threshold (nr_registry r) \<ge> 1 \<and> ConsulPut (readyKey ''id0'') ''true'' \<in> set (ps_io s')"
proof -
  obtain r s' where run: "run_state (node_start 1 start_env badger_ref (node_env_ref env_ref) start_files (\<lambda>m. m) (\<lambda>xs p. filter p xs) start_flags)
      start_state = (Some (Ret (Inr r)), s')" and r: "nr_nodeID r = ''id0''" "nr_ready r = None" using start_runs by blast
  from node_comes_up_checked [OF run] r run show ?thesis by auto
qed

end
