(* ===== verification/Node_Run.thy ===== *)
theory Node_Run
  imports Node_Start
begin

text \<open>
  The running node and how it ends: the rest of \<^verbatim>\<open>runNode\<close> in \<^verbatim>\<open>cmd/node/start.go\<close>. Five goroutines and the main one
  interleave: the one that waits for a signal, the three consumers, and the one that closes the channel of errors when
  the consumers are done. The main goroutine ranges over that channel, and the deferred calls run when it returns, the
  last one first. When it has returned, the program ends, whatever the other goroutines do. The steps of the goroutines
  are the relation \<open>run_step\<close>; what handlers and watchers do meanwhile are the calls that \<open>node_step\<close> may add.
\<close>

section \<open>The goroutines\<close>

datatype stream = Keygen_stream | Signing_stream | Resharing_stream

text \<open>
  Where a consumer's goroutine is: it waits for peers, is about to subscribe, serves requests, sends its error to the
  channel, returns, or is done.
\<close>

datatype phase = Waiting | Subscribing | Subscribed | Sending go_error | Returning "go_error option" | Finished "go_error option"

datatype sig_action = Sa_cancel | Sa_resign | Sa_close stream | Sa_drain

datatype deferred = Df_kv | Df_backup | Df_queue messageQueue | Df_node | Df_consumer | Df_timeout

datatype main_pc = Main_loop | Main_return "go_error option" "deferred list" | Main_exit "go_error option"

record node_state =
  ns_ctx :: bool
  ns_phase :: "stream \<Rightarrow> phase"
  ns_sub :: "stream \<Rightarrow> string option"
  ns_signal :: "sig_action list option"
  ns_errs :: "go_error list"
  ns_errs_closed :: bool
  ns_main :: main_pc
  ns_consumer :: eventConsumer
  ns_tr :: "call list"
  ns_nats :: "nats_call list"
  ns_backup :: bool
  ns_kv_closed :: bool
  ns_panicked :: bool

text \<open>
  The services while the node runs. \<open>re_subscribe\<close> is \<^verbatim>\<open>CreateSubscription\<close> of a broker, which is given the context: its
  first argument says whether the context is cancelled.
\<close>

record run_env =
  re_env :: env
  re_nats :: nats_env
  re_subscribe :: "bool \<Rightarrow> call list \<Rightarrow> string \<Rightarrow> go_error option"

fun stream_topic :: "stream \<Rightarrow> string" where
  "stream_topic Keygen_stream = KeygenRequestTopic"
| "stream_topic Signing_stream = SigningRequestTopic"
| "stream_topic Resharing_stream = ResharingRequestTopic"

fun stream_name :: "stream \<Rightarrow> string" where
  "stream_name Keygen_stream = ''keygen''"
| "stream_name Signing_stream = ''signing''"
| "stream_name Resharing_stream = ''resharing''"

text \<open>Does the event end the wait for peers? The resharing consumer does not wait.\<close>

fun stream_wait :: "stream \<Rightarrow> wait_event \<Rightarrow> go_error option option" where
  "stream_wait Keygen_stream ev = keygen_waitForSufficientPeers [ev]"
| "stream_wait Signing_stream ev = signing_waitForSufficientPeers NewSigningConsumer [ev]"
| "stream_wait Resharing_stream ev = Some None"

fun stream_Close :: "env \<Rightarrow> stream \<Rightarrow> string option \<Rightarrow> go_error option io" where
  "stream_Close E Keygen_stream sub = keygen_Close E (NewKeygenConsumer\<lparr>kc_jsSub := sub\<rparr>)"
| "stream_Close E Signing_stream sub = signing_Close E (NewSigningConsumer\<lparr>sc_jsSub := sub\<rparr>)"
| "stream_Close E Resharing_stream sub = resharing_Close E (NewResharingConsumer\<lparr>rc_jsSub := sub\<rparr>)"

definition consumer_error :: "stream \<Rightarrow> go_error \<Rightarrow> go_error" where
  "consumer_error k err = wrapf (stream_name k @ '' consumer error'') err"

definition set_phase :: "stream \<Rightarrow> phase \<Rightarrow> node_state \<Rightarrow> node_state" where
  "set_phase k p s = s\<lparr>ns_phase := (ns_phase s)(k := p)\<rparr>"

text \<open>The goroutine that waits for the signal: what it does afterwards, in this order.\<close>

definition shutdown_actions :: "sig_action list" where
  "shutdown_actions =
     [Sa_cancel, Sa_resign, Sa_close Keygen_stream, Sa_close Signing_stream, Sa_close Resharing_stream, Sa_drain]"

fun sig_run :: "run_env \<Rightarrow> 'db node_run \<Rightarrow> sig_action \<Rightarrow> node_state \<Rightarrow> node_state" where
  "sig_run W r Sa_cancel s = s\<lparr>ns_ctx := True\<rparr>"
| "sig_run W r Sa_resign s = s\<lparr>ns_tr := snd (run_state (Resign (re_env W) (nr_registry r)) (ns_tr s))\<rparr>"
| "sig_run W r (Sa_close k) s = s\<lparr>ns_tr := snd (run_state (stream_Close (re_env W) k (ns_sub s k)) (ns_tr s))\<rparr>"
| "sig_run W r Sa_drain s = s\<lparr>ns_nats := snd (run_state (nats_do (re_nats W) Nc_Drain) (ns_nats s))\<rparr>"

text \<open>The deferred calls in the order of their \<^verbatim>\<open>defer\<close> statements; they run in the opposite order.\<close>

definition deferred_calls :: "'db node_run \<Rightarrow> deferred list" where
  "deferred_calls r =
     [Df_kv] @ (if nr_backup r = None then [] else [Df_backup])
     @ [Df_queue (nr_keygenQueue r), Df_queue (nr_signingQueue r), Df_queue (nr_resharingQueue r), Df_node, Df_consumer, Df_timeout]"

fun deferred_run :: "run_env \<Rightarrow> 'db node_run \<Rightarrow> deferred \<Rightarrow> node_state \<Rightarrow> node_state" where
  "deferred_run W r Df_kv s = s\<lparr>ns_kv_closed := True\<rparr>"
| "deferred_run W r Df_backup s = s\<lparr>ns_backup := False\<rparr>"
| "deferred_run W r (Df_queue q) s = s\<lparr>ns_nats := snd (run_state (mq_Close (re_nats W) q) (ns_nats s))\<rparr>"
| "deferred_run W r Df_node s = s\<lparr>ns_tr := snd (run_state (Close_node (re_env W) (nr_registry r)) (ns_tr s))\<rparr>"
| "deferred_run W r Df_consumer s =
     (case run_state (Close_consumer (re_env W) (ns_consumer s)) (ns_tr s) of
        (Panic, tr) \<Rightarrow> s\<lparr>ns_tr := tr, ns_panicked := True\<rparr>
      | (Ret (_, ec), tr) \<Rightarrow> s\<lparr>ns_tr := tr, ns_consumer := ec\<rparr>)"
| "deferred_run W r Df_timeout s = s\<lparr>ns_tr := snd (run_state (timeout_Close (re_env W) (nr_timeout r)) (ns_tr s))\<rparr>"

definition run_init :: "'db node_run \<Rightarrow> call list \<Rightarrow> nats_call list \<Rightarrow> node_state" where
  "run_init r tr nt =
     \<lparr>ns_ctx = False, ns_phase = (\<lambda>_. Waiting)(Resharing_stream := Subscribing), ns_sub = \<lambda>_. None, ns_signal = None, ns_errs = [],
      ns_errs_closed = False, ns_main = Main_loop, ns_consumer = nr_consumer r, ns_tr = tr, ns_nats = nt,
      ns_backup = (nr_backup r \<noteq> None), ns_kv_closed = False, ns_panicked = False\<rparr>"

fun running :: "main_pc \<Rightarrow> bool" where
  "running (Main_exit e) = False"
| "running _ = True"

text \<open>
  A step of one goroutine. The channel of errors holds three; a send on a closed channel panics. A consumer that waits
  passes on when there are enough peers, and also when its context is cancelled: \<^verbatim>\<open>waitForSufficientPeers\<close> returns no error
  then.
\<close>

inductive run_step :: "run_env \<Rightarrow> 'db node_run \<Rightarrow> node_state \<Rightarrow> node_state \<Rightarrow> bool" for W :: run_env and r :: "'db node_run" where
  signal: "running (ns_main s) \<Longrightarrow> ns_signal s = None \<Longrightarrow> run_step W r s (s\<lparr>ns_signal := Some shutdown_actions\<rparr>)"
| sig_act: "running (ns_main s) \<Longrightarrow> ns_signal s = Some (a # as) \<Longrightarrow> run_step W r s ((sig_run W r a s)\<lparr>ns_signal := Some as\<rparr>)"
| peers_ready: "running (ns_main s) \<Longrightarrow> ns_phase s k = Waiting \<Longrightarrow> stream_wait k (Tick reg ids) = Some None \<Longrightarrow>
    run_step W r s (set_phase k Subscribing s)"
| wait_cancelled: "running (ns_main s) \<Longrightarrow> ns_phase s k = Waiting \<Longrightarrow> ns_ctx s \<Longrightarrow>
    stream_wait k (Ctx_done (Sentinel ErrCanceled)) = Some None \<Longrightarrow> run_step W r s (set_phase k Subscribing s)"
| subscribed: "running (ns_main s) \<Longrightarrow> ns_phase s k = Subscribing \<Longrightarrow> re_subscribe W (ns_ctx s) (ns_tr s) (stream_topic k) = None \<Longrightarrow>
    run_step W r s ((set_phase k Subscribed s)\<lparr>ns_sub := (ns_sub s)(k := Some (stream_topic k)), ns_tr := ns_tr s @ [Subscribe (stream_topic k)]\<rparr>)"
| not_subscribed: "running (ns_main s) \<Longrightarrow> ns_phase s k = Subscribing \<Longrightarrow> re_subscribe W (ns_ctx s) (ns_tr s) (stream_topic k) = Some e \<Longrightarrow>
    run_step W r s ((set_phase k (Sending (consumer_error k (wrapf (''failed to subscribe to '' @ stream_name k @ '' events'') e))) s)
      \<lparr>ns_tr := ns_tr s @ [Subscribe (stream_topic k)]\<rparr>)"
| unsubscribed: "running (ns_main s) \<Longrightarrow> ns_phase s k = Subscribed \<Longrightarrow> ns_ctx s \<Longrightarrow>
    run_state (stream_Close (re_env W) k (ns_sub s k)) (ns_tr s) = (err, tr) \<Longrightarrow>
    run_step W r s ((set_phase k (case err of None \<Rightarrow> Returning None | Some e \<Rightarrow> Sending (consumer_error k e)) s)\<lparr>ns_tr := tr\<rparr>)"
| send: "running (ns_main s) \<Longrightarrow> ns_phase s k = Sending e \<Longrightarrow> length (ns_errs s) < 3 \<Longrightarrow>
    run_step W r s ((set_phase k (Returning (Some e)) s)\<lparr>ns_errs := ns_errs s @ [e], ns_panicked := (ns_panicked s \<or> ns_errs_closed s)\<rparr>)"
| wg_done: "running (ns_main s) \<Longrightarrow> ns_phase s k = Returning e \<Longrightarrow> run_step W r s (set_phase k (Finished e) s)"
| close_errs: "running (ns_main s) \<Longrightarrow> \<not> ns_errs_closed s \<Longrightarrow> (\<And>k. \<exists>e. ns_phase s k = Finished e) \<Longrightarrow>
    run_step W r s (s\<lparr>ns_errs_closed := True\<rparr>)"
| main_error: "ns_main s = Main_loop \<Longrightarrow> ns_errs s = e # es \<Longrightarrow>
    run_step W r s (s\<lparr>ns_errs := es, ns_ctx := True, ns_main := Main_return (Some e) (rev (deferred_calls r))\<rparr>)"
| main_done: "ns_main s = Main_loop \<Longrightarrow> ns_errs s = [] \<Longrightarrow> ns_errs_closed s \<Longrightarrow>
    run_step W r s (s\<lparr>ns_main := Main_return None (rev (deferred_calls r))\<rparr>)"
| main_deferred: "ns_main s = Main_return e (d # ds) \<Longrightarrow> run_step W r s ((deferred_run W r d s)\<lparr>ns_main := Main_return e ds\<rparr>)"
| main_exit: "ns_main s = Main_return e [] \<Longrightarrow> run_step W r s (s\<lparr>ns_main := Main_exit e\<rparr>)"

text \<open>A step of the node: one of these, or calls made by the handlers and watchers.\<close>

definition node_step :: "run_env \<Rightarrow> 'db node_run \<Rightarrow> node_state \<Rightarrow> node_state \<Rightarrow> bool" where
  "node_step W r s s' \<longleftrightarrow> run_step W r s s' \<or> (\<exists>calls. running (ns_main s) \<and> s' = s\<lparr>ns_tr := ns_tr s @ calls\<rparr>)"

definition node_reach :: "run_env \<Rightarrow> 'db node_run \<Rightarrow> node_state \<Rightarrow> node_state \<Rightarrow> bool" where
  "node_reach W r = (node_step W r)\<^sup>*\<^sup>*"

section \<open>The channel of errors\<close>

lemma set_phase_fields [simp]:
  "ns_phase (set_phase k p s) = (ns_phase s)(k := p)" "ns_ctx (set_phase k p s) = ns_ctx s" "ns_sub (set_phase k p s) = ns_sub s"
  "ns_signal (set_phase k p s) = ns_signal s" "ns_errs (set_phase k p s) = ns_errs s" "ns_errs_closed (set_phase k p s) = ns_errs_closed s"
  "ns_main (set_phase k p s) = ns_main s" "ns_consumer (set_phase k p s) = ns_consumer s" "ns_tr (set_phase k p s) = ns_tr s"
  "ns_backup (set_phase k p s) = ns_backup s" "ns_kv_closed (set_phase k p s) = ns_kv_closed s" "ns_panicked (set_phase k p s) = ns_panicked s"
  by (simp_all add: set_phase_def)

lemma sig_run_fields [simp]:
  "ns_phase (sig_run W r a s) = ns_phase s" "ns_sub (sig_run W r a s) = ns_sub s" "ns_errs (sig_run W r a s) = ns_errs s"
  "ns_errs_closed (sig_run W r a s) = ns_errs_closed s" "ns_main (sig_run W r a s) = ns_main s" "ns_consumer (sig_run W r a s) = ns_consumer s"
  "ns_backup (sig_run W r a s) = ns_backup s" "ns_kv_closed (sig_run W r a s) = ns_kv_closed s" "ns_panicked (sig_run W r a s) = ns_panicked s"
  by (cases a; simp)+

lemma deferred_run_fields [simp]:
  "ns_phase (deferred_run W r d s) = ns_phase s" "ns_ctx (deferred_run W r d s) = ns_ctx s" "ns_signal (deferred_run W r d s) = ns_signal s"
  "ns_errs (deferred_run W r d s) = ns_errs s" "ns_errs_closed (deferred_run W r d s) = ns_errs_closed s"
  by (cases d; simp split: prod.splits go_res.splits)+

text \<open>A consumer that has sent its error.\<close>

fun reported :: "phase \<Rightarrow> bool" where
  "reported (Returning (Some e)) = True"
| "reported (Finished (Some e)) = True"
| "reported _ = False"

definition report_count :: "(stream \<Rightarrow> phase) \<Rightarrow> nat" where
  "report_count ph = length (filter (\<lambda>k. reported (ph k)) [Keygen_stream, Signing_stream, Resharing_stream])"

lemma report_count_le: "report_count ph \<le> 3"
  unfolding report_count_def by (rule order_trans [OF length_filter_le]) simp

lemma report_count_set:
  "\<not> reported (ph k) \<Longrightarrow> report_count (ph(k := p)) = report_count ph + (if reported p then 1 else 0)"
  "reported (ph k) \<Longrightarrow> reported p \<Longrightarrow> report_count (ph(k := p)) = report_count ph"
  by (cases k; simp add: report_count_def)+

definition chan_inv :: "node_state \<Rightarrow> bool" where
  "chan_inv s \<longleftrightarrow> (ns_errs_closed s \<longrightarrow> (\<forall>k. \<exists>e. ns_phase s k = Finished e)) \<and> length (ns_errs s) \<le> report_count (ns_phase s)
     \<and> (ns_main s = Main_loop \<longrightarrow> (\<forall>k e. ns_phase s k \<in> {Returning (Some e), Finished (Some e)} \<longrightarrow> e \<in> set (ns_errs s)))"

inductive_cases run_stepE: "run_step W r s s'"

lemma chan_inv_open: "chan_inv s \<Longrightarrow> (\<And>e. ns_phase s k \<noteq> Finished e) \<Longrightarrow> \<not> ns_errs_closed s"
  unfolding chan_inv_def by blast

lemma chan_inv_quiet:
  assumes "chan_inv s" and "\<not> ns_errs_closed s" and "\<not> reported (ns_phase s k)" and "\<not> reported p"
  shows "chan_inv (set_phase k p s)"
proof -
  have "p \<noteq> Returning (Some e)" "p \<noteq> Finished (Some e)" for e using assms(4) by auto
  with assms show ?thesis by (auto simp: chan_inv_def report_count_set)
qed

text \<open>A step that changes only the phase of a consumer which has not reported before and does not now.\<close>

lemma chan_inv_phase:
  assumes "chan_inv s" and "ns_phase s k = q" and "q \<in> {Waiting, Subscribing, Subscribed}" and "\<not> reported p"
  shows "chan_inv (set_phase k p s)"
proof -
  have "\<not> ns_errs_closed s" "\<not> reported (ns_phase s k)" using assms chan_inv_open [OF assms(1), of k] by auto
  from chan_inv_quiet [OF assms(1) this assms(4)] show ?thesis .
qed

lemma chan_inv_update: "chan_inv (s\<lparr>ns_tr := t\<rparr>) = chan_inv s" "chan_inv (s\<lparr>ns_sub := f\<rparr>) = chan_inv s"
  "chan_inv (s\<lparr>ns_signal := g\<rparr>) = chan_inv s" "chan_inv (s\<lparr>ns_panicked := b\<rparr>) = chan_inv s"
  by (simp_all add: chan_inv_def)

lemma chan_inv_step:
  assumes "run_step W r s s'" and "chan_inv s"
  shows "chan_inv s'"
  using assms(1)
proof cases
  case (unsubscribed k err tr)
  then show ?thesis
    using chan_inv_phase [OF assms(2), of k] by (auto simp: chan_inv_update split: option.splits)
next
  case (send k e)
  have "\<not> ns_errs_closed s" using chan_inv_open [OF assms(2), of k] send(3) by auto
  then show ?thesis using assms(2) send(3) by (auto simp: send(1) chan_inv_def report_count_set)
next
  case (wg_done k e)
  have open_chan: "\<not> ns_errs_closed s" using chan_inv_open [OF assms(2), of k] wg_done(3) by auto
  show ?thesis
  proof (cases e)
    case None
    then show ?thesis using chan_inv_quiet [OF assms(2) open_chan, of k] wg_done by simp
  next
    case (Some x)
    then show ?thesis using assms(2) open_chan wg_done by (auto simp: chan_inv_def report_count_set)
  qed
next
  case (peers_ready k reg ids)
  then show ?thesis using chan_inv_phase [OF assms(2), of k] by simp
next
  case (wait_cancelled k)
  then show ?thesis using chan_inv_phase [OF assms(2), of k] by simp
next
  case (subscribed k)
  then show ?thesis using chan_inv_phase [OF assms(2), of k] by (simp add: chan_inv_update)
next
  case (not_subscribed k e)
  then show ?thesis using chan_inv_phase [OF assms(2), of k] by (simp add: chan_inv_update)
qed (use assms(2) in \<open>auto simp: chan_inv_def\<close>)

section \<open>How the program ends\<close>

fun main_result :: "main_pc \<Rightarrow> go_error option option" where
  "main_result Main_loop = None"
| "main_result (Main_return e ds) = Some e"
| "main_result (Main_exit e) = Some e"

definition is_consumer_error :: "go_error \<Rightarrow> bool" where
  "is_consumer_error e \<longleftrightarrow> (\<exists>k err. e = consumer_error k err)"

definition end_inv :: "node_state \<Rightarrow> bool" where
  "end_inv s \<longleftrightarrow> (\<forall>k. ns_phase s k \<in> {Returning None, Finished None} \<longrightarrow> ns_ctx s)
     \<and> (ns_ctx s \<and> ns_main s = Main_loop \<longrightarrow> ns_signal s \<noteq> None)
     \<and> (main_result (ns_main s) = Some None \<longrightarrow> (\<forall>k. ns_phase s k = Finished None) \<and> ns_signal s \<noteq> None)
     \<and> (\<forall>k e. ns_phase s k = Sending e \<longrightarrow> is_consumer_error e)
     \<and> (\<forall>e \<in> set (ns_errs s). is_consumer_error e)
     \<and> (\<forall>e. main_result (ns_main s) = Some (Some e) \<longrightarrow> is_consumer_error e)"

lemma sig_run_ctx: "ns_ctx s \<Longrightarrow> ns_ctx (sig_run W r a s)" "ns_ctx (sig_run W r a s) \<Longrightarrow> ns_ctx s \<or> a = Sa_cancel"
  by (cases a; simp)+

lemma is_consumer_errorI: "is_consumer_error (consumer_error k e)"
  by (auto simp: is_consumer_error_def)

lemma end_inv_step:
  assumes "run_step W r s s'" and "chan_inv s" and "end_inv s"
  shows "end_inv s'"
  using assms(1)
proof cases
  case (sig_act a as)
  then show ?thesis using assms(3) sig_run_ctx(1) [of s W r a] sig_run_ctx(2) [of W r a s] unfolding end_inv_def by auto
next
  case main_done
  have "\<exists>e. ns_phase s k = Finished e" for k using assms(2) main_done by (auto simp: chan_inv_def)
  moreover have "ns_phase s k \<noteq> Finished (Some e)" for k e using assms(2) main_done by (auto simp: chan_inv_def)
  ultimately have fin: "\<And>k. ns_phase s k = Finished None" by (metis option.exhaust)
  then have "ns_ctx s" using assms(3) by (auto simp: end_inv_def)
  then show ?thesis using assms(3) main_done fin by (auto simp: end_inv_def)
next
  case (unsubscribed k err tr)
  then show ?thesis using assms(3) by (auto simp: end_inv_def is_consumer_errorI split: option.splits)
qed (use assms(3) in \<open>auto simp: end_inv_def is_consumer_errorI\<close>)

section \<open>The deferred calls\<close>

text \<open>What the deferred calls that have run have left behind.\<close>

definition cleaned :: "'db node_run \<Rightarrow> call list \<Rightarrow> deferred list \<Rightarrow> node_state \<Rightarrow> bool" where
  "cleaned r tr0 past s \<longleftrightarrow> \<not> ns_panicked s \<and> (\<exists>x. ns_tr s = tr0 @ x \<and> (Df_node \<in> set past \<longrightarrow> ConsulDelete (readyKey (rg_nodeID (nr_registry r))) \<in> set x))
     \<and> (Df_kv \<in> set past \<longleftrightarrow> ns_kv_closed s)
     \<and> (nr_backup r = None \<or> Df_backup \<in> set past \<longrightarrow> \<not> ns_backup s)
     \<and> (if Df_consumer \<in> set past then cn_closed (ns_consumer s) else ns_consumer s = nr_consumer r)"

fun deferred_inv :: "'db node_run \<Rightarrow> call list \<Rightarrow> main_pc \<Rightarrow> node_state \<Rightarrow> bool" where
  "deferred_inv r tr0 Main_loop s = cleaned r tr0 [] s"
| "deferred_inv r tr0 (Main_return e ds) s = (\<exists>past. rev (deferred_calls r) = past @ ds \<and> cleaned r tr0 past s)"
| "deferred_inv r tr0 (Main_exit e) s = cleaned r tr0 (rev (deferred_calls r)) s"

text \<open>The event consumer as the start left it.\<close>

definition consumer_open :: "eventConsumer \<Rightarrow> bool" where
  "consumer_open ec \<longleftrightarrow> cn_keygenSub ec \<noteq> None \<and> cn_signingSub ec \<noteq> None \<and> cn_resharingSub ec \<noteq> None \<and> \<not> cn_closed ec
     \<and> \<not> stopChan_closed (cn_sessionMgr ec)"

lemma Close_consumer_open:
  assumes "consumer_open ec"
  shows "\<exists>err ec' x. run_state (Close_consumer E ec) tr = (Ret (err, ec'), tr @ x) \<and> cn_closed ec'"
  using assms
  by (auto simp: consumer_open_def Close_consumer_def Stop_sessions_def io_defs Let_def split: option.splits go_res.splits)

lemma trace_grows:
  "\<exists>x. snd (run_state (stream_Close E k sub) tr) = tr @ x"
  "\<exists>x. snd (run_state (timeout_Close E tc) tr) = tr @ x"
  "\<exists>x. snd (run_state (Resign E reg) tr) = tr @ x"
  "snd (run_state (Close_node E reg) tr) = tr @ [ConsulDelete (readyKey (rg_nodeID reg))]"
  by (cases k; cases sub; simp add: keygen_Close_def signing_Close_def resharing_Close_def io_defs)
    (simp_all add: timeout_Close_def Resign_def Close_node_def io_defs split: option.splits)

lemma deferred_once: "rev (deferred_calls r) = past @ d # ds \<Longrightarrow> d \<in> {Df_consumer, Df_node, Df_kv, Df_backup} \<Longrightarrow> d \<notin> set past"
  by (auto simp: deferred_calls_def append_eq_Cons_conv Cons_eq_append_conv split: if_splits)

lemma cleaned_deferred:
  assumes "cleaned r tr0 past s" and "rev (deferred_calls r) = past @ d # ds" and "consumer_open (nr_consumer r)"
  shows "cleaned r tr0 (past @ [d]) (deferred_run W r d s)"
proof (cases d)
  case Df_consumer
  have "Df_consumer \<notin> set past" using deferred_once [OF assms(2)] Df_consumer by simp
  then have "ns_consumer s = nr_consumer r" using assms(1) by (simp add: cleaned_def)
  then obtain err ec' x where "run_state (Close_consumer (re_env W) (ns_consumer s)) (ns_tr s) = (Ret (err, ec'), ns_tr s @ x)" "cn_closed ec'"
    using Close_consumer_open [OF assms(3)] by metis
  with Df_consumer assms(1) show ?thesis by (auto simp: cleaned_def)
next
  case Df_timeout
  then show ?thesis using assms(1) trace_grows(2) [of "re_env W" "nr_timeout r" "ns_tr s"] by (auto simp: cleaned_def)
qed (use assms(1) in \<open>auto simp: cleaned_def trace_grows(4)\<close>)

lemma cleaned_more: "cleaned r tr0 past s \<Longrightarrow> cleaned r tr0 past (s\<lparr>ns_tr := ns_tr s @ x\<rparr>)"
  by (auto simp: cleaned_def)

lemma cleaned_other:
  "cleaned r tr0 past (s\<lparr>ns_ctx := b\<rparr>) = cleaned r tr0 past s" "cleaned r tr0 past (s\<lparr>ns_signal := g\<rparr>) = cleaned r tr0 past s"
  "cleaned r tr0 past (s\<lparr>ns_nats := n\<rparr>) = cleaned r tr0 past s" "cleaned r tr0 past (s\<lparr>ns_errs := es\<rparr>) = cleaned r tr0 past s"
  "cleaned r tr0 past (s\<lparr>ns_errs_closed := c\<rparr>) = cleaned r tr0 past s" "cleaned r tr0 past (s\<lparr>ns_main := m\<rparr>) = cleaned r tr0 past s"
  "cleaned r tr0 past (s\<lparr>ns_sub := f\<rparr>) = cleaned r tr0 past s" "cleaned r tr0 past (set_phase k p s) = cleaned r tr0 past s"
  by (simp_all add: cleaned_def)

lemma cleaned_sig:
  assumes "cleaned r tr0 past s"
  shows "cleaned r tr0 past (sig_run W r a s)"
proof (cases a)
  case Sa_resign
  then show ?thesis using trace_grows(3) [of "re_env W" "nr_registry r" "ns_tr s"] cleaned_more [OF assms] by auto
next
  case (Sa_close k)
  then show ?thesis using trace_grows(1) [of "re_env W" k "ns_sub s k" "ns_tr s"] cleaned_more [OF assms] by auto
qed (use assms in \<open>simp_all add: cleaned_other\<close>)

lemma deferred_inv_mono: "deferred_inv r tr0 m s \<Longrightarrow> (\<And>past. cleaned r tr0 past s \<Longrightarrow> cleaned r tr0 past s') \<Longrightarrow> deferred_inv r tr0 m s'"
  by (cases m) auto

lemma deferred_inv_step:
  assumes "run_step W r s s'" and "chan_inv s" and "deferred_inv r tr0 (ns_main s) s" and "consumer_open (nr_consumer r)"
  shows "deferred_inv r tr0 (ns_main s') s'"
proof -
  note keep = deferred_inv_mono [OF assms(3)]
  show ?thesis
    using assms(1)
  proof cases
    case (sig_act a as)
    then show ?thesis using keep by (simp add: cleaned_other cleaned_sig)
  next
    case (unsubscribed k err tr)
    then obtain x where tr: "tr = ns_tr s @ x" using trace_grows(1) [of "re_env W" k "ns_sub s k" "ns_tr s"] by auto
    have "deferred_inv r tr0 (ns_main s) (s'\<lparr>ns_tr := ns_tr s\<rparr>)"
      by (rule keep) (simp add: unsubscribed(1) cleaned_def)
    then show ?thesis
      using deferred_inv_mono [of r tr0 "ns_main s" "s'\<lparr>ns_tr := ns_tr s\<rparr>" s'] cleaned_more [of r tr0 _ "s'\<lparr>ns_tr := ns_tr s\<rparr>" x]
      by (simp add: unsubscribed(1) tr)
  next
    case (send k e)
    have "\<not> ns_errs_closed s" using chan_inv_open [OF assms(2), of k] send(3) by auto
    then show ?thesis using keep by (simp add: send(1)) (simp add: cleaned_def)
  next
    case (subscribed k)
    show ?thesis unfolding subscribed(1) by simp (rule keep, auto simp: cleaned_def)
  next
    case (not_subscribed k e)
    show ?thesis unfolding not_subscribed(1) by simp (rule keep, auto simp: cleaned_def)
  next
    case (main_deferred e d ds)
    then obtain past where "rev (deferred_calls r) = past @ d # ds" "cleaned r tr0 past s" using assms(3) by auto
    then show ?thesis using cleaned_deferred [OF _ _ assms(4)] by (auto simp: main_deferred(1) cleaned_other intro!: exI [of _ "past @ [d]"])
  qed (use assms(3) keep in \<open>auto simp: cleaned_other\<close>)
qed

section \<open>Reachable states\<close>

definition sig_inv :: "node_state \<Rightarrow> bool" where
  "sig_inv s \<longleftrightarrow> (\<forall>as. ns_signal s = Some as \<longrightarrow> length as \<le> 6 \<and> (as = shutdown_actions \<or> ns_ctx s))"

lemma sig_inv_step:
  assumes "run_step W r s s'" and "sig_inv s"
  shows "sig_inv s'"
  using assms(1)
proof cases
  case (sig_act a as)
  then show ?thesis using assms(2) sig_run_ctx(1) [of s W r a] by (auto simp: sig_inv_def shutdown_actions_def)
qed (use assms(2) in \<open>auto simp: sig_inv_def shutdown_actions_def\<close>)

definition run_inv :: "'db node_run \<Rightarrow> call list \<Rightarrow> node_state \<Rightarrow> bool" where
  "run_inv r tr0 s \<longleftrightarrow> chan_inv s \<and> end_inv s \<and> sig_inv s \<and> deferred_inv r tr0 (ns_main s) s"

lemma run_inv_init: "run_inv r tr (run_init r tr nt)"
  by (auto simp: run_inv_def run_init_def chan_inv_def end_inv_def sig_inv_def cleaned_def report_count_def)

lemma run_inv_step:
  assumes "node_step W r s s'" and "run_inv r tr0 s" and "consumer_open (nr_consumer r)"
  shows "run_inv r tr0 s'"
proof (cases "run_step W r s s'")
  case True
  then show ?thesis
    using assms(2,3) chan_inv_step end_inv_step sig_inv_step deferred_inv_step unfolding run_inv_def by blast
next
  case False
  then obtain x where s': "s' = s\<lparr>ns_tr := ns_tr s @ x\<rparr>" using assms(1) by (auto simp: node_step_def)
  have "deferred_inv r tr0 (ns_main s) s'" unfolding s' using assms(2) by (intro deferred_inv_mono [OF _ cleaned_more]) (auto simp: run_inv_def)
  then show ?thesis using assms(2) by (simp add: run_inv_def s' chan_inv_def end_inv_def sig_inv_def)
qed

lemma run_inv_reach:
  assumes "node_reach W r s s'" and "run_inv r tr0 s" and "consumer_open (nr_consumer r)"
  shows "run_inv r tr0 s'"
  using assms(1) unfolding node_reach_def
  by (induction rule: rtranclp_induct) (use assms(2) run_inv_step [OF _ _ assms(3)] in auto)

lemma all_past: "rev (deferred_calls r) = past @ ds \<Longrightarrow> Df_kv \<in> set past \<Longrightarrow> set past = set (deferred_calls r)"
  by (auto simp: deferred_calls_def append_eq_Cons_conv Cons_eq_append_conv split: if_splits)

lemma kv_closed_last:
  assumes "deferred_inv r tr0 (ns_main s) s" and "ns_kv_closed s"
  shows "cleaned r tr0 (deferred_calls r) s"
proof (cases "ns_main s")
  case (Main_return e ds)
  with assms obtain past where "rev (deferred_calls r) = past @ ds" and c: "cleaned r tr0 past s" and "Df_kv \<in> set past"
    by (auto simp: cleaned_def)
  from all_past [OF this(1,3)] c show ?thesis by (simp add: cleaned_def)
qed (use assms in \<open>auto simp: cleaned_def\<close>)

lemma deferred_calls_has: "Df_node \<in> set (deferred_calls r)" "Df_consumer \<in> set (deferred_calls r)" "Df_kv \<in> set (deferred_calls r)"
  "nr_backup r \<noteq> None \<Longrightarrow> Df_backup \<in> set (deferred_calls r)"
  by (auto simp: deferred_calls_def)

lemma exit_closes: "deferred_inv r tr0 (ns_main s) s \<Longrightarrow> ns_main s = Main_exit e \<Longrightarrow> ns_kv_closed s"
  using deferred_calls_has(3) [of r] by (auto simp: cleaned_def)

lemma started_consumer_open:
  assumes "run_state (node_start fuel W L N F ord P fl) s = (Some (Ret (Inr r)), s')"
  shows "consumer_open (nr_consumer r)"
proof -
  obtain p and s1 s3 :: proc where "started_config p (ps_app s1)" "run_state (node_parts W N P (nr_nodeID r) (nr_peers r) (nr_identity r)) s3 =
        (Ret (nr_registry r, nr_node r, nr_consumer r, nr_timeout r, nr_ready r), s')" "ps_app s3 = ps_app s1"
    using node_start_run [OF assms] by blast
  with node_parts_run [OF this(2)] show ?thesis by (simp add: consumer_open_def)
qed

section \<open>Properties\<close>


section \<open>The node ends\<close>

fun phase_weight :: "phase \<Rightarrow> nat" where
  "phase_weight Waiting = 5"
| "phase_weight Subscribing = 4"
| "phase_weight Subscribed = 3"
| "phase_weight (Sending e) = 2"
| "phase_weight (Returning e) = 1"
| "phase_weight (Finished e) = 0"

fun main_weight :: "'db node_run \<Rightarrow> main_pc \<Rightarrow> nat" where
  "main_weight r Main_loop = 2 + length (deferred_calls r)"
| "main_weight r (Main_return e ds) = 1 + length ds"
| "main_weight r (Main_exit e) = 0"

text \<open>A bound on the steps that the goroutines have left.\<close>

definition steps_left :: "'db node_run \<Rightarrow> node_state \<Rightarrow> nat" where
  "steps_left r s = (case ns_signal s of None \<Rightarrow> 7 | Some as \<Rightarrow> length as)
     + sum_list (map (\<lambda>k. phase_weight (ns_phase s k)) [Keygen_stream, Signing_stream, Resharing_stream])
     + (if ns_errs_closed s then 0 else 1) + main_weight r (ns_main s)"

lemma phases_less:
  "phase_weight p < phase_weight (ph k) \<Longrightarrow>
     sum_list (map (\<lambda>j. phase_weight ((ph(k := p)) j)) [Keygen_stream, Signing_stream, Resharing_stream])
     < sum_list (map (\<lambda>j. phase_weight (ph j)) [Keygen_stream, Signing_stream, Resharing_stream])"
  by (cases k) auto

lemma steps_left_phase:
  assumes "phase_weight p < phase_weight (ns_phase s k)"
  shows "steps_left r (set_phase k p s) < steps_left r s"
  using phases_less [where ph = "ns_phase s", OF assms] by (simp add: steps_left_def del: list.map sum_list.Cons)

lemma steps_left_step:
  assumes "run_step W r s s'"
  shows "steps_left r s' < steps_left r s"
  using assms
proof cases
  case (unsubscribed k err tr)
  have "phase_weight (case err of None \<Rightarrow> Returning None | Some e \<Rightarrow> Sending (consumer_error k e)) < phase_weight (ns_phase s k)"
    using unsubscribed by (auto split: option.splits)
  from steps_left_phase [OF this, of r] show ?thesis by (simp add: unsubscribed(1) steps_left_def)
next
  case (peers_ready k reg ids)
  then show ?thesis using steps_left_phase [of Subscribing s k r] by simp
next
  case (wait_cancelled k)
  then show ?thesis using steps_left_phase [of Subscribing s k r] by simp
next
  case (subscribed k)
  then show ?thesis using steps_left_phase [of Subscribed s k r] by (simp add: steps_left_def)
next
  case (not_subscribed k e)
  then show ?thesis
    using steps_left_phase [of "Sending (consumer_error k (wrapf (''failed to subscribe to '' @ stream_name k @ '' events'') e))" s k r]
    by (simp add: steps_left_def)
next
  case (send k e)
  then show ?thesis using steps_left_phase [of "Returning (Some e)" s k r] by (simp add: steps_left_def)
next
  case (wg_done k e)
  then show ?thesis using steps_left_phase [of "Finished e" s k r] by simp
qed (auto simp: steps_left_def shutdown_actions_def)

lemma steps_left_bound: "(run_step W r ^^ n) s s' \<Longrightarrow> n + steps_left r s' \<le> steps_left r s"
proof (induction n arbitrary: s')
  case (Suc n)
  then obtain t where "(run_step W r ^^ n) s t" "run_step W r t s'" by auto
  with Suc.IH [of t] steps_left_step [of W r t s'] show ?case by simp
qed simp

lemma phase_weight_le: "phase_weight p \<le> 5"
  by (cases p) auto

lemma steps_left_le:
  assumes "run_inv r tr0 s" and "ns_signal s \<noteq> None"
  shows "steps_left r s \<le> 32"
proof -
  have "length (deferred_calls r) \<le> 8" by (simp add: deferred_calls_def)
  moreover have "length ds \<le> length (deferred_calls r)" if "ns_main s = Main_return e ds" for e ds
  proof -
    from that assms obtain past where "rev (deferred_calls r) = past @ ds" by (auto simp: run_inv_def)
    from arg_cong [OF this, of length] show ?thesis by simp
  qed
  ultimately have "main_weight r (ns_main s) \<le> 10" by (cases "ns_main s") fastforce+
  moreover have "(case ns_signal s of None \<Rightarrow> 7 | Some as \<Rightarrow> length as) \<le> 6"
    using assms by (auto simp: run_inv_def sig_inv_def split: option.splits)
  ultimately show ?thesis
    using phase_weight_le [of "ns_phase s Keygen_stream"] phase_weight_le [of "ns_phase s Signing_stream"]
      phase_weight_le [of "ns_phase s Resharing_stream"]
    by (simp add: steps_left_def)
qed

lemma cancelled_consumer_moves:
  assumes "running (ns_main s)" and "ns_ctx s" and "ns_errs s = []" and "\<And>e. ns_phase s k \<noteq> Finished e"
  shows "\<exists>t. run_step W r s t"
proof (cases "ns_phase s k")
  case Waiting
  have "stream_wait k (Ctx_done (Sentinel ErrCanceled)) = Some None" by (cases k) auto
  from run_step.wait_cancelled [OF assms(1) Waiting assms(2) this] show ?thesis by blast
next
  case Subscribing
  then show ?thesis using run_step.subscribed [OF assms(1) Subscribing] run_step.not_subscribed [OF assms(1) Subscribing] by (meson option.exhaust)
next
  case Subscribed
  obtain err tr where "run_state (stream_Close (re_env W) k (ns_sub s k)) (ns_tr s) = (err, tr)" by fastforce
  from run_step.unsubscribed [OF assms(1) Subscribed assms(2) this] show ?thesis by blast
next
  case (Sending e)
  then show ?thesis using run_step.send [OF assms(1) Sending] assms(3) by auto
next
  case (Returning e)
  then show ?thesis using run_step.wg_done [OF assms(1) Returning] by blast
qed (use assms(4) in blast)

lemma shutdown_progress:
  assumes "sig_inv s" and "ns_signal s = Some as" and "running (ns_main s)"
  shows "\<exists>t. run_step W r s t"
proof (cases as)
  case Nil
  then have ctx: "ns_ctx s" using assms(1,2) by (auto simp: sig_inv_def shutdown_actions_def)
  show ?thesis
  proof (cases "ns_main s")
    case Main_loop
    show ?thesis
    proof (cases "ns_errs s")
      case Nil
      consider k where "\<And>e. ns_phase s k \<noteq> Finished e" | "\<And>k. \<exists>e. ns_phase s k = Finished e" by metis
      then show ?thesis
      proof cases
        case 1
        then show ?thesis by (rule cancelled_consumer_moves [OF assms(3) ctx Nil])
      next
        case 2
        then show ?thesis using run_step.close_errs [OF assms(3)] run_step.main_done [OF Main_loop Nil] by blast
      qed
    next
      case (Cons e es)
      from run_step.main_error [OF Main_loop Cons] show ?thesis by blast
    qed
  next
    case (Main_return e ds)
    then show ?thesis using run_step.main_deferred run_step.main_exit by (cases ds) blast+
  qed (use assms(3) in simp)
next
  case (Cons a as')
  then show ?thesis using run_step.sig_act [OF assms(3)] assms(2) by blast
qed

lemma signal_kept: "run_step W r s s' \<Longrightarrow> ns_signal s \<noteq> None \<Longrightarrow> ns_signal s' \<noteq> None"
  by (cases rule: run_step.cases) auto

lemma run_steps_keep:
  assumes "(run_step W r)\<^sup>*\<^sup>* s s'" and "run_inv r tr0 s" and "consumer_open (nr_consumer r)" and "ns_signal s \<noteq> None"
  shows "run_inv r tr0 s' \<and> ns_signal s' \<noteq> None"
  using assms(1)
proof (induction rule: rtranclp_induct)
  case (step y z)
  then show ?case using run_inv_step [OF _ _ assms(3), of W y z] signal_kept [OF step(2)] by (auto simp: node_step_def)
qed (use assms(2,4) in simp)

text \<open>
  C19: after a signal the node ends. From any state that a started node can reach after it received the signal, its
  goroutines take at most 32 more steps, and they cannot stop before the program has ended: no consumer, no send and no
  deferred call blocks for ever, whatever the services answer.
\<close>

theorem node_ends_after_signal:
  assumes "run_state (node_start fuel V L N F ord P fl) s0 = (Some (Ret (Inr r)), s1)"
    and "node_reach W r (run_init r (ps_io s1) (ps_nats s1)) s" and "ns_signal s \<noteq> None"
  shows "(\<forall>n s'. (run_step W r ^^ n) s s' \<longrightarrow> n \<le> 32)
    \<and> (\<forall>s'. (run_step W r)\<^sup>*\<^sup>* s s' \<and> (\<nexists>t. run_step W r s' t) \<longrightarrow> (\<exists>e. ns_main s' = Main_exit e))"
proof -
  note opened = started_consumer_open [OF assms(1)]
  note inv = run_inv_reach [OF assms(2) run_inv_init opened]
  have "n \<le> 32" if "(run_step W r ^^ n) s s'" for n s'
    using steps_left_bound [OF that] steps_left_le [OF inv assms(3)] by simp
  moreover have "\<exists>e. ns_main s' = Main_exit e" if "(run_step W r)\<^sup>*\<^sup>* s s'" "\<nexists>t. run_step W r s' t" for s'
  proof (rule ccontr)
    assume "\<nexists>e. ns_main s' = Main_exit e"
    then have "running (ns_main s')" by (cases "ns_main s'") auto
    with run_steps_keep [OF that(1) inv opened assms(3)] shutdown_progress [of s'] that(2) show False by (auto simp: run_inv_def)
  qed
  ultimately show ?thesis by blast
qed

text \<open>A consumer that meets the cancelled context before it has subscribed, from then on.\<close>

definition too_late :: "stream \<Rightarrow> node_state \<Rightarrow> bool" where
  "too_late k s \<longleftrightarrow> ns_ctx s \<and> (case ns_phase s k of Waiting \<Rightarrow> True | Subscribing \<Rightarrow> True | Subscribed \<Rightarrow> False | Sending e \<Rightarrow> True
     | Returning e \<Rightarrow> e \<noteq> None | Finished e \<Rightarrow> e \<noteq> None)"

lemma too_late_step:
  assumes "node_step W r s s'" and "too_late k s" and "\<And>tr t. re_subscribe W True tr t \<noteq> None"
  shows "too_late k s'"
proof (cases "run_step W r s s'")
  case True
  then show ?thesis
  proof cases
    case (sig_act a as)
    then show ?thesis using assms(2) sig_run_ctx(1) [of s W r a] by (auto simp: too_late_def)
  next
    case (subscribed j)
    have "ns_ctx s" using assms(2) by (simp add: too_late_def)
    then have False using assms(3) [of "ns_tr s" "stream_topic j"] subscribed by simp
    then show ?thesis ..
  next
    case (unsubscribed j err tr)
    then show ?thesis using assms(2) by (cases "j = k") (auto simp: too_late_def)
  qed (use assms(2) in \<open>auto simp: too_late_def split: phase.splits\<close>)
qed (use assms in \<open>auto simp: too_late_def node_step_def\<close>)

lemma too_late_reach:
  assumes "node_reach W r s s'" and "too_late k s" and "\<And>tr t. re_subscribe W True tr t \<noteq> None"
  shows "too_late k s'"
  using assms(1) unfolding node_reach_def
  by (induction rule: rtranclp_induct) (use assms(2) too_late_step [OF _ _ assms(3)] in auto)

text \<open>
  C40: a node that is stopped before its peers are there ends with an error. JetStream refuses calls whose context is
  cancelled. A consumer that still waits for peers when the signal cancels the context does not stop there, since
  \<^verbatim>\<open>waitForSufficientPeers\<close> returns no error for a cancelled context, although the caller checks for just that error; it goes on to
  subscribe, which fails, and \<^verbatim>\<open>runNode\<close> reports the failure: the clean stop ends in an error.
\<close>

theorem early_stop_is_error:
  assumes "\<And>tr t. re_subscribe W True tr t \<noteq> None"
    and "run_state (node_start fuel V L N F ord P fl) s0 = (Some (Ret (Inr r)), s1)"
    and "node_reach W r (run_init r (ps_io s1) (ps_nats s1)) s" and "ns_ctx s" and "ns_phase s k = Waiting"
    and "node_reach W r s s'" and "ns_main s' = Main_exit e"
  shows "\<exists>j err. e = Some (consumer_error j err)"
proof -
  have "node_reach W r (run_init r (ps_io s1) (ps_nats s1)) s'" using assms(3,6) by (simp add: node_reach_def)
  from run_inv_reach [OF this run_inv_init started_consumer_open [OF assms(2)]] have "end_inv s'" by (simp add: run_inv_def)
  moreover have "too_late k s'" by (rule too_late_reach [OF assms(6) _ assms(1)]) (simp add: too_late_def assms(4,5))
  ultimately show ?thesis
    using assms(7) by (cases e) (auto simp: end_inv_def too_late_def is_consumer_error_def split: phase.splits)
qed

section \<open>A run to the end\<close>

text \<open>Services that refuse a subscription under a cancelled context.\<close>

definition run_env_ref :: run_env where
  "run_env_ref = \<lparr>re_env = env_consul, re_nats = nats_ref,
     re_subscribe = \<lambda>cancelled _ _. if cancelled then Some (Sentinel ErrCanceled) else None\<rparr>"

lemma run_to_exit:
  assumes "run_inv r tr0 s" and "consumer_open (nr_consumer r)" and "ns_signal s \<noteq> None"
  shows "\<exists>s' e. (run_step W r)\<^sup>*\<^sup>* s s' \<and> ns_main s' = Main_exit e"
  using assms(1,3)
proof (induction "steps_left r s" arbitrary: s rule: less_induct)
  case less
  show ?case
  proof (cases "running (ns_main s)")
    case True
    obtain as where "ns_signal s = Some as" using less.prems by blast
    from shutdown_progress [OF _ this True, of W r] less.prems obtain t where t: "run_step W r s t" by (auto simp: run_inv_def)
    from less.hyps [OF steps_left_step [OF t]] run_inv_step [OF _ less.prems(1) assms(2), of W t] signal_kept [OF t less.prems(2)] t
    show ?thesis by (metis converse_rtranclp_into_rtranclp node_step_def)
  next
    case False
    then show ?thesis by (cases "ns_main s") auto
  qed
qed

lemma steps_reach: "(run_step W r)\<^sup>*\<^sup>* s s' \<Longrightarrow> node_reach W r s s'"
  unfolding node_reach_def by (rule rtranclp_mono [THEN predicate2D]) (auto simp: node_step_def)

text \<open>The node of theory \<open>Node_Start\<close>, stopped at once: the first steps, and a run to the end.\<close>

lemma stopped_node:
  "\<exists>(r :: bytes node_run) s1 s s' e.
     run_state (node_start 1 start_env badger_ref (node_env_ref env_ref) start_files (\<lambda>m. m) (\<lambda>xs p. filter p xs) start_flags) start_state
       = (Some (Ret (Inr r)), s1)
     \<and> node_reach run_env_ref r (run_init r (ps_io s1) (ps_nats s1)) s \<and> ns_ctx s \<and> ns_phase s Keygen_stream = Waiting \<and> ns_signal s \<noteq> None
     \<and> node_reach run_env_ref r s s' \<and> ns_main s' = Main_exit e"
proof -
  obtain r s1 where start: "run_state (node_start 1 start_env badger_ref (node_env_ref env_ref) start_files (\<lambda>m. m) (\<lambda>xs p. filter p xs) start_flags)
      start_state = (Some (Ret (Inr r)), s1)" using start_runs by blast
  let ?s0 = "run_init r (ps_io s1) (ps_nats s1)"
  let ?s1 = "?s0\<lparr>ns_signal := Some shutdown_actions\<rparr>"
  let ?s2 = "(sig_run run_env_ref r Sa_cancel ?s1)\<lparr>ns_signal := Some (tl shutdown_actions)\<rparr>"
  have "run_step run_env_ref r ?s0 ?s1" by (rule run_step.signal) (simp_all add: run_init_def)
  moreover have "run_step run_env_ref r ?s1 ?s2" by (rule run_step.sig_act) (simp_all add: run_init_def shutdown_actions_def)
  ultimately have reach: "(run_step run_env_ref r)\<^sup>*\<^sup>* ?s0 ?s2" by simp
  have s2: "ns_ctx ?s2" "ns_phase ?s2 Keygen_stream = Waiting" "ns_signal ?s2 \<noteq> None" by (simp_all add: run_init_def)
  note opened = started_consumer_open [OF start]
  from run_to_exit [OF run_inv_reach [OF steps_reach [OF reach] run_inv_init opened] opened s2(3), of run_env_ref]
  obtain s' e where "(run_step run_env_ref r)\<^sup>*\<^sup>* ?s2 s'" "ns_main s' = Main_exit e" by blast
  with start steps_reach [OF reach] steps_reach [OF this(1)] s2 show ?thesis by blast
qed


theorem node_ends_after_signal_witness:
  "\<exists>(r :: bytes node_run) s. ns_signal s \<noteq> None \<and> (\<forall>n s'. (run_step run_env_ref r ^^ n) s s' \<longrightarrow> n \<le> 32)"
proof -
  obtain r :: "bytes node_run" and s1 s where start: "run_state (node_start 1 start_env badger_ref (node_env_ref env_ref) start_files (\<lambda>m. m)
      (\<lambda>xs p. filter p xs) start_flags) start_state = (Some (Ret (Inr r)), s1)"
    and reach: "node_reach run_env_ref r (run_init r (ps_io s1) (ps_nats s1)) s" and sig: "ns_signal s \<noteq> None"
    using stopped_node by blast
  from node_ends_after_signal [OF start reach sig] sig show ?thesis by blast
qed

theorem early_stop_is_error_witness:
  "\<exists>(r :: bytes node_run) s' j err. ns_main s' = Main_exit (Some (consumer_error j err)) \<and> (\<exists>s. node_reach run_env_ref r s s' \<and> ns_ctx s)"
proof -
  obtain r :: "bytes node_run" and s1 s s' e where start: "run_state (node_start 1 start_env badger_ref (node_env_ref env_ref) start_files (\<lambda>m. m)
      (\<lambda>xs p. filter p xs) start_flags) start_state = (Some (Ret (Inr r)), s1)"
    and reach: "node_reach run_env_ref r (run_init r (ps_io s1) (ps_nats s1)) s" "node_reach run_env_ref r s s'"
    and s: "ns_ctx s" "ns_phase s Keygen_stream = Waiting" and e: "ns_main s' = Main_exit e"
    using stopped_node by blast
  have sub: "\<And>tr t. re_subscribe run_env_ref True tr t \<noteq> None" by (simp add: run_env_ref_def)
  from early_stop_is_error [OF sub start reach(1) s reach(2) e] e reach s show ?thesis by blast
qed

end
