(* ===== verification/Secure_Memory.thy ===== *)
theory Secure_Memory
  imports Prelude Go_Lib
begin

text \<open>
  The wiping of secrets, \<^verbatim>\<open>pkg/security/memory.go\<close>. What matters here is which slices share memory, so the model has an
  explicit store of byte arrays: a slice is a window into one of them, and a nil slice is \<open>None\<close>. Strings are immutable;
  \<^verbatim>\<open>ZeroString\<close> can only clear the variable. The garbage collector is not modelled but for the finalizer it may run.
\<close>

section \<open>Arrays and slices\<close>

type_synonym memory = "bytes list"

record mslice =
  sl_array :: nat
  sl_from :: nat
  sl_len :: nat

definition slice_ok :: "memory \<Rightarrow> mslice \<Rightarrow> bool" where
  "slice_ok m x \<longleftrightarrow> sl_array x < length m \<and> sl_from x + sl_len x \<le> length (m ! sl_array x)"

definition slice_bytes :: "memory \<Rightarrow> mslice \<Rightarrow> bytes" where
  "slice_bytes m x = take (sl_len x) (drop (sl_from x) (m ! sl_array x))"

definition set_byte :: "mslice \<Rightarrow> nat \<Rightarrow> char \<Rightarrow> memory \<Rightarrow> memory" where
  "set_byte x i c m = m[sl_array x := (m ! sl_array x)[sl_from x + i := c]]"

text \<open>\<^verbatim>\<open>make([]byte, n)\<close> with a \<^verbatim>\<open>copy\<close> into it.\<close>

definition alloc :: "bytes \<Rightarrow> memory \<Rightarrow> mslice \<times> memory" where
  "alloc bs m = (\<lparr>sl_array = length m, sl_from = 0, sl_len = length bs\<rparr>, m @ [bs])"

section \<open>Wiping\<close>

fun zero_from :: "nat \<Rightarrow> nat \<Rightarrow> mslice \<Rightarrow> memory \<Rightarrow> memory" where
  "zero_from i 0 x m = m"
| "zero_from i (Suc n) x m = zero_from (Suc i) n x (set_byte x i (CHR 0x00) m)"

definition ZeroBytes :: "mslice option \<Rightarrow> memory \<Rightarrow> memory" where
  "ZeroBytes data m = (case data of None \<Rightarrow> m | Some x \<Rightarrow> if sl_len x = 0 then m else zero_from 0 (sl_len x) x m)"

text \<open>A pointer to a string variable: the addresses of the variables are numbers.\<close>

definition ZeroString :: "nat option \<Rightarrow> (nat \<Rightarrow> string) \<Rightarrow> nat \<Rightarrow> string" where
  "ZeroString s vars = (case s of None \<Rightarrow> vars | Some p \<Rightarrow> vars(p := []))"

record SecureBytes =
  sb_data :: "mslice option"
  sb_finalizer :: bool

definition NewSecureBytes :: "mslice \<Rightarrow> memory \<Rightarrow> SecureBytes \<times> memory" where
  "NewSecureBytes data m = (let (copied, m1) = alloc (slice_bytes m data) m in (\<lparr>sb_data = Some copied, sb_finalizer = True\<rparr>, m1))"

definition sb_Bytes :: "SecureBytes \<Rightarrow> mslice option" where
  "sb_Bytes sb = sb_data sb"

definition sb_Copy :: "SecureBytes \<Rightarrow> memory \<Rightarrow> mslice \<times> memory" where
  "sb_Copy sb m = alloc (case sb_data sb of None \<Rightarrow> [] | Some x \<Rightarrow> slice_bytes m x) m"

definition sb_zero :: "SecureBytes \<Rightarrow> memory \<Rightarrow> SecureBytes \<times> memory" where
  "sb_zero sb m = (if sb_data sb \<noteq> None then (sb\<lparr>sb_data := None\<rparr>, ZeroBytes (sb_data sb) m) else (sb, m))"

definition sb_Clear :: "SecureBytes \<Rightarrow> memory \<Rightarrow> SecureBytes \<times> memory" where
  "sb_Clear sb m = (let (sb1, m1) = sb_zero sb m in (sb1\<lparr>sb_finalizer := False\<rparr>, m1))"

section \<open>What is wiped\<close>

lemma set_byte_length [simp]: "length (set_byte x i c m) = length m"
  by (simp add: set_byte_def)

lemma set_byte_row [simp]: "length (set_byte x i c m ! a) = length (m ! a)"
proof (cases "sl_array x < length m")
  case True
  then show ?thesis by (cases "a = sl_array x") (simp_all add: set_byte_def)
next
  case False
  then show ?thesis by (simp add: set_byte_def list_update_beyond)
qed

lemma set_byte_nth:
  assumes "sl_array x < length m"
  shows "set_byte x i c m ! a ! b = (if a = sl_array x \<and> b = sl_from x + i \<and> b < length (m ! a) then c else m ! a ! b)"
proof (cases "a = sl_array x")
  case True
  then show ?thesis
    using assms by (cases "sl_from x + i < length (m ! a)") (auto simp: set_byte_def nth_list_update list_update_beyond)
qed (simp add: set_byte_def)

lemma zero_from_length [simp]: "length (zero_from i n x m) = length m"
  by (induction i n x m rule: zero_from.induct) auto

lemma zero_from_row [simp]: "length (zero_from i n x m ! a) = length (m ! a)"
  by (induction i n x m rule: zero_from.induct) auto

lemma zero_from_nth:
  "sl_array x < length m \<Longrightarrow> zero_from i n x m ! a ! b =
     (if a = sl_array x \<and> sl_from x + i \<le> b \<and> b < sl_from x + i + n \<and> b < length (m ! a) then CHR 0x00 else m ! a ! b)"
  by (induction i n x m rule: zero_from.induct) (auto simp: set_byte_nth)

text \<open>
  \<^verbatim>\<open>ZeroBytes\<close> clears exactly the bytes of the slice: every byte of every array at a position of the slice is zero, every other
  byte of the memory is as it was.
\<close>

lemma ZeroBytes_exact:
  assumes "slice_ok m x"
  shows "ZeroBytes (Some x) m ! a ! b = (if a = sl_array x \<and> sl_from x \<le> b \<and> b < sl_from x + sl_len x then CHR 0x00 else m ! a ! b)"
    and "slice_bytes (ZeroBytes (Some x) m) x = replicate (sl_len x) (CHR 0x00)"
    and "length (ZeroBytes (Some x) m) = length m" and "length (ZeroBytes (Some x) m ! a) = length (m ! a)"
proof -
  have x: "sl_array x < length m" "sl_from x + sl_len x \<le> length (m ! sl_array x)" using assms by (auto simp: slice_ok_def)
  show nth: "ZeroBytes (Some x) m ! a ! b = (if a = sl_array x \<and> sl_from x \<le> b \<and> b < sl_from x + sl_len x then CHR 0x00 else m ! a ! b)" for a b
    using x by (auto simp: ZeroBytes_def zero_from_nth)
  show len: "length (ZeroBytes (Some x) m) = length m" "length (ZeroBytes (Some x) m ! a) = length (m ! a)" for a
    by (simp_all add: ZeroBytes_def)
  show "slice_bytes (ZeroBytes (Some x) m) x = replicate (sl_len x) (CHR 0x00)"
    using x by (intro nth_equalityI) (auto simp: slice_bytes_def len nth)
qed

text \<open>
  A secret in a \<^verbatim>\<open>SecureBytes\<close>: \<^verbatim>\<open>Clear\<close> wipes the copy, through whichever slice it is reached, and neither the slice the secret
  came from nor the copies handed out before: their owners have to wipe them.
\<close>

lemma secure_bytes_cleared:
  assumes "slice_ok m x" and "NewSecureBytes x m = (sb, m1)" and "sb_Copy sb m1 = (y, m2)" and "sb_Clear sb m2 = (sb', m3)"
  shows "sb_data sb' = None" and "\<not> sb_finalizer sb'"
    and "\<And>z. sb_Bytes sb = Some z \<Longrightarrow> slice_bytes m2 z = slice_bytes m x \<and> slice_bytes m3 z = replicate (sl_len x) (CHR 0x00)"
    and "slice_bytes m3 x = slice_bytes m x" and "slice_bytes m3 y = slice_bytes m x"
proof -
  have x: "sl_array x < length m" "sl_from x + sl_len x \<le> length (m ! sl_array x)" using assms(1) by (auto simp: slice_ok_def)
  define z where "z = \<lparr>sl_array = length m, sl_from = 0, sl_len = length (slice_bytes m x)\<rparr>"
  have sb: "sb = \<lparr>sb_data = Some z, sb_finalizer = True\<rparr>" "m1 = m @ [slice_bytes m x]"
    using assms(2) by (auto simp: NewSecureBytes_def alloc_def z_def Let_def)
  have z1: "slice_bytes m1 z = slice_bytes m x" by (simp add: sb z_def slice_bytes_def [of "m @ _"])
  then have m2: "y = \<lparr>sl_array = Suc (length m), sl_from = 0, sl_len = length (slice_bytes m x)\<rparr>" "m2 = m @ [slice_bytes m x, slice_bytes m x]"
    using assms(3) by (auto simp: sb_Copy_def alloc_def sb)
  have len: "length (slice_bytes m x) = sl_len x" using x by (simp add: slice_bytes_def)
  have ok: "slice_ok m2 z" by (simp add: slice_ok_def m2 z_def)
  have m3: "m3 = ZeroBytes (Some z) m2" "sb' = \<lparr>sb_data = None, sb_finalizer = False\<rparr>"
    using assms(4) by (auto simp: sb_Clear_def sb_zero_def sb Let_def)
  note exact = ZeroBytes_exact [OF ok]
  show "sb_data sb' = None" "\<not> sb_finalizer sb'" by (simp_all add: m3)
  show "slice_bytes m2 w = slice_bytes m x \<and> slice_bytes m3 w = replicate (sl_len x) (CHR 0x00)" if "sb_Bytes sb = Some w" for w
    using that exact(2) len by (auto simp: sb_Bytes_def sb m3) (auto simp: z_def m2 slice_bytes_def [of "m @ _"] nth_append)
  have other: "m3 ! a = m2 ! a" if "a \<noteq> length m" for a
    by (rule nth_equalityI) (use that exact(1,4) in \<open>auto simp: m3 z_def\<close>)
  show "slice_bytes m3 x = slice_bytes m x" using x by (simp add: slice_bytes_def other m2 nth_append)
  show "slice_bytes m3 y = slice_bytes m x"
    unfolding slice_bytes_def [of m3] by (simp add: m2(1) other) (simp add: m2(2) nth_append)
qed

end
